(* ===== verification/Prelude.thy ===== *)
theory Prelude
  imports Complex_Main "HOL-Library.Option_ord" "HOL-Library.List_Lexorder"
    "HOL-Library.Char_ord"
begin

text \<open>
  Shared vocabulary of the development.  A SQL table is a list of rows in rowid order, and the
  four statement shapes the controller uses (UPDATE, DELETE, SELECT and upsert) are functions on
  such lists.  Instants are rational seconds, the type of \<^verbatim>\<open>time.time()\<close> without its
  rounding.  An HTTP handler that raises returns \<open>Inl\<close> with the status code.
\<close>

type_synonym instant = rat

named_theorems table_simps \<open>laws of the table statements\<close>

section \<open>Table statements\<close>

definition tb_update :: "('r \<Rightarrow> bool) \<Rightarrow> ('r \<Rightarrow> 'r) \<Rightarrow> 'r list \<Rightarrow> 'r list" where
  "tb_update p f rows = map (\<lambda>r. if p r then f r else r) rows"

definition tb_delete :: "('r \<Rightarrow> bool) \<Rightarrow> 'r list \<Rightarrow> 'r list" where
  "tb_delete p rows = filter (\<lambda>r. \<not> p r) rows"

definition tb_count :: "('r \<Rightarrow> bool) \<Rightarrow> 'r list \<Rightarrow> nat" where
  "tb_count p rows = length (filter p rows)"

definition tb_exists :: "('r \<Rightarrow> bool) \<Rightarrow> 'r list \<Rightarrow> bool" where
  "tb_exists p rows = list_ex p rows"

text \<open>\<open>INSERT ... ON CONFLICT DO UPDATE\<close>: update the conflicting row in place or append.\<close>

definition tb_upsert :: "('r \<Rightarrow> bool) \<Rightarrow> ('r \<Rightarrow> 'r) \<Rightarrow> 'r \<Rightarrow> 'r list \<Rightarrow> 'r list" where
  "tb_upsert p f new rows =
     (if tb_exists p rows then tb_update p f rows else rows @ [new])"

text \<open>\<open>INSERT OR REPLACE\<close>: the conflicting row goes, the new one gets a fresh rowid.\<close>

definition tb_replace :: "('r \<Rightarrow> bool) \<Rightarrow> 'r \<Rightarrow> 'r list \<Rightarrow> 'r list" where
  "tb_replace p new rows = tb_delete p rows @ [new]"

lemma tb_count_pos [table_simps]: "0 < tb_count p rows \<longleftrightarrow> tb_exists p rows"
  by (induction rows) (auto simp: tb_count_def tb_exists_def)

lemma tb_exists_iff [table_simps]: "tb_exists p rows \<longleftrightarrow> (\<exists>r \<in> set rows. p r)"
  by (simp add: tb_exists_def list_ex_iff)

lemma set_tb_delete [table_simps]: "set (tb_delete p rows) = {r \<in> set rows. \<not> p r}"
  by (auto simp: tb_delete_def)

lemma set_tb_update [table_simps]:
  "set (tb_update p f rows) = (\<lambda>r. if p r then f r else r) ` set rows"
  by (simp add: tb_update_def)

lemma length_tb_update [table_simps]: "length (tb_update p f rows) = length rows"
  by (simp add: tb_update_def)

lemma find_append:
  "find p (xs @ ys) = (case find p xs of Some x \<Rightarrow> Some x | None \<Rightarrow> find p ys)"
  by (induction xs) auto

lemma find_tb_delete_same [table_simps]: "find p (tb_delete p rows) = None"
  by (simp add: find_None_iff tb_delete_def)

lemma find_tb_delete_other [table_simps]:
  "(\<And>r. r \<in> set rows \<Longrightarrow> q r \<Longrightarrow> \<not> p r) \<Longrightarrow> find q (tb_delete p rows) = find q rows"
  by (induction rows) (auto simp: tb_delete_def)

lemma find_tb_update:
  assumes "\<And>r. q (if p r then f r else r) = q r"
  shows "find q (tb_update p f rows) = map_option (\<lambda>r. if p r then f r else r) (find q rows)"
  using assms by (induction rows) (auto simp: tb_update_def)

lemma find_tb_delete_None [table_simps]:
  "find q rows = None \<Longrightarrow> find q (tb_delete p rows) = None"
  by (auto simp: find_None_iff tb_delete_def)

lemma find_SomeD:
  "find p xs = Some x \<Longrightarrow> x \<in> set xs \<and> p x"
  by (auto simp: find_Some_iff)

lemma map_of_tb_delete: "map_of (tb_delete (\<lambda>e. fst e = n) st) k = (if k = n then None else map_of st k)"
  by (induction st) (auto simp: tb_delete_def)

section \<open>Tables with a primary key\<close>

text \<open>
  A table with a PRIMARY KEY: no two rows share the key.  The lemmas hold for any row type and
  any key column.
\<close>

definition keyed :: "('r \<Rightarrow> 'k) \<Rightarrow> 'r list \<Rightarrow> bool" where
  "keyed key rows = distinct (map key rows)"

lemma keyed_Nil [simp]: "keyed key []"
  by (simp add: keyed_def)

lemma keyed_find:
  assumes "keyed key rows" "r \<in> set rows"
  shows "find (\<lambda>x. key x = key r) rows = Some r"
  using assms by (induction rows) (auto simp: keyed_def)

lemma keyed_delete: "keyed key rows \<Longrightarrow> keyed key (tb_delete p rows)"
  by (simp add: keyed_def tb_delete_def distinct_map_filter)

lemma keyed_update:
  assumes "\<And>r. p r \<Longrightarrow> key (f r) = key r"
  shows "keyed key (tb_update p f rows) = keyed key rows"
proof -
  have "map key (tb_update p f rows) = map key rows"
    using assms by (simp add: tb_update_def)
  then show ?thesis by (simp only: keyed_def)
qed

lemma keyed_append:
  "keyed key (rows @ [r]) \<longleftrightarrow> keyed key rows \<and> key r \<notin> key ` set rows"
  by (auto simp: keyed_def)

lemma keyed_count_le_1: "keyed key rows \<Longrightarrow> tb_count (\<lambda>r. key r = k) rows \<le> 1"
proof (induction rows)
  case Nil
  then show ?case by (simp add: tb_count_def)
next
  case (Cons r rows)
  then show ?case
    by (cases "key r = k") (auto simp: tb_count_def keyed_def image_iff filter_empty_conv)
qed

lemma count_at_find:
  assumes "keyed key rows"
  shows "tb_count (\<lambda>r. key r = k \<and> q r) rows =
    (case find (\<lambda>r. key r = k) rows of None \<Rightarrow> 0 | Some r \<Rightarrow> if q r then 1 else 0)"
  using assms
proof (induction rows)
  case Nil
  then show ?case by (simp add: tb_count_def)
next
  case (Cons r rows)
  have rest: "key r = k \<Longrightarrow> filter (\<lambda>x. key x = k \<and> q x) rows = []"
    using Cons.prems by (auto simp: keyed_def filter_empty_conv image_iff)
  show ?case
    using Cons rest by (auto simp: tb_count_def keyed_def)
qed

lemma find_delete_keyed:
  assumes "keyed key rows"
  shows "find (\<lambda>r. key r = k) (tb_delete p rows) =
    (case find (\<lambda>r. key r = k) rows of None \<Rightarrow> None | Some r \<Rightarrow> if p r then None else Some r)"
  using assms
proof (induction rows)
  case Nil
  then show ?case by (simp add: tb_delete_def)
next
  case (Cons r rows)
  have "key r = k \<Longrightarrow> find (\<lambda>r. key r = k) rows = None"
    unfolding find_None_iff using Cons.prems by (auto simp: keyed_def image_iff)
  with Cons show ?case by (auto simp: keyed_def tb_delete_def)
qed

lemma keyed_upsert:
  assumes "keyed key rows" "\<And>r. key (f r) = key r" "key new = k"
  shows "keyed key (tb_upsert (\<lambda>r. key r = k) f new rows)"
  using assms by (auto simp: tb_upsert_def keyed_update keyed_append tb_exists_iff)

lemma keyed_replace:
  assumes "keyed key rows" "key new = k"
  shows "keyed key (tb_replace (\<lambda>r. key r = k) new rows)"
  using assms by (auto simp: tb_replace_def keyed_append keyed_delete set_tb_delete)

lemma find_upsert_same:
  assumes "key new = k" "\<And>r. key (f r) = key r"
  shows "find (\<lambda>r. key r = k) (tb_upsert (\<lambda>r. key r = k) f new rows) =
    Some (case find (\<lambda>r. key r = k) rows of Some r \<Rightarrow> f r | None \<Rightarrow> new)"
proof (cases "tb_exists (\<lambda>r. key r = k) rows")
  case True
  then obtain r where "find (\<lambda>r. key r = k) rows = Some r"
    by (metis find_None_iff not_Some_eq tb_exists_iff)
  with True assms show ?thesis
    by (auto simp: tb_upsert_def find_tb_update dest: find_SomeD)
next
  case False
  then have "find (\<lambda>r. key r = k) rows = None"
    by (auto simp: find_None_iff tb_exists_iff)
  with False assms show ?thesis by (simp add: tb_upsert_def find_append)
qed

lemma find_upsert_other:
  assumes "key new = k" "\<And>r. key (f r) = key r" "k' \<noteq> k"
  shows "find (\<lambda>r. key r = k') (tb_upsert (\<lambda>r. key r = k) f new rows) =
    find (\<lambda>r. key r = k') rows"
proof -
  have "find (\<lambda>r. key r = k') (tb_update (\<lambda>r. key r = k) f rows) = find (\<lambda>r. key r = k') rows"
    using assms by (induction rows) (auto simp: tb_update_def)
  then show ?thesis using assms by (auto simp: tb_upsert_def find_append split: option.split)
qed

section \<open>Python truth values\<close>

text \<open>A nullable text: \<open>None\<close> and the empty string are both false.\<close>

definition truthy :: "string option \<Rightarrow> bool" where
  "truthy v = (case v of None \<Rightarrow> False | Some s \<Rightarrow> s \<noteq> [])"

text \<open>\<open>v or d\<close> on a nullable text.\<close>

definition or_else :: "string option \<Rightarrow> string \<Rightarrow> string" where
  "or_else v d = (case v of None \<Rightarrow> d | Some s \<Rightarrow> if s = [] then d else s)"

text \<open>\<open>COALESCE(new, old)\<close>.\<close>

definition coalesce :: "'a option \<Rightarrow> 'a option \<Rightarrow> 'a option" where
  "coalesce new old = (case new of None \<Rightarrow> old | Some v \<Rightarrow> Some v)"

lemma truthy_simps [simp]:
  "\<not> truthy None" "truthy (Some s) \<longleftrightarrow> s \<noteq> []"
  by (simp_all add: truthy_def)

lemma or_else_simps [simp]:
  "or_else None d = d" "or_else (Some []) d = d" "or_else (Some (c # cs)) d = c # cs"
  by (simp_all add: or_else_def)

lemma coalesce_simps [simp]: "coalesce None old = old" "coalesce (Some v) old = Some v"
  by (simp_all add: coalesce_def)

text \<open>\<open>int(x)\<close> on a float truncates towards zero.\<close>

definition py_int :: "rat \<Rightarrow> int" where
  "py_int x = (if x < 0 then - \<lfloor>- x\<rfloor> else \<lfloor>x\<rfloor>)"

section \<open>Results of handlers\<close>

text \<open>An HTTP error: the status code of the \<open>HTTPException\<close> (its text is not modelled).\<close>

datatype http_error = Http nat

type_synonym 'a response = "http_error + 'a"

end
