(* ===== verification/Py_Hash.thy ===== *)
theory Py_Hash
  imports Prelude "HOL-Library.Word"
begin

text \<open>
  The part of Python's standard library the controller hashes with: \<^verbatim>\<open>hashlib.sha256\<close>,
  \<^verbatim>\<open>hmac.new(key, msg, sha256)\<close>, \<^verbatim>\<open>hashlib.pbkdf2_hmac\<close> (one output block, which is what
  a 32-byte key is) and \<^verbatim>\<open>hexdigest\<close>.  A text is the list of its UTF-8 bytes, written as
  Isabelle characters, so \<^verbatim>\<open>s.encode("utf-8")\<close> only changes the type.
\<close>

unbundle bit_operations_syntax

type_synonym bytes = "8 word list"
type_synonym w32 = "32 word"

definition utf8 :: "string \<Rightarrow> bytes" where
  "utf8 s = map (\<lambda>c. of_char c) s"

section \<open>SHA-256\<close>

definition sha_k :: "w32 list" where
  "sha_k =
    [1116352408, 1899447441, 3049323471, 3921009573, 961987163, 1508970993,
     2453635748, 2870763221, 3624381080, 310598401, 607225278, 1426881987,
     1925078388, 2162078206, 2614888103, 3248222580, 3835390401, 4022224774,
     264347078, 604807628, 770255983, 1249150122, 1555081692, 1996064986,
     2554220882, 2821834349, 2952996808, 3210313671, 3336571891, 3584528711,
     113926993, 338241895, 666307205, 773529912, 1294757372, 1396182291,
     1695183700, 1986661051, 2177026350, 2456956037, 2730485921, 2820302411,
     3259730800, 3345764771, 3516065817, 3600352804, 4094571909, 275423344,
     430227734, 506948616, 659060556, 883997877, 958139571, 1322822218,
     1537002063, 1747873779, 1955562222, 2024104815, 2227730452, 2361852424,
     2428436474, 2756734187, 3204031479, 3329325298]"

definition sha_h0 :: "w32 list" where
  "sha_h0 =
    [1779033703, 3144134277, 1013904242, 2773480762,
     1359893119, 2600822924, 528734635, 1541459225]"

definition rot :: "nat \<Rightarrow> w32 \<Rightarrow> w32" where
  "rot n x = drop_bit n x OR push_bit (32 - n) x"

text \<open>Big-endian reading and writing of fixed-width integers.\<close>

definition be_word :: "bytes \<Rightarrow> w32" where
  "be_word bs = foldl (\<lambda>acc b. push_bit 8 acc OR ucast b) 0 bs"

definition be_bytes :: "nat \<Rightarrow> 'a::len word \<Rightarrow> bytes" where
  "be_bytes k w = map (\<lambda>i. ucast (drop_bit (8 * i) w)) (rev [0..<k])"

fun chunks :: "nat \<Rightarrow> nat \<Rightarrow> 'a list \<Rightarrow> 'a list list" where
  "chunks 0 k xs = []"
| "chunks (Suc n) k xs = take k xs # chunks n k (drop k xs)"

definition sha_pad :: "bytes \<Rightarrow> bytes" where
  "sha_pad m =
     (let l = length m in m @ [128] @ replicate ((119 - l mod 64) mod 64) 0 @ be_bytes 8 (word_of_nat (8 * l) :: 64 word))"

text \<open>The message schedule, newest word first.\<close>

fun sha_expand :: "nat \<Rightarrow> w32 list \<Rightarrow> w32 list" where
  "sha_expand 0 ws = ws"
| "sha_expand (Suc n) ws =
     (let x = ws ! 1; y = ws ! 14;
          s1 = rot 17 x XOR rot 19 x XOR drop_bit 10 x;
          s0 = rot 7 y XOR rot 18 y XOR drop_bit 3 y
      in sha_expand n ((ws ! 15 + s0 + ws ! 6 + s1) # ws))"

definition sha_schedule :: "bytes \<Rightarrow> w32 list" where
  "sha_schedule block = rev (sha_expand 48 (rev (map be_word (chunks 16 4 block))))"

fun sha_round :: "w32 list \<Rightarrow> w32 \<times> w32 \<Rightarrow> w32 list" where
  "sha_round [a, b, c, d, e, f, g, h] (k, w) =
     (let t1 = h + (rot 6 e XOR rot 11 e XOR rot 25 e) + ((e AND f) XOR (NOT e AND g)) + k + w;
          t2 = (rot 2 a XOR rot 13 a XOR rot 22 a) + ((a AND b) XOR (a AND c) XOR (b AND c))
      in [t1 + t2, a, b, c, d + t1, e, f, g])"
| "sha_round st kw = st"

definition sha_block :: "w32 list \<Rightarrow> bytes \<Rightarrow> w32 list" where
  "sha_block st block =
     map (\<lambda>(x, y). x + y) (zip st (foldl sha_round st (zip sha_k (sha_schedule block))))"

definition sha256 :: "bytes \<Rightarrow> bytes" where
  "sha256 m =
     (let p = sha_pad m
      in concat (map (be_bytes 4) (foldl sha_block sha_h0 (chunks (length p div 64) 64 p))))"

section \<open>HMAC and PBKDF2\<close>

definition hmac_key_block :: "bytes \<Rightarrow> bytes" where
  "hmac_key_block k =
     (let k' = (if 64 < length k then sha256 k else k) in k' @ replicate (64 - length k') 0)"

definition hmac_sha256 :: "bytes \<Rightarrow> bytes \<Rightarrow> bytes" where
  "hmac_sha256 k m =
     (let kb = hmac_key_block k
      in sha256 (map (\<lambda>b. b XOR 92) kb @ sha256 (map (\<lambda>b. b XOR 54) kb @ m)))"

fun pbkdf2_loop :: "bytes \<Rightarrow> nat \<Rightarrow> bytes \<Rightarrow> bytes \<Rightarrow> bytes" where
  "pbkdf2_loop pw 0 u acc = acc"
| "pbkdf2_loop pw (Suc n) u acc =
     (let u' = hmac_sha256 pw u in pbkdf2_loop pw n u' (map2 (XOR) acc u'))"

definition pbkdf2_sha256 :: "bytes \<Rightarrow> bytes \<Rightarrow> nat \<Rightarrow> bytes" where
  "pbkdf2_sha256 pw salt iters =
     (let u = hmac_sha256 pw (salt @ [0, 0, 0, 1]) in pbkdf2_loop pw (iters - 1) u u)"

section \<open>Hexadecimal text\<close>

definition hex_chars :: string where
  "hex_chars = ''0123456789abcdef''"

definition hexdigest :: "bytes \<Rightarrow> string" where
  "hexdigest bs =
     concat (map (\<lambda>b. [hex_chars ! (unat b div 16), hex_chars ! (unat b mod 16)]) bs)"

text \<open>Every digest is 32 bytes, so its hexadecimal text is 64 lower-case hex digits.\<close>

lemma length_chunks [simp]: "length (chunks n k xs) = n"
  by (induction n arbitrary: xs) auto

lemma length_be_bytes [simp]: "length (be_bytes k w) = k"
  by (simp add: be_bytes_def)

lemma length_sha_round [simp]: "length (sha_round st kw) = length st"
  by (induction st kw rule: sha_round.induct) (auto simp: Let_def)

lemma length_foldl_round [simp]: "length (foldl sha_round st kws) = length st"
  by (induction kws arbitrary: st) auto

lemma length_sha_block [simp]: "length (sha_block st block) = length st"
  by (simp add: sha_block_def)

lemma length_foldl_block [simp]: "length (foldl sha_block st blocks) = length st"
  by (induction blocks arbitrary: st) auto

lemma length_concat_const:
  "(\<And>x. length (f x) = k) \<Longrightarrow> length (concat (map f xs)) = k * length xs"
  by (induction xs) auto

lemma length_sha256 [simp]: "length (sha256 m) = 32"
  by (simp add: sha256_def Let_def length_concat_const [where k = 4] sha_h0_def)

lemma length_hexdigest [simp]: "length (hexdigest bs) = 2 * length bs"
  by (simp add: hexdigest_def length_concat_const [where k = 2])

lemma set_hexdigest: "set (hexdigest bs) \<subseteq> set hex_chars"
proof -
  have "unat b div 16 < 16" for b :: "8 word"
    using unsigned_less [of b, where 'a = nat] by auto
  moreover have "length hex_chars = 16" by (simp add: hex_chars_def)
  ultimately show ?thesis by (auto simp: hexdigest_def)
qed

lemma unat_of_char_byte: "unat (of_char c :: 8 word) = of_char c"
proof -
  have "(of_char c :: 8 word) = word_of_nat (of_char c)" by (simp add: of_nat_of_char)
  then have "unat (of_char c :: 8 word) = of_char c mod 2 ^ 8"
    by (simp add: unsigned_of_nat take_bit_eq_mod)
  then show ?thesis by simp
qed

lemma byte_of_char_inject: "(of_char c :: 8 word) = of_char d \<longleftrightarrow> c = d"
  by (metis of_char_eq_iff unat_of_char_byte)

lemma utf8_inj [simp]: "utf8 s = utf8 t \<longleftrightarrow> s = t"
  by (auto simp: utf8_def byte_of_char_inject inj_on_def dest!: map_inj_on)

lemma length_utf8 [simp]: "length (utf8 s) = length s"
  by (simp add: utf8_def)

end
