(* ===== verification/Py_Str.thy ===== *)
theory Py_Str
  imports Prelude
begin

text \<open>
  The \<^verbatim>\<open>str\<close> methods the controller uses.  Texts are ASCII here as far as these
  methods look at characters: \<^verbatim>\<open>strip\<close> removes ASCII white space, \<^verbatim>\<open>lower\<close> maps A-Z, and
  \<^verbatim>\<open>isalnum\<close> accepts ASCII letters and digits.
\<close>

definition is_space :: "char \<Rightarrow> bool" where
  "is_space c =
     (let n = (of_char c :: nat) in (9 \<le> n \<and> n \<le> 13) \<or> (28 \<le> n \<and> n \<le> 32))"

definition strip :: "string \<Rightarrow> string" where
  "strip s = rev (dropWhile is_space (rev (dropWhile is_space s)))"

definition is_digit :: "char \<Rightarrow> bool" where
  "is_digit c = (let n = (of_char c :: nat) in 48 \<le> n \<and> n \<le> 57)"

definition is_upper :: "char \<Rightarrow> bool" where
  "is_upper c = (let n = (of_char c :: nat) in 65 \<le> n \<and> n \<le> 90)"

definition is_lower :: "char \<Rightarrow> bool" where
  "is_lower c = (let n = (of_char c :: nat) in 97 \<le> n \<and> n \<le> 122)"

definition is_alnum :: "char \<Rightarrow> bool" where
  "is_alnum c = (is_digit c \<or> is_upper c \<or> is_lower c)"

definition lower :: "string \<Rightarrow> string" where
  "lower s = map (\<lambda>c. if is_upper c then char_of (of_char c + 32 :: nat) else c) s"

text \<open>\<open>sub in s\<close>.\<close>

fun is_substring :: "string \<Rightarrow> string \<Rightarrow> bool" where
  "is_substring sub [] = (sub = [])"
| "is_substring sub (c # cs) = (take (length sub) (c # cs) = sub \<or> is_substring sub cs)"

text \<open>\<open>s.split(sep)\<close> for a one-character separator.\<close>

fun split_on :: "char \<Rightarrow> string \<Rightarrow> string list" where
  "split_on sep [] = [[]]"
| "split_on sep (c # cs) =
     (if c = sep then [] # split_on sep cs
      else (case split_on sep cs of [] \<Rightarrow> [[c]] | w # ws \<Rightarrow> (c # w) # ws))"

definition starts_with :: "string \<Rightarrow> string \<Rightarrow> bool" where
  "starts_with p s = (take (length p) s = p)"

definition ends_with :: "string \<Rightarrow> string \<Rightarrow> bool" where
  "ends_with p s = (length p \<le> length s \<and> drop (length s - length p) s = p)"

section \<open>Numbers as text\<close>

fun digits :: "nat \<Rightarrow> string" where
  "digits n =
     (if n < 10 then [char_of (n + 48)] else digits (n div 10) @ [char_of (n mod 10 + 48)])"

declare digits.simps [simp del]

definition show_int :: "int \<Rightarrow> string" where
  "show_int i = (if i < 0 then ''-'' @ digits (nat (- i)) else digits (nat i))"

text \<open>
  Reading a decimal, \<open>int(s)\<close>: white space around it is ignored, a sign is optional, and single
  underscores may stand between digits.
\<close>

definition digits_val :: "string \<Rightarrow> int" where
  "digits_val s = foldl (\<lambda>acc c. 10 * acc + (of_char c - 48)) 0 s"

fun decimal_body :: "string \<Rightarrow> bool" where
  "decimal_body [] = False"
| "decimal_body [c] = is_digit c"
| "decimal_body (c # d # s) =
     (is_digit c \<and> decimal_body (if d = CHR ''_'' then s else d # s))"

definition parse_int :: "string \<Rightarrow> int option" where
  "parse_int s =
     (let t = strip s;
          neg = (t \<noteq> [] \<and> hd t = CHR ''-'');
          body = (if t \<noteq> [] \<and> (hd t = CHR ''-'' \<or> hd t = CHR ''+'') then tl t else t);
          val = digits_val (filter (\<lambda>c. c \<noteq> CHR ''_'') body)
      in if \<not> decimal_body body then None else Some (if neg then - val else val))"

text \<open>
  \<open>"%.6f" % x\<close>: the value rounded to six decimals, ties to even, as CPython does on the exact
  value.
\<close>

definition round_half_even :: "rat \<Rightarrow> int" where
  "round_half_even x =
     (let f = \<lfloor>x\<rfloor>; r = x - of_int f
      in if r < 1 / 2 then f else if 1 / 2 < r then f + 1 else if even f then f else f + 1)"

definition pad6 :: "string \<Rightarrow> string" where
  "pad6 s = replicate (6 - length s) (CHR ''0'') @ s"

definition fmt6 :: "rat \<Rightarrow> string" where
  "fmt6 x =
     (let n = nat (round_half_even (\<bar>x\<bar> * 1000000))
      in (if x < 0 then ''-'' else []) @ digits (n div 1000000) @ ''.'' @ pad6 (digits (n mod 1000000)))"

lemma digits_not_Nil [simp]: "digits n \<noteq> []"
  by (subst digits.simps) simp

lemma strip_Nil [simp]: "strip [] = []"
  by (simp add: strip_def)

lemma dropWhile_idem [simp]: "dropWhile P (dropWhile P xs) = dropWhile P xs"
  by (induction xs) auto

lemma dropWhile_rev_dropWhile:
  "dropWhile P (rev (dropWhile P (rev (dropWhile P xs)))) = rev (dropWhile P (rev (dropWhile P xs)))"
proof (cases "dropWhile P xs")
  case Nil
  then have "dropWhile P (rev (dropWhile P xs)) = []" by (simp only: rev.simps dropWhile.simps)
  then show ?thesis by (simp only: rev.simps dropWhile.simps)
next
  case (Cons y ys)
  then have "\<not> P y" by (metis hd_dropWhile list.distinct(1) list.sel(1))
  have "dropWhile P (rev ys @ [y]) = dropWhile P (rev ys) @ [y]"
    using \<open>\<not> P y\<close> by (induction "rev ys" arbitrary: ys) (auto simp: dropWhile_append)
  then show ?thesis using Cons \<open>\<not> P y\<close> by simp
qed

lemma strip_idem [simp]: "strip (strip s) = strip s"
  by (simp add: strip_def dropWhile_rev_dropWhile)

text \<open>Printing and reading a number.\<close>

lemma of_char_digit [simp]: "k < 10 \<Longrightarrow> (of_char (char_of (k + 48 :: nat)) :: nat) = k + 48"
  by (simp)
lemma of_char_digit_int [simp]: "k < 10 \<Longrightarrow> (of_char (char_of (k + 48 :: nat)) :: int) = int k + 48"
proof -
  assume "k < 10"
  have "(of_char (char_of (k + 48 :: nat)) :: int) = int (of_char (char_of (k + 48 :: nat)))"
    by (simp only: of_nat_of_char)
  then show ?thesis using \<open>k < 10\<close> by simp
qed

lemma set_digits: "c \<in> set (digits n) \<Longrightarrow> is_digit c"
proof (induction n rule: digits.induct)
  case (1 n)
  show ?case
  proof (cases "n < 10")
    case True
    then show ?thesis using 1 by (simp add: digits.simps [of n] is_digit_def Let_def)
  next
    case False
    then show ?thesis using 1 by (auto simp: digits.simps [of n] is_digit_def Let_def)
  qed
qed

lemma digits_val_digits: "digits_val (digits n) = int n"
proof (induction n rule: digits.induct)
  case (1 n)
  show ?case
  proof (cases "n < 10")
    case True
    then show ?thesis by (simp add: digits.simps [of n] digits_val_def)
  next
    case False
    then have "digits_val (digits n) = 10 * int (n div 10) + int (n mod 10)"
      using 1 by (simp add: digits.simps [of n] digits_val_def)
    also have "\<dots> = int n" by presburger
    finally show ?thesis .
  qed
qed

lemma digit_not_space: "is_digit c \<Longrightarrow> \<not> is_space c \<and> c \<noteq> CHR ''-'' \<and> c \<noteq> CHR ''+''"
  by (auto simp: is_digit_def is_space_def Let_def)

lemma strip_digits: "strip (digits n) = digits n"
proof -
  have "dropWhile is_space (digits n) = digits n"
    using set_digits [of "hd (digits n)" n] digit_not_space by (cases "digits n") auto
  moreover have "dropWhile is_space (rev (digits n)) = rev (digits n)"
    using set_digits [of "last (digits n)" n] digit_not_space
    by (cases "digits n" rule: rev_cases) auto
  ultimately show ?thesis by (simp add: strip_def)
qed

lemma decimal_body_digits:
  assumes "list_all is_digit s" "s \<noteq> []"
  shows "decimal_body s" "filter (\<lambda>c. c \<noteq> CHR ''_'') s = s"
proof -
  have other: "is_digit c \<Longrightarrow> c \<noteq> CHR ''_''" for c by (auto simp: is_digit_def)
  show "decimal_body s" using assms by (induction s rule: decimal_body.induct) (auto dest: other)
  show "filter (\<lambda>c. c \<noteq> CHR ''_'') s = s"
    using assms(1) other by (auto simp: filter_id_conv list_all_iff)
qed

lemma parse_int_digits: "parse_int (digits n) = Some (int n)"
proof -
  have "is_digit (hd (digits n))" by (rule set_digits [of _ n]) simp
  moreover have "list_all is_digit (digits n)" by (auto simp: list_all_iff dest: set_digits)
  ultimately show ?thesis
    using digit_not_space [of "hd (digits n)"] decimal_body_digits [of "digits n"]
    by (simp add: parse_int_def strip_digits digits_val_digits Let_def)
qed

lemma strip_solid: "list_all (\<lambda>c. \<not> is_space c) s \<Longrightarrow> strip s = s"
proof -
  assume "list_all (\<lambda>c. \<not> is_space c) s"
  then have "dropWhile is_space s = s" "dropWhile is_space (rev s) = rev s"
    by (auto simp: list_all_iff dropWhile_eq_self_iff hd_rev)
  then show ?thesis by (simp add: strip_def)
qed

lemma parse_show_int [simp]: "parse_int (show_int i) = Some i"
proof (cases "i < 0")
  case True
  have d: "list_all is_digit (digits n)" for n by (auto simp: list_all_iff dest: set_digits)
  have solid: "list_all (\<lambda>c. \<not> is_space c) (''-'' @ digits n)" for n
  proof -
    have "\<not> is_space (CHR ''-'')" by (simp add: is_space_def)
    moreover have "list_all (\<lambda>c. \<not> is_space c) (digits n)"
      unfolding list_all_iff using set_digits digit_not_space by blast
    ultimately show ?thesis by simp
  qed
  have strip: "strip (CHR ''-'' # digits n) = CHR ''-'' # digits n" for n
    by (rule strip_solid [OF solid, simplified append_Cons append_Nil])
  show ?thesis
    using True by (simp add: parse_int_def show_int_def strip digits_val_digits decimal_body_digits [OF d digits_not_Nil] Let_def)
next
  case False
  then show ?thesis by (simp add: show_int_def parse_int_digits)
qed

end
