(* ===== verification/Py_Json.thy ===== *)
theory Py_Json
  imports Prelude
begin

text \<open>
  JSON values as Python sees them after \<^verbatim>\<open>json.loads\<close>: an object is a \<^verbatim>\<open>dict\<close>, kept as
  its key/value pairs in insertion order.  Numbers are rationals.  \<open>py_eq\<close> is Python's \<open>==\<close>,
  under which \<open>True == 1\<close> and the order of keys does not matter.
\<close>

datatype json =
  JNull | JBool bool | JNum rat | JStr string | JArr "json list" | JObj "(string \<times> json) list"

primrec py_norm :: "json \<Rightarrow> json" where
  "py_norm JNull = JNull"
| "py_norm (JBool b) = JNum (if b then 1 else 0)"
| "py_norm (JNum n) = JNum n"
| "py_norm (JStr s) = JStr s"
| "py_norm (JArr xs) = JArr (map py_norm xs)"
| "py_norm (JObj kvs) = JObj (sort_key fst (map (map_prod id py_norm) kvs))"

definition py_eq :: "json \<Rightarrow> json \<Rightarrow> bool" where
  "py_eq a b = (py_norm a = py_norm b)"

text \<open>\<open>d.get(k)\<close> on the pairs of a dict.\<close>

definition dict_get :: "string \<Rightarrow> (string \<times> json) list \<Rightarrow> json" where
  "dict_get k kvs = (case map_of kvs k of None \<Rightarrow> JNull | Some v \<Rightarrow> v)"

definition json_truthy :: "json \<Rightarrow> bool" where
  "json_truthy v =
     (case v of JNull \<Rightarrow> False | JBool b \<Rightarrow> b | JNum n \<Rightarrow> n \<noteq> 0 | JStr s \<Rightarrow> s \<noteq> []
      | JArr xs \<Rightarrow> xs \<noteq> [] | JObj kvs \<Rightarrow> kvs \<noteq> [])"

lemma py_eq_refl [simp]: "py_eq a a"
  by (simp add: py_eq_def)

lemma py_eq_sym: "py_eq a b = py_eq b a"
  by (auto simp: py_eq_def)

lemma py_eq_trans: "py_eq a b \<Longrightarrow> py_eq b c \<Longrightarrow> py_eq a c"
  by (simp add: py_eq_def)

lemma py_eq_str [simp]: "py_eq (JStr s) (JStr t) = (s = t)"
  by (simp add: py_eq_def)

end
