(* ===== verification/Db_State.thy ===== *)
theory Db_State
  imports Py_Hash Py_Str Py_Json
begin

text \<open>
  The controller's SQLite database (\<^verbatim>\<open>backend/db.py\<close>): one record per table row, with the
  columns of \<^verbatim>\<open>init_db\<close>, and one record for the whole database.  A nullable column is an
  \<open>option\<close>; a 0/1 column is a \<open>bool\<close>; a column that holds JSON text holds the value the text
  encodes, with \<open>None\<close> for NULL or text that does not decode.  AUTOINCREMENT tables keep the
  last id they ever handed out, as SQLite's \<^verbatim>\<open>sqlite_sequence\<close> does, so ids are never reused.
\<close>

definition token_at_rest :: "string option \<Rightarrow> string" where
  "token_at_rest token = hexdigest (sha256 (utf8 (or_else token [])))"

section \<open>Rows\<close>

record agent_row =
  ag_host_id :: string
  ag_hostname :: "string option"
  ag_platform :: "string option"
  ag_kernel :: "string option"
  ag_status :: string
  ag_last_seen :: "instant option"
  ag_secret :: "string option"
  ag_ip :: "string option"
  ag_requires_sudo :: bool
  ag_environment :: "string option"
  ag_version :: "string option"
  ag_revoked :: bool
  ag_config_poll :: "instant option"

record health_row =
  hh_host_id :: string
  hh_ts :: instant
  hh_disk :: "int option"
  hh_mem :: "int option"
  hh_load1 :: "rat option"
  hh_cores :: "int option"
  hh_failed :: "int option"
  hh_oom :: "int option"
  hh_uptime :: "int option"
  hh_sysd :: "string option"
  hh_mount :: "string option"
  hh_units :: "string list option"
  hh_hyp :: "string option"
  hh_vms :: "int option"
  hh_vm_names :: "string list option"

record env_row =
  en_name :: string
  en_created :: instant
  en_requires_sudo :: bool

record enroll_row =
  et_token :: string
  et_created :: instant
  et_expires :: instant
  et_used :: bool
  et_bound :: "string option"
  et_last_used :: "instant option"
  et_reissue :: bool
  et_environment :: "string option"

datatype task_status = Pending | Dispatched | Done | Timed_Out

record task_row =
  tk_id :: int
  tk_host :: string
  tk_command :: string
  tk_kind :: string
  tk_status :: task_status
  tk_created :: "instant option"
  tk_dispatched :: "instant option"
  tk_run_as :: "string option"

record result_row =
  rs_id :: int
  rs_task_id :: int
  rs_host :: string
  rs_result :: string
  rs_completed :: instant

record admin_row =
  ad_username :: string
  ad_hash :: string
  ad_salt :: string
  ad_must_change :: bool
  ad_created :: instant
  ad_created_by :: "string option"
  ad_last_login :: "instant option"
  ad_role :: "string option"
  ad_sudo_connect :: bool

record admin_token_row =
  at_token :: string
  at_username :: string
  at_role :: "string option"
  at_expiry :: "instant option"

record throttle_row =
  lt_key :: string
  lt_fails :: "instant list option"
  lt_until :: "instant option"

record portal_event_row =
  pe_id :: int
  pe_timestamp :: instant
  pe_event :: string
  pe_username :: string
  pe_ip :: string
  pe_detail :: string

record portal_session_row =
  ps_id :: int
  ps_token :: string
  ps_created :: instant
  ps_expires :: instant
  ps_ip :: string

record portal_creds =
  pc_username :: string
  pc_hash :: string
  pc_salt :: string
  pc_changed :: instant

text \<open>The algorithm column of the audit tables.\<close>

datatype hash_algo = Sha256 | Hmac_Sha256

record activity_row =
  ac_id :: int
  ac_timestamp :: instant
  ac_username :: string
  ac_host :: string
  ac_description :: string
  ac_command :: string
  ac_source :: "string option"
  ac_prev :: "string option"
  ac_entry :: "string option"
  ac_algo :: hash_algo

record audit_row =
  au_id :: int
  au_timestamp :: instant
  au_event :: string
  au_username :: string
  au_detail :: string
  au_prev :: "string option"
  au_entry :: "string option"
  au_algo :: hash_algo

record chain_head_row =
  ch_chain :: string
  ch_last_id :: int
  ch_last_entry :: string
  ch_updated :: instant

text \<open>The password policy of the controller's administrator accounts.\<close>

record password_policy =
  pp_minlen :: int
  pp_dcredit :: int
  pp_ucredit :: int
  pp_lcredit :: int
  pp_ocredit :: int

record enrollment_control_row =
  ec_paused :: bool
  ec_updated :: instant
  ec_actor :: "string option"

record controller_config_row =
  cc_hostname :: string
  cc_ip :: string
  cc_address_mode :: "string option"
  cc_port :: int
  cc_configured :: bool

record relay_config_row =
  rc_relay_host :: string
  rc_relay_user :: string
  rc_relay_port :: string
  rc_relay_identity :: string
  rc_route_allowlist :: string
  rc_relay_os :: string
  rc_updated_at :: instant
  rc_updated_by :: string

section \<open>IP networks\<close>

text \<open>The value of a CIDR column: version, network address, prefix length.\<close>

datatype ip_version = V4 | V6

record ip_net =
  nt_version :: ip_version
  nt_addr :: int
  nt_prefix :: nat

record allow_row =
  al_id :: int
  al_cidr :: "ip_net option"
  al_note :: "string option"
  al_created :: instant
  al_actor :: "string option"

section \<open>The database\<close>

record db =
  agents :: "agent_row list"
  host_health :: "health_row list"
  environments :: "env_row list"
  enroll_tokens :: "enroll_row list"
  enrollment_control :: "enrollment_control_row option"
  enroll_allowlist :: "allow_row list"
  allow_seq :: int
  controller_config :: "controller_config_row option"
  relay_config :: "relay_config_row option"
  license_key :: "string option"
  environmental_policy :: "json option option"
  portal_port :: "int option"
  portal_credentials :: "portal_creds option"
  portal_history :: "portal_event_row list"
  portal_history_seq :: int
  portal_sessions :: "portal_session_row list"
  portal_session_seq :: int
  legacy_admin :: "(string \<times> string \<times> string) option"
  administrators :: "admin_row list"
  admin_policy :: "password_policy option"
  admin_tokens :: "admin_token_row list"
  login_throttle :: "throttle_row list"
  agent_tasks :: "task_row list"
  task_seq :: int
  agent_results :: "result_row list"
  result_seq :: int
  activity_log :: "activity_row list"
  activity_seq :: int
  admin_audit_log :: "audit_row list"
  audit_seq :: int
  chain_heads :: "chain_head_row list"

section \<open>Schema invariant\<close>

text \<open>
  What the PRIMARY KEY, UNIQUE and AUTOINCREMENT declarations of the schema give: no two rows
  share a key and no row carries an id the table has not handed out.
\<close>

definition ids_below :: "('r \<Rightarrow> int) \<Rightarrow> int \<Rightarrow> 'r list \<Rightarrow> bool" where
  "ids_below ident s rows = (\<forall>r \<in> set rows. ident r \<le> s)"

definition schema_ok :: "db \<Rightarrow> bool" where
  "schema_ok d =
     (keyed ag_host_id (agents d) \<and> keyed hh_host_id (host_health d) \<and>
      keyed en_name (environments d) \<and> keyed et_token (enroll_tokens d) \<and>
      keyed ad_username (administrators d) \<and> keyed at_token (admin_tokens d) \<and>
      keyed lt_key (login_throttle d) \<and> keyed ps_token (portal_sessions d) \<and>
      keyed tk_id (agent_tasks d) \<and> ids_below tk_id (task_seq d) (agent_tasks d) \<and>
      keyed rs_id (agent_results d) \<and> ids_below rs_id (result_seq d) (agent_results d))"

named_theorems schema_simps \<open>what schema_ok gives and asks for\<close>

lemma ids_below_append [table_simps]:
  "ids_below ident s (rows @ [r]) \<longleftrightarrow> ids_below ident s rows \<and> ident r \<le> s"
  by (auto simp: ids_below_def)

lemma ids_below_delete: "ids_below ident s rows \<Longrightarrow> ids_below ident s (tb_delete p rows)"
  by (simp add: ids_below_def set_tb_delete)

lemma ids_below_update:
  assumes "\<And>r. p r \<Longrightarrow> ident (f r) = ident r"
  shows "ids_below ident s (tb_update p f rows) = ids_below ident s rows"
proof -
  have "map ident (tb_update p f rows) = map ident rows"
    using assms by (simp add: tb_update_def)
  then have "set (map ident (tb_update p f rows)) = set (map ident rows)" by simp
  then have "ident ` set (tb_update p f rows) = ident ` set rows" by simp
  then show ?thesis unfolding ids_below_def by (metis (no_types, lifting) image_iff)
qed

lemma ids_below_mono: "ids_below ident s rows \<Longrightarrow> s \<le> s' \<Longrightarrow> ids_below ident s' rows"
  by (force simp: ids_below_def)

lemma ids_below_next: "ids_below ident s rows \<Longrightarrow> ids_below ident (s + 1) rows"
  by (force simp: ids_below_def)

lemma keyed_fresh_id:
  "keyed ident rows \<Longrightarrow> ids_below ident s rows \<Longrightarrow> ident r = s + 1 \<Longrightarrow> keyed ident (rows @ [r])"
  by (force simp: keyed_append ids_below_def)

lemmas keyed_intros = keyed_delete keyed_replace keyed_upsert keyed_fresh_id
  ids_below_delete ids_below_mono

lemmas keyed_updates = keyed_update ids_below_update

text \<open>Hash-at-rest values look like SHA-256 hex digests.\<close>

lemma length_token_at_rest [simp]: "length (token_at_rest t) = 64"
  by (simp add: token_at_rest_def)

lemma set_token_at_rest: "set (token_at_rest t) \<subseteq> set hex_chars"
  by (simp add: token_at_rest_def set_hexdigest)

lemma token_at_rest_not_Nil [simp]: "token_at_rest t \<noteq> []"
  by (metis length_token_at_rest length_0_conv zero_neq_numeral)

end
