(* ===== verification/Db_Agents.thy ===== *)
theory Db_Agents
  imports Db_State
begin

text \<open>
  The agent inventory of \<^verbatim>\<open>backend/db.py\<close>: enrolment upsert, heartbeat, secrets at rest,
  revocation, environment assignment with its inherited sudo default, removal, the per-host
  health reading and the fleet-wide wipe.
\<close>

section \<open>Operations\<close>

definition new_agent :: "string \<Rightarrow> agent_row" where
  "new_agent h =
     \<lparr>ag_host_id = h, ag_hostname = None, ag_platform = None, ag_kernel = None, ag_status = [],
      ag_last_seen = None, ag_secret = None, ag_ip = None, ag_requires_sudo = False,
      ag_environment = Some [], ag_version = None, ag_revoked = False, ag_config_poll = None\<rparr>"

definition create_or_update_agent ::
    "string \<Rightarrow> string option \<Rightarrow> string option \<Rightarrow> string option \<Rightarrow> string \<Rightarrow> instant \<Rightarrow>
     string option \<Rightarrow> string option \<Rightarrow> db \<Rightarrow> db" where
  "create_or_update_agent host_id hostname platform kern status last_seen agent_secret ip d =
     (let fill = (\<lambda>r. r\<lparr>ag_hostname := hostname, ag_platform := platform, ag_kernel := kern,
                       ag_status := status, ag_last_seen := Some last_seen,
                       ag_secret := (if truthy agent_secret then Some (token_at_rest agent_secret)
                                     else agent_secret),
                       ag_ip := ip\<rparr>)
      in d\<lparr>agents := tb_upsert (\<lambda>r. ag_host_id r = host_id)
                     (\<lambda>r. (fill r)\<lparr>ag_revoked := False\<rparr>) (fill (new_agent host_id)) (agents d)\<rparr>)"

definition find_agent_row :: "string \<Rightarrow> db \<Rightarrow> agent_row option" where
  "find_agent_row host_id d = find (\<lambda>r. ag_host_id r = host_id) (agents d)"

definition update_agent_rows :: "string \<Rightarrow> (agent_row \<Rightarrow> agent_row) \<Rightarrow> db \<Rightarrow> db" where
  "update_agent_rows host_id f d =
     d\<lparr>agents := tb_update (\<lambda>r. ag_host_id r = host_id) f (agents d)\<rparr>"

definition upgrade_agent_secret_hash :: "string \<Rightarrow> string \<Rightarrow> db \<Rightarrow> db" where
  "upgrade_agent_secret_hash host_id hashed =
     update_agent_rows host_id (\<lambda>r. r\<lparr>ag_secret := Some hashed\<rparr>)"

definition is_hash_at_rest :: "string \<Rightarrow> bool" where
  "is_hash_at_rest v = (length v = 64 \<and> list_all (\<lambda>c. c \<in> set hex_chars) v)"

definition get_agent_secret :: "string \<Rightarrow> db \<Rightarrow> string option" where
  "get_agent_secret host_id d =
     (case find_agent_row host_id d of None \<Rightarrow> None | Some r \<Rightarrow> ag_secret r)"

text \<open>The answer, and the database after a possible upgrade of a legacy plaintext row.\<close>

definition agent_secret_matches :: "string \<Rightarrow> string option \<Rightarrow> db \<Rightarrow> bool \<times> db" where
  "agent_secret_matches host_id presented d =
     (if \<not> truthy presented then (False, d)
      else (let stored = get_agent_secret host_id d in
        if \<not> truthy stored then (False, d)
        else if Some (token_at_rest presented) = stored then (True, d)
        else if \<not> is_hash_at_rest (the stored) \<and> presented = stored
          then (True, upgrade_agent_secret_hash host_id (token_at_rest presented) d)
        else (False, d)))"

definition update_agent_heartbeat ::
    "instant \<Rightarrow> string \<Rightarrow> string option \<Rightarrow> string option \<Rightarrow> string option \<Rightarrow> db \<Rightarrow> db" where
  "update_agent_heartbeat now host_id ip hostname agent_version =
     update_agent_rows host_id
       (\<lambda>r. r\<lparr>ag_status := ''online'', ag_last_seen := Some now, ag_ip := coalesce ip (ag_ip r),
             ag_hostname := coalesce hostname (ag_hostname r),
             ag_version := coalesce agent_version (ag_version r)\<rparr>)"

definition list_agents :: "db \<Rightarrow> agent_row list" where
  "list_agents d = sort_key ag_hostname (agents d)"

text \<open>The administrative setters return whether a row was affected.\<close>

definition set_agent_sudo_password_required :: "string \<Rightarrow> bool \<Rightarrow> db \<Rightarrow> bool \<times> db" where
  "set_agent_sudo_password_required host_id required d =
     (0 < tb_count (\<lambda>r. ag_host_id r = host_id) (agents d),
      update_agent_rows host_id (\<lambda>r. r\<lparr>ag_requires_sudo := required\<rparr>) d)"

definition revoke_agent :: "string \<Rightarrow> db \<Rightarrow> bool \<times> db" where
  "revoke_agent host_id d =
     (0 < tb_count (\<lambda>r. ag_host_id r = host_id) (agents d),
      update_agent_rows host_id (\<lambda>r. r\<lparr>ag_revoked := True\<rparr>) d)"

definition unrevoke_agent :: "string \<Rightarrow> db \<Rightarrow> bool \<times> db" where
  "unrevoke_agent host_id d =
     (0 < tb_count (\<lambda>r. ag_host_id r = host_id) (agents d),
      update_agent_rows host_id (\<lambda>r. r\<lparr>ag_revoked := False\<rparr>) d)"

definition is_agent_revoked :: "string \<Rightarrow> db \<Rightarrow> bool" where
  "is_agent_revoked host_id d =
     (case find_agent_row host_id d of None \<Rightarrow> False | Some r \<Rightarrow> ag_revoked r)"

definition agent_exists :: "string \<Rightarrow> db \<Rightarrow> bool" where
  "agent_exists host_id d = (find_agent_row host_id d \<noteq> None)"

definition get_agent_hostname :: "string \<Rightarrow> db \<Rightarrow> string" where
  "get_agent_hostname host_id d =
     (case find_agent_row host_id d of None \<Rightarrow> host_id | Some r \<Rightarrow> or_else (ag_hostname r) host_id)"

definition set_agent_environment :: "string \<Rightarrow> string \<Rightarrow> db \<Rightarrow> bool \<times> db" where
  "set_agent_environment host_id environment d =
     (let updated = 0 < tb_count (\<lambda>r. ag_host_id r = host_id) (agents d);
          d1 = update_agent_rows host_id (\<lambda>r. r\<lparr>ag_environment := Some environment\<rparr>) d;
          d2 = (if environment = [] then d1
                else (case find (\<lambda>e. en_name e = environment) (environments d1) of
                        None \<Rightarrow> d1
                      | Some e \<Rightarrow> update_agent_rows host_id
                                    (\<lambda>r. r\<lparr>ag_requires_sudo := en_requires_sudo e\<rparr>) d1))
      in (updated, d2))"

definition delete_agent :: "string \<Rightarrow> db \<Rightarrow> db" where
  "delete_agent host_id d =
     d\<lparr>agents := tb_delete (\<lambda>r. ag_host_id r = host_id) (agents d),
       agent_tasks := tb_delete (\<lambda>t. tk_host t = host_id) (agent_tasks d),
       agent_results := tb_delete (\<lambda>r. rs_host r = host_id) (agent_results d)\<rparr>"

text \<open>
  The tables \<^verbatim>\<open>agent_integrity\<close>, \<^verbatim>\<open>agent_ssh_state\<close> and \<^verbatim>\<open>pending_become\<close> that the source
  also lists do not exist in the schema; their DELETE fails and is ignored.
\<close>

definition decommission_wipe :: "db \<Rightarrow> nat \<times> db" where
  "decommission_wipe d =
     (length (agents d),
      d\<lparr>agents := [], agent_tasks := [], agent_results := [], enroll_tokens := [],
        controller_config := None\<rparr>)"

definition upsert_host_health :: "health_row \<Rightarrow> db \<Rightarrow> db" where
  "upsert_host_health h d =
     d\<lparr>host_health := tb_replace (\<lambda>r. hh_host_id r = hh_host_id h)
         (h\<lparr>hh_units := Some (case hh_units h of None \<Rightarrow> [] | Some u \<Rightarrow> u),
            hh_vm_names := Some (case hh_vm_names h of None \<Rightarrow> [] | Some v \<Rightarrow> v)\<rparr>) (host_health d)\<rparr>"

definition get_all_host_health :: "db \<Rightarrow> health_row list" where
  "get_all_host_health d =
     map (\<lambda>r. r\<lparr>hh_units := Some (case hh_units r of None \<Rightarrow> [] | Some u \<Rightarrow> u),
               hh_vm_names := Some (case hh_vm_names r of None \<Rightarrow> [] | Some v \<Rightarrow> v)\<rparr>) (host_health d)"

definition mark_config_poll :: "instant \<Rightarrow> string \<Rightarrow> instant option \<Rightarrow> db \<Rightarrow> db" where
  "mark_config_poll now host_id ts =
     update_agent_rows host_id
       (\<lambda>r. r\<lparr>ag_config_poll := Some (case ts of None \<Rightarrow> now | Some t \<Rightarrow> t)\<rparr>)"

definition get_config_poll_times :: "db \<Rightarrow> (string \<times> instant option) list" where
  "get_config_poll_times d = map (\<lambda>r. (ag_host_id r, ag_config_poll r)) (agents d)"

section \<open>Lookups after updates\<close>

named_theorems agent_simps \<open>how the agent operations act on a lookup\<close>

lemma find_agent_update [agent_simps]:
  assumes "\<And>r. ag_host_id (f r) = ag_host_id r"
  shows "find_agent_row k (update_agent_rows h f d) =
    (if k = h then map_option f (find_agent_row k d) else find_agent_row k d)"
proof -
  have "find_agent_row k (update_agent_rows h f d) =
      map_option (\<lambda>r. if ag_host_id r = h then f r else r) (find_agent_row k d)"
    using assms by (simp add: find_agent_row_def update_agent_rows_def find_tb_update)
  then show ?thesis
    by (cases "find_agent_row k d") (auto simp: find_agent_row_def dest: find_SomeD)
qed

lemma keyed_update_agents:
  assumes "\<And>r. ag_host_id (f r) = ag_host_id r"
  shows "keyed ag_host_id (agents (update_agent_rows h f d)) = keyed ag_host_id (agents d)"
  using assms by (simp add: update_agent_rows_def keyed_update)

lemma update_agents_frame [simp]:
  "agent_tasks (update_agent_rows h f d) = agent_tasks d"
  "agent_results (update_agent_rows h f d) = agent_results d"
  "enroll_tokens (update_agent_rows h f d) = enroll_tokens d"
  "environments (update_agent_rows h f d) = environments d"
  "administrators (update_agent_rows h f d) = administrators d"
  "admin_tokens (update_agent_rows h f d) = admin_tokens d"
  "activity_log (update_agent_rows h f d) = activity_log d"
  "admin_audit_log (update_agent_rows h f d) = admin_audit_log d"
  "task_seq (update_agent_rows h f d) = task_seq d"
  "enrollment_control (update_agent_rows h f d) = enrollment_control d"
  "enroll_allowlist (update_agent_rows h f d) = enroll_allowlist d"
  by (simp_all add: update_agent_rows_def)

lemma schema_ok_update_agents [schema_simps]:
  assumes "\<And>r. ag_host_id (f r) = ag_host_id r"
  shows "schema_ok (update_agent_rows h f d) = schema_ok d"
  using assms by (simp add: schema_ok_def update_agent_rows_def keyed_update)

lemma find_created_agent [agent_simps]:
  "find_agent_row host_id
     (create_or_update_agent host_id hostname platform kern status last_seen s ip d) =
   Some ((case find_agent_row host_id d of None \<Rightarrow> new_agent host_id | Some r \<Rightarrow> r)
      \<lparr>ag_hostname := hostname, ag_platform := platform, ag_kernel := kern, ag_status := status,
       ag_last_seen := Some last_seen,
       ag_secret := (if truthy s then Some (token_at_rest s) else s), ag_ip := ip,
       ag_revoked := False\<rparr>)"
  unfolding create_or_update_agent_def find_agent_row_def Let_def
  by (simp add: find_upsert_same new_agent_def split: option.split)

lemma find_created_other [agent_simps]:
  "k \<noteq> host_id \<Longrightarrow> find_agent_row k
     (create_or_update_agent host_id hostname platform kern status last_seen s ip d) =
   find_agent_row k d"
  unfolding create_or_update_agent_def find_agent_row_def Let_def
  by (simp add: find_upsert_other new_agent_def)

lemma schema_ok_create_agent [schema_simps]:
  assumes "schema_ok d"
  shows "schema_ok (create_or_update_agent h hostname platform kern status last_seen s ip d)"
proof -
  have "keyed ag_host_id
      (agents (create_or_update_agent h hostname platform kern status last_seen s ip d))"
    using assms unfolding create_or_update_agent_def schema_ok_def Let_def
    by (simp add: keyed_upsert new_agent_def)
  then show ?thesis
    using assms by (simp add: schema_ok_def create_or_update_agent_def Let_def)
qed

lemma schema_ok_delete_agent [schema_simps]: "schema_ok d \<Longrightarrow> schema_ok (delete_agent h d)"
  by (simp add: schema_ok_def delete_agent_def keyed_intros)

lemma schema_ok_upsert_health [schema_simps]: "schema_ok d \<Longrightarrow> schema_ok (upsert_host_health h d)"
  by (simp add: schema_ok_def upsert_host_health_def keyed_replace)

lemma find_deleted_agent [agent_simps]:
  "find_agent_row k (delete_agent h d) = (if k = h then None else find_agent_row k d)"
  by (auto simp: find_agent_row_def delete_agent_def find_tb_delete_same find_tb_delete_other)

lemma set_list_agents [agent_simps]: "set (list_agents d) = set (agents d)"
  by (simp add: list_agents_def)

section \<open>Secrets at rest\<close>

lemma is_hash_token_at_rest [simp]: "is_hash_at_rest (token_at_rest t)"
  using set_token_at_rest [of t] by (auto simp: is_hash_at_rest_def list_all_iff)

text \<open>What a stored secret accepts, in one equation.\<close>

lemma secret_matches_iff [agent_simps]:
  "fst (agent_secret_matches h p d) \<longleftrightarrow>
     truthy p \<and> truthy (get_agent_secret h d) \<and>
     (Some (token_at_rest p) = get_agent_secret h d \<or>
      \<not> is_hash_at_rest (the (get_agent_secret h d)) \<and> p = get_agent_secret h d)"
  by (auto simp: agent_secret_matches_def Let_def)

lemma secret_matches_schema [schema_simps]:
  "schema_ok (snd (agent_secret_matches h p d)) = schema_ok d"
  by (simp add: agent_secret_matches_def Let_def upgrade_agent_secret_hash_def schema_simps)

text \<open>
  Acceptance is unchanged by the upgrade a match may perform: the secret that just passed passes
  again, and afterwards the row no longer holds it in the clear.
\<close>

lemma secret_upgrade_stable:
  assumes "agent_secret_matches h p d = (True, d')"
  shows "fst (agent_secret_matches h p d') \<and>
    get_agent_secret h d' = Some (token_at_rest p)"
proof -
  from assms have p: "truthy p" and st: "truthy (get_agent_secret h d)"
    by (auto simp: agent_secret_matches_def Let_def split: if_splits)
  then obtain r where r: "find_agent_row h d = Some r"
    by (auto simp: get_agent_secret_def split: option.splits)
  have "get_agent_secret h d' = Some (token_at_rest p)"
    using assms p st r
    by (auto simp: agent_secret_matches_def Let_def upgrade_agent_secret_hash_def agent_simps
        get_agent_secret_def split: if_splits)
  with p show ?thesis by (simp add: agent_simps)
qed

end
