(* ===== verification/Py_IpAddress.thy ===== *)
theory Py_IpAddress
  imports Db_State
begin

text \<open>
  What \<^verbatim>\<open>backend/db.py\<close> uses of Python's \<^verbatim>\<open>ipaddress\<close> module: \<open>ip_address\<close>,
  \<open>ip_network(_, strict=False)\<close>, membership and \<open>is_loopback\<close>.  Addresses are integers;
  \<open>None\<close> is the \<open>ValueError\<close> of a text that is not an address.
\<close>

record ip_addr =
  ad_version :: ip_version
  ad_num :: int

section \<open>IPv4\<close>

text \<open>One decimal octet: ASCII digits, at most three, no leading zero, at most 255.\<close>

definition parse_octet :: "string \<Rightarrow> int option" where
  "parse_octet s =
     (if s = [] \<or> \<not> list_all is_digit s \<or> 3 < length s \<or> (s \<noteq> ''0'' \<and> hd s = CHR ''0'') then None
      else let n = digits_val s in if n > 255 then None else Some n)"

definition parse_v4 :: "string \<Rightarrow> int option" where
  "parse_v4 s =
     (case map parse_octet (split_on (CHR ''.'') s) of
        [Some a, Some b, Some c, Some d] \<Rightarrow> Some (((a * 256 + b) * 256 + c) * 256 + d)
      | _ \<Rightarrow> None)"

section \<open>IPv6\<close>

definition hex_digit_val :: "char \<Rightarrow> int option" where
  "hex_digit_val c =
     (let n = (of_char c :: int)
      in if 48 \<le> n \<and> n \<le> 57 then Some (n - 48)
         else if 97 \<le> n \<and> n \<le> 102 then Some (n - 87)
         else if 65 \<le> n \<and> n \<le> 70 then Some (n - 55) else None)"

fun hex_val :: "int \<Rightarrow> string \<Rightarrow> int option" where
  "hex_val acc [] = Some acc"
| "hex_val acc (c # cs) =
     (case hex_digit_val c of None \<Rightarrow> None | Some v \<Rightarrow> hex_val (16 * acc + v) cs)"

definition parse_hextet :: "string \<Rightarrow> int option" where
  "parse_hextet s = (if s = [] \<or> 4 < length s then None else hex_val 0 s)"

fun join_groups :: "int \<Rightarrow> int option list \<Rightarrow> int option" where
  "join_groups acc [] = Some acc"
| "join_groups acc (None # gs) = None"
| "join_groups acc (Some g # gs) = join_groups (65536 * acc + g) gs"

text \<open>The sixteen-bit groups of the text; a dotted-quad tail counts for two.\<close>

definition v6_parts :: "string \<Rightarrow> (string + int) list option" where
  "v6_parts s =
     (let ps = split_on (CHR '':'') s; l = last ps
      in if length ps < 3 then None
         else if CHR ''.'' \<in> set l then
           (case parse_v4 l of None \<Rightarrow> None
            | Some n \<Rightarrow> Some (map Inl (butlast ps) @ [Inr (n div 65536), Inr (n mod 65536)]))
         else Some (map Inl ps))"

fun group_val :: "string + int \<Rightarrow> int option" where
  "group_val (Inl s) = parse_hextet s"
| "group_val (Inr n) = Some n"

definition empty_inner :: "(string + int) list \<Rightarrow> nat list" where
  "empty_inner ps = filter (\<lambda>i. ps ! i = Inl []) [1..<length ps - 1]"

definition v6_num :: "(string + int) list \<Rightarrow> int option" where
  "v6_num ps =
     (if 9 < length ps then None
      else (case empty_inner ps of
        [] \<Rightarrow> if length ps \<noteq> 8 then None else join_groups 0 (map group_val ps)
      | [k] \<Rightarrow>
          (let hi = (if hd ps = Inl [] then k - 1 else k);
               lo0 = length ps - k - 1;
               lo = (if last ps = Inl [] then lo0 - 1 else lo0)
           in if (hd ps = Inl [] \<and> hi \<noteq> 0) \<or> (last ps = Inl [] \<and> lo \<noteq> 0) \<or> 8 < hi + lo + 1
              then None
              else (case join_groups 0 (map group_val (take hi ps)) of None \<Rightarrow> None
                    | Some h \<Rightarrow> join_groups (h * 65536 ^ (8 - (hi + lo)))
                                  (map group_val (drop (length ps - lo) ps))))
      | _ \<Rightarrow> None))"

text \<open>A scope id after \<open>%\<close> is split off; it takes no part in comparisons.\<close>

definition parse_v6 :: "string \<Rightarrow> int option" where
  "parse_v6 s =
     (case split_on (CHR ''%'') s of
        [a] \<Rightarrow> Option.bind (v6_parts a) v6_num
      | [a, scope] \<Rightarrow> if scope = [] then None else Option.bind (v6_parts a) v6_num
      | _ \<Rightarrow> None)"

section \<open>Addresses and networks\<close>

definition ip_address :: "string \<Rightarrow> ip_addr option" where
  "ip_address s =
     (if CHR ''/'' \<in> set s then None
      else (case parse_v4 s of Some n \<Rightarrow> Some \<lparr>ad_version = V4, ad_num = n\<rparr>
            | None \<Rightarrow> (case parse_v6 s of Some n \<Rightarrow> Some \<lparr>ad_version = V6, ad_num = n\<rparr>
                      | None \<Rightarrow> None)))"

definition is_loopback :: "ip_addr \<Rightarrow> bool" where
  "is_loopback a =
     (case ad_version a of V4 \<Rightarrow> ad_num a div 2 ^ 24 = 127 | V6 \<Rightarrow> ad_num a = 1)"

definition bits_of :: "ip_version \<Rightarrow> nat" where
  "bits_of v = (case v of V4 \<Rightarrow> 32 | V6 \<Rightarrow> 128)"

definition host_bits :: "ip_version \<Rightarrow> nat \<Rightarrow> nat" where
  "host_bits v p = bits_of v - p"

text \<open>A prefix length; for IPv4 also a netmask or host mask in dotted form.\<close>

definition parse_prefix :: "int \<Rightarrow> string \<Rightarrow> nat option" where
  "parse_prefix bound s =
     (if s = [] \<or> \<not> list_all is_digit s then None
      else let n = digits_val s in if n > bound then None else Some (nat n))"

definition mask_prefix :: "int \<Rightarrow> nat option" where
  "mask_prefix m = find (\<lambda>p. m = 2 ^ 32 - 2 ^ (32 - p)) [0..<33]"

definition parse_mask_v4 :: "string \<Rightarrow> nat option" where
  "parse_mask_v4 s =
     (case parse_prefix 32 s of Some p \<Rightarrow> Some p
      | None \<Rightarrow> (case parse_v4 s of None \<Rightarrow> None
                | Some m \<Rightarrow> (case mask_prefix m of Some p \<Rightarrow> Some p
                            | None \<Rightarrow> mask_prefix (2 ^ 32 - 1 - m))))"

definition mk_net :: "ip_version \<Rightarrow> int option \<Rightarrow> nat option \<Rightarrow> ip_net option" where
  "mk_net v addr prefix =
     (case (addr, prefix) of
        (Some a, Some p) \<Rightarrow>
          Some \<lparr>nt_version = v, nt_addr = a - a mod 2 ^ host_bits v p, nt_prefix = p\<rparr>
      | _ \<Rightarrow> None)"

definition ip_network :: "string \<Rightarrow> ip_net option" where
  "ip_network s =
     (let pick = (\<lambda>n4 n6. case n4 of Some n \<Rightarrow> Some n | None \<Rightarrow> n6)
      in case split_on (CHR ''/'') s of
           [a] \<Rightarrow> pick (mk_net V4 (parse_v4 a) (Some 32)) (mk_net V6 (parse_v6 a) (Some 128))
         | [a, m] \<Rightarrow> pick (mk_net V4 (parse_v4 a) (parse_mask_v4 m))
                          (mk_net V6 (parse_v6 a) (parse_prefix 128 m))
         | _ \<Rightarrow> None)"

definition ip_in_net :: "ip_addr \<Rightarrow> ip_net \<Rightarrow> bool" where
  "ip_in_net a n =
     (ad_version a = nt_version n \<and>
      ad_num a - ad_num a mod 2 ^ host_bits (nt_version n) (nt_prefix n) = nt_addr n)"

section \<open>Facts\<close>

text \<open>An address is always in the network its own text denotes.\<close>

lemma mk_net_self:
  "mk_net v (Some a) (Some p) = Some n \<Longrightarrow> ip_in_net \<lparr>ad_version = v, ad_num = a\<rparr> n"
  by (auto simp: mk_net_def ip_in_net_def)

lemma mk_net_SomeD:
  "mk_net v addr prefix = Some n \<Longrightarrow> \<exists>a p. addr = Some a \<and> prefix = Some p"
  by (auto simp: mk_net_def split: option.splits)

end
