(* ===== verification/Db_Enroll.thy ===== *)
theory Db_Enroll
  imports Db_Agents Py_IpAddress
begin

text \<open>
  Enrolment state of \<^verbatim>\<open>backend/db.py\<close>: the pause switch, the source-network allowlist, and
  the enrolment tokens with their single-use claim, same-host reuse window, administrator
  reissue tokens and purges.  The two tunables are constants with the source's defaults.
\<close>

definition ENROLL_TOKEN_REUSE_WINDOW :: rat where
  "ENROLL_TOKEN_REUSE_WINDOW = 24 * 60 * 60"

definition ENROLL_TOKEN_VALID_DAYS :: rat where
  "ENROLL_TOKEN_VALID_DAYS = 30"

section \<open>Pause switch and allowlist\<close>

definition get_enrollment_paused :: "db \<Rightarrow> bool" where
  "get_enrollment_paused d =
     (case enrollment_control d of None \<Rightarrow> False | Some r \<Rightarrow> ec_paused r)"

definition get_enrollment_control :: "db \<Rightarrow> bool \<times> instant option \<times> string option" where
  "get_enrollment_control d =
     (case enrollment_control d of None \<Rightarrow> (False, None, None)
      | Some r \<Rightarrow> (ec_paused r, Some (ec_updated r), ec_actor r))"

definition set_enrollment_paused :: "instant \<Rightarrow> bool \<Rightarrow> string option \<Rightarrow> db \<Rightarrow> bool \<times> db" where
  "set_enrollment_paused now paused actor d =
     (paused, d\<lparr>enrollment_control :=
        Some \<lparr>ec_paused = paused, ec_updated = now, ec_actor = actor\<rparr>\<rparr>)"

definition normalize_cidr :: "string option \<Rightarrow> ip_net option" where
  "normalize_cidr value =
     (let v = strip (or_else value []) in if v = [] then None else ip_network v)"

definition list_enroll_allowlist :: "db \<Rightarrow> allow_row list" where
  "list_enroll_allowlist d = sort_key al_id (enroll_allowlist d)"

text \<open>\<open>None\<close> is the \<open>ValueError\<close>; a conflicting CIDR only has its note replaced.\<close>

definition add_enroll_allowlist_cidr ::
    "instant \<Rightarrow> string option \<Rightarrow> string option \<Rightarrow> string option \<Rightarrow> db \<Rightarrow> (ip_net \<times> db) option" where
  "add_enroll_allowlist_cidr now cidr note actor d =
     (case normalize_cidr cidr of None \<Rightarrow> None
      | Some net \<Rightarrow>
          (let n = strip (or_else note []); note' = (if n = [] then None else Some n);
               fresh = \<not> tb_exists (\<lambda>r. al_cidr r = Some net) (enroll_allowlist d)
           in Some (net,
                d\<lparr>enroll_allowlist := tb_upsert (\<lambda>r. al_cidr r = Some net)
                    (\<lambda>r. r\<lparr>al_note := note'\<rparr>)
                    \<lparr>al_id = allow_seq d + 1, al_cidr = Some net, al_note = note',
                     al_created = now, al_actor = actor\<rparr> (enroll_allowlist d),
                  allow_seq := (if fresh then allow_seq d + 1 else allow_seq d)\<rparr>)))"

definition remove_enroll_allowlist_cidr :: "int \<Rightarrow> db \<Rightarrow> bool \<times> db" where
  "remove_enroll_allowlist_cidr entry_id d =
     (0 < tb_count (\<lambda>r. al_id r = entry_id) (enroll_allowlist d),
      d\<lparr>enroll_allowlist := tb_delete (\<lambda>r. al_id r = entry_id) (enroll_allowlist d)\<rparr>)"

fun any_net_holds :: "ip_addr \<Rightarrow> allow_row list \<Rightarrow> bool" where
  "any_net_holds addr [] = False"
| "any_net_holds addr (r # rs) =
     (case al_cidr r of None \<Rightarrow> any_net_holds addr rs
      | Some n \<Rightarrow> ip_in_net addr n \<or> any_net_holds addr rs)"

definition enroll_ip_allowed :: "string option \<Rightarrow> db \<Rightarrow> bool" where
  "enroll_ip_allowed ip d =
     (let rows = list_enroll_allowlist d
      in if rows = [] then True
         else (case ip_address (strip (or_else ip [])) of
                 None \<Rightarrow> False
               | Some addr \<Rightarrow> if is_loopback addr then True else any_net_holds addr rows))"

section \<open>Tokens\<close>

definition find_token :: "string option \<Rightarrow> db \<Rightarrow> enroll_row option" where
  "find_token token d = find (\<lambda>r. et_token r = token_at_rest token) (enroll_tokens d)"

text \<open>
  \<open>None\<close> where the plain INSERT hits the primary key, which raises \<open>IntegrityError\<close>.
\<close>

definition insert_token :: "enroll_row \<Rightarrow> db \<Rightarrow> db option" where
  "insert_token r d =
     (if tb_exists (\<lambda>x. et_token x = et_token r) (enroll_tokens d) then None
      else Some (d\<lparr>enroll_tokens := enroll_tokens d @ [r]\<rparr>))"

definition create_enroll_token :: "instant \<Rightarrow> string \<Rightarrow> string option \<Rightarrow> db \<Rightarrow> db option" where
  "create_enroll_token now token environment =
     insert_token
       \<lparr>et_token = token_at_rest (Some token), et_created = now,
        et_expires = now + ENROLL_TOKEN_VALID_DAYS * 24 * 60 * 60, et_used = False,
        et_bound = None, et_last_used = None, et_reissue = False,
        et_environment = Some (or_else environment [])\<rparr>"

definition enroll_token_environment :: "string \<Rightarrow> db \<Rightarrow> string" where
  "enroll_token_environment token d =
     (if token = [] then []
      else (case find_token (Some token) d of None \<Rightarrow> []
            | Some r \<Rightarrow> or_else (et_environment r) []))"

definition create_reissue_token :: "instant \<Rightarrow> string \<Rightarrow> string \<Rightarrow> db \<Rightarrow> db option" where
  "create_reissue_token now token host_id =
     insert_token
       \<lparr>et_token = token_at_rest (Some token), et_created = now,
        et_expires = now + ENROLL_TOKEN_VALID_DAYS * 24 * 60 * 60, et_used = False,
        et_bound = Some host_id, et_last_used = None, et_reissue = True,
        et_environment = Some []\<rparr>"

definition enroll_token_authorizes_rebind :: "instant \<Rightarrow> string \<Rightarrow> string \<Rightarrow> db \<Rightarrow> bool" where
  "enroll_token_authorizes_rebind now token host_id d =
     (if token = [] \<or> host_id = [] then False
      else (case find_token (Some token) d of None \<Rightarrow> False
            | Some r \<Rightarrow>
                if \<not> et_reissue r \<or> et_used r then False
                else if now > et_expires r then False
                else et_bound r = Some host_id))"

text \<open>The clock is read twice, for the expiry and for the reuse window.\<close>

definition validate_enroll_token :: "instant \<Rightarrow> instant \<Rightarrow> string \<Rightarrow> db \<Rightarrow> bool" where
  "validate_enroll_token now now' token d =
     (case find_token (Some token) d of None \<Rightarrow> False
      | Some r \<Rightarrow>
          if now > et_expires r then False
          else if \<not> et_used r then True
          else (case (et_bound r, et_last_used r) of
                  (Some b, Some u) \<Rightarrow> now' - u \<le> ENROLL_TOKEN_REUSE_WINDOW
                | _ \<Rightarrow> False))"

definition resolve_enroll_token_host :: "string \<Rightarrow> string \<Rightarrow> db \<Rightarrow> string" where
  "resolve_enroll_token_host token requested_host_id d =
     (case find_token (Some token) d of None \<Rightarrow> requested_host_id
      | Some r \<Rightarrow> or_else (et_bound r) requested_host_id)"

definition invalidate_enroll_tokens_for_host :: "string \<Rightarrow> db \<Rightarrow> nat \<times> db" where
  "invalidate_enroll_tokens_for_host host_id d =
     (if host_id = [] then (0, d)
      else (tb_count (\<lambda>r. et_bound r = Some host_id) (enroll_tokens d),
            d\<lparr>enroll_tokens := tb_delete (\<lambda>r. et_bound r = Some host_id) (enroll_tokens d)\<rparr>))"

definition purge_unconsumed_enroll_tokens :: "db \<Rightarrow> nat \<times> db" where
  "purge_unconsumed_enroll_tokens d =
     (tb_count (\<lambda>r. \<not> et_used r) (enroll_tokens d),
      d\<lparr>enroll_tokens := tb_delete (\<lambda>r. \<not> et_used r) (enroll_tokens d)\<rparr>)"

definition consume_enroll_token :: "instant \<Rightarrow> string \<Rightarrow> string \<Rightarrow> db \<Rightarrow> bool \<times> db" where
  "consume_enroll_token now token host_id d =
     (let hit = (\<lambda>r. et_token r = token_at_rest (Some token) \<and>
                     (\<not> et_used r \<or> et_bound r = Some host_id))
      in (tb_count hit (enroll_tokens d) = 1,
          d\<lparr>enroll_tokens := tb_update hit
              (\<lambda>r. r\<lparr>et_used := True, et_bound := Some host_id, et_last_used := Some now\<rparr>)
              (enroll_tokens d)\<rparr>))"

section \<open>Facts\<close>

named_theorems enroll_simps \<open>how the token operations act on a lookup\<close>

lemma any_net_holds_iff [enroll_simps]:
  "any_net_holds addr rows \<longleftrightarrow> (\<exists>r \<in> set rows. \<exists>n. al_cidr r = Some n \<and> ip_in_net addr n)"
  by (induction rows) (auto split: option.splits)

lemma set_list_allowlist [enroll_simps]: "set (list_enroll_allowlist d) = set (enroll_allowlist d)"
  by (simp add: list_enroll_allowlist_def)

lemma list_allowlist_Nil [enroll_simps]: "list_enroll_allowlist d = [] \<longleftrightarrow> enroll_allowlist d = []"
  by (metis set_empty set_list_allowlist)

lemma find_inserted_token [enroll_simps]:
  assumes "insert_token r d = Some d'"
  shows "find_token t d' =
    (if token_at_rest t = et_token r then Some r else find_token t d)"
proof -
  from assms have d': "d' = d\<lparr>enroll_tokens := enroll_tokens d @ [r]\<rparr>"
    and nf: "find (\<lambda>x. et_token x = et_token r) (enroll_tokens d) = None"
    by (auto simp: insert_token_def tb_exists_iff find_None_iff split: if_splits)
  show ?thesis using nf by (auto simp: d' find_token_def find_append split: option.split)
qed

lemma insert_token_schema:
  "insert_token r d = Some d' \<Longrightarrow> schema_ok d \<Longrightarrow> schema_ok d'"
  by (fastforce simp: insert_token_def schema_ok_def keyed_append tb_exists_iff split: if_splits)

lemma find_token_keyed:
  "schema_ok d \<Longrightarrow> r \<in> set (enroll_tokens d) \<Longrightarrow> et_token r = token_at_rest t \<Longrightarrow>
    find_token t d = Some r"
  by (metis (mono_tags, lifting) find_token_def keyed_find schema_ok_def find_cong)

text \<open>What a claim does, in terms of the one row of the presented token.\<close>

lemma consume_result [enroll_simps]:
  assumes "schema_ok d"
  shows "fst (consume_enroll_token now t h d) \<longleftrightarrow>
    (\<exists>r. find_token (Some t) d = Some r \<and> (\<not> et_used r \<or> et_bound r = Some h))"
proof -
  have "keyed et_token (enroll_tokens d)" using assms by (simp add: schema_ok_def)
  then show ?thesis
    by (auto simp: consume_enroll_token_def Let_def count_at_find find_token_def
        split: option.splits if_splits)
qed

lemma find_consumed [enroll_simps]:
  "find_token t' (snd (consume_enroll_token now t h d)) =
     (case find_token t' d of None \<Rightarrow> None
      | Some r \<Rightarrow> Some (if token_at_rest t' = token_at_rest (Some t) \<and>
                            (\<not> et_used r \<or> et_bound r = Some h)
                        then r\<lparr>et_used := True, et_bound := Some h, et_last_used := Some now\<rparr> else r))"
proof -
  let ?hit = "\<lambda>r. et_token r = token_at_rest (Some t) \<and> (\<not> et_used r \<or> et_bound r = Some h)"
  let ?f = "\<lambda>r :: enroll_row. r\<lparr>et_used := True, et_bound := Some h, et_last_used := Some now\<rparr>"
  have "find_token t' (snd (consume_enroll_token now t h d)) =
      map_option (\<lambda>r. if ?hit r then ?f r else r) (find_token t' d)"
    by (simp add: find_token_def consume_enroll_token_def Let_def find_tb_update)
  then show ?thesis
    by (auto simp: find_token_def split: option.split dest!: find_SomeD)
qed

lemma consume_schema [schema_simps]:
  "schema_ok (snd (consume_enroll_token now t h d)) = schema_ok d"
  by (simp add: consume_enroll_token_def Let_def schema_ok_def keyed_update)

lemma consume_frame [simp]:
  "agents (snd (consume_enroll_token now t h d)) = agents d"
  "environments (snd (consume_enroll_token now t h d)) = environments d"
  "admin_tokens (snd (consume_enroll_token now t h d)) = admin_tokens d"
  "agent_tasks (snd (consume_enroll_token now t h d)) = agent_tasks d"
  by (simp_all add: consume_enroll_token_def Let_def)

lemma find_agent_consume [simp]:
  "find_agent_row k (snd (consume_enroll_token now t h d)) = find_agent_row k d"
  by (simp add: find_agent_row_def)

end
