(* ===== verification/Db_Tasks.thy ===== *)
theory Db_Tasks
  imports Db_State
begin

text \<open>
  The command queue of \<^verbatim>\<open>backend/db.py\<close>: a task is queued \<open>Pending\<close>, handed to the host's
  agent exactly once (\<open>Dispatched\<close>), and ends \<open>Done\<close> with the agent's result or
  \<open>Timed_Out\<close> with a synthetic one; finished tasks are pruned after the retention window.
\<close>

definition TASK_RETENTION_DAYS :: rat where
  "TASK_RETENTION_DAYS = 30"

definition timed_out_message :: string where
  \<open>timed_out_message =
     ''{"stdout": "", "stderr": "[sysible] Task timed out: the host was handed this command but never reported a result. It may or may not have run '' @
     [CHR 0x5C] @ ''u2014 re-queue it if needed.", "returncode": -1}''\<close>

section \<open>Operations\<close>

definition queue_task ::
    "instant \<Rightarrow> string \<Rightarrow> string \<Rightarrow> string \<Rightarrow> string option \<Rightarrow> db \<Rightarrow> int \<times> db" where
  "queue_task now host_id command kind run_as d =
     (let i = task_seq d + 1
      in (i, d\<lparr>agent_tasks := agent_tasks d @
                [\<lparr>tk_id = i, tk_host = host_id, tk_command = command, tk_kind = kind,
                  tk_status = Pending, tk_created = Some now, tk_dispatched = None,
                  tk_run_as = run_as\<rparr>],
              task_seq := i\<rparr>))"

definition fetch_pending_tasks :: "instant \<Rightarrow> string \<Rightarrow> db \<Rightarrow> task_row list \<times> db" where
  "fetch_pending_tasks now host_id d =
     (let hit = (\<lambda>t. tk_host t = host_id \<and> tk_status t = Pending);
          claim = (\<lambda>t. t\<lparr>tk_status := Dispatched, tk_dispatched := Some now\<rparr>)
      in (sort_key tk_id (map claim (filter hit (agent_tasks d))),
          d\<lparr>agent_tasks := tb_update hit claim (agent_tasks d)\<rparr>))"

definition add_result :: "int \<Rightarrow> string \<Rightarrow> string \<Rightarrow> instant \<Rightarrow> db \<Rightarrow> db" where
  "add_result task_id host_id result now d =
     d\<lparr>agent_results := agent_results d @
         [\<lparr>rs_id = result_seq d + 1, rs_task_id = task_id, rs_host = host_id,
           rs_result = result, rs_completed = now\<rparr>],
       result_seq := result_seq d + 1\<rparr>"

definition dispatched_task :: "int \<Rightarrow> task_row \<Rightarrow> bool" where
  "dispatched_task task_id t = (tk_id t = task_id \<and> tk_status t = Dispatched)"

definition submit_task_result :: "instant \<Rightarrow> int \<Rightarrow> string \<Rightarrow> string \<Rightarrow> db \<Rightarrow> bool \<times> db" where
  "submit_task_result now task_id host_id result d =
     (let applied = (tb_count (dispatched_task task_id) (agent_tasks d) = 1);
          d1 = d\<lparr>agent_tasks := tb_update (dispatched_task task_id)
                   (\<lambda>t. t\<lparr>tk_status := Done\<rparr>) (agent_tasks d)\<rparr>
      in (applied, if applied then add_result task_id host_id result now d1 else d1))"

definition is_terminal :: "task_status \<Rightarrow> bool" where
  "is_terminal s = (s = Done \<or> s = Timed_Out)"

definition prunable :: "instant \<Rightarrow> task_row \<Rightarrow> bool" where
  "prunable cutoff t =
     (is_terminal (tk_status t) \<and>
      (case tk_created t of None \<Rightarrow> False | Some c \<Rightarrow> c < cutoff))"

definition prune_terminal_tasks :: "instant \<Rightarrow> db \<Rightarrow> db" where
  "prune_terminal_tasks now d =
     (if TASK_RETENTION_DAYS \<le> 0 then d
      else (let cutoff = now - TASK_RETENTION_DAYS * 24 * 60 * 60;
                gone = map tk_id (filter (prunable cutoff) (agent_tasks d))
            in d\<lparr>agent_results := tb_delete (\<lambda>r. rs_task_id r \<in> set gone) (agent_results d),
                 agent_tasks := tb_delete (prunable cutoff) (agent_tasks d)\<rparr>))"

text \<open>The loop of \<open>reclaim_stale_tasks\<close> over the stale (id, host) pairs it selected.\<close>

fun reclaim_each :: "instant \<Rightarrow> (int \<times> string) list \<Rightarrow> nat \<times> db \<Rightarrow> nat \<times> db" where
  "reclaim_each now [] st = st"
| "reclaim_each now ((tid, host_id) # rest) (n, d) =
     (let hit = (tb_count (dispatched_task tid) (agent_tasks d) = 1);
          d1 = d\<lparr>agent_tasks := tb_update (dispatched_task tid)
                   (\<lambda>t. t\<lparr>tk_status := Timed_Out\<rparr>) (agent_tasks d)\<rparr>
      in reclaim_each now rest
           (if hit then (n + 1, add_result tid host_id timed_out_message now d1) else (n, d1)))"

definition stale_task :: "instant \<Rightarrow> task_row \<Rightarrow> bool" where
  "stale_task cutoff t =
     (tk_status t = Dispatched \<and>
      (case tk_dispatched t of None \<Rightarrow> False | Some s \<Rightarrow> s < cutoff))"

text \<open>The clock is read for the cutoff and again for the completion stamp.\<close>

definition reclaim_stale_tasks :: "instant \<Rightarrow> instant \<Rightarrow> rat \<Rightarrow> db \<Rightarrow> nat \<times> db" where
  "reclaim_stale_tasks now now' timeout_seconds d =
     (let cutoff = now - timeout_seconds;
          stale = map (\<lambda>t. (tk_id t, tk_host t)) (filter (stale_task cutoff) (agent_tasks d));
          (n, d1) = reclaim_each now' stale (0, d)
      in (n, prune_terminal_tasks now' d1))"

definition find_task :: "int \<Rightarrow> db \<Rightarrow> task_row option" where
  "find_task task_id d = find (\<lambda>t. tk_id t = task_id) (agent_tasks d)"

definition get_task_kind :: "int \<Rightarrow> db \<Rightarrow> string option" where
  "get_task_kind task_id d = map_option tk_kind (find_task task_id d)"

definition get_task_status :: "int \<Rightarrow> db \<Rightarrow> task_status option" where
  "get_task_status task_id d = map_option tk_status (find_task task_id d)"

definition get_task_host :: "int \<Rightarrow> db \<Rightarrow> string option" where
  "get_task_host task_id d = map_option tk_host (find_task task_id d)"

definition newest_first :: "result_row list \<Rightarrow> result_row list" where
  "newest_first rs = sort_key (\<lambda>r. - rs_completed r) rs"

definition get_task_result :: "int \<Rightarrow> db \<Rightarrow> (task_status \<times> string option) option" where
  "get_task_result task_id d =
     (case find_task task_id d of None \<Rightarrow> None
      | Some t \<Rightarrow>
          Some (tk_status t,
            if is_terminal (tk_status t)
            then (case newest_first (filter (\<lambda>r. rs_task_id r = task_id) (agent_results d)) of
                    [] \<Rightarrow> None | r # _ \<Rightarrow> Some (rs_result r))
            else None))"

text \<open>Each result with its task, when that still exists, newest first.\<close>

definition list_results ::
    "string \<Rightarrow> nat \<Rightarrow> string option \<Rightarrow> int option \<Rightarrow> db \<Rightarrow> (result_row \<times> task_row option) list" where
  "list_results host_id n kind task_id d =
     take n
       (map (\<lambda>r. (r, find_task (rs_task_id r) d))
         (newest_first
           (filter (\<lambda>r. rs_host r = host_id \<and>
                (case kind of None \<Rightarrow> True
                 | Some k \<Rightarrow> get_task_kind (rs_task_id r) d = Some k) \<and>
                (case task_id of None \<Rightarrow> True | Some i \<Rightarrow> rs_task_id r = i)) (agent_results d))))"

section \<open>How the operations act on one task\<close>

named_theorems task_simps \<open>how the queue operations act on a lookup\<close>

lemma find_task_map:
  assumes "\<And>t. p t \<Longrightarrow> tk_id (f t) = tk_id t"
  shows "find_task i (d\<lparr>agent_tasks := tb_update p f (agent_tasks d)\<rparr>) =
    map_option (\<lambda>t. if p t then f t else t) (find_task i d)"
  using assms unfolding find_task_def by (simp add: find_tb_update)

lemma find_task_SomeD: "find_task i d = Some t \<Longrightarrow> tk_id t = i \<and> t \<in> set (agent_tasks d)"
  by (auto simp: find_task_def dest: find_SomeD)

lemma find_task_results [simp]:
  "find_task i (d\<lparr>agent_results := rs\<rparr>) = find_task i d"
  "find_task i (d\<lparr>result_seq := k\<rparr>) = find_task i d"
  "find_task i (add_result a b c e d) = find_task i d"
  by (simp_all add: find_task_def add_result_def)

lemma count_dispatched:
  assumes "schema_ok d"
  shows "tb_count (dispatched_task i) (agent_tasks d) =
    (case find_task i d of Some t \<Rightarrow> (if tk_status t = Dispatched then 1 else 0) | None \<Rightarrow> 0)"
proof -
  have "keyed tk_id (agent_tasks d)" using assms by (simp add: schema_ok_def)
  then show ?thesis
    using count_at_find [of tk_id "agent_tasks d" i "\<lambda>t. tk_status t = Dispatched"]
    by (simp add: find_task_def dispatched_task_def [abs_def])
qed

lemma queue_task_find [task_simps]:
  assumes "schema_ok d" "queue_task now h c k u d = (i, d')"
  shows "find_task j d' = (if j = i
    then Some \<lparr>tk_id = i, tk_host = h, tk_command = c, tk_kind = k, tk_status = Pending,
               tk_created = Some now, tk_dispatched = None, tk_run_as = u\<rparr>
    else find_task j d)"
proof -
  have "find (\<lambda>t. tk_id t = task_seq d + 1) (agent_tasks d) = None"
    using assms(1) by (force simp: find_None_iff schema_ok_def ids_below_def)
  then show ?thesis
    using assms(2) by (auto simp: queue_task_def Let_def find_task_def find_append split: option.split)
qed

lemma queue_task_schema [schema_simps]:
  "schema_ok d \<Longrightarrow> schema_ok (snd (queue_task now h c k u d))"
  by (auto simp: queue_task_def Let_def schema_ok_def keyed_fresh_id table_simps ids_below_next)

lemma fetch_find [task_simps]:
  "find_task i (snd (fetch_pending_tasks now h d)) =
    (case find_task i d of None \<Rightarrow> None
     | Some t \<Rightarrow> Some (if tk_host t = h \<and> tk_status t = Pending
                      then t\<lparr>tk_status := Dispatched, tk_dispatched := Some now\<rparr> else t))"
  by (simp add: fetch_pending_tasks_def Let_def find_task_map split: option.split)

lemma fetch_returns [task_simps]:
  "set (fst (fetch_pending_tasks now h d)) =
    {t\<lparr>tk_status := Dispatched, tk_dispatched := Some now\<rparr> | t.
       t \<in> set (agent_tasks d) \<and> tk_host t = h \<and> tk_status t = Pending}"
  by (auto simp: fetch_pending_tasks_def Let_def)

lemma fetch_schema [schema_simps]:
  "schema_ok (snd (fetch_pending_tasks now h d)) = schema_ok d"
  by (simp add: fetch_pending_tasks_def Let_def schema_ok_def keyed_updates)

lemma add_result_schema [schema_simps]:
  "schema_ok d \<Longrightarrow> schema_ok (add_result i h r now d)"
  by (auto simp: add_result_def schema_ok_def keyed_fresh_id table_simps ids_below_next)

lemma set_status_schema [schema_simps]:
  "schema_ok (d\<lparr>agent_tasks := tb_update p (\<lambda>t. t\<lparr>tk_status := s\<rparr>) (agent_tasks d)\<rparr>) = schema_ok d"
  by (simp add: schema_ok_def keyed_updates)

lemma submit_schema [schema_simps]:
  "schema_ok d \<Longrightarrow> schema_ok (snd (submit_task_result now i h r d))"
  by (simp add: submit_task_result_def Let_def schema_simps)

lemma find_set_status [task_simps]:
  "find_task i (d\<lparr>agent_tasks :=
       tb_update (dispatched_task j) (\<lambda>t. t\<lparr>tk_status := s\<rparr>) (agent_tasks d)\<rparr>) =
    (case find_task i d of None \<Rightarrow> None
     | Some t \<Rightarrow> Some (if i = j \<and> tk_status t = Dispatched then t\<lparr>tk_status := s\<rparr> else t))"
  by (auto simp: find_task_map dispatched_task_def split: option.split dest: find_task_SomeD)

lemma submit_find [task_simps]:
  "find_task i (snd (submit_task_result now j h r d)) =
    (case find_task i d of None \<Rightarrow> None
     | Some t \<Rightarrow> Some (if i = j \<and> tk_status t = Dispatched then t\<lparr>tk_status := Done\<rparr> else t))"
  by (simp add: submit_task_result_def Let_def task_simps)

lemma submit_applied [task_simps]:
  assumes "schema_ok d"
  shows "fst (submit_task_result now j h r d) \<longleftrightarrow> get_task_status j d = Some Dispatched"
  using assms
  by (auto simp: submit_task_result_def Let_def count_dispatched get_task_status_def
      split: option.splits if_splits)

lemma submit_results [task_simps]:
  assumes "schema_ok d"
  shows "agent_results (snd (submit_task_result now j h r d)) =
    (if get_task_status j d = Some Dispatched
     then agent_results d @ [\<lparr>rs_id = result_seq d + 1, rs_task_id = j, rs_host = h,
                              rs_result = r, rs_completed = now\<rparr>]
     else agent_results d)"
  using submit_applied [OF assms, of now j h r]
  by (auto simp: submit_task_result_def Let_def add_result_def)

end
