(* ===== verification/Passwords.thy ===== *)
theory Passwords
  imports Db_State "HOL-Library.Multiset"
begin

text \<open>
  Passwords: the PBKDF2 format of \<^verbatim>\<open>backend/portal_auth.py\<close> and the policy check and
  generator of \<^verbatim>\<open>backend/policy.py\<close>.  Randomness is an argument: the salt for
  \<open>hash_password\<close>, a stream of draws for the generator.
\<close>

section \<open>Hashing\<close>

definition PBKDF2_ITERATIONS :: int where
  "PBKDF2_ITERATIONS = 600000"

definition LEGACY_PBKDF2_ITERATIONS :: int where
  "LEGACY_PBKDF2_ITERATIONS = 200000"

text \<open>\<open>bytes.fromhex\<close> on unspaced text; \<open>None\<close> is its \<open>ValueError\<close>.\<close>

definition hex_nibble :: "char \<Rightarrow> nat option" where
  "hex_nibble c =
     (let n = (of_char c :: nat)
      in if 48 \<le> n \<and> n \<le> 57 then Some (n - 48)
         else if 97 \<le> n \<and> n \<le> 102 then Some (n - 87)
         else if 65 \<le> n \<and> n \<le> 70 then Some (n - 55) else None)"

fun from_hex :: "string \<Rightarrow> bytes option" where
  "from_hex [] = Some []"
| "from_hex [c] = None"
| "from_hex (a # b # cs) =
     (case (hex_nibble a, hex_nibble b, from_hex cs) of
        (Some x, Some y, Some bs) \<Rightarrow> Some (word_of_nat (16 * x + y) # bs)
      | _ \<Rightarrow> None)"

text \<open>\<open>None\<close> where the library raises: a salt that is not hex, or fewer than one iteration.\<close>

definition pbkdf2 :: "string \<Rightarrow> string \<Rightarrow> int \<Rightarrow> string option" where
  "pbkdf2 password salt_hex iterations =
     (case from_hex salt_hex of None \<Rightarrow> None
      | Some salt \<Rightarrow>
          if iterations < 1 then None
          else Some (hexdigest (pbkdf2_sha256 (utf8 password) salt (nat iterations))))"

definition hash_password :: "string \<Rightarrow> string \<Rightarrow> (string \<times> string) option" where
  "hash_password salt password =
     (case pbkdf2 password salt PBKDF2_ITERATIONS of None \<Rightarrow> None
      | Some digest \<Rightarrow> Some (salt, show_int PBKDF2_ITERATIONS @ ''$'' @ digest))"

text \<open>\<open>s.partition("$")\<close>: the text before the first dollar sign and the text after it.\<close>

definition before_dollar :: "string \<Rightarrow> string" where
  "before_dollar s = takeWhile (\<lambda>c. c \<noteq> CHR ''$'') s"

definition after_dollar :: "string \<Rightarrow> string" where
  "after_dollar s = tl (dropWhile (\<lambda>c. c \<noteq> CHR ''$'') s)"

text \<open>
  The outer \<open>None\<close> is an exception of the digest.  The source also burns the iterations a
  cheaper hash is short of, which takes time and returns nothing.
\<close>

definition verify_password :: "string \<Rightarrow> string \<Rightarrow> string \<Rightarrow> bool option" where
  "verify_password password salt_hex expected =
     (if salt_hex = [] \<or> expected = [] then Some False
      else if CHR ''$'' \<in> set expected then
        (case parse_int (before_dollar expected) of None \<Rightarrow> Some False
         | Some iters \<Rightarrow>
             map_option (\<lambda>a. a = after_dollar expected) (pbkdf2 password salt_hex iters))
      else map_option (\<lambda>a. a = expected) (pbkdf2 password salt_hex LEGACY_PBKDF2_ITERATIONS))"

definition needs_rehash :: "string \<Rightarrow> bool" where
  "needs_rehash expected =
     (if expected = [] then False
      else if CHR ''$'' \<notin> set expected then True
      else (case parse_int (before_dollar expected) of None \<Rightarrow> True
            | Some i \<Rightarrow> i < PBKDF2_ITERATIONS))"

section \<open>Policy\<close>

definition DEFAULT_ADMIN_PASSWORD_POLICY :: password_policy where
  "DEFAULT_ADMIN_PASSWORD_POLICY =
     \<lparr>pp_minlen = 12, pp_dcredit = -1, pp_ucredit = -1, pp_lcredit = -1, pp_ocredit = -1\<rparr>"

text \<open>The first unmet requirement, or \<open>None\<close> for \<open>(True, "")\<close>.\<close>

datatype policy_gap = Too_Short | No_Lowercase | No_Uppercase | No_Digit | No_Symbol

definition validate_password_against_policy ::
    "string \<Rightarrow> password_policy \<Rightarrow> policy_gap option" where
  "validate_password_against_policy password p =
     (if int (length password) < pp_minlen p then Some Too_Short
      else if pp_lcredit p < 0 \<and> \<not> list_ex is_lower password then Some No_Lowercase
      else if pp_ucredit p < 0 \<and> \<not> list_ex is_upper password then Some No_Uppercase
      else if pp_dcredit p < 0 \<and> \<not> list_ex is_digit password then Some No_Digit
      else if pp_ocredit p < 0 \<and> \<not> list_ex (\<lambda>c. \<not> is_alnum c) password then Some No_Symbol
      else None)"

definition ascii_lowercase :: string where
  "ascii_lowercase = ''abcdefghijklmnopqrstuvwxyz''"

definition ascii_uppercase :: string where
  "ascii_uppercase = ''ABCDEFGHIJKLMNOPQRSTUVWXYZ''"

definition ascii_digits :: string where
  "ascii_digits = ''0123456789''"

definition symbols :: string where
  "symbols = ''!@#$%^&*()-_=+[]{}''"

definition required_pools :: "password_policy \<Rightarrow> string list" where
  "required_pools p =
     (if pp_lcredit p < 0 then [ascii_lowercase] else []) @
     (if pp_ucredit p < 0 then [ascii_uppercase] else []) @
     (if pp_dcredit p < 0 then [ascii_digits] else []) @
     (if pp_ocredit p < 0 then [symbols] else [])"

text \<open>The \<open>k\<close>-th draw below \<open>n\<close> is \<open>rnd k mod n\<close>; every outcome is some \<open>rnd\<close>.\<close>

definition choice :: "(nat \<Rightarrow> nat) \<Rightarrow> nat \<Rightarrow> 'a list \<Rightarrow> 'a" where
  "choice rnd k xs = xs ! (rnd k mod length xs)"

definition swap_at :: "nat \<Rightarrow> nat \<Rightarrow> 'a list \<Rightarrow> 'a list" where
  "swap_at i j xs = xs[i := xs ! j, j := xs ! i]"

text \<open>\<open>random.shuffle\<close>: for \<open>i\<close> from the last index down to 1, swap with a draw below \<open>i + 1\<close>.\<close>

fun shuffle_from :: "(nat \<Rightarrow> nat) \<Rightarrow> nat \<Rightarrow> nat \<Rightarrow> 'a list \<Rightarrow> 'a list" where
  "shuffle_from rnd k 0 xs = xs"
| "shuffle_from rnd k (Suc i) xs =
     shuffle_from rnd (k + 1) i (swap_at (Suc i) (rnd k mod (Suc i + 1)) xs)"

definition generate_compliant_password ::
    "(nat \<Rightarrow> nat) \<Rightarrow> password_policy option \<Rightarrow> int \<Rightarrow> string" where
  "generate_compliant_password rnd policy len =
     (let p = (case policy of None \<Rightarrow> DEFAULT_ADMIN_PASSWORD_POLICY | Some q \<Rightarrow> q);
          n = max len (pp_minlen p);
          pool = ascii_lowercase @ ascii_uppercase @ ascii_digits @ symbols;
          required = required_pools p;
          r = length required;
          rest = nat (max (n - int r) 0);
          chars = map (\<lambda>k. choice rnd k (required ! k)) [0..<r] @
                  map (\<lambda>k. choice rnd (r + k) pool) [0..<rest]
      in shuffle_from rnd (r + rest) (length chars - 1) chars)"

section \<open>Facts\<close>

lemma mset_swap_at: "i < length xs \<Longrightarrow> j < length xs \<Longrightarrow> mset (swap_at i j xs) = mset xs"
  by (simp add: swap_at_def mset_swap)

lemma length_swap_at [simp]: "length (swap_at i j xs) = length xs"
  by (simp add: swap_at_def)

lemma mset_shuffle: "i < length xs \<or> xs = [] \<and> i = 0 \<Longrightarrow> mset (shuffle_from rnd k i xs) = mset xs"
proof (induction rnd k i xs rule: shuffle_from.induct)
  case (2 rnd k i xs)
  then have i: "Suc i < length xs" by auto
  have j: "rnd k mod (Suc i + 1) < length xs"
    by (rule order.strict_trans2 [OF mod_less_divisor]) (use i in auto)
  show ?case using 2(1) i mset_swap_at [OF i j] by simp
qed simp

lemma choice_in: "xs \<noteq> [] \<Longrightarrow> choice rnd k xs \<in> set xs"
  by (simp add: choice_def)

lemma pools_nonempty: "pool \<in> set (required_pools p) \<Longrightarrow> pool \<noteq> []"
  by (auto simp: required_pools_def ascii_lowercase_def ascii_uppercase_def ascii_digits_def
      symbols_def split: if_splits)

lemma pool_classes:
  "c \<in> set ascii_lowercase \<Longrightarrow> is_lower c"
  "c \<in> set ascii_uppercase \<Longrightarrow> is_upper c"
  "c \<in> set ascii_digits \<Longrightarrow> is_digit c"
  "c \<in> set symbols \<Longrightarrow> \<not> is_alnum c"
  by (auto simp: ascii_lowercase_def ascii_uppercase_def ascii_digits_def symbols_def
      is_lower_def is_upper_def is_digit_def is_alnum_def Let_def)

text \<open>Some character of the generated password comes from each required pool.\<close>

lemma generated_covers:
  assumes "pool \<in> set (required_pools (case policy of None \<Rightarrow> DEFAULT_ADMIN_PASSWORD_POLICY | Some q \<Rightarrow> q))"
  shows "\<exists>c \<in> set (generate_compliant_password rnd policy n). c \<in> set pool"
    (is "\<exists>c \<in> set ?w. _")
proof -
  define p where "p = (case policy of None \<Rightarrow> DEFAULT_ADMIN_PASSWORD_POLICY | Some q \<Rightarrow> q)"
  define req where "req = required_pools p"
  define m where "m = nat (max (max n (pp_minlen p) - int (length req)) 0)"
  define chars where "chars = map (\<lambda>k. choice rnd k (req ! k)) [0..<length req] @
    map (\<lambda>k. choice rnd (length req + k)
      (ascii_lowercase @ ascii_uppercase @ ascii_digits @ symbols)) [0..<m]"
  have w: "?w = shuffle_from rnd (length req + m) (length chars - 1) chars"
    unfolding generate_compliant_password_def Let_def chars_def m_def req_def p_def by (rule refl)
  from assms obtain i where i: "i < length req" "req ! i = pool"
    by (auto simp: in_set_conv_nth req_def p_def)
  then have "0 < length chars" by (cases req) (simp_all add: chars_def)
  then have "mset ?w = mset chars" unfolding w by (intro mset_shuffle) simp
  then have same: "set ?w = set chars" by (metis set_mset_mset)
  have "choice rnd i pool \<in> set chars" using i by (auto simp: chars_def)
  moreover have "choice rnd i pool \<in> set pool" using assms by (intro choice_in) (rule pools_nonempty)
  ultimately show ?thesis using same by blast
qed

lemma generated_length:
  assumes "p = (case policy of None \<Rightarrow> DEFAULT_ADMIN_PASSWORD_POLICY | Some q \<Rightarrow> q)"
  shows "max n (pp_minlen p) \<le> int (length (generate_compliant_password rnd policy n))"
proof -
  have len: "length (shuffle_from rnd k i xs) = length xs" for k i and xs :: string
    by (induction rnd k i xs rule: shuffle_from.induct) auto
  have "length (generate_compliant_password rnd policy n) =
      length (required_pools p) + nat (max (max n (pp_minlen p) - int (length (required_pools p))) 0)"
    unfolding generate_compliant_password_def Let_def assms by (simp add: len)
  then show ?thesis by linarith
qed

section \<open>Properties\<close>

abbreviation iters_text :: string where
  "iters_text \<equiv> digits 600000"

lemma iters_dollar: "CHR ''$'' \<notin> set (digits n)"
  by (auto dest!: set_digits simp: is_digit_def)

lemma split_dollar:
  "before_dollar (digits n @ ''$'' @ d) = digits n" "after_dollar (digits n @ ''$'' @ d) = d"
proof -
  have "\<forall>c \<in> set (digits n). c \<noteq> CHR ''$''" using iters_dollar by metis
  then show "before_dollar (digits n @ ''$'' @ d) = digits n" "after_dollar (digits n @ ''$'' @ d) = d"
    by (simp_all add: before_dollar_def after_dollar_def takeWhile_append2 dropWhile_append2)
qed

lemma hash_password_parts:
  assumes "hash_password salt password = Some (s, h)"
  obtains salt_bytes where "s = salt" "from_hex salt = Some salt_bytes"
    "h = iters_text @ ''$'' @ hexdigest (pbkdf2_sha256 (utf8 password) salt_bytes 600000)"
  using assms
  by (auto simp: hash_password_def pbkdf2_def PBKDF2_ITERATIONS_def show_int_def
      split: option.splits if_splits)

lemma verify_new_format:
  assumes "salt \<noteq> []" "from_hex salt = Some b"
  shows "verify_password password salt (iters_text @ ''$'' @ d) =
    Some (hexdigest (pbkdf2_sha256 (utf8 password) b 600000) = d)"
  using assms unfolding verify_password_def split_dollar parse_int_digits
  by (simp add: pbkdf2_def)

lemma own_hash_verifies:
  assumes "hash_password salt password = Some (s, h)" "salt \<noteq> []"
  shows "verify_password password s h = Some True" "\<not> needs_rehash h"
proof -
  obtain b where b: "s = salt" "from_hex salt = Some b"
    "h = iters_text @ ''$'' @ hexdigest (pbkdf2_sha256 (utf8 password) b 600000)"
    using assms(1) by (rule hash_password_parts)
  show "\<not> needs_rehash h"
    unfolding needs_rehash_def b(3) split_dollar parse_int_digits by (simp add: PBKDF2_ITERATIONS_def)
  show "verify_password password s h = Some True"
    unfolding b(1) unfolding b(3) verify_new_format [OF assms(2) b(2)] by simp
qed

lemma some_password_is_hashed:
  obtains s h where "hash_password ''00ff'' ''secret'' = Some (s, h)"
proof -
  have "from_hex ''00ff'' = Some [0, 255]" by code_simp
  then show thesis using that by (simp add: hash_password_def pbkdf2_def PBKDF2_ITERATIONS_def)
qed

text \<open>A password verifies against its own stored hash, a stored hash never needs the upgrade
  again, and another password verifies exactly when it derives the very same key.\<close>

theorem stored_password_verifies:
  assumes "hash_password salt password = Some (s, h)" "salt \<noteq> []"
  shows "verify_password password s h = Some True \<and> \<not> needs_rehash h \<and>
    (verify_password other s h = Some True \<longleftrightarrow>
      pbkdf2 other salt PBKDF2_ITERATIONS = pbkdf2 password salt PBKDF2_ITERATIONS)"
proof -
  obtain b where b: "s = salt" "from_hex salt = Some b"
    "h = iters_text @ ''$'' @ hexdigest (pbkdf2_sha256 (utf8 password) b 600000)"
    using assms(1) by (rule hash_password_parts)
  have "pbkdf2 w salt PBKDF2_ITERATIONS = Some (hexdigest (pbkdf2_sha256 (utf8 w) b 600000))" for w
    by (simp add: pbkdf2_def b(2) PBKDF2_ITERATIONS_def)
  then show ?thesis
    using own_hash_verifies [OF assms]
    unfolding b(1) unfolding b(3) verify_new_format [OF assms(2) b(2)] by simp
qed

lemma stored_password_verifies_witness:
  "\<exists>s h. hash_password ''00ff'' ''secret'' = Some (s, h) \<and> verify_password ''secret'' s h = Some True"
proof -
  obtain s h where "hash_password ''00ff'' ''secret'' = Some (s, h)" by (rule some_password_is_hashed)
  with stored_password_verifies [OF this] show ?thesis by blast
qed

text \<open>The password generator always meets the policy it was given (the default policy when it
  is given none), whatever the random draws, and is at least as long as asked and as the policy
  wants.\<close>

theorem generated_password_meets_policy:
  "validate_password_against_policy (generate_compliant_password rnd policy n)
     (case policy of None \<Rightarrow> DEFAULT_ADMIN_PASSWORD_POLICY | Some q \<Rightarrow> q) = None \<and>
   n \<le> int (length (generate_compliant_password rnd policy n))"
proof -
  define p where "p = (case policy of None \<Rightarrow> DEFAULT_ADMIN_PASSWORD_POLICY | Some q \<Rightarrow> q)"
  note len = generated_length [OF p_def, of n rnd]
  have cover: "\<exists>c \<in> set (generate_compliant_password rnd policy n). c \<in> set pool"
    if "pool \<in> set (required_pools p)" for pool
    using generated_covers [of pool policy rnd n] that by (simp only: p_def)
  have "pp_lcredit p < 0 \<Longrightarrow> list_ex is_lower (generate_compliant_password rnd policy n)"
    using cover [of ascii_lowercase] pool_classes(1) by (auto simp: list_ex_iff required_pools_def)
  moreover have "pp_ucredit p < 0 \<Longrightarrow> list_ex is_upper (generate_compliant_password rnd policy n)"
    using cover [of ascii_uppercase] pool_classes(2) by (auto simp: list_ex_iff required_pools_def)
  moreover have "pp_dcredit p < 0 \<Longrightarrow> list_ex is_digit (generate_compliant_password rnd policy n)"
    using cover [of ascii_digits] pool_classes(3) by (auto simp: list_ex_iff required_pools_def)
  moreover have "pp_ocredit p < 0 \<Longrightarrow> list_ex (\<lambda>c. \<not> is_alnum c) (generate_compliant_password rnd policy n)"
    using cover [of symbols] pool_classes(4) by (auto simp: list_ex_iff required_pools_def)
  ultimately show ?thesis
    using len unfolding validate_password_against_policy_def p_def [symmetric] by auto
qed

end
