(* ===== verification/Db_Admins.thy ===== *)
theory Db_Admins
  imports Passwords
begin

text \<open>
  Administrator accounts, their login tokens and the durable login throttle of
  \<^verbatim>\<open>backend/db.py\<close>, with the administrator password policy row.
\<close>

section \<open>Accounts\<close>

definition get_administrator :: "string \<Rightarrow> db \<Rightarrow> admin_row option" where
  "get_administrator username d = find (\<lambda>r. ad_username r = username) (administrators d)"

definition update_admins :: "string \<Rightarrow> (admin_row \<Rightarrow> admin_row) \<Rightarrow> db \<Rightarrow> db" where
  "update_admins username f d =
     d\<lparr>administrators := tb_update (\<lambda>r. ad_username r = username) f (administrators d)\<rparr>"

definition admin_present :: "string \<Rightarrow> db \<Rightarrow> bool" where
  "admin_present username d = (0 < tb_count (\<lambda>r. ad_username r = username) (administrators d))"

text \<open>The listing drops the password columns.\<close>

definition list_administrators ::
    "db \<Rightarrow> (string \<times> bool \<times> instant \<times> string option \<times> instant option \<times> string option \<times> bool) list" where
  "list_administrators d =
     map (\<lambda>r. (ad_username r, ad_must_change r, ad_created r, ad_created_by r, ad_last_login r,
              ad_role r, ad_sudo_connect r))
       (sort_key ad_created (administrators d))"

definition count_administrators :: "db \<Rightarrow> nat" where
  "count_administrators d = length (administrators d)"

definition count_administrators_by_role :: "string \<Rightarrow> db \<Rightarrow> nat" where
  "count_administrators_by_role role d =
     tb_count (\<lambda>r. ad_role r = Some role) (administrators d)"

definition set_administrator_role :: "string \<Rightarrow> string \<Rightarrow> db \<Rightarrow> bool \<times> db" where
  "set_administrator_role username role d =
     (admin_present username d, update_admins username (\<lambda>r. r\<lparr>ad_role := Some role\<rparr>) d)"

definition adopt_administrator_for_sso ::
    "string \<Rightarrow> string \<Rightarrow> string \<Rightarrow> string \<Rightarrow> db \<Rightarrow> bool \<times> db" where
  "adopt_administrator_for_sso username role password_hash password_salt d =
     (admin_present username d,
      update_admins username
        (\<lambda>r. r\<lparr>ad_created_by := Some ''sso'', ad_role := Some role, ad_hash := password_hash,
              ad_salt := password_salt, ad_must_change := False, ad_sudo_connect := False\<rparr>) d)"

definition set_administrator_sudo_connect :: "string \<Rightarrow> bool \<Rightarrow> db \<Rightarrow> bool \<times> db" where
  "set_administrator_sudo_connect username allowed d =
     (admin_present username d, update_admins username (\<lambda>r. r\<lparr>ad_sudo_connect := allowed\<rparr>) d)"

text \<open>False where the INSERT hits an existing username.\<close>

definition add_administrator ::
    "instant \<Rightarrow> string \<Rightarrow> string \<Rightarrow> string \<Rightarrow> bool \<Rightarrow> string option \<Rightarrow> string \<Rightarrow> db \<Rightarrow> bool \<times> db" where
  "add_administrator now username password_hash password_salt must_change created_by role d =
     (if tb_exists (\<lambda>r. ad_username r = username) (administrators d) then (False, d)
      else (True, d\<lparr>administrators := administrators d @
        [\<lparr>ad_username = username, ad_hash = password_hash, ad_salt = password_salt,
          ad_must_change = must_change, ad_created = now, ad_created_by = created_by,
          ad_last_login = None, ad_role = Some role, ad_sudo_connect = False\<rparr>]\<rparr>))"

definition remove_administrator :: "string \<Rightarrow> db \<Rightarrow> db" where
  "remove_administrator username d =
     d\<lparr>administrators := tb_delete (\<lambda>r. ad_username r = username) (administrators d),
       admin_tokens := tb_delete (\<lambda>r. at_username r = username) (admin_tokens d)\<rparr>"

text \<open>
  The UPDATE of the primary key fails when another row has the new name; a rename of a name
  that does not exist touches no row and succeeds.
\<close>

definition update_administrator_username :: "string \<Rightarrow> string \<Rightarrow> db \<Rightarrow> bool \<times> db" where
  "update_administrator_username old new d =
     (if old = new then (True, d)
      else if tb_exists (\<lambda>r. ad_username r = old) (administrators d) \<and>
              tb_exists (\<lambda>r. ad_username r = new) (administrators d) then (False, d)
      else (True, update_admins old (\<lambda>r. r\<lparr>ad_username := new\<rparr>) d))"

definition update_administrator_password :: "string \<Rightarrow> string \<Rightarrow> string \<Rightarrow> bool \<Rightarrow> db \<Rightarrow> db" where
  "update_administrator_password username password_hash password_salt must_change =
     update_admins username
       (\<lambda>r. r\<lparr>ad_hash := password_hash, ad_salt := password_salt, ad_must_change := must_change\<rparr>)"

definition record_administrator_login :: "instant \<Rightarrow> string \<Rightarrow> db \<Rightarrow> db" where
  "record_administrator_login now username =
     update_admins username (\<lambda>r. r\<lparr>ad_last_login := Some now\<rparr>)"

definition get_admin_password_policy :: "db \<Rightarrow> password_policy \<times> db" where
  "get_admin_password_policy d =
     (case admin_policy d of
        None \<Rightarrow> (DEFAULT_ADMIN_PASSWORD_POLICY,
                 d\<lparr>admin_policy := Some DEFAULT_ADMIN_PASSWORD_POLICY\<rparr>)
      | Some p \<Rightarrow> (p, d))"

definition set_admin_password_policy :: "password_policy \<Rightarrow> db \<Rightarrow> db" where
  "set_admin_password_policy p d = d\<lparr>admin_policy := Some p\<rparr>"

section \<open>Login tokens\<close>

definition create_admin_token :: "string \<Rightarrow> string \<Rightarrow> string \<Rightarrow> instant \<Rightarrow> db \<Rightarrow> db" where
  "create_admin_token token username role expiry d =
     d\<lparr>admin_tokens := tb_replace (\<lambda>r. at_token r = token_at_rest (Some token))
        \<lparr>at_token = token_at_rest (Some token), at_username = username, at_role = Some role,
         at_expiry = Some expiry\<rparr> (admin_tokens d)\<rparr>"

definition find_admin_token :: "string option \<Rightarrow> db \<Rightarrow> admin_token_row option" where
  "find_admin_token token d = find (\<lambda>r. at_token r = token_at_rest token) (admin_tokens d)"

definition delete_admin_token :: "string option \<Rightarrow> db \<Rightarrow> db" where
  "delete_admin_token token d =
     (if \<not> truthy token then d
      else d\<lparr>admin_tokens := tb_delete (\<lambda>r. at_token r = token_at_rest token) (admin_tokens d)\<rparr>)"

definition token_stale :: "instant \<Rightarrow> admin_token_row \<Rightarrow> db \<Rightarrow> bool" where
  "token_stale now row d =
     (if (case at_expiry row of None \<Rightarrow> 0 | Some e \<Rightarrow> e) < now then True
      else (case get_administrator (at_username row) d of None \<Rightarrow> True
            | Some acct \<Rightarrow>
                or_else (ad_role acct) ''superuser'' \<noteq> or_else (at_role row) ''superuser''))"

text \<open>The identity behind a token; a stale row is deleted on the way.\<close>

definition resolve_admin_token ::
    "instant \<Rightarrow> string option \<Rightarrow> db \<Rightarrow> (string \<times> string option) option \<times> db" where
  "resolve_admin_token now token d =
     (if \<not> truthy token then (None, d)
      else (case find_admin_token token d of None \<Rightarrow> (None, d)
            | Some row \<Rightarrow>
                if token_stale now row d
                then (None, d\<lparr>admin_tokens :=
                        tb_delete (\<lambda>r. at_token r = token_at_rest token) (admin_tokens d)\<rparr>)
                else (Some (at_username row, at_role row), d)))"

definition delete_admin_tokens_for_user :: "string \<Rightarrow> db \<Rightarrow> db" where
  "delete_admin_tokens_for_user username d =
     (if username = [] then d
      else d\<lparr>admin_tokens := tb_delete (\<lambda>r. at_username r = username) (admin_tokens d)\<rparr>)"

section \<open>Login throttle\<close>

definition find_throttle :: "string \<Rightarrow> db \<Rightarrow> throttle_row option" where
  "find_throttle key d = find (\<lambda>r. lt_key r = key) (login_throttle d)"

definition or_zero :: "rat option \<Rightarrow> rat" where
  "or_zero v = (case v of None \<Rightarrow> 0 | Some x \<Rightarrow> x)"

definition login_throttle_locked_for :: "instant \<Rightarrow> string \<Rightarrow> db \<Rightarrow> int" where
  "login_throttle_locked_for now key d =
     (if key = [] then 0
      else (case find_throttle key d of None \<Rightarrow> 0
            | Some r \<Rightarrow> (let remaining = or_zero (lt_until r) - now
                        in if 0 < remaining then py_int remaining else 0)))"

definition login_throttle_record_failure ::
    "instant \<Rightarrow> string \<Rightarrow> rat \<Rightarrow> nat \<Rightarrow> int \<Rightarrow> db \<Rightarrow> int \<times> db" where
  "login_throttle_record_failure now key window_s max_failures lockout_s d =
     (if key = [] then (0, d)
      else
        (let row = find_throttle key d;
             fails0 = (case row of None \<Rightarrow> [] | Some r \<Rightarrow> (case lt_fails r of None \<Rightarrow> [] | Some f \<Rightarrow> f));
             until0 = (case row of None \<Rightarrow> 0 | Some r \<Rightarrow> or_zero (lt_until r));
             fails1 = filter (\<lambda>t. now - t < window_s) fails0 @ [now];
             trip = (max_failures \<le> length fails1);
             until = (if trip then now + of_int lockout_s else until0);
             fails = (if trip then [] else fails1);
             locked = (if trip then lockout_s else if now < until then py_int (until - now) else 0)
         in (locked,
             d\<lparr>login_throttle := tb_upsert (\<lambda>r. lt_key r = key)
                 (\<lambda>r. r\<lparr>lt_fails := Some fails, lt_until := Some until\<rparr>)
                 \<lparr>lt_key = key, lt_fails = Some fails, lt_until = Some until\<rparr> (login_throttle d)\<rparr>)))"

definition login_throttle_clear :: "string \<Rightarrow> db \<Rightarrow> db" where
  "login_throttle_clear key d =
     (if key = [] then d
      else d\<lparr>login_throttle := tb_delete (\<lambda>r. lt_key r = key) (login_throttle d)\<rparr>)"

section \<open>Lookups\<close>

named_theorems admin_simps \<open>how the administrator operations act on a lookup\<close>

lemma get_admin_update [admin_simps]:
  assumes "\<And>r. ad_username (f r) = ad_username r"
  shows "get_administrator u (update_admins v f d) =
    (if u = v then map_option f (get_administrator u d) else get_administrator u d)"
proof -
  have "get_administrator u (update_admins v f d) =
      map_option (\<lambda>r. if ad_username r = v then f r else r) (get_administrator u d)"
    using assms by (simp add: get_administrator_def update_admins_def find_tb_update)
  then show ?thesis
    by (cases "get_administrator u d") (auto simp: get_administrator_def dest: find_SomeD)
qed

lemma update_admins_frame [simp]:
  "admin_tokens (update_admins u f d) = admin_tokens d"
  "login_throttle (update_admins u f d) = login_throttle d"
  "admin_policy (update_admins u f d) = admin_policy d"
  "admin_audit_log (update_admins u f d) = admin_audit_log d"
  "agents (update_admins u f d) = agents d"
  "agent_tasks (update_admins u f d) = agent_tasks d"
  by (simp_all add: update_admins_def)

lemma get_admin_removed [admin_simps]:
  "get_administrator u (remove_administrator v d) =
    (if u = v then None else get_administrator u d)"
  by (auto simp: get_administrator_def remove_administrator_def find_tb_delete_same
      find_tb_delete_other)

lemma get_admin_tokens_irrelevant [simp]:
  "get_administrator u (d\<lparr>admin_tokens := ts\<rparr>) = get_administrator u d"
  "get_administrator u (d\<lparr>login_throttle := th\<rparr>) = get_administrator u d"
  "get_administrator u (d\<lparr>admin_policy := p\<rparr>) = get_administrator u d"
  "count_administrators_by_role r (d\<lparr>admin_tokens := ts\<rparr>) = count_administrators_by_role r d"
  by (simp_all add: get_administrator_def count_administrators_by_role_def)

lemma find_admin_token_created [admin_simps]:
  "find_admin_token t (create_admin_token token u r e d) =
    (if token_at_rest t = token_at_rest (Some token)
     then Some \<lparr>at_token = token_at_rest (Some token), at_username = u, at_role = Some r,
                at_expiry = Some e\<rparr>
     else find_admin_token t d)"
  by (auto simp: find_admin_token_def create_admin_token_def tb_replace_def find_append
      find_tb_delete_same find_tb_delete_other split: option.split)

lemma find_admin_token_deleted [admin_simps]:
  "truthy t \<Longrightarrow> find_admin_token s (delete_admin_token t d) =
    (if token_at_rest s = token_at_rest t then None else find_admin_token s d)"
  by (auto simp: find_admin_token_def delete_admin_token_def find_tb_delete_same find_tb_delete_other)

text \<open>Resolution as one equation: who a token speaks for.\<close>

lemma resolve_iff [admin_simps]:
  "fst (resolve_admin_token now token d) = Some (u, r) \<longleftrightarrow>
     truthy token \<and>
     (\<exists>row. find_admin_token token d = Some row \<and> at_username row = u \<and> at_role row = r \<and>
        \<not> token_stale now row d)"
  by (auto simp: resolve_admin_token_def split: option.splits)

lemma resolve_tokens_subset:
  "set (admin_tokens (snd (resolve_admin_token now token d))) \<subseteq> set (admin_tokens d)"
  by (auto simp: resolve_admin_token_def set_tb_delete split: option.splits)

lemma resolve_frame [simp]:
  "administrators (snd (resolve_admin_token now token d)) = administrators d"
  "agents (snd (resolve_admin_token now token d)) = agents d"
  "agent_tasks (snd (resolve_admin_token now token d)) = agent_tasks d"
  "agent_results (snd (resolve_admin_token now token d)) = agent_results d"
  "task_seq (snd (resolve_admin_token now token d)) = task_seq d"
  "activity_log (snd (resolve_admin_token now token d)) = activity_log d"
  "admin_audit_log (snd (resolve_admin_token now token d)) = admin_audit_log d"
  by (auto simp: resolve_admin_token_def split: option.split)

lemma schema_ok_tokens_delete [schema_simps]:
  "schema_ok d \<Longrightarrow> schema_ok (d\<lparr>admin_tokens := tb_delete p (admin_tokens d)\<rparr>)"
  by (simp add: schema_ok_def keyed_delete)

lemma schema_ok_resolve [schema_simps]:
  "schema_ok d \<Longrightarrow> schema_ok (snd (resolve_admin_token now token d))"
  by (auto simp: resolve_admin_token_def schema_simps split: option.split)

lemma schema_ok_update_admins [schema_simps]:
  "(\<And>r. ad_username (f r) = ad_username r) \<Longrightarrow> schema_ok (update_admins u f d) = schema_ok d"
  by (simp add: schema_ok_def update_admins_def keyed_update)

lemma schema_ok_add_admin [schema_simps]:
  "schema_ok d \<Longrightarrow> schema_ok (snd (add_administrator now u h s m c r d))"
  by (auto simp: add_administrator_def schema_ok_def keyed_append tb_exists_iff)

lemma schema_ok_remove_admin [schema_simps]:
  "schema_ok d \<Longrightarrow> schema_ok (remove_administrator u d)"
  by (simp add: remove_administrator_def schema_ok_def keyed_delete)

lemma schema_ok_create_token [schema_simps]:
  "schema_ok d \<Longrightarrow> schema_ok (create_admin_token t u r e d)"
  by (simp add: create_admin_token_def schema_ok_def keyed_replace)

lemma find_throttle_recorded [admin_simps]:
  assumes "key \<noteq> []"
  shows "find_throttle k (snd (login_throttle_record_failure now key w m l d)) =
   (if k = key then
      (let fails0 = (case find_throttle key d of None \<Rightarrow> []
                     | Some r \<Rightarrow> (case lt_fails r of None \<Rightarrow> [] | Some f \<Rightarrow> f));
           until0 = (case find_throttle key d of None \<Rightarrow> 0 | Some r \<Rightarrow> or_zero (lt_until r));
           fails1 = filter (\<lambda>t. now - t < w) fails0 @ [now];
           trip = (m \<le> length fails1)
       in Some \<lparr>lt_key = key, lt_fails = Some (if trip then [] else fails1),
                lt_until = Some (if trip then now + of_int l else until0)\<rparr>)
    else find_throttle k d)"
proof (cases "k = key")
  case True
  show ?thesis
    unfolding login_throttle_record_failure_def find_throttle_def Let_def
    using assms True by (auto simp: find_upsert_same split: option.split dest: find_SomeD)
next
  case False
  then show ?thesis
    unfolding login_throttle_record_failure_def find_throttle_def Let_def
    using assms by (simp add: find_upsert_other)
qed

lemma find_throttle_cleared [admin_simps]:
  "key \<noteq> [] \<Longrightarrow> find_throttle k (login_throttle_clear key d) =
    (if k = key then None else find_throttle k d)"
  by (auto simp: find_throttle_def login_throttle_clear_def find_tb_delete_same find_tb_delete_other)

end
