(* ===== verification/Audit_Chain.thy ===== *)
theory Audit_Chain
  imports Db_State
begin

text \<open>
  The tamper-evident hash chain shared by the two audit tables of \<^verbatim>\<open>backend/db.py\<close>: the
  length-prefixed payload, the keyed or plain digest, the verification walk, and the high-water
  mark that makes a cut of the newest rows visible.
\<close>

section \<open>Payload and digest\<close>

text \<open>Every field behind its 4-byte big-endian length.\<close>

definition field_bytes :: "string \<Rightarrow> bytes" where
  "field_bytes f = (let b = utf8 f in be_bytes 4 (word_of_nat (length b) :: w32) @ b)"

definition digest_payload :: "string list \<Rightarrow> bytes" where
  "digest_payload cells = concat (map field_bytes cells)"

definition algo_name :: "hash_algo \<Rightarrow> string" where
  "algo_name a = (case a of Sha256 \<Rightarrow> ''sha256'' | Hmac_Sha256 \<Rightarrow> ''hmac-sha256'')"

text \<open>A key is used when it is a non-empty byte string.\<close>

definition key_present :: "bytes option \<Rightarrow> bool" where
  "key_present key = (case key of None \<Rightarrow> False | Some k \<Rightarrow> k \<noteq> [])"

definition chain_digest :: "hash_algo \<Rightarrow> bytes option \<Rightarrow> bytes \<Rightarrow> string" where
  "chain_digest algo key payload =
     (if algo = Hmac_Sha256 \<and> key_present key then hexdigest (hmac_sha256 (the key) payload)
      else hexdigest (sha256 payload))"

definition algo_for :: "bytes option \<Rightarrow> hash_algo" where
  "algo_for key = (if key_present key then Hmac_Sha256 else Sha256)"

section \<open>The verification walk\<close>

text \<open>
  One hashed row as the walk sees it: its id, stored previous hash, stored hash, algorithm, and
  the digest recomputed from its content.
\<close>

record link =
  ln_id :: int
  ln_prev :: string
  ln_entry :: string
  ln_algo :: hash_algo
  ln_digest :: string

record verdict =
  vd_ok :: bool
  vd_checked :: nat
  vd_broken_at :: "int option"
  vd_keyed :: bool
  vd_truncated_head :: "int option"

fun chain_walk :: "bool \<Rightarrow> string option \<Rightarrow> bool \<Rightarrow> bool \<Rightarrow> nat \<Rightarrow> link list \<Rightarrow> verdict" where
  "chain_walk keyp expected seen_keyed all_keyed checked [] =
     \<lparr>vd_ok = True, vd_checked = checked, vd_broken_at = None,
      vd_keyed = (0 < checked \<and> all_keyed), vd_truncated_head = None\<rparr>"
| "chain_walk keyp expected seen_keyed all_keyed checked (r # rs) =
     (let broken = \<lparr>vd_ok = False, vd_checked = checked, vd_broken_at = Some (ln_id r),
                    vd_keyed = False, vd_truncated_head = None\<rparr>;
          is_keyed = (ln_algo r = Hmac_Sha256)
      in if (case expected of None \<Rightarrow> False | Some e \<Rightarrow> ln_prev r \<noteq> e) then broken
         else if is_keyed \<and> \<not> keyp then broken
         else if \<not> is_keyed \<and> seen_keyed then broken
         else if ln_digest r \<noteq> ln_entry r then broken
         else chain_walk keyp (Some (ln_entry r)) (seen_keyed \<or> is_keyed) (all_keyed \<and> is_keyed)
                (Suc checked) rs)"

text \<open>The final step: a recorded head above the newest row means the tail was cut.\<close>

definition check_head :: "int option \<Rightarrow> int \<Rightarrow> verdict \<Rightarrow> verdict" where
  "check_head head actual_max v =
     (if \<not> vd_ok v then v
      else (case head of None \<Rightarrow> v
            | Some h \<Rightarrow> if h > actual_max
                then v\<lparr>vd_ok := False, vd_broken_at := Some actual_max, vd_truncated_head := Some h\<rparr>
                else v))"

section \<open>High-water marks\<close>

definition chain_head_last_id :: "string \<Rightarrow> db \<Rightarrow> int option" where
  "chain_head_last_id chain d =
     map_option ch_last_id (find (\<lambda>r. ch_chain r = chain) (chain_heads d))"

text \<open>The mark only advances; the fallback INSERT does nothing when the chain has a mark.\<close>

definition bump_chain_head :: "instant \<Rightarrow> string \<Rightarrow> int \<Rightarrow> string \<Rightarrow> db \<Rightarrow> db" where
  "bump_chain_head now chain last_id last_entry d =
     (let hit = (\<lambda>r. ch_chain r = chain \<and> ch_last_id r \<le> last_id)
      in if 0 < tb_count hit (chain_heads d)
         then d\<lparr>chain_heads := tb_update hit
                (\<lambda>r. r\<lparr>ch_last_id := last_id, ch_last_entry := last_entry, ch_updated := now\<rparr>)
                (chain_heads d)\<rparr>
         else if tb_exists (\<lambda>r. ch_chain r = chain) (chain_heads d) then d
         else d\<lparr>chain_heads := chain_heads d @
                [\<lparr>ch_chain = chain, ch_last_id = last_id, ch_last_entry = last_entry,
                  ch_updated = now\<rparr>]\<rparr>)"

definition seed_chain_head :: "instant \<Rightarrow> string \<Rightarrow> int \<Rightarrow> string \<Rightarrow> db \<Rightarrow> db" where
  "seed_chain_head now chain last_id last_entry d =
     d\<lparr>chain_heads := tb_upsert (\<lambda>r. ch_chain r = chain)
        (\<lambda>r. r\<lparr>ch_last_id := last_id, ch_last_entry := last_entry, ch_updated := now\<rparr>)
        \<lparr>ch_chain = chain, ch_last_id = last_id, ch_last_entry = last_entry, ch_updated = now\<rparr>
        (chain_heads d)\<rparr>"

section \<open>What a verified chain satisfies\<close>

text \<open>The condition the walk checks at one row.\<close>

definition link_ok :: "bool \<Rightarrow> string option \<Rightarrow> bool \<Rightarrow> link \<Rightarrow> bool" where
  "link_ok keyp expected seen r =
     ((case expected of None \<Rightarrow> True | Some e \<Rightarrow> ln_prev r = e) \<and>
      (ln_algo r = Hmac_Sha256 \<longrightarrow> keyp) \<and> (ln_algo r \<noteq> Hmac_Sha256 \<longrightarrow> \<not> seen) \<and>
      ln_digest r = ln_entry r)"

fun chain_good :: "bool \<Rightarrow> string option \<Rightarrow> bool \<Rightarrow> link list \<Rightarrow> bool" where
  "chain_good keyp expected seen [] = True"
| "chain_good keyp expected seen (r # rs) =
     (link_ok keyp expected seen r \<and>
      chain_good keyp (Some (ln_entry r)) (seen \<or> ln_algo r = Hmac_Sha256) rs)"

lemma walk_step:
  "chain_walk keyp e seen ak n (r # rs) =
    (if link_ok keyp e seen r
     then chain_walk keyp (Some (ln_entry r)) (seen \<or> ln_algo r = Hmac_Sha256)
            (ak \<and> ln_algo r = Hmac_Sha256) (Suc n) rs
     else \<lparr>vd_ok = False, vd_checked = n, vd_broken_at = Some (ln_id r), vd_keyed = False,
           vd_truncated_head = None\<rparr>)"
  by (cases "ln_algo r = Hmac_Sha256"; cases keyp; cases e) (simp_all add: Let_def link_ok_def)

declare chain_walk.simps(2) [simp del]

lemma walk_ok [simp]: "vd_ok (chain_walk keyp e seen ak n rs) = chain_good keyp e seen rs"
  by (induction rs arbitrary: e seen ak n) (simp_all add: walk_step)

lemma walk_keyed:
  "vd_keyed (chain_walk keyp e seen ak n rs) \<Longrightarrow> ak \<and> (\<forall>r \<in> set rs. ln_algo r = Hmac_Sha256)"
  by (induction rs arbitrary: e seen ak n) (auto simp: walk_step split: if_splits)

lemma walk_head [simp]: "vd_truncated_head (chain_walk keyp e seen ak n rs) = None"
  by (induction rs arbitrary: e seen ak n) (simp_all add: walk_step)

lemma check_head_ok [simp]:
  "vd_ok (check_head head m v) \<longleftrightarrow> vd_ok v \<and> (case head of None \<Rightarrow> True | Some h \<Rightarrow> h \<le> m)"
  by (auto simp: check_head_def split: option.split)

lemma check_head_keyed [simp]: "vd_keyed (check_head head m v) = vd_keyed v"
  by (simp add: check_head_def split: option.split)

lemma link_ok_weaken: "link_ok keyp expected seen r \<Longrightarrow> link_ok keyp None False r"
  by (simp add: link_ok_def)

lemma chain_good_seen: "chain_good keyp e seen rs \<Longrightarrow> (seen' \<longrightarrow> seen) \<Longrightarrow> chain_good keyp e seen' rs"
  by (induction rs arbitrary: e seen seen') (auto simp: link_ok_def)

lemma chain_good_start: "chain_good keyp e seen rs \<Longrightarrow> chain_good keyp None False rs"
proof (cases rs)
  case (Cons r rs')
  then show "chain_good keyp e seen rs \<Longrightarrow> chain_good keyp None False rs"
    by (auto intro: link_ok_weaken chain_good_seen)
qed simp

lemma chain_good_suffix: "chain_good keyp e seen (xs @ ys) \<Longrightarrow> chain_good keyp None False ys"
proof (induction xs arbitrary: e seen)
  case Nil
  then show ?case by (auto intro: chain_good_start)
qed auto

text \<open>Appending one more link: it must continue from the last stored hash.\<close>

lemma chain_good_snoc:
  "chain_good keyp e seen (rs @ [r]) \<longleftrightarrow>
     chain_good keyp e seen rs \<and>
     link_ok keyp (if rs = [] then e else Some (ln_entry (last rs)))
       (seen \<or> (\<exists>x \<in> set rs. ln_algo x = Hmac_Sha256)) r"
  by (induction rs arbitrary: e seen) (auto simp: disj_assoc)

section \<open>The payload is injective\<close>

text \<open>The length prefix determines where a field ends, for fields below 4 GiB.\<close>

definition fits :: "string \<Rightarrow> bool" where
  "fits f = (length f < 2 ^ 32)"

lemma be_bytes4_inj:
  assumes "be_bytes 4 v = be_bytes 4 (w :: w32)"
  shows "v = w"
proof -
  have idx: "rev [0..<4] = [3, 2, 1, 0 :: nat]" by (simp add: upt_rec)
  from assms have b: "ucast (drop_bit (8 * i) v) = (ucast (drop_bit (8 * i) w) :: 8 word)"
    if "i \<in> {0, 1, 2, 3}" for i :: nat
    using that unfolding be_bytes_def idx by auto
  have "bit v n = bit w n" for n
  proof (cases "n < 32")
    case True
    define i where "i = n div 8"
    have i: "i \<in> {0, 1, 2, 3}" and n: "n = 8 * i + n mod 8" "n mod 8 < 8"
      using True by (auto simp: i_def)
    have "bit (ucast (drop_bit (8 * i) v) :: 8 word) (n mod 8) =
        bit (ucast (drop_bit (8 * i) w) :: 8 word) (n mod 8)"
      using b [OF i] by simp
    then show ?thesis using n
      by (simp add: bit_unsigned_iff bit_drop_bit_eq)
  next
    case False
    then show ?thesis by (simp add: impossible_bit)
  qed
  then show ?thesis by (simp add: bit_eq_iff)
qed

lemma field_bytes_inj:
  assumes "field_bytes f @ r = field_bytes g @ s" "fits f" "fits g"
  shows "f = g \<and> r = s"
proof -
  have "be_bytes 4 (word_of_nat (length f) :: w32) = be_bytes 4 (word_of_nat (length g) :: w32)"
    and tl: "utf8 f @ r = utf8 g @ s"
    using assms(1) by (simp_all add: field_bytes_def Let_def)
  then have "(word_of_nat (length f) :: w32) = word_of_nat (length g)"
    using be_bytes4_inj by blast
  then have "length f = length g"
    using assms(2,3) by (simp add: fits_def word_of_nat_eq_iff take_bit_eq_mod)
  with tl show ?thesis by simp
qed

lemma digest_payload_inj:
  assumes "digest_payload fs = digest_payload gs"
    and "list_all fits fs" "list_all fits gs" "length fs = length gs"
  shows "fs = gs"
  using assms
proof (induction fs arbitrary: gs)
  case Nil
  then show ?case by simp
next
  case (Cons f fs)
  then obtain g gs' where gs: "gs = g # gs'" by (cases gs) auto
  with Cons.prems have "f = g \<and> digest_payload fs = digest_payload gs'"
    by (intro field_bytes_inj) (auto simp: digest_payload_def)
  with Cons gs show ?case by auto
qed

lemma hex_pair_inj:
  assumes "hex_chars ! (a div 16) = hex_chars ! (b div 16)" "hex_chars ! (a mod 16) = hex_chars ! (b mod 16)"
    and "a < 256" "b < 256"
  shows "a = (b :: nat)"
proof -
  have d: "distinct hex_chars" "length hex_chars = 16" by (simp_all add: hex_chars_def)
  have "a div 16 < 16" "b div 16 < 16" using assms by auto
  then have "a div 16 = b div 16" "a mod 16 = b mod 16"
    using assms(1,2) d by (auto simp: nth_eq_iff_index_eq)
  then show ?thesis by (metis div_mult_mod_eq)
qed

lemma hexdigest_inj: "hexdigest x = hexdigest y \<Longrightarrow> x = y"
proof (induction x arbitrary: y)
  case Nil
  then show ?case by (cases y) (auto simp: hexdigest_def)
next
  case (Cons b x)
  then obtain c y' where y: "y = c # y'" by (cases y) (auto simp: hexdigest_def)
  with Cons.prems have
    h: "hex_chars ! (unat b div 16) = hex_chars ! (unat c div 16)"
      "hex_chars ! (unat b mod 16) = hex_chars ! (unat c mod 16)"
    and rest: "hexdigest x = hexdigest y'"
    by (simp_all add: hexdigest_def)
  have "unat w < 256" for w :: "8 word" using unsigned_less [of w, where 'a = nat] by simp
  then have "unat b = unat c" using hex_pair_inj h by blast
  then have "b = c" by (rule word_unat_eq_iff [THEN iffD2])
  with Cons.IH [OF rest] y show ?case by simp
qed

end
