(* ===== verification/Db_Audit.thy ===== *)
theory Db_Audit
  imports Audit_Chain
begin

text \<open>
  The two audit tables of \<^verbatim>\<open>backend/db.py\<close> on the shared chain: appending
  (\<open>log_activity\<close>, \<open>log_admin_audit\<close>), verification, the one-time backfill, the activity
  feed's paging.  The HMAC key (\<open>_audit_key\<close>) and the strict mode (\<open>_audit_required\<close>) are
  arguments, and so is the redaction of secrets, for which every function is allowed.
\<close>

definition ACTIVITY_GENESIS :: string where
  "ACTIVITY_GENESIS = ''sysible-activity-genesis-v1''"

definition ADMIN_AUDIT_GENESIS :: string where
  "ADMIN_AUDIT_GENESIS = ''sysible-admin-audit-genesis-v1''"

definition ACTIVITY_LOG_MAX_ROWS :: int where
  "ACTIVITY_LOG_MAX_ROWS = 500000"

datatype audit_error = AuditKeyUnavailable

section \<open>Digests of rows\<close>

definition activity_payload ::
    "string \<Rightarrow> instant \<Rightarrow> string \<Rightarrow> string \<Rightarrow> string \<Rightarrow> string \<Rightarrow> hash_algo \<Rightarrow> bytes" where
  "activity_payload prev ts username host description command algo =
     digest_payload [algo_name algo, prev, fmt6 ts, username, host, description, command]"

definition activity_digest ::
    "string \<Rightarrow> instant \<Rightarrow> string \<Rightarrow> string \<Rightarrow> string \<Rightarrow> string \<Rightarrow> hash_algo \<Rightarrow> bytes option \<Rightarrow> string" where
  "activity_digest prev ts username host description command algo key =
     chain_digest algo key (activity_payload prev ts username host description command algo)"

definition admin_audit_digest ::
    "string \<Rightarrow> instant \<Rightarrow> string \<Rightarrow> string \<Rightarrow> string \<Rightarrow> hash_algo \<Rightarrow> bytes option \<Rightarrow> string" where
  "admin_audit_digest prev ts event username detail algo key =
     chain_digest algo key
       (digest_payload [algo_name algo, prev, fmt6 ts, event, username, detail])"

section \<open>Appending\<close>

text \<open>The stored hash of the newest row, or the genesis value.\<close>

definition prev_hash :: "string \<Rightarrow> ('r \<Rightarrow> int) \<Rightarrow> ('r \<Rightarrow> string option) \<Rightarrow> 'r list \<Rightarrow> string" where
  "prev_hash genesis ident entry rows =
     (case rev (sort_key ident rows) of [] \<Rightarrow> genesis | r # _ \<Rightarrow> or_else (entry r) genesis)"

definition log_activity ::
    "bytes option \<Rightarrow> bool \<Rightarrow> (string \<Rightarrow> string) \<Rightarrow> instant \<Rightarrow> string option \<Rightarrow> string option \<Rightarrow>
     string option \<Rightarrow> string option \<Rightarrow> string option \<Rightarrow> db \<Rightarrow> audit_error + db" where
  "log_activity key required redact ts username host description command source d =
     (let uname = or_else username ''(unknown)''; h = or_else host []; desc = or_else description [];
          cmd = redact (or_else command []); algo = algo_for key
      in if \<not> key_present key \<and> required then Inl AuditKeyUnavailable
         else
          (let prev = prev_hash ACTIVITY_GENESIS ac_id ac_entry (activity_log d);
               entry = activity_digest prev ts uname h desc cmd algo key;
               i = activity_seq d + 1;
               row = \<lparr>ac_id = i, ac_timestamp = ts, ac_username = uname, ac_host = h,
                      ac_description = desc, ac_command = cmd,
                      ac_source = Some (or_else source ''api''), ac_prev = Some prev,
                      ac_entry = Some entry, ac_algo = algo\<rparr>;
               d1 = d\<lparr>activity_log := activity_log d @ [row], activity_seq := i\<rparr>;
               cutoff = i - ACTIVITY_LOG_MAX_ROWS;
               d2 = (if 0 < ACTIVITY_LOG_MAX_ROWS \<and> 0 < cutoff
                     then d1\<lparr>activity_log := tb_delete (\<lambda>r. ac_id r \<le> cutoff) (activity_log d1)\<rparr>
                     else d1)
           in Inr (bump_chain_head ts ''activity'' i entry d2)))"

definition log_admin_audit ::
    "bytes option \<Rightarrow> bool \<Rightarrow> instant \<Rightarrow> string option \<Rightarrow> string option \<Rightarrow> string option \<Rightarrow> db \<Rightarrow>
     audit_error + db" where
  "log_admin_audit key required ts event username detail d =
     (let ev = or_else event []; uname = or_else username []; det = or_else detail [];
          algo = algo_for key
      in if \<not> key_present key \<and> required then Inl AuditKeyUnavailable
         else
          (let prev = prev_hash ADMIN_AUDIT_GENESIS au_id au_entry (admin_audit_log d);
               entry = admin_audit_digest prev ts ev uname det algo key;
               i = audit_seq d + 1;
               row = \<lparr>au_id = i, au_timestamp = ts, au_event = ev, au_username = uname,
                      au_detail = det, au_prev = Some prev, au_entry = Some entry, au_algo = algo\<rparr>
           in Inr (bump_chain_head ts ''admin_audit'' i entry
                (d\<lparr>admin_audit_log := admin_audit_log d @ [row], audit_seq := i\<rparr>))))"

section \<open>Verification\<close>

definition activity_link :: "bytes option \<Rightarrow> activity_row \<Rightarrow> link" where
  "activity_link key r =
     \<lparr>ln_id = ac_id r, ln_prev = or_else (ac_prev r) [], ln_entry = or_else (ac_entry r) [],
      ln_algo = ac_algo r,
      ln_digest = activity_digest (or_else (ac_prev r) []) (ac_timestamp r) (ac_username r)
        (ac_host r) (ac_description r) (ac_command r) (ac_algo r) key\<rparr>"

definition audit_link :: "bytes option \<Rightarrow> audit_row \<Rightarrow> link" where
  "audit_link key r =
     \<lparr>ln_id = au_id r, ln_prev = or_else (au_prev r) [], ln_entry = or_else (au_entry r) [],
      ln_algo = au_algo r,
      ln_digest = admin_audit_digest (or_else (au_prev r) []) (au_timestamp r) (au_event r)
        (au_username r) (au_detail r) (au_algo r) key\<rparr>"

definition hashed_activity :: "db \<Rightarrow> activity_row list" where
  "hashed_activity d = sort_key ac_id (filter (\<lambda>r. ac_entry r \<noteq> None) (activity_log d))"

definition hashed_audit :: "db \<Rightarrow> audit_row list" where
  "hashed_audit d = sort_key au_id (filter (\<lambda>r. au_entry r \<noteq> None) (admin_audit_log d))"

definition last_id :: "('r \<Rightarrow> int) \<Rightarrow> 'r list \<Rightarrow> int" where
  "last_id ident rows = (if rows = [] then 0 else ident (last rows))"

definition verify_activity_chain :: "bytes option \<Rightarrow> db \<Rightarrow> verdict" where
  "verify_activity_chain key d =
     (let rows = hashed_activity d
      in check_head (chain_head_last_id ''activity'' d) (last_id ac_id rows)
           (chain_walk (key_present key) None False True 0 (map (activity_link key) rows)))"

definition verify_admin_audit_chain :: "bytes option \<Rightarrow> db \<Rightarrow> verdict" where
  "verify_admin_audit_chain key d =
     (let rows = hashed_audit d
      in check_head (chain_head_last_id ''admin_audit'' d) (last_id au_id rows)
           (chain_walk (key_present key) None False True 0 (map (audit_link key) rows)))"

section \<open>Backfill of a table that predates the chain\<close>

fun rechain_activity ::
    "bytes option \<Rightarrow> string \<Rightarrow> activity_row list \<Rightarrow> activity_row list" where
  "rechain_activity key prev [] = []"
| "rechain_activity key prev (r # rs) =
     (let algo = algo_for key;
          entry = activity_digest prev (ac_timestamp r) (ac_username r) (ac_host r)
                    (ac_description r) (ac_command r) algo key
      in r\<lparr>ac_prev := Some prev, ac_entry := Some entry, ac_algo := algo\<rparr>
           # rechain_activity key entry rs)"

fun rechain_audit :: "bytes option \<Rightarrow> string \<Rightarrow> audit_row list \<Rightarrow> audit_row list" where
  "rechain_audit key prev [] = []"
| "rechain_audit key prev (r # rs) =
     (let algo = algo_for key;
          entry = admin_audit_digest prev (au_timestamp r) (au_event r) (au_username r)
                    (au_detail r) algo key
      in r\<lparr>au_prev := Some prev, au_entry := Some entry, au_algo := algo\<rparr>
           # rechain_audit key entry rs)"

definition backfill_activity :: "bytes option \<Rightarrow> instant \<Rightarrow> db \<Rightarrow> db" where
  "backfill_activity key now d =
     (if activity_log d \<noteq> [] \<and> \<not> list_ex (\<lambda>r. ac_entry r \<noteq> None) (activity_log d)
      then (let rows = rechain_activity key ACTIVITY_GENESIS (sort_key ac_id (activity_log d))
            in seed_chain_head now ''activity'' (last_id ac_id rows)
                 (or_else (ac_entry (last rows)) []) (d\<lparr>activity_log := rows\<rparr>))
      else d)"

definition backfill_audit :: "bytes option \<Rightarrow> instant \<Rightarrow> db \<Rightarrow> db" where
  "backfill_audit key now d =
     (if admin_audit_log d \<noteq> [] \<and> \<not> list_ex (\<lambda>r. au_entry r \<noteq> None) (admin_audit_log d)
      then (let rows = rechain_audit key ADMIN_AUDIT_GENESIS (sort_key au_id (admin_audit_log d))
            in seed_chain_head now ''admin_audit'' (last_id au_id rows)
                 (or_else (au_entry (last rows)) []) (d\<lparr>admin_audit_log := rows\<rparr>))
      else d)"

definition backfill_audit_chains :: "bytes option \<Rightarrow> instant \<Rightarrow> db \<Rightarrow> db" where
  "backfill_audit_chains key now d = backfill_audit key now (backfill_activity key now d)"

section \<open>Reading\<close>

definition row_source :: "activity_row \<Rightarrow> string" where
  "row_source r = (case ac_source r of None \<Rightarrow> ''api'' | Some s \<Rightarrow> s)"

definition get_activity_log :: "nat \<Rightarrow> int \<Rightarrow> string option \<Rightarrow> db \<Rightarrow> activity_row list" where
  "get_activity_log n since_id source d =
     (let wanted = (\<lambda>r. if source \<in> {Some ''user'', Some ''api'', Some ''automation''}
                        then Some (row_source r) = source else True);
          rows = sort_key ac_id (filter wanted (activity_log d))
      in if 0 < since_id then rev (take n (filter (\<lambda>r. since_id < ac_id r) rows))
         else take n (rev rows))"

definition get_admin_audit_log :: "nat \<Rightarrow> db \<Rightarrow> audit_row list" where
  "get_admin_audit_log n d = take n (sort_key (\<lambda>r. - au_timestamp r) (admin_audit_log d))"

section \<open>Well-formed logs\<close>

text \<open>
  What every table written by \<open>log_activity\<close> satisfies: ids strictly increase in insertion
  order, none exceeds the sequence, and every row carries its hash.
\<close>

definition ids_increasing :: "('r \<Rightarrow> int) \<Rightarrow> int \<Rightarrow> 'r list \<Rightarrow> bool" where
  "ids_increasing ident s rows =
     (sorted_wrt (<) (map ident rows) \<and> (\<forall>r \<in> set rows. 0 < ident r \<and> ident r \<le> s) \<and> 0 \<le> s)"

lemma sorted_wrt_sort_key: "sorted_wrt (<) (map ident rows) \<Longrightarrow> sort_key ident rows = rows"
  for ident :: "'r \<Rightarrow> int"
  by (simp add: sort_key_id_if_sorted strict_sorted_imp_sorted)

lemma ids_increasing_snoc:
  "ids_increasing ident s rows \<Longrightarrow> ident r = s + 1 \<Longrightarrow> ids_increasing ident (s + 1) (rows @ [r])"
  by (force simp: ids_increasing_def sorted_wrt_append)

lemma ids_increasing_delete:
  "ids_increasing ident s rows \<Longrightarrow> ids_increasing ident s (tb_delete p rows)"
  by (auto simp: ids_increasing_def tb_delete_def sorted_wrt_map sorted_wrt_filter)

lemma ids_increasing_trim:
  assumes "ids_increasing ident s rows"
  shows "\<exists>pre. rows = pre @ tb_delete (\<lambda>r. ident r \<le> c) rows"
proof -
  have "sorted_wrt (<) (map ident rows)" using assms by (simp add: ids_increasing_def)
  then have "tb_delete (\<lambda>r. ident r \<le> c) rows = dropWhile (\<lambda>r. ident r \<le> c) rows"
  proof (induction rows)
    case (Cons r rows)
    then have "tb_delete (\<lambda>r. ident r \<le> c) rows = rows" if "\<not> ident r \<le> c"
      unfolding tb_delete_def filter_id_conv
      using Cons.prems that by fastforce
    with Cons show ?case by (auto simp: tb_delete_def)
  qed (simp add: tb_delete_def)
  then show ?thesis by (metis takeWhile_dropWhile_id)
qed

section \<open>What appending leaves alone\<close>

text \<open>An append touches its own table, its sequence and the chain heads.\<close>

lemma bump_chain_head_state:
  "bump_chain_head now chain i e d =
    d\<lparr>chain_heads := chain_heads (bump_chain_head now chain i e d)\<rparr>"
  by (simp add: bump_chain_head_def Let_def)

lemma log_activity_state:
  assumes "log_activity key req red ts u h de co so d = Inr d'"
  shows "d' = d\<lparr>activity_log := activity_log d', activity_seq := activity_seq d',
                chain_heads := chain_heads d'\<rparr>"
  using assms
  by (simp add: log_activity_def Let_def bump_chain_head_def split: if_splits; elim subst; simp)

lemma log_admin_audit_state:
  assumes "log_admin_audit key req ts ev u de d = Inr d'"
  shows "d' = d\<lparr>admin_audit_log := admin_audit_log d', audit_seq := audit_seq d',
                chain_heads := chain_heads d'\<rparr>"
  using assms
  by (simp add: log_admin_audit_def Let_def bump_chain_head_def split: if_splits; elim subst; simp)

text \<open>The tables other components read; one bundle for both logs.\<close>

definition same_business :: "db \<Rightarrow> db \<Rightarrow> bool" where
  "same_business d d' =
     (agents d' = agents d \<and> host_health d' = host_health d \<and> environments d' = environments d \<and>
      enroll_tokens d' = enroll_tokens d \<and> enrollment_control d' = enrollment_control d \<and>
      enroll_allowlist d' = enroll_allowlist d \<and> administrators d' = administrators d \<and>
      admin_tokens d' = admin_tokens d \<and> login_throttle d' = login_throttle d \<and>
      admin_policy d' = admin_policy d \<and> portal_sessions d' = portal_sessions d \<and>
      portal_credentials d' = portal_credentials d \<and>
      agent_tasks d' = agent_tasks d \<and> task_seq d' = task_seq d \<and>
      agent_results d' = agent_results d \<and> result_seq d' = result_seq d)"

lemma same_business_refl [simp]: "same_business d d"
  by (simp add: same_business_def)

lemma same_business_schema: "same_business d d' \<Longrightarrow> schema_ok d' = schema_ok d"
  by (simp add: same_business_def schema_ok_def)

lemma log_activity_business:
  "log_activity key req red ts u h de co so d = Inr d' \<Longrightarrow> same_business d d'"
  by (subst log_activity_state, assumption) (simp add: same_business_def)

lemma log_admin_audit_business:
  "log_admin_audit key req ts ev u de d = Inr d' \<Longrightarrow> same_business d d'"
  by (subst log_admin_audit_state, assumption) (simp add: same_business_def)

end
