(* ===== verification/Db_Config.thy ===== *)
theory Db_Config
  imports Db_Audit Py_IpAddress
begin

text \<open>
  The configuration tables of \<^verbatim>\<open>backend/db.py\<close> (environments, relay, controller address,
  licence, portal port, environmental policy) and the start-up function \<open>init_db\<close> on an
  existing database.  The addresses of the machine (\<^verbatim>\<open>detect_local_ips\<close>) are arguments.
\<close>

section \<open>Environments\<close>

definition list_environments :: "db \<Rightarrow> string list" where
  "list_environments d = map en_name (sort_key en_created (environments d))"

definition list_environment_sudo_defaults :: "db \<Rightarrow> (string \<times> bool) list" where
  "list_environment_sudo_defaults d = map (\<lambda>e. (en_name e, en_requires_sudo e)) (environments d)"

definition set_environment_sudo_default :: "string \<Rightarrow> bool \<Rightarrow> db \<Rightarrow> bool \<times> db" where
  "set_environment_sudo_default name required d =
     (0 < tb_count (\<lambda>e. en_name e = name) (environments d),
      d\<lparr>environments := tb_update (\<lambda>e. en_name e = name)
          (\<lambda>e. e\<lparr>en_requires_sudo := required\<rparr>) (environments d)\<rparr>)"

text \<open>\<open>INSERT OR IGNORE\<close>.\<close>

definition create_environment :: "instant \<Rightarrow> string \<Rightarrow> db \<Rightarrow> db" where
  "create_environment now name d =
     (if tb_exists (\<lambda>e. en_name e = name) (environments d) then d
      else d\<lparr>environments := environments d @
               [\<lparr>en_name = name, en_created = now, en_requires_sudo = False\<rparr>]\<rparr>)"

definition delete_environment :: "string \<Rightarrow> db \<Rightarrow> db" where
  "delete_environment name d =
     d\<lparr>environments := tb_delete (\<lambda>e. en_name e = name) (environments d)\<rparr>"

section \<open>Relay, licence, portal port, environmental policy\<close>

text \<open>The relay row's six columns, in the order of \<^verbatim>\<open>_RELAY_CONFIG_COLS\<close>.\<close>

definition get_relay_config :: "db \<Rightarrow> (string \<times> string) list" where
  "get_relay_config d =
     (case relay_config d of None \<Rightarrow> []
      | Some r \<Rightarrow> [(''relay_host'', rc_relay_host r), (''relay_user'', rc_relay_user r),
                   (''relay_port'', rc_relay_port r), (''relay_identity'', rc_relay_identity r),
                   (''route_allowlist'', rc_route_allowlist r), (''relay_os'', rc_relay_os r)])"

definition relay_value :: "(string \<Rightarrow> string option) \<Rightarrow> string \<Rightarrow> string" where
  "relay_value values col = strip (or_else (values col) [])"

definition set_relay_config ::
    "instant \<Rightarrow> (string \<Rightarrow> string option) \<Rightarrow> string option \<Rightarrow> db \<Rightarrow> bool \<times> db" where
  "set_relay_config now values actor d =
     (True, d\<lparr>relay_config := Some
        \<lparr>rc_relay_host = relay_value values ''relay_host'',
         rc_relay_user = relay_value values ''relay_user'',
         rc_relay_port = relay_value values ''relay_port'',
         rc_relay_identity = relay_value values ''relay_identity'',
         rc_route_allowlist = relay_value values ''route_allowlist'',
         rc_relay_os = relay_value values ''relay_os'',
         rc_updated_at = now, rc_updated_by = or_else actor []\<rparr>\<rparr>)"

definition get_license_config :: "db \<Rightarrow> string" where
  "get_license_config d = or_else (license_key d) []"

definition set_license_config :: "string \<Rightarrow> db \<Rightarrow> string \<times> db" where
  "set_license_config key d =
     (let d1 = d\<lparr>license_key := Some key\<rparr> in (get_license_config d1, d1))"

definition PORTAL_PORT :: int where
  "PORTAL_PORT = 8090"

definition get_portal_config :: "db \<Rightarrow> int \<times> db" where
  "get_portal_config d =
     (case portal_port d of None \<Rightarrow> (PORTAL_PORT, d\<lparr>portal_port := Some PORTAL_PORT\<rparr>)
      | Some p \<Rightarrow> (p, d))"

definition set_portal_port :: "int \<Rightarrow> db \<Rightarrow> db" where
  "set_portal_port port d = d\<lparr>portal_port := Some port\<rparr>"

definition DEFAULT_ENVIRONMENTAL_POLICY :: json where
  "DEFAULT_ENVIRONMENTAL_POLICY =
     JObj [(''password'', JObj [(''minlen'', JNum 12), (''retry'', JNum 3), (''dcredit'', JNum (-1)),
              (''ucredit'', JNum (-1)), (''lcredit'', JNum (-1)), (''ocredit'', JNum (-1))]),
           (''lockout'', JObj [(''deny'', JNum 5), (''unlock_time'', JNum 900)]),
           (''sudo'', JObj [(''timestamp_timeout'', JNum 15), (''require_password'', JBool True)]),
           (''umask'', JStr ''027'')]"

text \<open>The column is NULL, undecodable text (\<open>Some None\<close>) or a value.\<close>

definition get_environmental_policy :: "db \<Rightarrow> json \<times> db" where
  "get_environmental_policy d =
     (case environmental_policy d of
        None \<Rightarrow> (DEFAULT_ENVIRONMENTAL_POLICY,
                 d\<lparr>environmental_policy := Some (Some DEFAULT_ENVIRONMENTAL_POLICY)\<rparr>)
      | Some None \<Rightarrow> (DEFAULT_ENVIRONMENTAL_POLICY, d)
      | Some (Some p) \<Rightarrow> (p, d))"

definition set_environmental_policy :: "json \<Rightarrow> db \<Rightarrow> db" where
  "set_environmental_policy policy d = d\<lparr>environmental_policy := Some (Some policy)\<rparr>"

section \<open>Controller address\<close>

text \<open>
  \<^verbatim>\<open>is_private\<close> of Python's \<^verbatim>\<open>ipaddress\<close>: the special-purpose blocks of each family
  less their exceptions; an IPv4-mapped address counts as its IPv4 address.
\<close>

definition nets :: "string list \<Rightarrow> ip_net list" where
  "nets texts = List.map_filter ip_network texts"

definition private_networks :: "ip_net list" where
  "private_networks = nets
     [''0.0.0.0/8'', ''10.0.0.0/8'', ''127.0.0.0/8'', ''169.254.0.0/16'', ''172.16.0.0/12'',
      ''192.0.0.0/24'', ''192.0.0.170/31'', ''192.0.2.0/24'', ''192.168.0.0/16'', ''198.18.0.0/15'',
      ''198.51.100.0/24'', ''203.0.113.0/24'', ''240.0.0.0/4'', ''255.255.255.255/32'',
      ''::1/128'', ''::/128'', ''::ffff:0:0/96'', ''64:ff9b:1::/48'', ''100::/64'', ''2001::/23'',
      ''2001:db8::/32'', ''2002::/16'', ''fc00::/7'', ''fe80::/10'']"

definition private_exceptions :: "ip_net list" where
  "private_exceptions = nets
     [''192.0.0.9/32'', ''192.0.0.10/32'', ''2001:1::1/128'', ''2001:1::2/128'', ''2001:3::/32'',
      ''2001:4:112::/48'', ''2001:20::/28'', ''2001:30::/28'']"

definition is_private :: "ip_addr \<Rightarrow> bool" where
  "is_private a =
     (let b = (if ad_version a = V6 \<and> ad_num a div 2 ^ 32 = 65535
               then \<lparr>ad_version = V4, ad_num = ad_num a mod 2 ^ 32\<rparr> else a)
      in list_ex (ip_in_net b) private_networks \<and> \<not> list_ex (ip_in_net b) private_exceptions)"

record controller_view =
  cv_hostname :: string
  cv_ip :: string
  cv_address_mode :: string
  cv_port :: int
  cv_address :: string
  cv_detected :: "string list"
  cv_stale :: bool
  cv_configured :: bool

text \<open>
  The first read seeds the row from the addresses detected then (\<open>ips\<close>); \<open>ips'\<close> are the
  addresses of the second, live detection.
\<close>

definition get_controller_config :: "string list \<Rightarrow> string list \<Rightarrow> db \<Rightarrow> controller_view \<times> db" where
  "get_controller_config ips ips' d =
     (let seed = \<lparr>cc_hostname = [], cc_ip = (if ips = [] then [] else hd ips),
                  cc_address_mode = Some (if ips = [] then ''all'' else ''ip''), cc_port = 9000,
                  cc_configured = False\<rparr>;
          r = (case controller_config d of None \<Rightarrow> seed | Some r \<Rightarrow> r);
          d1 = (case controller_config d of None \<Rightarrow> d\<lparr>controller_config := Some seed\<rparr> | Some _ \<Rightarrow> d);
          mode = or_else (cc_address_mode r) (if cc_ip r = [] then ''all'' else ''ip'');
          stale = (mode = ''ip'' \<and> cc_ip r \<noteq> [] \<and> ips' \<noteq> [] \<and> cc_ip r \<notin> set ips' \<and>
                   (case ip_address (cc_ip r) of None \<Rightarrow> False | Some a \<Rightarrow> is_private a))
      in (\<lparr>cv_hostname = cc_hostname r, cv_ip = cc_ip r, cv_address_mode = mode,
           cv_port = cc_port r, cv_address = (if mode = ''all'' then [] else cc_ip r),
           cv_detected = ips', cv_stale = stale, cv_configured = cc_configured r\<rparr>, d1))"

definition set_controller_config :: "string \<Rightarrow> string \<Rightarrow> string \<Rightarrow> int \<Rightarrow> db \<Rightarrow> db" where
  "set_controller_config hostname ip address_mode port d =
     d\<lparr>controller_config := Some \<lparr>cc_hostname = hostname, cc_ip = ip,
         cc_address_mode = Some address_mode, cc_port = port, cc_configured = True\<rparr>\<rparr>"

section \<open>Start-up\<close>

text \<open>The tables \<open>init_db\<close> creates, all empty.\<close>

definition fresh_db :: db where
  "fresh_db =
     \<lparr>agents = [], host_health = [], environments = [], enroll_tokens = [],
      enrollment_control = None, enroll_allowlist = [], allow_seq = 0, controller_config = None,
      relay_config = None, license_key = None, environmental_policy = None, portal_port = None,
      portal_credentials = None, portal_history = [], portal_history_seq = 0,
      portal_sessions = [], portal_session_seq = 0, legacy_admin = None, administrators = [],
      admin_policy = None, admin_tokens = [], login_throttle = [], agent_tasks = [], task_seq = 0,
      agent_results = [], result_seq = 0, activity_log = [], activity_seq = 0,
      admin_audit_log = [], audit_seq = 0, chain_heads = []\<rparr>"

definition seed_environments :: "instant \<Rightarrow> db \<Rightarrow> db" where
  "seed_environments now d =
     (if environments d = []
      then d\<lparr>environments := map (\<lambda>n. \<lparr>en_name = n, en_created = now, en_requires_sudo = False\<rparr>)
                              [''Dev'', ''Stage'', ''Prod'']\<rparr>
      else d)"

text \<open>The one-time carry-over of a login from before there were several administrators.\<close>

definition migrate_administrators :: "instant \<Rightarrow> db \<Rightarrow> db" where
  "migrate_administrators now d =
     (if administrators d = []
      then (case legacy_admin d of None \<Rightarrow> d
            | Some (u, h, s) \<Rightarrow>
                if u = [] then d
                else d\<lparr>administrators :=
                  [\<lparr>ad_username = u, ad_hash = h, ad_salt = s, ad_must_change = False,
                    ad_created = now, ad_created_by = Some ''migration'', ad_last_login = None,
                    ad_role = Some ''superuser'', ad_sudo_connect = False\<rparr>]\<rparr>)
      else d)"

definition init_db :: "bytes option \<Rightarrow> instant \<Rightarrow> instant \<Rightarrow> instant \<Rightarrow> db \<Rightarrow> db" where
  "init_db key now now' now'' d =
     backfill_audit_chains key now'' (migrate_administrators now' (seed_environments now d))"

section \<open>Facts\<close>

lemma schema_ok_fresh [simp]: "schema_ok fresh_db"
  by (simp add: schema_ok_def fresh_db_def ids_below_def)

lemma schema_ok_environments [schema_simps]:
  "schema_ok d \<Longrightarrow> schema_ok (create_environment now n d)"
  "schema_ok d \<Longrightarrow> schema_ok (delete_environment n d)"
  "schema_ok d \<Longrightarrow> schema_ok (snd (set_environment_sudo_default n b d))"
  by (auto simp: create_environment_def delete_environment_def set_environment_sudo_default_def
      schema_ok_def keyed_append keyed_delete keyed_update tb_exists_iff)

lemma schema_ok_singletons [schema_simps]:
  "schema_ok (d\<lparr>relay_config := a\<rparr>) = schema_ok d"
  "schema_ok (d\<lparr>license_key := b\<rparr>) = schema_ok d"
  "schema_ok (d\<lparr>portal_port := c\<rparr>) = schema_ok d"
  "schema_ok (d\<lparr>environmental_policy := e\<rparr>) = schema_ok d"
  "schema_ok (d\<lparr>controller_config := f\<rparr>) = schema_ok d"
  by (simp_all add: schema_ok_def)

lemma schema_ok_init [schema_simps]:
  assumes "schema_ok d" shows "schema_ok (init_db key now now' now'' d)"
proof -
  have "schema_ok (seed_environments now d)"
    using assms by (simp add: seed_environments_def schema_ok_def keyed_def)
  then have "schema_ok (migrate_administrators now' (seed_environments now d))" (is "schema_ok ?m")
    by (auto simp: migrate_administrators_def schema_ok_def keyed_def split: option.split)
  then show ?thesis
    unfolding init_db_def backfill_audit_chains_def backfill_audit_def backfill_activity_def
      seed_chain_head_def Let_def
    by (auto simp: schema_ok_def)
qed

end
