(* ===== verification/Db_Portal.thy ===== *)
theory Db_Portal
  imports Db_State
begin

text \<open>
  The file portal's login of \<^verbatim>\<open>backend/db.py\<close> and \<^verbatim>\<open>backend/portal_auth.py\<close>: the one shared
  account, the history of logins, and the sessions behind the browser cookie.
\<close>

definition SESSION_TTL_SECONDS :: rat where
  "SESSION_TTL_SECONDS = 2 * 60 * 60"

section \<open>Credentials and history\<close>

definition get_portal_credentials :: "db \<Rightarrow> portal_creds option" where
  "get_portal_credentials d = portal_credentials d"

definition set_portal_credentials :: "instant \<Rightarrow> string \<Rightarrow> string \<Rightarrow> string \<Rightarrow> db \<Rightarrow> db" where
  "set_portal_credentials now username password_hash password_salt d =
     d\<lparr>portal_credentials := Some \<lparr>pc_username = username, pc_hash = password_hash,
         pc_salt = password_salt, pc_changed = now\<rparr>\<rparr>"

definition delete_portal_credentials :: "db \<Rightarrow> db" where
  "delete_portal_credentials d = d\<lparr>portal_credentials := None\<rparr>"

definition log_portal_event ::
    "instant \<Rightarrow> string \<Rightarrow> string \<Rightarrow> string \<Rightarrow> string \<Rightarrow> db \<Rightarrow> db" where
  "log_portal_event now event username ip detail d =
     d\<lparr>portal_history := portal_history d @
         [\<lparr>pe_id = portal_history_seq d + 1, pe_timestamp = now, pe_event = event,
           pe_username = username, pe_ip = ip, pe_detail = detail\<rparr>],
       portal_history_seq := portal_history_seq d + 1\<rparr>"

definition newest_events :: "portal_event_row list \<Rightarrow> portal_event_row list" where
  "newest_events es = sort_key (\<lambda>e. - pe_timestamp e) es"

definition get_portal_login_history :: "nat \<Rightarrow> db \<Rightarrow> portal_event_row list" where
  "get_portal_login_history n d = take n (newest_events (portal_history d))"

definition get_last_portal_login :: "db \<Rightarrow> portal_event_row option" where
  "get_last_portal_login d =
     (case newest_events (filter (\<lambda>e. pe_event e = ''login_success'') (portal_history d)) of
        [] \<Rightarrow> None | e # _ \<Rightarrow> Some e)"

section \<open>Sessions\<close>

text \<open>\<open>None\<close> is the \<open>IntegrityError\<close> of the UNIQUE token column.\<close>

definition create_portal_session :: "instant \<Rightarrow> string \<Rightarrow> instant \<Rightarrow> string \<Rightarrow> db \<Rightarrow> db option" where
  "create_portal_session now token expires ip d =
     (if tb_exists (\<lambda>r. ps_token r = token_at_rest (Some token)) (portal_sessions d) then None
      else Some (d\<lparr>portal_sessions := portal_sessions d @
               [\<lparr>ps_id = portal_session_seq d + 1, ps_token = token_at_rest (Some token),
                 ps_created = now, ps_expires = expires, ps_ip = ip\<rparr>],
             portal_session_seq := portal_session_seq d + 1\<rparr>))"

definition get_portal_session :: "string \<Rightarrow> db \<Rightarrow> portal_session_row option" where
  "get_portal_session token d =
     find (\<lambda>r. ps_token r = token_at_rest (Some token)) (portal_sessions d)"

definition delete_portal_session_by_token :: "string \<Rightarrow> db \<Rightarrow> db" where
  "delete_portal_session_by_token token d =
     d\<lparr>portal_sessions := tb_delete (\<lambda>r. ps_token r = token_at_rest (Some token)) (portal_sessions d)\<rparr>"

definition delete_portal_session :: "int \<Rightarrow> db \<Rightarrow> db" where
  "delete_portal_session session_id d =
     d\<lparr>portal_sessions := tb_delete (\<lambda>r. ps_id r = session_id) (portal_sessions d)\<rparr>"

definition purge_expired_portal_sessions :: "instant \<Rightarrow> db \<Rightarrow> db" where
  "purge_expired_portal_sessions now d =
     d\<lparr>portal_sessions := tb_delete (\<lambda>r. ps_expires r \<le> now) (portal_sessions d)\<rparr>"

definition delete_all_portal_sessions :: "db \<Rightarrow> db" where
  "delete_all_portal_sessions d = d\<lparr>portal_sessions := []\<rparr>"

text \<open>The listing never carries the token.\<close>

definition list_portal_sessions ::
    "instant \<Rightarrow> db \<Rightarrow> (int \<times> instant \<times> instant \<times> string) list \<times> db" where
  "list_portal_sessions now d =
     (let d1 = purge_expired_portal_sessions now d
      in (map (\<lambda>r. (ps_id r, ps_created r, ps_expires r, ps_ip r))
            (sort_key (\<lambda>r. - ps_created r) (portal_sessions d1)), d1))"

text \<open>The session layer of \<^verbatim>\<open>portal_auth.py\<close>; the token is the drawn 32 random bytes.\<close>

definition create_session ::
    "instant \<Rightarrow> instant \<Rightarrow> string \<Rightarrow> string \<Rightarrow> db \<Rightarrow> (string \<times> db) option" where
  "create_session now now' token ip d =
     map_option (Pair token) (create_portal_session now' token (now + SESSION_TTL_SECONDS) ip d)"

definition validate_session :: "instant \<Rightarrow> string \<Rightarrow> db \<Rightarrow> bool \<times> db" where
  "validate_session now token d =
     (if token = [] then (False, d)
      else (case get_portal_session token d of None \<Rightarrow> (False, d)
            | Some r \<Rightarrow> if now > ps_expires r then (False, delete_portal_session_by_token token d)
                       else (True, d)))"

definition revoke_session :: "string \<Rightarrow> db \<Rightarrow> db" where
  "revoke_session token = delete_portal_session_by_token token"

section \<open>Facts\<close>

named_theorems portal_simps \<open>how the session operations act on a lookup\<close>

lemma session_created [portal_simps]:
  assumes "create_portal_session now t e ip d = Some d'"
  shows "get_portal_session s d' =
    (if token_at_rest (Some s) = token_at_rest (Some t)
     then Some \<lparr>ps_id = portal_session_seq d + 1, ps_token = token_at_rest (Some t),
                ps_created = now, ps_expires = e, ps_ip = ip\<rparr>
     else get_portal_session s d)"
proof -
  have "find (\<lambda>r. ps_token r = token_at_rest (Some t)) (portal_sessions d) = None"
    using assms by (auto simp: create_portal_session_def tb_exists_iff find_None_iff split: if_splits)
  then show ?thesis
    using assms by (auto simp: create_portal_session_def get_portal_session_def find_append
        split: if_splits option.split)
qed

lemma session_deleted [portal_simps]:
  "get_portal_session s (delete_portal_session_by_token t d) =
    (if token_at_rest (Some s) = token_at_rest (Some t) then None else get_portal_session s d)"
  by (auto simp: get_portal_session_def delete_portal_session_by_token_def find_tb_delete_same
      find_tb_delete_other)

lemma session_purged:
  assumes "schema_ok d"
  shows "get_portal_session s (purge_expired_portal_sessions now d) =
    (case get_portal_session s d of None \<Rightarrow> None
     | Some r \<Rightarrow> if ps_expires r \<le> now then None else Some r)"
proof -
  have k: "keyed ps_token (portal_sessions d)" using assms by (simp add: schema_ok_def)
  show ?thesis
    unfolding get_portal_session_def purge_expired_portal_sessions_def
    using find_delete_keyed [OF k] by simp
qed

lemma schema_ok_session_created:
  "schema_ok d \<Longrightarrow> create_portal_session now t e ip d = Some d' \<Longrightarrow> schema_ok d'"
  by (fastforce simp: create_portal_session_def schema_ok_def keyed_append tb_exists_iff
        split: if_splits)

lemma schema_ok_sessions [schema_simps]:
  "schema_ok d \<Longrightarrow> schema_ok (delete_portal_session_by_token t d)"
  "schema_ok d \<Longrightarrow> schema_ok (delete_portal_session i d)"
  "schema_ok d \<Longrightarrow> schema_ok (purge_expired_portal_sessions now d)"
  by (simp_all add: delete_portal_session_by_token_def delete_portal_session_def
        purge_expired_portal_sessions_def schema_ok_def keyed_delete)

end
