(* ===== verification/Integrity.thy ===== *)
theory Integrity
  imports Py_Json Py_Str
begin

text \<open>
  Agent integrity (\<^verbatim>\<open>backend/agent_integrity.py\<close>): the sealed baseline of a host, the
  comparison of each reported measurement with it, quarantine, the timer for hosts that stop
  reporting, and the re-seal window of a controller-initiated update.  The state file is an
  association list from host id to record, loaded and saved under one lock; a Python exception
  inside \<open>compare\<close> is \<open>None\<close>.
\<close>

definition MISSING_GRACE_S :: rat where
  "MISSING_GRACE_S = 300"

definition RESEAL_WINDOW_S :: rat where
  "RESEAL_WINDOW_S = 24 * 60 * 60"

section \<open>Comparison\<close>

text \<open>One line of the mismatch list; hashes are cut to twelve characters as in the message.\<close>

datatype mismatch =
  Malformed
| Version_Changed json json
| Not_Reported string
| Hash_Changed string json json
| New_File json
| Stopped_Reporting

definition short_hash :: "json \<Rightarrow> json" where
  "short_hash v = (case v of JStr s \<Rightarrow> JStr (take 12 s) | _ \<Rightarrow> v)"

text \<open>\<open>m.get("files", {}) or {}\<close>.\<close>

definition files_of :: "(string \<times> json) list \<Rightarrow> json" where
  "files_of m =
     (case map_of m ''files'' of None \<Rightarrow> JObj []
      | Some v \<Rightarrow> if json_truthy v then v else JObj [])"

text \<open>The loop over the baseline's files; \<open>rfiles.get\<close> fails when the report's is no dict.\<close>

fun compare_known :: "json \<Rightarrow> (string \<times> json) list \<Rightarrow> mismatch list option" where
  "compare_known rfiles [] = Some []"
| "compare_known rfiles ((path, expected) # rest) =
     (case rfiles of
        JObj rs \<Rightarrow>
          (let got = dict_get path rs
           in map_option
                (\<lambda>out. (if got = JNull then [Not_Reported path]
                       else if \<not> py_eq got expected
                       then [Hash_Changed path (short_hash expected) (short_hash got)]
                       else []) @ out)
                (compare_known rfiles rest))
      | _ \<Rightarrow> None)"

text \<open>\<open>for path in rfiles: if path not in bfiles\<close>, on any value that can be iterated.\<close>

definition hashable :: "json \<Rightarrow> bool" where
  "hashable v = (case v of JArr _ \<Rightarrow> False | JObj _ \<Rightarrow> False | _ \<Rightarrow> True)"

definition iterate :: "json \<Rightarrow> json list option" where
  "iterate v =
     (case v of JObj rs \<Rightarrow> Some (map (JStr \<circ> fst) rs) | JArr xs \<Rightarrow> Some xs
      | JStr s \<Rightarrow> Some (map (\<lambda>c. JStr [c]) s) | _ \<Rightarrow> None)"

definition compare_new :: "json \<Rightarrow> (string \<times> json) list \<Rightarrow> mismatch list option" where
  "compare_new rfiles bs =
     (case iterate rfiles of None \<Rightarrow> None
      | Some ps \<Rightarrow>
          if list_all hashable ps
          then Some (map New_File (filter (\<lambda>p. p \<notin> set (map (JStr \<circ> fst) bs)) ps))
          else None)"

definition compare :: "json \<Rightarrow> json \<Rightarrow> mismatch list option" where
  "compare reported baseline =
     (case (reported, baseline) of
        (JObj r, JObj b) \<Rightarrow>
          (let v = (if py_eq (dict_get ''version'' r) (dict_get ''version'' b) then []
                    else [Version_Changed (dict_get ''version'' b) (dict_get ''version'' r)])
           in case files_of b of
                JObj bs \<Rightarrow>
                  (case compare_known (files_of r) bs of None \<Rightarrow> None
                   | Some k \<Rightarrow> map_option (\<lambda>n. v @ k @ n) (compare_new (files_of r) bs))
              | _ \<Rightarrow> None)
      | _ \<Rightarrow> Some [Malformed])"

section \<open>The record of a host\<close>

datatype integ_status = Ok_Status | Quarantined

text \<open>Every key of the record is optional, as in the JSON object.\<close>

record integ_rec =
  ig_baseline :: "json option"
  ig_status :: "integ_status option"
  ig_mismatches :: "mismatch list option"
  ig_sealed :: "instant option"
  ig_flagged :: "instant option"
  ig_missing :: "instant option"
  ig_reseal :: "instant option"

type_synonym integ_state = "(string \<times> integ_rec) list"

definition no_rec :: integ_rec where
  "no_rec = \<lparr>ig_baseline = None, ig_status = None, ig_mismatches = None, ig_sealed = None,
             ig_flagged = None, ig_missing = None, ig_reseal = None\<rparr>"

definition put_rec :: "string \<Rightarrow> integ_rec \<Rightarrow> integ_state \<Rightarrow> integ_state" where
  "put_rec h r st = tb_upsert (\<lambda>e. fst e = h) (\<lambda>e. (h, r)) (h, r) st"

definition get_rec :: "string \<Rightarrow> integ_state \<Rightarrow> integ_rec option" where
  "get_rec h st = map_option snd (find (\<lambda>e. fst e = h) st)"

datatype eval_answer =
  Resealed | Sealed | Compared integ_status "mismatch list" | Eval_Error

definition window_open :: "instant \<Rightarrow> integ_rec \<Rightarrow> bool" where
  "window_open now r = (now < (case ig_reseal r of None \<Rightarrow> 0 | Some u \<Rightarrow> u))"

definition evaluate ::
    "instant \<Rightarrow> instant \<Rightarrow> string \<Rightarrow> json \<Rightarrow> integ_state \<Rightarrow> eval_answer \<times> integ_state" where
  "evaluate now now' host_id measurements st =
     (let seal = (Sealed, put_rec host_id (no_rec\<lparr>ig_baseline := Some measurements,
                     ig_status := Some Ok_Status, ig_mismatches := Some [],
                     ig_sealed := Some now'\<rparr>) st)
      in case get_rec host_id st of None \<Rightarrow> seal
         | Some rec0 \<Rightarrow>
           (let cleared = (ig_missing rec0 \<noteq> None); r = rec0\<lparr>ig_missing := None\<rparr>
            in if window_open now r
               then (Resealed, put_rec host_id (r\<lparr>ig_baseline := Some measurements,
                       ig_status := Some Ok_Status, ig_mismatches := Some [],
                       ig_sealed := Some now'\<rparr>) st)
               else (case ig_baseline r of None \<Rightarrow> seal
                 | Some baseline \<Rightarrow>
                   (case compare measurements baseline of None \<Rightarrow> (Eval_Error, st)
                    | Some ms \<Rightarrow>
                      (let status = (if ms \<noteq> [] then Quarantined else Ok_Status);
                           changed = (ig_status r \<noteq> Some status \<or> ig_mismatches r \<noteq> Some ms \<or>
                                      cleared);
                           r1 = r\<lparr>ig_status := Some status, ig_mismatches := Some ms\<rparr>;
                           r2 = (if ms \<noteq> [] then r1\<lparr>ig_flagged := Some now'\<rparr> else r1)
                       in (Compared status ms, if changed then put_rec host_id r2 st else st))))))"

datatype missing_answer = Unknown | Still integ_status | Missed integ_status | Evaded

definition rec_status :: "integ_rec \<Rightarrow> integ_status" where
  "rec_status r = (case ig_status r of None \<Rightarrow> Ok_Status | Some s \<Rightarrow> s)"

text \<open>A stored timer of 0 counts as not started (\<open>if not started\<close>).\<close>

definition note_missing ::
    "instant \<Rightarrow> instant \<Rightarrow> string \<Rightarrow> integ_state \<Rightarrow> missing_answer \<times> integ_state" where
  "note_missing now now' host_id st =
     (case get_rec host_id st of None \<Rightarrow> (Unknown, st)
      | Some r \<Rightarrow>
          if ig_baseline r = None then (Unknown, st)
          else if window_open now r then (Still (rec_status r), st)
          else if ig_status r = Some Quarantined then (Still Quarantined, st)
          else (case ig_missing r of
                  None \<Rightarrow> (Missed (rec_status r), put_rec host_id (r\<lparr>ig_missing := Some now'\<rparr>) st)
                | Some s \<Rightarrow>
                    if s = 0
                    then (Missed (rec_status r), put_rec host_id (r\<lparr>ig_missing := Some now'\<rparr>) st)
                    else if MISSING_GRACE_S \<le> now' - s
                    then (Evaded, put_rec host_id (r\<lparr>ig_status := Some Quarantined,
                            ig_mismatches := Some [Stopped_Reporting], ig_flagged := Some now'\<rparr>) st)
                    else (Missed (rec_status r), st)))"

definition is_quarantined :: "string \<Rightarrow> integ_state \<Rightarrow> bool" where
  "is_quarantined host_id st =
     (case get_rec host_id st of None \<Rightarrow> False | Some r \<Rightarrow> ig_status r = Some Quarantined)"

definition rebaseline :: "string \<Rightarrow> integ_state \<Rightarrow> integ_state" where
  "rebaseline host_id st = tb_delete (\<lambda>e. fst e = host_id) st"

definition mark_updating :: "instant \<Rightarrow> rat option \<Rightarrow> string \<Rightarrow> integ_state \<Rightarrow> integ_state" where
  "mark_updating now window_s host_id st =
     (let window = (case window_s of None \<Rightarrow> RESEAL_WINDOW_S | Some w \<Rightarrow> of_int (py_int w));
          r = (case get_rec host_id st of None \<Rightarrow> no_rec | Some r \<Rightarrow> r);
          r1 = r\<lparr>ig_reseal := Some (now + window)\<rparr>
      in put_rec host_id
           (if ig_status r = Some Quarantined
            then r1\<lparr>ig_status := Some Ok_Status, ig_mismatches := Some []\<rparr> else r1) st)"

section \<open>Lookups\<close>

named_theorems integ_simps \<open>how the integrity operations act on a lookup\<close>

lemma get_put [integ_simps]: "get_rec k (put_rec h r st) = (if k = h then Some r else get_rec k st)"
proof (cases "k = h")
  case True
  have ex: "find (\<lambda>e. fst e = h) (tb_update (\<lambda>e. fst e = h) (\<lambda>e. (h, r)) st) = Some (h, r)"
    if "\<exists>e \<in> set st. fst e = h"
    using that by (induction st) (auto simp: tb_update_def)
  have none: "find (\<lambda>e. fst e = h) st = None" if "\<not> (\<exists>e \<in> set st. fst e = h)"
    using that by (auto simp: find_None_iff)
  show ?thesis
    using True ex none by (auto simp: get_rec_def put_rec_def tb_upsert_def tb_exists_iff find_append)
next
  case False
  have "find (\<lambda>e. fst e = k) (tb_update (\<lambda>e. fst e = h) (\<lambda>e. (h, r)) st) =
      find (\<lambda>e. fst e = k) st"
    using False by (induction st) (auto simp: tb_update_def)
  then show ?thesis
    using False by (auto simp: get_rec_def put_rec_def tb_upsert_def find_append split: option.split)
qed

lemma get_rebaseline [integ_simps]:
  "get_rec k (rebaseline h st) = (if k = h then None else get_rec k st)"
  by (auto simp: get_rec_def rebaseline_def find_tb_delete_same find_tb_delete_other)

lemma quarantined_put [integ_simps]:
  "is_quarantined k (put_rec h r st) =
    (if k = h then ig_status r = Some Quarantined else is_quarantined k st)"
  by (simp add: is_quarantined_def integ_simps)

lemma quarantined_rebaseline [integ_simps]:
  "is_quarantined k (rebaseline h st) = (k \<noteq> h \<and> is_quarantined k st)"
  by (simp add: is_quarantined_def integ_simps)

lemma quarantined_mark_updating [integ_simps]:
  "is_quarantined k (mark_updating now w h st) = (k \<noteq> h \<and> is_quarantined k st)"
  by (auto simp: mark_updating_def Let_def integ_simps no_rec_def split: option.splits)

lemma evaluate_other [integ_simps]:
  "k \<noteq> h \<Longrightarrow> get_rec k (snd (evaluate now now' h m st)) = get_rec k st"
  by (simp add: evaluate_def Let_def integ_simps split: option.split)

lemma note_missing_other [integ_simps]:
  "k \<noteq> h \<Longrightarrow> get_rec k (snd (note_missing now now' h st)) = get_rec k st"
  by (simp add: note_missing_def integ_simps split: option.split)

section \<open>The comparison is exact\<close>

text \<open>On well-formed manifests no mismatch means the same version and the same files.\<close>

lemma compare_known_empty:
  "compare_known (JObj rs) bs = Some [] \<longleftrightarrow>
    (\<forall>(p, e) \<in> set bs. dict_get p rs \<noteq> JNull \<and> py_eq (dict_get p rs) e)"
  by (induction bs) (auto simp: Let_def split: if_splits)

lemma compare_empty:
  assumes "files_of r = JObj rs" "files_of b = JObj bs"
  shows "compare (JObj r) (JObj b) = Some [] \<longleftrightarrow>
    py_eq (dict_get ''version'' r) (dict_get ''version'' b) \<and>
    (\<forall>(p, e) \<in> set bs. dict_get p rs \<noteq> JNull \<and> py_eq (dict_get p rs) e) \<and>
    fst ` set rs \<subseteq> fst ` set bs"
proof -
  have new: "compare_new (JObj rs) bs = Some [] \<longleftrightarrow> fst ` set rs \<subseteq> fst ` set bs"
    by (auto simp: compare_new_def iterate_def hashable_def list_all_iff filter_empty_conv image_iff)
  have some: "\<exists>n. compare_new (JObj rs) bs = Some n"
    by (simp add: compare_new_def iterate_def hashable_def list_all_iff)
  have "\<exists>k. compare_known (JObj rs) bs = Some k" by (induction bs) (auto simp: Let_def)
  with some new compare_known_empty [of rs bs] show ?thesis
    by (auto simp: compare_def assms)
qed

end
