(* ===== verification/App_Access.thy ===== *)
theory App_Access
  imports Db_Agents Db_Enroll Db_Tasks Db_Admins Db_Audit Db_Config Db_Portal Integrity
begin

text \<open>
  Who may call what: the gates of \<^verbatim>\<open>backend/auth.py\<close> and of \<^verbatim>\<open>backend/app.py\<close> that every
  route runs first.  The state of the controller process is the database together with the
  integrity side-store and the process-local tables of \<^verbatim>\<open>app.py\<close>; its settings (the machine
  API key, the gateway secret, the audit key) are a separate record.
\<close>

section \<open>Settings and state\<close>

record settings =
  api_key :: string
  sso_secret :: string
  audit_key :: "bytes option"
  audit_required :: bool
  redact :: "string \<Rightarrow> string"
  trust_loopback :: bool
  agent_version_of_controller :: "string option"
  agent_update_command :: string

record become_entry =
  bc_password :: string
  bc_expiry :: instant

record controller =
  cdb :: db
  integrity :: integ_state
  pending_become :: "(int \<times> become_entry) list"
  pending_want_root :: "(int \<times> instant) list"
  enroll_rate :: "(string \<times> instant list) list"
  auto_update_sent :: "(string \<times> (string \<times> instant)) list"

definition on_db :: "('a \<times> db) \<Rightarrow> controller \<Rightarrow> 'a \<times> controller" where
  "on_db r c = (fst r, c\<lparr>cdb := snd r\<rparr>)"

section \<open>Machine key and gateway\<close>

definition valid_api_key :: "settings \<Rightarrow> string option \<Rightarrow> bool" where
  "valid_api_key cfg x = (truthy x \<and> x = Some (api_key cfg))"

definition require_api_key :: "settings \<Rightarrow> string option \<Rightarrow> unit response" where
  "require_api_key cfg x = (if valid_api_key cfg x then Inr () else Inl (Http 401))"

definition loopback_hosts :: "string list" where
  "loopback_hosts = [''127.0.0.1'', ''::1'', ''localhost'']"

text \<open>The peer is \<open>None\<close> when the request carries no client address.\<close>

definition is_loopback_peer :: "string option \<Rightarrow> bool" where
  "is_loopback_peer client = (or_else client [] \<in> set loopback_hosts)"

definition gateway_secret_ok :: "settings \<Rightarrow> string option \<Rightarrow> bool" where
  "gateway_secret_ok cfg presented =
     (if sso_secret cfg = [] then False else or_else presented [] = sso_secret cfg)"

definition require_api_key_or_gateway ::
    "settings \<Rightarrow> string option \<Rightarrow> string option \<Rightarrow> unit response" where
  "require_api_key_or_gateway cfg key presented =
     (if valid_api_key cfg key then Inr ()
      else if gateway_secret_ok cfg presented then Inr () else Inl (Http 401))"

definition openapi_loopback :: "string option \<Rightarrow> unit response" where
  "openapi_loopback client =
     (if or_else client [] \<notin> set loopback_hosts then Inl (Http 404) else Inr ())"

text \<open>\<open>None\<close> stands for a limit that is no number.\<close>

definition clamp_limit :: "int option \<Rightarrow> int \<Rightarrow> int \<Rightarrow> int" where
  "clamp_limit v lo hi = (case v of None \<Rightarrow> hi | Some n \<Rightarrow> max lo (min n hi))"

section \<open>Roles\<close>

text \<open>A present token is resolved, which may delete its stale row; an absent one only passes
  while there is no administrator.\<close>

definition require_role ::
    "(string option \<Rightarrow> bool) \<Rightarrow> instant \<Rightarrow> string option \<Rightarrow> db \<Rightarrow> string option response \<times> db" where
  "require_role allowed now token d =
     (if \<not> truthy token
      then (if count_administrators d = 0 then Inr None else Inl (Http 401), d)
      else (case resolve_admin_token now token d of
              (None, d1) \<Rightarrow> (Inl (Http 401), d1)
            | (Some (u, r), d1) \<Rightarrow> (if allowed r then Inr (Some u) else Inl (Http 403), d1)))"

definition require_superuser :: "instant \<Rightarrow> string option \<Rightarrow> db \<Rightarrow> unit response \<times> db" where
  "require_superuser now token d =
     (case require_role (\<lambda>r. r = Some ''superuser'') now token d of
        (Inl e, d1) \<Rightarrow> (Inl e, d1)
      | (Inr None, d1) \<Rightarrow> (Inr (), d1)
      | (Inr (Some u), d1) \<Rightarrow>
          (case get_administrator u d1 of
             None \<Rightarrow> (Inr (), d1)
           | Some a \<Rightarrow> (if ad_must_change a then Inl (Http 403) else Inr (), d1)))"

definition require_activity_viewer :: "instant \<Rightarrow> string option \<Rightarrow> db \<Rightarrow> unit response \<times> db" where
  "require_activity_viewer now token d =
     (case require_role (\<lambda>r. r = Some ''superuser'' \<or> r = Some ''auditor'') now token d of
        (Inl e, d1) \<Rightarrow> (Inl e, d1) | (Inr _, d1) \<Rightarrow> (Inr (), d1))"

definition acting_admin_name :: "instant \<Rightarrow> string option \<Rightarrow> db \<Rightarrow> string \<times> db" where
  "acting_admin_name now token d =
     (if \<not> truthy token then (''system'', d)
      else (case resolve_admin_token now token d of
              (None, d1) \<Rightarrow> (''unknown'', d1)
            | (Some (u, _), d1) \<Rightarrow> (or_else (Some u) ''unknown'', d1)))"

text \<open>
  The two dependencies of a superuser route and the actor of its audit rows.  FastAPI runs
  \<open>require_api_key\<close> and \<open>require_superuser\<close> before the handler.
\<close>

definition superuser_route ::
    "settings \<Rightarrow> instant \<Rightarrow> string option \<Rightarrow> string option \<Rightarrow> db \<Rightarrow> string response \<times> db" where
  "superuser_route cfg now key token d =
     (case require_api_key cfg key of Inl e \<Rightarrow> (Inl e, d)
      | Inr _ \<Rightarrow>
          (case require_superuser now token d of (Inl e, d1) \<Rightarrow> (Inl e, d1)
           | (Inr _, d1) \<Rightarrow> (case acting_admin_name now token d1 of (a, d2) \<Rightarrow> (Inr a, d2))))"

section \<open>Agents\<close>

definition verify_agent :: "string \<Rightarrow> string option \<Rightarrow> db \<Rightarrow> unit response \<times> db" where
  "verify_agent host_id agent_secret d =
     (if \<not> agent_exists host_id d then (Inl (Http 404), d)
      else if is_agent_revoked host_id d then (Inl (Http 403), d)
      else (case agent_secret_matches host_id agent_secret d of (ok, d1) \<Rightarrow>
              (if ok then Inr () else Inl (Http 401), d1)))"

section \<open>Audit rows of handlers\<close>

text \<open>A strict audit key that is missing fails the request with a server error.\<close>

definition audit ::
    "settings \<Rightarrow> instant \<Rightarrow> string \<Rightarrow> string \<Rightarrow> string \<Rightarrow> 'a response \<times> db \<Rightarrow> 'a response \<times> db" where
  "audit cfg now event username detail r =
     (case log_admin_audit (audit_key cfg) (audit_required cfg) now (Some event) (Some username)
             (Some detail) (snd r) of
        Inl AuditKeyUnavailable \<Rightarrow> (Inl (Http 500), snd r)
      | Inr d \<Rightarrow> (fst r, d))"

section \<open>Facts\<close>

named_theorems access_simps \<open>when the gates let a request through\<close>

lemma require_role_ok [access_simps]:
  "fst (require_role allowed now token d) = Inr (Some u) \<longleftrightarrow>
     truthy token \<and>
     (\<exists>row. find_admin_token token d = Some row \<and> at_username row = u \<and> allowed (at_role row) \<and>
        \<not> token_stale now row d)"
  by (auto simp: require_role_def resolve_admin_token_def split: option.split)

lemma require_role_none [access_simps]:
  "fst (require_role allowed now token d) = Inr None \<longleftrightarrow>
     \<not> truthy token \<and> administrators d = []"
  by (auto simp: require_role_def resolve_admin_token_def count_administrators_def split: option.split)

lemma require_role_frame [simp]:
  "administrators (snd (require_role allowed now token d)) = administrators d"
  "agents (snd (require_role allowed now token d)) = agents d"
  "agent_tasks (snd (require_role allowed now token d)) = agent_tasks d"
  by (auto simp: require_role_def resolve_admin_token_def split: option.split)

lemma get_admin_require_role [simp]:
  "get_administrator u (snd (require_role allowed now token d)) = get_administrator u d"
  by (simp add: get_administrator_def)

text \<open>A superuser gate passes exactly for a live superuser token of an account that is not waiting
  for its password to be changed, or before the first account exists.\<close>

lemma require_superuser_iff [access_simps]:
  "fst (require_superuser now token d) = Inr () \<longleftrightarrow>
     (\<not> truthy token \<and> administrators d = []) \<or>
     (truthy token \<and> (\<exists>row a. find_admin_token token d = Some row \<and>
        at_role row = Some ''superuser'' \<and> \<not> token_stale now row d \<and>
        get_administrator (at_username row) d = Some a \<and> \<not> ad_must_change a))"
proof -
  obtain r d1 where r: "require_role (\<lambda>r. r = Some ''superuser'') now token d = (r, d1)"
    by (metis surj_pair)
  have g: "get_administrator u d1 = get_administrator u d" for u
    using get_admin_require_role [of u "\<lambda>r. r = Some ''superuser''" now token d] r by simp
  have live: "\<not> token_stale now row d \<Longrightarrow> get_administrator (at_username row) d \<noteq> None" for row
    by (cases "get_administrator (at_username row) d") (auto simp: token_stale_def split: if_splits)
  consider e where "r = Inl e" | "r = Inr None" | u where "r = Inr (Some u)"
    by (metis obj_sumE option.exhaust)
  then show ?thesis
  proof cases
    case 1
    then have "fst (require_role (\<lambda>r. r = Some ''superuser'') now token d) \<noteq> Inr x" for x
      by (simp add: r)
    then show ?thesis
      using require_role_ok [of "\<lambda>r. r = Some ''superuser''" now token d]
        require_role_none [of "\<lambda>r. r = Some ''superuser''" now token d]
      by (auto simp: require_superuser_def r 1)
  next
    case 2
    then show ?thesis
      using require_role_none [of "\<lambda>r. r = Some ''superuser''" now token d]
      by (auto simp: require_superuser_def r)
  next
    case 3
    then show ?thesis
      using require_role_ok [of "\<lambda>r. r = Some ''superuser''" now token d u] live
      by (auto simp: require_superuser_def r g split: option.splits) (metis option.distinct(1))+
  qed
qed

lemma verify_agent_ok [access_simps]:
  "fst (verify_agent h s d) = Inr () \<longleftrightarrow>
     (\<exists>r. find_agent_row h d = Some r \<and> \<not> ag_revoked r) \<and> fst (agent_secret_matches h s d)"
  by (auto simp: verify_agent_def agent_exists_def is_agent_revoked_def split: option.splits prod.splits)

text \<open>Verification changes nothing but the secret column of that row.\<close>

lemma verify_agent_state:
  "\<exists>f. (\<forall>r. \<exists>s. f r = r\<lparr>ag_secret := s\<rparr>) \<and>
     snd (verify_agent h s d) = d\<lparr>agents := tb_update (\<lambda>r. ag_host_id r = h) f (agents d)\<rparr>"
proof -
  have same: "d = d\<lparr>agents := tb_update (\<lambda>r. ag_host_id r = h) (\<lambda>r. r\<lparr>ag_secret := ag_secret r\<rparr>) (agents d)\<rparr>"
    by (simp add: tb_update_def)
  show ?thesis
  proof (cases "snd (verify_agent h s d) = d")
    case True
    with same show ?thesis
      by (intro exI [of _ "\<lambda>r. r\<lparr>ag_secret := ag_secret r\<rparr>"] conjI allI exI [of _ "ag_secret _"])
         (rule refl, metis)
  next
    case False
    then have "snd (verify_agent h s d) = upgrade_agent_secret_hash h (token_at_rest s) d"
      by (auto simp: verify_agent_def agent_secret_matches_def Let_def split: if_splits prod.splits)
    then show ?thesis
      by (intro exI [of _ "\<lambda>r. r\<lparr>ag_secret := Some (token_at_rest s)\<rparr>"])
         (auto simp: upgrade_agent_secret_hash_def update_agent_rows_def)
  qed
qed

lemma verify_agent_frame [simp]:
  "agent_tasks (snd (verify_agent h s d)) = agent_tasks d"
  "agent_results (snd (verify_agent h s d)) = agent_results d"
  "result_seq (snd (verify_agent h s d)) = result_seq d"
  "task_seq (snd (verify_agent h s d)) = task_seq d"
  "administrators (snd (verify_agent h s d)) = administrators d"
  "admin_tokens (snd (verify_agent h s d)) = admin_tokens d"
  "environments (snd (verify_agent h s d)) = environments d"
  "enroll_tokens (snd (verify_agent h s d)) = enroll_tokens d"
  using verify_agent_state [of h s d] by auto

lemma find_task_verify [simp]: "find_task i (snd (verify_agent h s d)) = find_task i d"
  by (simp add: find_task_def)

lemma verify_agent_schema [schema_simps]:
  "schema_ok (snd (verify_agent h s d)) = schema_ok d"
  using secret_matches_schema [of h s d]
  by (auto simp: verify_agent_def split: prod.split)

end
