(* ===== verification/App_Enroll.thy ===== *)
theory App_Enroll
  imports App_Access
begin

text \<open>
  Enrolment and heartbeat (\<^verbatim>\<open>backend/app.py\<close>) with the host limit of \<^verbatim>\<open>backend/edition.py\<close>:
  minting tokens, the source-address flood guard, the guard against taking over an existing
  host, the enrol handler and the heartbeat.  One handler run reads one clock value.  The legacy
  SSH shadow (\<open>_maybe_enroll_agent_ssh\<close>) is off by default and does nothing; the metrics of a
  heartbeat arrive decoded.
\<close>

section \<open>Host limit\<close>

definition HOST_LIMIT :: "nat option" where
  "HOST_LIMIT = None"

definition host_identities :: "db \<Rightarrow> string list" where
  "host_identities d = remdups (filter (\<lambda>h. h \<noteq> []) (map ag_host_id (list_agents d)))"

definition current_host_names :: "db \<Rightarrow> string list" where
  "current_host_names d =
     remdups (filter (\<lambda>n. n \<noteq> []) (map (\<lambda>a. or_else (ag_hostname a) (ag_host_id a)) (list_agents d)))"

definition enforce_host_limit :: "string option \<Rightarrow> string option \<Rightarrow> db \<Rightarrow> unit response" where
  "enforce_host_limit candidate_name candidate_host_id d =
     (case HOST_LIMIT of None \<Rightarrow> Inr ()
      | Some limit \<Rightarrow>
          if (case candidate_host_id of
                Some h \<Rightarrow> h \<in> set (host_identities d)
              | None \<Rightarrow> truthy candidate_name \<and> the candidate_name \<in> set (current_host_names d))
          then Inr ()
          else if limit \<le> length (host_identities d) then Inl (Http 403) else Inr ())"

section \<open>Administrative routes\<close>

text \<open>Every superuser route runs its gate first and only then its body, with the actor's name.\<close>

definition gated ::
    "settings \<Rightarrow> instant \<Rightarrow> string option \<Rightarrow> string option \<Rightarrow>
     (string \<Rightarrow> controller \<Rightarrow> 'a response \<times> controller) \<Rightarrow> controller \<Rightarrow> 'a response \<times> controller" where
  "gated cfg now key token body c =
     (case superuser_route cfg now key token (cdb c) of
        (Inl e, d) \<Rightarrow> (Inl e, c\<lparr>cdb := d\<rparr>)
      | (Inr actor, d) \<Rightarrow> body actor (c\<lparr>cdb := d\<rparr>))"

definition audited ::
    "settings \<Rightarrow> instant \<Rightarrow> string \<Rightarrow> string \<Rightarrow> string \<Rightarrow> 'a response \<times> controller \<Rightarrow>
     'a response \<times> controller" where
  "audited cfg now event username detail r =
     on_db (audit cfg now event username detail (fst r, cdb (snd r))) (snd r)"

text \<open>The token is the drawn 16 random bytes; a drawn token that exists raises (500).\<close>

definition generate_token ::
    "settings \<Rightarrow> instant \<Rightarrow> string option \<Rightarrow> string option \<Rightarrow> string option \<Rightarrow> string \<Rightarrow>
     controller \<Rightarrow> string response \<times> controller" where
  "generate_token cfg now key token client drawn =
     gated cfg now key token (\<lambda>actor c.
       if \<not> is_loopback_peer client then (Inl (Http 403), c)
       else (case enforce_host_limit None None (cdb c) of Inl e \<Rightarrow> (Inl e, c)
         | Inr _ \<Rightarrow>
             (case create_enroll_token now drawn None (cdb c) of
                None \<Rightarrow> (Inl (Http 500), c)
              | Some d \<Rightarrow> (Inr drawn, c\<lparr>cdb := d\<rparr>))))"

definition find_agent :: "string \<Rightarrow> db \<Rightarrow> agent_row option" where
  "find_agent host_id d = find (\<lambda>a. ag_host_id a = host_id) (list_agents d)"

definition reissue_token ::
    "settings \<Rightarrow> instant \<Rightarrow> string option \<Rightarrow> string option \<Rightarrow> string option \<Rightarrow> string \<Rightarrow>
     string option \<Rightarrow> controller \<Rightarrow> string response \<times> controller" where
  "reissue_token cfg now key token client drawn host_id_in =
     gated cfg now key token (\<lambda>actor c.
       let host_id = strip (or_else host_id_in [])
       in if \<not> is_loopback_peer client then (Inl (Http 403), c)
          else if host_id = [] then (Inl (Http 400), c)
          else if find_agent host_id (cdb c) = None then (Inl (Http 404), c)
          else (case create_reissue_token now drawn host_id (cdb c) of
                  None \<Rightarrow> (Inl (Http 500), c)
                | Some d \<Rightarrow>
                    audited cfg now ''enroll_token_reissued'' actor
                      (''reissue token minted to re-bind host '' @ host_id)
                      (Inr drawn, c\<lparr>cdb := d\<rparr>)))"

definition set_enrollment_pause_route ::
    "settings \<Rightarrow> instant \<Rightarrow> string option \<Rightarrow> string option \<Rightarrow> bool \<Rightarrow> controller \<Rightarrow>
     bool response \<times> controller" where
  "set_enrollment_pause_route cfg now key token paused =
     gated cfg now key token (\<lambda>actor c.
       audited cfg now (if paused then ''enrollment_paused'' else ''enrollment_resumed'') actor
         (''new agent enrollment '' @ (if paused then ''PAUSED'' else ''resumed''))
         (Inr paused, c\<lparr>cdb := snd (set_enrollment_paused now paused (Some actor) (cdb c))\<rparr>))"

text \<open>The network's text in the audit detail is not modelled: \<open>shown\<close> is it.\<close>

definition add_enroll_allowlist_route ::
    "settings \<Rightarrow> instant \<Rightarrow> string option \<Rightarrow> string option \<Rightarrow> (ip_net \<Rightarrow> string) \<Rightarrow>
     string option \<Rightarrow> string option \<Rightarrow> controller \<Rightarrow> allow_row list response \<times> controller" where
  "add_enroll_allowlist_route cfg now key token shown cidr_in note_in =
     gated cfg now key token (\<lambda>actor c.
       let cidr = strip (or_else cidr_in []); note = strip (or_else note_in [])
       in case add_enroll_allowlist_cidr now (Some cidr) (Some note) (Some actor) (cdb c) of
            None \<Rightarrow> (Inl (Http 400), c)
          | Some (net, d) \<Rightarrow>
              audited cfg now ''enroll_allowlist_add'' actor
                (''allow '' @ shown net @ (if note = [] then [] else '' ('' @ note @ '')''))
                (Inr (list_enroll_allowlist d), c\<lparr>cdb := d\<rparr>))"

definition remove_enroll_allowlist_route ::
    "settings \<Rightarrow> instant \<Rightarrow> string option \<Rightarrow> string option \<Rightarrow> int \<Rightarrow> controller \<Rightarrow>
     allow_row list response \<times> controller" where
  "remove_enroll_allowlist_route cfg now key token entry_id =
     gated cfg now key token (\<lambda>actor c.
       case remove_enroll_allowlist_cidr entry_id (cdb c) of (removed, d) \<Rightarrow>
         (let r = (Inr (list_enroll_allowlist d), c\<lparr>cdb := d\<rparr>)
          in if removed
             then audited cfg now ''enroll_allowlist_remove'' actor (''entry '' @ show_int entry_id) r
             else r))"

section \<open>Flood guard\<close>

definition ENROLL_RATE_MAX :: nat where
  "ENROLL_RATE_MAX = 240"

definition ENROLL_RATE_WINDOW :: int where
  "ENROLL_RATE_WINDOW = 60"

definition ENROLL_RATE_TABLE_MAX :: nat where
  "ENROLL_RATE_TABLE_MAX = 10000"

text \<open>The retry-after seconds (0 lets the request pass) and the new table.\<close>

definition enroll_rate_limited ::
    "instant \<Rightarrow> string \<Rightarrow> (string \<times> instant list) list \<Rightarrow> int \<times> (string \<times> instant list) list" where
  "enroll_rate_limited now ip rates =
     (if ip = [] \<or> ENROLL_RATE_MAX = 0 \<or> ENROLL_RATE_WINDOW \<le> 0 then (0, rates)
      else
        (let cutoff = now - of_int ENROLL_RATE_WINDOW;
             old = (case map_of rates ip of None \<Rightarrow> [] | Some hs \<Rightarrow> hs);
             hits = filter (\<lambda>t. cutoff \<le> t) old;
             put = (\<lambda>hs. tb_upsert (\<lambda>e. fst e = ip) (\<lambda>e. (ip, hs)) (ip, hs) rates)
         in if ENROLL_RATE_MAX \<le> length hits
            then (max 1 (py_int (hd hits + of_int ENROLL_RATE_WINDOW - now)), put hits)
            else (let rates1 = put (hits @ [now])
                  in (0, if ENROLL_RATE_TABLE_MAX < length rates1
                         then tb_delete (\<lambda>e. snd e = [] \<or> last (snd e) < cutoff) rates1
                         else rates1))))"

section \<open>Enrolment\<close>

definition REENROLL_LIVE_HOST_GRACE_S :: rat where
  "REENROLL_LIVE_HOST_GRACE_S = 300"

definition ENROLL_REQUIRE_REBIND_AUTH :: bool where
  "ENROLL_REQUIRE_REBIND_AUTH = True"

record enroll_request =
  er_token :: string
  er_host_id :: string
  er_hostname :: "string option"
  er_platform :: "string option"
  er_kernel :: "string option"
  er_ip :: "string option"
  er_prev_secret :: "string option"

definition reserved_host_ids :: "string list" where
  "reserved_host_ids = [''*'']"

text \<open>The check is on the stripped text; an empty id passes.\<close>

definition host_id_acceptable :: "string \<Rightarrow> bool" where
  "host_id_acceptable host_id =
     (let h = strip host_id
      in h = [] \<or> (h \<notin> set reserved_host_ids \<and>
                   list_all (\<lambda>c. is_alnum c \<or> c \<in> set ''._-'') h))"

definition last_seen_or_0 :: "agent_row \<Rightarrow> instant" where
  "last_seen_or_0 a = or_zero (ag_last_seen a)"

definition recently_seen :: "instant \<Rightarrow> agent_row \<Rightarrow> bool" where
  "recently_seen now a = (now - last_seen_or_0 a < REENROLL_LIVE_HOST_GRACE_S)"

text \<open>When both sides report a host name it must match; a live or revoked record is never taken.\<close>

definition supersedable ::
    "instant \<Rightarrow> string option \<Rightarrow> string option \<Rightarrow> string \<Rightarrow> agent_row \<Rightarrow> bool" where
  "supersedable now hostname ip exclude_host_id a =
     (let in_host = strip (or_else hostname []); a_host = strip (or_else (ag_hostname a) [])
      in ag_host_id a \<noteq> exclude_host_id \<and> Some (or_else (ag_ip a) []) = ip \<and>
         \<not> (in_host \<noteq> [] \<and> a_host \<noteq> [] \<and> a_host \<noteq> in_host) \<and>
         \<not> ag_revoked a \<and> \<not> recently_seen now a)"

definition find_supersedable_agent ::
    "instant \<Rightarrow> string option \<Rightarrow> string option \<Rightarrow> string \<Rightarrow> db \<Rightarrow> agent_row option" where
  "find_supersedable_agent now hostname ip exclude_host_id d =
     (if \<not> truthy ip then None
      else (case sort_key (\<lambda>a. - last_seen_or_0 a)
                   (filter (supersedable now hostname ip exclude_host_id) (list_agents d)) of
              [] \<Rightarrow> None | a # _ \<Rightarrow> Some a))"

text \<open>The host a token enrols, and the record it would take over, if any.\<close>

definition enroll_target :: "instant \<Rightarrow> enroll_request \<Rightarrow> db \<Rightarrow> string \<times> agent_row option" where
  "enroll_target now req d =
     (let host_id = resolve_enroll_token_host (er_token req) (er_host_id req) d
      in case find_agent host_id d of
           Some a \<Rightarrow> (host_id, Some a)
         | None \<Rightarrow>
             (case find_supersedable_agent now (er_hostname req) (er_ip req) host_id d of
                Some a \<Rightarrow> (ag_host_id a, Some a)
              | None \<Rightarrow> (host_id, None)))"

text \<open>Refusal of an unauthorized re-bind; checking the old secret may upgrade its hash.\<close>

definition rebind_guard ::
    "instant \<Rightarrow> enroll_request \<Rightarrow> string \<Rightarrow> agent_row \<Rightarrow> db \<Rightarrow> unit response \<times> db" where
  "rebind_guard now req host_id existing d =
     (if ag_revoked existing then (Inl (Http 403), d)
      else
        (let (p1, d1) = (if truthy (er_prev_secret req)
                         then agent_secret_matches host_id (er_prev_secret req) d else (False, d));
             proven = (p1 \<or> enroll_token_authorizes_rebind now (er_token req) host_id d1)
         in if \<not> proven \<and> ENROLL_REQUIRE_REBIND_AUTH
            then (if recently_seen now existing then Inl (Http 409) else Inl (Http 403), d1)
            else (Inr (), d1)))"

definition enroll_message :: "enroll_request \<Rightarrow> string" where
  "enroll_message req =
     ''Host enrolled ('' @ or_else (er_platform req) ''agent'' @ '') at '' @
     or_else (er_ip req) ''unknown IP''"

text \<open>The end of the part under the enrol lock: claim the token, then write the row.\<close>

definition enroll_claim ::
    "instant \<Rightarrow> string \<Rightarrow> enroll_request \<Rightarrow> string \<Rightarrow> bool \<Rightarrow> db \<Rightarrow> string response \<times> db" where
  "enroll_claim now agent_secret req host_id is_fresh d1 =
     (case enforce_host_limit (Some (or_else (er_hostname req) host_id)) (Some host_id) d1 of
        Inl e \<Rightarrow> (Inl e, d1)
      | Inr _ \<Rightarrow>
        (case consume_enroll_token now (er_token req) host_id d1 of
           (False, d2) \<Rightarrow> (Inl (Http 409), d2)
         | (True, d2) \<Rightarrow>
             (let d3 = create_or_update_agent host_id (er_hostname req) (er_platform req)
                         (er_kernel req) ''online'' now (Some agent_secret) (er_ip req) d2;
                  e = enroll_token_environment (er_token req) d3
              in (Inr host_id,
                  if is_fresh \<and> e \<noteq> [] then snd (set_agent_environment host_id e d3) else d3))))"

text \<open>The part under the enrol lock, from the token's validation to the stored row.\<close>

definition enroll_locked ::
    "instant \<Rightarrow> string \<Rightarrow> enroll_request \<Rightarrow> db \<Rightarrow> string response \<times> db" where
  "enroll_locked now agent_secret req d =
     (if \<not> validate_enroll_token now now (er_token req) d then (Inl (Http 403), d)
      else (case enroll_target now req d of
              (host_id, None) \<Rightarrow> enroll_claim now agent_secret req host_id True d
            | (host_id, Some a) \<Rightarrow>
                (case rebind_guard now req host_id a d of
                   (Inl e, d1) \<Rightarrow> (Inl e, d1)
                 | (Inr _, d1) \<Rightarrow> enroll_claim now agent_secret req host_id False d1)))"

definition enroll ::
    "settings \<Rightarrow> instant \<Rightarrow> string option \<Rightarrow> string \<Rightarrow> enroll_request \<Rightarrow> controller \<Rightarrow>
     (string \<times> string) response \<times> controller" where
  "enroll cfg now client agent_secret req c =
     (if \<not> host_id_acceptable (er_host_id req) then (Inl (Http 400), c)
      else
        (let (retry, rates) = enroll_rate_limited now (or_else client []) (enroll_rate c);
             c1 = c\<lparr>enroll_rate := rates\<rparr>
         in if retry \<noteq> 0 then (Inl (Http 429), c1)
            else if \<not> enroll_ip_allowed (Some (or_else client [])) (cdb c1) then (Inl (Http 403), c1)
            else if get_enrollment_paused (cdb c1) then (Inl (Http 503), c1)
            else
              (case enroll_locked now agent_secret req (cdb c1) of
                 (Inl e, d) \<Rightarrow> (Inl e, c1\<lparr>cdb := d\<rparr>)
               | (Inr host_id, d) \<Rightarrow>
                   (let d' = (case log_activity (audit_key cfg) (audit_required cfg) (redact cfg) now
                                (Some ''enrollment'') (Some (or_else (er_hostname req) host_id))
                                (Some (enroll_message req)) (Some []) (Some ''automation'') d of
                                Inl _ \<Rightarrow> d | Inr d2 \<Rightarrow> d2)
                    in (Inr (host_id, agent_secret),
                        c1\<lparr>cdb := d', integrity := rebaseline host_id (integrity c1)\<rparr>)))))"

section \<open>Heartbeat\<close>

definition AGENT_AUTO_UPDATE_RETRY_S :: rat where
  "AGENT_AUTO_UPDATE_RETRY_S = 1800"

definition auto_update_should_queue ::
    "instant \<Rightarrow> string \<Rightarrow> string \<Rightarrow> (string \<times> (string \<times> instant)) list \<Rightarrow>
     bool \<times> (string \<times> (string \<times> instant)) list" where
  "auto_update_should_queue now host_id target sent =
     (if (case map_of sent host_id of None \<Rightarrow> False
          | Some (v, t) \<Rightarrow> v = target \<and> now - t < AGENT_AUTO_UPDATE_RETRY_S)
      then (False, sent)
      else (True, tb_upsert (\<lambda>e. fst e = host_id) (\<lambda>e. (host_id, (target, now)))
                    (host_id, (target, now)) sent))"

definition right_arrow :: string where
  "right_arrow = map char_of [226, 134, 146 :: nat]"

definition maybe_auto_update_agent ::
    "settings \<Rightarrow> instant \<Rightarrow> string \<Rightarrow> string option \<Rightarrow> controller \<Rightarrow> controller" where
  "maybe_auto_update_agent cfg now host_id reported c =
     (if \<not> truthy reported then c
      else (case agent_version_of_controller cfg of None \<Rightarrow> c
        | Some target \<Rightarrow>
          if target = [] \<or> reported = Some target then c
          else (case find_agent host_id (cdb c) of None \<Rightarrow> c
            | Some a \<Rightarrow>
              if ag_revoked a then c
              else (case auto_update_should_queue now host_id target (auto_update_sent c) of
                  (False, sent) \<Rightarrow> c\<lparr>auto_update_sent := sent\<rparr>
                | (True, sent) \<Rightarrow>
                    (let d = snd (queue_task now host_id (agent_update_command cfg) ''agent-update''
                                    None (cdb c));
                         d' = (case log_activity (audit_key cfg) (audit_required cfg) (redact cfg) now
                                 (Some ''controller'') (Some (or_else (ag_hostname a) host_id))
                                 (Some (''Auto-updating agent '' @ or_else reported [] @ '' '' @
                                        right_arrow @ '' '' @ target))
                                 (Some []) (Some ''automation'') d of
                                 Inl _ \<Rightarrow> d | Inr d2 \<Rightarrow> d2)
                     in c\<lparr>cdb := d', integrity := mark_updating now None host_id (integrity c),
                          auto_update_sent := sent\<rparr>)))))"

record heartbeat_request =
  hb_host_id :: string
  hb_secret :: string
  hb_ip :: "string option"
  hb_hostname :: "string option"
  hb_version :: "string option"
  hb_metrics :: "health_row option"
  hb_measurements :: "json option"

definition heartbeat ::
    "settings \<Rightarrow> instant \<Rightarrow> heartbeat_request \<Rightarrow> controller \<Rightarrow> unit response \<times> controller" where
  "heartbeat cfg now req c =
     (case verify_agent (hb_host_id req) (Some (hb_secret req)) (cdb c) of
        (Inl e, d) \<Rightarrow> (Inl e, c\<lparr>cdb := d\<rparr>)
      | (Inr _, d) \<Rightarrow>
          (let c1 = c\<lparr>cdb := update_agent_heartbeat now (hb_host_id req) (hb_ip req)
                               (hb_hostname req) (hb_version req) d\<rparr>;
               c2 = maybe_auto_update_agent cfg now (hb_host_id req) (hb_version req) c1;
               st = (case hb_measurements req of
                       Some m \<Rightarrow> snd (evaluate now now (hb_host_id req) m (integrity c2))
                     | None \<Rightarrow> snd (note_missing now now (hb_host_id req) (integrity c2)));
               d3 = (case hb_metrics req of None \<Rightarrow> cdb c2
                     | Some h \<Rightarrow> upsert_host_health (h\<lparr>hh_host_id := hb_host_id req, hh_ts := now\<rparr>)
                                  (cdb c2))
           in (Inr (), c2\<lparr>cdb := d3, integrity := st\<rparr>)))"

section \<open>Facts\<close>

named_theorems app_simps \<open>what the handlers do to a lookup\<close>

text \<open>The inventory listing is ordered, but a key is found all the same.\<close>

lemma find_sorted:
  fixes f :: "'r \<Rightarrow> 'o :: linorder"
  assumes "keyed key rows"
  shows "find (\<lambda>r. key r = k) (sort_key f rows) = find (\<lambda>r. key r = k) rows"
proof (cases "find (\<lambda>r. key r = k) rows")
  case None
  then have "find (\<lambda>r. key r = k) (sort_key f rows) = None" unfolding find_None_iff by simp
  with None show ?thesis by (simp only:)
next
  case (Some r)
  then have r: "r \<in> set rows" "key r = k" by (auto dest: find_SomeD)
  have "keyed key (sort_key f rows)"
    using assms by (simp add: keyed_def distinct_map)
  from keyed_find [OF this, of r] r Some show ?thesis by simp
qed

lemma find_agent_row_eq [app_simps]: "schema_ok d \<Longrightarrow> find_agent h d = find_agent_row h d"
  by (simp add: find_agent_def list_agents_def find_agent_row_def find_sorted schema_ok_def)

lemma business_agent: "same_business d d' \<Longrightarrow> find_agent_row h d' = find_agent_row h d"
  by (simp add: same_business_def find_agent_row_def)

lemma business_token: "same_business d d' \<Longrightarrow> find_token t d' = find_token t d"
  by (simp add: same_business_def find_token_def)

lemma supersedable_props:
  assumes "find_supersedable_agent now hostname ip ex d = Some a"
  shows "a \<in> set (agents d) \<and> ag_host_id a \<noteq> ex \<and> \<not> ag_revoked a \<and> \<not> recently_seen now a \<and>
    ag_ip a = ip"
proof -
  from assms obtain as where
    as: "sort_key (\<lambda>a. - last_seen_or_0 a) (filter (supersedable now hostname ip ex) (list_agents d)) = a # as"
    and ip: "truthy ip"
    by (auto simp: find_supersedable_agent_def split: if_splits list.splits)
  have "a \<in> set (sort_key (\<lambda>a. - last_seen_or_0 a)
      (filter (supersedable now hostname ip ex) (list_agents d)))"
    unfolding as by simp
  then have *: "a \<in> set (agents d) \<and> ag_host_id a \<noteq> ex \<and> \<not> ag_revoked a \<and> \<not> recently_seen now a \<and>
      Some (or_else (ag_ip a) []) = ip"
    by (simp add: supersedable_def Let_def set_list_agents)
  with ip have "ag_ip a = ip" by (cases "ag_ip a") (auto simp: or_else_def split: if_splits)
  with * show ?thesis by blast
qed

lemma enroll_target_row:
  assumes "schema_ok d" "enroll_target now req d = (h, ex)"
  shows "find_agent_row h d = ex"
proof -
  have k: "keyed ag_host_id (agents d)" using assms(1) by (simp add: schema_ok_def)
  show ?thesis
  proof (cases "find_agent (resolve_enroll_token_host (er_token req) (er_host_id req) d) d")
    case (Some a)
    then show ?thesis using assms by (auto simp: enroll_target_def Let_def find_agent_row_eq)
  next
    case None
    let ?s = "find_supersedable_agent now (er_hostname req) (er_ip req)
      (resolve_enroll_token_host (er_token req) (er_host_id req) d) d"
    show ?thesis
    proof (cases ?s)
      case (Some a)
      then have "a \<in> set (agents d)" by (blast dest: supersedable_props)
      then show ?thesis
        using assms None Some keyed_find [OF k] by (auto simp: enroll_target_def Let_def find_agent_row_def)
    qed (use assms None in \<open>auto simp: enroll_target_def Let_def find_agent_row_eq\<close>)
  qed
qed

text \<open>What counts as proof of the right to take over the record of a host.\<close>

definition rebind_proven :: "instant \<Rightarrow> enroll_request \<Rightarrow> string \<Rightarrow> db \<Rightarrow> bool" where
  "rebind_proven now req h d =
     (fst (agent_secret_matches h (er_prev_secret req) d) \<or>
      enroll_token_authorizes_rebind now (er_token req) h d)"

lemma authorizes_after_match [simp]:
  "enroll_token_authorizes_rebind now t h (snd (agent_secret_matches k p d)) =
   enroll_token_authorizes_rebind now t h d"
  by (simp add: enroll_token_authorizes_rebind_def find_token_def agent_secret_matches_def Let_def
      upgrade_agent_secret_hash_def)

lemma match_false_same: "\<not> fst (agent_secret_matches h p d) \<Longrightarrow> snd (agent_secret_matches h p d) = d"
  by (auto simp: agent_secret_matches_def Let_def split: if_splits)

lemma match_other [agent_simps]:
  "k \<noteq> h \<Longrightarrow> find_agent_row k (snd (agent_secret_matches h p d)) = find_agent_row k d"
  by (simp add: agent_secret_matches_def Let_def upgrade_agent_secret_hash_def agent_simps)

lemma match_frame [simp]:
  "enroll_tokens (snd (agent_secret_matches h p d)) = enroll_tokens d"
  "environments (snd (agent_secret_matches h p d)) = environments d"
  by (simp_all add: agent_secret_matches_def Let_def upgrade_agent_secret_hash_def)

lemma guard_refuses:
  assumes "ag_revoked a \<or> \<not> rebind_proven now req h d"
  shows "\<exists>e. rebind_guard now req h a d = (Inl e, d)"
  using assms match_false_same [of h "er_prev_secret req" d]
  by (cases "agent_secret_matches h (er_prev_secret req) d")
     (auto simp: rebind_guard_def rebind_proven_def ENROLL_REQUIRE_REBIND_AUTH_def Let_def
       split: if_splits)

lemma guard_state:
  "snd (rebind_guard now req h a d) = d \<or>
   snd (rebind_guard now req h a d) = snd (agent_secret_matches h (er_prev_secret req) d)"
  by (auto simp: rebind_guard_def Let_def split: prod.split)

lemma guard_other:
  "k \<noteq> h \<Longrightarrow> find_agent_row k (snd (rebind_guard now req h a d)) = find_agent_row k d"
  using guard_state [of now req h a d] match_other [of k h "er_prev_secret req" d] by metis

lemma guard_tokens: "enroll_tokens (snd (rebind_guard now req h a d)) = enroll_tokens d"
  using guard_state [of now req h a d] match_frame(1) by metis

lemma guard_schema: "schema_ok (snd (rebind_guard now req h a d)) = schema_ok d"
  using guard_state [of now req h a d] secret_matches_schema by metis

lemma set_environment_other:
  "k \<noteq> h \<Longrightarrow> find_agent_row k (snd (set_agent_environment h e d)) = find_agent_row k d"
  by (simp add: set_agent_environment_def Let_def agent_simps split: option.split)

lemma set_environment_frame:
  "enroll_tokens (snd (set_agent_environment h e d)) = enroll_tokens d"
  "schema_ok (snd (set_agent_environment h e d)) = schema_ok d"
  by (simp_all add: set_agent_environment_def Let_def schema_simps split: option.split)

lemma set_environment_same:
  assumes "find_agent_row h d = Some a"
  shows "\<exists>v w. find_agent_row h (snd (set_agent_environment h e d)) =
    Some (a\<lparr>ag_environment := v, ag_requires_sudo := w\<rparr>)"
proof -
  define w where "w = (case find (\<lambda>x. en_name x = e) (environments d) of
      Some x \<Rightarrow> if e = [] then ag_requires_sudo a else en_requires_sudo x
    | None \<Rightarrow> ag_requires_sudo a)"
  have "find_agent_row h (snd (set_agent_environment h e d)) =
      Some (a\<lparr>ag_environment := Some e, ag_requires_sudo := w\<rparr>)"
    using assms unfolding set_agent_environment_def Let_def w_def
    by (simp add: agent_simps split: option.split)
  then show ?thesis by blast
qed

lemma create_frame [simp]:
  "enroll_tokens (create_or_update_agent h hn p k st ls s ip d) = enroll_tokens d"
  "environments (create_or_update_agent h hn p k st ls s ip d) = environments d"
  by (simp_all add: create_or_update_agent_def Let_def)

lemma claim_unfold:
  "enroll_claim now s req h f d =
    (if fst (consume_enroll_token now (er_token req) h d)
     then (Inr h,
       let d3 = create_or_update_agent h (er_hostname req) (er_platform req) (er_kernel req)
                  ''online'' now (Some s) (er_ip req) (snd (consume_enroll_token now (er_token req) h d));
           e = enroll_token_environment (er_token req) d3
       in if f \<and> e \<noteq> [] then snd (set_agent_environment h e d3) else d3)
     else (Inl (Http 409), snd (consume_enroll_token now (er_token req) h d)))"
  by (simp add: enroll_claim_def enforce_host_limit_def HOST_LIMIT_def Let_def
      split: prod.split bool.split)

lemma claim_other:
  "k \<noteq> h \<Longrightarrow> find_agent_row k (snd (enroll_claim now s req h f d)) = find_agent_row k d"
  by (simp add: claim_unfold Let_def set_environment_other find_created_other)

lemma claim_schema: "schema_ok d \<Longrightarrow> schema_ok (snd (enroll_claim now s req h f d))"
  by (simp add: claim_unfold Let_def set_environment_frame schema_simps)

lemma claim_tokens:
  "enroll_tokens (snd (enroll_claim now s req h f d)) =
   enroll_tokens (snd (consume_enroll_token now (er_token req) h d))"
  by (simp add: claim_unfold Let_def set_environment_frame)

lemma claim_row:
  assumes "fst (enroll_claim now s req h f d) = Inr k" "s \<noteq> []"
  shows "k = h \<and> (\<exists>a. find_agent_row h (snd (enroll_claim now s req h f d)) = Some a \<and>
    \<not> ag_revoked a \<and> ag_secret a = Some (token_at_rest (Some s)) \<and>
    ag_status a = ''online'' \<and> ag_last_seen a = Some now)"
proof -
  let ?d3 = "create_or_update_agent h (er_hostname req) (er_platform req) (er_kernel req)
    ''online'' now (Some s) (er_ip req) (snd (consume_enroll_token now (er_token req) h d))"
  obtain a where a: "find_agent_row h ?d3 = Some a" "\<not> ag_revoked a" "ag_status a = ''online''"
      "ag_secret a = Some (token_at_rest (Some s))" "ag_last_seen a = Some now"
    using assms(2) by (simp add: find_created_agent)
  from assms(1) have c: "fst (consume_enroll_token now (er_token req) h d)" "k = h"
    by (auto simp: claim_unfold split: if_splits)
  show ?thesis
  proof (cases "f \<and> enroll_token_environment (er_token req) ?d3 \<noteq> []")
    case True
    obtain v w where "find_agent_row h (snd (set_agent_environment h
        (enroll_token_environment (er_token req) ?d3) ?d3)) =
        Some (a\<lparr>ag_environment := v, ag_requires_sudo := w\<rparr>)"
      using set_environment_same [OF a(1)] by blast
    with True a c show ?thesis by (simp add: claim_unfold Let_def)
  next
    case False
    then have "\<not> (f \<and> enroll_token_environment (er_token req) ?d3 \<noteq> [])" .
    with a c show ?thesis by (simp only: claim_unfold Let_def if_True if_False snd_conv) simp
  qed
qed

text \<open>A run of the locked part touches at most the target's row, and only past the guard.\<close>

lemma enroll_locked_other:
  assumes "enroll_target now req d = (h, ex)" "k \<noteq> h"
  shows "find_agent_row k (snd (enroll_locked now s req d)) = find_agent_row k d"
  using assms guard_other [OF assms(2), of now req _ d] claim_other [OF assms(2)]
  by (auto simp: enroll_locked_def split: option.split prod.split sum.split) (metis snd_conv)+

lemma enroll_locked_schema:
  assumes "schema_ok d" shows "schema_ok (snd (enroll_locked now s req d))"
  using assms guard_schema claim_schema
  by (auto simp: enroll_locked_def split: option.split prod.split sum.split) (metis snd_conv)+

lemma enroll_locked_unproven:
  assumes "schema_ok d" "find_agent_row h d = Some a" "ag_revoked a \<or> \<not> rebind_proven now req h d"
  shows "find_agent_row h (snd (enroll_locked now s req d)) = Some a"
proof -
  obtain h' ex where t: "enroll_target now req d = (h', ex)" by fastforce
  show ?thesis
  proof (cases "h' = h")
    case False
    with enroll_locked_other [OF t, of h s] assms(2) show ?thesis by simp
  next
    case True
    then have "ex = Some a" using enroll_target_row [OF assms(1) t] assms(2) by simp
    moreover obtain e where "rebind_guard now req h a d = (Inl e, d)"
      using guard_refuses [OF assms(3)] by blast
    ultimately show ?thesis using t True assms(2) by (simp add: enroll_locked_def)
  qed
qed

lemma enroll_locked_ok:
  assumes "enroll_locked now s req d = (Inr h, d')"
  obtains f d1 where "enroll_claim now s req h f d1 = (Inr h, d')"
    "enroll_tokens d1 = enroll_tokens d" "schema_ok d1 = schema_ok d"
    "f = (snd (enroll_target now req d) = None)"
proof -
  obtain h' ex where t: "enroll_target now req d = (h', ex)" by fastforce
  have fh: "fst (enroll_claim now s req h' f d1) = Inr h \<Longrightarrow> h' = h" for f d1
    by (auto simp: claim_unfold split: if_splits)
  show thesis
  proof (cases ex)
    case None
    with assms t have "enroll_claim now s req h' True d = (Inr h, d')"
      by (auto simp: enroll_locked_def split: if_splits)
    with fh [of True d] t None that [of True d] show thesis by simp
  next
    case (Some a)
    obtain r d1 where g: "rebind_guard now req h' a d = (r, d1)" by fastforce
    with assms t Some have c: "enroll_claim now s req h' False d1 = (Inr h, d')"
      by (auto simp: enroll_locked_def split: if_splits sum.splits)
    have "enroll_tokens d1 = enroll_tokens d" "schema_ok d1 = schema_ok d"
      using guard_tokens [of now req h' a d] guard_schema [of now req h' a d] g by auto
    with c fh [of False d1] t Some that [of False d1] show thesis by simp
  qed
qed

end
