(* ===== verification/App_Tasks.thy ===== *)
theory App_Tasks
  imports App_Enroll
begin

text \<open>
  Dispatch of commands (\<^verbatim>\<open>backend/app.py\<close>): queueing a task with the identity of the caller's
  token, the sudo passwords and root promises that are held in memory and handed out once, the
  agent's poll, the agent's result, the description and classification of a command for the
  activity feed, and the handlers that revoke, restore and remove a host.
\<close>

section \<open>Secrets held for a task\<close>

definition BECOME_TTL_S :: rat where
  "BECOME_TTL_S = 300"

definition sweep_become :: "instant \<Rightarrow> controller \<Rightarrow> controller" where
  "sweep_become now c =
     c\<lparr>pending_become := tb_delete (\<lambda>e. bc_expiry (snd e) < now) (pending_become c)\<rparr>"

text \<open>\<open>d[k] = v\<close> on a dict.\<close>

definition dict_put :: "'k \<Rightarrow> 'v \<Rightarrow> ('k \<times> 'v) list \<Rightarrow> ('k \<times> 'v) list" where
  "dict_put k v kvs = tb_upsert (\<lambda>e. fst e = k) (\<lambda>e. (k, v)) (k, v) kvs"

definition store_become :: "instant \<Rightarrow> int \<Rightarrow> string option \<Rightarrow> controller \<Rightarrow> controller" where
  "store_become now task_id password c =
     (if \<not> truthy password then c
      else (let c1 = sweep_become now c
            in c1\<lparr>pending_become := dict_put task_id
                   \<lparr>bc_password = the password, bc_expiry = now + BECOME_TTL_S\<rparr> (pending_become c1)\<rparr>))"

definition take_become :: "int \<Rightarrow> controller \<Rightarrow> string option \<times> controller" where
  "take_become task_id c =
     (map_option bc_password (map_of (pending_become c) task_id),
      c\<lparr>pending_become := tb_delete (\<lambda>e. fst e = task_id) (pending_become c)\<rparr>)"

definition sweep_want_root :: "instant \<Rightarrow> controller \<Rightarrow> controller" where
  "sweep_want_root now c =
     c\<lparr>pending_want_root := tb_delete (\<lambda>e. snd e < now) (pending_want_root c)\<rparr>"

definition store_want_root :: "instant \<Rightarrow> int \<Rightarrow> controller \<Rightarrow> controller" where
  "store_want_root now task_id c =
     (let c1 = sweep_want_root now c
      in c1\<lparr>pending_want_root := dict_put task_id (now + BECOME_TTL_S) (pending_want_root c1)\<rparr>)"

definition take_want_root :: "int \<Rightarrow> controller \<Rightarrow> bool \<times> controller" where
  "take_want_root task_id c =
     (map_of (pending_want_root c) task_id \<noteq> None,
      c\<lparr>pending_want_root := tb_delete (\<lambda>e. fst e = task_id) (pending_want_root c)\<rparr>)"

section \<open>Describing a command\<close>

text \<open>Fragment, description, and whether the command is one of the controller's own sweeps.\<close>

definition command_signatures :: "(string \<times> string \<times> bool) list" where
  "command_signatures =
     [(''POSTURE|'', ''collected host posture'', True),
      (''mgr=unknown; total=0; sec=0'', ''checked for available package updates'', True),
      (''disk_detail=$(df -hPT'', ''ran a fleet health check'', True),
      (''disk=$(df -P'', ''collected host metrics'', True),
      (''== Identity =='', ''collected support information'', False),
      (''sosreport'', ''generated an sos report'', False),
      (''journalctl'', ''read the system journal'', False),
      (''systemctl --failed'', ''listed failed services'', False),
      (''df -hT'', ''checked disk usage'', False),
      (''free -'', ''checked memory use'', False),
      (''uptime'', ''checked uptime'', False)]"

definition noise_tokens :: "string list" where
  "noise_tokens =
     [''export'', ''if'', ''then'', ''else'', ''elif'', ''fi'', ''for'', ''do'', ''done'', ''while'',
      ''case'', ''esac'', ''set'', ''cd'', ''echo'', ''printf'', ''true'', ''false'', '':'', ''{'', ''}'',
      ''('', '')'', ''#'', ''local'', ''return'', ''exit'', ''trap'', ''shift'', ''read'', ''eval'']"

definition skipped_tokens :: "string list" where
  "skipped_tokens =
     [''command'', ''sudo'', ''sh'', ''bash'', ''-c'', ''timeout'', ''nohup'', ''env'']"

text \<open>\<open>str.splitlines\<close>: the line boundaries of ASCII, \<open>CR LF\<close> counting as one.\<close>

definition is_line_break :: "char \<Rightarrow> bool" where
  "is_line_break c =
     (let n = (of_char c :: nat) in (10 \<le> n \<and> n \<le> 13) \<or> (28 \<le> n \<and> n \<le> 30))"

fun lines_from :: "string \<Rightarrow> string \<Rightarrow> string list" where
  "lines_from cur [] = (if cur = [] then [] else [rev cur])"
| "lines_from cur [c] = (if is_line_break c then [rev cur] else [rev (c # cur)])"
| "lines_from cur (c # c' # cs) =
     (if is_line_break c
      then rev cur # (if of_char c = (13 :: nat) \<and> of_char c' = (10 :: nat) then lines_from [] cs
                      else lines_from [] (c' # cs))
      else lines_from (c # cur) (c' # cs))"

definition splitlines :: "string \<Rightarrow> string list" where
  "splitlines s = lines_from [] s"

text \<open>\<open>str.split()\<close>: maximal runs without white space.\<close>

fun words_from :: "string \<Rightarrow> string \<Rightarrow> string list" where
  "words_from cur [] = (if cur = [] then [] else [rev cur])"
| "words_from cur (c # cs) =
     (if is_space c then (if cur = [] then [] else [rev cur]) @ words_from [] cs
      else words_from (c # cur) cs)"

definition split_words :: "string \<Rightarrow> string list" where
  "split_words s = words_from [] s"

definition strip_chars :: "char set \<Rightarrow> string \<Rightarrow> string" where
  "strip_chars cs s = rev (dropWhile (\<lambda>c. c \<in> cs) (rev (dropWhile (\<lambda>c. c \<in> cs) s)))"

definition quote_chars :: string where
  "quote_chars = CHR 0x60 # CHR 0x27 # CHR 0x22 # ''(){}$''"

definition is_noise :: "string \<Rightarrow> bool" where
  "is_noise w =
     (w = [] \<or> w \<in> set noise_tokens \<or> CHR ''='' \<in> set w \<or> take 1 w = ''-'' \<or>
      w \<in> set skipped_tokens)"

text \<open>The first word of a line that is no noise; one program per line.\<close>

definition program_of_line :: "string \<Rightarrow> string option" where
  "program_of_line line =
     find (\<lambda>w. \<not> is_noise w)
       (map (strip_chars (set quote_chars))
         (split_words (map (\<lambda>c. if c \<in> {CHR '';'', CHR ''|'', CHR ''&''} then CHR '' '' else c) line)))"

text \<open>The loop stops once three programs are found.\<close>

fun programs_from :: "nat \<Rightarrow> string list \<Rightarrow> string list \<Rightarrow> string list" where
  "programs_from want seen [] = seen"
| "programs_from want seen (raw # rest) =
     (let line = strip raw
      in if line = [] \<or> take 1 line = ''#'' then programs_from want seen rest
         else (let seen' = (case program_of_line line of None \<Rightarrow> seen
                            | Some w \<Rightarrow> if w \<in> set seen then seen else seen @ [w])
               in if want \<le> length seen' then seen' else programs_from want seen' rest))"

definition script_programs :: "string \<Rightarrow> nat \<Rightarrow> string list" where
  "script_programs command want = take want (programs_from want [] (splitlines command))"

fun join_comma :: "string list \<Rightarrow> string" where
  "join_comma [] = []"
| "join_comma [w] = w"
| "join_comma (w # ws) = w @ '', '' @ join_comma ws"

definition describe_command :: "string \<Rightarrow> string" where
  "describe_command command =
     (let c = strip command
      in if c = [] then ''ran a command''
         else (case find (\<lambda>(f, t, s). is_substring f c) command_signatures of
                 Some (f, t, s) \<Rightarrow> t
               | None \<Rightarrow>
                   (let lines = filter (\<lambda>l. l \<noteq> [] \<and> take 1 l \<noteq> ''#'') (map strip (splitlines c));
                        shape = (if 1 < length lines
                                 then ''a '' @ digits (length lines) @ ''-line script'' else ''a command'');
                        progs = script_programs c 3
                    in if length lines = 1 \<and> length (hd lines) \<le> 80 then ''ran: '' @ hd lines
                       else if progs \<noteq> [] then ''ran '' @ shape @ '' ('' @ join_comma progs @ '')''
                       else ''ran '' @ shape)))"

definition classify_activity :: "string \<Rightarrow> string \<Rightarrow> bool \<Rightarrow> string" where
  "classify_activity command description has_identity =
     (let d = lower (strip description)
      in if list_ex (\<lambda>(f, t, s). s \<and> (is_substring f command \<or> d = t)) command_signatures
         then ''automation'' else if has_identity then ''user'' else ''api'')"

section \<open>Queueing\<close>

definition non_logged_kinds :: "string list" where
  "non_logged_kinds = [''sync_users'', ''ssh_enable'', ''ssh_grant'', ''ssh_revoke'']"

record task_request =
  tr_command :: string
  tr_kind :: string
  tr_description :: "string option"
  tr_become :: "string option"
  tr_log :: bool
  tr_want_root :: bool

text \<open>Who a dispatch is for: nobody without a token, else the token's user unless an auditor.\<close>

definition dispatch_identity :: "instant \<Rightarrow> string option \<Rightarrow> db \<Rightarrow> string option response \<times> db" where
  "dispatch_identity now token d =
     (if \<not> truthy token then (Inr None, d)
      else (case resolve_admin_token now token d of
              (None, d1) \<Rightarrow> (Inl (Http 401), d1)
            | (Some (u, r), d1) \<Rightarrow>
                (if r = Some ''auditor'' then Inl (Http 403) else Inr (Some u), d1)))"

definition queue_agent_task ::
    "settings \<Rightarrow> instant \<Rightarrow> string option \<Rightarrow> string option \<Rightarrow> string \<Rightarrow> task_request \<Rightarrow>
     controller \<Rightarrow> int response \<times> controller" where
  "queue_agent_task cfg now key token host_id body c =
     (case require_api_key cfg key of Inl e \<Rightarrow> (Inl e, c)
      | Inr _ \<Rightarrow>
        if \<not> agent_exists host_id (cdb c) then (Inl (Http 404), c)
        else (case dispatch_identity now token (cdb c) of
          (Inl e, d) \<Rightarrow> (Inl e, c\<lparr>cdb := d\<rparr>)
        | (Inr run_as, d) \<Rightarrow>
          (let (i, d1) = queue_task now host_id (tr_command body) (tr_kind body) run_as d;
               c1 = c\<lparr>cdb := d1\<rparr>;
               c2 = (if truthy run_as then store_become now i (tr_become body) c1 else c1);
               c3 = (if truthy run_as \<and> tr_want_root body then store_want_root now i c2 else c2)
           in if tr_kind body \<in> set non_logged_kinds \<or> (truthy run_as \<and> \<not> tr_log body)
              then (Inr i, c3)
              else
                (let desc = or_else (tr_description body) (describe_command (tr_command body))
                 in case log_activity (audit_key cfg) (audit_required cfg) (redact cfg) now
                        (Some (or_else run_as ''api-key'')) (Some (get_agent_hostname host_id (cdb c3)))
                        (Some desc) (Some (tr_command body))
                        (Some (classify_activity (tr_command body) desc (truthy run_as))) (cdb c3) of
                      Inl _ \<Rightarrow> (Inl (Http 500), c3)
                    | Inr d2 \<Rightarrow> (Inr i, c3\<lparr>cdb := d2\<rparr>)))))"

definition post_activity_route ::
    "settings \<Rightarrow> instant \<Rightarrow> string option \<Rightarrow> string option \<Rightarrow> string option \<Rightarrow> string option \<Rightarrow>
     controller \<Rightarrow> unit response \<times> controller" where
  "post_activity_route cfg now key token host description c =
     (case require_api_key cfg key of Inl e \<Rightarrow> (Inl e, c)
      | Inr _ \<Rightarrow>
        (case (if truthy token then resolve_admin_token now token (cdb c) else (None, cdb c)) of
           (None, d) \<Rightarrow> (Inl (Http 401), c\<lparr>cdb := d\<rparr>)
         | (Some (u, r), d) \<Rightarrow>
             if r = Some ''auditor'' then (Inl (Http 403), c\<lparr>cdb := d\<rparr>)
             else (let desc = take 200 (strip (or_else description []))
                   in if desc = [] then (Inl (Http 400), c\<lparr>cdb := d\<rparr>)
                      else (case log_activity (audit_key cfg) (audit_required cfg) (redact cfg) now
                              (Some u) (Some (take 200 (or_else host []))) (Some desc) (Some [])
                              (Some ''user'') d of
                              Inl _ \<Rightarrow> (Inl (Http 500), c\<lparr>cdb := d\<rparr>)
                            | Inr d2 \<Rightarrow> (Inr (), c\<lparr>cdb := d2\<rparr>)))))"

section \<open>Polling and results\<close>

record delivered =
  dl_task :: task_row
  dl_become :: "string option"
  dl_want_root :: bool

fun attach_secrets :: "task_row list \<Rightarrow> controller \<Rightarrow> delivered list \<times> controller" where
  "attach_secrets [] c = ([], c)"
| "attach_secrets (t # ts) c =
     (let (pw, c1) = take_become (tk_id t) c; (wr, c2) = take_want_root (tk_id t) c1;
          (ds, c3) = attach_secrets ts c2
      in (\<lparr>dl_task = t, dl_become = pw, dl_want_root = wr\<rparr> # ds, c3))"

definition poll_agent_tasks ::
    "instant \<Rightarrow> string \<Rightarrow> string option \<Rightarrow> string option \<Rightarrow> controller \<Rightarrow>
     (delivered list \<times> bool) response \<times> controller" where
  "poll_agent_tasks now host_id query_secret header_secret c =
     (case verify_agent host_id (if truthy header_secret then header_secret else query_secret) (cdb c) of
        (Inl e, d) \<Rightarrow> (Inl e, c\<lparr>cdb := d\<rparr>)
      | (Inr _, d) \<Rightarrow>
          if is_quarantined host_id (integrity c) then (Inr ([], True), c\<lparr>cdb := d\<rparr>)
          else (let (ts, d1) = fetch_pending_tasks now host_id d;
                    (ds, c1) = attach_secrets ts (c\<lparr>cdb := d1\<rparr>)
                in (Inr (ds, False), c1)))"

text \<open>\<open>True\<close> is "recorded", \<open>False\<close> is "ignored".\<close>

definition post_task_result ::
    "instant \<Rightarrow> string \<Rightarrow> string \<Rightarrow> string \<Rightarrow> int \<Rightarrow> string \<Rightarrow> controller \<Rightarrow>
     bool response \<times> controller" where
  "post_task_result now host_id body_host_id agent_secret task_id result c =
     (if host_id \<noteq> body_host_id then (Inl (Http 400), c)
      else (case verify_agent body_host_id (Some agent_secret) (cdb c) of
              (Inl e, d) \<Rightarrow> (Inl e, c\<lparr>cdb := d\<rparr>)
            | (Inr _, d) \<Rightarrow>
                if get_task_host task_id d \<noteq> Some body_host_id then (Inl (Http 404), c\<lparr>cdb := d\<rparr>)
                else (case submit_task_result now task_id body_host_id result d of
                        (applied, d1) \<Rightarrow> (Inr applied, c\<lparr>cdb := d1\<rparr>))))"

section \<open>Host lifecycle\<close>

definition remove_agent ::
    "settings \<Rightarrow> instant \<Rightarrow> string option \<Rightarrow> string option \<Rightarrow> string \<Rightarrow> bool \<Rightarrow> controller \<Rightarrow>
     nat response \<times> controller" where
  "remove_agent cfg now key token host_id purge_token =
     gated cfg now key token (\<lambda>actor c.
       let d1 = delete_agent host_id (cdb c);
           (n, d2) = (if purge_token then invalidate_enroll_tokens_for_host host_id d1 else (0, d1))
       in (Inr n, c\<lparr>cdb := d2, integrity := rebaseline host_id (integrity c)\<rparr>))"

definition revoke_agent_route ::
    "settings \<Rightarrow> instant \<Rightarrow> string option \<Rightarrow> string option \<Rightarrow> string \<Rightarrow> controller \<Rightarrow>
     unit response \<times> controller" where
  "revoke_agent_route cfg now key token host_id =
     gated cfg now key token (\<lambda>actor c.
       if \<not> agent_exists host_id (cdb c) then (Inl (Http 404), c)
       else audited cfg now ''agent_secret_revoked''
              (if truthy token then actor else ''superuser'') (''host '' @ host_id)
              (Inr (), c\<lparr>cdb := snd (revoke_agent host_id (cdb c)),
                         integrity := rebaseline host_id (integrity c)\<rparr>))"

definition resume_agent_route ::
    "settings \<Rightarrow> instant \<Rightarrow> string option \<Rightarrow> string option \<Rightarrow> string \<Rightarrow> controller \<Rightarrow>
     unit response \<times> controller" where
  "resume_agent_route cfg now key token host_id =
     gated cfg now key token (\<lambda>actor c.
       if \<not> agent_exists host_id (cdb c) then (Inl (Http 404), c)
       else audited cfg now ''agent_integrity_resumed''
              (if truthy token then actor else ''superuser'') (''host '' @ host_id)
              (Inr (), c\<lparr>integrity := rebaseline host_id (integrity c)\<rparr>))"

definition restore_agent_route ::
    "settings \<Rightarrow> instant \<Rightarrow> string option \<Rightarrow> string option \<Rightarrow> string \<Rightarrow> controller \<Rightarrow>
     unit response \<times> controller" where
  "restore_agent_route cfg now key token host_id =
     gated cfg now key token (\<lambda>actor c.
       if \<not> agent_exists host_id (cdb c) then (Inl (Http 404), c)
       else (case unrevoke_agent host_id (cdb c) of
               (False, d) \<Rightarrow> (Inl (Http 404), c\<lparr>cdb := d\<rparr>)
             | (True, d) \<Rightarrow>
                 audited cfg now ''agent_secret_restored''
                   (if truthy token then actor else ''superuser'') (''host '' @ host_id)
                   (Inr (), c\<lparr>cdb := d\<rparr>)))"

definition self_disenroll ::
    "string \<Rightarrow> string \<Rightarrow> string \<Rightarrow> controller \<Rightarrow> unit response \<times> controller" where
  "self_disenroll host_id body_host_id agent_secret c =
     (if host_id \<noteq> body_host_id then (Inl (Http 400), c)
      else (case verify_agent body_host_id (Some agent_secret) (cdb c) of
              (Inl e, d) \<Rightarrow> (Inl e, c\<lparr>cdb := d\<rparr>)
            | (Inr _, d) \<Rightarrow> (Inr (), c\<lparr>cdb := delete_agent body_host_id d,
                                       integrity := rebaseline body_host_id (integrity c)\<rparr>)))"

definition set_agent_environment_route ::
    "settings \<Rightarrow> instant \<Rightarrow> string option \<Rightarrow> string option \<Rightarrow> string \<Rightarrow> string \<Rightarrow> controller \<Rightarrow>
     unit response \<times> controller" where
  "set_agent_environment_route cfg now key token host_id environment =
     gated cfg now key token (\<lambda>actor c.
       if \<not> agent_exists host_id (cdb c) then (Inl (Http 404), c)
       else (Inr (), c\<lparr>cdb := snd (set_agent_environment host_id environment (cdb c))\<rparr>))"

definition set_agent_sudo_password_required_route ::
    "settings \<Rightarrow> instant \<Rightarrow> string option \<Rightarrow> string option \<Rightarrow> string \<Rightarrow> bool \<Rightarrow> controller \<Rightarrow>
     bool response \<times> controller" where
  "set_agent_sudo_password_required_route cfg now key token host_id required =
     gated cfg now key token (\<lambda>actor c.
       if \<not> agent_exists host_id (cdb c) then (Inl (Http 404), c)
       else (Inr required, c\<lparr>cdb := snd (set_agent_sudo_password_required host_id required (cdb c))\<rparr>))"

definition add_environment ::
    "settings \<Rightarrow> instant \<Rightarrow> string option \<Rightarrow> string option \<Rightarrow> string \<Rightarrow> controller \<Rightarrow>
     string list response \<times> controller" where
  "add_environment cfg now key token name_in =
     gated cfg now key token (\<lambda>actor c.
       let name = strip name_in
       in if name = [] then (Inl (Http 400), c)
          else if name \<in> set (list_environments (cdb c)) then (Inl (Http 409), c)
          else (let d = create_environment now name (cdb c)
                in (Inr (list_environments d), c\<lparr>cdb := d\<rparr>)))"

text \<open>\<open>ssh_in_env\<close> is the number of SSH-only hosts the separate host file has in the environment.\<close>

definition remove_environment ::
    "settings \<Rightarrow> instant \<Rightarrow> string option \<Rightarrow> string option \<Rightarrow> (string \<Rightarrow> nat) \<Rightarrow> string \<Rightarrow> bool \<Rightarrow>
     controller \<Rightarrow> string list response \<times> controller" where
  "remove_environment cfg now key token ssh_in_env name force =
     gated cfg now key token (\<lambda>actor c.
       if \<not> force \<and> (list_ex (\<lambda>a. or_else (ag_environment a) [] = name) (list_agents (cdb c)) \<or>
                      0 < ssh_in_env name)
       then (Inl (Http 409), c)
       else (let d = delete_environment name (cdb c)
             in (Inr (list_environments d), c\<lparr>cdb := d\<rparr>)))"

definition controller_decommission_route ::
    "settings \<Rightarrow> instant \<Rightarrow> string option \<Rightarrow> string option \<Rightarrow> string option \<Rightarrow> controller \<Rightarrow>
     nat response \<times> controller" where
  "controller_decommission_route cfg now key token confirm =
     gated cfg now key token (\<lambda>actor c.
       if strip (or_else confirm []) \<noteq> ''DECOMMISSION'' then (Inl (Http 400), c)
       else (case decommission_wipe (cdb c) of (n, d) \<Rightarrow>
               audited cfg now ''controller_decommissioned'' actor
                 (''controller neutralized '' @ map char_of [226, 128, 148 :: nat] @ '' '' @ show_int (int n) @
                  '' host(s) removed, tokens + address config wiped'')
                 (Inr n, c\<lparr>cdb := d\<rparr>)))"

end
