(* ===== verification/Task_Lifecycle.thy ===== *)
theory Task_Lifecycle
  imports App_Tasks
begin

text \<open>
  The life of a task over any interleaving of the queue's operations.  The operations of
  \<open>Db_Tasks\<close> are the steps of a labelled relation on databases; a label records what left the
  controller (a hand-out of task ids, a result that was applied).  The abstract view of a task
  is its stage, and every step is a move of the abstract machine.
\<close>

section \<open>Reclaiming, task by task\<close>

lemma reclaim_each_find:
  "find_task i (snd (reclaim_each now xs (n, d))) =
    (case find_task i d of None \<Rightarrow> None
     | Some t \<Rightarrow> Some (if i \<in> fst ` set xs \<and> tk_status t = Dispatched
                      then t\<lparr>tk_status := Timed_Out\<rparr> else t))"
proof (induction xs arbitrary: n d)
  case Nil
  then show ?case by (simp split: option.split)
next
  case (Cons x xs)
  obtain tid h where x: "x = (tid, h)" by fastforce
  show ?case
    by (auto simp: x Let_def Cons.IH task_simps split: option.split)
qed

lemma reclaim_each_frame:
  "task_seq (snd (reclaim_each now xs st)) = task_seq (snd st)"
proof (induction xs arbitrary: st)
  case (Cons x xs)
  obtain tid h n d where "x = (tid, h)" "st = (n, d)" by (metis surj_pair)
  then show ?case by (simp add: Let_def Cons.IH add_result_def)
qed simp

lemma reclaim_each_schema: "schema_ok (snd st) \<Longrightarrow> schema_ok (snd (reclaim_each now xs st))"
proof (induction xs arbitrary: st)
  case (Cons x xs)
  obtain tid h n d where x: "x = (tid, h)" "st = (n, d)" by (metis surj_pair)
  with Cons.prems have ok: "schema_ok d" by simp
  have u: "schema_ok (d\<lparr>agent_tasks := tb_update (dispatched_task tid) (\<lambda>t. t\<lparr>tk_status := Timed_Out\<rparr>)
      (agent_tasks d)\<rparr>)" using ok by (simp add: set_status_schema)
  show ?case using Cons.IH u add_result_schema [OF u] by (simp add: x Let_def)
qed simp

lemma prune_schema: "schema_ok d \<Longrightarrow> schema_ok (prune_terminal_tasks now d)"
  by (simp add: prune_terminal_tasks_def Let_def schema_ok_def keyed_delete ids_below_delete)

lemma prune_find:
  assumes "schema_ok d"
  shows "find_task i (prune_terminal_tasks now d) =
    (case find_task i d of None \<Rightarrow> None
     | Some t \<Rightarrow> if prunable (now - TASK_RETENTION_DAYS * 24 * 60 * 60) t then None else Some t)"
proof -
  have "keyed tk_id (agent_tasks d)" using assms by (simp add: schema_ok_def)
  from find_delete_keyed [OF this] show ?thesis
    unfolding prune_terminal_tasks_def Let_def find_task_def
    by (simp add: TASK_RETENTION_DAYS_def split: option.split)
qed

lemma reclaim_unfold:
  "snd (reclaim_stale_tasks now now' s d) = prune_terminal_tasks now' (snd (reclaim_each now'
     (map (\<lambda>t. (tk_id t, tk_host t)) (filter (stale_task (now - s)) (agent_tasks d))) (0, d)))"
  by (simp add: reclaim_stale_tasks_def Let_def split: prod.split)

lemma reclaim_schema: "schema_ok d \<Longrightarrow> schema_ok (snd (reclaim_stale_tasks now now' s d))"
  by (simp add: reclaim_unfold prune_schema reclaim_each_schema)

lemma reclaim_seq: "task_seq (snd (reclaim_stale_tasks now now' s d)) = task_seq d"
  by (simp add: reclaim_unfold prune_terminal_tasks_def Let_def reclaim_each_frame)

text \<open>Reclaiming times out exactly the stale hand-outs; pruning may then drop finished tasks.\<close>

lemma reclaim_find:
  assumes "schema_ok d"
  shows "find_task i (snd (reclaim_stale_tasks now now' s d)) =
    (case find_task i d of None \<Rightarrow> None
     | Some t \<Rightarrow>
        (let t' = if stale_task (now - s) t then t\<lparr>tk_status := Timed_Out\<rparr> else t
         in if prunable (now' - TASK_RETENTION_DAYS * 24 * 60 * 60) t' then None else Some t'))"
proof (cases "find_task i d")
  case None
  then show ?thesis
    by (simp add: reclaim_unfold prune_find reclaim_each_schema assms reclaim_each_find)
next
  case (Some t)
  have k: "keyed tk_id (agent_tasks d)" using assms by (simp add: schema_ok_def)
  have t: "tk_id t = i" "t \<in> set (agent_tasks d)" using find_task_SomeD [OF Some] by auto
  have "(i \<in> fst ` set (map (\<lambda>t. (tk_id t, tk_host t)) (filter (stale_task (now - s)) (agent_tasks d)))
      \<and> tk_status t = Dispatched) = stale_task (now - s) t"
  proof -
    have "u = t" if "u \<in> set (agent_tasks d)" "tk_id u = i" for u
      using keyed_find [OF k that(1)] keyed_find [OF k t(2)] t(1) that(2) by simp
    then have "(\<exists>u \<in> set (agent_tasks d). stale_task (now - s) u \<and> tk_id u = i) = stale_task (now - s) t"
      using t by metis
    moreover have "stale_task (now - s) t \<Longrightarrow> tk_status t = Dispatched" by (simp add: stale_task_def)
    ultimately show ?thesis by (simp add: image_iff) blast
  qed
  then show ?thesis
    using Some by (simp add: reclaim_unfold prune_find reclaim_each_schema assms reclaim_each_find Let_def)
qed

section \<open>The abstract machine\<close>

datatype stage = Unborn | Waiting | Out | Closed | Gone

definition stage :: "int \<Rightarrow> db \<Rightarrow> stage" where
  "stage i d =
     (case find_task i d of
        None \<Rightarrow> if task_seq d < i then Unborn else Gone
      | Some t \<Rightarrow> (case tk_status t of Pending \<Rightarrow> Waiting | Dispatched \<Rightarrow> Out
                  | Done \<Rightarrow> Closed | Timed_Out \<Rightarrow> Closed))"

text \<open>The moves a task can make.\<close>

inductive move :: "stage \<Rightarrow> stage \<Rightarrow> bool" where
  stay: "move s s"
| born: "move Unborn Waiting"
| skip: "move Unborn Gone"
| handed: "move Waiting Out"
| closed: "move Out Closed"
| dropped: "s \<noteq> Unborn \<Longrightarrow> move s Gone"

inductive_cases move_cases: "move s t"
inductive_simps move_iff: "move s t"

section \<open>Runs\<close>

datatype label = Quiet | Delivered "int list" | Applied int

inductive queue_step :: "db \<Rightarrow> label \<Rightarrow> db \<Rightarrow> bool" where
  queue: "queue_step d Quiet (snd (queue_task now h c k u d))"
| fetch: "fetch_pending_tasks now h d = (ts, d') \<Longrightarrow> queue_step d (Delivered (map tk_id ts)) d'"
| result: "submit_task_result now i h r d = (applied, d') \<Longrightarrow>
    queue_step d (if applied then Applied i else Quiet) d'"
| reclaim: "queue_step d Quiet (snd (reclaim_stale_tasks now now' s d))"
| remove: "queue_step d Quiet (delete_agent h d)"
| wipe: "queue_step d Quiet (snd (decommission_wipe d))"

inductive run_of :: "('s \<Rightarrow> label \<Rightarrow> 's \<Rightarrow> bool) \<Rightarrow> 's \<Rightarrow> label list \<Rightarrow> 's \<Rightarrow> bool"
    for step where
  start: "run_of step d [] d"
| more: "run_of step d ls e \<Longrightarrow> step e l f \<Longrightarrow> run_of step d (ls @ [l]) f"

lemma run_one: "step d l e \<Longrightarrow> run_of step d [l] e"
  using run_of.more [OF run_of.start, of step d l e] by simp

inductive_cases queue_step_cases: "queue_step d l e"

text \<open>How often a task id was handed out, and how often a result for it was applied.\<close>

definition handed_out :: "int \<Rightarrow> label \<Rightarrow> nat" where
  "handed_out i l = (case l of Delivered is \<Rightarrow> count_list is i | _ \<Rightarrow> 0)"

definition applied_to :: "int \<Rightarrow> label \<Rightarrow> nat" where
  "applied_to i l = (case l of Applied j \<Rightarrow> if j = i then 1 else 0 | _ \<Rightarrow> 0)"

lemma find_task_above: "schema_ok d \<Longrightarrow> task_seq d < i \<Longrightarrow> find_task i d = None"
  by (force simp: find_task_def find_None_iff schema_ok_def ids_below_def)

lemma queue_seq [simp]: "task_seq (snd (queue_task now h c k u d)) = task_seq d + 1"
  by (simp add: queue_task_def Let_def)

lemma fetch_seq [simp]: "task_seq (snd (fetch_pending_tasks now h d)) = task_seq d"
  by (simp add: fetch_pending_tasks_def Let_def)

lemma submit_seq [simp]: "task_seq (snd (submit_task_result now i h r d)) = task_seq d"
  by (simp add: submit_task_result_def Let_def add_result_def)

lemma delete_seq [simp]: "task_seq (delete_agent h d) = task_seq d"
  by (simp add: delete_agent_def)

lemma delete_find:
  assumes "schema_ok d"
  shows "find_task i (delete_agent h d) =
    (case find_task i d of None \<Rightarrow> None | Some t \<Rightarrow> if tk_host t = h then None else Some t)"
proof -
  have "keyed tk_id (agent_tasks d)" using assms by (simp add: schema_ok_def)
  from find_delete_keyed [OF this] show ?thesis by (simp add: find_task_def delete_agent_def)
qed

lemma queue_find:
  assumes "schema_ok d"
  shows "find_task j (snd (queue_task now h c k u d)) = (if j = task_seq d + 1
    then Some \<lparr>tk_id = j, tk_host = h, tk_command = c, tk_kind = k, tk_status = Pending,
               tk_created = Some now, tk_dispatched = None, tk_run_as = u\<rparr>
    else find_task j d)"
proof -
  obtain i d' where q: "queue_task now h c k u d = (i, d')" by fastforce
  then have "i = task_seq d + 1" by (simp add: queue_task_def Let_def)
  with queue_task_find [OF assms q, of j] q show ?thesis by auto
qed

lemma wipe_schema: "schema_ok d \<Longrightarrow> schema_ok (snd (decommission_wipe d))"
  by (simp add: decommission_wipe_def schema_ok_def ids_below_def)

lemma wipe_find [simp]:
  "find_task i (snd (decommission_wipe d)) = None"
  "task_seq (snd (decommission_wipe d)) = task_seq d"
  by (simp_all add: decommission_wipe_def find_task_def)

lemma step_schema: "queue_step d l e \<Longrightarrow> schema_ok d \<Longrightarrow> schema_ok e"
proof (induction rule: queue_step.induct)
  case (fetch now h d ts d')
  then show ?case using fetch_schema [of now h d] by simp
next
  case (result now i h r d applied d')
  then show ?case using submit_schema [of d now i h r] by simp
qed (simp_all add: queue_task_schema reclaim_schema schema_ok_delete_agent wipe_schema)

text \<open>Every step of the queue is a move of every task, and what it emits is tied to the move.\<close>

lemma fetch_count:
  assumes "schema_ok d" "fetch_pending_tasks now h d = (ts, d')"
  shows "count_list (map tk_id ts) i =
    (case find_task i d of Some t \<Rightarrow> if tk_host t = h \<and> tk_status t = Pending then 1 else 0 | None \<Rightarrow> 0)"
proof -
  let ?hit = "\<lambda>t. tk_host t = h \<and> tk_status t = Pending"
  have k: "keyed tk_id (agent_tasks d)" using assms(1) by (simp add: schema_ok_def)
  have "mset (map tk_id ts) = mset (map tk_id (filter ?hit (agent_tasks d)))"
    using assms(2) by (auto simp: fetch_pending_tasks_def Let_def multiset.map_comp comp_def)
  then have "count_list (map tk_id ts) i = count_list (map tk_id (filter ?hit (agent_tasks d))) i"
    by (metis count_mset)
  also have "\<dots> = tb_count (\<lambda>t. tk_id t = i \<and> ?hit t) (agent_tasks d)"
  proof -
    have "count_list (map tk_id (filter ?hit xs)) i = tb_count (\<lambda>t. tk_id t = i \<and> ?hit t) xs" for xs
      by (induction xs) (auto simp: tb_count_def)
    then show ?thesis .
  qed
  also have "\<dots> = (case find_task i d of Some t \<Rightarrow> if ?hit t then 1 else 0 | None \<Rightarrow> 0)"
    unfolding count_at_find [OF k] find_task_def by (simp split: option.split)
  finally show ?thesis .
qed

lemma step_move: "queue_step d l e \<Longrightarrow> schema_ok d \<Longrightarrow> move (stage i d) (stage i e)"
proof (induction rule: queue_step.induct)
  case (queue d now h c k u)
  then show ?case
    using find_task_above [of d i]
    by (auto simp: stage_def queue_find move_iff split: option.split task_status.split)
next
  case (fetch now h d ts d')
  then have "d' = snd (fetch_pending_tasks now h d)" by simp
  then show ?case
    by (auto simp: stage_def fetch_find move_iff split: option.split task_status.split)
next
  case (result now j h r d applied d')
  then have "d' = snd (submit_task_result now j h r d)" by simp
  then show ?case
    by (auto simp: stage_def submit_find move_iff split: option.split task_status.split)
next
  case (reclaim d now now' s)
  then show ?case
    using find_task_above [of d i]
    by (auto simp: stage_def reclaim_find reclaim_seq move_iff Let_def stale_task_def
        split: option.split task_status.split)
next
  case (remove d h)
  then show ?case
    using find_task_above [of d i]
    by (auto simp: stage_def delete_find move_iff split: option.split task_status.split)
next
  case (wipe d)
  then show ?case
    using find_task_above [of d i]
    by (auto simp: stage_def move_iff split: option.split task_status.split)
qed

lemma step_emits:
  assumes "queue_step d l e" "schema_ok d"
  shows "handed_out i l = (if stage i d = Waiting \<and> stage i e = Out then 1 else 0)"
    and "applied_to i l \<le> (if stage i d = Out \<and> stage i e = Closed then 1 else 0)"
  using assms
proof (induction rule: queue_step.induct)
  case (queue d now h c k u)
  { case 1 then show ?case
      by (auto simp: handed_out_def stage_def queue_find split: option.splits task_status.splits if_splits) }
  { case 2 then show ?case by (simp add: applied_to_def) }
next
  case (fetch now h d ts d')
  then have d': "d' = snd (fetch_pending_tasks now h d)" by simp
  { case 1 then show ?case
      unfolding handed_out_def label.case fetch_count [OF 1 fetch]
      by (auto simp: stage_def d' fetch_find split: option.split task_status.split) }
  { case 2 then show ?case by (simp add: applied_to_def) }
next
  case (result now j h r d applied d')
  then have d': "d' = snd (submit_task_result now j h r d)" "applied = fst (submit_task_result now j h r d)"
    by simp_all
  { case 1 then show ?case
      by (auto simp: handed_out_def stage_def d'(1) submit_find split: option.splits task_status.splits if_splits) }
  { case 2 then show ?case
      by (auto simp: applied_to_def stage_def d' submit_find submit_applied get_task_status_def
          split: option.split task_status.split) }
next
  case (reclaim d now now' s)
  { case 1 then show ?case
      by (auto simp: handed_out_def stage_def reclaim_find Let_def stale_task_def
          split: option.splits task_status.splits if_splits) }
  { case 2 then show ?case by (simp add: applied_to_def) }
next
  case (remove d h)
  { case 1 then show ?case
      by (auto simp: handed_out_def stage_def delete_find
          split: option.splits task_status.splits if_splits) }
  { case 2 then show ?case by (simp add: applied_to_def) }
next
  case (wipe d)
  { case 1 then show ?case
      by (auto simp: handed_out_def stage_def split: option.splits task_status.splits if_splits) }
  { case 2 then show ?case by (simp add: applied_to_def) }
qed

text \<open>Budgets: a hand-out needs a waiting task, an applied result one that is out.\<close>

definition may_hand_out :: "stage \<Rightarrow> nat" where
  "may_hand_out s = (case s of Unborn \<Rightarrow> 1 | Waiting \<Rightarrow> 1 | _ \<Rightarrow> 0)"

definition may_apply :: "stage \<Rightarrow> nat" where
  "may_apply s = (case s of Unborn \<Rightarrow> 1 | Waiting \<Rightarrow> 1 | Out \<Rightarrow> 1 | _ \<Rightarrow> 0)"

lemma budget_le_1: "may_hand_out s \<le> 1" "may_apply s \<le> 1"
  by (simp_all add: may_hand_out_def may_apply_def split: stage.split)

text \<open>
  A system whose every step is a move of the machine, for every task, and which emits only what
  the move allows: the queue itself, and later the controller around it.
\<close>

locale task_machine =
  fixes ok :: "'s \<Rightarrow> bool" and stage_of :: "int \<Rightarrow> 's \<Rightarrow> stage"
    and step :: "'s \<Rightarrow> label \<Rightarrow> 's \<Rightarrow> bool"
  assumes step_ok: "step s l t \<Longrightarrow> ok s \<Longrightarrow> ok t"
    and step_moves: "step s l t \<Longrightarrow> ok s \<Longrightarrow> move (stage_of i s) (stage_of i t)"
    and step_hands_out: "step s l t \<Longrightarrow> ok s \<Longrightarrow>
      handed_out i l = (if stage_of i s = Waiting \<and> stage_of i t = Out then 1 else 0)"
    and step_applies: "step s l t \<Longrightarrow> ok s \<Longrightarrow>
      applied_to i l \<le> (if stage_of i s = Out \<and> stage_of i t = Closed then 1 else 0)"
begin

lemma run_ok: "run_of step s ls t \<Longrightarrow> ok s \<Longrightarrow> ok t"
  by (induction rule: run_of.induct) (auto intro: step_ok)

lemma run_budget:
  assumes "run_of step s ls t" "ok s"
  shows "sum_list (map (handed_out i) ls) + may_hand_out (stage_of i t) \<le> may_hand_out (stage_of i s)"
    and "sum_list (map (applied_to i) ls) + may_apply (stage_of i t) \<le> may_apply (stage_of i s)"
  using assms
proof (induction rule: run_of.induct)
  case (more s ls e l f)
  { case 1
    note e = run_ok [OF more.hyps(1) 1]
    show ?case
      using more.IH(1) [OF 1] step_hands_out [OF more.hyps(2) e, of i] step_moves [OF more.hyps(2) e, of i]
      by (auto simp: move_iff may_hand_out_def split: if_splits) }
  { case 2
    note e = run_ok [OF more.hyps(1) 2]
    show ?case
      using more.IH(2) [OF 2] step_applies [OF more.hyps(2) e, of i] step_moves [OF more.hyps(2) e, of i]
      by (auto simp: move_iff may_apply_def split: if_splits) }
qed auto

lemma at_most_once:
  assumes "run_of step s ls t" "ok s"
  shows "sum_list (map (handed_out i) ls) \<le> 1 \<and> sum_list (map (applied_to i) ls) \<le> 1"
  using run_budget [OF assms, of i] budget_le_1(1) [of "stage_of i s"] budget_le_1(2) [of "stage_of i s"]
  by linarith

lemma over_is_over:
  assumes "run_of step s ls t" "ok s" "stage_of i s \<in> {Closed, Gone}"
  shows "stage_of i t \<in> {Closed, Gone}"
  using assms
proof (induction rule: run_of.induct)
  case (more s ls e l f)
  then show ?case using step_moves [OF more.hyps(2) run_ok [OF more.hyps(1)], of i] by (auto simp: move_iff)
qed simp

end

interpretation queue: task_machine schema_ok stage queue_step
  by unfold_locales (auto dest: step_schema step_move simp: step_emits)

section \<open>Properties of the queue\<close>

definition demo_task :: task_row where
  "demo_task = \<lparr>tk_id = 1, tk_host = ''web1'', tk_command = ''uptime'', tk_kind = ''cmd'',
     tk_status = Pending, tk_created = Some 10, tk_dispatched = None, tk_run_as = None\<rparr>"

definition demo_db :: db where
  "demo_db = snd (queue_task 10 ''web1'' ''uptime'' ''cmd'' None fresh_db)"

lemma demo_schema: "schema_ok demo_db"
  by (simp add: demo_db_def queue_task_schema)

lemma demo_tasks: "agent_tasks demo_db = [demo_task]"
  by (simp add: demo_db_def demo_task_def queue_task_def fresh_db_def)

lemma demo_find: "find_task 1 demo_db = Some demo_task"
  by (simp add: find_task_def demo_tasks) (simp add: demo_task_def)

text \<open>C15: Each operation of the queue implements the abstract task machine: whatever it does to
  the tables is, for every task id, one of the moves Unborn-Waiting-Out-Closed-Gone; it hands the
  id out exactly on the move from Waiting to Out and applies a result only on a move from Out to
  Closed, and it keeps the schema.\<close>

theorem queue_refines_machine:
  assumes "queue_step d l e" "schema_ok d"
  shows "move (stage i d) (stage i e) \<and> schema_ok e \<and>
    (handed_out i l = 1 \<longleftrightarrow> stage i d = Waiting \<and> stage i e = Out) \<and>
    (applied_to i l = 1 \<longrightarrow> stage i d = Out \<and> stage i e = Closed)"
  using step_move [OF assms] step_schema [OF assms] step_emits [OF assms, of i]
  by (auto split: if_splits)

lemma queue_refines_machine_witness:
  "\<exists>l e. queue_step demo_db l e \<and> handed_out 1 l = 1 \<and> stage 1 demo_db = Waiting \<and> stage 1 e = Out"
proof -
  obtain ts e where f: "fetch_pending_tasks 20 ''web1'' demo_db = (ts, e)" by fastforce
  note st = queue_step.fetch [OF f]
  have h: "handed_out 1 (Delivered (map tk_id ts)) = 1"
    using fetch_count [OF demo_schema f, of 1] by (simp add: handed_out_def demo_find) (simp add: demo_task_def)
  with queue_refines_machine [OF st demo_schema, of 1] st show ?thesis by blast
qed

text \<open>What reclaiming does to every task: a hand-out older than the timeout becomes Timed Out,
  every other task keeps its row, and then exactly the finished tasks created before the
  retention window are gone.\<close>

theorem reclaim_effect:
  assumes "schema_ok d"
  shows "find_task i (snd (reclaim_stale_tasks now now' s d)) =
    (case find_task i d of None \<Rightarrow> None
     | Some t \<Rightarrow>
        (let t' = if stale_task (now - s) t then t\<lparr>tk_status := Timed_Out\<rparr> else t
         in if prunable (now' - TASK_RETENTION_DAYS * 24 * 60 * 60) t' then None else Some t'))"
  by (rule reclaim_find [OF assms])

lemma reclaim_effect_witness:
  "find_task 1 (snd (reclaim_stale_tasks 5000 5000 3600 demo_db)) = Some demo_task"
  by (subst reclaim_effect [OF demo_schema])
     (simp add: demo_find, simp add: demo_task_def stale_task_def prunable_def is_terminal_def)

end
