(* ===== verification/App_Admins.thy ===== *)
theory App_Admins
  imports App_Tasks
begin

text \<open>
  Administrator accounts as \<^verbatim>\<open>backend/app.py\<close> serves them: first-run setup, login with its
  lockout, the hand-out of the machine key, single sign-on, account management by superusers,
  self-service changes, log out.  Salts and tokens are the drawn values; a password check that
  raises (\<open>None\<close>) is a server error.
\<close>

section \<open>Shared steps\<close>

definition ADMIN_TOKEN_TTL :: rat where
  "ADMIN_TOKEN_TTL = 12 * 60 * 60"

definition keyed_route ::
    "settings \<Rightarrow> string option \<Rightarrow> (controller \<Rightarrow> 'a response \<times> controller) \<Rightarrow> controller \<Rightarrow>
     'a response \<times> controller" where
  "keyed_route cfg key body c =
     (case require_api_key cfg key of Inl e \<Rightarrow> (Inl e, c) | Inr _ \<Rightarrow> body c)"

text \<open>Policy check, then hashing; the policy read may store the default policy.\<close>

definition new_password ::
    "string \<Rightarrow> string \<Rightarrow> db \<Rightarrow> (string \<times> string) response \<times> db" where
  "new_password salt password d =
     (case get_admin_password_policy d of (p, d1) \<Rightarrow>
        (case validate_password_against_policy password p of
           Some _ \<Rightarrow> (Inl (Http 400), d1)
         | None \<Rightarrow> (case hash_password salt password of
                      None \<Rightarrow> (Inl (Http 500), d1) | Some sh \<Rightarrow> (Inr sh, d1))))"

definition roles :: "string list" where
  "roles = [''superuser'', ''sysadmin'', ''auditor'']"

definition admin_name_char :: "char \<Rightarrow> bool" where
  "admin_name_char c = (is_alnum c \<or> c \<in> set ''._@-'')"

text \<open>\<open>None\<close> is the \<open>ValueError\<close>.\<close>

definition validate_admin_name :: "string \<Rightarrow> string option" where
  "validate_admin_name v =
     (let s = strip v
      in if s = [] \<or> 64 < length s \<or> \<not> (is_alnum (hd s) \<or> hd s = CHR ''_'') \<or>
            \<not> list_all admin_name_char (tl s)
         then None else Some s)"

section \<open>First run\<close>

definition admin_setup_required :: "controller \<Rightarrow> bool" where
  "admin_setup_required c = (count_administrators (cdb c) = 0)"

definition admin_setup ::
    "settings \<Rightarrow> instant \<Rightarrow> string option \<Rightarrow> string \<Rightarrow> string \<Rightarrow> string \<Rightarrow> string \<Rightarrow>
     controller \<Rightarrow> string response \<times> controller" where
  "admin_setup cfg now key username_in password salt token =
     keyed_route cfg key (\<lambda>c.
       let username = strip username_in
       in if count_administrators (cdb c) \<noteq> 0 then (Inl (Http 409), c)
          else if username = [] \<or> password = [] then (Inl (Http 400), c)
          else (case new_password salt password (cdb c) of
            (Inl e, d1) \<Rightarrow> (Inl e, c\<lparr>cdb := d1\<rparr>)
          | (Inr (s, h), d1) \<Rightarrow>
              (case add_administrator now username h s False (Some ''setup'') ''superuser'' d1 of
                 (False, d2) \<Rightarrow> (Inl (Http 409), c\<lparr>cdb := d2\<rparr>)
               | (True, d2) \<Rightarrow>
                   (case log_admin_audit (audit_key cfg) (audit_required cfg) now
                           (Some ''administrator_added'') (Some username)
                           (Some ''first-run setup (superuser)'') d2 of
                      Inl _ \<Rightarrow> (Inl (Http 500), c\<lparr>cdb := d2\<rparr>)
                    | Inr d3 \<Rightarrow>
                        (Inr token, c\<lparr>cdb := record_administrator_login now username
                           (create_admin_token token username ''superuser''
                              (now + ADMIN_TOKEN_TTL) d3)\<rparr>)))))"

section \<open>Login\<close>

definition ADMIN_LOGIN_MAX_FAILURES :: nat where
  "ADMIN_LOGIN_MAX_FAILURES = 10"

definition ADMIN_LOGIN_WINDOW_S :: rat where
  "ADMIN_LOGIN_WINDOW_S = 15 * 60"

definition ADMIN_LOGIN_LOCKOUT_S :: int where
  "ADMIN_LOGIN_LOCKOUT_S = 10 * 60"

definition admin_login_record_failure :: "instant \<Rightarrow> string \<Rightarrow> db \<Rightarrow> db" where
  "admin_login_record_failure now key d =
     snd (login_throttle_record_failure now key ADMIN_LOGIN_WINDOW_S ADMIN_LOGIN_MAX_FAILURES
            ADMIN_LOGIN_LOCKOUT_S d)"

definition throttle_key :: "string \<Rightarrow> string" where
  "throttle_key username = (if username = [] then ''(empty)'' else username)"

text \<open>An unknown name is checked against a decoy that never matches.\<close>

definition credentials_valid :: "string \<Rightarrow> string \<Rightarrow> db \<Rightarrow> bool option" where
  "credentials_valid username password d =
     (case get_administrator username d of None \<Rightarrow> Some False
      | Some a \<Rightarrow> verify_password password (ad_salt a) (ad_hash a))"

definition rehash_on_login :: "string \<Rightarrow> string \<Rightarrow> string \<Rightarrow> db \<Rightarrow> db" where
  "rehash_on_login salt username password d =
     (case get_administrator username d of None \<Rightarrow> d
      | Some a \<Rightarrow>
          if needs_rehash (ad_hash a)
          then (case hash_password salt password of None \<Rightarrow> d
                | Some (s, h) \<Rightarrow> update_administrator_password username h s (ad_must_change a) d)
          else d)"

text \<open>
  The checks a login and the key hand-out share, with their event names: lockout, then the
  password; a failure is counted and audited.
\<close>

definition password_gate ::
    "settings \<Rightarrow> instant \<Rightarrow> string \<Rightarrow> string \<Rightarrow> string \<Rightarrow> string \<Rightarrow> controller \<Rightarrow>
     unit response \<times> controller" where
  "password_gate cfg now throttled failed username password c =
     (let locked = login_throttle_locked_for now (throttle_key username) (cdb c)
      in if locked \<noteq> 0
         then audited cfg now throttled username (''locked '' @ show_int locked @ ''s'')
                (Inl (Http 429), c)
         else (case credentials_valid username password (cdb c) of
                 None \<Rightarrow> (Inl (Http 500), c)
               | Some False \<Rightarrow>
                   audited cfg now failed username ''Invalid username or password''
                     (Inl (Http 401),
                      c\<lparr>cdb := admin_login_record_failure now (throttle_key username) (cdb c)\<rparr>)
               | Some True \<Rightarrow> (Inr (), c)))"

record login_answer =
  la_username :: string
  la_role :: string
  la_token :: string
  la_must_change :: bool
  la_sudo_connect :: bool

definition admin_login ::
    "settings \<Rightarrow> instant \<Rightarrow> string option \<Rightarrow> string \<Rightarrow> string \<Rightarrow> string \<Rightarrow> string \<Rightarrow>
     controller \<Rightarrow> login_answer response \<times> controller" where
  "admin_login cfg now key username_in password salt token =
     keyed_route cfg key (\<lambda>c.
       let username = strip username_in
       in case password_gate cfg now ''login_throttled'' ''login_failed'' username password c of
            (Inl e, c1) \<Rightarrow> (Inl e, c1)
          | (Inr _, c1) \<Rightarrow>
            (case get_administrator username (cdb c1) of None \<Rightarrow> (Inl (Http 500), c1)
             | Some a \<Rightarrow>
              (let d = record_administrator_login now username
                         (login_throttle_clear (throttle_key username)
                           (rehash_on_login salt username password (cdb c1)));
                   role = or_else (ad_role a) ''auditor''
               in case log_admin_audit (audit_key cfg) (audit_required cfg) now
                         (Some ''login_success'') (Some username) (Some []) d of
                    Inl _ \<Rightarrow> (Inl (Http 500), c1\<lparr>cdb := d\<rparr>)
                  | Inr d1 \<Rightarrow>
                      (Inr \<lparr>la_username = username, la_role = role, la_token = token,
                            la_must_change = ad_must_change a, la_sudo_connect = ad_sudo_connect a\<rparr>,
                       c1\<lparr>cdb := create_admin_token token username role (now + ADMIN_TOKEN_TTL) d1\<rparr>))))"

record key_request =
  kr_client :: "string option"
  kr_gateway :: "string option"
  kr_sso_user :: "string option"
  kr_sso_role :: "string option"
  kr_username :: string
  kr_password :: string

definition issue_api_key_for_superuser ::
    "settings \<Rightarrow> instant \<Rightarrow> key_request \<Rightarrow> controller \<Rightarrow> string response \<times> controller" where
  "issue_api_key_for_superuser cfg now req c =
     (let sso_user = strip (or_else (kr_sso_user req) []);
          sso_role = lower (strip (or_else (kr_sso_role req) []));
          username = strip (kr_username req);
          deny = (\<lambda>who what st. audited cfg now ''api_key_issue_denied'' who what (Inl (Http 403), st));
          issue = (\<lambda>who what st. audited cfg now ''api_key_issued'' who what (Inr (api_key cfg), st))
      in if \<not> (is_loopback_peer (kr_client req) \<or> gateway_secret_ok cfg (kr_gateway req))
         then deny username ''off-gateway request refused (not loopback / no shared secret)'' c
         else if sso_user \<noteq> [] \<and> gateway_secret_ok cfg (kr_gateway req)
         then (if sso_role \<noteq> ''superuser''
               then deny sso_user (''SSO identity role='' @ or_else (Some sso_role) ''none'' @
                                   '' is not superuser'') c
               else issue sso_user
                      ''backend API key issued to a connecting tool via SLOP SSO (no password)'' c)
         else (case password_gate cfg now ''api_key_issue_throttled'' ''api_key_issue_failed''
                      username (kr_password req) c of
                 (Inl e, c1) \<Rightarrow> (Inl e, c1)
               | (Inr _, c1) \<Rightarrow>
                 (case get_administrator username (cdb c1) of None \<Rightarrow> (Inl (Http 500), c1)
                  | Some a \<Rightarrow>
                      (let role = or_else (ad_role a) ''auditor''
                       in if role \<noteq> ''superuser'' then deny username (''role='' @ role) c1
                          else issue username ''backend API key issued to a connecting tool''
                                 (c1\<lparr>cdb := login_throttle_clear (throttle_key username) (cdb c1)\<rparr>)))))"

section \<open>Single sign-on\<close>

definition sso_role_for :: "string option \<Rightarrow> string" where
  "sso_role_for asserted =
     (let r = lower (strip (or_else asserted []))
      in if r = ''superuser'' then ''superuser'' else if r = ''operator'' then ''sysadmin''
         else if r = ''auditor'' then ''auditor'' else ''auditor'')"

text \<open>\<open>None\<close> is the \<open>ValueError\<close> for a malformed name, before anything is written.\<close>

definition ensure_sso_account ::
    "settings \<Rightarrow> instant \<Rightarrow> string \<Rightarrow> string \<Rightarrow> string \<Rightarrow> string \<Rightarrow> string \<Rightarrow> controller \<Rightarrow>
     (unit response \<times> controller) option" where
  "ensure_sso_account cfg now salt drawn username role origin c =
     (case get_administrator username (cdb c) of
        None \<Rightarrow>
          (case validate_admin_name username of None \<Rightarrow> None
           | Some u \<Rightarrow>
               (case hash_password salt drawn of None \<Rightarrow> Some (Inl (Http 500), c)
                | Some (s, h) \<Rightarrow>
                    Some (audited cfg now ''sso_account_provisioned'' u
                      (''role='' @ role @ '' (via SLOP SSO, '' @ origin @ '')'')
                      (Inr (), c\<lparr>cdb := snd (add_administrator now u h s False (Some ''sso'') role
                                                (cdb c))\<rparr>))))
      | Some a \<Rightarrow>
          if or_else (ad_created_by a) [] \<noteq> ''sso''
          then (case validate_admin_name username of None \<Rightarrow> None
                | Some _ \<Rightarrow>
                    (case hash_password salt drawn of None \<Rightarrow> Some (Inl (Http 500), c)
                     | Some (s, h) \<Rightarrow>
                         Some (audited cfg now ''sso_account_adopted'' username
                           (''local account (created_by='' @ or_else (ad_created_by a) ''unknown'' @
                            '', role='' @ or_else (ad_role a) ''superuser'' @
                            '') taken over by SLOP SSO at role='' @ role @
                            ''; local password disabled and sudo_connect revoked ('' @ origin @ '')'')
                           (Inr (), c\<lparr>cdb := snd (adopt_administrator_for_sso username role h s
                                                    (cdb c))\<rparr>))))
          else if or_else (ad_role a) ''superuser'' \<noteq> role
          then Some (audited cfg now ''sso_role_synced'' username
                 (''role -> '' @ role @ '' (via SLOP SSO, '' @ origin @ '')'')
                 (Inr (), c\<lparr>cdb := snd (set_administrator_role username role (cdb c))\<rparr>))
          else Some (Inr (), c))"

text \<open>The answer is the name, the role, the token and the sudo flag re-read afterwards.\<close>

definition admin_sso_provision ::
    "settings \<Rightarrow> instant \<Rightarrow> string option \<Rightarrow> string option \<Rightarrow> string option \<Rightarrow> string option \<Rightarrow>
     string option \<Rightarrow> string \<Rightarrow> string \<Rightarrow> string \<Rightarrow> controller \<Rightarrow>
     (string \<times> string \<times> string \<times> bool) response \<times> controller" where
  "admin_sso_provision cfg now key gateway client username_in role_in salt drawn token =
     keyed_route cfg key (\<lambda>c.
       let username = strip (or_else username_in []);
           role = (case role_in of None \<Rightarrow> ''auditor''
                   | Some r \<Rightarrow> if r \<in> set roles then r else ''auditor'');
           origin = ''gateway('' @ (case client of None \<Rightarrow> ''?'' | Some h \<Rightarrow> h) @ '')''
       in if \<not> gateway_secret_ok cfg gateway then (Inl (Http 403), c)
          else if username = [] then (Inl (Http 400), c)
          else (case ensure_sso_account cfg now salt drawn username role origin c of
                  None \<Rightarrow> (Inl (Http 409), c)
                | Some (Inl e, c1) \<Rightarrow> (Inl e, c1)
                | Some (Inr _, c1) \<Rightarrow>
                    (let d = record_administrator_login now username
                               (create_admin_token token username role (now + ADMIN_TOKEN_TTL) (cdb c1));
                         sudo = (case get_administrator username d of None \<Rightarrow> False
                                 | Some a \<Rightarrow> ad_sudo_connect a)
                     in (Inr (username, role, token, sudo), c1\<lparr>cdb := d\<rparr>))))"

section \<open>The session's own routes\<close>

definition admin_whoami ::
    "settings \<Rightarrow> instant \<Rightarrow> string option \<Rightarrow> string option \<Rightarrow> controller \<Rightarrow>
     (string \<times> string option) response \<times> controller" where
  "admin_whoami cfg now key token =
     keyed_route cfg key (\<lambda>c.
       case (if truthy token then resolve_admin_token now token (cdb c) else (None, cdb c)) of
         (None, d) \<Rightarrow> (Inl (Http 401), c\<lparr>cdb := d\<rparr>)
       | (Some a, d) \<Rightarrow> (Inr a, c\<lparr>cdb := d\<rparr>))"

definition admin_logout ::
    "settings \<Rightarrow> instant \<Rightarrow> string option \<Rightarrow> string option \<Rightarrow> controller \<Rightarrow>
     unit response \<times> controller" where
  "admin_logout cfg now key token =
     keyed_route cfg key (\<lambda>c.
       if \<not> truthy token then (Inr (), c)
       else (case resolve_admin_token now token (cdb c) of (who, d) \<Rightarrow>
          (let c1 = c\<lparr>cdb := delete_admin_token token d\<rparr>
           in case who of None \<Rightarrow> (Inr (), c1)
              | Some (u, _) \<Rightarrow>
                  if u = [] then (Inr (), c1) else audited cfg now ''logout'' u [] (Inr (), c1))))"

section \<open>Account management by a superuser\<close>

text \<open>No role has a seat cap in this edition (\<^verbatim>\<open>ROLE_LIMITS = {}\<close>).\<close>

definition role_limits :: "(string \<times> nat) list" where
  "role_limits = []"

definition enforce_role_limit :: "string \<Rightarrow> nat \<Rightarrow> unit response" where
  "enforce_role_limit role current_count =
     (case map_of role_limits role of None \<Rightarrow> Inr ()
      | Some limit \<Rightarrow> if limit \<le> current_count then Inl (Http 403) else Inr ())"

definition add_administrator_route ::
    "settings \<Rightarrow> instant \<Rightarrow> string option \<Rightarrow> string option \<Rightarrow> string \<Rightarrow> string \<Rightarrow> string \<Rightarrow>
     string \<Rightarrow> controller \<Rightarrow> string response \<times> controller" where
  "add_administrator_route cfg now key token username_in password role_in salt =
     gated cfg now key token (\<lambda>actor c.
       let username = strip username_in; role = lower (strip (or_else (Some role_in) ''sysadmin''))
       in if username = [] \<or> password = [] \<or> role \<notin> set roles then (Inl (Http 400), c)
          else (case enforce_role_limit role (count_administrators_by_role role (cdb c)) of
            Inl e \<Rightarrow> (Inl e, c)
          | Inr _ \<Rightarrow>
            (case new_password salt password (cdb c) of
               (Inl e, d1) \<Rightarrow> (Inl e, c\<lparr>cdb := d1\<rparr>)
             | (Inr (s, h), d1) \<Rightarrow>
                 (case add_administrator now username h s True (Some actor) role d1 of
                    (False, d2) \<Rightarrow> (Inl (Http 409), c\<lparr>cdb := d2\<rparr>)
                  | (True, d2) \<Rightarrow>
                      audited cfg now ''administrator_added'' username (role @ '' added by '' @ actor)
                        (Inr role, c\<lparr>cdb := d2\<rparr>)))))"

definition remove_administrator_route ::
    "settings \<Rightarrow> instant \<Rightarrow> string option \<Rightarrow> string option \<Rightarrow> string \<Rightarrow> controller \<Rightarrow>
     unit response \<times> controller" where
  "remove_administrator_route cfg now key token username =
     gated cfg now key token (\<lambda>actor c.
       case get_administrator username (cdb c) of None \<Rightarrow> (Inl (Http 404), c)
       | Some target \<Rightarrow>
           if count_administrators (cdb c) \<le> 1 then (Inl (Http 400), c)
           else if or_else (ad_role target) ''superuser'' = ''superuser'' \<and>
                   count_administrators_by_role ''superuser'' (cdb c) \<le> 1
           then (Inl (Http 400), c)
           else audited cfg now ''administrator_removed'' username (''removed by '' @ actor)
                  (Inr (), c\<lparr>cdb := remove_administrator username (cdb c)\<rparr>))"

definition set_administrator_sudo_connect_route ::
    "settings \<Rightarrow> instant \<Rightarrow> string option \<Rightarrow> string option \<Rightarrow> string \<Rightarrow> bool \<Rightarrow> controller \<Rightarrow>
     bool response \<times> controller" where
  "set_administrator_sudo_connect_route cfg now key token username allowed =
     gated cfg now key token (\<lambda>actor c.
       if get_administrator username (cdb c) = None then (Inl (Http 404), c)
       else audited cfg now ''sudo_connect_set'' username
              ((if allowed then ''granted'' else ''revoked'') @ '' by '' @ actor)
              (Inr allowed, c\<lparr>cdb := snd (set_administrator_sudo_connect username allowed (cdb c))\<rparr>))"

text \<open>The answer is whether the role changed.\<close>

definition set_administrator_role_route ::
    "settings \<Rightarrow> instant \<Rightarrow> string option \<Rightarrow> string option \<Rightarrow> string \<Rightarrow> string \<Rightarrow> controller \<Rightarrow>
     bool response \<times> controller" where
  "set_administrator_role_route cfg now key token username role_in =
     gated cfg now key token (\<lambda>actor c.
       case get_administrator username (cdb c) of None \<Rightarrow> (Inl (Http 404), c)
       | Some a \<Rightarrow>
         (let new_role = lower (strip role_in); current = or_else (ad_role a) ''superuser''
          in if new_role \<notin> set roles then (Inl (Http 400), c)
             else if new_role = current then (Inr False, c)
             else if current = ''superuser'' \<and> count_administrators_by_role ''superuser'' (cdb c) \<le> 1
             then (Inl (Http 400), c)
             else (case enforce_role_limit new_role (count_administrators_by_role new_role (cdb c)) of
               Inl e \<Rightarrow> (Inl e, c)
             | Inr _ \<Rightarrow>
                 audited cfg now ''administrator_role_changed'' username
                   (current @ '' -> '' @ new_role @ '' by '' @ actor)
                   (Inr True, c\<lparr>cdb := delete_admin_tokens_for_user username
                                  (snd (set_administrator_role username new_role (cdb c)))\<rparr>))))"

definition reset_administrator_password_route ::
    "settings \<Rightarrow> instant \<Rightarrow> string option \<Rightarrow> string option \<Rightarrow> string \<Rightarrow> string \<Rightarrow> string \<Rightarrow>
     controller \<Rightarrow> unit response \<times> controller" where
  "reset_administrator_password_route cfg now key token username password salt =
     gated cfg now key token (\<lambda>actor c.
       if get_administrator username (cdb c) = None then (Inl (Http 404), c)
       else if password = [] then (Inl (Http 400), c)
       else (case new_password salt password (cdb c) of
               (Inl e, d1) \<Rightarrow> (Inl e, c\<lparr>cdb := d1\<rparr>)
             | (Inr (s, h), d1) \<Rightarrow>
                 audited cfg now ''password_reset'' username (''reset by '' @ actor)
                   (Inr (), c\<lparr>cdb := delete_admin_tokens_for_user username
                                (update_administrator_password username h s True d1)\<rparr>)))"

definition set_admin_password_policy_route ::
    "settings \<Rightarrow> instant \<Rightarrow> string option \<Rightarrow> string option \<Rightarrow> password_policy \<Rightarrow> controller \<Rightarrow>
     password_policy response \<times> controller" where
  "set_admin_password_policy_route cfg now key token p =
     gated cfg now key token (\<lambda>actor c. (Inr p, c\<lparr>cdb := set_admin_password_policy p (cdb c)\<rparr>))"

definition set_portal_config_route ::
    "settings \<Rightarrow> instant \<Rightarrow> string option \<Rightarrow> string option \<Rightarrow> int \<Rightarrow> controller \<Rightarrow>
     int response \<times> controller" where
  "set_portal_config_route cfg now key token port =
     gated cfg now key token (\<lambda>actor c.
       if \<not> (1 \<le> port \<and> port \<le> 65535) then (Inl (Http 400), c)
       else (case get_portal_config (set_portal_port port (cdb c)) of
               (p, d) \<Rightarrow> (Inr p, c\<lparr>cdb := d\<rparr>)))"

section \<open>Self service\<close>

text \<open>The rename happens before the policy check of the new password.\<close>

definition change_admin_credentials ::
    "settings \<Rightarrow> instant \<Rightarrow> string option \<Rightarrow> string \<Rightarrow> string \<Rightarrow> string \<Rightarrow> string \<Rightarrow> string \<Rightarrow>
     controller \<Rightarrow> string response \<times> controller" where
  "change_admin_credentials cfg now key username current_password new_username_in new_password_in salt =
     keyed_route cfg key (\<lambda>c.
       case get_administrator username (cdb c) of None \<Rightarrow> (Inl (Http 404), c)
       | Some a \<Rightarrow>
         (case verify_password current_password (ad_salt a) (ad_hash a) of
            None \<Rightarrow> (Inl (Http 500), c)
          | Some False \<Rightarrow> (Inl (Http 401), c)
          | Some True \<Rightarrow>
            (let new_username = or_else (Some (strip new_username_in)) username;
                 (renamed, d1) = (if new_username \<noteq> username
                                  then update_administrator_username username new_username (cdb c)
                                  else (True, cdb c))
             in if \<not> renamed then (Inl (Http 409), c\<lparr>cdb := d1\<rparr>)
                else
                  (case (if new_password_in = [] then (Inr None, d1)
                         else (case new_password salt new_password_in d1 of
                                 (Inl e, d2) \<Rightarrow> (Inl e, d2)
                               | (Inr sh, d2) \<Rightarrow> (Inr (Some sh), d2))) of
                     (Inl e, d2) \<Rightarrow> (Inl e, c\<lparr>cdb := d2\<rparr>)
                   | (Inr sh, d2) \<Rightarrow>
                       (let d3 = (case sh of None \<Rightarrow> d2
                                  | Some (s, h) \<Rightarrow> update_administrator_password new_username h s False d2)
                        in if new_username = username \<and> sh = None then (Inl (Http 400), c\<lparr>cdb := d3\<rparr>)
                           else
                             (let d4 = delete_admin_tokens_for_user username d3;
                                  d5 = (if new_username \<noteq> username
                                        then delete_admin_tokens_for_user new_username d4 else d4)
                              in audited cfg now ''credentials_changed'' new_username
                                   ''self-service username/password change''
                                   (Inr new_username, c\<lparr>cdb := d5\<rparr>)))))))"

definition force_admin_password_change ::
    "settings \<Rightarrow> instant \<Rightarrow> string option \<Rightarrow> string \<Rightarrow> string \<Rightarrow> string \<Rightarrow> string \<Rightarrow>
     controller \<Rightarrow> unit response \<times> controller" where
  "force_admin_password_change cfg now key username current_password password salt =
     keyed_route cfg key (\<lambda>c.
       case get_administrator username (cdb c) of None \<Rightarrow> (Inl (Http 404), c)
       | Some a \<Rightarrow>
         (case verify_password current_password (ad_salt a) (ad_hash a) of
            None \<Rightarrow> (Inl (Http 500), c)
          | Some False \<Rightarrow> (Inl (Http 401), c)
          | Some True \<Rightarrow>
              if password = [] then (Inl (Http 400), c)
              else (case new_password salt password (cdb c) of
                      (Inl e, d1) \<Rightarrow> (Inl e, c\<lparr>cdb := d1\<rparr>)
                    | (Inr (s, h), d1) \<Rightarrow>
                        audited cfg now ''forced_password_change_completed'' username []
                          (Inr (), c\<lparr>cdb := delete_admin_tokens_for_user username
                                       (update_administrator_password username h s False d1)\<rparr>))))"

section \<open>The portal account\<close>

definition check_portal_password :: "string \<Rightarrow> portal_creds \<Rightarrow> bool option" where
  "check_portal_password password p = verify_password password (pc_salt p) (pc_hash p)"

definition set_portal_credentials_route ::
    "settings \<Rightarrow> instant \<Rightarrow> string option \<Rightarrow> string option \<Rightarrow> string \<Rightarrow> string \<Rightarrow> string \<Rightarrow>
     string \<Rightarrow> controller \<Rightarrow> unit response \<times> controller" where
  "set_portal_credentials_route cfg now key token username_in password current_password salt =
     gated cfg now key token (\<lambda>actor c.
       let username = strip username_in;
           ok = (case get_portal_credentials (cdb c) of None \<Rightarrow> Inr ()
                 | Some p \<Rightarrow>
                     if pc_username p = [] then Inr ()
                     else if current_password = [] then Inl (Http 400)
                     else (case check_portal_password current_password p of
                             None \<Rightarrow> Inl (Http 500)
                           | Some b \<Rightarrow> if b then Inr () else Inl (Http 400)))
       in if username = [] \<or> password = [] then (Inl (Http 400), c)
          else (case ok of Inl e \<Rightarrow> (Inl e, c)
                | Inr _ \<Rightarrow>
                    (case hash_password salt password of None \<Rightarrow> (Inl (Http 500), c)
                     | Some (s, h) \<Rightarrow>
                         (Inr (), c\<lparr>cdb := log_portal_event now ''credentials_changed'' username [] []
                            (delete_all_portal_sessions
                              (set_portal_credentials now username h s (cdb c)))\<rparr>))))"

definition remove_portal_credentials_route ::
    "settings \<Rightarrow> instant \<Rightarrow> string option \<Rightarrow> string option \<Rightarrow> string \<Rightarrow> controller \<Rightarrow>
     unit response \<times> controller" where
  "remove_portal_credentials_route cfg now key token current_password =
     gated cfg now key token (\<lambda>actor c.
       case get_portal_credentials (cdb c) of None \<Rightarrow> (Inl (Http 400), c)
       | Some p \<Rightarrow>
           if pc_username p = [] then (Inl (Http 400), c)
           else (case check_portal_password current_password p of
                   None \<Rightarrow> (Inl (Http 500), c)
                 | Some False \<Rightarrow> (Inl (Http 400), c)
                 | Some True \<Rightarrow>
                     (Inr (), c\<lparr>cdb := log_portal_event now ''credentials_removed'' (pc_username p) [] []
                        (delete_all_portal_sessions (delete_portal_credentials (cdb c)))\<rparr>)))"

definition revoke_portal_session_route ::
    "settings \<Rightarrow> instant \<Rightarrow> string option \<Rightarrow> string option \<Rightarrow> int \<Rightarrow> controller \<Rightarrow>
     unit response \<times> controller" where
  "revoke_portal_session_route cfg now key token session_id =
     gated cfg now key token (\<lambda>actor c.
       (Inr (), c\<lparr>cdb := delete_portal_session session_id (cdb c)\<rparr>))"

end
