(* ===== verification/App_Facts.thy ===== *)
theory App_Facts
  imports App_Tasks App_Admins
begin

text \<open>
  Frame facts of the handlers: what the gates, the audit rows and the agent check leave alone.
  A gate can only lose stale login tokens; an audit row touches no table the handlers decide on.
\<close>

section \<open>Gates\<close>

definition tokens_purged :: "db \<Rightarrow> db \<Rightarrow> bool" where
  "tokens_purged d d' =
     (\<exists>p. d' = d\<lparr>admin_tokens := tb_delete p (admin_tokens d)\<rparr>)"

lemma tokens_purged_refl [simp]: "tokens_purged d d"
  by (auto simp: tokens_purged_def tb_delete_def intro: exI [of _ "\<lambda>r. False"])

lemma tokens_purged_trans:
  assumes "tokens_purged d e" "tokens_purged e f"
  shows "tokens_purged d f"
proof -
  obtain p q where "e = d\<lparr>admin_tokens := tb_delete p (admin_tokens d)\<rparr>"
    "f = e\<lparr>admin_tokens := tb_delete q (admin_tokens e)\<rparr>"
    using assms by (auto simp: tokens_purged_def)
  then have "f = d\<lparr>admin_tokens := tb_delete (\<lambda>r. p r \<or> q r) (admin_tokens d)\<rparr>"
    by (auto simp: tb_delete_def)
  then show ?thesis unfolding tokens_purged_def by blast
qed

lemma tokens_purged_schema: "tokens_purged d d' \<Longrightarrow> schema_ok d \<Longrightarrow> schema_ok d'"
  by (auto simp: tokens_purged_def schema_simps)

lemma tokens_purged_frame:
  assumes "tokens_purged d d'"
  shows "agent_tasks d' = agent_tasks d" "task_seq d' = task_seq d" "agents d' = agents d"
    "administrators d' = administrators d" "agent_results d' = agent_results d"
    "enroll_tokens d' = enroll_tokens d" "enrollment_control d' = enrollment_control d"
    "enroll_allowlist d' = enroll_allowlist d" "environments d' = environments d"
    "login_throttle d' = login_throttle d" "admin_policy d' = admin_policy d"
    "set (admin_tokens d') \<subseteq> set (admin_tokens d)" "find_agent_row h d' = find_agent_row h d"
    "get_administrator u d' = get_administrator u d"
  using assms by (auto simp: tokens_purged_def set_tb_delete find_agent_row_def)

lemma resolve_purged: "tokens_purged d (snd (resolve_admin_token now token d))"
  by (auto simp: resolve_admin_token_def tokens_purged_def [of d "d\<lparr>admin_tokens := _\<rparr>"]
      split: option.split)

lemma require_role_purged: "tokens_purged d (snd (require_role f now token d))"
  using resolve_purged [of d now token]
  by (auto simp: require_role_def split: option.split prod.split)

lemma require_superuser_purged: "tokens_purged d (snd (require_superuser now token d))"
  using require_role_purged [of d "\<lambda>r. r = Some ''superuser''" now token]
  by (auto simp: require_superuser_def split: option.split prod.split sum.split)

lemma acting_purged: "tokens_purged d (snd (acting_admin_name now token d))"
  using resolve_purged [of d now token]
  by (auto simp: acting_admin_name_def split: option.split prod.split)

lemma superuser_route_purged: "tokens_purged d (snd (superuser_route cfg now key token d))"
proof -
  have "tokens_purged d (snd (acting_admin_name now token (snd (require_superuser now token d))))"
    using tokens_purged_trans [OF require_superuser_purged acting_purged] .
  then show ?thesis
    using require_superuser_purged [of d now token]
    by (auto simp: superuser_route_def split: sum.split prod.split)
qed

text \<open>A gated route either stops at its gate or runs its body on a database that only lost stale
  tokens.\<close>

lemma gated_cases:
  obtains (refused) e d where "gated cfg now key token body c = (Inl e, c\<lparr>cdb := d\<rparr>)"
      "tokens_purged (cdb c) d"
  | (ran) actor d where "gated cfg now key token body c = body actor (c\<lparr>cdb := d\<rparr>)"
      "tokens_purged (cdb c) d" "fst (require_superuser now token (cdb c)) = Inr ()"
      "valid_api_key cfg key"
proof (cases "superuser_route cfg now key token (cdb c)")
  case (Pair r d)
  have p: "tokens_purged (cdb c) d"
    using superuser_route_purged [of "cdb c" cfg now key token] Pair by simp
  show thesis
  proof (cases r)
    case (Inl e)
    with Pair p refused show thesis by (simp add: gated_def)
  next
    case (Inr actor)
    have "fst (require_superuser now token (cdb c)) = Inr ()" "valid_api_key cfg key"
      using Pair Inr
      by (auto simp: superuser_route_def require_api_key_def split: sum.splits prod.splits if_splits)
    with Pair Inr p ran show thesis by (simp add: gated_def)
  qed
qed

section \<open>Audit rows\<close>

lemma audited_frame:
  "\<exists>d. snd (audited cfg now ev u de r) = (snd r)\<lparr>cdb := d\<rparr> \<and> same_business (cdb (snd r)) d"
proof (cases "log_admin_audit (audit_key cfg) (audit_required cfg) now (Some ev) (Some u) (Some de)
    (cdb (snd r))")
  case (Inl e)
  then show ?thesis
    by (intro exI [of _ "cdb (snd r)"]) (simp add: audited_def on_db_def audit_def split: audit_error.split)
next
  case (Inr d)
  then show ?thesis
    using log_admin_audit_business [OF Inr]
    by (intro exI [of _ d]) (simp add: audited_def on_db_def audit_def)
qed

lemma audited_outcome: "fst (audited cfg now ev u de r) \<in> {fst r, Inl (Http 500)}"
  by (auto simp: audited_def on_db_def audit_def split: sum.split audit_error.split)

section \<open>A controller at rest\<close>

text \<open>Plain settings and a fresh controller: the inputs the examples start from.\<close>

definition demo_settings :: settings where
  "demo_settings = \<lparr>api_key = ''key'', sso_secret = [], audit_key = None, audit_required = False,
     redact = (\<lambda>s. s), trust_loopback = False, agent_version_of_controller = None,
     agent_update_command = []\<rparr>"

definition empty_control :: controller where
  "empty_control = \<lparr>cdb = fresh_db, integrity = [], pending_become = [], pending_want_root = [],
     enroll_rate = [], auto_update_sent = []\<rparr>"

end
