(* ===== verification/Task_Control.thy ===== *)
theory Task_Control
  imports Task_Lifecycle App_Facts
begin

text \<open>
  The request handlers that reach the command queue, as steps of the controller, and their
  refinement of the queue's abstract machine: whatever a handler does around the queue (checking
  the agent, resolving a token, writing audit rows, storing secrets), its effect on the task
  tables is one queue operation or none.
\<close>

section \<open>Steps of the controller\<close>

definition result_label :: "int \<Rightarrow> bool response \<Rightarrow> label" where
  "result_label i r = (if r = Inr True then Applied i else Quiet)"

definition poll_label :: "(delivered list \<times> bool) response \<Rightarrow> label" where
  "poll_label r =
     (case r of Inl e \<Rightarrow> Quiet | Inr (ds, q) \<Rightarrow> Delivered (map (\<lambda>x. tk_id (dl_task x)) ds))"

inductive app_step :: "settings \<Rightarrow> controller \<Rightarrow> label \<Rightarrow> controller \<Rightarrow> bool" for cfg where
  dispatch: "app_step cfg c Quiet (snd (queue_agent_task cfg now key token h body c))"
| poll: "poll_agent_tasks now h q s c = (r, c') \<Longrightarrow> app_step cfg c (poll_label r) c'"
| answer: "post_task_result now h b s i res c = (r, c') \<Longrightarrow> app_step cfg c (result_label i r) c'"
| beat: "app_step cfg c Quiet (snd (heartbeat cfg now req c))"
| enrol: "app_step cfg c Quiet (snd (enroll cfg now client secret ereq c))"
| removed: "app_step cfg c Quiet (snd (remove_agent cfg now key token h purge c))"
| revoked: "app_step cfg c Quiet (snd (revoke_agent_route cfg now key token h c))"
| restored: "app_step cfg c Quiet (snd (restore_agent_route cfg now key token h c))"
| resumed: "app_step cfg c Quiet (snd (resume_agent_route cfg now key token h c))"
| left: "app_step cfg c Quiet (snd (self_disenroll h b s c))"
| decommissioned: "app_step cfg c Quiet (snd (controller_decommission_route cfg now key token conf c))"
| swept: "app_step cfg c Quiet (c\<lparr>cdb := snd (reclaim_stale_tasks now now' t (cdb c))\<rparr>)"

inductive_cases app_step_cases: "app_step cfg c l e"

section \<open>The abstraction\<close>

definition same_tasks :: "db \<Rightarrow> db \<Rightarrow> bool" where
  "same_tasks d e = (agent_tasks e = agent_tasks d \<and> task_seq e = task_seq d)"

text \<open>A label that hands out nothing and applies nothing.\<close>

definition silent :: "label \<Rightarrow> bool" where
  "silent l = (l = Quiet \<or> l = Delivered [])"

lemma silent_emits: "silent l \<Longrightarrow> handed_out i l = 0 \<and> applied_to i l = 0"
  by (auto simp: silent_def handed_out_def applied_to_def)

lemma silent_simps [simp]: "silent Quiet" "silent (Delivered [])"
  by (simp_all add: silent_def)

definition implements_queue :: "db \<Rightarrow> label \<Rightarrow> db \<Rightarrow> bool" where
  "implements_queue d l e =
     (schema_ok e \<and>
      (\<exists>d0 e0. same_tasks d d0 \<and> schema_ok d0 \<and> same_tasks e0 e \<and>
         (queue_step d0 l e0 \<or> silent l \<and> e0 = d0)))"

lemma stage_same: "same_tasks d e \<Longrightarrow> stage i e = stage i d"
  by (simp add: same_tasks_def stage_def find_task_def)

lemma same_tasks_refl [simp]: "same_tasks d d"
  by (simp add: same_tasks_def)

lemma purged_same_tasks: "tokens_purged d e \<Longrightarrow> same_tasks d e"
  by (simp add: same_tasks_def tokens_purged_frame)

lemma business_same_tasks: "same_business d e \<Longrightarrow> same_tasks d e"
  by (simp add: same_tasks_def same_business_def)

lemma verify_same_tasks: "same_tasks d (snd (verify_agent h s d))"
  by (simp add: same_tasks_def)

lemma implements_emits:
  assumes "implements_queue d l e"
  shows "move (stage i d) (stage i e)"
    and "handed_out i l = (if stage i d = Waiting \<and> stage i e = Out then 1 else 0)"
    and "applied_to i l \<le> (if stage i d = Out \<and> stage i e = Closed then 1 else 0)"
proof -
  obtain d0 e0 where s: "same_tasks d d0" "schema_ok d0" "same_tasks e0 e"
    "queue_step d0 l e0 \<or> silent l \<and> e0 = d0"
    using assms by (auto simp: implements_queue_def)
  have st: "stage i d0 = stage i d" "stage i e = stage i e0" using s stage_same by metis+
  show "move (stage i d) (stage i e)"
    using s(4) step_move [OF _ s(2), of l e0 i] st by (auto simp: move_iff)
  show "handed_out i l = (if stage i d = Waiting \<and> stage i e = Out then 1 else 0)"
    using s(4) step_emits(1) [OF _ s(2), of l e0 i] st by (auto dest: silent_emits)
  show "applied_to i l \<le> (if stage i d = Out \<and> stage i e = Closed then 1 else 0)"
    using s(4) step_emits(2) [OF _ s(2), of l e0 i] st by (auto dest: silent_emits)
qed

lemma implements_stutter:
  "same_tasks d e \<Longrightarrow> schema_ok d \<Longrightarrow> schema_ok e \<Longrightarrow> silent l \<Longrightarrow> implements_queue d l e"
  unfolding implements_queue_def
  by (intro conjI exI [of _ d] exI [of _ d]) simp_all

lemma implements_one:
  assumes "queue_step d0 l e0" "same_tasks d d0" "schema_ok d0" "same_tasks e0 e" "schema_ok e"
  shows "implements_queue d l e"
  using assms by (auto simp: implements_queue_def)

section \<open>Each handler\<close>

lemma same_tasks_trans: "same_tasks d e \<Longrightarrow> same_tasks e f \<Longrightarrow> same_tasks d f"
  by (simp add: same_tasks_def)

definition quiet_on_tasks :: "db \<Rightarrow> db \<Rightarrow> bool" where
  "quiet_on_tasks d e = (same_tasks d e \<and> (schema_ok d \<longrightarrow> schema_ok e))"

lemma quiet_intros:
  "quiet_on_tasks d d" "tokens_purged d e \<Longrightarrow> quiet_on_tasks d e"
  "same_business d e \<Longrightarrow> quiet_on_tasks d e" "quiet_on_tasks d (snd (verify_agent h s d))"
  "quiet_on_tasks d (snd (resolve_admin_token now token d))"
  by (auto simp: quiet_on_tasks_def purged_same_tasks tokens_purged_schema business_same_tasks
      same_business_schema verify_same_tasks verify_agent_schema resolve_purged schema_ok_resolve)

lemma quiet_trans: "quiet_on_tasks d e \<Longrightarrow> quiet_on_tasks e f \<Longrightarrow> quiet_on_tasks d f"
  by (auto simp: quiet_on_tasks_def intro: same_tasks_trans)

lemma quiet_implements:
  "quiet_on_tasks d e \<Longrightarrow> schema_ok d \<Longrightarrow> silent l \<Longrightarrow> implements_queue d l e"
  by (auto simp: quiet_on_tasks_def intro: implements_stutter)

text \<open>One queue operation between two stretches that leave the tasks alone.\<close>

lemma implements_between:
  assumes "quiet_on_tasks d d0" "queue_step d0 l e0" "quiet_on_tasks e0 e" "schema_ok d"
  shows "implements_queue d l e"
proof -
  have d0: "schema_ok d0" "same_tasks d d0" using assms(1,4) by (simp_all add: quiet_on_tasks_def)
  moreover from d0(1) assms(2) have "schema_ok e0" by (rule step_schema [rotated])
  ultimately show ?thesis
    using assms(2,3) implements_one [OF assms(2) d0(2,1)] by (simp add: quiet_on_tasks_def)
qed

lemma dispatch_identity_quiet: "quiet_on_tasks d (snd (dispatch_identity now token d))"
  using quiet_intros(5) [of d now token] quiet_intros(1)
  by (auto simp: dispatch_identity_def split: option.split prod.split)

lemma store_become_db [simp]: "cdb (store_become now i pw c) = cdb c"
  by (simp add: store_become_def sweep_become_def Let_def)

lemma store_want_root_db [simp]: "cdb (store_want_root now i c) = cdb c"
  by (simp add: store_want_root_def sweep_want_root_def Let_def)

lemma dispatch_implements:
  assumes "schema_ok (cdb c)"
  shows "implements_queue (cdb c) Quiet (cdb (snd (queue_agent_task cfg now key token h body c)))"
proof -
  let ?r = "queue_agent_task cfg now key token h body c"
  obtain ri d where di: "dispatch_identity now token (cdb c) = (ri, d)" by fastforce
  then have q: "quiet_on_tasks (cdb c) d" using dispatch_identity_quiet [of "cdb c" now token] by simp
  have *: "quiet_on_tasks (cdb c) (cdb (snd ?r)) \<or>
    (\<exists>run_as. quiet_on_tasks (snd (queue_task now h (tr_command body) (tr_kind body) run_as d)) (cdb (snd ?r)))"
  proof (cases "\<exists>run_as. require_api_key cfg key = Inr () \<and> agent_exists h (cdb c) \<and> ri = Inr run_as")
    case True
    then obtain run_as where t: "require_api_key cfg key = Inr ()" "agent_exists h (cdb c)" "ri = Inr run_as"
      by blast
    let ?q = "queue_task now h (tr_command body) (tr_kind body) run_as d"
    have "quiet_on_tasks (snd ?q) (cdb (snd ?r))"
      using log_activity_business
      by (cases ?q) (auto simp: queue_agent_task_def t di Let_def split: sum.split
          intro!: quiet_intros(1) quiet_intros(3))
    then show ?thesis by blast
  next
    case False
    then have "quiet_on_tasks (cdb c) (cdb (snd ?r))"
      using q quiet_intros(1) by (auto simp: queue_agent_task_def di require_api_key_def split: sum.split)
    then show ?thesis by blast
  qed
  then show ?thesis
    using quiet_implements [OF _ assms silent_simps(1)] implements_between [OF q queue_step.queue _ assms] by blast
qed

lemma attach_secrets_db: "cdb (snd (attach_secrets ts c)) = cdb c"
  by (induction ts arbitrary: c) (simp_all add: take_become_def take_want_root_def split_beta)

lemma attach_secrets_tasks: "map dl_task (fst (attach_secrets ts c)) = ts"
  by (induction ts arbitrary: c) (simp_all add: split_beta)

lemma poll_implements:
  assumes "schema_ok (cdb c)" "poll_agent_tasks now h q s c = (r, c')"
  shows "implements_queue (cdb c) (poll_label r) (cdb c')"
proof -
  let ?s = "if truthy s then s else q"
  obtain v d where v: "verify_agent h ?s (cdb c) = (v, d)" by fastforce
  then have qd: "quiet_on_tasks (cdb c) d" using quiet_intros(4) [of "cdb c" h ?s] by simp
  show ?thesis
  proof (cases "v = Inr () \<and> \<not> is_quarantined h (integrity c)")
    case True
    obtain ts d1 where f: "fetch_pending_tasks now h d = (ts, d1)" by fastforce
    obtain ds c1 where a: "attach_secrets ts (c\<lparr>cdb := d1\<rparr>) = (ds, c1)" by fastforce
    have "r = Inr (ds, False)" "c' = c1" using assms(2) v True f a by (auto simp: poll_agent_tasks_def)
    moreover have "cdb c1 = d1" "map dl_task ds = ts"
      using attach_secrets_db [of ts "c\<lparr>cdb := d1\<rparr>"] attach_secrets_tasks [of ts "c\<lparr>cdb := d1\<rparr>"] a by simp_all
    moreover from this(2) have "map (\<lambda>x. tk_id (dl_task x)) ds = map tk_id ts" by (auto simp: map_map)
    ultimately show ?thesis
      using implements_between [OF qd queue_step.fetch [OF f] quiet_intros(1) assms(1)]
      by (simp add: poll_label_def)
  next
    case False
    then have "silent (poll_label r)" "cdb c' = d"
      using assms(2) v by (auto simp: poll_agent_tasks_def poll_label_def split: sum.splits if_splits)
    with qd assms(1) show ?thesis by (simp add: quiet_implements)
  qed
qed

lemma answer_implements:
  assumes "schema_ok (cdb c)" "post_task_result now h b s i res c = (r, c')"
  shows "implements_queue (cdb c) (result_label i r) (cdb c')"
proof -
  obtain v d where v: "verify_agent b (Some s) (cdb c) = (v, d)" by fastforce
  then have qd: "quiet_on_tasks (cdb c) d" using quiet_intros(4) [of "cdb c" b "Some s"] by simp
  show ?thesis
  proof (cases "h = b \<and> v = Inr () \<and> get_task_host i d = Some b")
    case True
    obtain ap d1 where su: "submit_task_result now i b res d = (ap, d1)" by fastforce
    have "r = Inr ap" "cdb c' = d1" using assms(2) v True su by (auto simp: post_task_result_def)
    then show ?thesis
      using implements_between [OF qd queue_step.result [OF su] quiet_intros(1) assms(1)]
      by (simp add: result_label_def)
  next
    case False
    then have "silent (result_label i r)" "cdb c' = d \<or> cdb c' = cdb c"
      using assms(2) v by (auto simp: post_task_result_def result_label_def split: sum.splits if_splits)
    then show ?thesis using quiet_implements [OF qd assms(1)] quiet_implements [OF quiet_intros(1) assms(1)]
      by auto
  qed
qed

lemma quiet_update_agents:
  "(\<And>r. ag_host_id (f r) = ag_host_id r) \<Longrightarrow> quiet_on_tasks d (update_agent_rows h f d)"
  by (simp add: quiet_on_tasks_def same_tasks_def schema_simps)

lemma quiet_health: "quiet_on_tasks d (upsert_host_health r d)"
  by (simp add: quiet_on_tasks_def same_tasks_def schema_simps) (simp add: upsert_host_health_def)

text \<open>The automatic update queues at most one task.\<close>

lemma auto_update_effect:
  "quiet_on_tasks (cdb c) (cdb (maybe_auto_update_agent cfg now h v c)) \<or>
   (\<exists>cmd kind u. quiet_on_tasks (snd (queue_task now h cmd kind u (cdb c)))
      (cdb (maybe_auto_update_agent cfg now h v c)))"
proof -
  let ?q = "snd (queue_task now h (agent_update_command cfg) ''agent-update'' None (cdb c))"
  have log: "quiet_on_tasks ?q (case log_activity k rq rd t a b x y z ?q of Inl _ \<Rightarrow> ?q | Inr d2 \<Rightarrow> d2)"
    for k rq rd t a b x y z
    using log_activity_business by (auto split: sum.split intro!: quiet_intros(1) quiet_intros(3))
  have "cdb (maybe_auto_update_agent cfg now h v c) = cdb c \<or>
    quiet_on_tasks ?q (cdb (maybe_auto_update_agent cfg now h v c))"
    using log by (auto simp: maybe_auto_update_agent_def Let_def split: option.split prod.split bool.split)
  then show ?thesis using quiet_intros(1) by auto
qed

lemma beat_implements:
  assumes "schema_ok (cdb c)"
  shows "implements_queue (cdb c) Quiet (cdb (snd (heartbeat cfg now req c)))"
proof -
  let ?h = "hb_host_id req"
  obtain v d where v: "verify_agent ?h (Some (hb_secret req)) (cdb c) = (v, d)" by fastforce
  then have qd: "quiet_on_tasks (cdb c) d" using quiet_intros(4) [of "cdb c" ?h "Some (hb_secret req)"] by simp
  let ?d1 = "update_agent_heartbeat now ?h (hb_ip req) (hb_hostname req) (hb_version req) d"
  let ?c1 = "c\<lparr>cdb := ?d1\<rparr>"
  let ?c2 = "maybe_auto_update_agent cfg now ?h (hb_version req) ?c1"
  have q1: "quiet_on_tasks (cdb c) ?d1"
    using qd by (rule quiet_trans) (simp add: update_agent_heartbeat_def quiet_update_agents)
  show ?thesis
  proof (cases v)
    case (Inl e)
    with v qd assms show ?thesis by (simp add: heartbeat_def quiet_implements)
  next
    case (Inr u)
    have q2: "quiet_on_tasks (cdb ?c2) (cdb (snd (heartbeat cfg now req c)))"
      using v Inr by (auto simp: heartbeat_def Let_def quiet_health quiet_intros(1) split: option.split)
    have eff: "quiet_on_tasks ?d1 (cdb ?c2) \<or>
        (\<exists>cmd kind u. quiet_on_tasks (snd (queue_task now ?h cmd kind u ?d1)) (cdb ?c2))"
      using auto_update_effect [of ?c1 cfg now ?h "hb_version req"] by simp
    then show ?thesis
    proof
      assume "quiet_on_tasks ?d1 (cdb ?c2)"
      from quiet_trans [OF quiet_trans [OF q1 this] q2] assms show ?thesis by (simp add: quiet_implements)
    next
      assume "\<exists>cmd kind u. quiet_on_tasks (snd (queue_task now ?h cmd kind u ?d1)) (cdb ?c2)"
      then obtain cmd kind u where
        "quiet_on_tasks (snd (queue_task now ?h cmd kind u ?d1)) (cdb ?c2)" by blast
      from implements_between [OF q1 queue_step.queue quiet_trans [OF this q2] assms] show ?thesis .
    qed
  qed
qed

lemma quiet_match: "quiet_on_tasks d (snd (agent_secret_matches h p d))"
  by (simp add: quiet_on_tasks_def same_tasks_def schema_simps)
     (simp add: agent_secret_matches_def Let_def upgrade_agent_secret_hash_def)

lemma quiet_guard: "quiet_on_tasks d (snd (rebind_guard now req h a d))"
  using guard_state [of now req h a d] quiet_match quiet_intros(1) by metis

lemma quiet_claim: "quiet_on_tasks d (snd (enroll_claim now s req h f d))"
proof -
  have "same_tasks d (snd (enroll_claim now s req h f d))"
    by (simp add: claim_unfold Let_def same_tasks_def consume_enroll_token_def create_or_update_agent_def
        set_agent_environment_def split: option.split)
  then show ?thesis by (simp add: quiet_on_tasks_def claim_schema)
qed

lemma quiet_locked: "quiet_on_tasks d (snd (enroll_locked now s req d))"
proof -
  have "quiet_on_tasks d (snd (enroll_claim now s req h False d1))"
    if "rebind_guard now req h a d = (r, d1)" for h a r d1
    using quiet_trans [OF quiet_guard [of d now req h a] quiet_claim] that by simp
  moreover have "quiet_on_tasks d d1" if "rebind_guard now req h a d = (r, d1)" for h a r d1
    using quiet_guard [of d now req h a] that by simp
  ultimately show ?thesis
    using quiet_claim quiet_intros(1)
    by (auto simp: enroll_locked_def split: option.split prod.split sum.split)
qed

lemma quiet_enroll: "quiet_on_tasks (cdb c) (cdb (snd (enroll cfg now client s req c)))"
proof -
  obtain r d where l: "enroll_locked now s req (cdb c) = (r, d)" by fastforce
  then have q: "quiet_on_tasks (cdb c) d" using quiet_locked [of "cdb c" now s req] by simp
  have log: "quiet_on_tasks (cdb c) (case log_activity k rq rd t a b x y z d of Inl _ \<Rightarrow> d | Inr d2 \<Rightarrow> d2)"
    for k rq rd t a b x y z
  proof (cases "log_activity k rq rd t a b x y z d")
    case (Inr d2)
    with quiet_trans [OF q quiet_intros(3) [OF log_activity_business [OF Inr]]] show ?thesis by simp
  qed (use q in simp)
  show ?thesis
    using q log quiet_intros(1) [of "cdb c"] l
    by (auto simp: enroll_def Let_def split: prod.split sum.split)
qed

text \<open>The gated routes: a purge of stale tokens, the route's own work, an audit row.\<close>

lemma quiet_audited: "quiet_on_tasks (cdb (snd r)) (cdb (snd (audited cfg now ev u de r)))"
proof -
  obtain d where "snd (audited cfg now ev u de r) = (snd r)\<lparr>cdb := d\<rparr>" "same_business (cdb (snd r)) d"
    using audited_frame by metis
  then show ?thesis by (simp add: quiet_intros(3))
qed

lemma gated_implements:
  assumes "schema_ok (cdb c)"
    and "\<And>actor d. quiet_on_tasks (cdb c) d \<Longrightarrow>
      implements_queue (cdb c) Quiet (cdb (snd (body actor (c\<lparr>cdb := d\<rparr>))))"
  shows "implements_queue (cdb c) Quiet (cdb (snd (gated cfg now key token body c)))"
proof (cases rule: gated_cases [of cfg now key token body c])
  case (refused e d)
  from quiet_implements [OF quiet_intros(2) [OF refused(2)] assms(1) silent_simps(1)]
  show ?thesis by (simp add: refused(1))
next
  case (ran actor d)
  from assms(2) [OF quiet_intros(2) [OF ran(2)]] show ?thesis by (simp add: ran(1))
qed

lemma invalidate_quiet: "quiet_on_tasks d (snd (invalidate_enroll_tokens_for_host h d))"
  by (simp add: invalidate_enroll_tokens_for_host_def quiet_on_tasks_def same_tasks_def schema_ok_def
      keyed_delete)

lemma removed_implements:
  assumes "schema_ok (cdb c)"
  shows "implements_queue (cdb c) Quiet (cdb (snd (remove_agent cfg now key token h purge c)))"
  unfolding remove_agent_def
proof (rule gated_implements [OF assms])
  fix actor :: string and d assume q: "quiet_on_tasks (cdb c) d"
  have "quiet_on_tasks (delete_agent h d)
      (snd (if purge then invalidate_enroll_tokens_for_host h (delete_agent h d) else (0, delete_agent h d)))"
    by (simp add: invalidate_quiet quiet_intros(1))
  from implements_between [OF q queue_step.remove this assms]
  show "implements_queue (cdb c) Quiet (cdb (snd (let d1 = delete_agent h (cdb (c\<lparr>cdb := d\<rparr>));
           (n, d2) = (if purge then invalidate_enroll_tokens_for_host h d1 else (0, d1))
       in (Inr n, c\<lparr>cdb := d, cdb := d2, integrity := rebaseline h (integrity (c\<lparr>cdb := d\<rparr>))\<rparr>))))"
    by (simp add: Let_def split_beta)
qed

lemma gated_quiet:
  assumes "schema_ok (cdb c)"
    and "\<And>actor d. quiet_on_tasks d (cdb (snd (body actor (c\<lparr>cdb := d\<rparr>))))"
  shows "implements_queue (cdb c) Quiet (cdb (snd (gated cfg now key token body c)))"
  using gated_implements [OF assms(1), of body] quiet_trans [OF _ assms(2)] quiet_implements [OF _ assms(1)]
  by simp

lemma host_routes_implement:
  assumes "schema_ok (cdb c)"
  shows "implements_queue (cdb c) Quiet (cdb (snd (revoke_agent_route cfg now key token h c)))"
    and "implements_queue (cdb c) Quiet (cdb (snd (restore_agent_route cfg now key token h c)))"
    and "implements_queue (cdb c) Quiet (cdb (snd (resume_agent_route cfg now key token h c)))"
proof -
  have audit: "quiet_on_tasks d (cdb (snd (audited cfg now ev u de r)))"
    if "quiet_on_tasks d (cdb (snd r))" for d ev u de and r :: "unit response \<times> controller"
    using quiet_trans [OF that quiet_audited] .
  have rev: "quiet_on_tasks d (snd (revoke_agent h d))" "quiet_on_tasks d (snd (unrevoke_agent h d))" for d
    by (simp_all add: revoke_agent_def unrevoke_agent_def quiet_update_agents)
  show "implements_queue (cdb c) Quiet (cdb (snd (revoke_agent_route cfg now key token h c)))"
    unfolding revoke_agent_route_def
    by (rule gated_quiet [OF assms]) (simp add: audit rev quiet_intros(1))
  show "implements_queue (cdb c) Quiet (cdb (snd (restore_agent_route cfg now key token h c)))"
    unfolding restore_agent_route_def
  proof (rule gated_quiet [OF assms])
    fix actor :: string and d
    obtain b e where u: "unrevoke_agent h d = (b, e)" by fastforce
    then have "quiet_on_tasks d e" using rev(2) [of d] by simp
    with u show "quiet_on_tasks d (cdb (snd (if \<not> agent_exists h (cdb (c\<lparr>cdb := d\<rparr>))
        then (Inl (Http 404), c\<lparr>cdb := d\<rparr>)
        else case unrevoke_agent h (cdb (c\<lparr>cdb := d\<rparr>)) of
            (True, e) \<Rightarrow> audited cfg now ''agent_secret_restored''
              (if truthy token then actor else ''superuser'') (''host '' @ h)
              (Inr (), c\<lparr>cdb := d, cdb := e\<rparr>)
          | (False, e) \<Rightarrow> (Inl (Http 404), c\<lparr>cdb := d, cdb := e\<rparr>))))"
      by (simp add: audit quiet_intros(1) split: bool.split)
  qed
  show "implements_queue (cdb c) Quiet (cdb (snd (resume_agent_route cfg now key token h c)))"
    unfolding resume_agent_route_def
    by (rule gated_quiet [OF assms]) (simp add: audit quiet_intros(1))
qed

lemma left_implements:
  assumes "schema_ok (cdb c)"
  shows "implements_queue (cdb c) Quiet (cdb (snd (self_disenroll h b s c)))"
proof -
  obtain v d where v: "verify_agent b (Some s) (cdb c) = (v, d)" by fastforce
  then have qd: "quiet_on_tasks (cdb c) d" using quiet_intros(4) [of "cdb c" b "Some s"] by simp
  have "implements_queue (cdb c) Quiet (delete_agent b d)"
    by (rule implements_between [OF qd queue_step.remove quiet_intros(1) assms])
  with qd v assms show ?thesis
    by (auto simp: self_disenroll_def split: sum.split intro!: quiet_implements quiet_intros(1))
qed

lemma decommissioned_implements:
  assumes "schema_ok (cdb c)"
  shows "implements_queue (cdb c) Quiet
    (cdb (snd (controller_decommission_route cfg now key token conf c)))"
  unfolding controller_decommission_route_def
proof (rule gated_implements [OF assms])
  fix actor :: string and d assume q: "quiet_on_tasks (cdb c) d"
  obtain n e where w: "decommission_wipe d = (n, e)" by fastforce
  have "quiet_on_tasks e (cdb (snd (audited cfg now ev u de (Inr n, c\<lparr>cdb := e\<rparr>))))" for ev u de
    using quiet_audited [of "(Inr n, c\<lparr>cdb := e\<rparr>)" cfg now ev u de] by simp
  from implements_between [OF q queue_step.wipe _ assms] this w
  have "implements_queue (cdb c) Quiet
      (cdb (snd (audited cfg now ev u de (Inr n, c\<lparr>cdb := e\<rparr>))))" for ev u de by simp
  moreover have "implements_queue (cdb c) Quiet d" using q assms by (simp add: quiet_implements)
  ultimately show "implements_queue (cdb c) Quiet (cdb (snd (if strip (or_else conf []) \<noteq> ''DECOMMISSION''
      then (Inl (Http 400), c\<lparr>cdb := d\<rparr>)
      else case decommission_wipe (cdb (c\<lparr>cdb := d\<rparr>)) of (n, e) \<Rightarrow>
        audited cfg now ''controller_decommissioned'' actor
          (''controller neutralized '' @ map char_of [226, 128, 148 :: nat] @ '' '' @ show_int (int n) @
           '' host(s) removed, tokens + address config wiped'')
          (Inr n, c\<lparr>cdb := d, cdb := e\<rparr>))))"
    using w by simp
qed

lemma swept_implements:
  "schema_ok d \<Longrightarrow> implements_queue d Quiet (snd (reclaim_stale_tasks now now' t d))"
  by (rule implements_between [OF quiet_intros(1) queue_step.reclaim quiet_intros(1)])

lemma app_step_implements:
  assumes "app_step cfg c l c'" "schema_ok (cdb c)"
  shows "implements_queue (cdb c) l (cdb c')"
  using assms
  by (cases rule: app_step.cases)
     (simp_all add: dispatch_implements poll_implements answer_implements beat_implements
       quiet_implements [OF quiet_enroll] removed_implements host_routes_implement left_implements
       decommissioned_implements swept_implements)

section \<open>Properties of the controller's dispatch\<close>

interpretation control: task_machine "\<lambda>c. schema_ok (cdb c)" "\<lambda>i c. stage i (cdb c)" "app_step cfg" for cfg
proof unfold_locales
  fix c l c' i
  assume "app_step cfg c l c'" "schema_ok (cdb c)"
  then have "implements_queue (cdb c) l (cdb c')" by (rule app_step_implements)
  note im = this
  show "schema_ok (cdb c')" using im by (simp add: implements_queue_def)
  show "move (stage i (cdb c)) (stage i (cdb c'))"
    "handed_out i l = (if stage i (cdb c) = Waiting \<and> stage i (cdb c') = Out then 1 else 0)"
    "applied_to i l \<le> (if stage i (cdb c) = Out \<and> stage i (cdb c') = Closed then 1 else 0)"
    by (rule implements_emits [OF im])+
qed

text \<open>C2: Over any sequence of requests (dispatches, polls, results, heartbeats, enrolments,
  revocations, removals, a decommission) and reclaim sweeps, in any order and by any callers, each
  task id leaves the controller in at most one poll answer and at most one result is applied to it.\<close>

theorem controller_delivers_once:
  assumes "run_of (app_step cfg) c ls c'" "schema_ok (cdb c)"
  shows "sum_list (map (handed_out i) ls) \<le> 1 \<and> sum_list (map (applied_to i) ls) \<le> 1"
  by (rule control.at_most_once [OF assms])

text \<open>A task that has ended (its result applied, timed out, or its row removed) never comes
  back: no later sequence of requests or sweeps makes it waiting or handed out again.\<close>

theorem ended_tasks_stay_ended:
  assumes "run_of (app_step cfg) c ls c'" "schema_ok (cdb c)" "stage i (cdb c) \<in> {Closed, Gone}"
  shows "stage i (cdb c') \<in> {Closed, Gone} \<and> sum_list (map (handed_out i) ls) = 0 \<and>
    sum_list (map (applied_to i) ls) = 0"
  using control.over_is_over [OF assms] control.run_budget [OF assms(1,2), of i] assms(3)
  by (auto simp: may_hand_out_def may_apply_def)

text \<open>A host with a secret, and a controller that holds one task for it.\<close>

definition demo_agent :: agent_row where
  "demo_agent = (new_agent ''web1'')\<lparr>ag_secret := Some (token_at_rest (Some ''k''))\<rparr>"

definition demo_control :: controller where
  "demo_control =
     \<lparr>cdb = demo_db\<lparr>agents := [demo_agent]\<rparr>, integrity = [],
      pending_become = [(1, \<lparr>bc_password = ''pw'', bc_expiry = 310\<rparr>)], pending_want_root = [],
      enroll_rate = [], auto_update_sent = []\<rparr>"

lemma demo_control_schema: "schema_ok (cdb demo_control)"
proof -
  have "schema_ok demo_db" by (rule demo_schema)
  then show ?thesis by (simp add: demo_control_def schema_ok_def keyed_def)
qed

lemma demo_verify: "verify_agent ''web1'' (Some ''k'') (cdb demo_control) = (Inr (), cdb demo_control)"
  by (simp add: verify_agent_def agent_exists_def is_agent_revoked_def find_agent_row_def demo_control_def
      demo_agent_def new_agent_def agent_secret_matches_def get_agent_secret_def Let_def)

lemma demo_quarantine: "\<not> is_quarantined ''web1'' (integrity demo_control)"
  by (simp add: is_quarantined_def demo_control_def get_rec_def)

lemma demo_poll:
  obtains ds c' where "poll_agent_tasks 20 ''web1'' (Some ''k'') None demo_control = (Inr (ds, False), c')"
    "map dl_task ds = [demo_task\<lparr>tk_status := Dispatched, tk_dispatched := Some 20\<rparr>]"
proof -
  obtain ts d where f: "fetch_pending_tasks 20 ''web1'' (cdb demo_control) = (ts, d)" by fastforce
  obtain ds c' where a: "attach_secrets ts (demo_control\<lparr>cdb := d\<rparr>) = (ds, c')" by fastforce
  have ts: "ts = [demo_task\<lparr>tk_status := Dispatched, tk_dispatched := Some 20\<rparr>]"
    using f by (auto simp: fetch_pending_tasks_def Let_def demo_control_def demo_tasks)
       (simp_all add: demo_task_def)
  have "poll_agent_tasks 20 ''web1'' (Some ''k'') None demo_control = (Inr (ds, False), c')"
    using f a demo_verify demo_quarantine by (simp add: poll_agent_tasks_def)
  moreover have "map dl_task ds = ts" using attach_secrets_tasks [of ts "demo_control\<lparr>cdb := d\<rparr>"] a by simp
  ultimately show thesis using that ts by simp
qed

lemma controller_delivers_once_witness:
  "\<exists>ls c'. run_of (app_step demo_settings) demo_control ls c' \<and> sum_list (map (handed_out 1) ls) = 1 \<and>
     sum_list (map (handed_out 1) ls) \<le> 1 \<and> sum_list (map (applied_to 1) ls) \<le> 1"
proof -
  obtain ds c' where p: "poll_agent_tasks 20 ''web1'' (Some ''k'') None demo_control = (Inr (ds, False), c')"
    "map dl_task ds = [demo_task\<lparr>tk_status := Dispatched, tk_dispatched := Some 20\<rparr>]"
    by (rule demo_poll)
  let ?l = "poll_label (Inr (ds, False))"
  have run: "run_of (app_step demo_settings) demo_control [?l] c'"
    by (rule run_one) (rule app_step.poll [OF p(1)])
  obtain x where "ds = [x]" "tk_id (dl_task x) = 1" using p(2) by (auto simp: demo_task_def)
  then have "handed_out 1 ?l = 1" by (simp add: poll_label_def handed_out_def)
  with run controller_delivers_once [OF run demo_control_schema, of 1] show ?thesis
    by (intro exI [of _ "[?l]"] exI [of _ c']) simp
qed

lemma ended_tasks_stay_ended_witness:
  "stage 1 (cdb (demo_control\<lparr>cdb := delete_agent ''web1'' (cdb demo_control)\<rparr>)) \<in> {Closed, Gone}"
proof -
  let ?c = "demo_control\<lparr>cdb := delete_agent ''web1'' (cdb demo_control)\<rparr>"
  have "schema_ok (cdb ?c)" by (simp add: schema_ok_delete_agent demo_control_schema)
  moreover have "stage 1 (cdb ?c) \<in> {Closed, Gone}"
    by (simp add: stage_def find_task_def delete_agent_def demo_control_def demo_tasks)
       (simp add: demo_task_def tb_delete_def demo_db_def queue_task_def fresh_db_def)
  ultimately show ?thesis using ended_tasks_stay_ended [OF run_of.start] by blast
qed

lemma fetch_none_left:
  "\<forall>t \<in> set (agent_tasks (snd (fetch_pending_tasks now h d))). tk_host t = h \<longrightarrow> tk_status t \<noteq> Pending"
  unfolding fetch_pending_tasks_def Let_def tb_update_def
  by (simp only: snd_conv db.simps list.set_map ball_simps(9)) (simp add: ball_Un)

text \<open>What a poll answers and does.  Only an agent that presents the host's secret is answered;
  a quarantined host is told so, gets nothing and its queue is untouched; any other host gets
  exactly its own waiting tasks, in id order, and none of them is left waiting.\<close>

theorem poll_hands_out:
  assumes "schema_ok (cdb c)" "poll_agent_tasks now h q s c = (Inr (ds, held), c')"
  shows "fst (verify_agent h (if truthy s then s else q) (cdb c)) = Inr () \<and>
    held = is_quarantined h (integrity c) \<and>
    (held \<longrightarrow> ds = [] \<and> agent_tasks (cdb c') = agent_tasks (cdb c)) \<and>
    (\<not> held \<longrightarrow> sorted (map (\<lambda>x. tk_id (dl_task x)) ds) \<and>
       dl_task ` set ds = {t\<lparr>tk_status := Dispatched, tk_dispatched := Some now\<rparr> | t.
         t \<in> set (agent_tasks (cdb c)) \<and> tk_host t = h \<and> tk_status t = Pending} \<and>
       (\<forall>t \<in> set (agent_tasks (cdb c')). tk_host t = h \<longrightarrow> tk_status t \<noteq> Pending))"
proof -
  let ?s = "if truthy s then s else q"
  obtain v d where v: "verify_agent h ?s (cdb c) = (v, d)" by fastforce
  then have vd: "agent_tasks d = agent_tasks (cdb c)" using verify_agent_frame(1) [of h ?s "cdb c"] by simp
  have v': "v = Inr ()" using assms(2) v by (auto simp: poll_agent_tasks_def split: sum.splits)
  show ?thesis
  proof (cases "is_quarantined h (integrity c)")
    case True
    with assms(2) v v' vd show ?thesis by (auto simp: poll_agent_tasks_def)
  next
    case False
    obtain ts d1 where f: "fetch_pending_tasks now h d = (ts, d1)" by fastforce
    obtain xs c1 where a: "attach_secrets ts (c\<lparr>cdb := d1\<rparr>) = (xs, c1)" by fastforce
    have r: "ds = xs" "held = False" "c' = c1" using assms(2) v v' False f a by (auto simp: poll_agent_tasks_def)
    have db: "cdb c1 = d1" and dl: "map dl_task xs = ts"
      using attach_secrets_db [of ts "c\<lparr>cdb := d1\<rparr>"] attach_secrets_tasks [of ts "c\<lparr>cdb := d1\<rparr>"] a by simp_all
    have "sorted (map tk_id ts)" using f by (auto simp: fetch_pending_tasks_def Let_def)
    then have sorted: "sorted (map (\<lambda>x. tk_id (dl_task x)) ds)"
      unfolding dl [symmetric] r by (simp add: comp_def)
    have "dl_task ` set ds = set ts" unfolding dl [symmetric] r by simp
    then have exactly: "dl_task ` set ds = {t\<lparr>tk_status := Dispatched, tk_dispatched := Some now\<rparr> | t.
         t \<in> set (agent_tasks (cdb c)) \<and> tk_host t = h \<and> tk_status t = Pending}"
      using fetch_returns [of now h d] f vd by simp
    have none: "\<forall>t \<in> set (agent_tasks (cdb c')). tk_host t = h \<longrightarrow> tk_status t \<noteq> Pending"
      using fetch_none_left [of now h d] f unfolding r db by simp
    have "fst (verify_agent h ?s (cdb c)) = Inr ()" using v v' by simp
    moreover have "held = is_quarantined h (integrity c)" "\<not> held" using r False by simp_all
    ultimately show ?thesis
      using sorted exactly none by (intro conjI impI; (assumption | simp only: not_True_eq_False))
  qed
qed

lemma poll_hands_out_witness:
  "\<exists>ds c'. poll_agent_tasks 20 ''web1'' (Some ''k'') None demo_control = (Inr (ds, False), c') \<and>
     ds \<noteq> [] \<and> (\<forall>t \<in> set (agent_tasks (cdb c')). tk_host t = ''web1'' \<longrightarrow> tk_status t \<noteq> Pending)"
proof -
  obtain ds c' where p: "poll_agent_tasks 20 ''web1'' (Some ''k'') None demo_control = (Inr (ds, False), c')"
    "map dl_task ds = [demo_task\<lparr>tk_status := Dispatched, tk_dispatched := Some 20\<rparr>]"
    by (rule demo_poll)
  then have "ds \<noteq> []" by auto
  moreover have "\<forall>t \<in> set (agent_tasks (cdb c')). tk_host t = ''web1'' \<longrightarrow> tk_status t \<noteq> Pending"
    by (rule poll_hands_out [OF demo_control_schema p(1), THEN conjunct2, THEN conjunct2, THEN conjunct2,
          THEN mp, THEN conjunct2, THEN conjunct2]) (rule notI)
  ultimately show ?thesis using p(1) by blast
qed

lemma update_none_hit: "tb_count p rows = 0 \<Longrightarrow> tb_update p f rows = rows"
  by (induction rows) (auto simp: tb_count_def tb_update_def split: if_splits)

lemma submit_refused:
  assumes "schema_ok d" "get_task_status i d \<noteq> Some Dispatched"
  shows "snd (submit_task_result now i h r d) = d"
proof -
  have "tb_count (dispatched_task i) (agent_tasks d) = 0"
    using assms by (auto simp: count_dispatched get_task_status_def split: option.split)
  then show ?thesis by (simp add: submit_task_result_def Let_def update_none_hit)
qed

text \<open>C9: A result is applied exactly when the request's two host ids agree, the agent proves that
  host's secret, and the task belongs to that host and is handed out; then the task is Done and one
  result row, for that host, is added.  In every other case no task and no result changes.\<close>

theorem result_only_from_assigned_host:
  assumes "schema_ok (cdb c)" "post_task_result now h b s i res c = (r, c')"
  shows "(r = Inr True \<longleftrightarrow> h = b \<and> fst (verify_agent b (Some s) (cdb c)) = Inr () \<and>
      (\<exists>t. find_task i (cdb c) = Some t \<and> tk_host t = b \<and> tk_status t = Dispatched)) \<and>
    (r = Inr True \<longrightarrow> get_task_status i (cdb c') = Some Done \<and>
      (\<exists>n. agent_results (cdb c') = agent_results (cdb c) @
        [\<lparr>rs_id = n, rs_task_id = i, rs_host = b, rs_result = res, rs_completed = now\<rparr>])) \<and>
    (r \<noteq> Inr True \<longrightarrow> agent_tasks (cdb c') = agent_tasks (cdb c) \<and>
      agent_results (cdb c') = agent_results (cdb c))"
proof -
  obtain v d where v: "verify_agent b (Some s) (cdb c) = (v, d)" by fastforce
  note fr = verify_agent_frame [of b "Some s" "cdb c", unfolded v snd_conv]
  have ft: "find_task i d = find_task i (cdb c)" using find_task_verify [of i b "Some s" "cdb c"] v by simp
  have sd: "schema_ok d" using verify_agent_schema [of b "Some s" "cdb c"] v assms(1) by simp
  obtain ap d1 where su: "submit_task_result now i b res d = (ap, d1)" by fastforce
  have ap: "ap \<longleftrightarrow> get_task_status i d = Some Dispatched" using submit_applied [OF sd, of now i b res] su by simp
  show ?thesis
  proof (cases "h = b \<and> v = Inr () \<and> get_task_host i d = Some b")
    case True
    then have r: "r = Inr ap" "cdb c' = d1" using assms(2) v su by (auto simp: post_task_result_def)
    show ?thesis
    proof (cases ap)
      case t: True
      have "get_task_status i d1 = Some Done"
        using t ap submit_find [of i now i b res d] su by (auto simp: get_task_status_def)
      then show ?thesis
        using t True ap r su submit_results [OF sd, of now i b res] fr v ft
        by (auto simp: get_task_status_def get_task_host_def)
    next
      case f: False
      then have "d1 = d" using submit_refused [OF sd, of i now b res] su ap by simp
      with f True ap r fr v ft show ?thesis by (auto simp: get_task_status_def get_task_host_def)
    qed
  next
    case False
    then have "r \<noteq> Inr True" "cdb c' = cdb c \<or> cdb c' = d"
      using assms(2) v by (auto simp: post_task_result_def split: sum.splits if_splits)
    with False v fr ft show ?thesis by (auto simp: get_task_host_def)
  qed
qed

lemma result_only_from_assigned_host_witness:
  "fst (post_task_result 30 ''web1'' ''web1'' ''k'' 1 ''out'' demo_control) \<noteq> Inr True \<and>
   agent_results (cdb (snd (post_task_result 30 ''web1'' ''web1'' ''k'' 1 ''out'' demo_control))) = []"
proof -
  obtain r c' where p: "post_task_result 30 ''web1'' ''web1'' ''k'' 1 ''out'' demo_control = (r, c')" by fastforce
  have f: "find_task 1 (cdb demo_control) = Some demo_task"
    using demo_find by (simp add: demo_control_def find_task_def)
  have st: "tk_status demo_task = Pending" by (simp add: demo_task_def)
  have "agent_results (cdb demo_control) = []"
    by (simp add: demo_control_def demo_db_def queue_task_def fresh_db_def)
  with result_only_from_assigned_host [OF demo_control_schema p] f st p show ?thesis by simp
qed

lemma attach_secrets_once:
  assumes "distinct (map tk_id ts)" "attach_secrets ts c = (ds, c')"
  shows "(\<forall>x \<in> set ds. dl_become x = map_option bc_password (map_of (pending_become c) (tk_id (dl_task x))) \<and>
      (dl_want_root x \<longleftrightarrow> map_of (pending_want_root c) (tk_id (dl_task x)) \<noteq> None)) \<and>
    (\<forall>i. map_of (pending_become c') i = (if i \<in> tk_id ` set ts then None else map_of (pending_become c) i)) \<and>
    (\<forall>i. map_of (pending_want_root c') i = (if i \<in> tk_id ` set ts then None else map_of (pending_want_root c) i))"
  using assms
proof (induction ts arbitrary: c ds c')
  case (Cons t ts)
  let ?c2 = "snd (take_want_root (tk_id t) (snd (take_become (tk_id t) c)))"
  obtain ds' c3 where a: "attach_secrets ts ?c2 = (ds', c3)" by fastforce
  have ds: "ds = \<lparr>dl_task = t, dl_become = fst (take_become (tk_id t) c),
      dl_want_root = fst (take_want_root (tk_id t) (snd (take_become (tk_id t) c)))\<rparr> # ds'" "c' = c3"
    using Cons.prems(2) a by (simp_all add: split_beta)
  have pb: "map_of (pending_become ?c2) i = (if i = tk_id t then None else map_of (pending_become c) i)"
    and pw: "map_of (pending_want_root ?c2) i = (if i = tk_id t then None else map_of (pending_want_root c) i)"
    for i by (simp_all add: take_become_def take_want_root_def map_of_tb_delete)
  have sub: "dl_task ` set ds' = set ts"
    using attach_secrets_tasks [of ts ?c2] a by (metis fst_conv image_set)
  have other: "tk_id (dl_task x) \<noteq> tk_id t" if "x \<in> set ds'" for x
  proof -
    have "dl_task x \<in> set ts" using that sub by blast
    with Cons.prems(1) show ?thesis by (auto simp: image_iff)
  qed
  have d: "distinct (map tk_id ts)" using Cons.prems(1) by simp
  show ?case using Cons.IH [OF d a] other
    by (simp add: ds map_of_tb_delete take_become_def take_want_root_def)
qed simp

lemma fetch_distinct:
  assumes "schema_ok d" "fetch_pending_tasks now h d = (ts, d')"
  shows "distinct (map tk_id ts)"
proof -
  let ?hit = "\<lambda>t. tk_host t = h \<and> tk_status t = Pending"
  have "distinct (map tk_id (filter ?hit (agent_tasks d)))"
    using assms(1) by (simp add: schema_ok_def keyed_def distinct_map_filter)
  moreover have "mset (map tk_id ts) = mset (map tk_id (filter ?hit (agent_tasks d)))"
    using assms(2) by (auto simp: fetch_pending_tasks_def Let_def multiset.map_comp comp_def)
  ultimately show ?thesis by (metis mset_eq_imp_distinct_iff)
qed

text \<open>C16: The sudo password and the root promise stored for a task reach the agent exactly with
  the task and leave the controller's memory with it: after the poll no handed-out task has either,
  and what is stored for other tasks is as it was.\<close>

theorem secrets_leave_with_the_task:
  assumes "schema_ok (cdb c)" "poll_agent_tasks now h q s c = (Inr (ds, False), c')"
  shows "(\<forall>x \<in> set ds.
      dl_become x = map_option bc_password (map_of (pending_become c) (tk_id (dl_task x))) \<and>
      (dl_want_root x \<longleftrightarrow> map_of (pending_want_root c) (tk_id (dl_task x)) \<noteq> None)) \<and>
    (\<forall>i. map_of (pending_become c') i =
      (if i \<in> tk_id ` dl_task ` set ds then None else map_of (pending_become c) i)) \<and>
    (\<forall>i. map_of (pending_want_root c') i =
      (if i \<in> tk_id ` dl_task ` set ds then None else map_of (pending_want_root c) i))"
proof -
  let ?s = "if truthy s then s else q"
  obtain v d where v: "verify_agent h ?s (cdb c) = (v, d)" by fastforce
  then have ok: "schema_ok d" using verify_agent_schema [of h ?s "cdb c"] assms(1) by simp
  obtain ts d1 where f: "fetch_pending_tasks now h d = (ts, d1)" by fastforce
  obtain xs c1 where a: "attach_secrets ts (c\<lparr>cdb := d1\<rparr>) = (xs, c1)" by fastforce
  have r: "ds = xs" "c' = c1" using assms(2) v f a
    by (auto simp: poll_agent_tasks_def split: sum.splits if_splits)
  from fetch_distinct [OF ok f] have "distinct (map tk_id ts)" .
  from attach_secrets_once [OF this a] r
  show ?thesis using attach_secrets_tasks [of ts "c\<lparr>cdb := d1\<rparr>"] a by auto
qed

lemma secrets_leave_with_the_task_witness:
  "\<exists>x c'. poll_agent_tasks 20 ''web1'' (Some ''k'') None demo_control = (Inr ([x], False), c') \<and>
     dl_become x = Some ''pw'' \<and> map_of (pending_become c') 1 = None"
proof -
  obtain ds c' where p: "poll_agent_tasks 20 ''web1'' (Some ''k'') None demo_control = (Inr (ds, False), c')"
    "map dl_task ds = [demo_task\<lparr>tk_status := Dispatched, tk_dispatched := Some 20\<rparr>]"
    by (rule demo_poll)
  then obtain x where x: "ds = [x]" "tk_id (dl_task x) = 1" by (auto simp: demo_task_def)
  have "map_of (pending_become demo_control) 1 = Some \<lparr>bc_password = ''pw'', bc_expiry = 310\<rparr>"
    by (simp add: demo_control_def)
  with secrets_leave_with_the_task [OF demo_control_schema p(1)] x have
    "dl_become x = Some ''pw''" "map_of (pending_become c') 1 = None" by simp_all
  with p(1) x(1) show ?thesis by blast
qed

end
