(* ===== verification/Enroll_Safety.thy ===== *)
theory Enroll_Safety
  imports App_Facts
begin

text \<open>
  What enrolment can and cannot do to the inventory: which requests succeed, which record they
  write, that a record is taken over only with proof, and that a token stays with one host.
\<close>

section \<open>The handler around its locked part\<close>

lemma enroll_success:
  assumes "enroll cfg now client s req c = (Inr (h, s'), c')"
  obtains d where "s' = s" "enroll_locked now s req (cdb c) = (Inr h, d)" "same_business d (cdb c')"
    "integrity c' = rebaseline h (integrity c)" "host_id_acceptable (er_host_id req)"
    "fst (enroll_rate_limited now (or_else client []) (enroll_rate c)) = 0"
    "enroll_ip_allowed (Some (or_else client [])) (cdb c)" "\<not> get_enrollment_paused (cdb c)"
proof -
  obtain retry rates where rl: "enroll_rate_limited now (or_else client []) (enroll_rate c) = (retry, rates)"
    by fastforce
  obtain r d where l: "enroll_locked now s req (cdb c) = (r, d)" by fastforce
  show thesis
    using assms rl l that [of d]
    by (auto simp: enroll_def Let_def split: if_splits sum.splits dest: log_activity_business)
qed

lemma enroll_row_source:
  "find_agent_row k (cdb (snd (enroll cfg now client s req c))) \<in>
    {find_agent_row k (cdb c), find_agent_row k (snd (enroll_locked now s req (cdb c)))}"
proof -
  obtain r d where l: "enroll_locked now s req (cdb c) = (r, d)" by fastforce
  have log: "find_agent_row k (case log_activity ky rq rd t a b x y z d of Inl _ \<Rightarrow> d | Inr d2 \<Rightarrow> d2) =
      find_agent_row k d"
    for ky rq rd t a b x y z
    by (cases "log_activity ky rq rd t a b x y z d") (auto dest: log_activity_business business_agent)
  show ?thesis
    using l log by (auto simp: enroll_def Let_def split: prod.split sum.split)
qed

lemma enroll_same_row:
  assumes "find_agent_row k (snd (enroll_locked now s req (cdb c))) = find_agent_row k (cdb c)"
  shows "find_agent_row k (cdb (snd (enroll cfg now client s req c))) = find_agent_row k (cdb c)"
  using enroll_row_source [of k cfg now client s req c] assms by auto

lemma enroll_locked_target:
  assumes "enroll_locked now s req d = (Inr h, d')"
  shows "fst (enroll_target now req d) = h"
proof -
  have "fst (enroll_claim now s req k f e) = Inr h \<Longrightarrow> k = h" for k f e
    by (auto simp: claim_unfold split: if_splits)
  with assms show ?thesis
    by (auto simp: enroll_locked_def split: if_splits prod.splits option.splits sum.splits) (metis fst_conv)+
qed

section \<open>A concrete enrolment\<close>

text \<open>A controller with one live host and one fresh token, and a request with that token.\<close>

definition demo_token :: enroll_row where
  "demo_token = \<lparr>et_token = token_at_rest (Some ''tok''), et_created = 0, et_expires = 1000,
     et_used = False, et_bound = None, et_last_used = None, et_reissue = False, et_environment = Some []\<rparr>"

definition demo_host :: agent_row where
  "demo_host = (new_agent ''web1'')\<lparr>ag_secret := Some (token_at_rest (Some ''k'')), ag_last_seen := Some 5\<rparr>"

definition demo_enrolling :: controller where
  "demo_enrolling =
     \<lparr>cdb = fresh_db\<lparr>agents := [demo_host], enroll_tokens := [demo_token]\<rparr>, integrity = [],
      pending_become = [], pending_want_root = [], enroll_rate = [], auto_update_sent = []\<rparr>"

definition demo_request :: "string \<Rightarrow> enroll_request" where
  "demo_request h = \<lparr>er_token = ''tok'', er_host_id = h, er_hostname = None, er_platform = None,
     er_kernel = None, er_ip = None, er_prev_secret = None\<rparr>"

lemma enrolling_schema: "schema_ok (cdb demo_enrolling)"
  by (simp add: demo_enrolling_def fresh_db_def schema_ok_def keyed_def ids_below_def)

lemma enrolling_token: "find_token (Some ''tok'') (cdb demo_enrolling) = Some demo_token"
  by (simp add: find_token_def demo_enrolling_def demo_token_def)

lemma enrolling_row: "find_agent_row h (cdb demo_enrolling) = (if h = ''web1'' then Some demo_host else None)"
  by (simp add: find_agent_row_def demo_enrolling_def demo_host_def new_agent_def)

lemma enrolling_target: "h \<noteq> ''web1'' \<Longrightarrow> enroll_target 10 (demo_request h) (cdb demo_enrolling) = (h, None)"
  by (simp add: enroll_target_def Let_def find_agent_row_eq [OF enrolling_schema] enrolling_row
      resolve_enroll_token_host_def enrolling_token find_supersedable_agent_def)
     (simp add: demo_request_def demo_token_def enrolling_token enrolling_row)

lemma enrolling_valid: "validate_enroll_token 10 10 ''tok'' (cdb demo_enrolling)"
  by (simp add: validate_enroll_token_def enrolling_token) (simp add: demo_token_def)

lemma demo_enrolled:
  obtains d where "enroll_locked 10 ''s'' (demo_request ''web2'') (cdb demo_enrolling) = (Inr ''web2'', d)"
proof -
  have won: "fst (consume_enroll_token 10 ''tok'' ''web2'' (cdb demo_enrolling))"
    using consume_result [OF enrolling_schema, of 10 "''tok''" "''web2''"] enrolling_token by (simp add: demo_token_def)
  have "fst (enroll_locked 10 ''s'' (demo_request ''web2'') (cdb demo_enrolling)) = Inr ''web2''"
    using won enrolling_valid enrolling_target [of "''web2''"]
    by (simp add: enroll_locked_def claim_unfold) (simp add: demo_request_def)
  then show thesis using that by (metis surjective_pairing)
qed

lemma demo_answer:
  obtains c' where "enroll cfg 10 None ''s'' (demo_request ''web2'') demo_enrolling = (Inr (''web2'', ''s''), c')"
proof -
  obtain d where d: "enroll_locked 10 ''s'' (demo_request ''web2'') (cdb demo_enrolling) = (Inr ''web2'', d)"
    by (rule demo_enrolled)
  have acc: "host_id_acceptable (er_host_id (demo_request ''web2''))"
    by (simp add: demo_request_def host_id_acceptable_def reserved_host_ids_def) code_simp
  have "enroll_ip_allowed (Some []) (cdb demo_enrolling)" "\<not> get_enrollment_paused (cdb demo_enrolling)"
    by (simp_all add: enroll_ip_allowed_def list_enroll_allowlist_def get_enrollment_paused_def
        demo_enrolling_def fresh_db_def)
  with d acc have "fst (enroll cfg 10 None ''s'' (demo_request ''web2'') demo_enrolling) = Inr (''web2'', ''s'')"
    by (simp add: enroll_def enroll_rate_limited_def Let_def)
  then show thesis using that by (metis surjective_pairing)
qed

section \<open>Properties\<close>

lemma unproven_kept:
  assumes "schema_ok (cdb c)" "find_agent_row h (cdb c) = Some a"
    and "ag_revoked a \<or> \<not> rebind_proven now req h (cdb c)"
  shows "find_agent_row h (cdb (snd (enroll cfg now client s req c))) = Some a"
  using enroll_same_row [of h now s req c cfg client] enroll_locked_unproven [OF assms, of s] assms(2)
  by simp

lemma unproven_unanswered:
  assumes "schema_ok (cdb c)" "find_agent_row h (cdb c) = Some a"
    and "ag_revoked a \<or> \<not> rebind_proven now req h (cdb c)"
  shows "fst (enroll cfg now client s req c) \<noteq> Inr (h, s')"
proof
  assume "fst (enroll cfg now client s req c) = Inr (h, s')"
  then obtain c' where "enroll cfg now client s req c = (Inr (h, s'), c')" by (metis surjective_pairing)
  then obtain d where l: "enroll_locked now s req (cdb c) = (Inr h, d)" by (rule enroll_success)
  then obtain ex where t: "enroll_target now req (cdb c) = (h, ex)"
    using enroll_locked_target [OF l] by (metis surjective_pairing)
  then have "ex = Some a" using enroll_target_row [OF assms(1) t] assms(2) by simp
  moreover obtain e where "rebind_guard now req h a (cdb c) = (Inl e, cdb c)"
    using guard_refuses [OF assms(3)] by blast
  ultimately show False using l t by (auto simp: enroll_locked_def split: if_splits)
qed

text \<open>C1: No enrolment request changes the record of an existing host unless the host is not
  revoked and the request proves the right to it, by the host's current secret or an
  administrator's reissue token for that host; in particular a revoked host is never brought back
  by enrolling.  The refused request is not answered with that host's id.\<close>

theorem enroll_never_takes_over:
  assumes "schema_ok (cdb c)" "find_agent_row h (cdb c) = Some a"
    and "ag_revoked a \<or> \<not> rebind_proven now req h (cdb c)"
  shows "find_agent_row h (cdb (snd (enroll cfg now client s req c))) = Some a \<and>
    (\<forall>s'. fst (enroll cfg now client s req c) \<noteq> Inr (h, s'))"
  using unproven_kept [OF assms] unproven_unanswered [OF assms] by blast

lemma enroll_never_takes_over_witness:
  "find_agent_row ''web1'' (cdb (snd (enroll demo_settings 10 None ''s'' (demo_request ''web1'') demo_enrolling))) =
     Some demo_host"
proof -
  have "\<not> rebind_proven 10 (demo_request ''web1'') ''web1'' (cdb demo_enrolling)"
    by (simp add: rebind_proven_def agent_simps enroll_token_authorizes_rebind_def demo_request_def enrolling_token)
       (simp add: demo_token_def)
  then show ?thesis using enroll_never_takes_over [OF enrolling_schema, of "''web1''" demo_host] enrolling_row by simp
qed

text \<open>A successful enrolment touches one host: that host's record is live and holds the
  digest of the secret just issued, the agent authenticates with it at once, its integrity
  quarantine is gone, and every other host's record and quarantine is as it was.\<close>

theorem enrolled_host_authenticates:
  assumes "schema_ok (cdb c)" "enroll cfg now client s req c = (Inr (h, s'), c')" "s \<noteq> []"
  shows "s' = s \<and> fst (verify_agent h (Some s) (cdb c')) = Inr () \<and>
    get_agent_secret h (cdb c') = Some (token_at_rest (Some s)) \<and>
    \<not> is_quarantined h (integrity c') \<and>
    (\<forall>k. k \<noteq> h \<longrightarrow> find_agent_row k (cdb c') = find_agent_row k (cdb c) \<and>
      is_quarantined k (integrity c') = is_quarantined k (integrity c))"
proof -
  from assms(2) obtain d where d: "s' = s" "enroll_locked now s req (cdb c) = (Inr h, d)"
    "same_business d (cdb c')" "integrity c' = rebaseline h (integrity c)" by (rule enroll_success)
  from d(2) obtain f d1 where cl: "enroll_claim now s req h f d1 = (Inr h, d)"
    by (rule enroll_locked_ok)
  from claim_row [of now s req h f d1 h] cl assms(3) obtain a where
    a: "find_agent_row h d = Some a" "\<not> ag_revoked a" "ag_secret a = Some (token_at_rest (Some s))"
    by auto
  have row: "find_agent_row h (cdb c') = Some a" using business_agent [OF d(3)] a(1) by simp
  then have sec: "get_agent_secret h (cdb c') = Some (token_at_rest (Some s))"
    by (simp add: get_agent_secret_def a(3))
  have "find_agent_row k (cdb c') = find_agent_row k (cdb c)" if "k \<noteq> h" for k
  proof -
    obtain ex where "enroll_target now req (cdb c) = (h, ex)"
      using enroll_locked_target [OF d(2)] by (metis surjective_pairing)
    from enroll_locked_other [OF this that, of s] d(2) business_agent [OF d(3)] show ?thesis by simp
  qed
  with row sec a d assms(3) show ?thesis
    by (simp add: access_simps agent_simps integ_simps)
qed

lemma enrolled_host_authenticates_witness:
  "\<exists>c'. enroll demo_settings 10 None ''s'' (demo_request ''web2'') demo_enrolling = (Inr (''web2'', ''s''), c') \<and>
     fst (verify_agent ''web2'' (Some ''s'') (cdb c')) = Inr ()"
proof -
  obtain c' where "enroll demo_settings 10 None ''s'' (demo_request ''web2'') demo_enrolling = (Inr (''web2'', ''s''), c')"
    by (rule demo_answer)
  with enrolled_host_authenticates [OF enrolling_schema this] show ?thesis by blast
qed

text \<open>C8: A token belongs to the first host it enrolled: after a successful enrolment, any later
  successful enrolment with the same token (whatever else has happened, as long as the token's row
  is not replaced) is for the same host.\<close>

theorem token_enrolls_one_host:
  assumes "schema_ok (cdb c)" "enroll cfg now client s req c = (Inr (h, s1), c')"
    and "schema_ok (cdb c2)" "find_token (Some (er_token req)) (cdb c2) = find_token (Some (er_token req)) (cdb c')"
    and "enroll cfg2 now2 client2 s2 req2 c2 = (Inr (h2, s3), c3)" "er_token req2 = er_token req"
  shows "h2 = h"
proof -
  let ?t = "er_token req"
  from assms(2) obtain d where d: "enroll_locked now s req (cdb c) = (Inr h, d)"
    "same_business d (cdb c')" by (rule enroll_success)
  from d(1) obtain f d1 where cl: "enroll_claim now s req h f d1 = (Inr h, d)"
    "schema_ok d1 = schema_ok (cdb c)" by (rule enroll_locked_ok)
  have won: "fst (consume_enroll_token now ?t h d1)" using cl(1) by (auto simp: claim_unfold split: if_splits)
  have "find_token (Some ?t) d = find_token (Some ?t) (snd (consume_enroll_token now ?t h d1))"
    using claim_tokens [of now s req h f d1] cl(1) by (simp add: find_token_def)
  then obtain r where r: "find_token (Some ?t) (cdb c') = Some r" "et_used r" "et_bound r = Some h"
    using won consume_result [of d1 now ?t h] find_consumed [of "Some ?t" now ?t h d1]
      cl(2) assms(1) business_token [OF d(2), of "Some ?t"] by auto
  from assms(5) obtain e where e: "enroll_locked now2 s2 req2 (cdb c2) = (Inr h2, e)" by (rule enroll_success)
  from e obtain f2 e1 where cl2: "enroll_claim now2 s2 req2 h2 f2 e1 = (Inr h2, e)"
    "enroll_tokens e1 = enroll_tokens (cdb c2)" "schema_ok e1 = schema_ok (cdb c2)" by (rule enroll_locked_ok)
  have "fst (consume_enroll_token now2 ?t h2 e1)"
    using cl2(1) assms(6) by (auto simp: claim_unfold split: if_splits)
  moreover have "find_token (Some ?t) e1 = Some r" using cl2(2) assms(4) r(1) by (simp add: find_token_def)
  ultimately show ?thesis using consume_result [of e1 now2 ?t h2] cl2(3) assms(3) r by auto
qed

lemma token_enrolls_one_host_witness:
  "\<exists>c' c2. enroll demo_settings 10 None ''s'' (demo_request ''web2'') demo_enrolling = (Inr (''web2'', ''s''), c') \<and>
     schema_ok (cdb c2) \<and> find_token (Some ''tok'') (cdb c2) = find_token (Some ''tok'') (cdb c') \<and>
     (\<forall>h s3 c3. enroll demo_settings 20 None ''x'' (demo_request ''web3'') c2 \<noteq> (Inr (''web3'', s3), c3))"
proof -
  obtain c' where a: "enroll demo_settings 10 None ''s'' (demo_request ''web2'') demo_enrolling = (Inr (''web2'', ''s''), c')"
    by (rule demo_answer)
  obtain d where "enroll_locked 10 ''s'' (demo_request ''web2'') (cdb demo_enrolling) = (Inr ''web2'', d)"
      "same_business d (cdb c')" using a by (rule enroll_success)
  then have ok: "schema_ok (cdb c')"
    using enroll_locked_schema [OF enrolling_schema, of 10 "''s''" "demo_request ''web2''"]
    by (simp add: same_business_schema)
  have "er_token (demo_request h) = ''tok''" for h by (simp add: demo_request_def)
  then have "enroll demo_settings 20 None ''x'' (demo_request ''web3'') c' \<noteq> (Inr (''web3'', s3), c3)" for s3 c3
    using token_enrolls_one_host [OF enrolling_schema a ok, of demo_settings 20 None "''x''" "demo_request ''web3''" "''web3''" s3 c3]
    by auto
  with a ok show ?thesis by blast
qed

text \<open>What every successful enrolment got past: the host id is acceptable, the source address
  is under its flood limit and allowed by the allowlist (empty, loopback, or inside a listed
  network), enrolment is not paused, and the token exists, is not expired and is fresh or within
  its reuse window.\<close>

theorem enroll_requires:
  assumes "enroll cfg now client s req c = (Inr (h, s'), c')"
  shows "host_id_acceptable (er_host_id req) \<and>
    fst (enroll_rate_limited now (or_else client []) (enroll_rate c)) = 0 \<and>
    \<not> get_enrollment_paused (cdb c) \<and>
    (enroll_allowlist (cdb c) = [] \<or>
      (\<exists>addr. ip_address (strip (or_else client [])) = Some addr \<and>
        (is_loopback addr \<or> (\<exists>r \<in> set (enroll_allowlist (cdb c)). \<exists>n. al_cidr r = Some n \<and> ip_in_net addr n)))) \<and>
    (\<exists>t. find_token (Some (er_token req)) (cdb c) = Some t \<and> now \<le> et_expires t \<and>
      (\<not> et_used t \<or> (\<exists>u. et_last_used t = Some u \<and> now - u \<le> ENROLL_TOKEN_REUSE_WINDOW)))"
proof -
  from assms obtain d where d: "enroll_locked now s req (cdb c) = (Inr h, d)"
    "host_id_acceptable (er_host_id req)"
    "fst (enroll_rate_limited now (or_else client []) (enroll_rate c)) = 0"
    "enroll_ip_allowed (Some (or_else client [])) (cdb c)" "\<not> get_enrollment_paused (cdb c)"
    by (rule enroll_success)
  have "validate_enroll_token now now (er_token req) (cdb c)"
    using d(1) by (auto simp: enroll_locked_def split: if_splits)
  then have tok: "\<exists>t. find_token (Some (er_token req)) (cdb c) = Some t \<and> now \<le> et_expires t \<and>
      (\<not> et_used t \<or> (\<exists>u. et_last_used t = Some u \<and> now - u \<le> ENROLL_TOKEN_REUSE_WINDOW))"
    by (auto simp: validate_enroll_token_def split: option.splits if_splits)
  have "or_else (Some (or_else client [])) [] = or_else client []" by (simp add: or_else_def split: option.split)
  then have "enroll_allowlist (cdb c) = [] \<or>
      (\<exists>addr. ip_address (strip (or_else client [])) = Some addr \<and>
        (is_loopback addr \<or> (\<exists>r \<in> set (enroll_allowlist (cdb c)). \<exists>n. al_cidr r = Some n \<and> ip_in_net addr n)))"
    using d(4) by (auto simp: enroll_ip_allowed_def Let_def enroll_simps split: if_splits option.splits)
  with d tok show ?thesis by blast
qed

lemma enroll_requires_witness:
  "\<exists>t. find_token (Some (er_token (demo_request ''web2''))) (cdb demo_enrolling) = Some t \<and> 10 \<le> et_expires t"
proof -
  obtain c' where "enroll demo_settings 10 None ''s'' (demo_request ''web2'') demo_enrolling = (Inr (''web2'', ''s''), c')"
    by (rule demo_answer)
  from enroll_requires [OF this] show ?thesis by blast
qed

text \<open>The flood guard: a table in which no source has more than the maximum of recorded hits.\<close>

definition rates_ok :: "(string \<times> instant list) list \<Rightarrow> bool" where
  "rates_ok rates = list_all (\<lambda>e. length (snd e) \<le> ENROLL_RATE_MAX) rates"

lemma rates_ok_put:
  "rates_ok rates \<Longrightarrow> length hs \<le> ENROLL_RATE_MAX \<Longrightarrow>
    rates_ok (tb_upsert (\<lambda>e. fst e = ip) (\<lambda>e. (ip, hs)) (ip, hs) rates)"
  by (auto simp: rates_ok_def list_all_iff tb_upsert_def set_tb_update)

lemma rates_ok_find: "rates_ok rates \<Longrightarrow> map_of rates ip = Some hs \<Longrightarrow> length hs \<le> ENROLL_RATE_MAX"
  by (fastforce simp: rates_ok_def list_all_iff dest: map_of_SomeD)

text \<open>The flood guard never lets more than its maximum of requests of one source through in a
  window: it passes a request exactly when fewer than the maximum of the source's recorded hits lie
  in the last window, it records every request it passes, and no source's record ever exceeds the
  maximum.\<close>

theorem enroll_flood_bound:
  assumes "rates_ok rates" "ip \<noteq> []"
  shows "rates_ok (snd (enroll_rate_limited now ip rates)) \<and>
    (fst (enroll_rate_limited now ip rates) = 0 \<longleftrightarrow>
      length (filter (\<lambda>t. now - of_int ENROLL_RATE_WINDOW \<le> t)
        (case map_of rates ip of None \<Rightarrow> [] | Some hs \<Rightarrow> hs)) < ENROLL_RATE_MAX) \<and>
    (fst (enroll_rate_limited now ip rates) \<noteq> 0 \<longrightarrow> 1 \<le> fst (enroll_rate_limited now ip rates))"
proof -
  let ?old = "case map_of rates ip of None \<Rightarrow> [] | Some hs \<Rightarrow> hs"
  let ?hits = "filter (\<lambda>t. now - of_int ENROLL_RATE_WINDOW \<le> t) ?old"
  have old: "length ?old \<le> ENROLL_RATE_MAX"
    using rates_ok_find [OF assms(1)] by (simp split: option.split)
  have hits: "length ?hits \<le> ENROLL_RATE_MAX" using length_filter_le old by (rule le_trans)
  have del: "rates_ok xs \<Longrightarrow> rates_ok (tb_delete p xs)" for xs p
    by (auto simp: rates_ok_def list_all_iff set_tb_delete)
  show ?thesis
  proof (cases "ENROLL_RATE_MAX \<le> length ?hits")
    case True
    then show ?thesis using assms hits rates_ok_put [OF assms(1) hits, of ip]
      by (simp add: enroll_rate_limited_def Let_def ENROLL_RATE_WINDOW_def ENROLL_RATE_MAX_def)
  next
    case False
    then have "length (?hits @ [now]) \<le> ENROLL_RATE_MAX" by simp
    from rates_ok_put [OF assms(1) this, of ip] False assms del show ?thesis
      by (simp add: enroll_rate_limited_def Let_def ENROLL_RATE_WINDOW_def ENROLL_RATE_MAX_def)
  qed
qed

lemma enroll_flood_bound_witness:
  "fst (enroll_rate_limited 100 ''10.0.0.9'' [(''10.0.0.9'', [90, 95])]) = 0"
proof -
  have "rates_ok [(''10.0.0.9'', [90, 95])]" by (simp add: rates_ok_def ENROLL_RATE_MAX_def)
  from enroll_flood_bound [OF this, of "''10.0.0.9''" 100] show ?thesis
    by (simp add: ENROLL_RATE_MAX_def ENROLL_RATE_WINDOW_def)
qed

text \<open>A host id of blanks only, or none at all, passes the check on the stripped text and is then
  used as it came.\<close>

lemma blank_host_id_accepted: "host_id_acceptable '' '' \<and> host_id_acceptable []"
  by (simp add: host_id_acceptable_def strip_def is_space_def)

end
