(* ===== verification/Agent_Lockout.thy ===== *)
theory Agent_Lockout
  imports Task_Control Enroll_Safety
begin

text \<open>
  What the agent's secret is good for, and that revoking a host locks it out: none of the requests
  an agent can make brings a revoked host back.
\<close>

section \<open>The stored secret\<close>

text \<open>A secret check that succeeds leaves the digest of the presented secret as the stored
  value, accepts the same secret again, and from then on accepts a value exactly when it has the
  same digest; so what is stored (and what a copy of the database shows) is not itself a secret the
  check accepts, unless it is its own digest.\<close>

theorem secret_check_upgrades:
  assumes "agent_secret_matches h p d = (True, d')"
  shows "get_agent_secret h d' = Some (token_at_rest p) \<and>
    (\<forall>q. fst (agent_secret_matches h q d') \<longleftrightarrow> truthy q \<and> token_at_rest q = token_at_rest p) \<and>
    (fst (agent_secret_matches h (get_agent_secret h d') d') \<longleftrightarrow>
       token_at_rest (Some (token_at_rest p)) = token_at_rest p)"
proof -
  have st: "get_agent_secret h d' = Some (token_at_rest p)"
    using secret_upgrade_stable [OF assms] by simp
  have ne: "token_at_rest p \<noteq> []"
    using is_hash_token_at_rest [of p] by (auto simp: is_hash_at_rest_def)
  have "fst (agent_secret_matches h q d') \<longleftrightarrow> truthy q \<and> token_at_rest q = token_at_rest p" for q
    using ne by (auto simp: secret_matches_iff st truthy_def)
  with st ne show ?thesis by (simp add: truthy_def)
qed

lemma secret_check_upgrades_witness:
  "get_agent_secret ''web1'' (snd (agent_secret_matches ''web1'' (Some ''k'')
     (fresh_db\<lparr>agents := [(new_agent ''web1'')\<lparr>ag_secret := Some ''k''\<rparr>]\<rparr>))) = Some (token_at_rest (Some ''k''))"
proof -
  let ?d = "fresh_db\<lparr>agents := [(new_agent ''web1'')\<lparr>ag_secret := Some ''k''\<rparr>]\<rparr>"
  have "get_agent_secret ''web1'' ?d = Some ''k''"
    by (simp add: get_agent_secret_def find_agent_row_def new_agent_def)
  then have "fst (agent_secret_matches ''web1'' (Some ''k'') ?d)"
    by (simp add: secret_matches_iff truthy_def is_hash_at_rest_def)
  then obtain d' where "agent_secret_matches ''web1'' (Some ''k'') ?d = (True, d')" by (metis prod.collapse)
  from secret_check_upgrades [OF this] this show ?thesis by simp
qed

section \<open>Revoked hosts\<close>

text \<open>The requests an agent, or anyone who poses as one, can make.\<close>

inductive agent_request :: "settings \<Rightarrow> controller \<Rightarrow> controller \<Rightarrow> bool" for cfg where
  "agent_request cfg c (snd (poll_agent_tasks now k q s c))"
| "agent_request cfg c (snd (post_task_result now k b s i res c))"
| "agent_request cfg c (snd (heartbeat cfg now req c))"
| "agent_request cfg c (snd (enroll cfg now client secret ereq c))"
| "agent_request cfg c (snd (self_disenroll k b s c))"

inductive_cases agent_request_cases: "agent_request cfg c e"

lemma revoked_refused: "is_agent_revoked h d \<Longrightarrow> verify_agent h s d = (Inl (Http 403), d)"
  by (auto simp: verify_agent_def is_agent_revoked_def agent_exists_def split: option.splits)

lemma revoked_same_row:
  "find_agent_row h e = find_agent_row h d \<Longrightarrow> is_agent_revoked h e = is_agent_revoked h d"
  by (simp add: is_agent_revoked_def)

lemma verify_other_row:
  assumes "is_agent_revoked h d"
  shows "find_agent_row h (snd (verify_agent k s d)) = find_agent_row h d"
proof (cases "k = h")
  case True
  then show ?thesis using revoked_refused [OF assms] by simp
next
  case False
  then show ?thesis
    by (auto simp: verify_agent_def agent_secret_matches_def Let_def upgrade_agent_secret_hash_def agent_simps
        split: prod.splits)
qed

lemma verified_not_revoked: "verify_agent k s d = (Inr (), e) \<Longrightarrow> \<not> is_agent_revoked k d"
  using revoked_refused [of k d s] by auto

text \<open>None of the requests touches the record of a revoked host.\<close>

lemma heartbeat_keeps_revoked:
  assumes "is_agent_revoked h (cdb c)"
  shows "find_agent_row h (cdb (snd (heartbeat cfg now req c))) = find_agent_row h (cdb c)"
proof -
  let ?k = "hb_host_id req"
  obtain v d where v: "verify_agent ?k (Some (hb_secret req)) (cdb c) = (v, d)" by fastforce
  then have d: "find_agent_row h d = find_agent_row h (cdb c)"
    using verify_other_row [OF assms, of ?k "Some (hb_secret req)"] by simp
  show ?thesis
  proof (cases v)
    case (Inl e)
    with v d show ?thesis by (simp add: heartbeat_def)
  next
    case (Inr u)
    then have "?k \<noteq> h" using verified_not_revoked [of ?k "Some (hb_secret req)" "cdb c" d] v assms by auto
    have auto: "find_agent_row h (cdb (maybe_auto_update_agent cfg now k r c1)) = find_agent_row h (cdb c1)" for k r c1
    proof -
      have q: "find_agent_row h (snd (queue_task now k cmd kind u e)) = find_agent_row h e" for cmd kind u e
        by (simp add: find_agent_row_def queue_task_def Let_def)
      have log: "find_agent_row h (case log_activity ky rq rd t a b x y z e of Inl _ \<Rightarrow> e | Inr e2 \<Rightarrow> e2) =
          find_agent_row h e" for ky rq rd t a b x y z e
        by (cases "log_activity ky rq rd t a b x y z e") (auto dest: log_activity_business business_agent)
      show ?thesis
        by (auto simp: maybe_auto_update_agent_def Let_def log q split: option.split prod.split bool.split)
    qed
    have health: "find_agent_row h (upsert_host_health m e) = find_agent_row h e" for m e
      by (simp add: find_agent_row_def upsert_host_health_def)
    from v Inr d \<open>?k \<noteq> h\<close> show ?thesis
      by (auto simp: heartbeat_def Let_def auto health update_agent_heartbeat_def agent_simps split: option.split)
  qed
qed

lemma request_keeps_revoked:
  assumes "agent_request cfg c e" "is_agent_revoked h (cdb c)" "schema_ok (cdb c)"
  shows "find_agent_row h (cdb e) = find_agent_row h (cdb c)"
  using assms(1)
proof cases
  case (1 now k q s)
  let ?s = "if truthy s then s else q"
  obtain v d where v: "verify_agent k ?s (cdb c) = (v, d)" by fastforce
  then have d: "find_agent_row h d = find_agent_row h (cdb c)" using verify_other_row [OF assms(2), of k ?s] by simp
  obtain ts d1 where f: "fetch_pending_tasks now k d = (ts, d1)" by fastforce
  then have "find_agent_row h d1 = find_agent_row h d"
    by (auto simp: fetch_pending_tasks_def find_agent_row_def Let_def)
  then show ?thesis
    using v f d attach_secrets_db [of ts "c\<lparr>cdb := d1\<rparr>"]
    by (auto simp: 1 poll_agent_tasks_def split: sum.split prod.split)
next
  case (2 now k b s i res)
  obtain v d where v: "verify_agent b (Some s) (cdb c) = (v, d)" by fastforce
  then have d: "find_agent_row h d = find_agent_row h (cdb c)" using verify_other_row [OF assms(2), of b "Some s"] by simp
  have "find_agent_row h (snd (submit_task_result now i b res d)) = find_agent_row h d"
    by (simp add: submit_task_result_def find_agent_row_def Let_def add_result_def)
  with v d show ?thesis by (auto simp: 2 post_task_result_def split: sum.split prod.split)
next
  case (3 now req)
  then show ?thesis using heartbeat_keeps_revoked [OF assms(2)] by simp
next
  case (4 now client secret ereq)
  obtain a where a: "find_agent_row h (cdb c) = Some a" "ag_revoked a"
    using assms(2) by (auto simp: is_agent_revoked_def split: option.splits)
  then show ?thesis using unproven_kept [OF assms(3) a(1)] by (simp add: 4)
next
  case (5 k b s)
  obtain v d where v: "verify_agent b (Some s) (cdb c) = (v, d)" by fastforce
  then have d: "find_agent_row h d = find_agent_row h (cdb c)" using verify_other_row [OF assms(2), of b "Some s"] by simp
  show ?thesis
  proof (cases v)
    case (Inl e)
    with v d show ?thesis by (simp add: 5 self_disenroll_def)
  next
    case (Inr u)
    then have "b \<noteq> h" using verified_not_revoked [of b "Some s" "cdb c" d] v assms(2) by auto
    with v Inr d show ?thesis by (simp add: 5 self_disenroll_def agent_simps)
  qed
qed

lemma request_schema:
  assumes "agent_request cfg c e" "schema_ok (cdb c)"
  shows "schema_ok (cdb e)"
  using assms(1)
proof cases
  case (1 now k q s)
  obtain r c' where "poll_agent_tasks now k q s c = (r, c')" by fastforce
  with poll_implements [OF assms(2) this] 1 show ?thesis by (simp add: implements_queue_def)
next
  case (2 now k b s i res)
  obtain r c' where "post_task_result now k b s i res c = (r, c')" by fastforce
  with answer_implements [OF assms(2) this] 2 show ?thesis by (simp add: implements_queue_def)
next
  case (3 now req)
  then show ?thesis using beat_implements [OF assms(2)] by (simp add: implements_queue_def)
next
  case (4 now client secret ereq)
  then show ?thesis using quiet_enroll [of c cfg now client secret ereq] assms(2) by (simp add: quiet_on_tasks_def)
next
  case (5 k b s)
  have "schema_ok (snd (verify_agent b (Some s) (cdb c)))" using assms(2) by (simp add: verify_agent_schema)
  then show ?thesis by (auto simp: 5 self_disenroll_def assms(2) schema_ok_delete_agent split: sum.split prod.split)
qed

lemma requests_keep_revoked:
  assumes "(agent_request cfg)\<^sup>*\<^sup>* c e" "is_agent_revoked h (cdb c)" "schema_ok (cdb c)"
  shows "find_agent_row h (cdb e) = find_agent_row h (cdb c) \<and> schema_ok (cdb e)"
  using assms(1)
proof (induction rule: rtranclp_induct)
  case (step y z)
  then have "is_agent_revoked h (cdb y)" using assms(2) revoked_same_row [of h "cdb y" "cdb c"] by simp
  with step request_keeps_revoked request_schema show ?case by metis
qed (use assms in simp)

text \<open>C3: Revoking a host locks it out.  Whatever sequence of agent requests follows (polls, results,
  heartbeats, enrolments and departures, for this host or for others), the host's record is the one
  it was revoked with, and every poll, result, heartbeat and departure in its name is answered 403
  and changes nothing; no enrolment is answered with its id.\<close>

theorem revoked_host_is_locked_out:
  assumes "is_agent_revoked h (cdb c)" "schema_ok (cdb c)" "(agent_request cfg)\<^sup>*\<^sup>* c e"
  shows "find_agent_row h (cdb e) = find_agent_row h (cdb c) \<and>
    poll_agent_tasks now h q s e = (Inl (Http 403), e) \<and>
    post_task_result now h h sec i res e = (Inl (Http 403), e) \<and>
    heartbeat cfg now (req\<lparr>hb_host_id := h\<rparr>) e = (Inl (Http 403), e) \<and>
    self_disenroll h h sec e = (Inl (Http 403), e) \<and>
    fst (enroll cfg now client secret ereq e) \<noteq> Inr (h, s')"
proof -
  have row: "find_agent_row h (cdb e) = find_agent_row h (cdb c)" "schema_ok (cdb e)"
    using requests_keep_revoked [OF assms(3,1,2)] by simp_all
  then have rev: "is_agent_revoked h (cdb e)" using assms(1) revoked_same_row by metis
  note refuse = revoked_refused [OF rev]
  obtain a where "find_agent_row h (cdb e) = Some a" "ag_revoked a"
    using rev by (auto simp: is_agent_revoked_def split: option.splits)
  then have "fst (enroll cfg now client secret ereq e) \<noteq> Inr (h, s')"
    using unproven_unanswered [OF row(2)] by blast
  then show ?thesis
    using row(1) refuse by (simp add: poll_agent_tasks_def post_task_result_def heartbeat_def self_disenroll_def)
qed

lemma revoked_host_is_locked_out_witness:
  "poll_agent_tasks 20 ''web1'' (Some ''k'') None
     (snd (poll_agent_tasks 15 ''web1'' (Some ''k'') None
       (demo_enrolling\<lparr>cdb := snd (revoke_agent ''web1'' (cdb demo_enrolling))\<rparr>))) =
   (Inl (Http 403), snd (poll_agent_tasks 15 ''web1'' (Some ''k'') None
       (demo_enrolling\<lparr>cdb := snd (revoke_agent ''web1'' (cdb demo_enrolling))\<rparr>)))"
proof -
  let ?c = "demo_enrolling\<lparr>cdb := snd (revoke_agent ''web1'' (cdb demo_enrolling))\<rparr>"
  have "is_agent_revoked ''web1'' (cdb ?c)"
    by (simp add: is_agent_revoked_def revoke_agent_def agent_simps enrolling_row)
  moreover have "schema_ok (cdb ?c)" by (simp add: revoke_agent_def schema_simps enrolling_schema)
  moreover have "(agent_request demo_settings)\<^sup>*\<^sup>* ?c (snd (poll_agent_tasks 15 ''web1'' (Some ''k'') None ?c))"
    by (rule r_into_rtranclp) (rule agent_request.intros)
  ultimately show ?thesis by (rule revoked_host_is_locked_out [THEN conjunct2, THEN conjunct1])
qed

end
