(* ===== verification/Shell.thy ===== *)
theory Shell
  imports Py_Str
begin

text \<open>
  Quoting for the shell.  \<open>quote\<close> and \<open>shlex_split\<close> are the two functions of Python's
  \<^verbatim>\<open>shlex\<close> the command builders call.  \<open>shell_read\<close> is the reference they are judged against:
  the quoting rules of the POSIX shell (section 2.2 of its command language, with comments,
  nested command substitution and here-documents whose delimiter is quoted), as an automaton that
  reports for every character whether the shell takes it literally or may act on it.
\<close>

named_theorems read_simps \<open>evaluation of the reader over the fixed text of a command\<close>

section \<open>What the shell reads\<close>

text \<open>
  \<open>Lit c\<close>: the character is part of a word as it stands.  \<open>Act c\<close>: it separates words, is an
  operator, or can start an expansion.  \<open>Mark\<close>: a quoted section opens, so there is a word here even
  if nothing is in the quotes.
\<close>

datatype event = Mark | Lit char | Act char

datatype ckind = Blank | Newline | Semi | Squote | Dquote | Backslash | Dollar | Lpar | Rpar | Less
  | Hash | Backquote | Inert | Glob

definition safe_char :: "char \<Rightarrow> bool" where
  "safe_char c = (is_alnum c \<or> c \<in> set ''_@%+=:,./-'')"

definition kind :: "char \<Rightarrow> ckind" where
  "kind c =
     (if safe_char c then Inert
      else if c = CHR '' '' \<or> c = CHR 0x09 then Blank
      else if c = CHR 0x0A then Newline
      else if c \<in> {CHR '';'', CHR ''&'', CHR ''|'', CHR ''>''} then Semi
      else if c = CHR 0x27 then Squote
      else if c = CHR 0x22 then Dquote
      else if c = CHR 0x5C then Backslash
      else if c = CHR ''$'' then Dollar
      else if c = CHR ''('' then Lpar
      else if c = CHR '')'' then Rpar
      else if c = CHR ''<'' then Less
      else if c = CHR ''#'' then Hash
      else if c = CHR 0x60 then Backquote
      else Glob)"

text \<open>
  Where the reader is: between words, in a word, after an unquoted backslash, in single or
  double quotes, after a dollar or a backslash in double quotes, in a comment, after one less-than
  sign, in the delimiter of a here-document, on a line of its text that may still turn out to be the
  delimiter, and on a line that is none.  \<open>Lost\<close> is reached by what the reference does not cover:
  back quotes, a here-document with an unquoted delimiter, two here-documents begun on one line.
\<close>

datatype mode = Gap | Inword | Esc | Single | Double | Ddollar | Desc | Comment | Lt | Ltlt
  | Delim string | Line string string | Text string | Lost

text \<open>
  The frames record the open parentheses, innermost first: \<open>True\<close> for a command substitution opened
  in double quotes, to which its closing parenthesis returns.  The last part is the delimiter of a
  here-document that begins after the current line.
\<close>

type_synonym reader = "mode \<times> bool list \<times> string option"

definition start :: reader where
  "start = (Gap, [], None)"

fun closed :: "bool list \<Rightarrow> string option \<Rightarrow> reader" where
  "closed [] h = (Gap, [], h)"
| "closed (False # fs) h = (Inword, fs, h)"
| "closed (True # fs) h = (Double, fs, h)"

fun next_line :: "bool list \<Rightarrow> string option \<Rightarrow> reader" where
  "next_line fs None = (Gap, fs, None)"
| "next_line fs (Some d) = (Line d [], fs, None)"

text \<open>One unquoted character: the reader after it.\<close>

fun bare :: "bool \<Rightarrow> ckind \<Rightarrow> bool list \<Rightarrow> string option \<Rightarrow> reader" where
  "bare g Blank fs h = (Gap, fs, h)"
| "bare g Newline fs h = next_line fs h"
| "bare g Semi fs h = (Gap, fs, h)"
| "bare g Squote fs h = (Single, fs, h)"
| "bare g Dquote fs h = (Double, fs, h)"
| "bare g Backslash fs h = (Esc, fs, h)"
| "bare g Dollar fs h = (Inword, fs, h)"
| "bare g Lpar fs h = (Gap, False # fs, h)"
| "bare g Rpar fs h = closed fs h"
| "bare g Less fs h = (Lt, fs, h)"
| "bare g Hash fs h = (if g then Comment else Inword, fs, h)"
| "bare g Backquote fs h = (Lost, fs, h)"
| "bare g Inert fs h = (Inword, fs, h)"
| "bare g Glob fs h = (Inword, fs, h)"

fun quoted :: "bool \<Rightarrow> ckind \<Rightarrow> bool list \<Rightarrow> string option \<Rightarrow> reader" where
  "quoted d Dquote fs h = (Inword, fs, h)"
| "quoted d Backslash fs h = (Desc, fs, h)"
| "quoted d Dollar fs h = (Ddollar, fs, h)"
| "quoted d Lpar fs h = (if d then (Gap, True # fs, h) else (Double, fs, h))"
| "quoted d Backquote fs h = (Lost, fs, h)"
| "quoted d k fs h = (Double, fs, h)"

fun step :: "reader \<Rightarrow> char \<Rightarrow> reader" where
  "step (Gap, fs, h) c = bare True (kind c) fs h"
| "step (Inword, fs, h) c = bare False (kind c) fs h"
| "step (Esc, fs, h) c = (Inword, fs, h)"
| "step (Single, fs, h) c = (case kind c of Squote \<Rightarrow> (Inword, fs, h) | _ \<Rightarrow> (Single, fs, h))"
| "step (Double, fs, h) c = quoted False (kind c) fs h"
| "step (Ddollar, fs, h) c = quoted True (kind c) fs h"
| "step (Desc, fs, h) c = (Double, fs, h)"
| "step (Comment, fs, h) c = (case kind c of Newline \<Rightarrow> next_line fs h | _ \<Rightarrow> (Comment, fs, h))"
| "step (Lt, fs, h) c = (case kind c of Less \<Rightarrow> (Ltlt, fs, h) | k \<Rightarrow> bare True k fs h)"
| "step (Ltlt, fs, h) c = (if kind c = Squote \<and> h = None then (Delim [], fs, None) else (Lost, fs, h))"
| "step (Delim d, fs, h) c =
     (case kind c of Squote \<Rightarrow> (Inword, fs, Some d) | _ \<Rightarrow> (Delim (d @ [c]), fs, h))"
| "step (Line d t, fs, h) c =
     (case kind c of Newline \<Rightarrow> if t = d then next_line fs h else (Line d [], fs, h)
      | _ \<Rightarrow> if take (length t + 1) d = t @ [c] then (Line d (t @ [c]), fs, h) else (Text d, fs, h))"
| "step (Text d, fs, h) c = (case kind c of Newline \<Rightarrow> (Line d [], fs, h) | _ \<Rightarrow> (Text d, fs, h))"
| "step (Lost, fs, h) c = (Lost, fs, h)"

text \<open>One character: what the reader reports.\<close>

fun bare_event :: "ckind \<Rightarrow> char \<Rightarrow> event list" where
  "bare_event Squote c = [Mark]"
| "bare_event Dquote c = [Mark]"
| "bare_event Backslash c = []"
| "bare_event Inert c = [Lit c]"
| "bare_event k c = [Act c]"

fun quoted_event :: "bool \<Rightarrow> ckind \<Rightarrow> char \<Rightarrow> event list" where
  "quoted_event d Dquote c = []"
| "quoted_event d Backslash c = []"
| "quoted_event d Dollar c = [Act c]"
| "quoted_event d Lpar c = [if d then Act c else Lit c]"
| "quoted_event d Backquote c = [Act c]"
| "quoted_event d k c = [if d then Act c else Lit c]"

fun report :: "reader \<Rightarrow> char \<Rightarrow> event list" where
  "report (Single, fs, h) c = (case kind c of Squote \<Rightarrow> [] | _ \<Rightarrow> [Lit c])"
| "report (Double, fs, h) c = quoted_event False (kind c) c"
| "report (Ddollar, fs, h) c = quoted_event True (kind c) c"
| "report (Desc, fs, h) c =
     (case kind c of Dquote \<Rightarrow> [Lit c] | Backslash \<Rightarrow> [Lit c] | Dollar \<Rightarrow> [Lit c] | Newline \<Rightarrow> []
      | Backquote \<Rightarrow> [Lit c]
      | _ \<Rightarrow> [Lit (CHR 0x5C), Lit c])"
| "report (Esc, fs, h) c = [Lit c]"
| "report (Comment, fs, h) c = []"
| "report (Ltlt, fs, h) c = [Act c]"
| "report (Delim d, fs, h) c = [Lit c]"
| "report (Line d t, fs, h) c = [Lit c]"
| "report (Text d, fs, h) c = [Lit c]"
| "report (Lost, fs, h) c = [Act c]"
| "report (m, fs, h) c = bare_event (kind c) c"

fun run_reader :: "reader \<Rightarrow> string \<Rightarrow> reader" where
  "run_reader r [] = r"
| "run_reader r (c # cs) = run_reader (step r c) cs"

fun events :: "reader \<Rightarrow> string \<Rightarrow> event list" where
  "events r [] = []"
| "events r (c # cs) = report r c @ events (step r c) cs"

definition shell_read :: "string \<Rightarrow> event list" where
  "shell_read s = events start s"

lemma run_reader_append: "run_reader r (s @ t) = run_reader (run_reader r s) t"
  by (induction s arbitrary: r) auto

lemma events_append: "events r (s @ t) = events r s @ events (run_reader r s) t"
  by (induction s arbitrary: r) auto

section \<open>Quoting one word\<close>

text \<open>\<^verbatim>\<open>shlex.quote\<close>.\<close>

definition quote :: "string \<Rightarrow> string" where
  "quote s =
     (if s = [] then [CHR 0x27, CHR 0x27]
      else if list_all safe_char s then s
      else [CHR 0x27] @
        concat (map (\<lambda>c. if c = CHR 0x27 then [CHR 0x27, CHR 0x22, CHR 0x27, CHR 0x22, CHR 0x27]
                         else [c]) s) @ [CHR 0x27])"

text \<open>
  What reading a word should report: its characters, literally.  The marks of quoted sections aside,
  nothing else is reported, and something is reported even for the empty word.
\<close>

definition operand :: "string \<Rightarrow> event list" where
  "operand s =
     (if s \<noteq> [] \<and> list_all safe_char s then map Lit s
      else Mark # concat (map (\<lambda>c. if c = CHR 0x27 then [Mark, Lit c, Mark] else [Lit c]) s))"

lemma operand_literal: "filter (\<lambda>e. e \<noteq> Mark) (operand s) = map Lit s"
proof -
  have "filter (\<lambda>e. e \<noteq> Mark)
      (concat (map (\<lambda>c. if c = CHR 0x27 then [Mark, Lit c, Mark] else [Lit c]) s)) = map Lit s"
    by (induction s) auto
  moreover have "filter (\<lambda>e. e \<noteq> Mark) (map Lit s) = map Lit s" by (induction s) auto
  ultimately show ?thesis by (simp add: operand_def)
qed

lemma operand_not_Nil: "operand s \<noteq> []"
  by (simp add: operand_def)

lemma kind_safe: "safe_char c \<Longrightarrow> kind c = Inert"
  by (simp add: kind_def)

lemma read_inword_safe:
  "list_all safe_char s \<Longrightarrow> run_reader (Inword, fs, h) s = (Inword, fs, h) \<and>
     events (Inword, fs, h) s = map Lit s"
  by (induction s) (simp_all add: kind_safe)

lemma read_safe:
  assumes "list_all safe_char s" "s \<noteq> []" "m \<in> {Gap, Inword}"
  shows "run_reader (m, fs, h) s = (Inword, fs, h) \<and> events (m, fs, h) s = map Lit s"
  using assms read_inword_safe [of "tl s" fs h] by (cases s) (auto simp: kind_safe)

text \<open>Inside the quotes: every character but the quote mark is literal.\<close>

lemma kind_squote: "kind c = Squote \<longleftrightarrow> c = CHR 0x27"
  by (simp add: kind_def safe_char_def is_alnum_def is_digit_def is_upper_def is_lower_def)

lemma special_kinds [simp]: "kind (CHR 0x27) = Squote" "kind (CHR 0x22) = Dquote"
  by (simp_all add: kind_def safe_char_def is_alnum_def is_digit_def is_upper_def is_lower_def)

lemma read_single:
  "run_reader (Single, fs, h)
     (concat (map (\<lambda>c. if c = CHR 0x27 then [CHR 0x27, CHR 0x22, CHR 0x27, CHR 0x22, CHR 0x27]
                      else [c]) s) @ [CHR 0x27]) = (Inword, fs, h) \<and>
   events (Single, fs, h)
     (concat (map (\<lambda>c. if c = CHR 0x27 then [CHR 0x27, CHR 0x22, CHR 0x27, CHR 0x22, CHR 0x27]
                      else [c]) s) @ [CHR 0x27]) =
     concat (map (\<lambda>c. if c = CHR 0x27 then [Mark, Lit c, Mark] else [Lit c]) s)"
proof (induction s)
  case Nil
  then show ?case by simp
next
  case (Cons c s)
  then show ?case by (cases "c = CHR 0x27") (auto simp: kind_squote split: ckind.splits)
qed

theorem read_quote:
  assumes "m \<in> {Gap, Inword}"
  shows "run_reader (m, fs, h) (quote s) = (Inword, fs, h)" "events (m, fs, h) (quote s) = operand s"
proof -
  show "run_reader (m, fs, h) (quote s) = (Inword, fs, h)"
    using assms read_safe [of s m fs h] read_single [of fs h s] by (auto simp: quote_def)
  show "events (m, fs, h) (quote s) = operand s"
    using assms read_safe [of s m fs h] read_single [of fs h s] by (auto simp: quote_def operand_def)
qed

section \<open>Commands with operands\<close>

text \<open>
  A command built around arguments is \<^emph>\<open>confined\<close> if what the shell reads is one of finitely
  many fixed sequences in which only whole arguments vary, each of them taken literally: no value of
  an argument changes the words, the operators and the expansions around it, or is itself anything
  but the literal words it should be.  \<open>Word\<close> is one operand, \<open>Words\<close> several separated by blanks,
  \<open>Verbatim\<close> is text inside a here-document, where nothing is quoted.
\<close>

datatype arg = Word string | Words "string list" | Verbatim string

datatype part = Fixed "event list" | Arg nat

definition join :: "string \<Rightarrow> string list \<Rightarrow> string" where
  "join sep ws = (case ws of [] \<Rightarrow> [] | w # rest \<Rightarrow> w @ concat (map (\<lambda>v. sep @ v) rest))"

fun arg_read :: "arg \<Rightarrow> event list" where
  "arg_read (Word s) = operand s"
| "arg_read (Words []) = []"
| "arg_read (Words (w # ws)) = operand w @ concat (map (\<lambda>v. Act (CHR '' '') # operand v) ws)"
| "arg_read (Verbatim s) = map Lit s"

definition parts_read :: "part list \<Rightarrow> arg list \<Rightarrow> event list" where
  "parts_read ps xs = concat (map (\<lambda>p. case p of Fixed e \<Rightarrow> e | Arg i \<Rightarrow> arg_read (xs ! i)) ps)"

definition confined :: "('a \<Rightarrow> arg list) \<Rightarrow> ('a \<Rightarrow> 'e + string) \<Rightarrow> bool" where
  "confined args build \<longleftrightarrow>
     (\<exists>shapes. \<forall>x s. build x = Inr s \<longrightarrow>
        (\<exists>ps \<in> set shapes. shell_read s = parts_read ps (args x)))"

lemma parts_read_simps:
  "parts_read [] xs = []" "parts_read (Fixed e # ps) xs = e @ parts_read ps xs"
  "parts_read (Arg i # ps) xs = arg_read (xs ! i) @ parts_read ps xs"
  by (simp_all add: parts_read_def)

text \<open>A builder is confined branch by branch.\<close>

lemma confined_return:
  "(\<And>x. shell_read (f x) @ [] = parts_read ps (args x)) \<Longrightarrow> confined args (\<lambda>x. Inr (f x))"
  unfolding confined_def by (rule exI [of _ "[ps]"]) simp

lemma confined_error: "confined args (\<lambda>x. Inl (e x))"
  by (simp add: confined_def)

lemma confined_if:
  assumes "confined args f" "confined args g"
  shows "confined args (\<lambda>x. if c x then f x else g x)"
proof -
  from assms obtain P Q where
    "\<forall>x s. f x = Inr s \<longrightarrow> (\<exists>ps \<in> set P. shell_read s = parts_read ps (args x))"
    "\<forall>x s. g x = Inr s \<longrightarrow> (\<exists>ps \<in> set Q. shell_read s = parts_read ps (args x))"
    unfolding confined_def by blast
  then have "\<forall>x s. (if c x then f x else g x) = Inr s \<longrightarrow>
      (\<exists>ps \<in> set (P @ Q). shell_read s = parts_read ps (args x))"
    by (metis Un_iff set_append)
  then show ?thesis unfolding confined_def by blast
qed

text \<open>A check that returns a value only reads on with the value it accepted.\<close>

lemma confined_bind:
  assumes "\<And>x y. v x = Inr y \<Longrightarrow> y = h x" "confined args (\<lambda>x. f x (h x))"
  shows "confined args (\<lambda>x. case v x of Inl e \<Rightarrow> Inl (k x e) | Inr y \<Rightarrow> f x y)"
  using assms unfolding confined_def by (auto split: sum.splits) metis

lemma confined_table_Nil: "confined args (\<lambda>x. case map_of [] (k x) of None \<Rightarrow> Inl (e x) | Some y \<Rightarrow> f x y)"
  by (simp add: confined_error)

lemma confined_table_Cons:
  assumes "confined args (\<lambda>x. f x v)"
    and "confined args (\<lambda>x. case map_of t (k x) of None \<Rightarrow> Inl (e x) | Some y \<Rightarrow> f x y)"
  shows "confined args (\<lambda>x. case map_of ((c, v) # t) (k x) of None \<Rightarrow> Inl (e x) | Some y \<Rightarrow> f x y)"
proof -
  have "(\<lambda>x. case map_of ((c, v) # t) (k x) of None \<Rightarrow> Inl (e x) | Some y \<Rightarrow> f x y) =
      (\<lambda>x. if k x = c then f x v else case map_of t (k x) of None \<Rightarrow> Inl (e x) | Some y \<Rightarrow> f x y)"
    by auto
  then show ?thesis using confined_if [OF assms, of "\<lambda>x. k x = c"] by simp
qed

lemma all_bool: "(\<forall>b. P b) \<longleftrightarrow> P True \<and> P False"
  by (metis (full_types))

lemma confined_same:
  assumes "confined args f" "\<And>x s. g x = Inr s \<Longrightarrow> f x = Inr s"
  shows "confined args g"
  using assms unfolding confined_def by blast

lemma confined_let_if:
  "confined args (\<lambda>x. f x (a x)) \<Longrightarrow> confined args (\<lambda>x. f x (b x)) \<Longrightarrow>
     confined args (\<lambda>x. let v = if c x then a x else b x in f x v)"
  using confined_if [of args "\<lambda>x. f x (a x)" "\<lambda>x. f x (b x)" c]
  by (simp add: if_distrib [of "f _"] Let_def)

lemma confined_let: "confined args (\<lambda>x. f x (v x)) \<Longrightarrow> confined args (\<lambda>x. let y = v x in f x y)"
  by (simp add: Let_def)

text \<open>Builders that cannot fail.\<close>

lemma return_push:
  "Inr (let y = v in f y) = (let y = v in Inr (f y))" "Inr (if c then s else t) = (if c then Inr s else Inr t)"
  by (simp_all add: Let_def)

lemma let_flat: "(let y = (let z = a in b z) in f y) = (let z = a in let y = b z in f y)"
  by (simp add: Let_def)

lemmas confined_intros = confined_let_if confined_let confined_table_Nil confined_table_Cons confined_if confined_error confined_return

text \<open>The shape of the reading, one part at a time.\<close>

lemma parts_nil: "[] = parts_read [] xs"
  by (simp add: parts_read_simps)

lemma parts_word:
  "t = parts_read ps (Word a # xs) \<Longrightarrow>
     operand a @ t = parts_read (Arg 0 # ps) (Word a # xs)"
  "t = parts_read ps (u # Word a # xs) \<Longrightarrow>
     operand a @ t = parts_read (Arg 1 # ps) (u # Word a # xs)"
  "t = parts_read ps (u # v # Word a # xs) \<Longrightarrow>
     operand a @ t = parts_read (Arg 2 # ps) (u # v # Word a # xs)"
  "t = parts_read ps (u # v # w # Word a # xs) \<Longrightarrow>
     operand a @ t = parts_read (Arg 3 # ps) (u # v # w # Word a # xs)"
  "t = parts_read ps (u # v # w # y # Word a # xs) \<Longrightarrow>
     operand a @ t = parts_read (Arg 4 # ps) (u # v # w # y # Word a # xs)"
  "t = parts_read ps (u # v # w # y # z # Word a # xs) \<Longrightarrow>
     operand a @ t = parts_read (Arg 5 # ps) (u # v # w # y # z # Word a # xs)"
  "t = parts_read ps (u # v # w # y # z # x1 # Word a # xs) \<Longrightarrow>
     operand a @ t = parts_read (Arg 6 # ps) (u # v # w # y # z # x1 # Word a # xs)"
  "t = parts_read ps (u # v # w # y # z # x1 # x2 # Word a # xs) \<Longrightarrow>
     operand a @ t = parts_read (Arg 7 # ps) (u # v # w # y # z # x1 # x2 # Word a # xs)"
  by (simp_all add: parts_read_simps)

lemma parts_verbatim:
  "t = parts_read ps (Verbatim a # xs) \<Longrightarrow>
     map Lit a @ t = parts_read (Arg 0 # ps) (Verbatim a # xs)"
  "t = parts_read ps (u # Verbatim a # xs) \<Longrightarrow>
     map Lit a @ t = parts_read (Arg 1 # ps) (u # Verbatim a # xs)"
  "t = parts_read ps (u # v # Verbatim a # xs) \<Longrightarrow>
     map Lit a @ t = parts_read (Arg 2 # ps) (u # v # Verbatim a # xs)"
  "t = parts_read ps (u # v # w # Verbatim a # xs) \<Longrightarrow>
     map Lit a @ t = parts_read (Arg 3 # ps) (u # v # w # Verbatim a # xs)"
  by (simp_all add: parts_read_simps)

lemma parts_words:
  "t = parts_read ps (Words a # xs) \<Longrightarrow>
     arg_read (Words a) @ t = parts_read (Arg 0 # ps) (Words a # xs)"
  "t = parts_read ps (u # Words a # xs) \<Longrightarrow>
     arg_read (Words a) @ t = parts_read (Arg 1 # ps) (u # Words a # xs)"
  "t = parts_read ps (u # v # Words a # xs) \<Longrightarrow>
     arg_read (Words a) @ t = parts_read (Arg 2 # ps) (u # v # Words a # xs)"
  "t = parts_read ps (u # v # w # Words a # xs) \<Longrightarrow>
     arg_read (Words a) @ t = parts_read (Arg 3 # ps) (u # v # w # Words a # xs)"
  by (simp_all add: parts_read_simps)

lemma parts_fixed: "t = parts_read ps xs \<Longrightarrow> e @ t = parts_read (Fixed e # ps) xs"
  by (simp add: parts_read_simps)

lemmas parts_intros = parts_word parts_verbatim parts_words parts_fixed parts_nil

text \<open>The reader over fixed text and over quoted operands.\<close>

lemma kind_chars [read_simps]:
  "kind (CHR '' '') = Blank" "kind (CHR ''!'') = Glob" "kind (CHR 0x22) = Dquote"
  "kind (CHR ''#'') = Hash" "kind (CHR ''$'') = Dollar" "kind (CHR ''%'') = Inert"
  "kind (CHR ''&'') = Semi" "kind (CHR 0x27) = Squote" "kind (CHR ''('') = Lpar"
  "kind (CHR '')'') = Rpar" "kind (CHR ''*'') = Glob" "kind (CHR ''+'') = Inert"
  "kind (CHR '','') = Inert" "kind (CHR ''-'') = Inert" "kind (CHR ''.'') = Inert"
  "kind (CHR ''/'') = Inert" "kind (CHR ''0'') = Inert" "kind (CHR ''1'') = Inert"
  "kind (CHR ''2'') = Inert" "kind (CHR ''3'') = Inert" "kind (CHR ''4'') = Inert"
  "kind (CHR ''5'') = Inert" "kind (CHR ''6'') = Inert" "kind (CHR ''7'') = Inert"
  "kind (CHR ''8'') = Inert" "kind (CHR ''9'') = Inert" "kind (CHR '':'') = Inert"
  "kind (CHR '';'') = Semi" "kind (CHR ''<'') = Less" "kind (CHR ''='') = Inert"
  "kind (CHR ''>'') = Semi" "kind (CHR ''?'') = Glob" "kind (CHR ''@'') = Inert"
  "kind (CHR ''A'') = Inert" "kind (CHR ''B'') = Inert" "kind (CHR ''C'') = Inert"
  "kind (CHR ''D'') = Inert" "kind (CHR ''E'') = Inert" "kind (CHR ''F'') = Inert"
  "kind (CHR ''G'') = Inert" "kind (CHR ''H'') = Inert" "kind (CHR ''I'') = Inert"
  "kind (CHR ''J'') = Inert" "kind (CHR ''K'') = Inert" "kind (CHR ''L'') = Inert"
  "kind (CHR ''M'') = Inert" "kind (CHR ''N'') = Inert" "kind (CHR ''O'') = Inert"
  "kind (CHR ''P'') = Inert" "kind (CHR ''Q'') = Inert" "kind (CHR ''R'') = Inert"
  "kind (CHR ''S'') = Inert" "kind (CHR ''T'') = Inert" "kind (CHR ''U'') = Inert"
  "kind (CHR ''V'') = Inert" "kind (CHR ''W'') = Inert" "kind (CHR ''X'') = Inert"
  "kind (CHR ''Y'') = Inert" "kind (CHR ''Z'') = Inert" "kind (CHR ''['') = Glob"
  "kind (CHR 0x5C) = Backslash" "kind (CHR '']'') = Glob" "kind (CHR ''^'') = Glob"
  "kind (CHR ''_'') = Inert" "kind (CHR 0x60) = Backquote" "kind (CHR ''a'') = Inert"
  "kind (CHR ''b'') = Inert" "kind (CHR ''c'') = Inert" "kind (CHR ''d'') = Inert"
  "kind (CHR ''e'') = Inert" "kind (CHR ''f'') = Inert" "kind (CHR ''g'') = Inert"
  "kind (CHR ''h'') = Inert" "kind (CHR ''i'') = Inert" "kind (CHR ''j'') = Inert"
  "kind (CHR ''k'') = Inert" "kind (CHR ''l'') = Inert" "kind (CHR ''m'') = Inert"
  "kind (CHR ''n'') = Inert" "kind (CHR ''o'') = Inert" "kind (CHR ''p'') = Inert"
  "kind (CHR ''q'') = Inert" "kind (CHR ''r'') = Inert" "kind (CHR ''s'') = Inert"
  "kind (CHR ''t'') = Inert" "kind (CHR ''u'') = Inert" "kind (CHR ''v'') = Inert"
  "kind (CHR ''w'') = Inert" "kind (CHR ''x'') = Inert" "kind (CHR ''y'') = Inert"
  "kind (CHR ''z'') = Inert" "kind (CHR ''{'') = Glob" "kind (CHR ''|'') = Semi"
  "kind (CHR ''}'') = Glob" "kind (CHR ''~'') = Glob" "kind (CHR 0x0A) = Newline"
  "kind (CHR 0x09) = Blank" "kind (CHR 0xE2) = Glob" "kind (CHR 0x80) = Glob"
  "kind (CHR 0x94) = Glob" "kind (CHR 0x86) = Glob" "kind (CHR 0x92) = Glob"
  "kind (CHR 0xC2) = Glob" "kind (CHR 0xB7) = Glob" "kind (CHR 0xA6) = Glob"
  "kind (CHR 0x93) = Glob" "kind (CHR 0x99) = Glob" "kind (CHR 0x9C) = Glob"
  "kind (CHR 0x9D) = Glob"
  by (simp_all add: kind_def safe_char_def is_alnum_def is_digit_def is_upper_def is_lower_def)


lemma read_fixed [read_simps]:
  "shell_read s = events (Gap, [], None) s"
  "events r (s @ t) = events r s @ events (run_reader r s) t"
  "run_reader r (s @ t) = run_reader (run_reader r s) t"
  "run_reader r (c # cs) = run_reader (step r c) cs"
  "run_reader r [] = r"
  by (simp_all add: shell_read_def start_def events_append run_reader_append)

lemma read_quoted [read_simps]:
  "run_reader (Gap, fs, h) (quote s) = (Inword, fs, h)"
  "run_reader (Inword, fs, h) (quote s) = (Inword, fs, h)"
  "events (Gap, fs, h) (quote s) = operand s"
  "events (Inword, fs, h) (quote s) = operand s"
  by (simp_all add: read_quote)

lemma safe_show_int: "list_all safe_char (show_int n) \<and> show_int n \<noteq> []"
  using set_digits [of _ "nat n"] set_digits [of _ "nat (- n)"]
  by (auto simp: show_int_def list_all_iff safe_char_def is_alnum_def)

lemma read_number [read_simps]:
  "run_reader (Gap, fs, h) (show_int n) = (Inword, fs, h)"
  "run_reader (Inword, fs, h) (show_int n) = (Inword, fs, h)"
  "events (Gap, fs, h) (show_int n) = operand (show_int n)"
  "events (Inword, fs, h) (show_int n) = operand (show_int n)"
  using safe_show_int read_safe by (auto simp: operand_def)

text \<open>Texts put together from a list.\<close>

lemma join_simps [read_simps]:
  "join sep [a] = a"
  "join sep (a # b # xs) = a @ sep @ join sep (b # xs)"
  "join sep ((a # xs) @ (b # ys)) = join sep (a # xs) @ sep @ join sep (b # ys)"
  "join sep ((a # xs) @ ((b # ys) @ zs)) = join sep (a # xs) @ sep @ join sep ((b # ys) @ zs)"
  by (simp_all add: join_def)

text \<open>Several operands separated by blanks.\<close>

definition quote_all :: "string list \<Rightarrow> string" where
  "quote_all ws = join '' '' (map quote ws)"

lemma read_more_words:
  "run_reader (Inword, fs, h) (concat (map (\<lambda>v. '' '' @ quote v) ws)) = (Inword, fs, h) \<and>
   events (Inword, fs, h) (concat (map (\<lambda>v. '' '' @ quote v) ws)) =
     concat (map (\<lambda>v. Act (CHR '' '') # operand v) ws)"
  by (induction ws) (simp_all add: events_append run_reader_append read_quoted kind_chars)

lemma read_words:
  assumes "ws \<noteq> []" "m \<in> {Gap, Inword}"
  shows "run_reader (m, fs, h) (quote_all ws) = (Inword, fs, h)"
    "events (m, fs, h) (quote_all ws) = arg_read (Words ws)"
  using assms read_more_words [of fs h "tl ws"]
  by (cases ws; auto simp: quote_all_def join_def comp_def events_append run_reader_append read_quoted)+

declare bare.simps [read_simps] quoted.simps [read_simps] step.simps [read_simps]
  closed.simps [read_simps] next_line.simps [read_simps] ckind.case [read_simps]
  if_True [read_simps] if_False [read_simps] append_assoc [read_simps]

section \<open>Builders without named operands\<close>

text \<open>
  The same property with the literal words left open: whatever the inputs, the shell reads one of
  finitely many fixed sequences in which only whole words, taken literally, depend on the inputs.
\<close>

datatype 'a piece = Text "event list" | Hole "'a \<Rightarrow> arg"

definition pieces_read :: "'a \<Rightarrow> 'a piece list \<Rightarrow> event list" where
  "pieces_read x ps = concat (map (\<lambda>p. case p of Text e \<Rightarrow> e | Hole f \<Rightarrow> arg_read (f x)) ps)"

definition injection_free :: "('a \<Rightarrow> 'e + string) \<Rightarrow> bool" where
  "injection_free build \<longleftrightarrow>
     (\<exists>shapes. \<forall>x s. build x = Inr s \<longrightarrow> (\<exists>ps \<in> set shapes. shell_read s = pieces_read x ps))"

lemma confined_injection_free:
  assumes "confined args build"
  shows "injection_free build"
proof -
  obtain shapes where shapes: "\<forall>x s. build x = Inr s \<longrightarrow>
      (\<exists>ps \<in> set shapes. shell_read s = parts_read ps (args x))"
    using assms by (auto simp: confined_def)
  let ?conv = "map (\<lambda>p. case p of Fixed e \<Rightarrow> Text e | Arg i \<Rightarrow> Hole (\<lambda>x. args x ! i))"
  have "parts_read ps (args x) = pieces_read x (?conv ps)" for ps x
    unfolding parts_read_def pieces_read_def map_map
    by (rule arg_cong [of _ _ concat], rule map_cong [OF refl]) (simp split: part.splits)
  then show ?thesis
    using shapes unfolding injection_free_def by (intro exI [of _ "map ?conv shapes"]) auto
qed

lemma free_return: "(\<And>x. shell_read (f x) @ [] = pieces_read x ps) \<Longrightarrow> injection_free (\<lambda>x. Inr (f x))"
  unfolding injection_free_def by (rule exI [of _ "[ps]"]) simp

lemma free_error: "injection_free (\<lambda>x. Inl (e x))"
  by (simp add: injection_free_def)

lemma free_if:
  assumes "injection_free f" "injection_free g"
  shows "injection_free (\<lambda>x. if c x then f x else g x)"
proof -
  from assms obtain P Q where
    "\<forall>x s. f x = Inr s \<longrightarrow> (\<exists>ps \<in> set P. shell_read s = pieces_read x ps)"
    "\<forall>x s. g x = Inr s \<longrightarrow> (\<exists>ps \<in> set Q. shell_read s = pieces_read x ps)"
    unfolding injection_free_def by blast
  then have "\<forall>x s. (if c x then f x else g x) = Inr s \<longrightarrow>
      (\<exists>ps \<in> set (P @ Q). shell_read s = pieces_read x ps)"
    by (metis Un_iff set_append)
  then show ?thesis unfolding injection_free_def by blast
qed

lemma free_same:
  assumes "injection_free f" "\<And>x s. g x = Inr s \<Longrightarrow> f x = Inr s"
  shows "injection_free g"
  using assms unfolding injection_free_def by blast

lemma free_let_if:
  "injection_free (\<lambda>x. f x (a x)) \<Longrightarrow> injection_free (\<lambda>x. f x (b x)) \<Longrightarrow>
     injection_free (\<lambda>x. let v = if c x then a x else b x in f x v)"
  using free_if [of "\<lambda>x. f x (a x)" "\<lambda>x. f x (b x)" c]
  by (simp add: if_distrib [of "f _"] Let_def)

lemma free_let: "injection_free (\<lambda>x. f x (v x)) \<Longrightarrow> injection_free (\<lambda>x. let y = v x in f x y)"
  by (simp add: Let_def)

lemma free_table_Nil: "injection_free (\<lambda>x. case map_of [] (k x) of None \<Rightarrow> Inl (e x) | Some y \<Rightarrow> f x y)"
  by (simp add: free_error)

lemma free_table_Cons:
  assumes "injection_free (\<lambda>x. f x v)"
    and "injection_free (\<lambda>x. case map_of t (k x) of None \<Rightarrow> Inl (e x) | Some y \<Rightarrow> f x y)"
  shows "injection_free (\<lambda>x. case map_of ((c, v) # t) (k x) of None \<Rightarrow> Inl (e x) | Some y \<Rightarrow> f x y)"
proof -
  have "(\<lambda>x. case map_of ((c, v) # t) (k x) of None \<Rightarrow> Inl (e x) | Some y \<Rightarrow> f x y) =
      (\<lambda>x. if k x = c then f x v else case map_of t (k x) of None \<Rightarrow> Inl (e x) | Some y \<Rightarrow> f x y)"
    by auto
  then show ?thesis using free_if [OF assms, of "\<lambda>x. k x = c"] by simp
qed

lemmas free_intros = free_let_if free_let free_table_Nil free_table_Cons free_if free_error free_return

lemma pieces_intros:
  "t = pieces_read x ps \<Longrightarrow> operand (a x) @ t = pieces_read x (Hole (\<lambda>x. Word (a x)) # ps)"
  "t = pieces_read x ps \<Longrightarrow> map Lit (a x) @ t = pieces_read x (Hole (\<lambda>x. Verbatim (a x)) # ps)"
  "t = pieces_read x ps \<Longrightarrow> arg_read (Words (ws x)) @ t = pieces_read x (Hole (\<lambda>x. Words (ws x)) # ps)"
  "t = pieces_read x ps \<Longrightarrow> e @ t = pieces_read x (Text e # ps)"
  "[] = pieces_read x []"
  by (simp_all add: pieces_read_def)

section \<open>Splitting as a shell would\<close>

text \<open>
  \<^verbatim>\<open>shlex.split\<close> in its POSIX mode, the state of \<^verbatim>\<open>shlex.read_token\<close> as a datatype: between tokens,
  in a token, in quotes, after a backslash.  \<open>None\<close> is its \<^verbatim>\<open>ValueError\<close> for an open quotation or a
  backslash at the end.
\<close>

datatype lexing = Between | Token | Quoted char | Escaped "char option"

definition is_blank :: "char \<Rightarrow> bool" where
  "is_blank c = (c \<in> {CHR '' '', CHR 0x09, CHR 0x0D, CHR 0x0A})"

fun split_from :: "lexing \<Rightarrow> string \<Rightarrow> bool \<Rightarrow> string \<Rightarrow> string list option" where
  "split_from Between t q [] = Some []"
| "split_from Token t q [] = Some (if t \<noteq> [] \<or> q then [t] else [])"
| "split_from (Quoted k) t q [] = None"
| "split_from (Escaped b) t q [] = None"
| "split_from Between t q (c # cs) =
     (if is_blank c then split_from Between t q cs
      else if c = CHR 0x5C then split_from (Escaped None) t q cs
      else if c = CHR 0x27 \<or> c = CHR 0x22 then split_from (Quoted c) t q cs
      else split_from Token [c] q cs)"
| "split_from Token t q (c # cs) =
     (if is_blank c
      then (if t \<noteq> [] \<or> q then map_option (\<lambda>ts. t # ts) (split_from Between [] False cs)
            else split_from Between t q cs)
      else if c = CHR 0x27 \<or> c = CHR 0x22 then split_from (Quoted c) t q cs
      else if c = CHR 0x5C then split_from (Escaped None) t q cs
      else split_from Token (t @ [c]) q cs)"
| "split_from (Quoted k) t q (c # cs) =
     (if c = k then split_from Token t True cs
      else if c = CHR 0x5C \<and> k = CHR 0x22 then split_from (Escaped (Some k)) t True cs
      else split_from (Quoted k) (t @ [c]) True cs)"
| "split_from (Escaped b) t q (c # cs) =
     (let t1 = (case b of None \<Rightarrow> t
                | Some k \<Rightarrow> if c \<noteq> CHR 0x5C \<and> c \<noteq> k then t @ [CHR 0x5C] else t)
      in split_from (case b of None \<Rightarrow> Token | Some k \<Rightarrow> Quoted k) (t1 @ [c]) q cs)"

definition shlex_split :: "string \<Rightarrow> string list option" where
  "shlex_split s = split_from Between [] False s"

lemma safe_not_special:
  assumes "safe_char c"
  shows "\<not> is_blank c" "c \<noteq> CHR 0x5C" "c \<noteq> CHR 0x27" "c \<noteq> CHR 0x22"
  using assms by (auto simp: safe_char_def is_alnum_def is_digit_def is_upper_def is_lower_def is_blank_def)

lemma split_safe:
  assumes "list_all safe_char s"
  shows "split_from Token t q (s @ rest) = split_from Token (t @ s) q rest"
  using assms by (induction s arbitrary: t) (simp_all add: safe_not_special)

lemma split_single:
  "split_from (Quoted (CHR 0x27)) t q
     (concat (map (\<lambda>c. if c = CHR 0x27 then [CHR 0x27, CHR 0x22, CHR 0x27, CHR 0x22, CHR 0x27]
                      else [c]) s) @ [CHR 0x27] @ rest) =
   split_from Token (t @ s) True rest"
  by (induction s arbitrary: t q) (simp_all add: is_blank_def)

text \<open>A quoted word is read back as one token, whatever follows.\<close>

lemma split_quote:
  "\<exists>q. split_from Between [] False (quote s @ rest) = split_from Token s q rest \<and> (s = [] \<longrightarrow> q)"
proof (cases "s \<noteq> [] \<and> list_all safe_char s")
  case True
  then obtain c cs where s: "s = c # cs" by (cases s) auto
  with True have "split_from Between [] False (quote s @ rest) = split_from Token [c] False (cs @ rest)"
    by (simp add: quote_def safe_not_special)
  then show ?thesis using True s by (auto simp: split_safe)
next
  case False
  have "split_from Between [] False (quote s @ rest) = split_from Token s True rest"
    using False split_single [of "[]" False s rest] by (auto simp: quote_def is_blank_def)
  then show ?thesis by blast
qed

lemma quote_all_simps:
  "quote_all [] = []" "quote_all [w] = quote w"
  "quote_all (w # v # ws) = quote w @ '' '' @ quote_all (v # ws)"
  by (simp_all add: quote_all_def join_def)

lemma split_word_end:
  "w = [] \<longrightarrow> q \<Longrightarrow> split_from Token w q [] = Some [w]"
  "w = [] \<longrightarrow> q \<Longrightarrow> split_from Token w q (CHR '' '' # s) = map_option (\<lambda>ts. w # ts) (shlex_split s)"
  by (auto simp: is_blank_def shlex_split_def)

lemma split_quote_all: "shlex_split (quote_all ws) = Some ws"
proof (induction ws rule: induct_list012)
  case 1
  then show ?case by (simp add: quote_all_simps shlex_split_def)
next
  case (2 w)
  obtain q where "split_from Between [] False (quote w @ []) = split_from Token w q []" "w = [] \<longrightarrow> q"
    using split_quote by blast
  then show ?case using split_word_end by (simp add: quote_all_simps shlex_split_def)
next
  case (3 w v ws)
  let ?rest = "'' '' @ quote_all (v # ws)"
  obtain q where "split_from Between [] False (quote w @ ?rest) = split_from Token w q ?rest"
    "w = [] \<longrightarrow> q"
    using split_quote by blast
  then show ?case using 3 split_word_end(2) [of w q] by (simp add: quote_all_simps shlex_split_def)
qed

end
