(* ===== verification/Agent_Run.thy ===== *)
theory Agent_Run
  imports Shell App_Enroll App_Tasks
begin

text \<open>
  The agent on a managed host (\<^verbatim>\<open>host_agent/agent.py\<close>): how it reaches the controller, how it runs
  a task as the user it was tagged with, and its task loop.

  The host's operating system is a parameter: \<open>sh l i h\<close> is what starting the process \<open>l\<close> with the
  standard input \<open>i\<close> gives in the host's state \<open>h\<close>.  The controller is the one of this
  development; each call may be lost on the way, to the controller or back.
\<close>

section \<open>Running a command\<close>

datatype launch = Argv "string list" | Shell_Text string

datatype proc = Exited string string int | Proc_Timeout | Proc_Failed string

record exec_result =
  ex_stdout :: string
  ex_stderr :: string
  ex_code :: int

definition MAX_OUTPUT_BYTES :: nat where "MAX_OUTPUT_BYTES = 200000"

definition truncate_output :: "string \<Rightarrow> string" where
  "truncate_output s =
     (if length s \<le> MAX_OUTPUT_BYTES then s
      else take MAX_OUTPUT_BYTES s @ [CHR 0x0A] @ ''...[truncated, '' @
             show_int (int (length s - MAX_OUTPUT_BYTES)) @ '' more bytes]'')"

definition result_of :: "proc \<Rightarrow> exec_result" where
  "result_of p =
     (case p of
        Exited out err code \<Rightarrow> \<lparr>ex_stdout = truncate_output out, ex_stderr = truncate_output err, ex_code = code\<rparr>
      | Proc_Timeout \<Rightarrow> \<lparr>ex_stdout = [], ex_stderr = ''command timed out'', ex_code = -1\<rparr>
      | Proc_Failed msg \<Rightarrow> \<lparr>ex_stdout = [], ex_stderr = msg, ex_code = -1\<rparr>)"

type_synonym 'h system = "launch \<Rightarrow> string option \<Rightarrow> 'h \<Rightarrow> proc \<times> 'h"

definition exec :: "'h system \<Rightarrow> launch \<Rightarrow> string option \<Rightarrow> 'h \<Rightarrow> exec_result \<times> 'h" where
  "exec sh l i h = (case sh l i h of (p, h') \<Rightarrow> (result_of p, h'))"

section \<open>Privileges\<close>

definition PRIV_ERROR_HINTS :: "string list" where
  "PRIV_ERROR_HINTS =
     [''permission denied'', ''operation not permitted'', ''must be root'',
      ''must be run as root'', ''are not allowed'', ''not permitted'', ''only root'',
      ''you need to be root'', ''eperm'', ''eacces'',
      ''a password is required'', ''a terminal is required'', ''sudo:'', ''root privileges'',
      ''access denied'', ''not authorized'', ''requires root'',
      ''superuser privileges'', ''run with superuser'',
      ''unless you are root'',
      ''interactive authentication required'', ''authentication is required'',
      ''authentication required'', ''not privileged'', ''rejected send message'']"

definition looks_like_privilege_error :: "string \<Rightarrow> bool" where
  "looks_like_privilege_error err = list_ex (\<lambda>h. is_substring h (lower err)) PRIV_ERROR_HINTS"

definition POLICY_HINTS :: "string list" where
  "POLICY_HINTS =
     [''password is required'', ''a terminal is required'', ''no tty present'',
      ''not allowed to execute'', ''not in the sudoers'', ''incorrect password'',
      ''sorry, try again'', ''authentication failure'']"

text \<open>\<open>rstrip\<close>.\<close>

definition rstrip :: "string \<Rightarrow> string" where
  "rstrip s = rev (dropWhile is_space (rev s))"

record agent_env =
  ae_root :: bool
  ae_user_exists :: "string \<Rightarrow> bool"
  ae_os_release :: "string option"

definition as_user :: "agent_env \<Rightarrow> string \<Rightarrow> string list \<Rightarrow> launch" where
  "as_user env user inner =
     Argv ((if ae_root env then [] else [''sudo'', ''-n'']) @ [''runuser'', ''-u'', user, ''--''] @ inner)"

definition plain_launch :: "agent_env \<Rightarrow> string \<Rightarrow> string \<Rightarrow> launch" where
  "plain_launch env user cmd = as_user env user [''bash'', ''-c'', cmd]"

definition elevated_launch :: "agent_env \<Rightarrow> string \<Rightarrow> string \<Rightarrow> string option \<Rightarrow> launch" where
  "elevated_launch env user cmd become =
     as_user env user (if truthy become then [''sudo'', ''-S'', ''-p'', [], ''bash'', ''-c'', cmd]
                       else [''sudo'', ''-n'', ''bash'', ''-c'', cmd])"

definition become_stdin :: "string option \<Rightarrow> string option" where
  "become_stdin become = (if truthy become then Some (the become @ [CHR 0x0A]) else None)"

definition any_of :: "string list \<Rightarrow> string \<Rightarrow> bool" where
  "any_of hints low = list_ex (\<lambda>h. is_substring h low) hints"

text \<open>What is appended to the standard error of a report: that the script did not run as root, that the
  password was rejected (with or without the advice for SUSE), or that root is needed.  The texts
  are not modelled.\<close>

datatype remark = No_Remark | Not_As_Root | Password_Rejected bool | Needs_Root

text \<open>A report is what a process gave and the remark; with a remark the standard error is stripped.\<close>

definition with_remark :: "remark \<Rightarrow> exec_result \<Rightarrow> exec_result \<times> remark" where
  "with_remark r res =
     (if r = No_Remark then (res, No_Remark) else (res\<lparr>ex_stderr := rstrip (ex_stderr res)\<rparr>, r))"

definition missing_user :: "string \<Rightarrow> exec_result \<times> remark" where
  "missing_user user =
     (\<lparr>ex_stdout = [],
       ex_stderr = ''RBAC: local user '' @ [CHR 0x27] @ user @ [CHR 0x27] @
         '' does not exist on this host, so the command cannot be run as that role. '' @
         ''Create the user (with the sudo policy you want) on this host.'',
       ex_code = 126\<rparr>, No_Remark)"

definition elevation_remark :: "agent_env \<Rightarrow> string option \<Rightarrow> exec_result \<Rightarrow> remark" where
  "elevation_remark env become res =
     (let low = lower (ex_stderr res)
      in if ex_code res = 0 then No_Remark
         else if truthy become \<and> any_of [''try again'', ''incorrect password'', ''sorry''] low
         then Password_Rejected (case ae_os_release env of None \<Rightarrow> False
                | Some osr \<Rightarrow> is_substring ''suse'' (lower osr))
         else if \<not> truthy become \<and>
                 any_of [''password is required'', ''a terminal is required'', ''no tty present'',
                         ''not allowed to execute'', ''not in the sudoers''] low
         then Needs_Root else No_Remark)"

definition run_as_user ::
    "'h system \<Rightarrow> agent_env \<Rightarrow> string \<Rightarrow> string \<Rightarrow> string option \<Rightarrow> bool \<Rightarrow> 'h \<Rightarrow>
     (exec_result \<times> remark) \<times> 'h" where
  "run_as_user sh env user cmd become want_root h =
     (if \<not> ae_user_exists env user then (missing_user user, h)
      else if want_root
      then (case exec sh (elevated_launch env user cmd become) (become_stdin become) h of (res, h1) \<Rightarrow>
              (if ex_code res = 0 then ((res, No_Remark), h1)
               else if \<not> any_of POLICY_HINTS (lower (ex_stderr res)) then ((res, No_Remark), h1)
               else (case exec sh (plain_launch env user cmd) None h1 of
                       (res2, h2) \<Rightarrow> (with_remark Not_As_Root res2, h2))))
      else (case exec sh (plain_launch env user cmd) None h of (first, h1) \<Rightarrow>
              (let combined = ex_stderr first @ [CHR 0x0A] @ ex_stdout first
               in if ex_code first = 0 \<or> \<not> looks_like_privilege_error combined
                  then ((first, No_Remark), h1)
                  else (case exec sh (elevated_launch env user cmd become) (become_stdin become) h1 of
                          (res, h2) \<Rightarrow> (with_remark (elevation_remark env become res) res, h2)))))"

text \<open>\<open>quote\<close> is the shell quoting of the console's builders.\<close>

definition run_command ::
    "'h system \<Rightarrow> agent_env \<Rightarrow> string \<Rightarrow> string option \<Rightarrow> string option \<Rightarrow> bool \<Rightarrow> 'h \<Rightarrow>
     (exec_result \<times> remark) \<times> 'h" where
  "run_command sh env cmd run_as become want_root h =
     (if truthy run_as then run_as_user sh env (the run_as) cmd become want_root h
      else (case exec sh (Shell_Text (if ae_root env then cmd else ''sudo -n bash -c '' @ quote cmd)) None h of
              (res, h1) \<Rightarrow> ((res, No_Remark), h1)))"

section \<open>Reaching the controller\<close>

definition POLL_INTERVAL :: rat where "POLL_INTERVAL = 3 / 2"
definition CONN_BACKOFF_MAX :: rat where "CONN_BACKOFF_MAX = 60"

record conn =
  cn_current :: nat
  cn_fails :: nat

definition note_conn_result :: "bool \<Rightarrow> conn \<Rightarrow> conn" where
  "note_conn_result ok cn = cn\<lparr>cn_fails := if ok then 0 else min (cn_fails cn + 1) 20\<rparr>"

definition current_poll_delay :: "conn \<Rightarrow> rat" where
  "current_poll_delay cn =
     (if cn_fails cn = 0 then POLL_INTERVAL
      else min (POLL_INTERVAL * 2 ^ min (cn_fails cn) 8) CONN_BACKOFF_MAX)"

text \<open>One call: what happens to the message to each candidate address in turn, from the current one
  on.  The controller does a request that arrives even when its answer is lost, and the next
  candidate then sends it again.\<close>

datatype fate = Reached | Not_Reached | Reply_Lost

datatype 'a reply = Reply 'a | Refused nat | Unknown_Host | No_Connection

fun try_candidates ::
    "(controller \<Rightarrow> 'a response \<times> controller) \<Rightarrow> nat \<Rightarrow> nat \<Rightarrow> fate list \<Rightarrow> controller \<Rightarrow>
     ('a response \<times> nat) option \<times> controller" where
  "try_candidates call n i [] c = (None, c)"
| "try_candidates call n i (f # fs) c =
     (case f of
        Reached \<Rightarrow> (case call c of (r, c1) \<Rightarrow> (Some (r, i mod n), c1))
      | Not_Reached \<Rightarrow> try_candidates call n (Suc i) fs c
      | Reply_Lost \<Rightarrow> try_candidates call n (Suc i) fs (snd (call c)))"

text \<open>A refusal 404 names an unknown host exactly when the host is not enrolled.\<close>

definition agent_request_to ::
    "string \<Rightarrow> (controller \<Rightarrow> 'a response \<times> controller) \<Rightarrow> nat \<Rightarrow> fate list \<Rightarrow> conn \<Rightarrow> controller \<Rightarrow>
     'a reply \<times> conn \<times> controller" where
  "agent_request_to host call n fates cn c =
     (case try_candidates call n (cn_current cn) (take n fates) c of
        (None, c1) \<Rightarrow> (No_Connection, note_conn_result False cn, c1)
      | (Some (r, i), c1) \<Rightarrow>
          (case r of
             Inr x \<Rightarrow> Reply x
           | Inl (Http k) \<Rightarrow> if k = 404 \<and> \<not> agent_exists host (cdb c) then Unknown_Host else Refused k,
           note_conn_result True (cn\<lparr>cn_current := i\<rparr>), c1))"

section \<open>The task loop\<close>

record agent_state =
  as_host :: string
  as_secret :: string

text \<open>How a report becomes the result's text is a parameter.\<close>

datatype agent_outcome = Going_On | Exits

fun run_tasks ::
    "'h system \<Rightarrow> agent_env \<Rightarrow> (exec_result \<times> remark \<Rightarrow> string) \<Rightarrow> (int \<Rightarrow> instant) \<Rightarrow> nat \<Rightarrow> (int \<Rightarrow> fate list) \<Rightarrow>
     agent_state \<Rightarrow> delivered list \<Rightarrow> conn \<Rightarrow> 'h \<Rightarrow> controller \<Rightarrow> agent_outcome \<times> conn \<times> 'h \<times> controller" where
  "run_tasks sh env dumps clock n fates st [] cn h c = (Going_On, cn, h, c)"
| "run_tasks sh env dumps clock n fates st (d # ds) cn h c =
     (let t = dl_task d;
          (rep, h1) = (if tk_kind t = ''pty_open''
             then ((\<lparr>ex_stdout = ''pty session started'', ex_stderr = [], ex_code = 0\<rparr>, No_Remark), h)
             else run_command sh env (tk_command t) (tk_run_as t) (dl_become d) (dl_want_root d) h)
      in case agent_request_to (as_host st)
                (post_task_result (clock (tk_id t)) (as_host st) (as_host st) (as_secret st) (tk_id t) (dumps rep))
                n (fates (tk_id t)) cn c of
           (Unknown_Host, cn1, c1) \<Rightarrow> (Exits, cn1, h1, c1)
         | (_, cn1, c1) \<Rightarrow> run_tasks sh env dumps clock n fates st ds cn1 h1 c1)"

definition poll_cycle ::
    "'h system \<Rightarrow> agent_env \<Rightarrow> (exec_result \<times> remark \<Rightarrow> string) \<Rightarrow> instant \<Rightarrow> (int \<Rightarrow> instant) \<Rightarrow> nat \<Rightarrow>
     fate list \<Rightarrow> (int \<Rightarrow> fate list) \<Rightarrow> agent_state \<Rightarrow> conn \<Rightarrow> 'h \<Rightarrow> controller \<Rightarrow>
     (agent_outcome \<times> bool) \<times> conn \<times> 'h \<times> controller" where
  "poll_cycle sh env dumps now clock n fetch_fates fates st cn h c =
     (case agent_request_to (as_host st) (poll_agent_tasks now (as_host st) None (Some (as_secret st)))
             n fetch_fates cn c of
        (Unknown_Host, cn1, c1) \<Rightarrow> ((Exits, False), cn1, h, c1)
      | (Reply (ds, q), cn1, c1) \<Rightarrow>
          (case run_tasks sh env dumps clock n fates st ds cn1 h c1 of
             (out, cn2, h2, c2) \<Rightarrow> ((out, ds \<noteq> []), cn2, h2, c2))
      | (_, cn1, c1) \<Rightarrow> ((Going_On, False), cn1, h, c1))"

end
