(* ===== verification/Agent_Work.thy ===== *)
theory Agent_Work
  imports Agent_Run Task_Control
begin

text \<open>
  What the agent and the controller achieve together, and as whom the agent runs what it is given.
\<close>

section \<open>As whom a task runs\<close>

text \<open>The system with a log of the processes it started.\<close>

definition logged :: "'h system \<Rightarrow> ((launch \<times> string option) list \<times> 'h) system" where
  "logged sh = (\<lambda>l i (ls, h). case sh l i h of (p, h') \<Rightarrow> (p, (ls @ [(l, i)], h')))"

lemma exec_logged:
  "exec (logged sh) l i (ls, h) = (fst (exec sh l i h), (ls @ [(l, i)], snd (exec sh l i h)))"
  by (simp add: exec_def logged_def split: prod.split)

text \<open>A process that runs a command as a user: directly, or under the user's own sudo, with the
  password, if any, on its standard input.\<close>

definition runs_as :: "string \<Rightarrow> string \<Rightarrow> string option \<Rightarrow> launch \<times> string option \<Rightarrow> bool" where
  "runs_as user cmd become p =
     (\<exists>pre \<in> {[], [''sudo'', ''-n'']}. \<exists>inner.
        fst p = Argv (pre @ [''runuser'', ''-u'', user, ''--''] @ inner) \<and>
        (inner = [''bash'', ''-c'', cmd] \<and> snd p = None \<or>
         inner = [''sudo'', ''-n'', ''bash'', ''-c'', cmd] \<and> snd p = None \<and> \<not> truthy become \<or>
         inner = [''sudo'', ''-S'', ''-p'', [], ''bash'', ''-c'', cmd] \<and> truthy become \<and>
           snd p = Some (the become @ [CHR 0x0A])))"

lemma launches_run_as:
  "runs_as user cmd become (plain_launch env user cmd, None)"
  "runs_as user cmd become (elevated_launch env user cmd become, become_stdin become)"
  by (cases "ae_root env"; cases "truthy become";
      simp add: runs_as_def plain_launch_def elevated_launch_def as_user_def become_stdin_def)+

text \<open>C28: A task that an administrator queued starts at most two processes on the host, and each is
  a runuser to the local user of that administrator's name, with the whole command as one argument
  of a shell; only the one under the user's own sudo is given the stored password, on its standard
  input.  Without such a user nothing is started.\<close>

theorem tasks_run_as_their_user:
  assumes "user \<noteq> []"
  shows "\<exists>started rep h'. run_command (logged sh) env cmd (Some user) become want (ls, h) = (rep, (ls @ started, h')) \<and>
    length started \<le> 2 \<and> (\<not> ae_user_exists env user \<longrightarrow> started = []) \<and>
    (\<forall>p \<in> set started. runs_as user cmd become p)"
  using assms launches_run_as [of user cmd become env]
  by (simp add: run_command_def run_as_user_def exec_logged Let_def split: prod.split)

definition demo_env :: agent_env where
  "demo_env = \<lparr>ae_root = True, ae_user_exists = (\<lambda>u. u = ''ann''), ae_os_release = None\<rparr>"

lemma tasks_run_as_their_user_witness:
  "\<exists>started rep h'. run_command (logged (\<lambda>l i h. (Exited [] ''permission denied'' 1, h))) demo_env ''id'' (Some ''ann'') None False ([], ()) =
     (rep, (started, h')) \<and> started \<noteq> [] \<and> (\<forall>p \<in> set started. runs_as ''ann'' ''id'' None p)"
proof -
  let ?sh = "\<lambda>l i (h :: unit). (Exited [] ''permission denied'' 1, h)"
  obtain started rep h' where s: "run_command (logged ?sh) demo_env ''id'' (Some ''ann'') None False ([], ()) = (rep, (started, h'))"
    "\<forall>p \<in> set started. runs_as ''ann'' ''id'' None p"
    using tasks_run_as_their_user [of "''ann''" ?sh demo_env "''id''" None False "[]" "()"] by auto
  have "fst (snd (run_command (logged ?sh) demo_env ''id'' (Some ''ann'') None False ([], ()))) \<noteq> []"
    by (simp add: run_command_def run_as_user_def exec_logged Let_def demo_env_def split: prod.split)
  then show ?thesis using s by auto
qed

text \<open>How sudo says that it refuses: one of eight texts in the standard error, in any case.\<close>

definition says_refused :: "exec_result \<Rightarrow> bool" where
  "says_refused res \<longleftrightarrow>
     (\<exists>p \<in> {''password is required'', ''a terminal is required'', ''no tty present'', ''not allowed to execute'',
        ''not in the sudoers'', ''incorrect password'', ''sorry, try again'', ''authentication failure''}.
        is_substring p (lower (ex_stderr res)))"

lemma policy_hint_iff: "any_of POLICY_HINTS (lower (ex_stderr res)) = says_refused res"
  by (auto simp: any_of_def POLICY_HINTS_def says_refused_def)

text \<open>How often a script that is promised root runs, and as whom, on any host whose sudo either
  runs it or refuses it with one of the eight known texts and leaves the host as it was.  Refused, the
  script runs exactly once, as the user, and the report says so.  Allowed, it runs exactly once, as
  root, and its own outcome is reported -- unless it fails with one of those eight texts anywhere in
  its own standard error: then it is run a second time as the user on top of what it did as root, the
  report of the first run is lost, and the report denies that it ran as root.\<close>

theorem root_script_reports:
  assumes "user \<noteq> []" "ae_user_exists env user"
    and sudo: "\<And>h. exec sh (elevated_launch env user cmd become) (become_stdin become) h =
      (if allowed then as_root h else (refusal, h))"
    and own: "\<And>h. exec sh (plain_launch env user cmd) None h = as_user_run h"
    and "ex_code refusal \<noteq> 0" "says_refused refusal"
  shows "(\<not> allowed \<longrightarrow> run_command (logged sh) env cmd (Some user) become True ([], h) =
      ((fst (as_user_run h) \<lparr>ex_stderr := rstrip (ex_stderr (fst (as_user_run h)))\<rparr>, Not_As_Root),
       [(elevated_launch env user cmd become, become_stdin become), (plain_launch env user cmd, None)],
       snd (as_user_run h))) \<and>
    (allowed \<and> (ex_code (fst (as_root h)) = 0 \<or> \<not> says_refused (fst (as_root h))) \<longrightarrow>
      run_command (logged sh) env cmd (Some user) become True ([], h) =
      ((fst (as_root h), No_Remark),
       [(elevated_launch env user cmd become, become_stdin become)], snd (as_root h))) \<and>
    (allowed \<and> ex_code (fst (as_root h)) \<noteq> 0 \<and> says_refused (fst (as_root h)) \<longrightarrow>
      run_command (logged sh) env cmd (Some user) become True ([], h) =
      ((fst (as_user_run (snd (as_root h))) \<lparr>ex_stderr := rstrip (ex_stderr (fst (as_user_run (snd (as_root h)))))\<rparr>,
        Not_As_Root),
       [(elevated_launch env user cmd become, become_stdin become), (plain_launch env user cmd, None)],
       snd (as_user_run (snd (as_root h)))))"
proof -
  note run = run_command_def run_as_user_def exec_logged sudo own with_remark_def
  show ?thesis
    using assms(1,2,5,6) by (auto simp: run policy_hint_iff split: prod.split)
qed

text \<open>A script that, as root, adds a line to a file and then reports a failed login of its own.\<close>

definition demo_host :: "string list system" where
  "demo_host l i h =
     (if l = elevated_launch demo_env ''ann'' ''job.sh'' None
      then (Exited [] ''pg: password authentication failure'' 1, h @ [''as root''])
      else (Exited [] ''denied'' 1, h @ [''as ann'']))"

lemma root_script_reports_witness:
  "run_command (logged demo_host) demo_env ''job.sh'' (Some ''ann'') None True ([], []) =
     ((\<lparr>ex_stdout = [], ex_stderr = ''denied'', ex_code = 1\<rparr>, Not_As_Root),
      [(elevated_launch demo_env ''ann'' ''job.sh'' None, None), (plain_launch demo_env ''ann'' ''job.sh'', None)],
      [''as root'', ''as ann''])"
proof -
  let ?root = "\<lparr>ex_stdout = [], ex_stderr = ''pg: password authentication failure'', ex_code = 1\<rparr>"
  let ?ann = "\<lparr>ex_stdout = [], ex_stderr = ''denied'', ex_code = 1\<rparr>"
  have up: "exec demo_host (elevated_launch demo_env ''ann'' ''job.sh'' None) (become_stdin None) h =
      (if True then (?root, h @ [''as root'']) else (?root, h))" for h
    by (simp add: exec_def demo_host_def result_of_def truncate_output_def MAX_OUTPUT_BYTES_def)
  have plain: "exec demo_host (plain_launch demo_env ''ann'' ''job.sh'') None h = (?ann, h @ [''as ann''])" for h
    by (simp add: exec_def demo_host_def result_of_def truncate_output_def MAX_OUTPUT_BYTES_def
        plain_launch_def elevated_launch_def as_user_def)
  have "any_of POLICY_HINTS (lower ''pg: password authentication failure'')" by code_simp
  then have hint: "says_refused ?root" using policy_hint_iff [of ?root] by simp
  have "rstrip ''denied'' = ''denied''" by code_simp
  moreover have "ae_user_exists demo_env ''ann''" by (simp add: demo_env_def)
  moreover have "become_stdin None = None" by (simp add: become_stdin_def truthy_def)
  ultimately show ?thesis
    using root_script_reports [OF _ _ up plain, of "[]"] hint by simp
qed

section \<open>A cycle of the task loop\<close>

definition verified :: "string \<Rightarrow> string \<Rightarrow> db \<Rightarrow> bool" where
  "verified h s d = (fst (verify_agent h (Some s) d) = Inr ())"

lemma matches_same_agents:
  assumes "agents d = agents e"
  shows "fst (agent_secret_matches h p d) = fst (agent_secret_matches h p e)"
  using assms by (simp add: agent_secret_matches_def get_agent_secret_def find_agent_row_def Let_def)

lemma verified_same_agents: "agents d = agents e \<Longrightarrow> verified h s d = verified h s e"
  using matches_same_agents [of d e] by (simp add: verified_def verify_agent_ok find_agent_row_def)

lemma verified_again:
  assumes "verified h s d"
  shows "verified h s (snd (verify_agent h (Some s) d))"
proof -
  obtain r where r: "find_agent_row h d = Some r" "\<not> ag_revoked r" using assms by (auto simp: verified_def verify_agent_ok)
  obtain d' where d': "agent_secret_matches h (Some s) d = (True, d')"
    using assms by (cases "agent_secret_matches h (Some s) d") (auto simp: verified_def verify_agent_ok)
  have "snd (verify_agent h (Some s) d) = d'"
    using r d' by (simp add: verify_agent_def agent_exists_def is_agent_revoked_def)
  moreover have "\<exists>r. find_agent_row h d' = Some r \<and> \<not> ag_revoked r"
    using d' r by (auto simp: agent_secret_matches_def upgrade_agent_secret_hash_def agent_simps Let_def split: if_splits)
  ultimately show ?thesis using secret_upgrade_stable [OF d'] by (simp add: verified_def verify_agent_ok)
qed

text \<open>What posting a result does, once or again.\<close>

definition open_task :: "string \<Rightarrow> int \<Rightarrow> db \<Rightarrow> bool" where
  "open_task h i d = (\<exists>t. find_task i d = Some t \<and> tk_host t = h \<and> tk_status t \<in> {Dispatched, Done})"

definition answered :: "string \<Rightarrow> int \<Rightarrow> string \<Rightarrow> db \<Rightarrow> db \<Rightarrow> bool" where
  "answered h i res d e =
     ((\<forall>j. find_task j e = map_option (\<lambda>t. if j = i then t\<lparr>tk_status := Done\<rparr> else t) (find_task j d)) \<and>
      map (\<lambda>r. (rs_task_id r, rs_host r, rs_result r)) (agent_results e) =
        map (\<lambda>r. (rs_task_id r, rs_host r, rs_result r)) (agent_results d) @
        (if get_task_status i d = Some Dispatched then [(i, h, res)] else []))"

lemma post_once:
  assumes "schema_ok (cdb c)" "verified h s (cdb c)" "open_task h i (cdb c)"
  obtains b c' where "post_task_result now h h s i res c = (Inr b, c')" "answered h i res (cdb c) (cdb c')"
    "schema_ok (cdb c')" "verified h s (cdb c')" "c' = c\<lparr>cdb := cdb c'\<rparr>"
proof -
  obtain d where v: "verify_agent h (Some s) (cdb c) = (Inr (), d)"
    using assms(2) by (cases "verify_agent h (Some s) (cdb c)") (auto simp: verified_def)
  then have d: "agent_tasks d = agent_tasks (cdb c)" "agent_results d = agent_results (cdb c)" "schema_ok d" "verified h s d"
    using verify_agent_frame [of h "Some s" "cdb c"] assms(1) verify_agent_schema [of h "Some s" "cdb c"]
      verified_again [OF assms(2)] by simp_all
  then have find: "find_task j d = find_task j (cdb c)" for j by (simp add: find_task_def)
  obtain t where t: "find_task i d = Some t" "tk_host t = h" "tk_status t \<in> {Dispatched, Done}"
    using assms(3) find by (auto simp: open_task_def)
  obtain b e where e: "submit_task_result now i h res d = (b, e)" by fastforce
  have "get_task_host i d = Some h" using t by (simp add: get_task_host_def)
  then have p: "post_task_result now h h s i res c = (Inr b, c\<lparr>cdb := e\<rparr>)" using v e by (simp add: post_task_result_def)
  have "find_task j e = map_option (\<lambda>t. if j = i then t\<lparr>tk_status := Done\<rparr> else t) (find_task j d)" for j
    using submit_find [of j now i h res d] e t by (cases "find_task j d") auto
  moreover have "agent_results e = (if get_task_status i d = Some Dispatched
      then agent_results d @ [\<lparr>rs_id = result_seq d + 1, rs_task_id = i, rs_host = h, rs_result = res, rs_completed = now\<rparr>]
      else agent_results d)"
    using submit_results [OF d(3), of now i h res] e by simp
  ultimately have "answered h i res (cdb c) e" using find d(2) by (auto simp: answered_def get_task_status_def)
  moreover have "schema_ok e" using submit_schema [OF d(3), of now i h res] e by simp
  moreover have "verified h s e"
  proof -
    have "agents e = agents d" using e by (auto simp: submit_task_result_def add_result_def Let_def)
    then show ?thesis using verified_same_agents d(4) by blast
  qed
  ultimately show thesis using p by (intro that [of b "c\<lparr>cdb := e\<rparr>"]) simp_all
qed

lemma answered_again:
  assumes "answered h i res d e" "answered h i res e f"
  shows "answered h i res d f"
proof -
  let ?log = "\<lambda>d. map (\<lambda>r. (rs_task_id r, rs_host r, rs_result r)) (agent_results d)"
  let ?close = "\<lambda>j t. if j = i then t\<lparr>tk_status := Done\<rparr> else t"
  have f: "find_task j e = map_option (?close j) (find_task j d)" "find_task j f = map_option (?close j) (find_task j e)" for j
    using assms by (simp_all add: answered_def)
  have "find_task j f = map_option (?close j) (find_task j d)" for j
    using f [of j] by (cases "find_task j d") auto
  moreover have "get_task_status i e \<noteq> Some Dispatched"
    using f(1) [of i] by (auto simp: get_task_status_def split: option.splits)
  then have "?log f = ?log d @ (if get_task_status i d = Some Dispatched then [(i, h, res)] else [])"
    using assms by (simp add: answered_def)
  ultimately show ?thesis by (simp add: answered_def)
qed

lemma answered_open: "answered h i res d e \<Longrightarrow> open_task h j d \<Longrightarrow> open_task h j e"
proof -
  assume a: "answered h i res d e" "open_task h j d"
  obtain t where t: "find_task j d = Some t" "tk_host t = h" "tk_status t \<in> {Dispatched, Done}"
    using a(2) by (auto simp: open_task_def)
  have "find_task j e = Some (if j = i then t\<lparr>tk_status := Done\<rparr> else t)" using a(1) t(1) by (simp add: answered_def)
  then show ?thesis using t by (auto simp: open_task_def)
qed

lemma post_candidates:
  assumes "schema_ok (cdb c)" "verified h s (cdb c)" "open_task h i (cdb c)" "Reached \<in> set fs"
  obtains b k c' where "try_candidates (post_task_result now h h s i res) n m fs c = (Some (Inr b, k), c')"
    "answered h i res (cdb c) (cdb c')" "schema_ok (cdb c')" "verified h s (cdb c')" "c' = c\<lparr>cdb := cdb c'\<rparr>"
proof -
  have "\<exists>b k c'. try_candidates (post_task_result now h h s i res) n m fs c = (Some (Inr b, k), c') \<and>
    answered h i res (cdb c) (cdb c') \<and> schema_ok (cdb c') \<and> verified h s (cdb c') \<and> c' = c\<lparr>cdb := cdb c'\<rparr>"
    using assms
  proof (induction fs arbitrary: m c)
    case (Cons f fs)
    obtain b1 c1 where p: "post_task_result now h h s i res c = (Inr b1, c1)" "answered h i res (cdb c) (cdb c1)"
      "schema_ok (cdb c1)" "verified h s (cdb c1)" "c1 = c\<lparr>cdb := cdb c1\<rparr>"
      by (rule post_once [OF Cons.prems(1-3)])
    show ?case
    proof (cases f)
      case Reached
      then show ?thesis using p by (intro exI [of _ b1] exI [of _ "m mod n"] exI [of _ c1]) simp
    next
      case Not_Reached
      then show ?thesis using Cons.IH [of c "Suc m"] Cons.prems by simp
    next
      case Reply_Lost
      obtain b k c' where r: "try_candidates (post_task_result now h h s i res) n (Suc m) fs c1 = (Some (Inr b, k), c')"
        "answered h i res (cdb c1) (cdb c')" "schema_ok (cdb c')" "verified h s (cdb c')" "c' = c1\<lparr>cdb := cdb c'\<rparr>"
        using Cons.IH [of c1 "Suc m"] Cons.prems p answered_open [OF p(2)] Reply_Lost by auto
      have "c' = c\<lparr>cdb := cdb c'\<rparr>"
      proof -
        have "c' = (c\<lparr>cdb := cdb c1\<rparr>)\<lparr>cdb := cdb c'\<rparr>" using r(5) p(5) by simp
        then show ?thesis by simp
      qed
      then show ?thesis using r p answered_again [OF p(2) r(2)] Reply_Lost
        by (intro exI [of _ b] exI [of _ k] exI [of _ c']) simp
    qed
  qed simp
  then show thesis using that by blast
qed

text \<open>What the agent reports for the tasks it is handed, in order.\<close>

fun reports :: "'h system \<Rightarrow> agent_env \<Rightarrow> delivered list \<Rightarrow> 'h \<Rightarrow> (int \<times> exec_result \<times> remark) list" where
  "reports sh env [] h = []"
| "reports sh env (d # ds) h =
     (let t = dl_task d;
          (rep, h1) = (if tk_kind t = ''pty_open''
             then ((\<lparr>ex_stdout = ''pty session started'', ex_stderr = [], ex_code = 0\<rparr>, No_Remark), h)
             else run_command sh env (tk_command t) (tk_run_as t) (dl_become d) (dl_want_root d) h)
      in (tk_id t, rep) # reports sh env ds h1)"

definition result_log :: "controller \<Rightarrow> (int \<times> string \<times> string) list" where
  "result_log c = map (\<lambda>r. (rs_task_id r, rs_host r, rs_result r)) (agent_results (cdb c))"

lemma run_all_tasks:
  assumes "schema_ok (cdb c)" "verified (as_host st) (as_secret st) (cdb c)"
    and "\<forall>d \<in> set ds. find_task (tk_id (dl_task d)) (cdb c) = Some (dl_task d) \<and> tk_host (dl_task d) = as_host st \<and>
      tk_status (dl_task d) = Dispatched \<and> Reached \<in> set (take n (fates (tk_id (dl_task d))))"
    and "distinct (map (\<lambda>d. tk_id (dl_task d)) ds)"
  shows "\<exists>cn' h' c'. run_tasks sh env dumps clock n fates st ds cn h c = (Going_On, cn', h', c') \<and>
    verified (as_host st) (as_secret st) (cdb c') \<and>
    result_log c' = result_log c @ map (\<lambda>(i, rep). (i, as_host st, dumps rep)) (reports sh env ds h) \<and>
    (\<forall>j. find_task j (cdb c') = map_option (\<lambda>t. if j \<in> (\<lambda>d. tk_id (dl_task d)) ` set ds then t\<lparr>tk_status := Done\<rparr> else t)
       (find_task j (cdb c)))"
  using assms
proof (induction ds arbitrary: cn h c)
  case Nil
  then show ?case by (simp add: option.map_ident)
next
  case (Cons d ds)
  let ?i = "tk_id (dl_task d)"
  obtain rep h1 where rep: "(if tk_kind (dl_task d) = ''pty_open''
      then ((\<lparr>ex_stdout = ''pty session started'', ex_stderr = [], ex_code = 0\<rparr>, No_Remark), h)
      else run_command sh env (tk_command (dl_task d)) (tk_run_as (dl_task d)) (dl_become d) (dl_want_root d) h) = (rep, h1)"
    by (rule prod.exhaust)
  have find: "find_task ?i (cdb c) = Some (dl_task d)" "tk_host (dl_task d) = as_host st" "tk_status (dl_task d) = Dispatched"
    "Reached \<in> set (take n (fates ?i))" using Cons.prems(3) by simp_all
  have "open_task (as_host st) ?i (cdb c)" using find by (simp add: open_task_def)
  then obtain b k c1 where p: "try_candidates (post_task_result (clock ?i) (as_host st) (as_host st) (as_secret st) ?i (dumps rep))
      n (cn_current cn) (take n (fates ?i)) c = (Some (Inr b, k), c1)" "answered (as_host st) ?i (dumps rep) (cdb c) (cdb c1)"
    "schema_ok (cdb c1)" "verified (as_host st) (as_secret st) (cdb c1)"
    using post_candidates [OF Cons.prems(1,2) _ find(4)] by metis
  have st: "get_task_status ?i (cdb c) = Some Dispatched" using find by (simp add: get_task_status_def)
  have log: "result_log c1 = result_log c @ [(?i, as_host st, dumps rep)]" using p(2) st by (simp add: answered_def result_log_def)
  have f1: "find_task j (cdb c1) = map_option (\<lambda>t. if j = ?i then t\<lparr>tk_status := Done\<rparr> else t) (find_task j (cdb c))" for j
    using p(2) by (simp add: answered_def)
  have rest: "\<forall>e \<in> set ds. find_task (tk_id (dl_task e)) (cdb c1) = Some (dl_task e) \<and> tk_host (dl_task e) = as_host st \<and>
      tk_status (dl_task e) = Dispatched \<and> Reached \<in> set (take n (fates (tk_id (dl_task e))))"
  proof
    fix e assume e: "e \<in> set ds"
    then have "tk_id (dl_task e) \<noteq> ?i" using Cons.prems(4) by (metis (no_types, lifting) distinct.simps(2) image_eqI list.simps(9) set_map)
    then show "find_task (tk_id (dl_task e)) (cdb c1) = Some (dl_task e) \<and> tk_host (dl_task e) = as_host st \<and>
      tk_status (dl_task e) = Dispatched \<and> Reached \<in> set (take n (fates (tk_id (dl_task e))))"
      using Cons.prems(3) e f1 by auto
  qed
  have req: "agent_request_to (as_host st) (post_task_result (clock ?i) (as_host st) (as_host st) (as_secret st) ?i (dumps rep))
      n (fates ?i) cn c = (Reply b, note_conn_result True (cn\<lparr>cn_current := k\<rparr>), c1)"
    using p(1) by (simp add: agent_request_to_def)
  obtain cn' h' c' where r: "run_tasks sh env dumps clock n fates st ds (note_conn_result True (cn\<lparr>cn_current := k\<rparr>)) h1 c1 = (Going_On, cn', h', c')"
    "result_log c' = result_log c1 @ map (\<lambda>(i, rep). (i, as_host st, dumps rep)) (reports sh env ds h1)"
    "\<forall>j. find_task j (cdb c') = map_option (\<lambda>t. if j \<in> (\<lambda>d. tk_id (dl_task d)) ` set ds then t\<lparr>tk_status := Done\<rparr> else t) (find_task j (cdb c1))"
    "verified (as_host st) (as_secret st) (cdb c')"
    using Cons.IH [OF p(3,4) rest, of "note_conn_result True (cn\<lparr>cn_current := k\<rparr>)" h1] Cons.prems(4) by auto
  have "run_tasks sh env dumps clock n fates st (d # ds) cn h c = (Going_On, cn', h', c')"
    using rep req r(1) by (simp add: Let_def)
  moreover have "reports sh env (d # ds) h = (?i, rep) # reports sh env ds h1" using rep by (simp add: Let_def)
  moreover have "find_task j (cdb c') = map_option (\<lambda>t. if j \<in> (\<lambda>d. tk_id (dl_task d)) ` set (d # ds) then t\<lparr>tk_status := Done\<rparr> else t)
       (find_task j (cdb c))" for j
    using r(3) f1 [of j] by (auto simp: option.map_comp comp_def intro!: option.map_cong0)
  ultimately show ?case using r(2,4) log by (intro exI [of _ cn'] exI [of _ h'] exI [of _ c']) simp
qed

lemma try_first_reached:
  "try_candidates call n m (replicate p Not_Reached @ Reached # rest) c =
     (case call c of (r, c1) \<Rightarrow> (Some (r, (m + p) mod n), c1))"
  by (induction p arbitrary: m) (simp_all split: prod.split)

lemma poll_cycle_runs_all:
  assumes "schema_ok (cdb c)" "verified (as_host st) (as_secret st) (cdb c)" "\<not> is_quarantined (as_host st) (integrity c)"
    and "take n fetch = replicate p Not_Reached @ Reached # rest" "\<forall>i. Reached \<in> set (take n (fates i))"
  shows "\<exists>ds cn' h' c'. poll_cycle sh env dumps now clock n fetch fates st cn h c = ((Going_On, ds \<noteq> []), cn', h', c') \<and>
    distinct (map (\<lambda>d. tk_id (dl_task d)) ds) \<and> verified (as_host st) (as_secret st) (cdb c') \<and>
    sorted (map (\<lambda>d. tk_id (dl_task d)) ds) \<and>
    dl_task ` set ds = {t\<lparr>tk_status := Dispatched, tk_dispatched := Some now\<rparr> | t.
      t \<in> set (agent_tasks (cdb c)) \<and> tk_host t = as_host st \<and> tk_status t = Pending} \<and>
    result_log c' = result_log c @ map (\<lambda>(i, rep). (i, as_host st, dumps rep)) (reports sh env ds h) \<and>
    (\<forall>j. find_task j (cdb c') = map_option (\<lambda>t. if tk_host t = as_host st \<and> tk_status t = Pending
       then t\<lparr>tk_status := Done, tk_dispatched := Some now\<rparr> else t) (find_task j (cdb c)))"
proof -
  let ?h = "as_host st" and ?s = "as_secret st"
  obtain d where v: "verify_agent ?h (Some ?s) (cdb c) = (Inr (), d)"
    using assms(2) by (cases "verify_agent ?h (Some ?s) (cdb c)") (auto simp: verified_def)
  have truthy: "truthy (Some ?s)"
    using assms(2) by (auto simp: verified_def verify_agent_ok secret_matches_iff)
  have d: "agent_tasks d = agent_tasks (cdb c)" "agent_results d = agent_results (cdb c)" "schema_ok d" "verified ?h ?s d"
    using v verify_agent_frame [of ?h "Some ?s" "cdb c"] assms(1) verify_agent_schema [of ?h "Some ?s" "cdb c"]
      verified_again [OF assms(2)] by simp_all
  obtain ts d1 where f: "fetch_pending_tasks now ?h d = (ts, d1)" by fastforce
  obtain ds c1 where a: "attach_secrets ts (c\<lparr>cdb := d1\<rparr>) = (ds, c1)" by fastforce
  have db: "cdb c1 = d1" "map dl_task ds = ts"
    using attach_secrets_db [of ts "c\<lparr>cdb := d1\<rparr>"] attach_secrets_tasks [of ts "c\<lparr>cdb := d1\<rparr>"] a by simp_all
  have "poll_agent_tasks now ?h None (Some ?s) c = (Inr (ds, False), c1)"
    using v truthy assms(3) f a by (simp add: poll_agent_tasks_def)
  then have req: "agent_request_to ?h (poll_agent_tasks now ?h None (Some ?s)) n fetch cn c =
      (Reply (ds, False), note_conn_result True (cn\<lparr>cn_current := (cn_current cn + p) mod n\<rparr>), c1)"
    using assms(4) by (simp add: agent_request_to_def try_first_reached)
  have set: "set ts = {t\<lparr>tk_status := Dispatched, tk_dispatched := Some now\<rparr> | t.
      t \<in> set (agent_tasks (cdb c)) \<and> tk_host t = ?h \<and> tk_status t = Pending}"
    using fetch_returns [of now ?h d] f d(1) by simp
  have fetched: "find_task j d1 = (case find_task j (cdb c) of None \<Rightarrow> None
      | Some t \<Rightarrow> Some (if tk_host t = ?h \<and> tk_status t = Pending
                       then t\<lparr>tk_status := Dispatched, tk_dispatched := Some now\<rparr> else t))" for j
    using fetch_find [of j now ?h d] f d(1) by (simp add: find_task_def)
  have row: "find_task (tk_id t) (cdb c) = Some t" if "t \<in> set (agent_tasks (cdb c))" for t
  proof -
    have "keyed tk_id (agent_tasks (cdb c))" using assms(1) by (simp add: schema_ok_def)
    then show ?thesis using keyed_find that by (fastforce simp: find_task_def)
  qed
  have handed: "\<forall>x \<in> set ds. find_task (tk_id (dl_task x)) (cdb c1) = Some (dl_task x) \<and> tk_host (dl_task x) = ?h \<and>
      tk_status (dl_task x) = Dispatched \<and> Reached \<in> set (take n (fates (tk_id (dl_task x))))"
  proof
    fix x assume "x \<in> set ds"
    then have "dl_task x \<in> set ts" using db(2) by auto
    then obtain t where t: "dl_task x = t\<lparr>tk_status := Dispatched, tk_dispatched := Some now\<rparr>"
      "t \<in> set (agent_tasks (cdb c))" "tk_host t = ?h" "tk_status t = Pending" using set by auto
    then show "find_task (tk_id (dl_task x)) (cdb c1) = Some (dl_task x) \<and> tk_host (dl_task x) = ?h \<and>
      tk_status (dl_task x) = Dispatched \<and> Reached \<in> set (take n (fates (tk_id (dl_task x))))"
      using fetched [of "tk_id t"] row [OF t(2)] db(1) assms(5) by simp
  qed
  have dist: "distinct (map (\<lambda>x. tk_id (dl_task x)) ds)"
  proof -
    have "distinct (map tk_id ts)" using fetch_distinct [OF d(3) f] .
    then show ?thesis unfolding db(2) [symmetric] by (simp add: comp_def)
  qed
  have ok: "schema_ok (cdb c1)" "verified ?h ?s (cdb c1)"
  proof -
    show "schema_ok (cdb c1)" using fetch_schema [of now ?h d] f d(3) db(1) by simp
    have "agents d1 = agents d" using f by (auto simp: fetch_pending_tasks_def Let_def)
    then show "verified ?h ?s (cdb c1)" using verified_same_agents d(4) db(1) by blast
  qed
  obtain cn' h' c' where r: "run_tasks sh env dumps clock n fates st ds
      (note_conn_result True (cn\<lparr>cn_current := (cn_current cn + p) mod n\<rparr>)) h c1 = (Going_On, cn', h', c')"
    "result_log c' = result_log c1 @ map (\<lambda>(i, rep). (i, ?h, dumps rep)) (reports sh env ds h)"
    "\<forall>j. find_task j (cdb c') = map_option (\<lambda>t. if j \<in> (\<lambda>x. tk_id (dl_task x)) ` set ds then t\<lparr>tk_status := Done\<rparr> else t)
       (find_task j (cdb c1))"
    "verified ?h ?s (cdb c')"
    using run_all_tasks [OF ok handed dist, where sh = sh and env = env and dumps = dumps and clock = clock and
        cn = "note_conn_result True (cn\<lparr>cn_current := (cn_current cn + p) mod n\<rparr>)" and h = h] by blast
  have "agent_results d1 = agent_results d" using f by (auto simp: fetch_pending_tasks_def Let_def)
  then have log: "result_log c1 = result_log c" using d(2) db(1) by (simp add: result_log_def)
  have ids: "j \<in> (\<lambda>x. tk_id (dl_task x)) ` set ds \<longleftrightarrow> tk_host t = ?h \<and> tk_status t = Pending"
    if "find_task j (cdb c) = Some t" for j t
  proof -
    have "(\<lambda>x. tk_id (dl_task x)) ` set ds = tk_id ` set ts" unfolding db(2) [symmetric] by (simp add: image_image)
    also have "\<dots> = {tk_id t | t. t \<in> set (agent_tasks (cdb c)) \<and> tk_host t = ?h \<and> tk_status t = Pending}"
      unfolding set by (simp add: setcompr_eq_image image_image)
    finally have ids: "j \<in> (\<lambda>x. tk_id (dl_task x)) ` set ds \<longleftrightarrow>
      (\<exists>u. j = tk_id u \<and> u \<in> set (agent_tasks (cdb c)) \<and> tk_host u = ?h \<and> tk_status u = Pending)" by simp
    have "u = t" if "j = tk_id u" "u \<in> set (agent_tasks (cdb c))" for u
      using row [OF that(2)] that(1) \<open>find_task j (cdb c) = Some t\<close> by simp
    moreover have "t \<in> set (agent_tasks (cdb c))" "tk_id t = j" using find_task_SomeD [OF that] by simp_all
    ultimately show ?thesis unfolding ids by blast
  qed
  have final: "find_task j (cdb c') = map_option (\<lambda>t. if tk_host t = ?h \<and> tk_status t = Pending
       then t\<lparr>tk_status := Done, tk_dispatched := Some now\<rparr> else t) (find_task j (cdb c))" for j
    using r(3) fetched [of j] ids [of j] db(1) by (cases "find_task j (cdb c)") auto
  have "sorted (map tk_id ts)" using f by (auto simp: fetch_pending_tasks_def Let_def)
  then have sorted: "sorted (map (\<lambda>x. tk_id (dl_task x)) ds)" unfolding db(2) [symmetric] by (simp add: comp_def)
  have image: "dl_task ` set ds = {t\<lparr>tk_status := Dispatched, tk_dispatched := Some now\<rparr> | t.
      t \<in> set (agent_tasks (cdb c)) \<and> tk_host t = ?h \<and> tk_status t = Pending}"
    using set unfolding db(2) [symmetric] by simp
  have cycle: "poll_cycle sh env dumps now clock n fetch fates st cn h c = ((Going_On, ds \<noteq> []), cn', h', c')"
    using req r(1) by (simp add: poll_cycle_def)
  show ?thesis using r(2,4) log cycle dist sorted image final by (intro exI [of _ ds] exI [of _ cn'] exI [of _ h'] exI [of _ c']) simp
qed

text \<open>C27: One cycle of the task loop, end to end.  When the poll reaches the controller and each
  result reaches it at least once, every task that was waiting for the host is run, in the order of
  their ids, and is done afterwards, its result recorded exactly once however often it was sent;
  other tasks are untouched and the agent goes on.\<close>

theorem poll_cycle_completes:
  assumes "schema_ok (cdb c)" "verified (as_host st) (as_secret st) (cdb c)" "\<not> is_quarantined (as_host st) (integrity c)"
    and "take n fetch = replicate p Not_Reached @ Reached # rest" "\<forall>i. Reached \<in> set (take n (fates i))"
  shows "\<exists>ds cn' h' c'. poll_cycle sh env dumps now clock n fetch fates st cn h c = ((Going_On, ds \<noteq> []), cn', h', c') \<and>
    sorted (map (\<lambda>d. tk_id (dl_task d)) ds) \<and>
    dl_task ` set ds = {t\<lparr>tk_status := Dispatched, tk_dispatched := Some now\<rparr> | t.
      t \<in> set (agent_tasks (cdb c)) \<and> tk_host t = as_host st \<and> tk_status t = Pending} \<and>
    result_log c' = result_log c @ map (\<lambda>(i, rep). (i, as_host st, dumps rep)) (reports sh env ds h) \<and>
    (\<forall>j. find_task j (cdb c') = map_option (\<lambda>t. if tk_host t = as_host st \<and> tk_status t = Pending
       then t\<lparr>tk_status := Done, tk_dispatched := Some now\<rparr> else t) (find_task j (cdb c)))"
  using poll_cycle_runs_all [OF assms, of sh env dumps now clock cn h] by (elim exE conjE) (intro exI conjI, assumption+)

lemma poll_cycle_completes_witness:
  "\<exists>more cn' h' c'. poll_cycle demo_host demo_env (\<lambda>rep. ex_stdout (fst rep)) 20 (\<lambda>_. 30) 2 [Not_Reached, Reached]
     (\<lambda>_. [Reply_Lost, Reached]) \<lparr>as_host = ''web1'', as_secret = ''k''\<rparr> \<lparr>cn_current = 0, cn_fails = 3\<rparr> [] demo_control =
       ((Going_On, more), cn', h', c') \<and>
     (\<forall>j. find_task j (cdb c') = map_option (\<lambda>t. if tk_host t = ''web1'' \<and> tk_status t = Pending
       then t\<lparr>tk_status := Done, tk_dispatched := Some 20\<rparr> else t) (find_task j (cdb demo_control)))"
proof -
  let ?st = "\<lparr>as_host = ''web1'', as_secret = ''k''\<rparr>"
  have v: "verified (as_host ?st) (as_secret ?st) (cdb demo_control)" by (simp add: verified_def demo_verify)
  have q: "\<not> is_quarantined (as_host ?st) (integrity demo_control)" by (simp add: demo_quarantine)
  have fetch: "take 2 [Not_Reached, Reached] = replicate 1 Not_Reached @ Reached # []" by simp
  have fates: "\<forall>i::int. Reached \<in> set (take 2 ((\<lambda>_. [Reply_Lost, Reached]) i))" by simp
  show ?thesis
    using poll_cycle_completes [OF demo_control_schema v q fetch fates, of demo_host demo_env "\<lambda>rep. ex_stdout (fst rep)"
        20 "\<lambda>_. 30" "\<lparr>cn_current = 0, cn_fails = 3\<rparr>" "[]"] by auto
qed

end
