(* ===== verification/Audit_Log.thy ===== *)
theory Audit_Log
  imports Db_Config
begin

text \<open>
  The two audit tables as instances of one contract.  The locale \<open>chained_log\<close> states what a
  table must provide for the shared chain to work (how a row becomes a link of the chain); inside
  it appending is shown to keep the chain good and cutting a prefix to leave a good chain.  The
  activity log and the administrator log interpret it.
\<close>

definition has_entry :: "('r \<Rightarrow> string option) \<Rightarrow> 'r \<Rightarrow> bool" where
  "has_entry entry r = (case entry r of None \<Rightarrow> False | Some e \<Rightarrow> e \<noteq> [])"

text \<open>A log every row of which was written by the append operation under this key.\<close>

definition log_good ::
    "('r \<Rightarrow> int) \<Rightarrow> ('r \<Rightarrow> string option) \<Rightarrow> (bytes option \<Rightarrow> 'r \<Rightarrow> link) \<Rightarrow> bytes option \<Rightarrow> int \<Rightarrow>
     'r list \<Rightarrow> bool" where
  "log_good ident entry link key s rows =
     (ids_increasing ident s rows \<and> list_all (has_entry entry) rows \<and>
      chain_good (key_present key) None False (map (link key) rows))"

lemma keyless_has_no_hmac:
  "chain_good False e seen rs \<Longrightarrow> \<forall>r \<in> set rs. ln_algo r \<noteq> Hmac_Sha256"
  by (induction rs arbitrary: e seen) (auto simp: link_ok_def)

locale chained_log =
  fixes ident :: "'r \<Rightarrow> int"
    and entry :: "'r \<Rightarrow> string option"
    and link :: "bytes option \<Rightarrow> 'r \<Rightarrow> link"
    and genesis :: string
  assumes link_id: "ln_id (link key r) = ident r"
    and link_entry: "ln_entry (link key r) = or_else (entry r) []"
begin

lemma prev_hash_last:
  assumes "log_good ident entry link key s rows" "rows \<noteq> []"
  shows "prev_hash genesis ident entry rows = ln_entry (link key (last rows))"
proof -
  have srt: "sort_key ident rows = rows"
    using assms(1) by (simp add: log_good_def ids_increasing_def sorted_wrt_sort_key)
  have "has_entry entry (last rows)"
    using assms by (simp add: log_good_def list_all_iff)
  then obtain c cs where e: "entry (last rows) = Some (c # cs)"
    by (auto simp: has_entry_def neq_Nil_conv split: option.splits)
  obtain xs y where xy: "rows = xs @ [y]" using assms(2) by (cases rows rule: rev_cases) auto
  have "prev_hash genesis ident entry rows = or_else (entry y) genesis"
    unfolding prev_hash_def srt by (simp add: xy)
  then show ?thesis using e by (simp add: xy link_entry)
qed

lemma append_good:
  assumes good: "log_good ident entry link key s rows"
    and r: "ident r = s + 1" "entry r = Some e" "e \<noteq> []" "ln_digest (link key r) = e"
      "ln_prev (link key r) = prev_hash genesis ident entry rows"
      "ln_algo (link key r) = algo_for key"
  shows "log_good ident entry link key (s + 1) (rows @ [r])"
proof -
  have ent: "ln_entry (link key r) = e" using r(2,3) by (cases e) (simp_all add: link_entry)
  have ok: "link_ok (key_present key)
      (if map (link key) rows = [] then None else Some (ln_entry (last (map (link key) rows))))
      (False \<or> (\<exists>x \<in> set (map (link key) rows). ln_algo x = Hmac_Sha256)) (link key r)"
    using prev_hash_last [OF good] keyless_has_no_hmac good r ent
    by (cases "key_present key")
       (auto simp: link_ok_def last_map algo_for_def log_good_def)
  show ?thesis
    using good ok r ids_increasing_snoc [of ident s rows r]
    by (auto simp: log_good_def has_entry_def chain_good_snoc)
qed

lemma cut_good:
  "log_good ident entry link key s rows \<Longrightarrow> rows = pre @ kept \<Longrightarrow>
    log_good ident entry link key s kept"
  by (auto simp: log_good_def ids_increasing_def sorted_wrt_append dest: chain_good_suffix)

text \<open>The rows the verification reads are all of them, in the stored order.\<close>

lemma read_all:
  assumes "log_good ident entry link key s rows"
  shows "sort_key ident (filter (\<lambda>r. entry r \<noteq> None) rows) = rows"
proof -
  have "filter (\<lambda>r. entry r \<noteq> None) rows = rows"
    using assms by (auto simp: log_good_def list_all_iff filter_id_conv has_entry_def split: option.splits)
  then show ?thesis
    using assms by (simp add: log_good_def ids_increasing_def sorted_wrt_sort_key)
qed

lemma last_id_bound: "log_good ident entry link key s rows \<Longrightarrow> last_id ident rows \<le> s"
  by (auto simp: log_good_def ids_increasing_def last_id_def)

end

interpretation activity: chained_log ac_id ac_entry activity_link ACTIVITY_GENESIS
  by unfold_locales (simp_all add: activity_link_def)

interpretation audit: chained_log au_id au_entry audit_link ADMIN_AUDIT_GENESIS
  by unfold_locales (simp_all add: audit_link_def)

section \<open>The invariant of the two tables\<close>

text \<open>The high-water mark of a chain never runs ahead of its sequence.\<close>

definition head_ok :: "string \<Rightarrow> int \<Rightarrow> db \<Rightarrow> bool" where
  "head_ok chain s d = (case chain_head_last_id chain d of None \<Rightarrow> True | Some h \<Rightarrow> h \<le> s)"

definition activity_ok :: "bytes option \<Rightarrow> db \<Rightarrow> bool" where
  "activity_ok key d =
     (log_good ac_id ac_entry activity_link key (activity_seq d) (activity_log d) \<and>
      keyed ch_chain (chain_heads d) \<and> head_ok ''activity'' (activity_seq d) d)"

definition audit_ok :: "bytes option \<Rightarrow> db \<Rightarrow> bool" where
  "audit_ok key d =
     (log_good au_id au_entry audit_link key (audit_seq d) (admin_audit_log d) \<and>
      keyed ch_chain (chain_heads d) \<and> head_ok ''admin_audit'' (audit_seq d) d)"

lemma bump_head:
  assumes "keyed ch_chain (chain_heads d)"
    "case chain_head_last_id chain d of None \<Rightarrow> True | Some h \<Rightarrow> h \<le> i"
  shows "chain_head_last_id chain (bump_chain_head now chain i e d) = Some i"
    and "keyed ch_chain (chain_heads (bump_chain_head now chain i e d))"
proof -
  let ?hit = "\<lambda>r. ch_chain r = chain \<and> ch_last_id r \<le> i"
  have cnt: "tb_count ?hit (chain_heads d) =
      (case find (\<lambda>r. ch_chain r = chain) (chain_heads d) of None \<Rightarrow> 0
       | Some r \<Rightarrow> if ch_last_id r \<le> i then 1 else 0)"
    using count_at_find [OF assms(1)] .
  show "chain_head_last_id chain (bump_chain_head now chain i e d) = Some i"
  proof (cases "find (\<lambda>r. ch_chain r = chain) (chain_heads d)")
    case None
    then have "\<not> tb_exists (\<lambda>r. ch_chain r = chain) (chain_heads d)"
      by (auto simp: find_None_iff tb_exists_iff)
    with None cnt show ?thesis
      by (simp add: bump_chain_head_def Let_def chain_head_last_id_def find_append)
  next
    case (Some r)
    with assms(2) have "ch_last_id r \<le> i" "ch_chain r = chain"
      by (auto simp: chain_head_last_id_def dest: find_SomeD)
    with Some cnt show ?thesis
      by (simp add: bump_chain_head_def Let_def chain_head_last_id_def find_tb_update)
  qed
  show "keyed ch_chain (chain_heads (bump_chain_head now chain i e d))"
    using assms(1) by (auto simp: bump_chain_head_def Let_def keyed_update keyed_append tb_exists_iff)
qed

lemma bump_head_other:
  assumes "chain' \<noteq> chain"
  shows "chain_head_last_id chain' (bump_chain_head now chain i e d) = chain_head_last_id chain' d"
proof -
  let ?f = "\<lambda>r :: chain_head_row. r\<lparr>ch_last_id := i, ch_last_entry := e, ch_updated := now\<rparr>"
  have "find (\<lambda>r. ch_chain r = chain') (tb_update (\<lambda>r. ch_chain r = chain \<and> ch_last_id r \<le> i) ?f rows) =
      find (\<lambda>r. ch_chain r = chain') rows" for rows
    using assms by (induction rows) (auto simp: tb_update_def)
  then show ?thesis
    using assms by (simp add: bump_chain_head_def Let_def chain_head_last_id_def find_append
        split: option.split)
qed

lemma digest_not_Nil [simp]: "chain_digest a k p \<noteq> []"
proof -
  have "length (hmac_sha256 k' y) = 32" for k' y by (simp add: hmac_sha256_def Let_def)
  then have "length (chain_digest a k p) = 64" by (simp add: chain_digest_def)
  then show ?thesis by auto
qed

section \<open>Appending keeps the invariant\<close>

lemma log_activity_ok:
  assumes ok: "activity_ok key d"
    and log: "log_activity key req red ts u h de co so d = Inr d'"
  shows "activity_ok key d'"
    "chain_head_last_id ''activity'' d' = Some (activity_seq d + 1)"
    "activity_seq d' = activity_seq d + 1"
    "\<exists>r. last (activity_log d') = r \<and> activity_log d' \<noteq> [] \<and> ac_id r = activity_seq d + 1"
proof -
  define i where "i = activity_seq d + 1"
  define e where "e = activity_digest (prev_hash ACTIVITY_GENESIS ac_id ac_entry (activity_log d)) ts
      (or_else u ''(unknown)'') (or_else h []) (or_else de []) (red (or_else co [])) (algo_for key) key"
  define row where "row = \<lparr>ac_id = i, ac_timestamp = ts, ac_username = or_else u ''(unknown)'',
      ac_host = or_else h [], ac_description = or_else de [], ac_command = red (or_else co []),
      ac_source = Some (or_else so ''api''),
      ac_prev = Some (prev_hash ACTIVITY_GENESIS ac_id ac_entry (activity_log d)),
      ac_entry = Some e, ac_algo = algo_for key\<rparr>"
  define d1 where "d1 = d\<lparr>activity_log := activity_log d @ [row], activity_seq := i\<rparr>"
  define d2 where "d2 = (if 0 < ACTIVITY_LOG_MAX_ROWS \<and> 0 < i - ACTIVITY_LOG_MAX_ROWS
      then d1\<lparr>activity_log := tb_delete (\<lambda>r. ac_id r \<le> i - ACTIVITY_LOG_MAX_ROWS) (activity_log d1)\<rparr>
      else d1)"
  have d': "d' = bump_chain_head ts ''activity'' i e d2"
    using log unfolding log_activity_def Let_def d2_def d1_def row_def e_def i_def
    by (auto split: if_splits)
  have good: "log_good ac_id ac_entry activity_link key (activity_seq d) (activity_log d)"
    and kd: "keyed ch_chain (chain_heads d)" and hd: "head_ok ''activity'' (activity_seq d) d"
    using ok by (simp_all add: activity_ok_def)
  have "or_else (Some (prev_hash ACTIVITY_GENESIS ac_id ac_entry (activity_log d))) [] =
      prev_hash ACTIVITY_GENESIS ac_id ac_entry (activity_log d)"
    by (simp add: or_else_def)
  then have g1: "log_good ac_id ac_entry activity_link key i (activity_log d1)"
    unfolding i_def d1_def using good
    by (simp, intro activity.append_good [of key "activity_seq d" "activity_log d" row e])
       (simp_all add: row_def activity_link_def i_def e_def activity_digest_def)
  have pre: "\<exists>pre. activity_log d1 = pre @ activity_log d2"
    using ids_increasing_trim [of ac_id i "activity_log d1"] g1
    by (auto simp: d2_def log_good_def)
  then have g2: "log_good ac_id ac_entry activity_link key i (activity_log d2)"
    using activity.cut_good [OF g1] by blast
  have nonempty: "activity_log d2 \<noteq> [] \<and> last (activity_log d2) = row"
  proof -
    have "row \<in> set (activity_log d2)"
      by (auto simp: d2_def d1_def set_tb_delete row_def ACTIVITY_LOG_MAX_ROWS_def)
    moreover have "last (activity_log d1) = row" by (simp add: d1_def)
    ultimately show ?thesis using pre by (metis last_appendR list.set_cases list.distinct(1))
  qed
  have fr: "chain_heads d2 = chain_heads d" "activity_seq d2 = i" by (simp_all add: d2_def d1_def)
  then have h2: "case chain_head_last_id ''activity'' d2 of None \<Rightarrow> True | Some h \<Rightarrow> h \<le> i"
    using hd by (auto simp: head_ok_def chain_head_last_id_def i_def split: option.splits)
  have keep: "activity_log d' = activity_log d2" "activity_seq d' = i"
    by (simp_all add: d' bump_chain_head_def Let_def fr)
  note b = bump_head [where d = d2 and chain = "''activity''" and i = i, unfolded fr, OF kd h2, of ts e]
  show "chain_head_last_id ''activity'' d' = Some (activity_seq d + 1)"
    using b(1) by (simp add: d' i_def)
  moreover have "keyed ch_chain (chain_heads d')" using b(2) by (simp add: d')
  ultimately show "activity_ok key d'"
    using g2 by (simp add: activity_ok_def keep head_ok_def i_def)
  show "activity_seq d' = activity_seq d + 1" by (simp add: keep i_def)
  show "\<exists>r. last (activity_log d') = r \<and> activity_log d' \<noteq> [] \<and> ac_id r = activity_seq d + 1"
    using nonempty by (simp add: keep row_def i_def)
qed

lemma log_admin_audit_ok:
  assumes ok: "audit_ok key d"
    and log: "log_admin_audit key req ts ev u de d = Inr d'"
  shows "audit_ok key d'"
    "chain_head_last_id ''admin_audit'' d' = Some (audit_seq d + 1)"
    "audit_seq d' = audit_seq d + 1"
    "\<exists>r. last (admin_audit_log d') = r \<and> admin_audit_log d' \<noteq> [] \<and> au_id r = audit_seq d + 1"
proof -
  define i where "i = audit_seq d + 1"
  define e where "e = admin_audit_digest (prev_hash ADMIN_AUDIT_GENESIS au_id au_entry (admin_audit_log d)) ts
      (or_else ev []) (or_else u []) (or_else de []) (algo_for key) key"
  define row where "row = \<lparr>au_id = i, au_timestamp = ts, au_event = or_else ev [],
      au_username = or_else u [], au_detail = or_else de [],
      au_prev = Some (prev_hash ADMIN_AUDIT_GENESIS au_id au_entry (admin_audit_log d)),
      au_entry = Some e, au_algo = algo_for key\<rparr>"
  define d1 where "d1 = d\<lparr>admin_audit_log := admin_audit_log d @ [row], audit_seq := i\<rparr>"
  have d': "d' = bump_chain_head ts ''admin_audit'' i e d1"
    using log unfolding log_admin_audit_def Let_def d1_def row_def e_def i_def
    by (auto split: if_splits)
  have good: "log_good au_id au_entry audit_link key (audit_seq d) (admin_audit_log d)"
    and kd: "keyed ch_chain (chain_heads d)" and hd: "head_ok ''admin_audit'' (audit_seq d) d"
    using ok by (simp_all add: audit_ok_def)
  have "or_else (Some (prev_hash ADMIN_AUDIT_GENESIS au_id au_entry (admin_audit_log d))) [] =
      prev_hash ADMIN_AUDIT_GENESIS au_id au_entry (admin_audit_log d)"
    by (simp add: or_else_def)
  then have g1: "log_good au_id au_entry audit_link key i (admin_audit_log d1)"
    unfolding i_def d1_def using good
    by (simp, intro audit.append_good [of key "audit_seq d" "admin_audit_log d" row e])
       (simp_all add: row_def audit_link_def i_def e_def admin_audit_digest_def)
  have fr: "chain_heads d1 = chain_heads d" "audit_seq d1 = i" by (simp_all add: d1_def)
  then have h1: "case chain_head_last_id ''admin_audit'' d1 of None \<Rightarrow> True | Some h \<Rightarrow> h \<le> i"
    using hd by (auto simp: head_ok_def chain_head_last_id_def i_def split: option.splits)
  have keep: "admin_audit_log d' = admin_audit_log d1" "audit_seq d' = i"
    by (simp_all add: d' bump_chain_head_def Let_def fr)
  note b = bump_head [where d = d1 and chain = "''admin_audit''" and i = i, unfolded fr, OF kd h1, of ts e]
  show "chain_head_last_id ''admin_audit'' d' = Some (audit_seq d + 1)"
    using b(1) by (simp add: d' i_def)
  moreover have "keyed ch_chain (chain_heads d')" using b(2) by (simp add: d')
  ultimately show "audit_ok key d'"
    using g1 by (simp add: audit_ok_def keep head_ok_def i_def)
  show "audit_seq d' = audit_seq d + 1" by (simp add: keep i_def)
  show "\<exists>r. last (admin_audit_log d') = r \<and> admin_audit_log d' \<noteq> [] \<and> au_id r = audit_seq d + 1"
    by (simp add: keep row_def i_def d1_def)
qed

section \<open>Verification\<close>

lemma verify_activity_iff:
  assumes "log_good ac_id ac_entry activity_link key s (activity_log d)"
  shows "vd_ok (verify_activity_chain key d) \<longleftrightarrow>
    (case chain_head_last_id ''activity'' d of None \<Rightarrow> True | Some h \<Rightarrow> h \<le> last_id ac_id (activity_log d))"
proof -
  have "hashed_activity d = activity_log d"
    using activity.read_all [OF assms] by (simp add: hashed_activity_def)
  then show ?thesis using assms by (simp add: verify_activity_chain_def Let_def log_good_def)
qed

lemma verify_audit_iff:
  assumes "log_good au_id au_entry audit_link key s (admin_audit_log d)"
  shows "vd_ok (verify_admin_audit_chain key d) \<longleftrightarrow>
    (case chain_head_last_id ''admin_audit'' d of None \<Rightarrow> True | Some h \<Rightarrow> h \<le> last_id au_id (admin_audit_log d))"
proof -
  have "hashed_audit d = admin_audit_log d"
    using audit.read_all [OF assms] by (simp add: hashed_audit_def)
  then show ?thesis using assms by (simp add: verify_admin_audit_chain_def Let_def log_good_def)
qed

section \<open>Two good chains with the same head\<close>

text \<open>
  What a good chain pins down.  The digest of a row covers the stored hash of the row before it,
  so two good chains of the same length that end in the same hash agree row by row, unless two
  different payloads have the same digest.
\<close>

definition collision_free :: "bytes option \<Rightarrow> (hash_algo \<times> bytes) set \<Rightarrow> bool" where
  "collision_free key ps =
     (\<forall>(a, p) \<in> ps. \<forall>(b, q) \<in> ps. chain_digest a key p = chain_digest b key q \<longrightarrow> p = q)"

definition activity_payload_of :: "activity_row \<Rightarrow> bytes" where
  "activity_payload_of r = activity_payload (or_else (ac_prev r) []) (ac_timestamp r)
     (ac_username r) (ac_host r) (ac_description r) (ac_command r) (ac_algo r)"

definition activity_cells :: "activity_row \<Rightarrow> string list" where
  "activity_cells r = [algo_name (ac_algo r), or_else (ac_prev r) [], fmt6 (ac_timestamp r),
     ac_username r, ac_host r, ac_description r, ac_command r]"

lemma activity_payload_cells: "activity_payload_of r = digest_payload (activity_cells r)"
  by (simp add: activity_payload_of_def activity_payload_def activity_cells_def)

lemma activity_link_digest:
  "ln_digest (activity_link key r) = chain_digest (ac_algo r) key (activity_payload_of r)"
  by (simp add: activity_link_def activity_digest_def activity_payload_of_def)

lemma chain_good_entry:
  "chain_good keyp e seen (xs @ [x]) \<Longrightarrow> ln_digest x = ln_entry x \<and>
    (xs \<noteq> [] \<longrightarrow> ln_prev x = ln_entry (last xs))"
  by (auto simp: chain_good_snoc link_ok_def split: if_splits)

lemma chain_good_last:
  assumes "chain_good keyp e seen (map (activity_link key) (xs @ [x]))"
  shows "ln_digest (activity_link key x) = ln_entry (activity_link key x)"
    and "xs \<noteq> [] \<Longrightarrow> ln_prev (activity_link key x) = ln_entry (activity_link key (last xs))"
  using chain_good_entry [of keyp e seen "map (activity_link key) xs" "activity_link key x"] assms
  by (simp_all add: last_map)

lemma collision_freeD:
  assumes "collision_free key S" and "chain_digest a key p = chain_digest b key q"
    and "(a, p) \<in> S" and "(b, q) \<in> S"
  shows "p = q"
  using assms unfolding collision_free_def by blast

lemma collision_free_mono:
  "collision_free key S \<Longrightarrow> T \<subseteq> S \<Longrightarrow> collision_free key T"
  unfolding collision_free_def by blast

lemma same_head_same_rows:
  assumes "chain_good kp None False (map (activity_link key) xs)"
    and "chain_good kp None False (map (activity_link key) ys)"
    and "length xs = length ys" "xs \<noteq> []"
    and "ln_entry (activity_link key (last xs)) = ln_entry (activity_link key (last ys))"
    and "collision_free key ((\<lambda>r. (ac_algo r, activity_payload_of r)) ` (set xs \<union> set ys))"
    and "\<forall>r \<in> set xs \<union> set ys. list_all fits (activity_cells r)"
  shows "map activity_cells xs = map activity_cells ys"
  using assms
proof (induction xs arbitrary: ys rule: rev_induct)
  case (snoc x xs)
  obtain zs y where ys: "ys = zs @ [y]" using snoc.prems(3,4) by (cases ys rule: rev_cases) auto
  note px = chain_good_last [OF snoc.prems(1)] and py = chain_good_last [OF snoc.prems(2) [unfolded ys]]
  have digests: "chain_digest (ac_algo x) key (activity_payload_of x) =
      chain_digest (ac_algo y) key (activity_payload_of y)"
    using px(1) py(1) snoc.prems(5) ys by (simp add: activity_link_digest)
  have "activity_payload_of x = activity_payload_of y"
    by (rule collision_freeD [OF snoc.prems(6) digests]) (simp_all add: ys)
  then have xy: "activity_cells x = activity_cells y"
    using snoc.prems(7) ys by (intro digest_payload_inj) (auto simp: activity_payload_cells activity_cells_def)
  show ?case
  proof (cases "xs = []")
    case True
    with xy snoc.prems(3) ys show ?thesis by simp
  next
    case False
    have zs: "zs \<noteq> []" "length xs = length zs" using False snoc.prems(3) ys by auto
    have "ln_prev (activity_link key x) = ln_prev (activity_link key y)"
      using xy by (simp add: activity_link_def activity_cells_def)
    with px(2) [OF False] py(2) [OF zs(1)] have heads:
      "ln_entry (activity_link key (last xs)) = ln_entry (activity_link key (last zs))" by simp
    have good: "chain_good kp None False (map (activity_link key) xs)"
      "chain_good kp None False (map (activity_link key) zs)"
      using snoc.prems(1,2) ys by (simp_all add: chain_good_snoc)
    have sub: "collision_free key ((\<lambda>r. (ac_algo r, activity_payload_of r)) ` (set xs \<union> set zs))"
      by (rule collision_free_mono [OF snoc.prems(6)]) (auto simp: ys)
    have fit: "\<forall>r \<in> set xs \<union> set zs. list_all fits (activity_cells r)"
      using snoc.prems(7) by (simp add: ys)
    have "map activity_cells xs = map activity_cells zs"
      by (rule snoc.IH [OF good zs(2) False heads sub fit])
    with xy ys show ?thesis by simp
  qed
qed simp

end
