(* ===== verification/Audit_Evidence.thy ===== *)
theory Audit_Evidence
  imports Audit_Log
begin

text \<open>
  What the two audit tables are evidence of: whatever sequence of events the controller records,
  both chains verify; and which changes made behind its back a verification exposes.
\<close>

section \<open>Recording a sequence of events\<close>

datatype audit_call =
    Activity_Call instant "string option" "string option" "string option" "string option" "string option"
  | Admin_Call instant "string option" "string option" "string option"

definition record_call ::
    "bytes option \<Rightarrow> bool \<Rightarrow> (string \<Rightarrow> string) \<Rightarrow> audit_call \<Rightarrow> db \<Rightarrow> audit_error + db" where
  "record_call key required redact call d =
     (case call of
        Activity_Call ts u h de co so \<Rightarrow> log_activity key required redact ts u h de co so d
      | Admin_Call ts ev u de \<Rightarrow> log_admin_audit key required ts ev u de d)"

fun record_all ::
    "bytes option \<Rightarrow> bool \<Rightarrow> (string \<Rightarrow> string) \<Rightarrow> audit_call list \<Rightarrow> db \<Rightarrow> audit_error + db" where
  "record_all key required redact [] d = Inr d"
| "record_all key required redact (e # es) d =
     (case record_call key required redact e d of Inl x \<Rightarrow> Inl x
      | Inr d' \<Rightarrow> record_all key required redact es d')"

text \<open>Both tables are good and the recorded marks are the newest ids.\<close>

definition head_exact :: "string \<Rightarrow> int \<Rightarrow> db \<Rightarrow> bool" where
  "head_exact chain newest d =
     (case chain_head_last_id chain d of None \<Rightarrow> newest = 0 | Some h \<Rightarrow> h = newest)"

definition logs_ok :: "bytes option \<Rightarrow> db \<Rightarrow> bool" where
  "logs_ok key d =
     (activity_ok key d \<and> audit_ok key d \<and>
      head_exact ''activity'' (last_id ac_id (activity_log d)) d \<and>
      head_exact ''admin_audit'' (last_id au_id (admin_audit_log d)) d)"

lemma logs_ok_fresh: "logs_ok key fresh_db"
  by (simp add: logs_ok_def activity_ok_def audit_ok_def head_exact_def head_ok_def log_good_def
      ids_increasing_def chain_head_last_id_def fresh_db_def last_id_def)

lemma log_activity_heads:
  assumes "log_activity key req red ts u h de co so d = Inr d'" "chain \<noteq> ''activity''"
  shows "chain_head_last_id chain d' = chain_head_last_id chain d"
  using assms
  by (auto simp: log_activity_def Let_def bump_head_other split: if_splits)
     (simp_all add: chain_head_last_id_def)

lemma log_admin_audit_heads:
  assumes "log_admin_audit key req ts ev u de d = Inr d'" "chain \<noteq> ''admin_audit''"
  shows "chain_head_last_id chain d' = chain_head_last_id chain d"
  using assms
  by (auto simp: log_admin_audit_def Let_def bump_head_other split: if_splits)
     (simp_all add: chain_head_last_id_def)

lemma log_activity_logs_ok:
  assumes ok: "logs_ok key d" and log: "log_activity key req red ts u h de co so d = Inr d'"
  shows "logs_ok key d'"
proof -
  have a: "activity_ok key d" and b: "audit_ok key d" using ok by (simp_all add: logs_ok_def)
  note new = log_activity_ok [OF a log] and other = log_activity_heads [OF log, of "''admin_audit''"]
  have fr: "admin_audit_log d' = admin_audit_log d" "audit_seq d' = audit_seq d"
    by (subst log_activity_state [OF log], simp)+
  have "keyed ch_chain (chain_heads d')" using new(1) by (simp add: activity_ok_def)
  then show ?thesis
    using new b ok other by (auto simp: logs_ok_def audit_ok_def head_ok_def head_exact_def fr last_id_def)
qed

lemma log_admin_audit_logs_ok:
  assumes ok: "logs_ok key d" and log: "log_admin_audit key req ts ev u de d = Inr d'"
  shows "logs_ok key d'"
proof -
  have a: "activity_ok key d" and b: "audit_ok key d" using ok by (simp_all add: logs_ok_def)
  note new = log_admin_audit_ok [OF b log] and other = log_admin_audit_heads [OF log, of "''activity''"]
  have fr: "activity_log d' = activity_log d" "activity_seq d' = activity_seq d"
    by (subst log_admin_audit_state [OF log], simp)+
  have "keyed ch_chain (chain_heads d')" using new(1) by (simp add: audit_ok_def)
  then show ?thesis
    using new a ok other by (auto simp: logs_ok_def activity_ok_def head_ok_def head_exact_def fr last_id_def)
qed

lemma record_call_ok: "logs_ok key d \<Longrightarrow> record_call key req red e d = Inr d' \<Longrightarrow> logs_ok key d'"
  by (auto simp: record_call_def intro: log_activity_logs_ok log_admin_audit_logs_ok split: audit_call.splits)

lemma record_all_ok: "logs_ok key d \<Longrightarrow> record_all key req red es d = Inr d' \<Longrightarrow> logs_ok key d'"
  by (induction es arbitrary: d) (auto intro: record_call_ok split: sum.splits)

lemma record_all_total:
  assumes "key_present key \<or> \<not> req"
  shows "\<exists>d'. record_all key req red es d = Inr d'"
proof (induction es arbitrary: d)
  case (Cons e es)
  have "\<exists>d'. record_call key req red e d = Inr d'"
    using assms by (auto simp: record_call_def log_activity_def log_admin_audit_def Let_def split: audit_call.split)
  with Cons show ?case by auto
qed simp

lemma logs_ok_verify:
  assumes "logs_ok key d"
  shows "vd_ok (verify_activity_chain key d)" "vd_ok (verify_admin_audit_chain key d)"
  using assms
  by (auto simp: logs_ok_def activity_ok_def audit_ok_def head_exact_def verify_activity_iff verify_audit_iff
      split: option.split)

text \<open>C6: Whatever events the controller records, in whatever order and with whatever details, both
  audit chains verify afterwards, the oldest activity rows trimmed or not; and recording fails
  only where the audit key is required and missing.\<close>

theorem recorded_logs_verify:
  assumes "key_present key \<or> \<not> required"
  shows "\<exists>d. record_all key required redact es fresh_db = Inr d \<and>
    vd_ok (verify_activity_chain key d) \<and> vd_ok (verify_admin_audit_chain key d)"
proof -
  obtain d where d: "record_all key required redact es fresh_db = Inr d"
    using record_all_total [OF assms] by blast
  then show ?thesis
    using logs_ok_verify [OF record_all_ok [OF logs_ok_fresh d]] by simp
qed

lemma recorded_logs_verify_witness:
  "\<exists>d. record_all (Some [1]) True (\<lambda>s. s)
       [Activity_Call 5 (Some ''ann'') None None (Some ''uptime'') None, Admin_Call 6 (Some ''login'') None None]
       fresh_db = Inr d \<and>
     vd_ok (verify_activity_chain (Some [1]) d) \<and> vd_ok (verify_admin_audit_chain (Some [1]) d)"
  by (rule recorded_logs_verify) (simp add: key_present_def)

section \<open>What a verification exposes\<close>

lemma kept_prefix_good:
  assumes "log_good ac_id ac_entry activity_link key s (kept @ lost)"
  shows "log_good ac_id ac_entry activity_link key s kept"
proof -
  have "chain_good kp e seen (xs @ ys) \<Longrightarrow> chain_good kp e seen xs" for kp e seen xs ys
    by (induction xs arbitrary: e seen) auto
  then show ?thesis using assms by (auto simp: log_good_def ids_increasing_def sorted_wrt_append)
qed

lemma last_id_grows:
  assumes "ids_increasing ident s (kept @ lost)" "lost \<noteq> []"
  shows "last_id ident kept < last_id ident (kept @ lost)"
  using assms by (auto simp: ids_increasing_def last_id_def sorted_wrt_append)

lemma replaced_log:
  "chain_head_last_id chain (d\<lparr>activity_log := rows\<rparr>) = chain_head_last_id chain d"
  "activity_log (d\<lparr>activity_log := rows\<rparr>) = rows"
  "chain_head_last_id chain (d\<lparr>admin_audit_log := rows'\<rparr>) = chain_head_last_id chain d"
  by (simp_all add: chain_head_last_id_def)

text \<open>C17: Cutting the newest rows off the activity log is always found out: the verification of
  what is left fails and names the id of the row the log should end with, although every row left
  is intact.\<close>

theorem cut_tail_is_exposed:
  assumes "record_all key required redact es fresh_db = Inr d"
    and "activity_log d = kept @ lost" "lost \<noteq> []"
  shows "\<not> vd_ok (verify_activity_chain key (d\<lparr>activity_log := kept\<rparr>)) \<and>
    vd_truncated_head (verify_activity_chain key (d\<lparr>activity_log := kept\<rparr>)) = Some (ac_id (last lost))"
proof -
  let ?d = "d\<lparr>activity_log := kept\<rparr>"
  have ok: "logs_ok key d" using record_all_ok [OF logs_ok_fresh assms(1)] .
  then have good: "log_good ac_id ac_entry activity_link key (activity_seq d) (kept @ lost)"
    and head: "head_exact ''activity'' (last_id ac_id (kept @ lost)) d"
    using assms(2) by (simp_all add: logs_ok_def activity_ok_def)
  have less: "last_id ac_id kept < last_id ac_id (kept @ lost)"
    using good assms(3) by (intro last_id_grows [where s = "activity_seq d"]) (simp_all add: log_good_def)
  have pos: "0 \<le> last_id ac_id kept"
    using kept_prefix_good [OF good] by (auto simp: log_good_def ids_increasing_def last_id_def less_imp_le)
  have h: "chain_head_last_id ''activity'' d = Some (ac_id (last lost))"
    using head less pos assms(3) by (auto simp: head_exact_def last_id_def split: option.splits)
  have rows: "hashed_activity ?d = kept"
    using activity.read_all [OF kept_prefix_good [OF good]] by (simp add: hashed_activity_def)
  have "chain_good (key_present key) None False (map (activity_link key) kept)"
    using kept_prefix_good [OF good] by (simp add: log_good_def)
  then show ?thesis
    using less assms(3) by (simp add: verify_activity_chain_def Let_def rows replaced_log h check_head_def last_id_def)
qed

text \<open>A log of two rows, as the controller writes it.\<close>

definition demo_calls :: "audit_call list" where
  "demo_calls = [Activity_Call 5 (Some ''ann'') None None (Some ''uptime'') None,
     Activity_Call 6 (Some ''bob'') None None (Some ''reboot'') None]"

lemma bump_keeps [simp]:
  "activity_log (bump_chain_head now chain i e d) = activity_log d"
  "activity_seq (bump_chain_head now chain i e d) = activity_seq d"
  by (simp_all add: bump_chain_head_def Let_def)

lemma log_activity_appends:
  assumes "activity_seq d < ACTIVITY_LOG_MAX_ROWS" "p = prev_hash ACTIVITY_GENESIS ac_id ac_entry (activity_log d)"
    and "u \<noteq> []" "co \<noteq> []"
  obtains d' r where "log_activity None False (\<lambda>s. s) ts (Some u) None None (Some co) None d = Inr d'"
    "activity_seq d' = activity_seq d + 1" "activity_log d' = activity_log d @ [r]"
    "ac_id r = activity_seq d + 1" "ac_timestamp r = ts" "ac_username r = u" "ac_host r = []"
    "ac_description r = []" "ac_command r = co" "ac_prev r = Some p" "ac_algo r = Sha256"
    "ac_entry r = Some (activity_digest p ts u [] [] co Sha256 None)"
  using assms
  by (cases u; cases co) (simp_all add: log_activity_def Let_def algo_for_def key_present_def or_else_def)

lemma demo_log:
  obtains d r1 r2 where "record_all None False (\<lambda>s. s) demo_calls fresh_db = Inr d"
    "activity_log d = [r1, r2]" "ac_id r1 = 1" "ac_id r2 = 2" "ac_username r2 = ''bob''"
    "ac_username r1 = ''ann''" "list_all fits (activity_cells r1)" "list_all fits (activity_cells r2)"
proof -
  have e0: "activity_seq fresh_db = 0" "activity_log fresh_db = []" by (simp_all add: fresh_db_def)
  have "activity_seq fresh_db < ACTIVITY_LOG_MAX_ROWS" "''ann'' \<noteq> []" "''uptime'' \<noteq> []"
    by (simp_all add: e0 ACTIVITY_LOG_MAX_ROWS_def)
  note app = log_activity_appends [OF this(1) refl this(2,3), of 5]
  obtain d1 r1 where d1: "log_activity None False (\<lambda>s. s) 5 (Some ''ann'') None None (Some ''uptime'') None fresh_db = Inr d1"
      "activity_seq d1 = activity_seq fresh_db + 1" "activity_log d1 = activity_log fresh_db @ [r1]"
    and r1: "ac_id r1 = activity_seq fresh_db + 1" "ac_algo r1 = Sha256" "ac_timestamp r1 = 5"
      "ac_username r1 = ''ann''" "ac_host r1 = []" "ac_description r1 = []" "ac_command r1 = ''uptime''"
      "ac_prev r1 = Some (prev_hash ACTIVITY_GENESIS ac_id ac_entry (activity_log fresh_db))"
      "ac_entry r1 = Some (activity_digest (prev_hash ACTIVITY_GENESIS ac_id ac_entry (activity_log fresh_db))
         5 ''ann'' [] [] ''uptime'' Sha256 None)"
    by (rule app)
  note d1 = d1(1) d1(2,3) [unfolded e0, simplified] and r1 = r1(1) [unfolded e0, simplified] r1(2-)
  obtain p where p: "ac_entry r1 = Some (chain_digest Sha256 None p)" using r1(9) by (simp add: activity_digest_def)
  have q: "chain_digest Sha256 None p = prev_hash ACTIVITY_GENESIS ac_id ac_entry (activity_log d1)"
    by (cases "chain_digest Sha256 None p") (use digest_not_Nil in \<open>simp_all add: prev_hash_def d1(3) p or_else_def\<close>)
  have "activity_seq d1 < ACTIVITY_LOG_MAX_ROWS" "''bob'' \<noteq> []" "''reboot'' \<noteq> []"
    by (simp_all add: d1 ACTIVITY_LOG_MAX_ROWS_def)
  note app = log_activity_appends [OF this(1) q this(2,3), of 6]
  obtain d r2 where d: "log_activity None False (\<lambda>s. s) 6 (Some ''bob'') None None (Some ''reboot'') None d1 = Inr d"
      "activity_log d = activity_log d1 @ [r2]"
    and r2: "ac_id r2 = activity_seq d1 + 1" "ac_username r2 = ''bob''" "ac_algo r2 = Sha256" "ac_command r2 = ''reboot''"
      "ac_host r2 = []" "ac_description r2 = []" "ac_timestamp r2 = 6"
      "ac_prev r2 = Some (chain_digest Sha256 None p)"
    by (rule app)
  note d = d(1) d(2) [unfolded d1(3), simplified] and r2 = r2(1) [unfolded d1(2), simplified] r2(2-)
  have "record_all None False (\<lambda>s. s) demo_calls fresh_db = Inr d"
    by (simp add: demo_calls_def record_call_def d1(1) d(1))
  note run = this
  have g: "prev_hash ACTIVITY_GENESIS ac_id ac_entry (activity_log fresh_db) = ACTIVITY_GENESIS"
    by (simp add: prev_hash_def e0)
  have "digits 5 = ''5''" "digits 6 = ''6''" "pad6 (digits 0) = ''000000''" by code_simp+
  then have t: "fmt6 5 = ''5.000000''" "fmt6 6 = ''6.000000''"
    by (simp_all add: fmt6_def round_half_even_def Let_def)
  have "list_all fits (activity_cells r1)"
    by (simp add: activity_cells_def r1(2-8) g t fits_def algo_name_def or_else_def) (simp add: ACTIVITY_GENESIS_def)
  moreover have "length (chain_digest Sha256 None p) = 64" by (simp add: chain_digest_def)
  then have "list_all fits (activity_cells r2)"
    by (cases "chain_digest Sha256 None p")
       (simp_all add: activity_cells_def r2(2-) t fits_def algo_name_def or_else_def)
  ultimately show thesis using that [OF run d(2) r1(1) r2(1,2) r1(4)] by blast
qed

lemma cut_tail_is_exposed_witness:
  "\<exists>d r. record_all None False (\<lambda>s. s) demo_calls fresh_db = Inr d \<and> ac_id r = 1 \<and>
     \<not> vd_ok (verify_activity_chain None (d\<lparr>activity_log := [r]\<rparr>))"
proof -
  obtain d r1 r2 where d: "record_all None False (\<lambda>s. s) demo_calls fresh_db = Inr d"
      "activity_log d = [r1, r2]" "ac_id r1 = 1"
    by (rule demo_log)
  from d(2) have "activity_log d = [r1] @ [r2]" by simp
  from cut_tail_is_exposed [OF d(1) this] d(1,3) show ?thesis by blast
qed

lemma chain_good_middle:
  assumes "chain_good kp e seen (xs @ y # ys)"
  shows "ln_digest y = ln_entry y" "xs \<noteq> [] \<Longrightarrow> ln_prev y = ln_entry (last xs)"
  using assms by (induction xs arbitrary: e seen) (auto simp: link_ok_def split: if_splits)

lemma hashed_activity_simple:
  assumes "sorted_wrt (<) (map ac_id rows)" "\<forall>r \<in> set rows. ac_entry r \<noteq> None" "activity_log d = rows"
  shows "hashed_activity d = rows"
proof -
  have "filter (\<lambda>r. ac_entry r \<noteq> None) rows = rows" using assms(2) by (simp add: filter_id_conv)
  then show ?thesis using assms(1,3) by (simp add: hashed_activity_def sorted_wrt_sort_key)
qed

lemma verify_activity_good:
  "vd_ok (verify_activity_chain key d) \<Longrightarrow>
    chain_good (key_present key) None False (map (activity_link key) (hashed_activity d))"
  by (simp add: verify_activity_chain_def Let_def)

text \<open>Two different contents with the same digest: what an undetected change amounts to.\<close>

definition colliding :: "bytes option \<Rightarrow> activity_row \<Rightarrow> activity_row \<Rightarrow> bool" where
  "colliding key r r' =
     (activity_payload_of r \<noteq> activity_payload_of r' \<and>
      chain_digest (ac_algo r) key (activity_payload_of r) =
      chain_digest (ac_algo r') key (activity_payload_of r'))"

lemma collision_free_rows:
  assumes "\<not> (\<exists>r \<in> R. \<exists>r' \<in> R. colliding key r r')"
  shows "collision_free key ((\<lambda>r. (ac_algo r, activity_payload_of r)) ` R)"
  using assms by (auto simp: collision_free_def colliding_def)

text \<open>Every recorded row carries the algorithm of the key it was recorded under, and after a keyed
  row a chain stays keyed.\<close>

lemma record_all_algo:
  assumes "record_all key required redact es d = Inr d'" "\<forall>r \<in> set (activity_log d). ac_algo r = algo_for key"
  shows "\<forall>r \<in> set (activity_log d'). ac_algo r = algo_for key"
  using assms
proof (induction es arbitrary: d)
  case (Cons e es)
  obtain d1 where d1: "record_call key required redact e d = Inr d1" "record_all key required redact es d1 = Inr d'"
    using Cons.prems(1) by (auto split: sum.splits)
  have "\<forall>r \<in> set (activity_log d1). ac_algo r = algo_for key"
  proof (cases e)
    case (Activity_Call ts u h de co so)
    then show ?thesis
      using d1(1) Cons.prems(2)
      by (auto simp: record_call_def log_activity_def Let_def tb_delete_def split: if_splits)
  next
    case (Admin_Call ts ev u de)
    then have "log_admin_audit key required ts ev u de d = Inr d1" using d1(1) by (simp add: record_call_def)
    then have "activity_log d1 = activity_log d" by (subst log_admin_audit_state) simp_all
    then show ?thesis using Cons.prems(2) by simp
  qed
  with d1(2) show ?case by (rule Cons.IH)
qed simp

lemma chain_stays_keyed:
  assumes "chain_good kp e seen (xs @ y # ys)" "x \<in> set xs" "ln_algo x = Hmac_Sha256"
  shows "ln_algo y = Hmac_Sha256"
proof -
  have "ln_algo y = Hmac_Sha256" if "chain_good kp e True (xs @ y # ys)" for e xs
    using that by (induction xs arbitrary: e) (auto simp: link_ok_def)
  with assms show ?thesis by (induction xs arbitrary: e seen) auto
qed

text \<open>C18: Editing a recorded activity row is found out, whether or not the stored hash is recomputed
  with it: a log with one row replaced by a row of the same id that stores some hash, but different in
  any field the hash covers, does not verify, unless the edit found a collision of the digest or hit
  the newest row of the log and stores the digest of the new content; and that digest is a keyed one
  where the audit key is set and an older row is kept.\<close>

theorem edited_row_is_exposed:
  assumes "record_all key required redact es fresh_db = Inr d"
    and "activity_log d = before @ r # after_it"
    and "ac_id r' = ac_id r" "ac_entry r' \<noteq> None" "activity_cells r' \<noteq> activity_cells r"
    and "list_all fits (activity_cells r)" "list_all fits (activity_cells r')"
  shows "\<not> vd_ok (verify_activity_chain key (d\<lparr>activity_log := before @ r' # after_it\<rparr>)) \<or>
    colliding key r r' \<or>
    (after_it = [] \<and> ac_entry r' = Some (chain_digest (ac_algo r') key (activity_payload_of r')) \<and>
     (key_present key \<and> before \<noteq> [] \<longrightarrow> ac_algo r' = Hmac_Sha256))"
proof (rule ccontr)
  let ?d = "d\<lparr>activity_log := before @ r' # after_it\<rparr>" and ?ln = "activity_link key"
  assume contra: "\<not> ?thesis"
  then have v: "vd_ok (verify_activity_chain key ?d)" and coll: "\<not> colliding key r r'" by auto
  have "logs_ok key d" using record_all_ok [OF logs_ok_fresh assms(1)] .
  then have good: "log_good ac_id ac_entry activity_link key (activity_seq d) (before @ r # after_it)"
    using assms(2) by (simp add: logs_ok_def activity_ok_def)
  have "\<forall>x \<in> set (before @ r # after_it). ac_entry x \<noteq> None"
    using good by (auto simp: log_good_def list_all_iff has_entry_def split: option.splits)
  then have some: "\<forall>x \<in> set (before @ r' # after_it). ac_entry x \<noteq> None" using assms(4) by simp
  have "sorted_wrt (<) (map ac_id (before @ r' # after_it))"
    using good assms(3) by (simp add: log_good_def ids_increasing_def)
  then have "hashed_activity ?d = before @ r' # after_it"
    by (intro hashed_activity_simple some) simp_all
  then have new: "chain_good (key_present key) None False (map ?ln before @ ?ln r' # map ?ln after_it)"
    using verify_activity_good [OF v] by simp
  have old: "chain_good (key_present key) None False (map ?ln before @ ?ln r # map ?ln after_it)"
    using good by (simp add: log_good_def)
  have digest': "chain_digest (ac_algo r') key (activity_payload_of r') = or_else (ac_entry r') []"
    using chain_good_middle(1) [OF new] by (simp add: activity_link_digest) (simp add: activity_link_def)
  have digest: "chain_digest (ac_algo r) key (activity_payload_of r) = or_else (ac_entry r) []"
    using chain_good_middle(1) [OF old] by (simp add: activity_link_digest) (simp add: activity_link_def)
  have "activity_payload_of r \<noteq> activity_payload_of r'"
  proof
    assume "activity_payload_of r = activity_payload_of r'"
    then have "activity_cells r = activity_cells r'"
      using assms(6,7) by (intro digest_payload_inj) (auto simp: activity_payload_cells activity_cells_def)
    with assms(5) show False by simp
  qed
  then have moved: "or_else (ac_entry r') [] \<noteq> or_else (ac_entry r) []"
    using coll digest digest' by (simp add: colliding_def)
  have "after_it = []"
  proof (cases after_it)
    case (Cons a rest)
    have "ln_prev (?ln a) = ln_entry (?ln r')"
      using chain_good_middle(2) [of "key_present key" None False "map ?ln before @ [?ln r']" "?ln a" "map ?ln rest"]
        new Cons by simp
    moreover have "ln_prev (?ln a) = ln_entry (?ln r)"
      using chain_good_middle(2) [of "key_present key" None False "map ?ln before @ [?ln r]" "?ln a" "map ?ln rest"]
        old Cons by simp
    ultimately show ?thesis using moved by (simp add: activity_link_def)
  qed
  moreover have "ac_entry r' = Some (chain_digest (ac_algo r') key (activity_payload_of r'))"
    using digest' assms(4) by (cases "ac_entry r'") (auto simp: or_else_def split: if_splits)
  moreover have "ac_algo r' = Hmac_Sha256" if "key_present key" "before \<noteq> []"
  proof -
    have "\<forall>x \<in> set (activity_log fresh_db). ac_algo x = algo_for key" by (simp add: fresh_db_def)
    from record_all_algo [OF assms(1) this] have "ac_algo (hd before) = Hmac_Sha256"
      using assms(2) that by (auto simp: algo_for_def)
    then have "ln_algo (?ln (hd before)) = Hmac_Sha256" by (simp add: activity_link_def)
    from chain_stays_keyed [OF new _ this] that(2) show ?thesis by (simp add: activity_link_def)
  qed
  ultimately show False using contra by blast
qed

lemma edited_row_is_exposed_witness:
  "\<exists>d r1 r2. record_all None False (\<lambda>s. s) demo_calls fresh_db = Inr d \<and> activity_log d = [r1, r2] \<and>
     (\<not> vd_ok (verify_activity_chain None (d\<lparr>activity_log := [r1\<lparr>ac_username := ''eve'', ac_entry := Some ''00''\<rparr>, r2]\<rparr>)) \<or>
      colliding None r1 (r1\<lparr>ac_username := ''eve'', ac_entry := Some ''00''\<rparr>))"
proof -
  obtain d r1 r2 where d: "record_all None False (\<lambda>s. s) demo_calls fresh_db = Inr d"
      "activity_log d = [r1, r2]"
    and fit: "list_all fits (activity_cells r1)" and name: "ac_username r1 = ''ann''"
    by (rule demo_log)
  let ?r = "r1\<lparr>ac_username := ''eve'', ac_entry := Some ''00''\<rparr>"
  have "list_all fits (activity_cells ?r)" using fit by (simp add: activity_cells_def) (simp add: fits_def)
  moreover have "activity_cells ?r \<noteq> activity_cells r1" by (simp add: activity_cells_def name)
  moreover have "activity_log d = [] @ r1 # [r2]" using d(2) by simp
  ultimately show ?thesis
    using edited_row_is_exposed [OF d(1), of "[]" r1 "[r2]" ?r] fit d by auto
qed

text \<open>C19: What a verified log pins down: two logs that verify under the same key, hold the same
  number of hashed rows and end in the same stored hash agree row by row in every field the hash
  covers, unless two of their rows are a collision of the digest.\<close>

theorem same_head_pins_the_log:
  assumes "vd_ok (verify_activity_chain key d)" "vd_ok (verify_activity_chain key d')"
    and "length (hashed_activity d) = length (hashed_activity d')" "hashed_activity d \<noteq> []"
    and "ac_entry (last (hashed_activity d)) = ac_entry (last (hashed_activity d'))"
    and "list_all (\<lambda>r. list_all fits (activity_cells r)) (hashed_activity d @ hashed_activity d')"
  shows "map activity_cells (hashed_activity d) = map activity_cells (hashed_activity d') \<or>
    (\<exists>r \<in> set (hashed_activity d @ hashed_activity d'). \<exists>r' \<in> set (hashed_activity d @ hashed_activity d').
       colliding key r r')"
proof (rule disjCI)
  assume free: "\<not> (\<exists>r \<in> set (hashed_activity d @ hashed_activity d').
      \<exists>r' \<in> set (hashed_activity d @ hashed_activity d'). colliding key r r')"
  have heads: "ln_entry (activity_link key (last (hashed_activity d))) =
      ln_entry (activity_link key (last (hashed_activity d')))"
    using assms(5) by (simp add: activity_link_def)
  have fit: "\<forall>r \<in> set (hashed_activity d) \<union> set (hashed_activity d'). list_all fits (activity_cells r)"
    using assms(6) by (auto simp: list_all_iff)
  show "map activity_cells (hashed_activity d) = map activity_cells (hashed_activity d')"
    using collision_free_rows [OF free]
    by (intro same_head_same_rows [OF verify_activity_good [OF assms(1)] verify_activity_good [OF assms(2)]
          assms(3,4) heads _ fit]) simp
qed

text \<open>The source column is the one a digest does not cover.\<close>

lemma same_head_pins_the_log_witness:
  "\<exists>d r1 r2. record_all None False (\<lambda>s. s) demo_calls fresh_db = Inr d \<and>
     (map activity_cells [r1, r2] = map activity_cells [r1, r2\<lparr>ac_source := Some ''user''\<rparr>] \<or>
      (\<exists>x \<in> {r1, r2, r2\<lparr>ac_source := Some ''user''\<rparr>}. \<exists>y \<in> {r1, r2, r2\<lparr>ac_source := Some ''user''\<rparr>}. colliding None x y))"
proof -
  obtain d r1 r2 where d: "record_all None False (\<lambda>s. s) demo_calls fresh_db = Inr d"
      "activity_log d = [r1, r2]"
    and fit: "list_all fits (activity_cells r1)" "list_all fits (activity_cells r2)"
    by (rule demo_log)
  let ?r = "r2\<lparr>ac_source := Some ''user''\<rparr>" and ?d = "d\<lparr>activity_log := [r1, r2\<lparr>ac_source := Some ''user''\<rparr>]\<rparr>"
  have ok: "logs_ok None d" using record_all_ok [OF logs_ok_fresh d(1)] .
  then have good: "log_good ac_id ac_entry activity_link None (activity_seq d) [r1, r2]"
    using d(2) by (simp add: logs_ok_def activity_ok_def)
  have rows: "hashed_activity d = [r1, r2]" "hashed_activity ?d = [r1, ?r]"
    using good d(2) by (auto intro!: hashed_activity_simple simp: log_good_def ids_increasing_def has_entry_def split: option.splits)
  have "activity_link None ?r = activity_link None r2" by (simp add: activity_link_def)
  then have "verify_activity_chain None ?d = verify_activity_chain None d"
    by (simp add: verify_activity_chain_def Let_def rows replaced_log last_id_def)
  then have "vd_ok (verify_activity_chain None ?d)" using logs_ok_verify(1) [OF ok] by simp
  from same_head_pins_the_log [OF logs_ok_verify(1) [OF ok] this] fit
  have "map activity_cells [r1, r2] = map activity_cells [r1, ?r] \<or>
      (\<exists>x \<in> {r1, r2, ?r}. \<exists>y \<in> {r1, r2, ?r}. colliding None x y)"
    by (simp add: rows activity_cells_def)
  with d(1) show ?thesis by blast
qed

text \<open>The bytes a digest is taken of determine the fields: each is preceded by its length, so no
  content can be moved across a field boundary without changing them.\<close>

theorem payload_determines_fields:
  assumes "list_all fits fs" "list_all fits gs"
  shows "digest_payload fs = digest_payload gs \<longleftrightarrow> fs = gs"
proof
  have "length (digest_payload xs) \<ge> 4 * length xs" for xs
    by (induction xs) (simp_all add: digest_payload_def field_bytes_def be_bytes_def Let_def)
  assume "digest_payload fs = digest_payload gs"
  then show "fs = gs"
    using assms
  proof (induction fs arbitrary: gs)
    case Nil
    then show ?case by (cases gs) (simp_all add: digest_payload_def field_bytes_def be_bytes_def Let_def)
  next
    case (Cons f fs)
    then obtain g gs' where gs: "gs = g # gs'"
      by (cases gs) (simp_all add: digest_payload_def field_bytes_def be_bytes_def Let_def)
    with Cons.prems have "f = g \<and> digest_payload fs = digest_payload gs'"
      by (intro field_bytes_inj) (auto simp: digest_payload_def)
    with Cons gs show ?case by auto
  qed
qed simp

lemma payload_determines_fields_witness:
  "digest_payload [''ab'', ''c''] \<noteq> digest_payload [''a'', ''bc'']"
proof -
  have "list_all fits [''ab'', ''c'']" "list_all fits [''a'', ''bc'']" by (simp_all add: fits_def)
  from payload_determines_fields [OF this] show ?thesis by simp
qed

section \<open>Logs from before there were chains\<close>

lemma activity_digest_not_Nil [simp]:
  "activity_digest p ts u h de co a k \<noteq> []" "admin_audit_digest p ts ev u de a k \<noteq> []"
  by (simp_all add: activity_digest_def admin_audit_digest_def)

lemma or_else_Some [simp]: "or_else (Some x) [] = x"
  by (cases x) (simp_all add: or_else_def)

lemma rechain_activity_good:
  "(seen \<longrightarrow> key_present key) \<Longrightarrow>
    chain_good (key_present key) (Some p) seen (map (activity_link key) (rechain_activity key p rows))"
  by (induction key p rows arbitrary: seen rule: rechain_activity.induct)
     (auto simp: Let_def link_ok_def activity_link_def algo_for_def)

lemma rechain_audit_good:
  "(seen \<longrightarrow> key_present key) \<Longrightarrow>
    chain_good (key_present key) (Some p) seen (map (audit_link key) (rechain_audit key p rows))"
  by (induction key p rows arbitrary: seen rule: rechain_audit.induct)
     (auto simp: Let_def link_ok_def audit_link_def algo_for_def)

lemma rechain_activity_ids [simp]: "map ac_id (rechain_activity key p rows) = map ac_id rows"
  by (induction rows arbitrary: p) (simp_all add: Let_def)

lemma rechain_activity_entries: "list_all (has_entry ac_entry) (rechain_activity key p rows)"
  by (induction rows arbitrary: p) (simp_all add: Let_def has_entry_def)

lemma rechain_audit_ids [simp]: "map au_id (rechain_audit key p rows) = map au_id rows"
  by (induction rows arbitrary: p) (simp_all add: Let_def)

lemma rechain_audit_entries: "list_all (has_entry au_entry) (rechain_audit key p rows)"
  by (induction rows arbitrary: p) (simp_all add: Let_def has_entry_def)

lemma ids_increasing_map:
  "ids_increasing ident s rows =
    (sorted_wrt (<) (map ident rows) \<and> (\<forall>i \<in> set (map ident rows). 0 < i \<and> i \<le> s) \<and> 0 \<le> s)"
  by (simp add: ids_increasing_def)

lemma seed_head:
  "chain_head_last_id chain (seed_chain_head now chain i e d) = Some i"
  "chain' \<noteq> chain \<Longrightarrow> chain_head_last_id chain' (seed_chain_head now chain i e d) = chain_head_last_id chain' d"
  "keyed ch_chain (chain_heads d) \<Longrightarrow> keyed ch_chain (chain_heads (seed_chain_head now chain i e d))"
  "activity_log (seed_chain_head now chain i e d) = activity_log d"
  "activity_seq (seed_chain_head now chain i e d) = activity_seq d"
  "admin_audit_log (seed_chain_head now chain i e d) = admin_audit_log d"
  "audit_seq (seed_chain_head now chain i e d) = audit_seq d"
  by (auto simp: seed_chain_head_def chain_head_last_id_def find_upsert_same find_upsert_other keyed_upsert
      split: option.split)

text \<open>A database of a release without chains: rows, but no hash and no mark.\<close>

definition unchained :: "db \<Rightarrow> bool" where
  "unchained d =
     (ids_increasing ac_id (activity_seq d) (activity_log d) \<and>
      ids_increasing au_id (audit_seq d) (admin_audit_log d) \<and> chain_heads d = [] \<and>
      list_all (\<lambda>r. ac_entry r = None) (activity_log d) \<and>
      list_all (\<lambda>r. au_entry r = None) (admin_audit_log d))"

lemma last_id_map: "last_id ident rows = (if rows = [] then 0 else last (map ident rows))"
  by (simp add: last_id_def last_map)

lemma backfill_activity_ok:
  assumes "unchained d"
  shows "activity_ok key (backfill_activity key now d)"
    "head_exact ''activity'' (last_id ac_id (activity_log (backfill_activity key now d))) (backfill_activity key now d)"
proof -
  let ?rows = "rechain_activity key ACTIVITY_GENESIS (activity_log d)"
  have inc: "ids_increasing ac_id (activity_seq d) (activity_log d)" and hd: "chain_heads d = []"
    and none: "\<not> list_ex (\<lambda>r. ac_entry r \<noteq> None) (activity_log d)"
    using assms by (auto simp: unchained_def list_all_iff list_ex_iff)
  have srt: "sort_key ac_id (activity_log d) = activity_log d"
    using inc by (simp add: ids_increasing_def sorted_wrt_sort_key)
  have "chain_good (key_present key) (Some ACTIVITY_GENESIS) False (map (activity_link key) ?rows)"
    by (rule rechain_activity_good) simp
  then have good: "log_good ac_id ac_entry activity_link key (activity_seq d) ?rows"
    using inc by (auto simp: log_good_def ids_increasing_map rechain_activity_entries dest: chain_good_start)
  have bound: "last_id ac_id ?rows \<le> activity_seq d" by (rule activity.last_id_bound [OF good])
  have nil: "?rows = [] \<longleftrightarrow> activity_log d = []" by (metis map_is_Nil_conv rechain_activity_ids)
  have heads: "chain_head_last_id c d = None" for c using hd by (simp add: chain_head_last_id_def)
  show "activity_ok key (backfill_activity key now d)"
  proof (cases "activity_log d = []")
    case True
    then show ?thesis
      using good hd heads by (simp add: activity_ok_def backfill_activity_def head_ok_def)
  next
    case False
    then show ?thesis
      using good bound hd none
      by (simp add: activity_ok_def backfill_activity_def Let_def srt seed_head head_ok_def)
  qed
  show "head_exact ''activity'' (last_id ac_id (activity_log (backfill_activity key now d))) (backfill_activity key now d)"
    using none heads
    by (cases "activity_log d = []")
       (simp_all add: backfill_activity_def Let_def srt seed_head head_exact_def, simp add: last_id_def)
qed

lemma backfill_audit_logs_ok:
  assumes "activity_ok key d" "head_exact ''activity'' (last_id ac_id (activity_log d)) d"
    and "ids_increasing au_id (audit_seq d) (admin_audit_log d)"
    and "list_all (\<lambda>r. au_entry r = None) (admin_audit_log d)" "chain_head_last_id ''admin_audit'' d = None"
  shows "logs_ok key (backfill_audit key now d)"
proof -
  let ?rows = "rechain_audit key ADMIN_AUDIT_GENESIS (admin_audit_log d)"
  have none: "\<not> list_ex (\<lambda>r. au_entry r \<noteq> None) (admin_audit_log d)"
    using assms(4) by (auto simp: list_all_iff list_ex_iff)
  have srt: "sort_key au_id (admin_audit_log d) = admin_audit_log d"
    using assms(3) by (simp add: ids_increasing_def sorted_wrt_sort_key)
  have "chain_good (key_present key) (Some ADMIN_AUDIT_GENESIS) False (map (audit_link key) ?rows)"
    by (rule rechain_audit_good) simp
  then have good: "log_good au_id au_entry audit_link key (audit_seq d) ?rows"
    using assms(3) by (auto simp: log_good_def ids_increasing_map rechain_audit_entries dest: chain_good_start)
  have bound: "last_id au_id ?rows \<le> audit_seq d" by (rule audit.last_id_bound [OF good])
  show ?thesis
  proof (cases "admin_audit_log d = []")
    case True
    then show ?thesis
      using assms(1,2,5) good
      by (simp add: logs_ok_def audit_ok_def backfill_audit_def head_ok_def head_exact_def activity_ok_def)
         (simp add: last_id_def)
  next
    case False
    then show ?thesis
      using assms(1,2) good bound none
      by (simp add: logs_ok_def activity_ok_def audit_ok_def backfill_audit_def Let_def srt seed_head head_ok_def
          head_exact_def replaced_log)
  qed
qed

lemma rechain_contents [simp]:
  "map (\<lambda>r. r\<lparr>ac_prev := None, ac_entry := None, ac_algo := Sha256\<rparr>) (rechain_activity key p rows) =
    map (\<lambda>r. r\<lparr>ac_prev := None, ac_entry := None, ac_algo := Sha256\<rparr>) rows"
  "map (\<lambda>r. r\<lparr>au_prev := None, au_entry := None, au_algo := Sha256\<rparr>) (rechain_audit key p rows') =
    map (\<lambda>r. r\<lparr>au_prev := None, au_entry := None, au_algo := Sha256\<rparr>) rows'"
proof -
  show "map (\<lambda>r. r\<lparr>ac_prev := None, ac_entry := None, ac_algo := Sha256\<rparr>) (rechain_activity key p rows) =
      map (\<lambda>r. r\<lparr>ac_prev := None, ac_entry := None, ac_algo := Sha256\<rparr>) rows"
    by (induction rows arbitrary: p) (simp_all add: Let_def)
  show "map (\<lambda>r. r\<lparr>au_prev := None, au_entry := None, au_algo := Sha256\<rparr>) (rechain_audit key p rows') =
      map (\<lambda>r. r\<lparr>au_prev := None, au_entry := None, au_algo := Sha256\<rparr>) rows'"
    by (induction rows' arbitrary: p) (simp_all add: Let_def)
qed

text \<open>Chaining the logs of a release that had no chains gives two chains that verify, whatever
  the rows hold, and changes no row but for the three columns of the chain.\<close>

theorem backfilled_logs_verify:
  assumes "unchained d"
  shows "vd_ok (verify_activity_chain key (backfill_audit_chains key now d)) \<and>
    vd_ok (verify_admin_audit_chain key (backfill_audit_chains key now d)) \<and>
    map (\<lambda>r. r\<lparr>ac_prev := None, ac_entry := None, ac_algo := Sha256\<rparr>)
        (activity_log (backfill_audit_chains key now d)) =
      map (\<lambda>r. r\<lparr>ac_prev := None, ac_entry := None, ac_algo := Sha256\<rparr>) (activity_log d) \<and>
    map (\<lambda>r. r\<lparr>au_prev := None, au_entry := None, au_algo := Sha256\<rparr>)
        (admin_audit_log (backfill_audit_chains key now d)) =
      map (\<lambda>r. r\<lparr>au_prev := None, au_entry := None, au_algo := Sha256\<rparr>) (admin_audit_log d)"
proof -
  let ?d = "backfill_activity key now d"
  have rest: "admin_audit_log ?d = admin_audit_log d" "audit_seq ?d = audit_seq d"
    "chain_head_last_id ''admin_audit'' ?d = None"
    using assms
    by (simp_all add: backfill_activity_def Let_def seed_head replaced_log)
       (simp_all add: unchained_def chain_head_last_id_def)
  have ok: "logs_ok key (backfill_audit_chains key now d)"
    unfolding backfill_audit_chains_def using assms
    by (intro backfill_audit_logs_ok backfill_activity_ok) (simp_all add: rest unchained_def)
  have "sort_key ac_id (activity_log d) = activity_log d" "sort_key au_id (admin_audit_log d) = admin_audit_log d"
    using assms by (simp_all add: unchained_def ids_increasing_def sorted_wrt_sort_key)
  then show ?thesis
    using logs_ok_verify [OF ok]
    by (simp add: backfill_audit_chains_def backfill_audit_def backfill_activity_def Let_def seed_head)
qed

lemma backfilled_logs_verify_witness:
  "vd_ok (verify_admin_audit_chain (Some [7]) (backfill_audit_chains (Some [7]) 9
     (fresh_db\<lparr>admin_audit_log := [\<lparr>au_id = 1, au_timestamp = 3, au_event = ''setup'', au_username = ''ann'',
        au_detail = [], au_prev = None, au_entry = None, au_algo = Sha256\<rparr>], audit_seq := 1\<rparr>)))"
proof -
  have "unchained (fresh_db\<lparr>admin_audit_log := [\<lparr>au_id = 1, au_timestamp = 3, au_event = ''setup'',
      au_username = ''ann'', au_detail = [], au_prev = None, au_entry = None, au_algo = Sha256\<rparr>], audit_seq := 1\<rparr>)"
    by (simp add: unchained_def fresh_db_def ids_increasing_def)
  from backfilled_logs_verify [OF this] show ?thesis by blast
qed

end
