(* ===== verification/Bearer.thy ===== *)
theory Bearer
  imports App_Facts
begin

text \<open>
  The two kinds of bearer credential that the controller stores by digest: the console's login
  tokens and the portal's sessions.  A store is looked up by the token presented, a check accepts
  a row while it is live and drops a row it finds dead.  Both are interpretations of one contract.
\<close>

section \<open>The contract\<close>

locale token_store =
  fixes digest :: "string \<Rightarrow> string"
    and look :: "string \<Rightarrow> 's \<Rightarrow> 'r option"
    and issued :: "string \<Rightarrow> 'r \<Rightarrow> 's \<Rightarrow> 's \<Rightarrow> bool"
    and discard :: "string \<Rightarrow> 's \<Rightarrow> 's"
  assumes look_issued: "issued t r s s' \<Longrightarrow> look u s' = (if digest u = digest t then Some r else look u s)"
    and look_discard: "t \<noteq> [] \<Longrightarrow> look u (discard t s) = (if digest u = digest t then None else look u s)"
begin

lemma issued_found: "issued t r s s' \<Longrightarrow> look t s' = Some r"
  by (simp add: look_issued)

lemma discarded_gone: "t \<noteq> [] \<Longrightarrow> look t (discard t s) = None"
  by (simp add: look_discard)

lemma others_kept:
  assumes "digest u \<noteq> digest t"
  shows "issued t r s s' \<Longrightarrow> look u s' = look u s" and "t \<noteq> [] \<Longrightarrow> look u (discard t s) = look u s"
  using assms by (simp_all add: look_issued look_discard)

lemma discard_undoes_issue: "t \<noteq> [] \<Longrightarrow> issued t r s s' \<Longrightarrow> look u (discard t s') = look u (discard t s)"
  by (simp add: look_discard look_issued)

end

locale token_check = token_store +
  fixes live :: "instant \<Rightarrow> 'b \<Rightarrow> 'a \<Rightarrow> bool"
    and who :: "'b \<Rightarrow> 'w"
    and check :: "instant \<Rightarrow> string \<Rightarrow> 'a \<Rightarrow> 'w option \<times> 'a"
  assumes check_answer: "fst (check now t s) =
      (if t = [] then None
       else case look t s of None \<Rightarrow> None | Some r \<Rightarrow> if live now r s then Some (who r) else None)"
    and check_state: "look u (snd (check now t s)) =
      (case look t s of
         Some r \<Rightarrow> if t \<noteq> [] \<and> \<not> live now r s then look u (discard t s) else look u s
       | None \<Rightarrow> look u s)"
begin

lemma accepted: "fst (check now t s) = Some w \<longleftrightarrow> t \<noteq> [] \<and> (\<exists>r. look t s = Some r \<and> live now r s \<and> who r = w)"
  by (auto simp: check_answer split: option.split)

lemma refused_is_final:
  assumes "fst (check now t s) = None"
  shows "fst (check now' t (snd (check now t s))) = None"
  using assms by (auto simp: check_answer check_state discarded_gone split: option.splits if_splits)

lemma discarded_refused: "fst (check now t (discard t s)) = None"
  by (simp add: check_answer discarded_gone)

lemma check_others:
  "digest u \<noteq> digest t \<Longrightarrow> look u (snd (check now t s)) = look u s"
  by (simp add: check_state look_discard split: option.split)

lemma check_keeps_accepted:
  "fst (check now t s) = Some w \<Longrightarrow> look u (snd (check now t s)) = look u s"
  by (auto simp: accepted check_state)

end

section \<open>Login tokens\<close>

abbreviation digest_of :: "string \<Rightarrow> string" where
  "digest_of t \<equiv> token_at_rest (Some t)"

definition login_issued :: "string \<Rightarrow> admin_token_row \<Rightarrow> db \<Rightarrow> db \<Rightarrow> bool" where
  "login_issued t r d d' =
     (\<exists>u role e. d' = create_admin_token t u role e d \<and>
        r = \<lparr>at_token = digest_of t, at_username = u, at_role = Some role, at_expiry = Some e\<rparr>)"

interpretation login: token_check digest_of "\<lambda>t. find_admin_token (Some t)" login_issued
  "\<lambda>t. delete_admin_token (Some t)" "\<lambda>now r d. \<not> token_stale now r d" "\<lambda>r. (at_username r, at_role r)"
  "\<lambda>now t. resolve_admin_token now (Some t)"
proof
  show "find_admin_token (Some u) d' = (if digest_of u = digest_of t then Some r else find_admin_token (Some u) d)"
    if "login_issued t r d d'" for t r d d' u
    using that by (auto simp: login_issued_def admin_simps)
  show "find_admin_token (Some u) (delete_admin_token (Some t) d) =
      (if digest_of u = digest_of t then None else find_admin_token (Some u) d)" if "t \<noteq> []" for t u d
    using that by (simp add: admin_simps)
  show "fst (resolve_admin_token now (Some t) d) = (if t = [] then None
      else case find_admin_token (Some t) d of None \<Rightarrow> None
        | Some r \<Rightarrow> if \<not> token_stale now r d then Some (at_username r, at_role r) else None)" for now t d
    by (simp add: resolve_admin_token_def split: option.split)
  show "find_admin_token (Some u) (snd (resolve_admin_token now (Some t) d)) =
      (case find_admin_token (Some t) d of
         Some r \<Rightarrow> if t \<noteq> [] \<and> \<not> \<not> token_stale now r d
                   then find_admin_token (Some u) (delete_admin_token (Some t) d)
                   else find_admin_token (Some u) d
       | None \<Rightarrow> find_admin_token (Some u) d)" for u now t d
    by (simp add: resolve_admin_token_def delete_admin_token_def split: option.split)
qed

section \<open>Portal sessions\<close>

definition session_issued :: "string \<Rightarrow> portal_session_row \<Rightarrow> db \<Rightarrow> db \<Rightarrow> bool" where
  "session_issued t r d d' =
     (\<exists>now e ip. create_portal_session now t e ip d = Some d' \<and>
        r = \<lparr>ps_id = portal_session_seq d + 1, ps_token = digest_of t, ps_created = now,
             ps_expires = e, ps_ip = ip\<rparr>)"

definition session_check :: "instant \<Rightarrow> string \<Rightarrow> db \<Rightarrow> unit option \<times> db" where
  "session_check now t d =
     (case validate_session now t d of (b, d') \<Rightarrow> (if b then Some () else None, d'))"

interpretation portal: token_check digest_of get_portal_session session_issued
  delete_portal_session_by_token "\<lambda>now r d. now \<le> ps_expires r" "\<lambda>r. ()" session_check
proof
  show "get_portal_session u d' = (if digest_of u = digest_of t then Some r else get_portal_session u d)"
    if "session_issued t r d d'" for t r d d' u
    using that by (auto simp: session_issued_def portal_simps)
  show "get_portal_session u (delete_portal_session_by_token t d) =
      (if digest_of u = digest_of t then None else get_portal_session u d)" if "t \<noteq> []" for t u d
    by (rule session_deleted)
  show "fst (session_check now t d) = (if t = [] then None
      else case get_portal_session t d of None \<Rightarrow> None
        | Some r \<Rightarrow> if now \<le> ps_expires r then Some () else None)" for now t d
    by (auto simp: session_check_def validate_session_def split: option.split)
  show "get_portal_session u (snd (session_check now t d)) =
      (case get_portal_session t d of
         Some r \<Rightarrow> if t \<noteq> [] \<and> \<not> now \<le> ps_expires r
                   then get_portal_session u (delete_portal_session_by_token t d)
                   else get_portal_session u d
       | None \<Rightarrow> get_portal_session u d)" for u now t d
    by (auto simp: session_check_def validate_session_def split: option.split)
qed

end
