(* ===== verification/Cmd_Common.thy ===== *)
theory Cmd_Common
  imports Shell
begin

text \<open>
  What the command builders share: the result of a builder, the validators of
  \<^verbatim>\<open>client/_validators.py\<close>, the package manager dispatch of \<^verbatim>\<open>client/_pkgmgr.py\<close> and the list of
  critical locations of \<^verbatim>\<open>client/system_paths.py\<close> with the lexical path normalisation it relies on.
  A builder that raises returns \<open>Inl\<close>; the text of the message, and with it the label a validator
  puts into it, is not modelled.
\<close>

section \<open>Results\<close>

datatype builder_error = Value_Error | Runtime_Error

type_synonym 'a checked = "builder_error + 'a"

definition and_then :: "'a checked \<Rightarrow> ('a \<Rightarrow> 'b checked) \<Rightarrow> 'b checked" where
  "and_then v f = (case v of Inl e \<Rightarrow> Inl e | Inr y \<Rightarrow> f y)"

text \<open>\<open>x or y\<close> on texts.\<close>

definition if_empty :: "string \<Rightarrow> string \<Rightarrow> string" where
  "if_empty x y = (if x = [] then y else x)"

text \<open>\<^verbatim>\<open>str.split()\<close>: the runs between white space.\<close>

fun words_from :: "string \<Rightarrow> string \<Rightarrow> string list" where
  "words_from w [] = (if w = [] then [] else [w])"
| "words_from w (c # cs) =
     (if is_space c then (if w = [] then words_from [] cs else w # words_from [] cs)
      else words_from (w @ [c]) cs)"

definition split_words :: "string \<Rightarrow> string list" where
  "split_words s = words_from [] s"

text \<open>Two characters a text literal cannot hold everywhere.\<close>

abbreviation BS :: string where
  "BS \<equiv> [CHR 0x5C]"

abbreviation SQ :: string where
  "SQ \<equiv> [CHR 0x27]"

abbreviation has_newline :: "string \<Rightarrow> bool" where
  "has_newline s \<equiv> CHR 0x0A \<in> set s \<or> CHR 0x0D \<in> set s"

lemma and_then_simps [simp]: "and_then (Inl e) f = Inl e" "and_then (Inr x) f = f x"
  by (simp_all add: and_then_def)

lemma and_then_Inr: "and_then v f = Inr y \<longleftrightarrow> (\<exists>x. v = Inr x \<and> f x = Inr y)"
  by (cases v) auto

lemma confined_and_then:
  assumes "\<And>x y. v x = Inr y \<Longrightarrow> y = h x" "confined args (\<lambda>x. f x (h x))"
  shows "confined args (\<lambda>x. and_then (v x) (f x))"
proof (rule confined_same [OF assms(2)])
  fix x s
  assume "and_then (v x) (f x) = Inr s"
  then obtain y where y: "v x = Inr y" "f x y = Inr s" by (auto simp: and_then_Inr)
  then show "f x (h x) = Inr s" using assms(1) [OF y(1)] by simp
qed

text \<open>A value that is only let through if the shell takes it as it stands needs no quoting.\<close>

lemma quote_safe: "s \<noteq> [] \<and> list_all safe_char s \<Longrightarrow> quote s = s"
  by (simp add: quote_def)

lemma confined_and_then_safe:
  assumes "\<And>x y. v x = Inr y \<Longrightarrow> y = h x \<and> quote y = y" "confined args (\<lambda>x. f x (quote (h x)))"
  shows "confined args (\<lambda>x. and_then (v x) (f x))"
proof (rule confined_same [OF assms(2)])
  fix x s
  assume "and_then (v x) (f x) = Inr s"
  then obtain y where y: "v x = Inr y" "f x y = Inr s" by (auto simp: and_then_Inr)
  moreover have "y = h x" "quote (h x) = h x" using assms(1) [OF y(1)] by auto
  ultimately show "f x (quote (h x)) = Inr s" by simp
qed

lemma confined_check:
  "confined args (\<lambda>x. f x ()) \<Longrightarrow> confined args (\<lambda>x. and_then (v x) (f x))"
  by (rule confined_and_then [where h = "\<lambda>x. ()"]) auto

lemma free_and_then: "injection_free (\<lambda>x. f x (projr (v x))) \<Longrightarrow> injection_free (\<lambda>x. and_then (v x) (f x))"
  by (rule free_same) (auto simp: and_then_Inr)

lemma free_and_then_safe:
  assumes "\<And>x y. v x = Inr y \<Longrightarrow> quote y = y" "injection_free (\<lambda>x. f x (quote (projr (v x))))"
  shows "injection_free (\<lambda>x. and_then (v x) (f x))"
  by (rule free_same [OF assms(2)]) (use assms(1) in \<open>auto simp: and_then_Inr\<close>)

named_theorems confined_rules \<open>how a builder reads on after a validator\<close>

lemma starts_with_single: "starts_with [c] s \<longleftrightarrow> (\<exists>t. s = c # t)"
  by (cases s) (auto simp: starts_with_def)

lemma words_from_nonempty: "w \<in> set (words_from u s) \<Longrightarrow> w \<noteq> []"
  by (induction u s rule: words_from.induct) (auto split: if_splits)

section \<open>Validators\<close>

definition validate_int_range :: "string \<Rightarrow> int \<Rightarrow> int \<Rightarrow> int checked" where
  "validate_int_range v lo hi =
     (case parse_int v of None \<Rightarrow> Inl Value_Error
      | Some n \<Rightarrow> if \<not> (lo \<le> n \<and> n \<le> hi) then Inl Value_Error else Inr n)"

definition validate_nonempty_line :: "string \<Rightarrow> string checked" where
  "validate_nonempty_line v =
     (let s = strip v
      in if s = [] then Inl Value_Error
         else if has_newline s then Inl Value_Error
         else Inr s)"

definition usergroup_start :: "char \<Rightarrow> bool" where
  "usergroup_start c = (is_upper c \<or> is_lower c \<or> c = CHR ''_'')"

definition usergroup_char :: "char \<Rightarrow> bool" where
  "usergroup_char c = (is_alnum c \<or> c \<in> set ''_.-'')"

definition validate_user_or_group :: "string \<Rightarrow> string checked" where
  "validate_user_or_group name =
     (let s = strip name
      in if s = [] then Inl Value_Error
         else if \<not> (usergroup_start (hd s) \<and> list_all usergroup_char (tl s)) then Inl Value_Error
         else Inr s)"

named_theorems accepted \<open>what a validator returns if it accepts\<close>

lemma accepted_common [accepted]:
  "validate_int_range v lo hi = Inr n \<Longrightarrow> n = the (parse_int v)"
  "validate_nonempty_line v = Inr s \<Longrightarrow> s = strip v"
  "validate_user_or_group v = Inr s \<Longrightarrow> s = strip v"
  by (auto simp: validate_int_range_def validate_nonempty_line_def validate_user_or_group_def Let_def
      split: option.splits if_splits)

lemma usergroup_safe: "usergroup_start c \<Longrightarrow> safe_char c" "usergroup_char c \<Longrightarrow> safe_char c"
  by (auto simp: usergroup_start_def usergroup_char_def safe_char_def is_alnum_def)

lemma user_or_group_safe:
  assumes "validate_user_or_group v = Inr s"
  shows "s \<noteq> [] \<and> list_all safe_char s"
proof -
  have "s \<noteq> []" "usergroup_start (hd s)" "list_all usergroup_char (tl s)"
    using assms by (auto simp: validate_user_or_group_def Let_def split: if_splits)
  then show ?thesis by (cases s) (auto simp: usergroup_safe list_all_iff)
qed

lemma confined_common [confined_rules]:
  "confined args (\<lambda>x. f x (the (parse_int (p x)))) \<Longrightarrow>
     confined args (\<lambda>x. and_then (validate_int_range (p x) (lo x) (hi x)) (f x))"
  "confined args (\<lambda>x. g x (strip (p x))) \<Longrightarrow> confined args (\<lambda>x. and_then (validate_nonempty_line (p x)) (g x))"
  "confined args (\<lambda>x. g x (strip (p x))) \<Longrightarrow> confined args (\<lambda>x. and_then (validate_user_or_group (p x)) (g x))"
  subgoal by (rule confined_and_then) (auto intro: accepted)
  subgoal by (rule confined_and_then) (auto intro: accepted)
  subgoal by (rule confined_and_then) (auto intro: accepted)
  done

section \<open>Package managers\<close>

definition pkgmgr_detect_fragment :: "string \<Rightarrow> string" where
  "pkgmgr_detect_fragment var =
     ''if command -v dnf >/dev/null 2>&1; then '' @ var @
          ''=dnf; elif command -v yum >/dev/null 2>&1; then '' @ var @
          ''=yum; elif command -v zypper >/dev/null 2>&1; then '' @ var @
          ''=zypper; elif command -v apt-get >/dev/null 2>&1; then '' @ var @
          ''=apt-get; elif command -v pacman >/dev/null 2>&1; then '' @ var @
          ''=pacman; else echo 'No supported package manager found (looked for dnf, '' @
          ''yum, zypper, apt-get, pacman).' >&2; exit 1; fi''"

definition pacman_install :: "string \<Rightarrow> string" where
  "pacman_install pkgs =
     ''pacman -Sy --needed --noconfirm '' @ pkgs"

definition pkgmgr_dispatch :: "string \<Rightarrow> string \<Rightarrow> string \<Rightarrow> string option \<Rightarrow> string" where
  "pkgmgr_dispatch rpm_cmd zypper_cmd apt_cmd pacman =
     (let detect = pkgmgr_detect_fragment ''PKGMGR'';
          pacman_cmd = (case pacman of Some cmd \<Rightarrow> cmd | None \<Rightarrow>
           ''echo 'This action is not supported on Arch Linux (pacman) yet.' >&2; exit '' @
           ''1'')
      in detect @ ''; if [ \"$PKGMGR\" = \"dnf\" ] || [ \"$PKGMGR\" = \"yum\" ]; then '' @ rpm_cmd @
         ''; elif [ \"$PKGMGR\" = \"zypper\" ]; then '' @ zypper_cmd @
         ''; elif [ \"$PKGMGR\" = \"pacman\" ]; then '' @ pacman_cmd @ ''; else '' @ apt_cmd @ ''; fi'')"

definition ZYPPER_INFO_SUCCESS :: "int list" where
  "ZYPPER_INFO_SUCCESS = [0, 100, 101, 102, 103]"

definition zypper_transaction :: "string \<Rightarrow> bool \<Rightarrow> string" where
  "zypper_transaction cmd rerun_on_restart =
     (let ok = join ''|'' (map show_int ZYPPER_INFO_SUCCESS);
          rerun = (if rerun_on_restart then
            ''if [ \"$_zrc\" -eq 103 ]; then echo 'zypper updated the package manager itself '' @
            ''(exit 103); re-running once, as zypper instructs, to apply the rest.' >&2; '' @
            cmd @ ''; _zrc=$?; fi; ''
            else [])
      in cmd @ ''; _zrc=$?; '' @ rerun @ ''case \"$_zrc\" in '' @ ok @
         '') _zrc=0 ;; esac; (exit \"$_zrc\")'')"

lemma detect_reads [read_simps]:
  "run_reader (Gap, fs, h) (pkgmgr_detect_fragment ''PKGMGR'') = (Inword, fs, h)"
  unfolding pkgmgr_detect_fragment_def by (simp only: read_simps)

section \<open>Lexical paths\<close>

text \<open>\<^verbatim>\<open>posixpath.normpath\<close>: two leading slashes, and only two, are kept as they are.\<close>

definition initial_slashes :: "string \<Rightarrow> nat" where
  "initial_slashes path =
     (if \<not> starts_with ''/'' path then 0
      else if starts_with ''//'' path \<and> \<not> starts_with ''///'' path then 2 else 1)"

fun norm_comps :: "bool \<Rightarrow> string list \<Rightarrow> string list \<Rightarrow> string list" where
  "norm_comps rooted acc [] = acc"
| "norm_comps rooted acc (part # parts) =
     (if part = [] \<or> part = ''.'' then norm_comps rooted acc parts
      else if part \<noteq> ''..'' \<or> (\<not> rooted \<and> acc = []) \<or> (acc \<noteq> [] \<and> last acc = ''..'')
      then norm_comps rooted (acc @ [part]) parts
      else norm_comps rooted (butlast acc) parts)"

definition normpath :: "string \<Rightarrow> string" where
  "normpath path =
     (if path = [] then ''.''
      else (let n = initial_slashes path;
                p = replicate n (CHR ''/'') @
                      join ''/'' (norm_comps (0 < n) [] (split_on (CHR ''/'') path))
            in if p = [] then ''.'' else p))"

section \<open>System-critical locations\<close>

definition CRITICAL_DIRS :: "string list" where
  "CRITICAL_DIRS =
     [''/'', ''/bin'', ''/sbin'', ''/lib'', ''/lib32'', ''/lib64'', ''/libx32'', ''/usr'',
      ''/usr/bin'', ''/usr/sbin'', ''/usr/lib'', ''/usr/lib64'', ''/usr/local'', ''/etc'',
      ''/etc/systemd'', ''/etc/ssh'', ''/etc/pam.d'', ''/etc/sudoers.d'', ''/etc/selinux'',
      ''/etc/default'', ''/etc/security'', ''/var'', ''/var/lib'', ''/var/log'', ''/var/run'',
      ''/var/lib/dpkg'', ''/var/lib/rpm'', ''/boot'', ''/boot/efi'', ''/boot/grub'',
      ''/boot/grub2'', ''/dev'', ''/proc'', ''/sys'', ''/run'', ''/run/systemd'', ''/root'',
      ''/home'', ''/srv'', ''/opt'', ''/tmp'', ''/mnt'', ''/media'']"

definition CRITICAL_FILES :: "string list" where
  "CRITICAL_FILES =
     [''/etc/passwd'', ''/etc/shadow'', ''/etc/group'', ''/etc/gshadow'', ''/etc/sudoers'',
      ''/etc/login.defs'', ''/etc/securetty'', ''/etc/pam.conf'', ''/etc/nsswitch.conf'',
      ''/etc/fstab'', ''/etc/crypttab'', ''/etc/mtab'', ''/etc/hosts'', ''/etc/hostname'',
      ''/etc/resolv.conf'', ''/etc/host.conf'', ''/etc/machine-id'', ''/etc/os-release'',
      ''/etc/networks'', ''/etc/exports'', ''/etc/profile'', ''/etc/bashrc'',
      ''/etc/bash.bashrc'', ''/etc/environment'', ''/etc/inittab'', ''/etc/sysctl.conf'',
      ''/etc/default/grub'', ''/boot/grub/grub.cfg'', ''/boot/grub2/grub.cfg'',
      ''/etc/ssh/sshd_config'', ''/etc/selinux/config'', ''/sbin/init'', ''/usr/sbin/init'',
      ''/lib/systemd/systemd'', ''/usr/lib/systemd/systemd'', ''/opt/sysible'']"

definition CRITICAL_EXACT :: "string list" where
  "CRITICAL_EXACT = CRITICAL_DIRS @ CRITICAL_FILES"

definition CRITICAL_PREFIXES :: "string list" where
  "CRITICAL_PREFIXES =
     [''/boot/'', ''/etc/'', ''/dev/'', ''/proc/'', ''/sys/'', ''/run/systemd/'', ''/bin/'',
      ''/sbin/'', ''/lib/'', ''/lib64/'', ''/usr/bin/'', ''/usr/sbin/'', ''/usr/lib/'',
      ''/usr/lib64/'', ''/var/lib/dpkg/'', ''/var/lib/rpm/'']"

definition normalize :: "string \<Rightarrow> string" where
  "normalize path = (let p = strip path in if p = [] then [] else normpath p)"

text \<open>The reason as data: the sentence names the path and, in the last case, the location.\<close>

datatype critical = Critical_File string | Critical_Dir string | Critical_Under string string

definition system_critical_reason :: "string \<Rightarrow> critical option" where
  "system_critical_reason path =
     (let p = normalize path
      in if p = [] then None
         else if p \<in> set CRITICAL_EXACT
         then Some (if p \<in> set CRITICAL_FILES then Critical_File p else Critical_Dir p)
         else map_option (Critical_Under p) (find (\<lambda>pref. starts_with pref (p @ ''/'')) CRITICAL_PREFIXES))"

definition is_system_critical :: "string \<Rightarrow> bool" where
  "is_system_critical path = (system_critical_reason path \<noteq> None)"

end
