(* ===== verification/Shell_Uniform.thy ===== *)
theory Shell_Uniform
  imports Cmd_Common
begin

text \<open>
  Reading a command piece by piece.  \<open>reads r f r'\<close> says of a text \<open>f x\<close> with parts that depend on the
  inputs \<open>x\<close> that the shell, starting to read it in state \<open>r\<close>, always ends in \<open>r'\<close> and reads one of
  finitely many fixed sequences in which only whole literal words depend on \<open>x\<close>.  It composes along
  concatenations, conditionals and joins, so it also covers commands put together from lists.
\<close>

definition reads :: "reader \<Rightarrow> ('a \<Rightarrow> string) \<Rightarrow> reader \<Rightarrow> bool" where
  "reads r f r' \<longleftrightarrow>
     (\<exists>shapes. \<forall>x. (\<exists>ps \<in> set shapes. events r (f x) = pieces_read x ps) \<and> run_reader r (f x) = r')"

lemma pieces_read_append: "pieces_read x (ps @ qs) = pieces_read x ps @ pieces_read x qs"
  by (simp add: pieces_read_def)

lemma free_reads: "reads (Gap, [], None) f r' \<Longrightarrow> injection_free (\<lambda>x. Inr (f x))"
  unfolding reads_def injection_free_def shell_read_def start_def by (elim exE, intro exI allI impI) auto

lemma reads_shape: "(\<And>x. events r (f x) = pieces_read x ps \<and> run_reader r (f x) = r') \<Longrightarrow> reads r f r'"
  unfolding reads_def by (rule exI [of _ "[ps]"]) simp

lemma reads_const: "run_reader r s = r' \<Longrightarrow> reads r (\<lambda>_. s) r'"
  by (rule reads_shape [where ps = "[Text (events r s)]"]) (simp add: pieces_read_def)

lemma reads_hole:
  assumes "\<And>x. events r (f x) = arg_read (a x)" "\<And>x. run_reader r (f x) = r'"
  shows "reads r f r'"
  by (rule reads_shape [where ps = "[Hole a]"]) (simp add: pieces_read_def assms)

lemma reads_append:
  assumes "reads r f r1" "reads r1 g r2"
  shows "reads r (\<lambda>x. f x @ g x) r2"
proof -
  obtain P where P: "\<And>x. (\<exists>ps \<in> set P. events r (f x) = pieces_read x ps) \<and> run_reader r (f x) = r1"
    using assms(1) unfolding reads_def by (elim exE) blast
  obtain Q where Q: "\<And>x. (\<exists>qs \<in> set Q. events r1 (g x) = pieces_read x qs) \<and> run_reader r1 (g x) = r2"
    using assms(2) unfolding reads_def by (elim exE) blast
  let ?S = "concat (map (\<lambda>ps. map (\<lambda>qs. ps @ qs) Q) P)"
  have "(\<exists>ps \<in> set ?S. events r (f x @ g x) = pieces_read x ps) \<and> run_reader r (f x @ g x) = r2" for x
  proof -
    obtain ps where ps: "ps \<in> set P" "events r (f x) = pieces_read x ps" using P [of x] by blast
    obtain qs where qs: "qs \<in> set Q" "events r1 (g x) = pieces_read x qs" using Q [of x] by blast
    have "ps @ qs \<in> set ?S" using ps(1) qs(1) by auto
    moreover have "events r (f x @ g x) = pieces_read x (ps @ qs)"
      using P [of x] ps(2) qs(2) by (simp add: events_append pieces_read_append)
    moreover have "run_reader r (f x @ g x) = r2" using P [of x] Q [of x] by (simp add: run_reader_append)
    ultimately show ?thesis by blast
  qed
  then show ?thesis unfolding reads_def by blast
qed

lemma reads_if:
  assumes "reads r f r'" "reads r g r'"
  shows "reads r (\<lambda>x. if c x then f x else g x) r'"
proof -
  obtain P where "\<And>x. (\<exists>ps \<in> set P. events r (f x) = pieces_read x ps) \<and> run_reader r (f x) = r'"
    using assms(1) unfolding reads_def by (elim exE) blast
  moreover obtain Q where "\<And>x. (\<exists>qs \<in> set Q. events r (g x) = pieces_read x qs) \<and> run_reader r (g x) = r'"
    using assms(2) unfolding reads_def by (elim exE) blast
  ultimately have "(\<exists>ps \<in> set (P @ Q). events r (if c x then f x else g x) = pieces_read x ps) \<and>
      run_reader r (if c x then f x else g x) = r'" for x
    by (cases "c x") (simp_all, blast+)
  then show ?thesis unfolding reads_def by blast
qed

lemma reads_same:
  "reads r f r' \<Longrightarrow> (\<And>x. g x = f x) \<Longrightarrow> reads r g r'"
  by (subgoal_tac "g = f") auto

text \<open>The branches may end in different states that the text after them makes equal.\<close>

lemma reads_if_then:
  assumes "reads r f ra" "reads r g rb" "run_reader ra s = r1" "run_reader rb s = r1" "reads r1 k r2"
  shows "reads r (\<lambda>x. (if c x then f x else g x) @ s @ k x) r2"
proof -
  have "reads r (\<lambda>x. if c x then f x @ s @ k x else g x @ s @ k x) r2"
    by (rule reads_if; rule reads_append; (rule assms)?; rule reads_append [OF reads_const];
        (rule assms(3,4) assms(5))?)
  then show ?thesis by (rule reads_same) simp
qed

lemma reads_if_end:
  assumes "reads r f ra" "reads r g rb" "run_reader ra s = r1" "run_reader rb s = r1"
  shows "reads r (\<lambda>x. (if c x then f x else g x) @ s) r1"
  using reads_if_then [OF assms, of "\<lambda>x. []"] reads_const [of r1 "[]"] by simp

lemma reads_let: "reads r (\<lambda>x. f x (v x)) r' \<Longrightarrow> reads r (\<lambda>x. let y = v x in f x y) r'"
  by (simp add: Let_def)

lemma reads_quote:
  "reads (Gap, fs, h) (\<lambda>x. quote (v x)) (Inword, fs, h)"
  "reads (Inword, fs, h) (\<lambda>x. quote (v x)) (Inword, fs, h)"
  by (rule reads_hole [where a = "\<lambda>x. Word (v x)"]; simp add: read_quoted)+

lemma reads_quote_all:
  "(\<And>x. ws x \<noteq> []) \<Longrightarrow> reads (Gap, fs, h) (\<lambda>x. quote_all (ws x)) (Inword, fs, h)"
  "(\<And>x. ws x \<noteq> []) \<Longrightarrow> reads (Inword, fs, h) (\<lambda>x. quote_all (ws x)) (Inword, fs, h)"
  by (rule reads_hole [where a = "\<lambda>x. Words (ws x)"]; simp add: read_words)+

lemma reads_number:
  "reads (Gap, fs, h) (\<lambda>x. show_int (v x)) (Inword, fs, h)"
  "reads (Inword, fs, h) (\<lambda>x. show_int (v x)) (Inword, fs, h)"
  by (rule reads_hole [where a = "\<lambda>x. Word (show_int (v x))"]; simp add: read_number)+

text \<open>A list of words that may be empty, and what follows it.\<close>

lemma reads_words_then:
  assumes "run_reader (Gap, fs, h) s = r1" "run_reader (Inword, fs, h) s = r1" "reads r1 g r2"
  shows "reads (Gap, fs, h) (\<lambda>x. join '' '' (map quote (ws x)) @ s @ g x) r2"
proof -
  let ?P = "[Text (events (Gap, fs, h) s)]"
  let ?Q = "[Hole (\<lambda>x. Words (ws x)), Text (events (Inword, fs, h) s)]"
  have "(\<exists>ps \<in> set [?P, ?Q]. events (Gap, fs, h) (join '' '' (map quote (ws x)) @ s) = pieces_read x ps) \<and>
      run_reader (Gap, fs, h) (join '' '' (map quote (ws x)) @ s) = r1" for x
    using assms(1,2) read_words [of "ws x" Gap fs h]
    by (cases "ws x = []")
      (auto simp: pieces_read_def join_def quote_all_def events_append run_reader_append)
  then have "reads (Gap, fs, h) (\<lambda>x. join '' '' (map quote (ws x)) @ s) r1"
    unfolding reads_def by blast
  from reads_append [OF this assms(3)] show ?thesis by simp
qed

lemma reads_words_end:
  assumes "run_reader (Gap, fs, h) s = r1" "run_reader (Inword, fs, h) s = r1"
  shows "reads (Gap, fs, h) (\<lambda>x. join '' '' (map quote (ws x)) @ s) r1"
  using reads_words_then [OF assms, of "\<lambda>x. []"] reads_const [of r1 "[]"] by simp

lemma free_const: "injection_free (\<lambda>x. Inr s)"
  by (rule free_reads [OF reads_const]) (rule refl)

text \<open>Inside quotes: a text without the characters that end the quotes or start an expansion.\<close>

lemma read_in_single:
  assumes "CHR 0x27 \<notin> set s"
  shows "events (Single, fs, h) s = map Lit s" "run_reader (Single, fs, h) s = (Single, fs, h)"
  using assms
proof (induction s)
  case (Cons c s)
  {
    case 1
    then show ?case using Cons by (auto simp: kind_squote split: ckind.splits)
  next
    case 2
    then show ?case using Cons by (auto simp: kind_squote split: ckind.splits)
  }
qed simp_all

lemma reads_in_single:
  "(\<And>x. CHR 0x27 \<notin> set (v x)) \<Longrightarrow> reads (Single, fs, h) v (Single, fs, h)"
  by (rule reads_hole [where a = "\<lambda>x. Verbatim (v x)"]) (simp_all add: read_in_single)

definition plain_char :: "char \<Rightarrow> bool" where
  "plain_char c = (safe_char c \<or> c = CHR '' '')"

lemma kind_plain: "plain_char c \<Longrightarrow> kind c = Inert \<or> kind c = Blank"
  by (auto simp: plain_char_def kind_def)

lemma read_in_double:
  assumes "list_all plain_char s"
  shows "events (Double, fs, h) s = map Lit s \<and> run_reader (Double, fs, h) s = (Double, fs, h)"
  using assms by (induction s) (auto dest: kind_plain)

lemma reads_in_double:
  "(\<And>x. list_all plain_char (v x)) \<Longrightarrow> reads (Double, fs, h) v (Double, fs, h)"
  by (rule reads_hole [where a = "\<lambda>x. Verbatim (v x)"]) (simp_all add: read_in_double)

lemma safe_plain: "list_all safe_char s \<Longrightarrow> list_all plain_char s"
  by (auto simp: plain_char_def list_all_iff)

lemma safe_unquoted: "list_all safe_char s \<Longrightarrow> CHR 0x27 \<notin> set s"
  by (auto simp: list_all_iff safe_char_def is_alnum_def is_digit_def is_upper_def is_lower_def)

lemma reads_number_quoted:
  "reads (Single, fs, h) (\<lambda>x. show_int (v x)) (Single, fs, h)"
  "reads (Double, fs, h) (\<lambda>x. show_int (v x)) (Double, fs, h)"
  subgoal by (rule reads_in_single) (simp add: safe_unquoted safe_show_int)
  subgoal by (rule reads_in_double) (simp add: safe_plain safe_show_int)
  done

text \<open>Where a validated word stands unquoted, it reads as the word it is.  \<open>tame\<close> is the identity
  on such words and maps everything else to one of them.\<close>

definition tame :: "string \<Rightarrow> string" where
  "tame s = (if s \<noteq> [] \<and> list_all safe_char s then s else ''x'')"

lemma tame_safe: "tame s \<noteq> [] \<and> list_all safe_char (tame s)"
  by (simp add: tame_def safe_char_def is_alnum_def is_lower_def)

lemma tame_same: "s \<noteq> [] \<and> list_all safe_char s \<Longrightarrow> tame s = s"
  by (simp add: tame_def)

lemma quote_tame: "quote (tame s) = tame s"
  using tame_safe [of s] by (simp add: quote_safe)

lemma reads_tame:
  "reads (Gap, fs, h) (\<lambda>x. tame (v x)) (Inword, fs, h)" "reads (Inword, fs, h) (\<lambda>x. tame (v x)) (Inword, fs, h)"
  "reads (Single, fs, h) (\<lambda>x. tame (v x)) (Single, fs, h)" "reads (Double, fs, h) (\<lambda>x. tame (v x)) (Double, fs, h)"
  subgoal using reads_quote(1) [where v = "\<lambda>x. tame (v x)"] by (simp add: quote_tame)
  subgoal using reads_quote(2) [where v = "\<lambda>x. tame (v x)"] by (simp add: quote_tame)
  subgoal by (rule reads_in_single) (simp add: safe_unquoted tame_safe)
  subgoal by (rule reads_in_double) (simp add: safe_plain tame_safe)
  done

lemma free_and_then_tame:
  assumes "\<And>x y. v x = Inr y \<Longrightarrow> y \<noteq> [] \<and> list_all safe_char y"
    and "injection_free (\<lambda>x. f x (tame (projr (v x))))"
  shows "injection_free (\<lambda>x. and_then (v x) (f x))"
  by (rule free_same [OF assms(2)]) (use assms(1) in \<open>auto simp: and_then_Inr tame_same\<close>)

lemma free_and_then_known:
  assumes "\<And>x y. v x = Inr y \<Longrightarrow> y = k x" "injection_free (\<lambda>x. f x (k x))"
  shows "injection_free (\<lambda>x. and_then (v x) (f x))"
  by (rule free_same [OF assms(2)]) (use assms(1) in \<open>auto simp: and_then_Inr\<close>)

lemma free_if_tame:
  assumes "\<And>x. \<not> c x \<Longrightarrow> v x \<noteq> [] \<and> list_all safe_char (v x)"
    and "injection_free (\<lambda>x. f x (tame (v x)))"
  shows "injection_free (\<lambda>x. if c x then Inl e else f x (v x))"
  by (rule free_same [OF assms(2)]) (use assms(1) in \<open>auto simp: tame_same split: if_splits\<close>)

text \<open>The same for texts that may be empty, and for texts with blanks inside quotes.\<close>

definition wordish :: "string \<Rightarrow> string" where
  "wordish s = (if list_all safe_char s then s else [])"

definition plain :: "string \<Rightarrow> string" where
  "plain s = (if list_all plain_char s then s else [])"

lemma wordish_safe: "list_all safe_char (wordish s)"
  by (simp add: wordish_def)

lemma plain_plain: "list_all plain_char (plain s)"
  by (simp add: plain_def)

lemma wordish_same: "list_all safe_char s \<Longrightarrow> wordish s = s"
  by (simp add: wordish_def)

lemma plain_same: "list_all plain_char s \<Longrightarrow> plain s = s"
  by (simp add: plain_def)

lemma plain_unquoted: "list_all plain_char s \<Longrightarrow> CHR 0x27 \<notin> set s"
  by (auto simp: list_all_iff plain_char_def safe_char_def is_alnum_def is_digit_def is_upper_def is_lower_def)

lemma reads_wordish:
  "reads (Inword, fs, h) (\<lambda>x. wordish (v x)) (Inword, fs, h)"
  "reads (Single, fs, h) (\<lambda>x. wordish (v x)) (Single, fs, h)"
  "reads (Double, fs, h) (\<lambda>x. wordish (v x)) (Double, fs, h)"
proof -
  have v: "wordish (v x) = (if wordish (v x) = [] then [] else tame (wordish (v x)))" for x
    using wordish_safe [of "v x"] by (simp add: tame_same)
  show "reads (Inword, fs, h) (\<lambda>x. wordish (v x)) (Inword, fs, h)"
    by (subst v, rule reads_if, rule reads_const, simp, rule reads_tame)
  show "reads (Single, fs, h) (\<lambda>x. wordish (v x)) (Single, fs, h)"
    by (rule reads_in_single) (rule safe_unquoted, rule wordish_safe)
  show "reads (Double, fs, h) (\<lambda>x. wordish (v x)) (Double, fs, h)"
    by (rule reads_in_double) (rule safe_plain, rule wordish_safe)
qed

lemma reads_plain:
  "reads (Single, fs, h) (\<lambda>x. plain (v x)) (Single, fs, h)"
  "reads (Double, fs, h) (\<lambda>x. plain (v x)) (Double, fs, h)"
  subgoal by (rule reads_in_single) (rule plain_unquoted, rule plain_plain)
  subgoal by (rule reads_in_double) (rule plain_plain)
  done

section \<open>A line of a here-document\<close>

text \<open>A line that holds a character the delimiter does not have cannot end the text.\<close>

lemma read_line:
  assumes "CHR 0x0A \<notin> set s"
  shows "events (Line d t, fs, h) s = map Lit s" "events (mode.Text d, fs, h) s = map Lit s"
    "run_reader (mode.Text d, fs, h) s = (mode.Text d, fs, h)"
    "run_reader (Line d t, fs, h) s =
       (if s = [] \<or> take (length (t @ s)) d = t @ s then (Line d (t @ s), fs, h) else (mode.Text d, fs, h))"
proof -
  have k: "kind c \<noteq> Newline" if "c \<in> set s" for c
    using that assms by (auto simp: kind_def split: if_splits)
  show tail: "events (mode.Text d, fs, h) s = map Lit s" "run_reader (mode.Text d, fs, h) s = (mode.Text d, fs, h)"
    using k by (induction s) (auto split: ckind.splits)
  show "events (Line d t, fs, h) s = map Lit s"
    using k
  proof (induction s arbitrary: t)
    case (Cons c s)
    have t: "events (mode.Text d, fs, h) s = map Lit s"
      using Cons.prems by (induction s) (auto split: ckind.splits)
    show ?case using Cons t by (auto split: ckind.splits)
  qed simp
  show "run_reader (Line d t, fs, h) s =
      (if s = [] \<or> take (length (t @ s)) d = t @ s then (Line d (t @ s), fs, h) else (mode.Text d, fs, h))"
    using k
  proof (induction s arbitrary: t)
    case (Cons c s)
    have t: "run_reader (mode.Text d, fs, h) s = (mode.Text d, fs, h)"
      using Cons.prems by (induction s) (auto split: ckind.splits)
    have st: "step (Line d t, fs, h) c =
        (if take (length t + 1) d = t @ [c] then (Line d (t @ [c]), fs, h) else (mode.Text d, fs, h))"
      using Cons.prems [of c] by (auto split: ckind.splits)
    have up: "take (length (t @ c # s)) d = t @ c # s \<Longrightarrow> take (length t + 1) d = t @ [c]"
      by (drule arg_cong [where f = "take (length t + 1)"]) (simp add: min_def)
    show ?case
    proof (cases "take (length t + 1) d = t @ [c]")
      case True
      then show ?thesis using Cons.IH [of "t @ [c]"] Cons.prems st by (auto split: if_splits)
    next
      case False
      then show ?thesis using up st t by auto
    qed
  qed simp
qed

definition one_line :: "string \<Rightarrow> string" where
  "one_line s = filter (\<lambda>c. c \<noteq> CHR 0x0A) s"

lemma one_line_same: "CHR 0x0A \<notin> set s \<Longrightarrow> one_line s = s"
  by (auto simp: one_line_def filter_id_conv)

lemma reads_line:
  assumes "list_ex (\<lambda>c. c \<notin> set d) sep" "CHR 0x0A \<notin> set sep"
  shows "reads (Line d [], fs, None) (\<lambda>x. one_line (v x) @ sep @ one_line (w x)) (mode.Text d, fs, None)"
proof (rule reads_hole [where a = "\<lambda>x. Verbatim (one_line (v x) @ sep @ one_line (w x))"])
  fix x
  let ?s = "one_line (v x) @ sep @ one_line (w x)"
  have n: "CHR 0x0A \<notin> set ?s" using assms(2) by (simp add: one_line_def)
  obtain c where c: "c \<in> set sep" "c \<notin> set d" using assms(1) by (auto simp: list_ex_iff)
  have "take (length ?s) d \<noteq> ?s"
  proof
    assume "take (length ?s) d = ?s"
    then have "set ?s \<subseteq> set d" by (metis set_take_subset)
    then show False using c by auto
  qed
  moreover have "?s \<noteq> []" using c by auto
  ultimately show "events (Line d [], fs, None) ?s = arg_read (Verbatim ?s)"
    "run_reader (Line d [], fs, None) ?s = (mode.Text d, fs, None)"
    using read_line(1) [OF n, of d "[]" fs None] read_line(4) [OF n, of d "[]" fs None] by simp_all
qed

lemma reads_text:
  "(\<And>x. CHR 0x0A \<notin> set (v x)) \<Longrightarrow> reads (mode.Text d, fs, h) v (mode.Text d, fs, h)"
  by (rule reads_hole [where a = "\<lambda>x. Verbatim (v x)"]) (simp_all add: read_line)

lemma safe_one_line: "list_all safe_char s \<Longrightarrow> CHR 0x0A \<notin> set s"
  by (auto simp: list_all_iff safe_char_def is_alnum_def is_digit_def is_upper_def is_lower_def)

lemma reads_in_text:
  "reads (mode.Text d, fs, h) (\<lambda>x. show_int (n x)) (mode.Text d, fs, h)"
  "reads (mode.Text d, fs, h) (\<lambda>x. tame (v x)) (mode.Text d, fs, h)"
  "reads (mode.Text d, fs, h) (\<lambda>x. one_line (w x)) (mode.Text d, fs, h)"
  "reads (mode.Text d, fs, h) (\<lambda>x. wordish (v x)) (mode.Text d, fs, h)"
  by (rule reads_text, simp add: safe_one_line safe_show_int tame_safe one_line_def wordish_safe)+

lemmas reads_rules = reads_words_then reads_words_end reads_if_then reads_if_end reads_append reads_if reads_let reads_quote reads_number reads_number_quoted reads_tame
  reads_wordish reads_plain reads_in_text reads_const

section \<open>Texts joined from a list\<close>

lemma joined_if:
  "join sep (if c then a else b) = (if c then join sep a else join sep b)"
  "(if c then a else b) @ l = (if c then a @ l else b @ (l :: string list))"
  "l @ (if c then a else b) = (if c then l @ a else (l :: string list) @ b)"
  by simp_all

lemmas joined_simps = join_simps append_Cons [where 'a = string] append_Nil [where 'a = string] joined_if

lemma join_Cons: "join sep (w # v # ws) = w @ sep @ join sep (v # ws)"
  by (simp add: join_def)

lemma reads_joined:
  assumes "reads r g r'" "\<And>f. f \<in> set gs \<Longrightarrow> reads r f r'" "run_reader r' sep = r"
  shows "reads r (\<lambda>x. join sep (map (\<lambda>f. f x) (g # gs))) r'"
  using assms(1,2)
proof (induction gs arbitrary: g)
  case (Cons k gs)
  have "reads r (\<lambda>x. g x @ sep @ join sep (map (\<lambda>f. f x) (k # gs))) r'"
  proof (rule reads_append [OF Cons.prems(1)], rule reads_append)
    show "reads r' (\<lambda>_. sep) r" by (rule reads_const [OF assms(3)])
    show "reads r (\<lambda>x. join sep (map (\<lambda>f. f x) (k # gs))) r'"
      using Cons.prems(2) by (intro Cons.IH) simp_all
  qed
  then show ?case by (simp only: list.map join_Cons)
qed (simp add: join_def)

section \<open>Builders step by step\<close>

text \<open>\<^verbatim>\<open>int(s)\<close> in a builder that turns its error into one of its own, and the methods of texts the
  builders call beside those of the other components.\<close>

definition int_of :: "string \<Rightarrow> int checked" where
  "int_of s = (case parse_int s of None \<Rightarrow> Inl Value_Error | Some n \<Rightarrow> Inr n)"

definition upper :: "string \<Rightarrow> string" where
  "upper s = map (\<lambda>c. if is_lower c then char_of (of_char c - 32 :: nat) else c) s"

text \<open>\<^verbatim>\<open>str.replace\<close> for a text to be replaced that is not empty.\<close>

function replace_text :: "string \<Rightarrow> string \<Rightarrow> string \<Rightarrow> string" where
  "replace_text old new [] = []"
| "replace_text old new (c # cs) =
     (if old \<noteq> [] \<and> take (length old) (c # cs) = old
      then new @ replace_text old new (drop (length old) (c # cs))
      else c # replace_text old new cs)"
  by pat_completeness auto
termination by (relation "measure (\<lambda>(old, new, s). length s)") auto

named_theorems free_rules \<open>how a builder goes on after a validator\<close>

lemmas free_steps = free_and_then free_let free_if free_error free_reads reads_rules

lemmas free_split_steps = free_and_then free_let_if free_let free_if free_error free_reads reads_rules

lemma free_let_tame:
  assumes "\<And>x. \<not> c x (v x) \<Longrightarrow> v x \<noteq> [] \<and> list_all safe_char (v x)"
    and "injection_free (\<lambda>x. let y = tame (v x) in g x y)"
  shows "injection_free (\<lambda>x. let y = v x in if c x y then Inl e else g x y)"
  by (rule free_same [OF assms(2)]) (use assms(1) in \<open>auto simp: tame_same Let_def split: if_splits\<close>)

lemma free_let_let_tame:
  assumes "\<And>x. \<not> c x (v x) (w x (v x)) \<Longrightarrow> v x \<noteq> [] \<and> list_all safe_char (v x)"
    and "injection_free (\<lambda>x. let y = tame (v x); z = w x y in g x y z)"
  shows "injection_free (\<lambda>x. let y = v x; z = w x y in if c x y z then Inl e else g x y z)"
  by (rule free_same [OF assms(2)]) (use assms(1) in \<open>auto simp: tame_same Let_def split: if_splits\<close>)

lemma free_norm:
  assumes "\<And>x s. b x = Inr s \<Longrightarrow> N x = x" "injection_free (\<lambda>x. b (N x))"
  shows "injection_free b"
  by (rule free_same [OF assms(2)]) (metis assms(1))

text \<open>Methods of texts on the values these functions return.\<close>

lemma strip_tame [simp]: "strip (tame s) = tame s" "strip (wordish s) = wordish s"
proof -
  have "safe_char c \<Longrightarrow> \<not> is_space c" for c
    by (auto simp: safe_char_def is_alnum_def is_digit_def is_upper_def is_lower_def is_space_def Let_def)
  then have "list_all safe_char t \<Longrightarrow> strip t = t" for t
    by (intro strip_solid) (auto simp: list_all_iff)
  then show "strip (tame s) = tame s" "strip (wordish s) = wordish s"
    using tame_safe [of s] wordish_safe [of s] by auto
qed

lemma strip_plain [simp]: "strip (plain (strip s)) = plain (strip s)"
  by (simp add: plain_def)

lemma tame_not_Nil [simp]: "tame s \<noteq> []"
  using tame_safe [of s] by simp

lemma if_empty_tame [simp]: "if_empty (tame s) d = tame s"
  by (simp add: if_empty_def)

definition is_digits :: "string \<Rightarrow> bool" where
  "is_digits s \<longleftrightarrow> s \<noteq> [] \<and> list_all is_digit s"

lemma digits_tame: "is_digits s \<Longrightarrow> tame s = s"
  by (rule tame_same) (auto simp: is_digits_def list_all_iff safe_char_def is_alnum_def)

text \<open>Texts over a class of characters, as the regular expressions of the builders describe them.\<close>

definition over :: "(char \<Rightarrow> bool) \<Rightarrow> string \<Rightarrow> bool" where
  "over P s \<longleftrightarrow> s \<noteq> [] \<and> list_all P s"

lemma over_tame:
  assumes "\<And>c. P c \<Longrightarrow> safe_char c" "over P s"
  shows "tame s = s" "wordish s = s"
  using assms by (auto simp: over_def list_all_iff intro!: tame_same wordish_same)

lemma over_plain: "(\<And>c. P c \<Longrightarrow> plain_char c) \<Longrightarrow> over P s \<Longrightarrow> plain s = s"
  by (auto simp: over_def list_all_iff intro!: plain_same)

lemma set_strip: "set (strip s) \<subseteq> set s"
  unfolding strip_def by (auto dest!: set_dropWhileD)

lemma reads_one_line_of:
  "reads (mode.Text d, fs, h) (\<lambda>x. strip (one_line (v x))) (mode.Text d, fs, h)"
  "CHR 0x0A \<notin> set c \<Longrightarrow>
     reads (mode.Text d, fs, h) (\<lambda>x. if_empty (strip (one_line (v x))) c) (mode.Text d, fs, h)"
  "reads (mode.Text d, fs, h) (\<lambda>x. if_empty (strip (one_line (v x))) (one_line (w x))) (mode.Text d, fs, h)"
proof -
  have s: "CHR 0x0A \<notin> set (strip (one_line t))" for t
    using set_strip [of "one_line t"] by (auto simp: one_line_def)
  show "reads (mode.Text d, fs, h) (\<lambda>x. strip (one_line (v x))) (mode.Text d, fs, h)"
    by (rule reads_text) (rule s)
  show "reads (mode.Text d, fs, h) (\<lambda>x. if_empty (strip (one_line (v x))) c) (mode.Text d, fs, h)"
    if "CHR 0x0A \<notin> set c"
    using s that by (intro reads_text) (simp add: if_empty_def)
  show "reads (mode.Text d, fs, h) (\<lambda>x. if_empty (strip (one_line (v x))) (one_line (w x))) (mode.Text d, fs, h)"
    using s by (intro reads_text) (simp add: if_empty_def one_line_def)
qed

text \<open>A list of words that is checked to be there.\<close>

definition filled :: "string list \<Rightarrow> string list" where
  "filled ws = (if ws = [] then [''x''] else ws)"

lemma filled_not_Nil [simp]: "filled ws \<noteq> []"
  by (simp add: filled_def)

lemma reads_filled:
  "reads (Gap, fs, h) (\<lambda>x. quote_all (filled (ws x))) (Inword, fs, h)"
  "reads (Inword, fs, h) (\<lambda>x. quote_all (filled (ws x))) (Inword, fs, h)"
  by (rule reads_quote_all, simp)+

lemma joined_words: "join '' '' (map quote ws) \<noteq> [] \<Longrightarrow> join '' '' (map quote ws) = quote_all (filled ws)"
  by (cases "ws = []") (simp_all add: filled_def quote_all_def join_def)

text \<open>The commands of the package managers.\<close>

lemma zypper_success: "join ''|'' (map show_int ZYPPER_INFO_SUCCESS) = ''0|100|101|102|103''"
  by code_simp

lemmas package_managers = pkgmgr_dispatch_def [unfolded Let_def] zypper_transaction_def [unfolded Let_def]
  zypper_success option.case if_True if_False

section \<open>Finitely many cases\<close>

lemma free_cases:
  assumes "finite K" "\<And>x. k x \<in> K" "\<And>c. c \<in> K \<Longrightarrow> injection_free (f c)"
  shows "injection_free (\<lambda>x. f (k x) x)"
proof -
  have "\<exists>S. \<forall>x s. f c x = Inr s \<longrightarrow> (\<exists>ps \<in> set S. shell_read s = pieces_read x ps)" if "c \<in> K" for c
    using assms(3) [OF that] unfolding injection_free_def .
  then obtain S where S: "\<And>c x s. c \<in> K \<Longrightarrow> f c x = Inr s \<Longrightarrow>
      \<exists>ps \<in> set (S c). shell_read s = pieces_read x ps" by metis
  obtain L where L: "set L = K" using assms(1) finite_list by blast
  have "\<exists>ps \<in> set (concat (map S L)). shell_read s = pieces_read x ps" if "f (k x) x = Inr s" for x s
    using S [OF assms(2) that] assms(2) [of x] L by auto
  then show ?thesis unfolding injection_free_def by blast
qed

end
