(* ===== verification/Cmd_Automation.thy ===== *)
theory Cmd_Automation
  imports Shell_Uniform
begin

text \<open>
  The builders of \<^verbatim>\<open>client/_api_automation.py\<close>: cron jobs, systemd timers, environment variables
  and aliases, packages, release upgrades and the installation of Salt.
\<close>

section \<open>Validators\<close>

definition reject_newlines :: "string \<Rightarrow> string checked" where
  "reject_newlines v = (if has_newline v then Inl Value_Error else Inr v)"

definition safe_unit_base :: "string \<Rightarrow> string checked" where
  "safe_unit_base name =
     (let n = strip name
      in if CHR ''/'' \<in> set n \<or> CHR 0x5C \<in> set n \<or> is_substring ''..'' n then Inl Value_Error else Inr n)"

definition timer_unit :: "string \<Rightarrow> string checked" where
  "timer_unit name =
     and_then (safe_unit_base name) (\<lambda>name.
     if name = [] then Inl Value_Error
     else Inr (if ends_with ''.timer'' name then name else name @ ''.timer''))"

text \<open>\<^verbatim>\<open>if s.endswith(suffix): s = s[: -len(suffix)]\<close>.\<close>

definition drop_suffix :: "string \<Rightarrow> string \<Rightarrow> string" where
  "drop_suffix suffix s = (if ends_with suffix s then take (length s - length suffix) s else s)"

definition env_key :: "string \<Rightarrow> bool" where
  "env_key s = (s \<noteq> [] \<and> (is_upper (hd s) \<or> is_lower (hd s) \<or> hd s = CHR ''_'') \<and>
                 list_all (\<lambda>c. is_alnum c \<or> c = CHR ''_'') (tl s))"

definition validate_env_key :: "string \<Rightarrow> string checked" where
  "validate_env_key name = (let key = strip name in if \<not> env_key key then Inl Value_Error else Inr key)"

definition alias_name :: "string \<Rightarrow> bool" where
  "alias_name s = (s \<noteq> [] \<and> (is_upper (hd s) \<or> is_lower (hd s) \<or> hd s = CHR ''_'') \<and>
                    list_all (\<lambda>c. is_alnum c \<or> c \<in> set ''_-'') (tl s))"

definition validate_alias_name :: "string \<Rightarrow> string checked" where
  "validate_alias_name name = (let a = strip name in if \<not> alias_name a then Inl Value_Error else Inr a)"

definition pkg_quote_list :: "string \<Rightarrow> string checked" where
  "pkg_quote_list text =
     (if list_ex (starts_with ''-'') (split_words text) then Inl Value_Error
      else Inr (join '' '' (map quote (split_words text))))"

definition repo_alias :: "string \<Rightarrow> bool" where
  "repo_alias = over (\<lambda>c. is_alnum c \<or> c \<in> set ''_.-'')"

definition validate_repo_alias :: "string \<Rightarrow> string checked" where
  "validate_repo_alias alias =
     (let alias = strip alias
      in if alias = [] then Inl Value_Error else if \<not> repo_alias alias then Inl Value_Error else Inr alias)"

text \<open>The resolver flags of an update: known words in the order they were given, once each.\<close>

definition RPM_UPDATE_FLAGS :: "(string \<times> string) list" where
  "RPM_UPDATE_FLAGS =
     [(''nobest'', ''--nobest''), (''skip-broken'', ''--skip-broken''), (''allowerasing'', ''--allowerasing'')]"

fun mapped_flags :: "string list \<Rightarrow> string list \<Rightarrow> string list" where
  "mapped_flags out [] = out"
| "mapped_flags out (tok # toks) =
     (case map_of RPM_UPDATE_FLAGS (dropWhile (\<lambda>c. c = CHR ''-'') (strip tok)) of
        None \<Rightarrow> mapped_flags out toks
      | Some mapped \<Rightarrow> mapped_flags (if mapped \<in> set out then out else out @ [mapped]) toks)"

definition update_flags :: "string \<Rightarrow> string list" where
  "update_flags flags = mapped_flags [] (split_words (map (\<lambda>c. if c = CHR '','' then CHR '' '' else c) flags))"

definition rpm_update_flags :: "string \<Rightarrow> string" where
  "rpm_update_flags flags =
     (let out = update_flags flags in if out \<noteq> [] then '' '' @ join '' '' out else [])"

definition release_target :: "string \<Rightarrow> bool" where
  "release_target s =
     (s \<noteq> [] \<and> is_alnum (hd s) \<and> list_all (\<lambda>c. is_alnum c \<or> c \<in> set ''._-'') (tl s) \<and> length (tl s) \<le> 31)"

definition validate_release_target :: "string \<Rightarrow> string checked" where
  "validate_release_target target =
     (let t = strip target in if t = [] then Inr [] else if \<not> release_target t then Inl Value_Error else Inr t)"

text \<open>The packages that may ship Salt, per package manager.\<close>

definition SALT_PACKAGES :: "(string \<times> string list) list" where
  "SALT_PACKAGES =
     [(''apt-get'', [''salt-common'', ''salt-minion'', ''salt'']), (''dnf'', [''salt'', ''salt-minion'']),
      (''yum'', [''salt'', ''salt-minion'']), (''zypper'', [''salt'', ''salt-minion'']), (''pacman'', [''salt''])]"

section \<open>Builders\<close>

definition SYSIBLE_ENV_FILE :: string where
  "SYSIBLE_ENV_FILE =
     ''/etc/profile.d/sysible-env.sh''"

definition SYSIBLE_ALIAS_FILE :: string where
  "SYSIBLE_ALIAS_FILE =
     ''/etc/profile.d/sysible-aliases.sh''"

definition release_upgrade_script :: "string \<Rightarrow> bool \<Rightarrow> string checked" where
  "release_upgrade_script target assess =
     and_then (validate_release_target target) (\<lambda>t.
     let mode = if assess then ''assess'' else ''upgrade'' in
     Inr (''MODE='' @ mode @ ''\<newline>'' @ ''TARGET=\"'' @ t @ ''\"\<newline>'' @
          ''if [ ! -r /etc/os-release ]; then echo \"Cannot detect OS: /etc/os-release '' @
          ''is missing.\" >&2; exit 1; fi\<newline>'' @ ''. /etc/os-release\<newline>'' @
          ''echo \"Current OS: ${PRETTY_NAME:-${ID:-unknown}}\"\<newline>'' @ ''\<newline>'' @
          ''# Resolve the distro family (explicit IDs first, then ID_LIKE as a fallback).\<newline>'' @
          ''family=unknown\<newline>'' @ ''case \"${ID:-}\" in\<newline>'' @
          ''  fedora) family=fedora ;;\<newline>'' @
          ''  rhel|centos|rocky|almalinux|ol|oracle|scientific) family=rhel ;;\<newline>'' @
          ''  ubuntu) family=ubuntu ;;\<newline>'' @
          ''  debian|raspbian) family=debian ;;\<newline>'' @
          ''  opensuse-leap|opensuse|opensuse-microos) family=leap ;;\<newline>'' @
          ''  opensuse-tumbleweed) family=tumbleweed ;;\<newline>'' @
          ''  sles|sled|suse) family=sles ;;\<newline>'' @ ''  *)\<newline>'' @
          ''    case \" ${ID_LIKE:-} \" in\<newline>'' @
          ''      *rhel*|*centos*|*fedora*) family=rhel ;;\<newline>'' @
          ''      *suse*) family=leap ;;\<newline>'' @
          ''      *ubuntu*) family=ubuntu ;;\<newline>'' @
          ''      *debian*) family=debian ;;\<newline>'' @ ''    esac ;;\<newline>'' @
          ''esac\<newline>'' @ ''echo \"Upgrade family: $family (mode: $MODE)\"\<newline>'' @
          ''echo\<newline>'' @ ''\<newline>'' @ ''need_target() {\<newline>'' @
          ''  if [ -z \"$TARGET\" ]; then\<newline>'' @
          ''    echo \"This host ($family) needs an explicit target version '' @
          [CHR 0xE2, CHR 0x80, CHR 0x94] @ '' re-run '' @
          ''with the Target field set (e.g. $1).\" >&2\<newline>'' @ ''    exit 2\<newline>'' @
          ''  fi\<newline>'' @ ''}\<newline>'' @ ''\<newline>'' @
          ''case \"$family\" in\<newline>'' @ ''  rhel)\<newline>'' @
          ''    PKGMGR=\"$(command -v dnf 2>/dev/null || command -v yum 2>/dev/null)\"\<newline>'' @
          ''    if [ -z \"$PKGMGR\" ]; then echo \"No dnf/yum found '' @
          [CHR 0xE2, CHR 0x80, CHR 0x94] @ '' cannot run Leapp.\" '' @
          ''>&2; exit 1; fi\<newline>'' @
          ''    if ! \"$PKGMGR\" install -y leapp-upgrade; then\<newline>'' @
          ''      echo \"Could not install leapp-upgrade. Ensure the OS repos/subscription '' @
          ''that ship Leapp are enabled.\" >&2\<newline>'' @ ''      exit 1\<newline>'' @
          ''    fi\<newline>'' @ ''    if [ \"$MODE\" = assess ]; then\<newline>'' @
          ''      echo \"Running Leapp pre-upgrade assessment (no changes to the running '' @
          ''system)'' @ [CHR 0xE2, CHR 0x80, CHR 0xA6] @ ''\"\<newline>'' @
          ''      leapp preupgrade ${TARGET:+--target \"$TARGET\"} || true\<newline>'' @
          ''      echo\<newline>'' @
          ''      echo \"Review the report and resolve every inhibitor BEFORE upgrading:\"\<newline>'' @
          ''      echo \"  /var/log/leapp/leapp-report.txt\"\<newline>'' @ ''    else\<newline>'' @
          ''      echo \"Running Leapp upgrade (this refuses to proceed if inhibitors '' @
          ''remain)'' @ [CHR 0xE2, CHR 0x80, CHR 0xA6] @ ''\"\<newline>'' @
          ''      leapp upgrade ${TARGET:+--target \"$TARGET\"}\<newline>'' @
          ''      echo\<newline>'' @
          ''      echo \"Leapp staged the upgrade. REBOOT to run the actual upgrade '' @
          ''transaction:\"\<newline>'' @ ''      echo \"  sudo shutdown -r now\"\<newline>'' @
          ''      echo \"The first boot runs the RPM transaction in the upgrade initramfs '' @
          [CHR 0xE2, CHR 0x80, CHR 0x94] @ '' do NOT interrupt it.\"\<newline>'' @
          ''    fi\<newline>'' @ ''    ;;\<newline>'' @ ''\<newline>'' @ ''  fedora)\<newline>'' @
          ''    need_target \"40\"\<newline>'' @
          ''    if [ \"$MODE\" = assess ]; then\<newline>'' @
          ''      echo \"Plan: dnf system-upgrade to Fedora $TARGET. Assessment refreshes '' @
          ''metadata only.\"\<newline>'' @
          ''      dnf -y --refresh check-update >/dev/null 2>&1 || true\<newline>'' @
          ''      echo \"Ready. Run the upgrade action to download Fedora $TARGET, then '' @
          ''reboot to apply.\"\<newline>'' @ ''    else\<newline>'' @
          ''      dnf -y --refresh upgrade\<newline>'' @
          ''      # Install the plugin matching the ACTIVE dnf: on Fedora 41+ /usr/bin/dnf '' @
          ''is\<newline>'' @
          ''      # dnf5, which does not load the dnf4 Python plugin - installing the '' @
          ''dnf4\<newline>'' @
          ''      # `dnf-plugin-system-upgrade` there succeeds but never registers '' @
          ''the\<newline>'' @
          ''      # `system-upgrade` command, so download fails with \"unknown command\". '' @
          ''Key off\<newline>'' @
          ''      # the backend rather than relying on install-failure fallthrough.\<newline>'' @
          ''      if dnf --version 2>/dev/null | grep -q '^dnf5'; then\<newline>'' @
          ''        dnf -y install dnf5-plugin-system-upgrade || true\<newline>'' @
          ''      else\<newline>'' @
          ''        dnf -y install dnf-plugin-system-upgrade || true\<newline>'' @
          ''      fi\<newline>'' @
          ''      dnf -y system-upgrade download --releasever=\"$TARGET\"\<newline>'' @
          ''      echo\<newline>'' @
          ''      echo \"Downloaded Fedora $TARGET. Apply it with a reboot into the '' @
          ''offline upgrade:\"\<newline>'' @
          ''      echo \"  sudo dnf system-upgrade reboot\"\<newline>'' @ ''    fi\<newline>'' @
          ''    ;;\<newline>'' @ ''\<newline>'' @ ''  ubuntu)\<newline>'' @
          ''    export DEBIAN_FRONTEND=noninteractive\<newline>'' @
          ''    apt-get install -y update-manager-core >/dev/null 2>&1 || true\<newline>'' @
          ''    if [ \"$MODE\" = assess ]; then\<newline>'' @
          ''      echo \"Checking for an available Ubuntu release upgrade'' @
          [CHR 0xE2, CHR 0x80, CHR 0xA6] @ ''\"\<newline>'' @
          ''      if do-release-upgrade -c; then :; else\<newline>'' @
          ''        echo \"No new release offered (or /etc/update-manager/release-upgrades '' @
          ''Prompt= policy blocks it).\"\<newline>'' @ ''      fi\<newline>'' @
          ''    else\<newline>'' @ ''      apt-get update && apt-get -y upgrade\<newline>'' @
          ''      echo \"Starting do-release-upgrade (non-interactive)'' @
          [CHR 0xE2, CHR 0x80, CHR 0xA6] @ ''\"\<newline>'' @
          ''      do-release-upgrade -f DistUpgradeViewNonInteractive\<newline>'' @
          ''    fi\<newline>'' @ ''    ;;\<newline>'' @ ''\<newline>'' @ ''  debian)\<newline>'' @
          ''    echo \"Debian has no do-release-upgrade. Major-version upgrades are '' @
          ''done by:\" >&2\<newline>'' @
          ''    echo \"  1) point /etc/apt/sources.list (and sources.list.d/*) at the '' @
          ''new codename (e.g. bookworm)\" >&2\<newline>'' @
          ''    echo \"  2) apt-get update && apt-get -y upgrade && apt-get -y full-upgrade\" '' @
          ''>&2\<newline>'' @ ''    echo \"Sysible does not auto-rewrite Debian sources '' @
          [CHR 0xE2, CHR 0x80, CHR 0x94] @ '' run this through '' @
          ''your change process.\" >&2\<newline>'' @
          ''    [ \"$MODE\" = assess ] && exit 0 || exit 2\<newline>'' @ ''    ;;\<newline>'' @
          ''\<newline>'' @ ''  tumbleweed)\<newline>'' @
          ''    zypper --non-interactive refresh\<newline>'' @
          ''    if [ \"$MODE\" = assess ]; then\<newline>'' @
          ''      echo \"openSUSE Tumbleweed is rolling '' @ [CHR 0xE2, CHR 0x80, CHR 0x94] @
          '' assessing with a dry-run dup'' @ [CHR 0xE2, CHR 0x80, CHR 0xA6] @ ''\"\<newline>'' @
          ''      zypper --non-interactive dup --dry-run\<newline>'' @ ''    else\<newline>'' @
          ''      zypper --non-interactive dup\<newline>'' @ ''      echo\<newline>'' @
          ''      echo \"Distribution upgrade applied. Reboot to boot the new kernel: '' @
          ''sudo shutdown -r now\"\<newline>'' @ ''    fi\<newline>'' @ ''    ;;\<newline>'' @
          ''\<newline>'' @ ''  leap)\<newline>'' @ ''    need_target \"15.6\"\<newline>'' @
          ''    zypper --releasever=\"$TARGET\" refresh\<newline>'' @
          ''    if [ \"$MODE\" = assess ]; then\<newline>'' @
          ''      echo \"Assessing openSUSE Leap $TARGET distribution upgrade (dry-run)'' @
          [CHR 0xE2, CHR 0x80, CHR 0xA6] @ ''\"\<newline>'' @
          ''      zypper --releasever=\"$TARGET\" --non-interactive dup --dry-run --allow-vendor-change\<newline>'' @
          ''    else\<newline>'' @
          ''      zypper --releasever=\"$TARGET\" --non-interactive dup --allow-vendor-change\<newline>'' @
          ''      echo\<newline>'' @
          ''      echo \"Distribution upgrade to Leap $TARGET applied. Reboot to boot '' @
          ''the new kernel: sudo shutdown -r now\"\<newline>'' @ ''    fi\<newline>'' @
          ''    ;;\<newline>'' @ ''\<newline>'' @ ''  sles)\<newline>'' @
          ''    if ! command -v zypper >/dev/null 2>&1; then echo \"zypper not found.\" '' @
          ''>&2; exit 1; fi\<newline>'' @ ''    if [ \"$MODE\" = assess ]; then\<newline>'' @
          ''      echo \"Assessing SLES migration (needs SCC/RMT registration). Available '' @
          ''targets:\"\<newline>'' @
          ''      zypper --non-interactive migration --dry-run || {\<newline>'' @
          ''        echo \"Migration query failed '' @ [CHR 0xE2, CHR 0x80, CHR 0x94] @
          '' confirm the system is registered '' @
          ''(SUSEConnect --status-text).\" >&2; exit 1; }\<newline>'' @ ''    else\<newline>'' @
          ''      echo \"Running SLES migration (zypper migration)'' @
          [CHR 0xE2, CHR 0x80, CHR 0xA6] @ ''\"\<newline>'' @
          ''      zypper --non-interactive migration --auto-agree-with-licenses\<newline>'' @
          ''      echo\<newline>'' @
          ''      echo \"Migration complete. Reboot to boot the new kernel: sudo shutdown '' @
          ''-r now\"\<newline>'' @ ''    fi\<newline>'' @ ''    ;;\<newline>'' @ ''\<newline>'' @
          ''  *)\<newline>'' @
          ''    echo \"Release upgrade is not supported/automated for this distro (ID=${ID:-unknown}).\" '' @
          ''>&2\<newline>'' @ ''    exit 1\<newline>'' @ ''    ;;\<newline>'' @ ''esac''))"

definition cmd_list_cron_jobs :: "string" where
  "cmd_list_cron_jobs =
     ''echo '== crontab -l (current user) =='\<newline>'' @
          ''crontab -l 2>/dev/null || echo '(no crontab for this user, or crontab not '' @
          ''available)'\<newline>'' @ ''echo\<newline>'' @
          ''echo '== /etc/crontab =='\<newline>'' @ ''if [ -r /etc/crontab ]; then\<newline>'' @
          ''    grep -vE '^[[:space:]]*(#|$)' /etc/crontab\<newline>'' @ ''else\<newline>'' @
          ''    echo '(not present or not readable)'\<newline>'' @ ''fi\<newline>'' @
          ''echo\<newline>'' @ ''echo '== /etc/cron.d/* =='\<newline>'' @
          ''if [ -d /etc/cron.d ]; then\<newline>'' @
          ''    for f in /etc/cron.d/*; do\<newline>'' @
          ''        [ -f \"$f\" ] || continue\<newline>'' @
          ''        echo \"-- $f --\"\<newline>'' @
          ''        grep -vE '^[[:space:]]*(#|$)' \"$f\"\<newline>'' @ ''    done\<newline>'' @
          ''else\<newline>'' @ ''    echo '(/etc/cron.d not present)'\<newline>'' @ ''fi''"

definition cmd_add_cron_job :: "string \<Rightarrow> string \<Rightarrow> string \<Rightarrow> string checked" where
  "cmd_add_cron_job schedule command comment =
     (let schedule = strip schedule in
      let command = strip command in
      and_then (reject_newlines schedule) (\<lambda>_.
      and_then (reject_newlines command) (\<lambda>_.
      and_then (reject_newlines comment) (\<lambda>_.
      if schedule = [] then
        Inl Value_Error
      else if command = [] then
        Inl Value_Error
      else if (\<not> (starts_with ''@'' schedule)) \<and> ((int (length (split_words schedule))) \<noteq> 5) then
        Inl Value_Error
      else 
      let line = schedule @ '' '' @ command in
      let line = (if (strip comment) \<noteq> [] then line @ ''  # '' @ strip comment
            else line) in
      Inr (''(crontab -l 2>/dev/null; echo '' @ quote line @
           '') | crontab - && echo 'Cron job added.' || echo 'Failed to add cron job '' @
           ''(crontab not available on this host?).'' @ SQ)))))"

definition cmd_remove_cron_job :: "string \<Rightarrow> string checked" where
  "cmd_remove_cron_job match_text =
     (let match_text = strip match_text in
      if match_text = [] then
        Inl Value_Error
      else 
      let q = quote match_text in
      Inr (''count=$(crontab -l 2>/dev/null | grep -F '' @ q @
           '' | wc -l | tr -d ' '); if [ -z \"$count\" ] || [ \"$count\" -eq 0 ] 2>/dev/null; '' @
           ''then echo 'No crontab line matched that text.'; else crontab -l 2>/dev/null '' @
           ''| grep -vF '' @ q @
           '' | crontab - && echo \"Removed $count matching line(s).\" || echo 'Failed '' @
           ''to update crontab.'; fi''))"

definition cmd_list_timers :: "string" where
  "cmd_list_timers =
     ''systemctl list-timers --all --no-legend 2>/dev/null || echo 'systemctl not '' @
          ''available on this host'' @ SQ"

definition cmd_timer_status :: "string \<Rightarrow> string checked" where
  "cmd_timer_status name =
     and_then (timer_unit name) (\<lambda>name_ok.
     Inr (''systemctl status '' @ quote name_ok @ '' --no-pager -l 2>&1; true''))"

definition cmd_timer_start :: "string \<Rightarrow> string checked" where
  "cmd_timer_start name =
     and_then (timer_unit name) (\<lambda>name_ok.
     Inr (''systemctl start '' @ quote name_ok))"

definition cmd_timer_stop :: "string \<Rightarrow> string checked" where
  "cmd_timer_stop name =
     and_then (timer_unit name) (\<lambda>name_ok.
     Inr (''systemctl stop '' @ quote name_ok))"

definition cmd_timer_enable :: "string \<Rightarrow> string checked" where
  "cmd_timer_enable name =
     and_then (timer_unit name) (\<lambda>name_ok.
     let u = quote name_ok in
     Inr (''systemctl enable --now '' @ u @ '' 2>&1; rc=$?; systemctl status '' @ u @
          '' --no-pager -l 2>&1 | head -n 4; exit \"$rc\"''))"

definition cmd_timer_disable :: "string \<Rightarrow> string checked" where
  "cmd_timer_disable name =
     and_then (timer_unit name) (\<lambda>name_ok.
     let u = quote name_ok in
     Inr (''systemctl disable --now '' @ u @
          '' 2>&1; rc=$?; if [ \"$rc\" -eq 0 ]; then echo 'Timer disabled and stopped.'; '' @
          ''fi; exit \"$rc\"''))"

definition cmd_create_systemd_timer :: "string \<Rightarrow> string \<Rightarrow> string \<Rightarrow> string \<Rightarrow> string \<Rightarrow> string \<Rightarrow> string \<Rightarrow> bool \<Rightarrow> string checked" where
  "cmd_create_systemd_timer name exec_start on_calendar on_boot_sec on_unit_active_sec description run_as_user enable_now =
     and_then (safe_unit_base name) (\<lambda>base.
     let base = drop_suffix ''.timer'' base in
     let base = drop_suffix ''.service'' base in
     if base = [] then
       Inl Value_Error
     else if (strip exec_start) = [] then
       Inl Value_Error
     else 
     and_then (reject_newlines exec_start) (\<lambda>_.
     and_then (reject_newlines description) (\<lambda>_.
     and_then (reject_newlines run_as_user) (\<lambda>_.
     and_then (reject_newlines on_calendar) (\<lambda>_.
     and_then (reject_newlines on_boot_sec) (\<lambda>_.
     and_then (reject_newlines on_unit_active_sec) (\<lambda>_.
     let timer_lines = [''[Timer]''] in
     let timer_lines = (if (strip on_calendar) \<noteq> [] then timer_lines @ [''OnCalendar='' @ strip on_calendar]
           else timer_lines) in
     let timer_lines = (if (strip on_boot_sec) \<noteq> [] then timer_lines @ [''OnBootSec='' @ strip on_boot_sec]
           else timer_lines) in
     let timer_lines = (if (strip on_unit_active_sec) \<noteq> [] then timer_lines @ [''OnUnitActiveSec='' @ strip on_unit_active_sec]
           else timer_lines) in
     if (int (length timer_lines)) = 1 then
       Inl Value_Error
     else 
     let timer_lines = timer_lines @ [[], ''[Install]'', ''WantedBy=timers.target''] in
     let service_lines = [''[Unit]'', ''Description='' @ if_empty (strip description) base, [], ''[Service]'', ''Type=oneshot'', ''ExecStart='' @ strip exec_start, ''User='' @ if_empty (strip run_as_user) ''root''] in
     let service_path = ''/etc/systemd/system/'' @ base @ ''.service'' in
     let timer_path = ''/etc/systemd/system/'' @ base @ ''.timer'' in
     let service_body = join ''\<newline>'' service_lines in
     let timer_body = join ''\<newline>'' timer_lines in
     let cmd = ''cat > '' @ quote service_path @ '' <<'SYSIBLE_EOF'\<newline>'' @ service_body @
               ''\<newline>'' @ ''SYSIBLE_EOF\<newline>'' @ ''cat > '' @ quote timer_path @
               '' <<'SYSIBLE_EOF'\<newline>'' @ timer_body @ ''\<newline>'' @
               ''SYSIBLE_EOF\<newline>'' @ ''systemctl daemon-reload'' in
     let cmd = (if enable_now then cmd @ '' && systemctl enable --now '' @ quote (base @ ''.timer'')
           else cmd) in
     Inr (cmd))))))))"

definition cmd_delete_timer :: "string \<Rightarrow> bool \<Rightarrow> string checked" where
  "cmd_delete_timer name delete_service =
     (let base = strip name in
      let base = drop_suffix ''.timer'' base in
      let base = drop_suffix ''.service'' base in
      and_then (safe_unit_base base) (\<lambda>base.
      if base = [] then
        Inl Value_Error
      else 
      let timer_unit = quote (base @ ''.timer'') in
      let timer_path = quote (''/etc/systemd/system/'' @ base @ ''.timer'') in
      let cmd = ''systemctl disable --now '' @ timer_unit @ '' 2>/dev/null; rm -f '' @ timer_path in
      let cmd = (if delete_service then let service_path = quote (''/etc/systemd/system/'' @ base @ ''.service'') in 
             cmd @ ''; rm -f '' @ service_path
            else cmd) in
      let cmd = cmd @ ''; systemctl daemon-reload && echo 'Timer removed.'' @ SQ in
      Inr (cmd)))"

definition cmd_set_env_var :: "string \<Rightarrow> string \<Rightarrow> string checked" where
  "cmd_set_env_var name value' =
     and_then (validate_env_key name) (\<lambda>key.
     and_then (reject_newlines value') (\<lambda>_.
     let f = quote SYSIBLE_ENV_FILE in
     let line = ''export '' @ key @ ''='' @ quote value' in
     Inr (''touch '' @ f @ '' && chmod 644 '' @ f @ ''; sed -i '/^export '' @ key @ ''=/d' '' @ f @
          ''; printf '%s'' @ BS @ ''n' '' @ quote line @ '' >> '' @ f @ '' && echo 'Set '' @ key @
          '' in '' @ SYSIBLE_ENV_FILE @ '' (applies to new login shells).'' @ SQ)))"

definition cmd_unset_env_var :: "string \<Rightarrow> string checked" where
  "cmd_unset_env_var name =
     and_then (validate_env_key name) (\<lambda>key.
     let f = quote SYSIBLE_ENV_FILE in
     Inr (''if [ -f '' @ f @ '' ]; then sed -i '/^export '' @ key @ ''=/d' '' @ f @
          '' && echo 'Removed '' @ key @ '' from '' @ SYSIBLE_ENV_FILE @
          '' (new login shells only).'; else echo '' @ SQ @ SYSIBLE_ENV_FILE @
          '' does not exist; nothing to remove.'; fi''))"

definition cmd_set_alias :: "string \<Rightarrow> string \<Rightarrow> string checked" where
  "cmd_set_alias name command =
     and_then (validate_alias_name name) (\<lambda>a.
     and_then (reject_newlines command) (\<lambda>_.
     if (strip command) = [] then
       Inl Value_Error
     else 
     let f = quote SYSIBLE_ALIAS_FILE in
     let line = ''alias '' @ a @ ''='' @ quote command in
     Inr (''touch '' @ f @ '' && chmod 644 '' @ f @ ''; sed -i '/^alias '' @ a @ ''=/d' '' @ f @
          ''; printf '%s'' @ BS @ ''n' '' @ quote line @ '' >> '' @ f @ '' && echo 'Set alias '' @
          a @ '' in '' @ SYSIBLE_ALIAS_FILE @ '' (applies to new login shells).'' @ SQ)))"

definition cmd_remove_alias :: "string \<Rightarrow> string checked" where
  "cmd_remove_alias name =
     and_then (validate_alias_name name) (\<lambda>a.
     let f = quote SYSIBLE_ALIAS_FILE in
     Inr (''if [ -f '' @ f @ '' ]; then sed -i '/^alias '' @ a @ ''=/d' '' @ f @
          '' && echo 'Removed alias '' @ a @ '' from '' @ SYSIBLE_ALIAS_FILE @ ''.'; else echo '' @
          SQ @ SYSIBLE_ALIAS_FILE @ '' does not exist; nothing to remove.'; fi''))"

definition cmd_list_env_and_aliases :: "string" where
  "cmd_list_env_and_aliases =
     (let ef = quote SYSIBLE_ENV_FILE in
      let af = quote SYSIBLE_ALIAS_FILE in
      ''echo '# '' @ SYSIBLE_ENV_FILE @ SQ @ ''; [ -f '' @ ef @ '' ] && cat '' @ ef @
           '' || echo '(none)'; echo; echo '# '' @ SYSIBLE_ALIAS_FILE @ SQ @ ''; [ -f '' @ af @
           '' ] && cat '' @ af @ '' || echo '(none)'' @ SQ)"

definition cmd_detect_host_environment :: "string" where
  "cmd_detect_host_environment =
     (let detect = pkgmgr_detect_fragment ''PKGMGR'' in
      detect @
           ''; if [ -r /etc/os-release ]; then . /etc/os-release; echo \"OS: ${PRETTY_NAME:-$NAME '' @
           ''$VERSION}\"; else echo 'OS: unknown (no /etc/os-release on this host)'; fi; '' @
           ''echo \"Package manager: $PKGMGR\"'')"

definition cmd_install_packages :: "string \<Rightarrow> string checked" where
  "cmd_install_packages names =
     and_then (pkg_quote_list names) (\<lambda>pkgs.
     if pkgs = [] then
       Inl Value_Error
     else Inr (pkgmgr_dispatch
         (''\"$PKGMGR\" install -y -- '' @ pkgs)
         (''zypper --non-interactive install -- '' @ pkgs)
         (''apt-get update && DEBIAN_FRONTEND=noninteractive apt-get install -y -- '' @ pkgs)
         (Some (''pacman -Sy --needed --noconfirm '' @ pkgs))))"

definition cmd_install_local_package :: "string \<Rightarrow> string checked" where
  "cmd_install_local_package remote_path =
     (let remote_path = strip remote_path in
      if remote_path = [] then
        Inl Value_Error
      else if starts_with ''-'' remote_path then
        Inl Value_Error
      else 
      let q = quote remote_path in
      Inr (pkgmgr_dispatch
          (''\"$PKGMGR\" install -y -- '' @ q)
          (''zypper --non-interactive install --allow-unsigned-rpm -- '' @ q)
          (''DEBIAN_FRONTEND=noninteractive apt-get install -y -- '' @ q)
          (Some (''pacman -U --noconfirm -- '' @ q))))"

definition cmd_remove_packages :: "string \<Rightarrow> string checked" where
  "cmd_remove_packages names =
     and_then (pkg_quote_list names) (\<lambda>pkgs.
     if pkgs = [] then
       Inl Value_Error
     else Inr (pkgmgr_dispatch
         (''\"$PKGMGR\" remove -y -- '' @ pkgs)
         (''zypper --non-interactive remove -- '' @ pkgs)
         (''DEBIAN_FRONTEND=noninteractive apt-get remove -y -- '' @ pkgs)
         (Some (''pacman -R --noconfirm '' @ pkgs))))"

definition cmd_update_packages :: "string \<Rightarrow> string \<Rightarrow> string checked" where
  "cmd_update_packages names flags =
     and_then (pkg_quote_list names) (\<lambda>pkgs.
     let rf = rpm_update_flags flags in
     if pkgs \<noteq> [] then
       Inr (pkgmgr_dispatch
         (''\"$PKGMGR\" update -y'' @ rf @ '' -- '' @ pkgs)
         (zypper_transaction (''zypper --non-interactive update -- '' @ pkgs) True)
         (''apt-get update && DEBIAN_FRONTEND=noninteractive apt-get install --only-upgrade '' @
           ''-y -- '' @ pkgs)
         (Some (''echo \"Arch does not support upgrading individual packages safely; running '' @
           ''a full system upgrade (pacman -Syu) instead.\" >&2; pacman -Syu --noconfirm'')))
     else Inr (pkgmgr_dispatch
         (''\"$PKGMGR\" upgrade -y'' @ rf)
         (zypper_transaction ''zypper --non-interactive update'' True)
         (''apt-get update && DEBIAN_FRONTEND=noninteractive apt-get upgrade -y'')
         (Some (''pacman -Syu --noconfirm''))))"

definition cmd_package_status :: "string \<Rightarrow> string checked" where
  "cmd_package_status names =
     and_then (pkg_quote_list names) (\<lambda>pkgs.
     if pkgs = [] then
       Inl Value_Error
     else 
     let apt = ''for p in '' @ pkgs @
               ''; do st=$(dpkg-query -W -f='${db:Status-Status}' \"$p\" 2>/dev/null); v=$(dpkg-query '' @
               ''-W -f='${Version}' \"$p\" 2>/dev/null); if [ \"$st\" = installed ] && [ -n \"$v\" '' @
               '']; then echo \"SYSIBLE_PKG $p installed $v\"; else echo \"SYSIBLE_PKG $p absent\"; '' @
               ''fi; done'' in
     let rpm = ''for p in '' @ pkgs @
               ''; do if v=$(rpm -q --qf '%{VERSION}-%{RELEASE}' \"$p\" 2>/dev/null); then '' @
               ''echo \"SYSIBLE_PKG $p installed $v\"; else echo \"SYSIBLE_PKG $p absent\"; fi; '' @
               ''done'' in
     let pacman = ''for p in '' @ pkgs @
                  ''; do v=$(pacman -Q \"$p\" 2>/dev/null | awk '{print $2}'); if [ -n \"$v\" ]; '' @
                  ''then echo \"SYSIBLE_PKG $p installed $v\"; else echo \"SYSIBLE_PKG $p absent\"; '' @
                  ''fi; done'' in
     Inr (pkgmgr_dispatch
         rpm
         rpm
         apt
         (Some pacman)))"

definition cmd_query_package :: "string \<Rightarrow> string checked" where
  "cmd_query_package name =
     (let name = strip name in
      if name = [] then
        Inl Value_Error
      else 
      let pkg = quote name in
      Inr (pkgmgr_dispatch
          (''\"$PKGMGR\" info '' @ pkg @ '' 2>/dev/null || rpm -qi '' @ pkg)
          (''zypper info '' @ pkg)
          (''apt-cache show '' @ pkg @ '' 2>/dev/null || dpkg -s '' @ pkg @
            '' 2>/dev/null || echo \"Package not found:\" '' @ pkg)
          (Some (''pacman -Qi '' @ pkg @ '' 2>/dev/null || pacman -Si '' @ pkg @
            '' 2>/dev/null || echo \"Package not found:\" '' @ pkg))))"

definition cmd_verify_package :: "string \<Rightarrow> string checked" where
  "cmd_verify_package name =
     (let name = strip name in
      if name = [] then
        Inl Value_Error
      else 
      let pkg = quote name in
      let rpm_verify = ''out=$(rpm -V '' @ pkg @
                       '' 2>&1); if [ -z \"$out\" ]; then echo \"OK -\" '' @ pkg @
                       '' \"- no discrepancies found.\"; else echo \"$out\"; fi'' in
      let pacman_verify = ''out=$(pacman -Qkk '' @ pkg @
                          '' 2>&1 | grep -vE \"0 altered files|, 0 missing files\"); if [ -z \"$out\" ]; '' @
                          ''then echo \"OK -\" '' @ pkg @
                          '' \"- no discrepancies found.\"; else echo \"$out\"; fi'' in
      Inr (pkgmgr_dispatch
          rpm_verify
          rpm_verify
          (''if ! command -v debsums >/dev/null 2>&1; then echo \"debsums is not installed '' @
            ''on this host - install it first (Install Packages: debsums), then re-run '' @
            ''Verify Package Integrity.\"; else out=$(debsums '' @ pkg @
            '' 2>&1 | grep -v \"OK$\"); if [ -z \"$out\" ]; then echo \"OK -\" '' @ pkg @
            '' \"- no discrepancies found.\"; else echo \"$out\"; fi; fi'')
          (Some pacman_verify)))"

definition cmd_clean_package_cache :: "string" where
  "cmd_clean_package_cache =
     pkgmgr_dispatch
         (''\"$PKGMGR\" clean all'')
         (''zypper clean --all'')
         (''apt-get clean'')
         (Some (''pacman -Sc --noconfirm''))"

definition cmd_search_packages :: "string \<Rightarrow> string checked" where
  "cmd_search_packages term' =
     (let term' = strip term' in
      if term' = [] then
        Inl Value_Error
      else 
      let t = quote term' in
      let detect = pkgmgr_detect_fragment ''PKGMGR'' in
      Inr (detect @ ''\<newline>'' @ ''{\<newline>'' @
           ''  if [ \"$PKGMGR\" = \"dnf\" ] || [ \"$PKGMGR\" = \"yum\" ]; then\<newline>'' @
           ''    \"$PKGMGR\" -q search '' @ t @ '' 2>/dev/null | grep ' : ' | sed -e 's/'' @ BS @
           ''.[^. :]* : / /' -e 's/ : / /'\<newline>'' @
           ''  elif [ \"$PKGMGR\" = \"zypper\" ]; then\<newline>'' @ ''    zypper -q search '' @ t @
           '' 2>/dev/null | awk -F'|' 'NF>=3 {n=$2; sub(/^ +/,\"\",n); sub(/ +$/,\"\",n); '' @
           ''if(n!=\"\" && n!=\"Name\" && n !~ /^-+$/){s=$3; sub(/^ +/,\"\",s); sub(/ +$/,\"\",s); '' @
           ''print n\" \"s}}'\<newline>'' @
           ''  elif [ \"$PKGMGR\" = \"pacman\" ]; then\<newline>'' @ ''    pacman -Ss '' @ t @
           '' 2>/dev/null | awk '/^[^[:space:]]/{split($1,a,\"/\"); n=a[2]; getline d; '' @
           ''sub(/^[[:space:]]+/,\"\",d); print n\" \"d}'\<newline>'' @ ''  else\<newline>'' @
           ''    apt-cache search '' @ t @ '' 2>/dev/null | sed 's/ - / /'\<newline>'' @
           ''  fi\<newline>'' @ ''} | head -n 300\<newline>''))"

definition cmd_list_installed_packages :: "string" where
  "cmd_list_installed_packages =
     ''if command -v dpkg-query >/dev/null 2>&1; then dpkg-query -W -f='${Package}'' @ BS @
          ''n' '' @
          ''2>/dev/null; elif command -v rpm >/dev/null 2>&1; then rpm -qa --qf '%{NAME}'' @ BS @
          ''n' '' @
          ''2>/dev/null; elif command -v pacman >/dev/null 2>&1; then pacman -Qq 2>/dev/null; '' @
          ''else echo \"Neither dpkg, rpm nor pacman found on this host.\"; fi''"

definition cmd_release_upgrade_check :: "string \<Rightarrow> string checked" where
  "cmd_release_upgrade_check target =
     release_upgrade_script target True"

definition cmd_release_upgrade :: "string \<Rightarrow> string checked" where
  "cmd_release_upgrade target =
     release_upgrade_script target False"

definition salt_refresh :: "string \<Rightarrow> string" where
  "salt_refresh mgr =
     (if mgr = ''apt-get'' then ''apt-get update -qq || true;''
      else if mgr = ''zypper'' then ''zypper --non-interactive refresh >/dev/null 2>&1 || true;''
      else [])"

definition salt_install_one :: "string \<Rightarrow> string \<Rightarrow> string" where
  "salt_install_one mgr pkg =
     (if mgr = ''apt-get'' then ''DEBIAN_FRONTEND=noninteractive apt-get install -y -qq '' @ pkg @ '' >/dev/null 2>&1''
      else if mgr = ''pacman'' then ''pacman -Sy --needed --noconfirm '' @ pkg @ '' >/dev/null 2>&1''
      else if mgr = ''zypper'' then ''zypper --non-interactive install '' @ pkg @ '' >/dev/null 2>&1''
      else mgr @ '' install -y '' @ pkg @ '' >/dev/null 2>&1'')"

definition salt_manager_line :: "string \<times> string list \<Rightarrow> string" where
  "salt_manager_line = (\<lambda>(mgr, pkgs).
     let tries = join '' '' (map (\<lambda>pkg. ''if ! command -v salt-call >/dev/null 2>&1; then '' @
                   salt_install_one mgr pkg @ '' || true; fi;'') pkgs)
     in ''if [ \"$PKGMGR\" = \"'' @ mgr @ ''\" ]; then '' @ salt_refresh mgr @ '' '' @ tries @ '' fi'')"

definition cmd_install_salt :: string where
  "cmd_install_salt =
     join ''\<newline>''
       ([''set -e'',
         ''if command -v salt-call >/dev/null 2>&1; then '' @
         ''echo \"salt-call is already installed: $(command -v salt-call)\"; exit 0; fi'',
         pkgmgr_detect_fragment ''PKGMGR'' @ '';'',
         ''echo \"Installing Salt with $PKGMGR\" >&2''] @
        map salt_manager_line SALT_PACKAGES @
        [''if ! command -v salt-call >/dev/null 2>&1; then '' @
         ''echo \"The package manager ran, but salt-call is still not on PATH. '' @
         ''Salt may not be packaged for this distribution; install it by hand '' @
         ''(https://docs.saltproject.io) and apply again.\" >&2; exit 1; fi'',
         ''if command -v systemctl >/dev/null 2>&1; then '' @
         ''systemctl disable --now salt-minion >/dev/null 2>&1 || true; fi'',
         ''echo \"Salt installed: $(salt-call --version 2>/dev/null || echo salt-call)\"''])"

section \<open>What the shell reads\<close>

lemma key_safe: "validate_env_key n = Inr k \<Longrightarrow> k \<noteq> [] \<and> list_all safe_char k"
  "validate_alias_name n = Inr k \<Longrightarrow> k \<noteq> [] \<and> list_all safe_char k"
proof -
  have key: "k \<noteq> [] \<and> list_all safe_char k"
    if "k \<noteq> []" "is_upper (hd k) \<or> is_lower (hd k) \<or> hd k = CHR ''_''" "list_all safe_char (tl k)" for k
    using that by (cases k) (auto simp: safe_char_def is_alnum_def)
  have cls: "is_alnum c \<or> c = CHR ''_'' \<Longrightarrow> safe_char c" "is_alnum c \<or> c \<in> set ''_-'' \<Longrightarrow> safe_char c" for c
    by (auto simp: safe_char_def)
  show "k \<noteq> [] \<and> list_all safe_char k" if "validate_env_key n = Inr k"
    using that cls(1) by (intro key) (auto simp: validate_env_key_def env_key_def Let_def list_all_iff split: if_splits)
  show "k \<noteq> [] \<and> list_all safe_char k" if "validate_alias_name n = Inr k"
    using that cls(2) by (intro key) (auto simp: validate_alias_name_def alias_name_def Let_def list_all_iff split: if_splits)
qed

lemma free_keys [free_rules]:
  "injection_free (\<lambda>x. f x (tame (projr (validate_env_key (p x))))) \<Longrightarrow>
     injection_free (\<lambda>x. and_then (validate_env_key (p x)) (f x))"
  "injection_free (\<lambda>x. f x (tame (projr (validate_alias_name (p x))))) \<Longrightarrow>
     injection_free (\<lambda>x. and_then (validate_alias_name (p x)) (f x))"
  by (rule free_and_then_tame; auto dest: key_safe)+

lemma free_packages:
  "injection_free (\<lambda>x. f x (quote_all (filled (split_words (p x))))) \<Longrightarrow>
     injection_free (\<lambda>x. and_then (pkg_quote_list (p x)) (\<lambda>pkgs. if pkgs = [] then Inl e else f x pkgs))"
  by (erule free_same) (auto simp: pkg_quote_list_def and_then_Inr dest: joined_words split: if_splits)

lemmas automation_builders = cmd_add_cron_job_def cmd_remove_cron_job_def cmd_timer_status_def cmd_timer_start_def
  cmd_timer_stop_def cmd_timer_enable_def cmd_timer_disable_def cmd_delete_timer_def
  cmd_set_env_var_def cmd_unset_env_var_def cmd_set_alias_def cmd_remove_alias_def
  cmd_install_local_package_def cmd_query_package_def cmd_verify_package_def
  cmd_search_packages_def

lemma plain_automation_free:
  "injection_free (\<lambda>(schedule, command, comment). cmd_add_cron_job schedule command comment) \<and>
   injection_free (\<lambda>match_text. cmd_remove_cron_job match_text) \<and>
   injection_free (\<lambda>name. cmd_timer_status name) \<and>
   injection_free (\<lambda>name. cmd_timer_start name) \<and>
   injection_free (\<lambda>name. cmd_timer_stop name) \<and>
   injection_free (\<lambda>name. cmd_timer_enable name) \<and>
   injection_free (\<lambda>name. cmd_timer_disable name) \<and>
   injection_free (\<lambda>(name, delete_service). cmd_delete_timer name delete_service) \<and>
   injection_free (\<lambda>(name, value'). cmd_set_env_var name value') \<and>
   injection_free (\<lambda>name. cmd_unset_env_var name) \<and>
   injection_free (\<lambda>(name, command). cmd_set_alias name command) \<and>
   injection_free (\<lambda>name. cmd_remove_alias name) \<and>
   injection_free (\<lambda>remote_path. cmd_install_local_package remote_path) \<and>
   injection_free (\<lambda>name. cmd_query_package name) \<and>
   injection_free (\<lambda>name. cmd_verify_package name) \<and>
   injection_free (\<lambda>term'. cmd_search_packages term')"
  unfolding automation_builders package_managers case_prod_unfold return_push let_flat
  by (rule conjI free_rules | rule free_steps | (simp add: read_simps; fail)[1] | (simp only: joined_simps)[1])+

text \<open>Package names: checked to be there, or an update of everything.\<close>

lemma package_list_free:
  "injection_free cmd_install_packages \<and> injection_free cmd_remove_packages \<and> injection_free cmd_package_status"
  unfolding cmd_install_packages_def cmd_remove_packages_def cmd_package_status_def package_managers
  by (rule conjI free_packages free_error free_let free_reads reads_filled reads_rules
      | (simp add: read_simps; fail)[1])+

text \<open>The flags read as words of their own.\<close>

lemma flags_safe: "f \<in> set (mapped_flags out toks) \<Longrightarrow> f \<in> set out \<or> f \<in> set (map snd RPM_UPDATE_FLAGS)"
proof (induction out toks rule: mapped_flags.induct)
  case (2 out tok toks)
  show ?case
  proof (cases "map_of RPM_UPDATE_FLAGS (dropWhile (\<lambda>c. c = CHR ''-'') (strip tok))")
    case None
    then show ?thesis using 2 by simp
  next
    case (Some m)
    have "m \<in> set (map snd RPM_UPDATE_FLAGS)" using map_of_SomeD [OF Some] by force
    then show ?thesis using 2 Some by (auto split: if_splits)
  qed
qed simp

lemma flags_quoted: "rpm_update_flags s = (if update_flags s = [] then [] else '' '' @ quote_all (filled (update_flags s)))"
proof -
  have "list_all (\<lambda>f. quote f = f) (map snd RPM_UPDATE_FLAGS)" by code_simp
  then have "map quote (update_flags s) = update_flags s"
    using flags_safe [of _ "[]"] unfolding update_flags_def by (intro map_idI) (auto simp: list_all_iff)
  then show ?thesis by (simp add: rpm_update_flags_def quote_all_def filled_def Let_def)
qed

lemma free_update_packages:
  assumes "injection_free (\<lambda>x. f x (r x) (quote_all (filled (split_words (p x)))))" "injection_free (\<lambda>x. g x (r x))"
  shows "injection_free (\<lambda>x. and_then (pkg_quote_list (p x))
    (\<lambda>pkgs. let rf = r x in if pkgs \<noteq> [] then f x rf pkgs else g x rf))"
  by (rule free_same [OF free_if [OF assms, of "\<lambda>x. projr (pkg_quote_list (p x)) \<noteq> []"]])
    (auto simp: pkg_quote_list_def and_then_Inr Let_def dest: joined_words split: if_splits)

lemma update_packages_free: "injection_free (\<lambda>(names, flags). cmd_update_packages names flags)"
  unfolding cmd_update_packages_def case_prod_unfold
  apply (rule free_update_packages)
  unfolding flags_quoted package_managers
  apply (rule free_reads reads_filled reads_rules | (simp add: read_simps; fail)[1])+
  done

text \<open>The target of a release upgrade stands between double quotes; the script after it is fixed.\<close>

lemma target_safe: "validate_release_target t = Inr s \<Longrightarrow> wordish s = s"
proof -
  have cls: "is_alnum c \<or> c \<in> set ''._-'' \<Longrightarrow> safe_char c" for c by (auto simp: safe_char_def)
  have "list_all safe_char s" if "release_target s" for s
    using that cls by (cases s) (auto simp: release_target_def list_all_iff)
  then show "validate_release_target t = Inr s \<Longrightarrow> wordish s = s"
    by (auto simp: validate_release_target_def Let_def wordish_same split: if_splits)
qed

lemma free_target:
  "injection_free (\<lambda>x. f x (wordish (projr (validate_release_target (p x))))) \<Longrightarrow>
     injection_free (\<lambda>x. and_then (validate_release_target (p x)) (f x))"
  by (erule free_same) (auto simp: and_then_Inr target_safe)

lemma release_upgrade_free:
  "injection_free cmd_release_upgrade_check \<and> injection_free cmd_release_upgrade"
  unfolding cmd_release_upgrade_check_def cmd_release_upgrade_def release_upgrade_script_def if_True if_False
  apply (rule conjI free_target free_let free_reads reads_append reads_wordish
      | (rule reads_const, (simp add: read_simps; fail)[1]))+
  done

section \<open>Timers\<close>

lemma set_drop_suffix: "set (drop_suffix e s) \<subseteq> set s"
  by (auto simp: drop_suffix_def dest: in_set_takeD)

lemma reads_timer_description:
  "reads (mode.Text d, fs, h) (\<lambda>x. if_empty (strip (one_line (v x)))
     (drop_suffix e (drop_suffix e' (strip (one_line (w x)))))) (mode.Text d, fs, h)"
proof (rule reads_text)
  fix x
  have "CHR 0x0A \<notin> set (strip (one_line t))" for t
    using set_strip [of "one_line t"] by (auto simp: one_line_def)
  then show "CHR 0x0A \<notin> set (if_empty (strip (one_line (v x)))
     (drop_suffix e (drop_suffix e' (strip (one_line (w x))))))"
    using set_drop_suffix [of e "drop_suffix e' (strip (one_line (w x)))"]
      set_drop_suffix [of e' "strip (one_line (w x))"] by (auto simp: if_empty_def)
qed

lemma safe_base: "safe_unit_base n = Inr b \<Longrightarrow> b = strip n"
  by (auto simp: safe_unit_base_def Let_def split: if_splits)

lemma create_timer_free:
  "injection_free (\<lambda>(n, e, c, bs, ua, d, u, now). if has_newline n then Inl Value_Error
     else cmd_create_systemd_timer n e c bs ua d u now)"
  apply (rule free_norm [where N = "\<lambda>(n, e, c, bs, ua, d, u, now).
      (one_line n, one_line e, one_line c, one_line bs, one_line ua, one_line d, one_line u, now)"])
   apply (auto simp: cmd_create_systemd_timer_def reject_newlines_def and_then_Inr one_line_same Let_def
      split: if_splits prod.splits)[1]
  unfolding cmd_create_systemd_timer_def case_prod_unfold fst_conv snd_conv
  apply (rule free_if, rule free_error)
  apply (rule free_and_then_known [where k = "\<lambda>x. strip (one_line (fst x))"], erule safe_base)
  apply (rule free_split_steps reads_one_line_of reads_timer_description | (simp add: read_simps; fail)[1]
      | (simp only: joined_simps)[1])+
  done

end
