(* ===== verification/Cmd_Backup.thy ===== *)
theory Cmd_Backup
  imports Shell_Uniform
begin

text \<open>
  The builders of \<^verbatim>\<open>client/_api_backup.py\<close>: archives, their schedule, and snapshots.
\<close>

definition cron_fields :: "string \<Rightarrow> bool" where
  "cron_fields = over (\<lambda>c. is_digit c \<or> c \<in> set ''*/,- '')"

definition is_control :: "char \<Rightarrow> bool" where
  "is_control c = (let n = (of_char c :: nat) in n \<le> 31 \<or> n = 127)"

definition reject_control_chars :: "string \<Rightarrow> unit checked" where
  "reject_control_chars v = (if list_ex is_control v then Inl Value_Error else Inr ())"

section \<open>Builders\<close>

definition cmd_backup_files :: "string \<Rightarrow> string \<Rightarrow> string checked" where
  "cmd_backup_files source' dest_dir =
     (let source' = strip source' in
      let dest_dir = strip dest_dir in
      if source' = [] then
        Inl Value_Error
      else if dest_dir = [] then
        Inl Value_Error
      else 
      let qs = quote source' in
      let qd = quote dest_dir in
      Inr (''src='' @ qs @ ''; dest='' @ qd @
           ''; if [ ! -e \"$src\" ]; then echo \"Source does not exist: $src\" >&2; exit '' @
           ''1; fi; mkdir -p \"$dest\" || exit 1; ts=$(date +%Y%m%d-%H%M%S); base=$(basename '' @
           ''\"$src\"); archive=\"$dest/backup-$base-$ts.tar.gz\"; tar czf \"$archive\" -C '' @
           ''\"$(dirname \"$src\")\" \"$base\" && echo \"Backup created: $archive\" && ls -lh '' @
           ''\"$archive\"''))"

definition cmd_restore_files :: "string \<Rightarrow> string \<Rightarrow> string checked" where
  "cmd_restore_files archive dest_dir =
     (let archive = strip archive in
      let dest_dir = strip dest_dir in
      if archive = [] then
        Inl Value_Error
      else if dest_dir = [] then
        Inl Value_Error
      else 
      let qa = quote archive in
      let qd = quote dest_dir in
      Inr (''a='' @ qa @ ''; d='' @ qd @
           ''; if [ ! -f \"$a\" ]; then echo \"Archive not found: $a\" >&2; exit 1; fi; mkdir '' @
           ''-p \"$d\" || exit 1; tar xzf \"$a\" -C \"$d\" && echo \"Restored $a into $d.\"''))"

definition cmd_verify_backup :: "string \<Rightarrow> string checked" where
  "cmd_verify_backup archive =
     (let archive = strip archive in
      if archive = [] then
        Inl Value_Error
      else 
      let qa = quote archive in
      Inr (''a='' @ qa @
           ''; if [ ! -f \"$a\" ]; then echo \"Archive not found: $a\" >&2; exit 1; fi; if '' @
           ''gzip -t \"$a\" 2>/dev/null; then echo \"Gzip integrity: OK\"; else echo \"Gzip '' @
           ''integrity: FAILED (archive is corrupt)\" >&2; exit 1; fi; n=$(tar tzf \"$a\" '' @
           ''2>/dev/null | wc -l | tr -d \" \"); echo \"Archive contains $n entries and '' @
           ''is readable end-to-end.\"''))"

definition cmd_configure_backup_schedule :: "string \<Rightarrow> string \<Rightarrow> string \<Rightarrow> string checked" where
  "cmd_configure_backup_schedule source' dest_dir cron_expr =
     (let source' = strip source' in
      let dest_dir = strip dest_dir in
      let cron_expr = strip cron_expr in
      if (source' = []) \<or> (dest_dir = []) then
        Inl Value_Error
      else 
      and_then (reject_control_chars source') (\<lambda>_.
      and_then (reject_control_chars dest_dir) (\<lambda>_.
      if ((int (length (split_words cron_expr))) \<noteq> 5) \<or> (\<not> (cron_fields cron_expr)) then
        Inl Value_Error
      else 
      let qs = quote source' in
      let qd = quote dest_dir in
      let script = ''#!/bin/sh\<newline>'' @ ''src='' @ qs @ ''\<newline>'' @ ''dest='' @ qd @
                   ''\<newline>'' @ ''mkdir -p \"$dest\"\<newline>'' @
                   ''tar czf \"$dest/backup-$(basename \"$src\")-$(date +%Y%m%d-%H%M%S).tar.gz\" '' @
                   ''-C \"$(dirname \"$src\")\" \"$(basename \"$src\")\"\<newline>'' in
      Inr (''cat > /usr/local/sbin/sysible-backup.sh <<'SYS_EOF'\<newline>'' @ script @
           ''SYS_EOF\<newline>'' @
           ''chmod +x /usr/local/sbin/sysible-backup.sh && printf '%s root /usr/local/sbin/sysible-backup.sh'' @
           BS @ ''n' '' @ quote cron_expr @
           '' > /etc/cron.d/sysible-backup && if ! command -v crond >/dev/null 2>&1 && '' @
           ''! command -v cron >/dev/null 2>&1; then if command -v dnf >/dev/null 2>&1; '' @
           ''then dnf install -y cronie >/dev/null 2>&1; elif command -v yum >/dev/null '' @
           ''2>&1; then yum install -y cronie >/dev/null 2>&1; elif command -v zypper '' @
           ''>/dev/null 2>&1; then zypper --non-interactive install cron >/dev/null 2>&1; '' @
           ''elif command -v apt-get >/dev/null 2>&1; then DEBIAN_FRONTEND=noninteractive '' @
           ''apt-get install -y cron >/dev/null 2>&1; elif command -v pacman >/dev/null '' @
           ''2>&1; then pacman -Sy --needed --noconfirm cronie >/dev/null 2>&1; fi; fi; '' @
           ''systemctl enable --now crond 2>/dev/null || systemctl enable --now cron '' @
           ''2>/dev/null || systemctl enable --now cronie 2>/dev/null || true; if ! command '' @
           ''-v crond >/dev/null 2>&1 && ! command -v cron >/dev/null 2>&1; then echo '' @ SQ @
           ''WARNING: no cron daemon is installed - the schedule was written to /etc/cron.d/sysible-backup '' @
           ''but will not run until a cron service (cronie/cron) is installed and started.' '' @
           ''>&2; fi; printf 'Scheduled backup of %s to %s on cron: %s'' @ BS @ ''n' '' @ qs @
           '' '' @ qd @ '' '' @ quote cron_expr))))"

definition cmd_create_snapshot :: "string \<Rightarrow> string \<Rightarrow> string \<Rightarrow> string \<Rightarrow> string checked" where
  "cmd_create_snapshot vg lv snap_name size' =
     (let vg = strip vg in
      let lv = strip lv in
      let snap_name = strip snap_name in
      let size' = strip size' in
      if \<not> (vg \<noteq> [] \<and> lv \<noteq> [] \<and> snap_name \<noteq> [] \<and> size' \<noteq> []) then
        Inl Value_Error
      else 
      let qsnap = quote snap_name in
      let qsize = quote size' in
      let origin = quote (''/dev/'' @ vg @ ''/'' @ lv) in
      Inr (''if ! command -v lvcreate >/dev/null 2>&1; then echo \"LVM tools (lvcreate) '' @
           ''not installed on this host.\" >&2; exit 1; fi; lvcreate -s -n '' @ qsnap @ '' -L '' @
           qsize @ '' '' @ origin @ '' && printf 'Snapshot %s created from %s/%s.'' @ BS @ ''n' '' @
           qsnap @ '' '' @ quote vg @ '' '' @ quote lv))"

definition cmd_restore_snapshot :: "string \<Rightarrow> string \<Rightarrow> string checked" where
  "cmd_restore_snapshot vg snap_name =
     (let vg = strip vg in
      let snap_name = strip snap_name in
      if \<not> (vg \<noteq> [] \<and> snap_name \<noteq> []) then
        Inl Value_Error
      else 
      let snap = quote (''/dev/'' @ vg @ ''/'' @ snap_name) in
      Inr (''if ! command -v lvconvert >/dev/null 2>&1; then echo \"LVM tools (lvconvert) '' @
           ''not installed on this host.\" >&2; exit 1; fi; lvconvert --merge '' @ snap @
           '' && echo 'Snapshot scheduled to merge into its origin (completes when the '' @
           ''origin volume is next deactivated, e.g. at reboot).'' @ SQ))"

definition cmd_recover_deleted :: "string \<Rightarrow> string checked" where
  "cmd_recover_deleted device =
     (let device = strip device in
      if device = [] then
        Inl Value_Error
      else 
      let qd = quote device in
      Inr (''dev='' @ qd @
           ''; echo \"Target: $dev\"; echo; if mount | grep -q \"$dev\"; then echo \"WARNING: '' @
           ''$dev appears mounted. Unmount it before attempting recovery \"\"- writing '' @
           ''to a mounted filesystem overwrites the freed blocks you are trying to recover.\"; '' @
           ''echo; fi; echo \"Available recovery tools:\"; for t in extundelete testdisk '' @
           ''photorec debugfs; do if command -v \"$t\" >/dev/null 2>&1; then echo \"  $t: '' @
           ''present\"; else echo \"  $t: not installed\"; fi; done; echo; echo \"Procedure: '' @
           ''unmount the filesystem, then (ext3/4) run \"\"extundelete $dev --restore-all, '' @
           ''or use testdisk/photorec for other filesystems. \"\"Install the tool first '' @
           ''via Host Software Management if it is missing.\"''))"

definition cmd_test_disaster_recovery :: "string \<Rightarrow> string checked" where
  "cmd_test_disaster_recovery dest_dir =
     (let dest_dir = strip dest_dir in
      if dest_dir = [] then
        Inl Value_Error
      else 
      let qd = quote dest_dir in
      Inr (''d='' @ qd @
           ''; if [ ! -d \"$d\" ]; then echo \"Backup directory not found: $d\" >&2; exit '' @
           ''1; fi; newest=$(ls -1t \"$d\"/*.tar.gz 2>/dev/null | head -n 1); count=$(ls '' @
           ''-1 \"$d\"/*.tar.gz 2>/dev/null | wc -l | tr -d \" \"); if [ -z \"$newest\" ]; '' @
           ''then echo \"DR TEST FAILED: no .tar.gz backups found in $d.\" >&2; exit 1; '' @
           ''fi; echo \"Backups found: $count\"; echo \"Newest: $newest\"; echo \"Last modified: '' @
           ''$(date -r \"$newest\" 2>/dev/null || stat -c %y \"$newest\" 2>/dev/null)\"; if '' @
           ''gzip -t \"$newest\" 2>/dev/null; then echo \"Integrity of newest backup: OK\"; '' @
           ''echo \"DR TEST PASSED: a recent, readable backup is present and verifiable.\"; '' @
           ''else echo \"DR TEST FAILED: newest backup is corrupt.\" >&2; exit 1; fi''))"

section \<open>What the shell reads\<close>

lemmas backup_builders = cmd_backup_files_def cmd_restore_files_def cmd_verify_backup_def cmd_create_snapshot_def
  cmd_restore_snapshot_def cmd_recover_deleted_def cmd_test_disaster_recovery_def

lemma plain_backup_free:
  "injection_free (\<lambda>(source', dest_dir). cmd_backup_files source' dest_dir) \<and>
   injection_free (\<lambda>(archive, dest_dir). cmd_restore_files archive dest_dir) \<and>
   injection_free (\<lambda>archive. cmd_verify_backup archive) \<and>
   injection_free (\<lambda>(vg, lv, snap_name, size'). cmd_create_snapshot vg lv snap_name size') \<and>
   injection_free (\<lambda>(vg, snap_name). cmd_restore_snapshot vg snap_name) \<and>
   injection_free (\<lambda>device. cmd_recover_deleted device) \<and>
   injection_free (\<lambda>dest_dir. cmd_test_disaster_recovery dest_dir)"
  unfolding backup_builders  case_prod_unfold return_push let_flat
  by (rule conjI free_rules | rule free_steps | (simp add: read_simps; fail)[1] | (simp only: joined_simps)[1])+

lemma no_control: "\<not> list_ex is_control s \<Longrightarrow> one_line s = s"
  by (rule one_line_same) (auto simp: list_ex_iff is_control_def)

lemma reads_quote_line:
  "reads (mode.Text d, fs, h) (\<lambda>x. quote (strip (one_line (v x)))) (mode.Text d, fs, h)"
proof (rule reads_text)
  fix x
  have "CHR 0x0A \<notin> set (strip (one_line (v x)))"
    using set_strip [of "one_line (v x)"] by (auto simp: one_line_def)
  then show "CHR 0x0A \<notin> set (quote (strip (one_line (v x))))"
    by (auto simp: quote_def)
qed

lemma configure_backup_schedule_free: "injection_free (\<lambda>(source', dest_dir, cron_expr). cmd_configure_backup_schedule source' dest_dir cron_expr)"
  apply (rule free_same [where f = "\<lambda>(source', dest_dir, cron_expr). cmd_configure_backup_schedule (one_line (strip source')) (one_line (strip dest_dir)) cron_expr"])
   unfolding cmd_configure_backup_schedule_def case_prod_unfold fst_conv snd_conv strip_tame strip_plain
   apply (rule free_steps reads_quote_line | (simp add: read_simps; fail)[1] | (simp only: joined_simps)[1])+
  apply (auto simp: Let_def and_then_Inr no_control reject_control_chars_def split: if_splits)[1]
  done

end
