(* ===== verification/Cmd_Boot.thy ===== *)
theory Cmd_Boot
  imports Shell_Uniform
begin

text \<open>
  The builders of \<^verbatim>\<open>client/_api_boot.py\<close>: boot analysis, GRUB, boot targets and kernels.
\<close>

definition BOOT_TARGETS :: "string list" where
  "BOOT_TARGETS = [''rescue'', ''emergency'', ''multi-user'', ''graphical'']"

definition kernel_parameters :: "string \<Rightarrow> bool" where
  "kernel_parameters s = list_all (\<lambda>c. is_alnum c \<or> c \<in> set ''_ =,.:/+-'') s"

section \<open>Builders\<close>

definition grub_rebuild_fragment :: "string" where
  "grub_rebuild_fragment =
     ''if command -v update-grub >/dev/null 2>&1; then update-grub; elif command '' @
          ''-v grub2-mkconfig >/dev/null 2>&1; then cfg=$(ls /boot/grub2/grub.cfg /boot/efi/EFI/*/grub.cfg '' @
          ''2>/dev/null | head -n1); [ -z \"$cfg\" ] && cfg=/boot/grub2/grub.cfg; grub2-mkconfig '' @
          ''-o \"$cfg\"; elif command -v grub-mkconfig >/dev/null 2>&1; then grub-mkconfig '' @
          ''-o /boot/grub/grub.cfg; else echo 'No grub config tool found (update-grub/grub2-mkconfig).' '' @
          ''>&2; exit 1; fi''"

definition cmd_analyze_boot_failures :: "string" where
  "cmd_analyze_boot_failures =
     ''echo '== Recent boots =='\<newline>'' @
          ''if command -v journalctl >/dev/null 2>&1; then journalctl --list-boots '' @
          ''--no-pager 2>&1 | tail -n 10; else echo 'journalctl not available.'; fi\<newline>'' @
          ''echo\<newline>'' @ ''echo '== Boot time / slowest units =='\<newline>'' @
          ''if command -v systemd-analyze >/dev/null 2>&1; then systemd-analyze 2>&1; '' @
          ''echo; systemd-analyze blame --no-pager 2>&1 | head -n 15; else echo 'systemd-analyze '' @
          ''not available.'; fi\<newline>'' @ ''echo\<newline>'' @
          ''echo '== Failed units this boot =='\<newline>'' @
          ''if command -v systemctl >/dev/null 2>&1; then out=$(systemctl --failed '' @
          ''--no-legend 2>/dev/null); [ -z \"$out\" ] && echo 'No failed units.' || echo '' @
          ''\"$out\"; else echo 'systemctl not available.'; fi\<newline>'' @ ''echo\<newline>'' @
          ''echo '== Boot errors (journal, priority err) =='\<newline>'' @
          ''if command -v journalctl >/dev/null 2>&1; then journalctl -b -p err --no-pager '' @
          ''2>&1 | tail -n 30; fi''"

definition cmd_show_grub_config :: "string" where
  "cmd_show_grub_config =
     ''echo '== /etc/default/grub =='; cat /etc/default/grub 2>/dev/null || echo '' @ SQ @
          ''(not present)'; echo; echo '== Default entry =='; (grub2-editenv list 2>/dev/null '' @
          ''|| grub-editenv list 2>/dev/null || echo '(no grubenv)')''"

definition cmd_set_grub_default :: "string \<Rightarrow> string checked" where
  "cmd_set_grub_default entry =
     (let entry = strip entry in
      if entry = [] then
        Inl Value_Error
      else 
      let q = quote entry in
      let ensure_saved = ''if grep -q '^GRUB_DEFAULT=' /etc/default/grub 2>/dev/null; then sed -i 's/^GRUB_DEFAULT=.*/GRUB_DEFAULT=saved/' '' @
                         ''/etc/default/grub; else echo 'GRUB_DEFAULT=saved' >> /etc/default/grub; '' @
                         ''fi'' in
      Inr (''if command -v grub2-set-default >/dev/null 2>&1; then grub2-set-default '' @ q @
           ''; elif command -v grub-set-default >/dev/null 2>&1; then '' @ ensure_saved @ '' && '' @
           grub_rebuild_fragment @ '' && grub-set-default '' @ q @
           ''; else echo 'grub-set-default not found.' >&2; exit 1; fi && printf 'Default '' @
           ''boot entry set to %s.'' @ BS @ ''n' '' @ q))"

definition cmd_set_grub_timeout :: "string \<Rightarrow> string checked" where
  "cmd_set_grub_timeout seconds =
     (let seconds = strip seconds in
      if \<not> (is_digits seconds) then
        Inl Value_Error
      else Inr (''sed -i 's/^GRUB_TIMEOUT=.*/GRUB_TIMEOUT='' @ seconds @
           ''/' /etc/default/grub && grep -q '^GRUB_TIMEOUT=' /etc/default/grub || echo '' @ SQ @
           ''GRUB_TIMEOUT='' @ seconds @ SQ @ '' >> /etc/default/grub; '' @ grub_rebuild_fragment @
           '' && echo 'GRUB timeout set to '' @ seconds @ ''s and grub.cfg rebuilt.'' @ SQ))"

definition cmd_rebuild_grub :: "string" where
  "cmd_rebuild_grub =
     grub_rebuild_fragment @ '' && echo 'GRUB configuration rebuilt.'' @ SQ"

definition cmd_set_boot_target :: "string \<Rightarrow> string checked" where
  "cmd_set_boot_target target =
     (let target = strip target in
      if target \<notin> set BOOT_TARGETS then
        Inl Value_Error
      else Inr (''systemctl set-default '' @ target @ ''.target && echo 'Default boot target set to '' @
           target @ ''.target (takes effect on next reboot).'' @ SQ))"

definition cmd_set_kernel_cmdline :: "string \<Rightarrow> string checked" where
  "cmd_set_kernel_cmdline params =
     (let params = strip params in
      if \<not> (kernel_parameters params) then
        Inl Value_Error
      else 
      let q = quote params in
      Inr (''old=$(sed -n 's/^GRUB_CMDLINE_LINUX=\"'' @ BS @ ''(.*'' @ BS @ '')\"$/'' @ BS @
           ''1/p' /etc/default/grub | '' @ ''head -n1); newline='GRUB_CMDLINE_LINUX=\"'' @ SQ @ q @
           SQ @
           ''\"'; if grep -q '^GRUB_CMDLINE_LINUX=' /etc/default/grub; then sed -i \"s|^GRUB_CMDLINE_LINUX=.*|$newline|\" '' @
           ''/etc/default/grub; else echo \"$newline\" >> /etc/default/grub; fi && if command '' @
           ''-v grubby >/dev/null 2>&1; then if [ -n \"$old\" ]; then grubby --update-kernel=ALL '' @
           ''--remove-args=\"$old\" 2>&1; fi; grubby --update-kernel=ALL --args='' @ q @
           '' 2>&1 && echo 'Kernel parameters set on all installed boot entries via grubby '' @
           ''(and saved to /etc/default/grub for future kernels); previously-set params '' @
           ''were replaced. Effective next boot.'; else '' @ grub_rebuild_fragment @
           '' && echo 'Kernel parameters updated and grub.cfg rebuilt (effective next '' @
           ''boot).'; fi''))"

definition cmd_regenerate_initramfs :: "string" where
  "cmd_regenerate_initramfs =
     ''if command -v dracut >/dev/null 2>&1; then dracut -f --regenerate-all && '' @
          ''echo 'initramfs regenerated for all installed kernels (dracut).'; elif command '' @
          ''-v update-initramfs >/dev/null 2>&1; then update-initramfs -u -k all && '' @
          ''echo 'initramfs regenerated (update-initramfs).'; elif command -v mkinitcpio '' @
          ''>/dev/null 2>&1; then mkinitcpio -P && echo 'initramfs regenerated (mkinitcpio).'; '' @
          ''else echo 'No initramfs tool found (dracut/update-initramfs/mkinitcpio).' '' @
          ''>&2; exit 1; fi''"

definition cmd_list_kernels :: "string" where
  "cmd_list_kernels =
     ''echo \"Running kernel: $(uname -r)\"; echo; echo 'Installed kernels:'; if '' @
          ''command -v rpm >/dev/null 2>&1; then rpm -qa 'kernel*' 2>/dev/null | grep '' @
          ''-E -- '^(kernel|kernel-core|kernel-default|kernel-preempt|kernel-pae|kernel-rt|kernel-rt-core|kernel-64k|kernel-64k-core)-[0-9]' '' @
          ''| sort -V; elif command -v dpkg-query >/dev/null 2>&1; then dpkg-query -W '' @
          ''-f='${Package} ${Version}'' @ BS @
          ''n' 'linux-image-*' 2>/dev/null | grep -v -- '-dbg'; '' @
          ''elif command -v pacman >/dev/null 2>&1; then pacman -Q 2>/dev/null | grep '' @
          ''-E '^(linux|linux-lts|linux-zen|linux-hardened|linux-rt|linux-rt-lts)[[:space:]]' '' @
          ''|| echo 'No standard linux kernel packages found.'; else echo 'Neither rpm, '' @
          ''dpkg, nor pacman found.'; fi''"

definition cmd_remove_old_kernels :: "string \<Rightarrow> string checked" where
  "cmd_remove_old_kernels keep =
     (let keep = strip (if_empty keep ''2'') in
      if (\<not> (is_digits keep)) \<or> ((the (parse_int keep)) < 1) then
        Inl Value_Error
      else Inr (''if command -v dnf >/dev/null 2>&1; then dnf -y remove --oldinstallonly --setopt '' @
           ''installonly_limit='' @ keep @
           '' 2>&1 || echo 'Nothing to remove (or dnf-plugins-core missing).'; elif command '' @
           ''-v apt-get >/dev/null 2>&1; then echo 'Note: on apt this runs apt-get autoremove, '' @
           ''which removes ALL packages APT considers no longer required (not only old '' @
           ''kernels); the keep-count ('' @ keep @
           '') is not honored here.' >&2; DEBIAN_FRONTEND=noninteractive apt-get -y autoremove '' @
           ''2>&1; elif command -v zypper >/dev/null 2>&1; then echo 'Note: on zypper '' @
           ''the keep-count ('' @ keep @
           '') is governed by multiversion.kernels in /etc/zypp/zypp.conf, not this field.' '' @
           ''>&2; zypper --non-interactive purge-kernels 2>&1 || echo 'purge-kernels '' @
           ''needs the zypper purge-kernels plugin.'; elif command -v pacman >/dev/null '' @
           ''2>&1; then echo 'Arch Linux does not retain old kernel versions (pacman '' @
           ''replaces the kernel package in place on upgrade), so there is nothing to '' @
           ''prune.'; else echo 'No supported package manager found.' >&2; exit 1; fi; '' @
           ''echo; echo 'Done. Current running kernel is always kept.'' @ SQ))"

section \<open>What the shell reads\<close>

lemmas boot_builders = cmd_set_grub_default_def cmd_set_kernel_cmdline_def

lemma plain_boot_free:
  "injection_free (\<lambda>entry. cmd_set_grub_default entry) \<and>
   injection_free (\<lambda>params. cmd_set_kernel_cmdline params)"
  unfolding boot_builders grub_rebuild_fragment_def case_prod_unfold return_push let_flat
  by (rule conjI free_rules | rule free_steps | (simp add: read_simps; fail)[1] | (simp only: joined_simps)[1])+

lemma targets_safe: "t \<in> set BOOT_TARGETS \<Longrightarrow> tame t = t"
  by (auto simp: BOOT_TARGETS_def tame_def safe_char_def is_alnum_def is_lower_def)

lemma set_boot_target_free: "injection_free (\<lambda>target. cmd_set_boot_target target)"
  apply (rule free_same [where f = "\<lambda>target. cmd_set_boot_target (tame (strip target))"])
   unfolding cmd_set_boot_target_def case_prod_unfold fst_conv snd_conv strip_tame strip_plain
   apply (rule free_steps | (simp add: read_simps; fail)[1] | (simp only: joined_simps)[1])+
  apply (auto simp: Let_def and_then_Inr targets_safe split: if_splits)[1]
  done

lemma set_grub_timeout_free: "injection_free (\<lambda>seconds. cmd_set_grub_timeout seconds)"
  apply (rule free_same [where f = "\<lambda>seconds. cmd_set_grub_timeout (tame (strip seconds))"])
   unfolding cmd_set_grub_timeout_def case_prod_unfold fst_conv snd_conv strip_tame strip_plain grub_rebuild_fragment_def
   apply (rule free_steps | (simp add: read_simps; fail)[1] | (simp only: joined_simps)[1])+
  apply (auto simp: Let_def and_then_Inr digits_tame split: if_splits)[1]
  done

lemma remove_old_kernels_free: "injection_free (\<lambda>keep. cmd_remove_old_kernels keep)"
  apply (rule free_same [where f = "\<lambda>keep. cmd_remove_old_kernels (tame (strip (if_empty keep ''2'')))"])
   unfolding cmd_remove_old_kernels_def case_prod_unfold fst_conv snd_conv strip_tame strip_plain if_empty_tame
   apply (rule free_steps | (simp add: read_simps; fail)[1] | (simp only: joined_simps)[1])+
  apply (auto simp: Let_def and_then_Inr digits_tame split: if_splits)[1]
  done

end
