(* ===== verification/Cmd_Certs.thy ===== *)
theory Cmd_Certs
  imports Shell_Uniform
begin

text \<open>
  The builders of \<^verbatim>\<open>client/_api_certs.py\<close>: requests, installation and checks of certificates.
\<close>

definition host_name :: "string \<Rightarrow> bool" where
  "host_name = over (\<lambda>c. is_alnum c \<or> c \<in> set ''.-'')"

definition subject_name :: "string \<Rightarrow> bool" where
  "subject_name = over (\<lambda>c. is_alnum c \<or> c \<in> set ''_ .,-'' \<or> c = CHR 0x27)"

section \<open>Builders\<close>

definition need_openssl :: "string" where
  "need_openssl =
     ''if ! command -v openssl >/dev/null 2>&1; then echo 'openssl is not installed '' @
          ''on this host.' >&2; exit 1; fi; ''"

definition cmd_generate_csr :: "string \<Rightarrow> string \<Rightarrow> string \<Rightarrow> string checked" where
  "cmd_generate_csr common_name org out_dir =
     (let common_name = strip common_name in
      let org = strip org in
      let out_dir = strip (if_empty out_dir ''/etc/ssl/sysible'') in
      if (common_name = []) \<or> (\<not> (host_name common_name)) then
        Inl Value_Error
      else if org \<noteq> [] \<and> (\<not> (subject_name org)) then
        Inl Value_Error
      else 
      let subj = ''/CN='' @ common_name @ (if org \<noteq> [] then ''/O='' @ org else []) in
      let qsubj = quote subj in
      let qdir = quote out_dir in
      Inr (need_openssl @ ''d='' @ qdir @ ''; mkdir -p \"$d\" && chmod 700 \"$d\"; key=\"$d/'' @
           common_name @ ''.key\"; csr=\"$d/'' @ common_name @
           ''.csr\"; openssl req -new -newkey rsa:2048 -nodes -keyout \"$key\" -out \"$csr\" '' @
           ''-subj '' @ qsubj @ '' && chmod 600 \"$key\" && echo \"Generated key and CSR for '' @
           common_name @
           '':\" && echo \"  $key\" && echo \"  $csr\" && echo && echo '== CSR ==' && cat '' @
           ''\"$csr\"''))"

definition cmd_install_certificate :: "string \<Rightarrow> string \<Rightarrow> string \<Rightarrow> string checked" where
  "cmd_install_certificate cert_src key_src dest_dir =
     (let cert_src = strip cert_src in
      let key_src = strip key_src in
      let dest_dir = strip (if_empty dest_dir ''/etc/ssl/sysible'') in
      if cert_src = [] then
        Inl Value_Error
      else 
      let qcert = quote cert_src in
      let qdir = quote dest_dir in
      let out = need_openssl @ ''cert='' @ qcert @ ''; d='' @ qdir @
                ''; if [ ! -f \"$cert\" ]; then echo \"Certificate not found: $cert\" >&2; exit '' @
                ''1; fi; mkdir -p \"$d\"; openssl x509 -in \"$cert\" -noout -subject -enddate '' @
                ''|| { echo \"Not a valid certificate.\" >&2; exit 1; }; install -m 644 \"$cert\" '' @
                ''\"$d/\" && echo \"Installed certificate into $d.\"; '' in
      let out = (if key_src \<noteq> [] then let qkey = quote key_src in 
             out @ ''key='' @ qkey @
                  ''; if [ -f \"$key\" ]; then install -m 600 \"$key\" \"$d/\" && echo \"Installed '' @
                  ''private key (mode 600) into $d.\"; else echo \"Key not found: $key\" >&2; exit '' @
                  ''1; fi''
            else out) in
      Inr (out))"

definition cmd_check_certificate :: "string \<Rightarrow> string checked" where
  "cmd_check_certificate cert_path =
     (let cert_path = strip cert_path in
      if cert_path = [] then
        Inl Value_Error
      else 
      let qc = quote cert_path in
      Inr (need_openssl @ ''c='' @ qc @
           ''; if [ ! -f \"$c\" ]; then echo \"Certificate not found: $c\" >&2; exit 1; fi; '' @
           ''openssl x509 -in \"$c\" -noout -subject -issuer -dates 2>&1; echo; if openssl '' @
           ''x509 -in \"$c\" -noout -checkend 0 >/dev/null 2>&1; then echo 'Status: VALID '' @
           ''(not expired).'; if ! openssl x509 -in \"$c\" -noout -checkend 2592000 >/dev/null '' @
           ''2>&1; then echo 'Note: expires within 30 days - plan to renew.'; fi; else '' @
           ''echo 'Status: EXPIRED - replace this certificate.' >&2; exit 1; fi''))"

definition cmd_install_certbot :: "string" where
  "cmd_install_certbot =
     ''if command -v certbot >/dev/null 2>&1; then echo \"certbot already installed: '' @
          ''$(certbot --version 2>&1)\"; exit 0; fi; if command -v dnf >/dev/null 2>&1; '' @
          ''then dnf install -y certbot; elif command -v yum >/dev/null 2>&1; then yum '' @
          ''install -y certbot; elif command -v zypper >/dev/null 2>&1; then zypper '' @
          ''--non-interactive install certbot; elif command -v apt-get >/dev/null 2>&1; '' @
          ''then export DEBIAN_FRONTEND=noninteractive; apt-get update && apt-get install '' @
          ''-y certbot; elif command -v pacman >/dev/null 2>&1; then pacman -Sy --needed '' @
          ''--noconfirm certbot; elif command -v snap >/dev/null 2>&1; then snap install '' @
          ''--classic certbot && ln -sf /snap/bin/certbot /usr/bin/certbot; else echo '' @ SQ @
          ''No supported package manager (dnf/yum/zypper/apt/snap) found to install '' @
          ''certbot.' >&2; exit 1; fi; if command -v certbot >/dev/null 2>&1; then echo '' @
          ''\"Installed: $(certbot --version 2>&1)\"; else echo 'certbot install did not '' @
          ''complete (a native package may be unavailable '' @ [CHR 0xE2, CHR 0x80, CHR 0x94] @
          '' on RHEL enable EPEL, or '' @ ''install snapd).' >&2; exit 1; fi''"

definition cmd_renew_certbot :: "string \<Rightarrow> string checked" where
  "cmd_renew_certbot domain =
     (let domain = strip domain in
      if domain \<noteq> [] \<and> (\<not> (host_name domain)) then
        Inl Value_Error
      else 
      let inner = if domain = [] then ''certbot renew'' else ''certbot renew --force-renewal --cert-name '' @ quote domain in
      Inr (''if ! command -v certbot >/dev/null 2>&1; then echo 'certbot is not installed '' @
           ''on this host. Use the \"Install certbot\" button above first.' >&2; exit 1; '' @
           ''fi; '' @ inner @ '' 2>&1''))"

definition cmd_verify_chain :: "string \<Rightarrow> string \<Rightarrow> string checked" where
  "cmd_verify_chain cert_path chain_path =
     (let cert_path = strip cert_path in
      let chain_path = strip chain_path in
      if cert_path = [] then
        Inl Value_Error
      else 
      let qc = quote cert_path in
      let verify = ''openssl verify '' @ qc @ '' 2>&1'' in
      let verify = (if chain_path \<noteq> [] then let qchain = quote chain_path in 
             ''openssl verify -untrusted '' @ qchain @ '' '' @ qc @ '' 2>&1''
            else verify) in
      Inr (need_openssl @ ''c='' @ qc @
           ''; if [ ! -f \"$c\" ]; then echo \"Certificate not found: $c\" >&2; exit 1; fi; '' @
           ''echo '== Verify =='; '' @ verify @
           ''; echo; echo '== Certificate chain (issuers) =='; openssl crl2pkcs7 -nocrl '' @
           ''-certfile \"$c\" 2>/dev/null | openssl pkcs7 -print_certs -noout 2>/dev/null '' @
           ''| grep -E 'subject|issuer' || openssl x509 -in \"$c\" -noout -subject -issuer''))"

definition cmd_troubleshoot_tls :: "string \<Rightarrow> string \<Rightarrow> string checked" where
  "cmd_troubleshoot_tls host port =
     (let host = strip host in
      let port = strip (if_empty port ''443'') in
      if (host = []) \<or> (\<not> (host_name host)) then
        Inl Value_Error
      else if (\<not> (is_digits port)) \<or> (\<not> (1 \<le> (the (parse_int port)) \<and> (the (parse_int port)) \<le> 65535)) then
        Inl Value_Error
      else 
      let qh = quote host in
      Inr (need_openssl @ ''h='' @ qh @ ''; p='' @ port @
           ''; echo \"Connecting to $h:$p ...\"; echo; out=$(echo | openssl s_client -connect '' @
           ''\"$h:$p\" -servername \"$h\" 2>&1); echo \"$out\" | sed -n '/Certificate chain/,/---/p'; '' @
           ''echo; echo \"$out\" | grep -E 'subject=|issuer=|Verify return code|Verification'; '' @
           ''echo; echo '== Validity =='; echo | openssl s_client -connect \"$h:$p\" -servername '' @
           ''\"$h\" 2>/dev/null | openssl x509 -noout -dates 2>/dev/null || echo '(could '' @
           ''not parse certificate - is the port serving TLS?)'' @ SQ))"

section \<open>What the shell reads\<close>

lemmas certs_builders = cmd_check_certificate_def cmd_renew_certbot_def cmd_verify_chain_def

lemma plain_certs_free:
  "injection_free (\<lambda>cert_path. cmd_check_certificate cert_path) \<and>
   injection_free (\<lambda>domain. cmd_renew_certbot domain) \<and>
   injection_free (\<lambda>(cert_path, chain_path). cmd_verify_chain cert_path chain_path)"
  unfolding certs_builders need_openssl_def case_prod_unfold return_push let_flat
  by (rule conjI free_rules | rule free_steps | (simp add: read_simps; fail)[1] | (simp only: joined_simps)[1])+

lemma host_tame: "host_name s \<Longrightarrow> tame s = s"
  unfolding host_name_def by (rule over_tame) (auto simp: safe_char_def)

lemma install_certificate_free: "injection_free (\<lambda>(cert_src, key_src, dest_dir). cmd_install_certificate cert_src key_src dest_dir)"
  apply (rule free_same [where f = "\<lambda>(cert_src, key_src, dest_dir). cmd_install_certificate cert_src key_src dest_dir"])
   unfolding cmd_install_certificate_def case_prod_unfold fst_conv snd_conv strip_tame strip_plain need_openssl_def
   apply (rule free_split_steps | (simp add: read_simps; fail)[1] | (simp only: joined_simps)[1])+
  done

lemma generate_csr_free: "injection_free (\<lambda>(common_name, org, out_dir). cmd_generate_csr common_name org out_dir)"
  apply (rule free_same [where f = "\<lambda>(common_name, org, out_dir). cmd_generate_csr (tame (strip common_name)) org out_dir"])
   unfolding cmd_generate_csr_def case_prod_unfold fst_conv snd_conv strip_tame strip_plain need_openssl_def
   apply (rule free_steps | (simp add: read_simps; fail)[1] | (simp only: joined_simps)[1])+
  apply (auto simp: Let_def and_then_Inr host_tame split: if_splits)[1]
  done

lemma troubleshoot_tls_free: "injection_free (\<lambda>(host, port). cmd_troubleshoot_tls host port)"
  apply (rule free_same [where f = "\<lambda>(host, port). cmd_troubleshoot_tls (tame (strip host)) (tame (strip (if_empty port ''443'')))"])
   unfolding cmd_troubleshoot_tls_def case_prod_unfold fst_conv snd_conv strip_tame strip_plain need_openssl_def if_empty_tame
   apply (rule free_steps | (simp add: read_simps; fail)[1] | (simp only: joined_simps)[1])+
  apply (auto simp: Let_def and_then_Inr host_tame digits_tame split: if_splits)[1]
  done

end
