(* ===== verification/Cmd_Containers.thy ===== *)
theory Cmd_Containers
  imports Shell_Uniform
begin

text \<open>
  The builders of \<^verbatim>\<open>client/_api_containers.py\<close>: containers, images and virtual machines.
\<close>

definition CONTAINER_ACTIONS :: "string list" where
  "CONTAINER_ACTIONS = [''start'', ''stop'', ''restart'', ''rm'', ''pause'', ''unpause'']"

definition VM_ACTIONS :: "string list" where
  "VM_ACTIONS = [''start'', ''shutdown'', ''reboot'', ''destroy'', ''suspend'', ''resume'']"

text \<open>The name field split at commas and white space, without the blank parts.\<close>

definition split_targets :: "string \<Rightarrow> string list" where
  "split_targets name = split_words (map (\<lambda>c. if c = CHR '','' then CHR '' '' else c) name)"

section \<open>Builders\<close>

definition RT :: string where
  "RT =
     ''rt=$(command -v docker 2>/dev/null || command -v podman 2>/dev/null); if '' @
     ''[ -z \"$rt\" ]; then echo \"No container runtime found (docker or podman).\" '' @
     ''>&2; exit 1; fi; ''"

definition VIRSH :: string where
  "VIRSH =
     ''if ! command -v virsh >/dev/null 2>&1; then echo \"virsh (libvirt) is not '' @
     ''installed on this host.\" >&2; exit 1; fi; : \"${LIBVIRT_DEFAULT_URI:=qemu:///system}\"; '' @
     ''export LIBVIRT_DEFAULT_URI; ''"

definition cmd_container_runtime :: "string" where
  "cmd_container_runtime =
     ''if command -v docker >/dev/null 2>&1; then echo \"Runtime: docker\"; docker '' @
          ''version --format \"{{.Server.Version}}\" 2>/dev/null; elif command -v podman '' @
          ''>/dev/null 2>&1; then echo \"Runtime: podman\"; podman version --format \"{{.Version}}\" '' @
          ''2>/dev/null; else echo \"No container runtime found (docker or podman).\"; '' @ ''fi''"

definition cmd_list_containers :: "bool \<Rightarrow> string" where
  "cmd_list_containers all_containers =
     (let flag = if all_containers then ''-a '' else [] in
      RT @ ''\"$rt\" ps '' @ flag @ ''--format \"table {{.Names}}'' @ BS @ ''t{{.Status}}'' @
           BS @ ''t{{.Image}}'' @ BS @ ''t{{.Ports}}\" 2>&1 || '' @ ''\"$rt\" ps '' @ strip flag)"

definition cmd_list_images :: "string" where
  "cmd_list_images =
     RT @ ''\"$rt\" images 2>&1''"

definition cmd_container_action :: "string \<Rightarrow> string \<Rightarrow> string checked" where
  "cmd_container_action action name =
     (let action = strip action in
      let name = strip name in
      if action \<notin> set CONTAINER_ACTIONS then
        Inl Value_Error
      else if name = [] then
        Inl Value_Error
      else if (lower name) \<in> {''all'', ''*''} then
        Inr (RT @
             ''ids=$(\"$rt\" ps -aq 2>/dev/null); [ -n \"$ids\" ] || { echo \"No containers '' @
             ''found.\"; exit 0; }; rc=0; for c in $ids; do echo \"== '' @ action @
             '' $c ==\"; \"$rt\" '' @ action @ '' \"$c\" 2>&1 || rc=1; done; echo \"'' @ action @
             '': requested on all containers.\"; exit \"$rc\"'')
      else 
      let targets = split_targets name in
      if (int (length targets)) = 1 then
        Inr (RT @ ''\"$rt\" '' @ action @ '' '' @ quote (targets ! 0) @ '' && echo \"'' @ action @
             '': done.\"'')
      else 
      let quoted = join '' '' (map quote targets) in
      Inr (RT @ ''rc=0; for c in '' @ quoted @ ''; do echo \"== '' @ action @
           '' $c ==\"; \"$rt\" '' @ action @ '' \"$c\" 2>&1 || rc=1; done; echo \"'' @ action @
           '': requested on '' @ show_int (int (length targets)) @ '' container(s).\"; exit \"$rc\"''))"

definition cmd_container_logs :: "string \<Rightarrow> int \<Rightarrow> string checked" where
  "cmd_container_logs name lines' =
     (let name = strip name in
      if name = [] then
        Inl Value_Error
      else 
      let lines' = max 1 lines' in
      let qn = quote name in
      Inr (RT @ ''\"$rt\" logs --tail '' @ show_int lines' @ '' '' @ qn @ '' 2>&1''))"

definition cmd_container_prune :: "string" where
  "cmd_container_prune =
     RT @
          ''\"$rt\" system prune -f 2>&1 && echo \"Pruned stopped containers, unused networks, '' @
          ''and dangling images.\"''"

definition cmd_list_vms :: "string" where
  "cmd_list_vms =
     VIRSH @ ''virsh list --all 2>&1''"

definition cmd_list_vm_names :: "string" where
  "cmd_list_vm_names =
     VIRSH @ ''virsh list --all --name 2>/dev/null''"

definition cmd_vm_action :: "string \<Rightarrow> string \<Rightarrow> string checked" where
  "cmd_vm_action action name =
     (let action = strip action in
      let name = strip name in
      if action \<notin> set VM_ACTIONS then
        Inl Value_Error
      else if name = [] then
        Inl Value_Error
      else if (lower name) \<in> {''all'', ''*''} then
        Inr (VIRSH @ ''virsh list --all --name 2>/dev/null | { rc=0; while IFS= read -r vm; do '' @
             ''[ -n \"$vm\" ] || continue; echo \"== '' @ action @ '' $vm ==\"; virsh '' @ action @
             '' \"$vm\" 2>&1 || rc=1; done; echo \"'' @ action @
             '': requested on all VMs.\"; exit \"$rc\"; }'')
      else 
      let targets = split_targets name in
      if (int (length targets)) = 1 then
        Inr (VIRSH @ ''virsh '' @ action @ '' '' @ quote (targets ! 0) @ '' 2>&1 && echo \"'' @
             action @ '': requested.\"'')
      else 
      let quoted = join '' '' (map quote targets) in
      Inr (VIRSH @ ''rc=0; for vm in '' @ quoted @ ''; do echo \"== '' @ action @
           '' $vm ==\"; virsh '' @ action @ '' \"$vm\" 2>&1 || rc=1; done; echo \"'' @ action @
           '': requested on '' @ show_int (int (length targets)) @ '' VM(s).\"; exit \"$rc\"''))"

definition cmd_vm_info :: "string \<Rightarrow> string checked" where
  "cmd_vm_info name =
     (let name = strip name in
      if name = [] then
        Inl Value_Error
      else 
      let qn = quote name in
      Inr (VIRSH @ ''virsh dominfo '' @ qn @ '' 2>&1''))"

section \<open>What the shell reads\<close>

lemmas containers_builders = cmd_container_logs_def cmd_vm_info_def

lemma plain_containers_free:
  "injection_free (\<lambda>(name, lines'). cmd_container_logs name lines') \<and>
   injection_free (\<lambda>name. cmd_vm_info name)"
  unfolding containers_builders RT_def VIRSH_def case_prod_unfold return_push let_flat
  by (rule conjI free_rules | rule free_steps | (simp add: read_simps; fail)[1] | (simp only: joined_simps)[1])+

lemma actions_safe:
  "a \<in> set CONTAINER_ACTIONS \<Longrightarrow> a \<noteq> [] \<and> list_all safe_char a"
  "a \<in> set VM_ACTIONS \<Longrightarrow> a \<noteq> [] \<and> list_all safe_char a"
  by (auto simp: CONTAINER_ACTIONS_def VM_ACTIONS_def safe_char_def is_alnum_def is_lower_def)

lemma list_containers_free: "injection_free (\<lambda>every. Inr (cmd_list_containers every))"
  unfolding cmd_list_containers_def RT_def return_push let_flat
  by (rule free_split_steps | (simp add: read_simps strip_def is_space_def; fail)[1])+

lemma actions_free:
  "injection_free (\<lambda>(a, n). cmd_container_action a n)" "injection_free (\<lambda>(a, n). cmd_vm_action a n)"
  unfolding cmd_container_action_def cmd_vm_action_def case_prod_unfold RT_def VIRSH_def
  subgoal
    apply (rule free_let_let_tame)
     apply (rule actions_safe, simp)
    apply (rule free_steps | (simp add: read_simps; fail)[1])+
    done
  subgoal
    apply (rule free_let_let_tame)
     apply (rule actions_safe(2), simp)
    apply (rule free_steps | (simp add: read_simps; fail)[1])+
    done
  done

end
