(* ===== verification/Cmd_Directory.thy ===== *)
theory Cmd_Directory
  imports Shell_Uniform
begin

text \<open>
  The builders of \<^verbatim>\<open>client/_api_directory.py\<close>: Active Directory, Kerberos and LDAP.  Host names
  and domains are described by the same expression.
\<close>

definition domain_name :: "string \<Rightarrow> bool" where
  "domain_name = over (\<lambda>c. is_alnum c \<or> c \<in> set ''.-'')"

definition principal_name :: "string \<Rightarrow> bool" where
  "principal_name = over (\<lambda>c. is_alnum c \<or> c \<in> set '' ._@-'')"

definition krb_principal :: "string \<Rightarrow> bool" where
  "krb_principal s =
     (let name = takeWhile (\<lambda>c. c \<noteq> CHR ''@'') s; realm = dropWhile (\<lambda>c. c \<noteq> CHR ''@'') s
      in over (\<lambda>c. is_alnum c \<or> c \<in> set ''._/-'') name \<and>
         (realm = [] \<or> over (\<lambda>c. is_alnum c \<or> c \<in> set ''.-'') (tl realm)))"

section \<open>Builders\<close>

definition INSTALL_REALM :: string where
  "INSTALL_REALM =
     ''if command -v apt-get >/dev/null 2>&1; then export DEBIAN_FRONTEND=noninteractive; '' @
     ''apt-get update; apt-get install -y realmd sssd sssd-tools libnss-sss libpam-sss '' @
     ''adcli samba-common-bin oddjob oddjob-mkhomedir packagekit krb5-user; elif '' @
     ''command -v dnf >/dev/null 2>&1; then dnf install -y realmd sssd oddjob oddjob-mkhomedir '' @
     ''adcli samba-common samba-common-tools krb5-workstation; elif command -v '' @
     ''yum >/dev/null 2>&1; then yum install -y realmd sssd oddjob oddjob-mkhomedir '' @
     ''adcli samba-common samba-common-tools krb5-workstation; elif command -v '' @
     ''zypper >/dev/null 2>&1; then zypper --non-interactive install realmd sssd '' @
     ''sssd-ad adcli samba-client krb5-client; elif command -v pacman >/dev/null '' @
     ''2>&1; then pacman -Sy --needed --noconfirm sssd krb5 samba; miss=; for b '' @
     ''in realm adcli; do command -v \"$b\" >/dev/null 2>&1 || miss=\"$miss $b\"; done; '' @
     ''if [ -n \"$miss\" ]; then echo 'Arch: realmd and adcli are AUR-only (not in '' @
     ''the official repos); pacman cannot install them. Install them from the AUR '' @
     ''(e.g. yay -S realmd adcli), then re-run.' >&2; exit 1; fi; else echo 'No '' @
     ''supported package manager found.' >&2; exit 1; fi''"

definition cmd_install_ad_dependencies :: "string" where
  "cmd_install_ad_dependencies =
     INSTALL_REALM @
          '' && echo 'Active Directory client dependencies installed (realmd, SSSD, '' @
          ''adcli, Kerberos, samba tools). You can now Join Domain.'' @ SQ"

definition cmd_prepare_ad_join :: "string \<Rightarrow> string checked" where
  "cmd_prepare_ad_join domain =
     (let domain = strip domain in
      if domain \<noteq> [] \<and> (\<not> (domain_name domain)) then
        Inl Value_Error
      else 
      let discover = [] in
      let discover = (if domain \<noteq> [] then let dq = quote domain in 
             ''echo; echo '== Domain discovery (realm discover) =='; realm discover '' @ dq @
                  '' 2>&1 || echo 'Could not discover '' @ domain @ '' - point this host'' @ SQ @
                  BS @ SQ @ SQ @ ''s DNS at the AD domain controllers and confirm the '' @
                  ''domain is reachable.'; ''
            else discover) in
      Inr (''set +e; echo '== 1/5 Installing AD client packages =='; '' @ INSTALL_REALM @
           '' || { echo 'Package install failed.' >&2; exit 1; }; echo 'Packages installed.'; '' @
           ''echo; echo '== 2/5 Enabling time synchronization (Kerberos needs an accurate '' @
           ''clock) =='; if systemctl enable --now chronyd 2>/dev/null || systemctl enable '' @
           ''--now chrony 2>/dev/null; then echo 'chrony enabled and started.'; else '' @
           ''timedatectl set-ntp true 2>/dev/null; systemctl enable --now systemd-timesyncd '' @
           ''2>/dev/null && echo 'systemd-timesyncd enabled.' || echo 'Could not enable '' @
           ''a time-sync service - make sure this host'' @ SQ @ BS @ SQ @ SQ @
           ''s clock is accurate.'; fi; '' @
           ''echo; echo '== 3/5 Starting message bus + oddjob =='; systemctl enable --now '' @
           ''dbus 2>/dev/null || systemctl enable --now messagebus 2>/dev/null || true; '' @
           ''systemctl enable --now oddjobd 2>/dev/null && echo 'oddjobd enabled and '' @
           ''started.' || echo 'oddjobd not started (install/start it if home-dir creation '' @
           ''is needed).'; echo; echo '== 4/5 Enabling automatic home-dir creation on '' @
           ''first login =='; if command -v authselect >/dev/null 2>&1; then authselect '' @
           ''enable-feature with-mkhomedir 2>&1 && echo 'mkhomedir enabled (authselect).'; '' @
           ''elif command -v pam-auth-update >/dev/null 2>&1; then pam-auth-update --enable '' @
           ''mkhomedir 2>/dev/null && echo 'mkhomedir enabled (pam-auth-update).' || '' @
           ''echo 'Enable \"Create home directory on login\" via pam-auth-update.'; elif '' @
           ''command -v pam-config >/dev/null 2>&1; then pam-config --add --mkhomedir '' @
           ''2>&1 && echo 'mkhomedir enabled (pam-config).' || echo 'Enable pam_mkhomedir '' @
           ''via pam-config on this host.'; elif command -v pacman >/dev/null 2>&1; then '' @
           ''echo 'Arch: enable pam_mkhomedir manually - add \"session optional pam_mkhomedir.so '' @
           ''umask=0077\" to /etc/pam.d/system-login (no pam-config/authselect on Arch).'; '' @
           ''else echo 'oddjobd started; enable pam_mkhomedir in your PAM stack if home '' @
           ''dirs are needed.'; fi; echo; echo '== 5/5 Readiness check =='; for t in '' @
           ''realm adcli klist; do if command -v \"$t\" >/dev/null 2>&1; then echo \"  $t: '' @
           ''present\"; else echo \"  $t: MISSING\"; fi; done; if [ -x /usr/sbin/sssd ] '' @
           ''|| [ -x /sbin/sssd ] || command -v sssd >/dev/null 2>&1; then echo '  sssd: '' @
           ''installed (will start on join)'; else echo '  sssd: MISSING'; fi; echo ' '' @
           '' time sync:'; timedatectl 2>/dev/null | grep -iE 'synchronized|NTP service' '' @
           ''| sed 's/^/   /' || true; '' @ discover @
           ''echo; echo 'Host prepared. Next: Join AD Domain with your domain and an '' @
           ''account permitted to join computers.'' @ SQ))"

definition cmd_install_ldap_dependencies :: "string" where
  "cmd_install_ldap_dependencies =
     ''if command -v apt-get >/dev/null 2>&1; then export DEBIAN_FRONTEND=noninteractive; '' @
          ''apt-get update; apt-get install -y sssd sssd-tools libnss-sss libpam-sss '' @
          ''ldap-utils oddjob oddjob-mkhomedir; elif command -v dnf >/dev/null 2>&1; '' @
          ''then dnf install -y sssd sssd-ldap openldap-clients oddjob oddjob-mkhomedir; '' @
          ''elif command -v yum >/dev/null 2>&1; then yum install -y sssd sssd-ldap '' @
          ''openldap-clients oddjob oddjob-mkhomedir; elif command -v zypper >/dev/null '' @
          ''2>&1; then zypper --non-interactive install sssd sssd-ldap openldap2-client; '' @
          ''elif command -v pacman >/dev/null 2>&1; then pacman -Sy --needed --noconfirm '' @
          ''sssd openldap; else echo 'No supported package manager found.' >&2; exit '' @
          ''1; fi; echo 'LDAP client dependencies installed (SSSD, LDAP utils, PAM/NSS '' @
          ''modules).'' @ SQ"

definition cmd_kerberos_status :: "string" where
  "cmd_kerberos_status =
     ''echo '== Cached tickets (klist) =='; klist 2>&1 || echo '(no credential '' @
          ''cache, or klist not installed)'; echo; echo '== Default realm =='; grep '' @
          ''-i 'default_realm' /etc/krb5.conf 2>/dev/null || echo '(none configured)'; '' @
          ''echo; echo '== Host keytab (klist -k) =='; klist -k 2>/dev/null | head -n '' @
          ''20 || echo '(no /etc/krb5.keytab)'' @ SQ"

definition cmd_kerberos_destroy :: "string" where
  "cmd_kerberos_destroy =
     ''if command -v kdestroy >/dev/null 2>&1; then kdestroy && echo 'Destroyed '' @
          ''cached Kerberos tickets.'; else echo 'kdestroy is not installed (install '' @
          ''the Kerberos client).' >&2; exit 1; fi''"

definition cmd_kerberos_kinit :: "string \<Rightarrow> string \<Rightarrow> string checked" where
  "cmd_kerberos_kinit principal' password =
     (let principal' = strip principal' in
      if (principal' = []) \<or> (\<not> (krb_principal principal')) then
        Inl Value_Error
      else if password = [] then
        Inl Value_Error
      else 
      let q_p = quote principal' in
      let q_pass = quote password in
      Inr (''if ! command -v kinit >/dev/null 2>&1; then echo 'kinit is not installed '' @
           ''(install the Kerberos client).' >&2; exit 1; fi; cred=$(mktemp) && chmod '' @
           ''600 \"$cred\"; printf '%s' '' @ q_pass @ '' > \"$cred\"; kinit '' @ q_p @
           '' < \"$cred\"; rc=$?; rm -f \"$cred\"; if [ \"$rc\" -eq 0 ]; then echo 'Obtained '' @
           ''a ticket for '' @ principal' @
           '':'; klist; else echo 'kinit failed - check the principal, password, realm, '' @
           ''and that DNS/clock are in sync with the KDC.' >&2; exit \"$rc\"; fi''))"

definition cmd_kerberos_config :: "string \<Rightarrow> string \<Rightarrow> string \<Rightarrow> string checked" where
  "cmd_kerberos_config realm kdc admin_server =
     (let realm = upper (strip realm) in
      let kdc = strip kdc in
      let admin_server = if_empty (strip admin_server) kdc in
      if (\<not> (domain_name realm)) \<or> (CHR ''.'' \<notin> set realm) then
        Inl Value_Error
      else if \<not> (domain_name kdc) then
        Inl Value_Error
      else if \<not> (domain_name admin_server) then
        Inl Value_Error
      else 
      let conf = ''[libdefaults]\<newline>'' @ ''    default_realm = '' @ realm @ ''\<newline>'' @
                 ''    dns_lookup_realm = false\<newline>'' @
                 ''    dns_lookup_kdc = true\<newline>'' @ ''    rdns = false\<newline>'' @
                 ''\<newline>'' @ ''[realms]\<newline>'' @ ''    '' @ realm @ '' = {\<newline>'' @
                 ''        kdc = '' @ kdc @ ''\<newline>'' @ ''        admin_server = '' @
                 admin_server @ ''\<newline>'' @ ''    }\<newline>'' in
      Inr (''[ -f /etc/krb5.conf ] && cp /etc/krb5.conf /etc/krb5.conf.sysible.bak; cat '' @
           ''> /etc/krb5.conf <<'SYS_KRB5'\<newline>'' @ conf @ ''SYS_KRB5\<newline>'' @
           ''rc=$?; if [ \"$rc\" -ne 0 ]; then echo 'Failed to write /etc/krb5.conf.' '' @
           ''>&2; exit \"$rc\"; fi; echo 'Wrote /etc/krb5.conf for realm '' @ realm @ '' (KDC '' @
           kdc @ ''); a backup of any prior config is at /etc/krb5.conf.sysible.bak.'' @ SQ))"

definition cmd_realm_status :: "string" where
  "cmd_realm_status =
     ''joined=0; if command -v realm >/dev/null 2>&1; then echo \"== realm list '' @
          ''==\";   rl=$(realm list 2>/dev/null);   if [ -n \"$rl\" ]; then echo \"$rl\"; '' @
          ''joined=1; else echo \"(not joined to any domain yet)\"; fi; else echo \"realmd '' @
          ''is not installed - use Prepare Host for AD Join.\"; fi; echo; echo \"== SSSD '' @
          ''service ==\"; state=$(systemctl is-active sssd 2>/dev/null); [ -n \"$state\" '' @
          ''] || state=unknown; echo \"$state\"; if [ \"$state\" != \"active\" ]; then   if '' @
          ''[ \"$joined\" = \"1\" ]; then     echo \"WARNING: this host is joined but SSSD '' @
          ''is not running - directory logins will fail. Start it with: systemctl enable '' @
          ''--now sssd.\";   else     echo \"This is expected: SSSD has no config and '' @
          ''stays stopped until a successful domain join (the join writes /etc/sssd/sssd.conf '' @
          ''and starts it).\";   fi; fi; echo; echo \"== Kerberos default realm ==\"; grep '' @
          ''-i \"^[[:space:]]*default_realm\" /etc/krb5.conf 2>/dev/null || echo \"(none '' @
          ''configured)\"''"

definition cmd_join_ad :: "string \<Rightarrow> string \<Rightarrow> string \<Rightarrow> string \<Rightarrow> string checked" where
  "cmd_join_ad domain admin_user password computer_ou =
     (let domain = strip domain in
      let admin_user = strip admin_user in
      let computer_ou = strip computer_ou in
      if (\<not> (domain_name domain)) \<or> (CHR ''.'' \<notin> set domain) then
        Inl Value_Error
      else if (admin_user = []) \<or> (CHR '' '' \<in> set admin_user) then
        Inl Value_Error
      else if password = [] then
        Inl Value_Error
      else 
      let q_dom = quote domain in
      let q_user = quote admin_user in
      let q_pass = quote password in
      let ou = if computer_ou \<noteq> [] then ''--computer-ou='' @ quote computer_ou @ '' '' else [] in
      Inr (''dom='' @ q_dom @ ''; '' @ INSTALL_REALM @
           ''; echo \"== Discovering $dom ==\"; if ! realm discover \"$dom\" 2>&1; then  '' @
           '' echo \"\" >&2;   echo \"Realm discovery failed: this host cannot locate $dom '' @
           ''via DNS, so a join cannot proceed.\" >&2;   echo \"DNS servers this host is '' @
           ''using:\" >&2;   { resolvectl status 2>/dev/null | grep -i \"DNS Server\" || '' @
           ''grep -i \"^nameserver\" /etc/resolv.conf; } >&2;   echo \"AD SRV record lookup '' @
           ''(_ldap._tcp.$dom):\" >&2;   { host -t SRV _ldap._tcp.\"$dom\" 2>&1 || nslookup '' @
           ''-type=SRV _ldap._tcp.\"$dom\" 2>&1 || echo \"(no host/nslookup tool installed)\"; '' @
           ''} >&2;   case \"$dom\" in *.local) echo \"NOTE: a .local domain is normally '' @
           ''resolved by mDNS/Avahi, NOT your AD DNS - this by itself causes the No such '' @
           ''realm found error. Point this host DNS at the AD domain controller, and/or '' @
           ''stop mDNS handling .local, then retry.\" >&2;; esac;   echo \"Fix: set this '' @
           ''host DNS to the AD domain controller(s), confirm the clock is in sync with '' @
           ''the DC, then retry.\" >&2;   exit 1; fi; cred=$(mktemp) && chmod 600 \"$cred\"; '' @
           ''printf '%s' '' @ q_pass @ '' > \"$cred\"; realm join '' @ ou @ ''-U '' @ q_user @
           '' \"$dom\" < \"$cred\"; rc=$?; rm -f \"$cred\"; systemctl enable --now oddjobd '' @
           ''2>/dev/null || true; if [ \"$rc\" -eq 0 ]; then echo \"Joined $dom.\"; realm '' @
           ''list; else echo \"Join failed (the domain was discoverable, so check the '' @
           ''join account and password, the Computer OU, and that the host clock is in '' @
           ''sync with the DC).\" >&2; exit \"$rc\"; fi''))"

definition cmd_leave_ad :: "string \<Rightarrow> string checked" where
  "cmd_leave_ad domain =
     (let domain = strip domain in
      if (\<not> (domain_name domain)) \<or> (CHR ''.'' \<notin> set domain) then
        Inl Value_Error
      else 
      let q = quote domain in
      Inr (''if ! command -v realm >/dev/null 2>&1; then echo 'realmd is not installed.' '' @
           ''>&2; exit 1; fi; realm leave '' @ q @ '' && echo 'Left '' @ domain @ ''.'' @ SQ))"

definition cmd_realm_permit :: "string \<Rightarrow> bool \<Rightarrow> string checked" where
  "cmd_realm_permit principal' is_group =
     (let principal' = strip principal' in
      if (principal' = []) \<or> (\<not> (principal_name principal')) then
        Inl Value_Error
      else 
      let flag = if is_group then ''-g '' else [] in
      let q = quote principal' in
      Inr (''if ! command -v realm >/dev/null 2>&1; then echo 'realmd is not installed.' '' @
           ''>&2; exit 1; fi; realm permit '' @ flag @ q @ '' && echo 'Permitted '' @ principal' @
           '' to log in.'' @ SQ))"

definition cmd_enable_mkhomedir :: "string" where
  "cmd_enable_mkhomedir =
     ''systemctl enable --now oddjobd 2>/dev/null || true; if command -v authselect '' @
          ''>/dev/null 2>&1; then authselect enable-feature with-mkhomedir 2>&1 && echo '' @ SQ @
          ''Enabled home-dir creation (authselect with-mkhomedir).'; elif command -v '' @
          ''pam-auth-update >/dev/null 2>&1; then pam-auth-update --enable mkhomedir '' @
          ''2>/dev/null && echo 'Enabled home-dir creation (pam-auth-update mkhomedir).' '' @
          ''|| echo 'Run pam-auth-update on the host and enable \"Create home directory '' @
          ''on login\".'; elif command -v pam-config >/dev/null 2>&1; then pam-config '' @
          ''--add --mkhomedir 2>&1 && echo 'Enabled home-dir creation (pam-config --mkhomedir).' '' @
          ''|| echo 'Run pam-config --add --mkhomedir on this host.'; elif command -v '' @
          ''pacman >/dev/null 2>&1; then echo 'Arch: enable pam_mkhomedir manually - '' @
          ''add \"session optional pam_mkhomedir.so umask=0077\" to /etc/pam.d/system-login '' @
          ''(no pam-config/authselect on Arch).'; else echo 'Could not auto-configure '' @
          ''mkhomedir; oddjobd was started - enable pam_mkhomedir for your PAM stack.'; '' @ ''fi''"

definition cmd_test_ldaps :: "string \<Rightarrow> string \<Rightarrow> string \<Rightarrow> string checked" where
  "cmd_test_ldaps server port base_dn =
     (let server = strip server in
      let port = strip (if_empty port ''636'') in
      let base_dn = strip base_dn in
      if \<not> (domain_name server) then
        Inl Value_Error
      else if (\<not> (is_digits port)) \<or> (\<not> (1 \<le> (the (parse_int port)) \<and> (the (parse_int port)) \<le> 65535)) then
        Inl Value_Error
      else 
      let q_srv = quote server in
      let out = ''if ! command -v openssl >/dev/null 2>&1; then echo 'openssl is not installed.' '' @
                ''>&2; exit 1; fi; echo '== TLS to '' @ server @ '':'' @ port @
                '' =='; echo | openssl s_client -connect '' @ q_srv @ '':'' @ port @
                '' 2>&1 | grep -E 'subject=|issuer=|Verify return code' || echo '(no TLS response '' @
                ''- is this an LDAPS port?)'; echo; '' in
      let out = (if base_dn \<noteq> [] then let q_base = quote base_dn in 
             out @
                  ''if command -v ldapsearch >/dev/null 2>&1; then echo '== Anonymous base search '' @
                  ''=='; ldapsearch -H ldaps://'' @ q_srv @ '':'' @ port @ '' -x -b '' @ q_base @
                  '' -s base 2>&1 | head -n 20; else echo '(install ldap-utils / openldap-clients '' @
                  ''for an LDAP search test)'; fi''
            else out @ ''echo 'Provide a base DN to also run an anonymous LDAP search.'' @ SQ) in
      Inr (out))"

definition cmd_configure_ldap_client :: "string \<Rightarrow> string \<Rightarrow> bool \<Rightarrow> string checked" where
  "cmd_configure_ldap_client server base_dn use_ldaps =
     (let server = strip server in
      let base_dn = strip base_dn in
      if \<not> (domain_name server) then
        Inl Value_Error
      else if base_dn = [] then
        Inl Value_Error
      else if (CHR 0x0A \<in> set base_dn) \<or> (CHR 0x0D \<in> set base_dn) then
        Inl Value_Error
      else 
      let scheme = if use_ldaps then ''ldaps'' else ''ldap'' in
      let start_tls = if use_ldaps then ''False'' else ''True'' in
      let conf = ''[sssd]\<newline>'' @ ''services = nss, pam\<newline>'' @
                 ''config_file_version = 2\<newline>'' @ ''domains = LDAP\<newline>'' @
                 ''\<newline>'' @ ''[domain/LDAP]\<newline>'' @ ''id_provider = ldap\<newline>'' @
                 ''auth_provider = ldap\<newline>'' @ ''ldap_uri = '' @ scheme @ ''://'' @ server @
                 ''\<newline>'' @ ''ldap_search_base = '' @ base_dn @ ''\<newline>'' @
                 ''ldap_id_use_start_tls = '' @ start_tls @ ''\<newline>'' @
                 ''ldap_tls_reqcert = demand\<newline>'' @ ''cache_credentials = True\<newline>'' in
      let nss_wire = ''for _db in passwd group shadow; do if grep -qE \"^${_db}:\" /etc/nsswitch.conf '' @
                     ''2>/dev/null; then grep -E \"^${_db}:\" /etc/nsswitch.conf | grep -qw sss || '' @
                     ''sed -i \"/^${_db}:/ s/$/ sss/\" /etc/nsswitch.conf; else echo \"${_db}: files '' @
                     ''sss\" >> /etc/nsswitch.conf; fi; done; '' in
      let pam_wire = ''if command -v authselect >/dev/null 2>&1; then authselect select sssd with-mkhomedir '' @
                     ''2>&1 || echo 'Run: authselect select sssd with-mkhomedir (add --force if '' @
                     ''this host has manual PAM edits).'; elif command -v pam-auth-update >/dev/null '' @
                     ''2>&1; then pam-auth-update --enable sss mkhomedir 2>/dev/null || echo 'Run '' @
                     ''pam-auth-update and enable SSS authentication + Create home directory.'; '' @
                     ''elif command -v pam-config >/dev/null 2>&1; then pam-config --add --sss '' @
                     ''--mkhomedir 2>&1 || echo 'Run pam-config --add --sss on this host.'; else '' @
                     ''echo 'Enable pam_sss manually in the PAM stack (no authselect/pam-auth-update/pam-config '' @
                     ''here).'; fi; '' in
      Inr (''cat > /etc/sssd/sssd.conf <<'SYS_SSSD'\<newline>'' @ conf @ ''SYS_SSSD\<newline>'' @
           ''chmod 600 /etc/sssd/sssd.conf && systemctl restart sssd\<newline>'' @
           ''rc=$?\<newline>'' @ ''systemctl enable sssd 2>/dev/null || true; '' @ nss_wire @
           pam_wire @ ''if [ \"$rc\" -eq 0 ]; then printf 'Configured SSSD for '' @ scheme @
           ''://%s (base %s), wired NSS (sss) + PAM, and restarted SSSD. Verify with: '' @
           ''getent passwd <a-directory-user>.'' @ BS @ ''n' '' @ quote server @ '' '' @
           quote base_dn @
           ''; else echo 'ERROR: writing /etc/sssd/sssd.conf or restarting SSSD failed '' @
           ''- directory logins are NOT configured. Ensure SSSD is installed, this ran '' @
           ''as root, and the config is valid (journalctl -u sssd).' >&2; exit \"$rc\"; '' @ ''fi''))"

section \<open>What the shell reads\<close>

lemmas directory_builders = cmd_join_ad_def

lemma plain_directory_free:
  "injection_free (\<lambda>(domain, admin_user, password, computer_ou). cmd_join_ad domain admin_user password computer_ou)"
  unfolding directory_builders INSTALL_REALM_def case_prod_unfold return_push let_flat
  by (rule conjI free_rules | rule free_steps | (simp add: read_simps; fail)[1] | (simp only: joined_simps)[1])+

lemma class_safe:
  "is_alnum c \<or> c \<in> set ''.-'' \<Longrightarrow> safe_char c" "is_alnum c \<or> c \<in> set ''._/-'' \<Longrightarrow> safe_char c"
  by (auto simp: safe_char_def)

lemma over_mono: "over P s \<Longrightarrow> (\<And>c. P c \<Longrightarrow> Q c) \<Longrightarrow> s \<noteq> [] \<and> list_all Q s"
  by (auto simp: over_def list_all_iff)

lemma domain_safe: "domain_name s \<Longrightarrow> s \<noteq> [] \<and> list_all safe_char s"
  unfolding domain_name_def over_def by (auto elim: list.pred_mono_strong simp: class_safe)

lemma domain_tame: "domain_name s \<Longrightarrow> tame s = s" "domain_name s \<Longrightarrow> wordish s = s" "wordish [] = []"
  by (simp_all add: tame_same wordish_same domain_safe)

lemma principal_plain: "principal_name s \<Longrightarrow> plain s = s"
  unfolding principal_name_def by (rule over_plain) (auto simp: plain_char_def safe_char_def)

lemma krb_principal_tame:
  assumes "krb_principal s"
  shows "tame s = s"
proof -
  let ?a = "takeWhile (\<lambda>c. c \<noteq> CHR ''@'') s" and ?b = "dropWhile (\<lambda>c. c \<noteq> CHR ''@'') s"
  have s: "over (\<lambda>c. is_alnum c \<or> c \<in> set ''._/-'') ?a" "?b = [] \<or> over (\<lambda>c. is_alnum c \<or> c \<in> set ''.-'') (tl ?b)"
    using assms unfolding krb_principal_def Let_def by blast+
  have a: "?a \<noteq> []" "list_all safe_char ?a" using over_mono [OF s(1), of safe_char] class_safe(2) by blast+
  have "list_all safe_char ?b"
  proof (cases ?b)
    case (Cons c r)
    then have "c = CHR ''@''" using hd_dropWhile [of "\<lambda>c. c \<noteq> CHR ''@''" s] by simp
    moreover have "list_all safe_char r" using s(2) Cons over_mono [of _ r safe_char] class_safe(1) by fastforce
    ultimately show ?thesis using Cons by (simp add: safe_char_def)
  next
    case Nil
    show ?thesis unfolding Nil by simp
  qed
  then have "list_all safe_char (?a @ ?b)" using a(2) unfolding list_all_append by blast
  moreover have "s \<noteq> []" using a(1) by auto
  ultimately show ?thesis unfolding takeWhile_dropWhile_id by (intro tame_same) blast
qed

lemma upper_safe: "list_all safe_char (upper s) \<longleftrightarrow> list_all safe_char s"
proof -
  have "safe_char (char_of (of_char c - 32 :: nat)) \<and> safe_char c" if "is_lower c" for c
  proof -
    have "is_upper (char_of (of_char c - 32 :: nat))" using that by (auto simp: is_lower_def is_upper_def Let_def)
    then show ?thesis using that by (simp add: safe_char_def is_alnum_def)
  qed
  then show ?thesis by (auto simp: upper_def list_all_iff)
qed

lemma upper_domain_tame: "domain_name (upper s) \<Longrightarrow> tame s = s"
  using domain_safe [of "upper s"] upper_safe [of s] by (intro tame_same) (auto simp: upper_def)

lemma reads_upper:
  "reads (Single, fs, h) (\<lambda>x. upper (tame (v x))) (Single, fs, h)"
  "reads (mode.Text d, fs, h) (\<lambda>x. upper (tame (v x))) (mode.Text d, fs, h)"
  subgoal by (rule reads_in_single) (simp add: safe_unquoted upper_safe tame_safe)
  subgoal by (rule reads_text) (simp add: safe_one_line upper_safe tame_safe)
  done

lemma prepare_ad_join_free: "injection_free (\<lambda>domain. cmd_prepare_ad_join domain)"
  apply (rule free_same [where f = "\<lambda>domain. cmd_prepare_ad_join (wordish (strip domain))"])
   unfolding cmd_prepare_ad_join_def case_prod_unfold fst_conv snd_conv strip_tame strip_plain INSTALL_REALM_def
   apply (rule free_steps | (simp add: read_simps; fail)[1] | (simp only: joined_simps)[1])+
  apply (auto simp: Let_def and_then_Inr domain_tame split: if_splits)[1]
  done

lemma kerberos_kinit_free: "injection_free (\<lambda>(principal', password). cmd_kerberos_kinit principal' password)"
  apply (rule free_same [where f = "\<lambda>(principal', password). cmd_kerberos_kinit (tame (strip principal')) password"])
   unfolding cmd_kerberos_kinit_def case_prod_unfold fst_conv snd_conv strip_tame strip_plain
   apply (rule free_steps | (simp add: read_simps; fail)[1] | (simp only: joined_simps)[1])+
  apply (auto simp: Let_def and_then_Inr krb_principal_tame split: if_splits)[1]
  done

lemma kerberos_config_free: "injection_free (\<lambda>(realm, kdc, admin_server). cmd_kerberos_config realm kdc admin_server)"
  apply (rule free_same [where f = "\<lambda>(realm, kdc, admin_server). cmd_kerberos_config (tame (strip realm)) (tame (strip kdc)) (wordish (strip admin_server))"])
   unfolding cmd_kerberos_config_def case_prod_unfold fst_conv snd_conv strip_tame strip_plain if_empty_def
   apply (rule free_steps reads_upper | (simp add: read_simps; fail)[1] | (simp only: joined_simps)[1])+
  apply (auto simp: Let_def and_then_Inr upper_domain_tame domain_tame if_empty_def split: if_splits)[1]
  done

lemma leave_ad_free: "injection_free (\<lambda>domain. cmd_leave_ad domain)"
  apply (rule free_same [where f = "\<lambda>domain. cmd_leave_ad (tame (strip domain))"])
   unfolding cmd_leave_ad_def case_prod_unfold fst_conv snd_conv strip_tame strip_plain
   apply (rule free_steps | (simp add: read_simps; fail)[1] | (simp only: joined_simps)[1])+
  apply (auto simp: Let_def and_then_Inr domain_tame split: if_splits)[1]
  done

lemma realm_permit_free: "injection_free (\<lambda>(principal', is_group). cmd_realm_permit principal' is_group)"
  apply (rule free_same [where f = "\<lambda>(principal', is_group). cmd_realm_permit (plain (strip principal')) is_group"])
   unfolding cmd_realm_permit_def case_prod_unfold fst_conv snd_conv strip_tame strip_plain
   apply (rule free_steps | (simp add: read_simps; fail)[1] | (simp only: joined_simps)[1])+
  apply (auto simp: Let_def and_then_Inr principal_plain split: if_splits)[1]
  done

lemma test_ldaps_free: "injection_free (\<lambda>(server, port, base_dn). cmd_test_ldaps server port base_dn)"
  apply (rule free_same [where f = "\<lambda>(server, port, base_dn). cmd_test_ldaps (tame (strip server)) (tame (strip (if_empty port ''636''))) base_dn"])
   unfolding cmd_test_ldaps_def case_prod_unfold fst_conv snd_conv strip_tame strip_plain if_empty_tame
   apply (rule free_steps | (simp add: read_simps; fail)[1] | (simp only: joined_simps)[1])+
  apply (auto simp: Let_def and_then_Inr domain_tame digits_tame split: if_splits)[1]
  done

lemma configure_ldap_client_free: "injection_free (\<lambda>(server, base_dn, use_ldaps). cmd_configure_ldap_client server base_dn use_ldaps)"
  apply (rule free_same [where f = "\<lambda>(server, base_dn, use_ldaps). cmd_configure_ldap_client (tame (strip server)) (one_line (strip base_dn)) use_ldaps"])
   unfolding cmd_configure_ldap_client_def case_prod_unfold fst_conv snd_conv strip_tame strip_plain
   apply (rule free_steps reads_one_line_of | (simp add: read_simps; fail)[1] | (simp only: joined_simps)[1])+
  apply (auto simp: Let_def and_then_Inr domain_tame one_line_same split: if_splits)[1]
  done

end
