(* ===== verification/Cmd_Filesystem.thy ===== *)
theory Cmd_Filesystem
  imports Cmd_Common
begin

text \<open>
  The builders of \<^verbatim>\<open>client/_api_filesystem.py\<close>: directories, copies, ownership and permissions,
  links and archives, with the two guards against destructive commands on system locations.  Every
  command is confined, and the guard against the removal of critical locations is judged against
  what a path names rather than how it is written.
\<close>

section \<open>Validators and guards\<close>

definition validate_path :: "string \<Rightarrow> string checked" where
  "validate_path path =
     (let p = strip path
      in if p = [] then Inl Value_Error
         else if CHR 0x00 \<in> set p \<or> has_newline p then Inl Value_Error
         else if starts_with ''-'' p then Inl Value_Error
         else Inr p)"

definition DANGEROUS_PATHS :: "string list" where
  "DANGEROUS_PATHS =
     [''/'', ''/etc'', ''/bin'', ''/sbin'', ''/usr'', ''/var'', ''/boot'', ''/lib'', ''/lib64'', ''/dev'',
      ''/proc'', ''/sys'', ''/root'', ''/home'', ''/opt'', ''/run'']"

text \<open>\<^verbatim>\<open>re.sub(r"/{2,}", "/", p)\<close>.\<close>

fun squeeze_slashes :: "string \<Rightarrow> string" where
  "squeeze_slashes (c # d # s) =
     (if c = CHR ''/'' \<and> d = CHR ''/'' then squeeze_slashes (d # s) else c # squeeze_slashes (d # s))"
| "squeeze_slashes s = s"

definition reject_dangerous_path :: "string \<Rightarrow> unit checked" where
  "reject_dangerous_path path =
     (let p = squeeze_slashes (strip path);
          normalized = (if p \<noteq> [] then normpath p else ''/'')
      in if normalized \<in> set DANGEROUS_PATHS then Inl Value_Error else Inr ())"

definition reject_critical_path :: "string \<Rightarrow> bool \<Rightarrow> unit checked" where
  "reject_critical_path path allow_critical =
     (if allow_critical then Inr ()
      else if system_critical_reason path \<noteq> None then Inl Value_Error else Inr ())"

definition octal_mode :: "string \<Rightarrow> bool" where
  "octal_mode m = (3 \<le> length m \<and> length m \<le> 4 \<and> list_all (\<lambda>c. c \<in> set ''01234567'') m)"

definition mode_clause :: "string \<Rightarrow> bool" where
  "mode_clause s =
     (case dropWhile (\<lambda>c. c \<in> set ''ugoa'') s of [] \<Rightarrow> False
      | c # perms \<Rightarrow> c \<in> set ''+-='' \<and> perms \<noteq> [] \<and> list_all (\<lambda>p. p \<in> set ''rwxXst'') perms)"

definition validate_chmod_mode :: "string \<Rightarrow> string checked" where
  "validate_chmod_mode mode =
     (let m = strip mode
      in if m = [] then Inl Value_Error
         else if \<not> (octal_mode m \<or> list_all mode_clause (split_on (CHR '','') m)) then Inl Value_Error
         else Inr m)"

text \<open>\<^verbatim>\<open>rstrip("/")\<close> and \<^verbatim>\<open>rsplit("/", 1)\<close>.\<close>

definition split_for_tar :: "string \<Rightarrow> string \<times> string" where
  "split_for_tar path =
     (let p = if_empty (rev (dropWhile (\<lambda>c. c = CHR ''/'') (rev path))) ''/'';
          b = rev (takeWhile (\<lambda>c. c \<noteq> CHR ''/'') (rev p));
          d = take (length p - length b - 1) p
      in if CHR ''/'' \<notin> set p then (''.'', p) else (if_empty d ''/'', b))"

definition ARCHIVE_FLAGS :: "(string \<times> string) list" where
  "ARCHIVE_FLAGS = [(''none'', ''-cf''), (''gzip'', ''-czf''), (''bzip2'', ''-cjf''), (''xz'', ''-cJf'')]"

definition COMPRESS_TOOLS :: "(string \<times> string) list" where
  "COMPRESS_TOOLS = [(''gzip'', ''gzip''), (''bzip2'', ''bzip2''), (''xz'', ''xz'')]"

definition VIEW_FILE_CAP :: int where
  "VIEW_FILE_CAP = 1000000"

section \<open>Builders\<close>

definition cmd_list_directory :: "string \<Rightarrow> bool \<Rightarrow> string checked" where
  "cmd_list_directory path show_hidden =
     (let flags = if show_hidden then ''-lhA'' else ''-lh'' in
      if path \<noteq> [] \<and> ((strip path) \<noteq> []) then
        and_then (validate_path path) (\<lambda>path.
        Inr (''ls '' @ flags @ '' --color=never -- '' @ quote path @ '' 2>&1''))
      else Inr (''ls '' @ flags @ '' --color=never 2>&1''))"

definition cmd_view_file :: "string \<Rightarrow> string checked" where
  "cmd_view_file path =
     and_then (validate_path path) (\<lambda>path.
     let q = quote path in
     let cap = VIEW_FILE_CAP in
     Inr (''if [ ! -e '' @ q @ '' ]; then printf 'No such file: %s'' @ BS @ ''n' '' @ q @
          '' >&2; exit 1; fi; if [ -d '' @ q @
          '' ]; then printf '%s is a directory - use List Directory.'' @ BS @ ''n' '' @ q @
          '' >&2; exit 1; fi; head -c '' @ show_int cap @ '' -- '' @ q @ ''; _sz=$(wc -c < '' @ q @
          '' 2>/dev/null || echo 0); if [ \"$_sz\" -gt '' @ show_int cap @
          '' ] 2>/dev/null; then printf '' @ SQ @ BS @
          ''n...[truncated: file is %s bytes; showing '' @ ''the first %s]'' @ BS @
          ''n' \"$_sz\" '' @ show_int cap @ ''; fi''))"

definition cmd_file_fingerprint :: "string \<Rightarrow> string checked" where
  "cmd_file_fingerprint path =
     and_then (validate_path path) (\<lambda>path.
     let q = quote path in
     Inr (''if [ ! -e '' @ q @ '' ]; then printf 'SYSFILEHASH|status=missing'' @ BS @
          ''n'; exit 0; fi; if [ -d '' @ q @ '' ]; then printf 'SYSFILEHASH|status=dir'' @ BS @
          ''n'; exit 0; fi; h=$(sha256sum '' @ q @
          '' 2>/dev/null | awk '{print $1}'); [ -z \"$h\" ] && h=$(shasum -a 256 '' @ q @
          '' 2>/dev/null | awk '{print $1}'); sz=$(wc -c < '' @ q @
          '' 2>/dev/null | tr -d ' '); mt=$(stat -c %Y '' @ q @ '' 2>/dev/null || stat -f %m '' @
          q @ '' 2>/dev/null); printf 'SYSFILEHASH|status=ok|sha=%s|size=%s|mtime=%s'' @ BS @
          ''n' '' @ ''\"$h\" \"$sz\" \"$mt\"''))"

definition cmd_create_directory :: "string \<Rightarrow> string \<Rightarrow> string checked" where
  "cmd_create_directory path mode =
     and_then (validate_path path) (\<lambda>path.
     let q_path = quote path in
     if mode \<noteq> [] \<and> ((strip mode) \<noteq> []) then
       and_then (validate_chmod_mode mode) (\<lambda>m.
       Inr (''mkdir -p -m '' @ m @ '' '' @ q_path @ '' 2>&1''))
     else Inr (''mkdir -p '' @ q_path @ '' 2>&1''))"

definition cmd_remove_directory :: "string \<Rightarrow> bool \<Rightarrow> bool \<Rightarrow> string checked" where
  "cmd_remove_directory path recursive allow_critical =
     and_then (validate_path path) (\<lambda>path.
     and_then (reject_critical_path path allow_critical) (\<lambda>_.
     let q_path = quote path in
     if recursive then
       Inr (''rm -rf '' @ q_path @ '' 2>&1'')
     else Inr (''rmdir '' @ q_path @ '' 2>&1'')))"

definition cmd_copy_file :: "string \<Rightarrow> string \<Rightarrow> bool \<Rightarrow> string checked" where
  "cmd_copy_file source' destination recursive =
     and_then (validate_path source') (\<lambda>source'.
     and_then (validate_path destination) (\<lambda>destination.
     let flag = if recursive then ''-a'' else ''-p'' in
     Inr (''cp '' @ flag @ '' '' @ quote source' @ '' '' @ quote destination @ '' 2>&1'')))"

definition cmd_move_file :: "string \<Rightarrow> string \<Rightarrow> string checked" where
  "cmd_move_file source' destination =
     and_then (validate_path source') (\<lambda>source'.
     and_then (validate_path destination) (\<lambda>destination.
     Inr (''mv '' @ quote source' @ '' '' @ quote destination @ '' 2>&1'')))"

definition cmd_rename_file :: "string \<Rightarrow> string \<Rightarrow> string checked" where
  "cmd_rename_file path new_name =
     and_then (validate_path path) (\<lambda>path.
     let new_name = strip new_name in
     if new_name = [] then
       Inl Value_Error
     else if CHR ''/'' \<in> set new_name then
       Inl Value_Error
     else 
     let q_path = quote path in
     let q_name = quote new_name in
     Inr (''_dir=$(dirname '' @ q_path @ ''); mv '' @ q_path @ '' \"$_dir\"/'' @ q_name @ '' 2>&1''))"

definition cmd_change_ownership :: "string \<Rightarrow> string \<Rightarrow> string \<Rightarrow> bool \<Rightarrow> string checked" where
  "cmd_change_ownership path owner grp recursive =
     and_then (validate_path path) (\<lambda>path.
     let owner = strip owner in
     let grp = strip grp in
     if owner = [] \<and> grp = [] then Inl Value_Error
     else
     and_then (if owner \<noteq> [] then validate_user_or_group owner else Inr []) (\<lambda>spec_owner.
     and_then (if grp \<noteq> [] then and_then (validate_user_or_group grp) (\<lambda>g. Inr ('':'' @ g)) else Inr [])
       (\<lambda>spec_group.
     and_then (if recursive then reject_dangerous_path path else Inr ()) (\<lambda>_.
     let spec = spec_owner @ spec_group in
     let flag = if recursive then ''-R '' else [] in
     Inr (''chown '' @ flag @ quote spec @ '' '' @ quote path @ '' 2>&1'')))))"

definition cmd_change_permissions :: "string \<Rightarrow> string \<Rightarrow> bool \<Rightarrow> string checked" where
  "cmd_change_permissions path mode recursive =
     and_then (validate_path path) (\<lambda>path.
     and_then (validate_chmod_mode mode) (\<lambda>mode.
     and_then (if recursive then reject_dangerous_path path else Inr ()) (\<lambda>_.
     let flag = if recursive then ''-R '' else [] in
     Inr (''chmod '' @ flag @ mode @ '' '' @ quote path @ '' 2>&1''))))"

definition cmd_set_acl :: "string \<Rightarrow> string \<Rightarrow> bool \<Rightarrow> string checked" where
  "cmd_set_acl path acl_entries recursive =
     and_then (validate_path path) (\<lambda>path.
     let acl_entries = strip acl_entries in
     if acl_entries = [] then
       Inl Value_Error
     else if list_ex (\<lambda>c. is_space c) acl_entries then
       Inl Value_Error
     else 
     let flag = if recursive then ''-R '' else [] in
     let q_acl = quote acl_entries in
     let q_path = quote path in
     Inr (''if ! command -v setfacl >/dev/null 2>&1; then echo 'setfacl is not installed '' @
          ''on this host (package: acl).' >&2; exit 1; fi; setfacl '' @ flag @ ''-m '' @ q_acl @
          '' '' @ q_path @ '' 2>&1''))"

definition cmd_show_acl :: "string \<Rightarrow> string checked" where
  "cmd_show_acl path =
     and_then (validate_path path) (\<lambda>path.
     let q_path = quote path in
     Inr (''if ! command -v getfacl >/dev/null 2>&1; then echo 'getfacl is not installed '' @
          ''on this host (package: acl).' >&2; exit 1; fi; getfacl '' @ q_path @ '' 2>&1''))"

definition cmd_create_symlink :: "string \<Rightarrow> string \<Rightarrow> string checked" where
  "cmd_create_symlink target link_path =
     and_then (validate_path target) (\<lambda>target.
     and_then (validate_path link_path) (\<lambda>link_path.
     Inr (''ln -s '' @ quote target @ '' '' @ quote link_path @ '' 2>&1'')))"

definition cmd_create_hardlink :: "string \<Rightarrow> string \<Rightarrow> string checked" where
  "cmd_create_hardlink target link_path =
     and_then (validate_path target) (\<lambda>target.
     and_then (validate_path link_path) (\<lambda>link_path.
     Inr (''ln '' @ quote target @ '' '' @ quote link_path @ '' 2>&1'')))"

definition cmd_create_archive :: "string \<Rightarrow> string \<Rightarrow> string \<Rightarrow> string checked" where
  "cmd_create_archive source_path archive_path compression =
     and_then (validate_path source_path) (\<lambda>source_path.
     and_then (validate_path archive_path) (\<lambda>archive_path.
     case map_of ARCHIVE_FLAGS compression of None \<Rightarrow> Inl Value_Error | Some flag \<Rightarrow>
     case split_for_tar source_path of (src_dir, src_base) \<Rightarrow>
     Inr (''tar '' @ flag @ '' '' @ quote archive_path @ '' -C '' @ quote src_dir @ '' '' @
          quote src_base @ '' 2>&1'')))"

definition cmd_extract_archive :: "string \<Rightarrow> string \<Rightarrow> string checked" where
  "cmd_extract_archive archive_path destination_dir =
     and_then (validate_path archive_path) (\<lambda>archive_path.
     and_then (validate_path destination_dir) (\<lambda>destination_dir.
     let q_dest = quote destination_dir in
     Inr (''mkdir -p '' @ q_dest @ '' && tar -xf '' @ quote archive_path @ '' -C '' @ q_dest @
          '' 2>&1'')))"

definition cmd_compress_file :: "string \<Rightarrow> string \<Rightarrow> bool \<Rightarrow> string checked" where
  "cmd_compress_file path method' keep_original =
     and_then (validate_path path) (\<lambda>path.
     let q_path = quote path in
     if method' = ''zip'' then
       Inr (''if ! command -v zip >/dev/null 2>&1; then echo 'zip is not installed on '' @
            ''this host.' >&2; exit 1; fi; zip '' @ q_path @ ''.zip '' @ q_path @ '' 2>&1'')
     else 
     case map_of COMPRESS_TOOLS method' of None \<Rightarrow> Inl Value_Error | Some tool \<Rightarrow>
     let keep_flag = if keep_original then ''-k '' else [] in
     Inr (''if ! command -v '' @ tool @ '' >/dev/null 2>&1; then echo '' @ SQ @ tool @
          '' is not installed on this host.' >&2; exit 1; fi; '' @ tool @ '' '' @ keep_flag @
          q_path @ '' 2>&1''))"

definition cmd_decompress_file :: "string \<Rightarrow> bool \<Rightarrow> string checked" where
  "cmd_decompress_file path keep_original =
     and_then (validate_path path) (\<lambda>path.
     let q_path = quote path in
     let keep_flag = if keep_original then ''-k '' else [] in
     Inr (''case \"$(printf %s '' @ q_path @
          '' | tr \"[:upper:]\" \"[:lower:]\")\" in *.gz) if command -v gunzip >/dev/null '' @
          ''2>&1; then gunzip '' @ keep_flag @ q_path @
          '' 2>&1; else echo 'gunzip not installed on this host.' >&2; exit 1; fi;; '' @
          ''*.bz2) if command -v bunzip2 >/dev/null 2>&1; then bunzip2 '' @ keep_flag @ q_path @
          '' 2>&1; else echo 'bunzip2 not installed on this host.' >&2; exit 1; fi;; '' @
          ''*.xz) if command -v unxz >/dev/null 2>&1; then unxz '' @ keep_flag @ q_path @
          '' 2>&1; else echo 'unxz not installed on this host.' >&2; exit 1; fi;; *.zip) '' @
          ''if command -v unzip >/dev/null 2>&1; then unzip -o '' @ q_path @
          '' 2>&1; else echo 'unzip not installed on this host.' >&2; exit 1; fi;; *) '' @
          ''echo \"Could not detect a compression type from the filename - expected .gz/.bz2/.xz/.zip.\" '' @
          ''>&2; exit 1;; esac''))"

section \<open>What the shell reads\<close>

lemma accepted_path [accepted]: "validate_path p = Inr q \<Longrightarrow> q = strip p"
  "validate_chmod_mode m = Inr q \<Longrightarrow> q = strip m"
  by (auto simp: validate_path_def validate_chmod_mode_def Let_def split: if_splits)

text \<open>A mode is put into the command unquoted: it holds nothing the shell would act on.\<close>

lemma mode_clause_safe:
  assumes "mode_clause s"
  shows "list_all safe_char s \<and> s \<noteq> []"
proof -
  obtain c perms where s: "dropWhile (\<lambda>c. c \<in> set ''ugoa'') s = c # perms" "c \<in> set ''+-=''"
    "list_all (\<lambda>p. p \<in> set ''rwxXst'') perms"
    using assms by (auto simp: mode_clause_def split: list.splits)
  have safe: "set ''ugoa'' \<union> set ''+-='' \<union> set ''rwxXst'' \<subseteq> Collect safe_char"
    by (simp add: safe_char_def is_alnum_def is_digit_def is_upper_def is_lower_def)
  have "safe_char x" if "x \<in> set s" for x
  proof -
    have "x \<in> set (takeWhile (\<lambda>c. c \<in> set ''ugoa'') s) \<or> x \<in> set (c # perms)"
      using that s(1) by (metis Un_iff set_append takeWhile_dropWhile_id)
    then consider "x \<in> set ''ugoa''" | "x = c" | "x \<in> set perms"
      by (metis set_ConsD set_takeWhileD)
    then have "x \<in> set ''ugoa'' \<union> set ''+-='' \<union> set ''rwxXst''"
      using s(2,3) unfolding list_all_iff by cases blast+
    then show ?thesis using safe by blast
  qed
  then show ?thesis using s(1) by (auto simp: list_all_iff)
qed

lemma split_on_chars: "set s \<subseteq> insert sep (\<Union> (set ` set (split_on sep s)))"
proof (induction s)
  case (Cons c s)
  then show ?case by (cases "split_on sep s") auto
qed simp

lemma chmod_mode_safe:
  assumes "validate_chmod_mode v = Inr m"
  shows "m \<noteq> [] \<and> list_all safe_char m"
proof -
  have m: "m \<noteq> []" "octal_mode m \<or> list_all mode_clause (split_on (CHR '','') m)"
    using assms by (auto simp: validate_chmod_mode_def Let_def split: if_splits)
  have "safe_char (CHR '','')" by (simp add: safe_char_def)
  moreover have "set ''01234567'' \<subseteq> Collect safe_char" by (simp add: safe_char_def is_alnum_def is_digit_def)
  ultimately have "list_all safe_char m"
    using m(2) split_on_chars [of m "CHR '',''"] mode_clause_safe
    unfolding octal_mode_def list_all_iff by blast
  then show ?thesis using m(1) by simp
qed

lemma confined_filesystem [confined_rules]:
  "confined args (\<lambda>x. f x (strip (p x))) \<Longrightarrow> confined args (\<lambda>x. and_then (validate_path (p x)) (f x))"
  "confined args (\<lambda>x. f x (quote (strip (p x)))) \<Longrightarrow>
     confined args (\<lambda>x. and_then (validate_chmod_mode (p x)) (f x))"
  "confined args (\<lambda>x. f x (strip (p x))) \<Longrightarrow>
     confined args (\<lambda>x. and_then (if strip (p x) \<noteq> [] then validate_user_or_group (strip (p x)) else Inr []) (f x))"
  "confined args (\<lambda>x. f x (if strip (p x) \<noteq> [] then '':'' @ strip (p x) else [])) \<Longrightarrow>
     confined args (\<lambda>x. and_then (if strip (p x) \<noteq> []
       then and_then (validate_user_or_group (strip (p x))) (\<lambda>g. Inr ('':'' @ g)) else Inr []) (f x))"
  subgoal by (rule confined_and_then) (auto intro: accepted)
  subgoal by (rule confined_and_then_safe) (auto intro: accepted simp: quote_safe chmod_mode_safe)
  subgoal by (rule confined_and_then) (auto dest: accepted split: if_splits)
  subgoal by (rule confined_and_then) (auto dest: accepted simp: and_then_Inr split: if_splits)
  done

lemmas filesystem_builders = cmd_list_directory_def cmd_view_file_def cmd_file_fingerprint_def
  cmd_create_directory_def cmd_remove_directory_def cmd_copy_file_def cmd_move_file_def
  cmd_rename_file_def cmd_change_ownership_def cmd_change_permissions_def cmd_set_acl_def
  cmd_show_acl_def cmd_create_symlink_def cmd_create_hardlink_def cmd_create_archive_def
  cmd_extract_archive_def cmd_compress_file_def cmd_decompress_file_def
  ARCHIVE_FLAGS_def COMPRESS_TOOLS_def

text \<open>The owner and group as they stand in the command of \<^verbatim>\<open>chown\<close>.\<close>

definition owner_spec :: "string \<Rightarrow> string \<Rightarrow> string" where
  "owner_spec owner grp = strip owner @ (if strip grp \<noteq> [] then '':'' @ strip grp else [])"

text \<open>C22: Every builder of the file operations is confined: whatever paths, names, owners and
  entries are given, the command that reaches the host's shell reads as a fixed text around whole
  literal operands.\<close>

theorem filesystem_confined:
  "(\<forall>b. confined (\<lambda>p. [Word (strip p)]) (\<lambda>p. cmd_list_directory p b)) \<and>
   confined (\<lambda>p. [Word (strip p)]) cmd_view_file \<and>
   confined (\<lambda>p. [Word (strip p)]) cmd_file_fingerprint \<and>
   confined (\<lambda>(p, m). [Word (strip p), Word (strip m)]) (\<lambda>(p, m). cmd_create_directory p m) \<and>
   (\<forall>r a. confined (\<lambda>p. [Word (strip p)]) (\<lambda>p. cmd_remove_directory p r a)) \<and>
   (\<forall>r. confined (\<lambda>(p, q). [Word (strip p), Word (strip q)]) (\<lambda>(p, q). cmd_copy_file p q r)) \<and>
   confined (\<lambda>(p, q). [Word (strip p), Word (strip q)]) (\<lambda>(p, q). cmd_move_file p q) \<and>
   confined (\<lambda>(p, q). [Word (strip p), Word (strip q)]) (\<lambda>(p, q). cmd_rename_file p q) \<and>
   (\<forall>r. confined (\<lambda>(p, u, g). [Word (strip p), Word (owner_spec u g)])
     (\<lambda>(p, u, g). cmd_change_ownership p u g r)) \<and>
   (\<forall>r. confined (\<lambda>(p, m). [Word (strip p), Word (strip m)]) (\<lambda>(p, m). cmd_change_permissions p m r)) \<and>
   (\<forall>r. confined (\<lambda>(p, e). [Word (strip p), Word (strip e)]) (\<lambda>(p, e). cmd_set_acl p e r)) \<and>
   confined (\<lambda>p. [Word (strip p)]) cmd_show_acl \<and>
   confined (\<lambda>(p, q). [Word (strip p), Word (strip q)]) (\<lambda>(p, q). cmd_create_symlink p q) \<and>
   confined (\<lambda>(p, q). [Word (strip p), Word (strip q)]) (\<lambda>(p, q). cmd_create_hardlink p q) \<and>
   confined (\<lambda>(p, q, m). [Word (fst (split_for_tar (strip p))), Word (snd (split_for_tar (strip p))),
       Word (strip q)]) (\<lambda>(p, q, m). cmd_create_archive p q m) \<and>
   confined (\<lambda>(p, q). [Word (strip p), Word (strip q)]) (\<lambda>(p, q). cmd_extract_archive p q) \<and>
   (\<forall>k. confined (\<lambda>(p, m). [Word (strip p)]) (\<lambda>(p, m). cmd_compress_file p m k)) \<and>
   (\<forall>k. confined (\<lambda>p. [Word (strip p)]) (\<lambda>p. cmd_decompress_file p k))"
  unfolding filesystem_builders owner_spec_def case_prod_unfold all_bool fst_conv snd_conv
    if_True if_False
  by ((intro conjI confined_rules confined_check confined_intros); (simp only: read_simps);
      (rule parts_intros)+)+

end
