(* ===== verification/Cmd_Host.thy ===== *)
theory Cmd_Host
  imports Shell_Uniform
begin

text \<open>
  The builders of \<^verbatim>\<open>client/_api_dispatch.py\<close>: health, logs and power of a host.  Most of them are
  scripts without a parameter, whose text is all there is to model.
\<close>

definition POWER_GRACE :: int where
  "POWER_GRACE = 10"

definition JOURNAL_PRIORITIES :: "string list" where
  "JOURNAL_PRIORITIES =
     [''emerg'', ''alert'', ''crit'', ''err'', ''warning'', ''notice'', ''info'', ''debug'']"

section \<open>Builders\<close>

definition cmd_power :: "string \<Rightarrow> string \<Rightarrow> string \<Rightarrow> string" where
  "cmd_power systemctl_verb shutdown_flag word =
     ''if command -v systemd-run >/dev/null 2>&1; then systemd-run --collect --on-active='' @
          show_int POWER_GRACE @ '' --unit=sysible-'' @ systemctl_verb @
          '' --description='Sysible '' @ word @ SQ @ '' systemctl '' @ systemctl_verb @
          ''; elif [ \"$(id -u)\" = 0 ]; then setsid sh -c 'sleep '' @ show_int POWER_GRACE @
          ''; shutdown '' @ shutdown_flag @ '' +0 >/dev/null 2>&1 || systemctl '' @
          systemctl_verb @ SQ @ '' </dev/null >/dev/null 2>&1 & else echo '' @ SQ @ word @
          '' requires root privileges on this host' >&2; exit 1; fi && echo '' @ SQ @ word @
          '' requested - this host goes down in about '' @ show_int POWER_GRACE @ '' seconds.'' @ SQ"

definition POSTURE_SH :: string where
  "POSTURE_SH =
     ''\<newline>'' @ ''p(){ printf 'POSTURE|%s=%s'' @ BS @
     ''n' \"$1\" \"$(printf '%s' \"$2\" | tr '' @ SQ @ BS @ ''r'' @ BS @ ''n'' @ BS @ ''t' ' '' @
     ''  ' | cut -c1-400)\"; }\<newline>'' @
     ''# The three full-filesystem `find /` integrity walks are by far the slowest '' @
     ''part\<newline>'' @
     ''# of posture and dominate the per-host scan time (hence a whole fleet sweep '' @
     ''feels\<newline>'' @
     ''# slow even with few hosts). Cap them tightly: on a normal root filesystem\<newline>'' @
     ''# (-xdev keeps each walk on one mount) they finish in a couple of seconds, '' @
     ''so 8s\<newline>'' @
     ''# is ample headroom; a host large/slow enough to exceed it would have produced '' @
     ''an\<newline>'' @
     ''# unreliable partial count at 20s anyway. Overridable via SYSIBLE_POSTURE_FIND_TMO.\<newline>'' @
     ''_pt=\"${SYSIBLE_POSTURE_FIND_TMO:-8}\"\<newline>'' @
     ''TMO=\"\"; command -v timeout >/dev/null 2>&1 && TMO=\"timeout $_pt\"\<newline>'' @
     ''\<newline>'' @
     ''# --- Operating system -------------------------------------------------------\<newline>'' @
     ''. /etc/os-release 2>/dev/null\<newline>'' @ ''p os.distro \"${ID:-unknown}\"\<newline>'' @
     ''p os.name \"${PRETTY_NAME:-$(uname -s) $(uname -r)}\"\<newline>'' @
     ''p os.version \"${VERSION_ID:-}\"\<newline>'' @ ''p os.kernel \"$(uname -r)\"\<newline>'' @
     ''p os.arch \"$(uname -m)\"\<newline>'' @
     ''up=$(awk '{print int($1)}' /proc/uptime 2>/dev/null); p os.uptime_s \"${up:-0}\"\<newline>'' @
     ''bt=$(awk '/^btime/{print $2}' /proc/stat 2>/dev/null); [ -n \"$bt\" ] && '' @
     ''p os.boot_epoch \"$bt\"\<newline>'' @
     ''if command -v subscription-manager >/dev/null 2>&1; then\<newline>'' @
     ''  p sub.rhsm \"$(subscription-manager status 2>/dev/null | awk -F': ' '/Overall '' @
     ''Status/{print $2; exit}')\"\<newline>'' @ ''fi\<newline>'' @
     ''if command -v pro >/dev/null 2>&1; then\<newline>'' @
     ''  p sub.ubuntu_pro \"$(pro status 2>/dev/null | awk -F': ' '/account/{print '' @
     ''$2; exit}')\"\<newline>'' @ ''fi\<newline>'' @ ''\<newline>'' @
     ''# --- Reboot required --------------------------------------------------------\<newline>'' @
     ''# Use authoritative, reboot-clearing checks per distro (a naive \"is anything\<newline>'' @
     ''# using a deleted lib\" grep does NOT clear after a reboot and false-positives):\<newline>'' @
     ''#   Debian/Ubuntu: /var/run/reboot-required\<newline>'' @
     ''#   RHEL/Fedora:   needs-restarting -r  (exit != 0 => reboot needed)\<newline>'' @
     ''#   SUSE:          zypper needs-rebooting (exit 102 => reboot needed). '' @
     ''It\<newline>'' @
     ''#                  compares the boot time to when core packages were updated, '' @
     ''so\<newline>'' @ ''#                  it clears once you've actually rebooted.\<newline>'' @
     ''rr=0\<newline>'' @ ''[ -f /var/run/reboot-required ] && rr=1\<newline>'' @
     ''# needs-restarting / zypper can stall querying package metadata, so cap '' @
     ''them with\<newline>'' @
     ''# $TMO. Exclude the timeout exit code (124) from the \"reboot needed\" decision '' @
     ''so a\<newline>'' @ ''# slow host isn't falsely flagged '' @ [CHR 0xE2, CHR 0x80, CHR 0x94] @
     '' it just leaves rr unchanged for that '' @ ''check.\<newline>'' @
     ''if command -v needs-restarting >/dev/null 2>&1; then\<newline>'' @
     ''  $TMO needs-restarting -r >/dev/null 2>&1; rc=$?; [ \"$rc\" != 0 ] && [ '' @
     ''\"$rc\" != 124 ] && rr=1\<newline>'' @ ''fi\<newline>'' @
     ''if command -v zypper >/dev/null 2>&1; then\<newline>'' @
     ''  $TMO zypper needs-rebooting >/dev/null 2>&1; [ \"$?\" = 102 ] && rr=1\<newline>'' @
     ''fi\<newline>'' @ ''p reboot.required \"$rr\"\<newline>'' @ ''\<newline>'' @
     ''# --- Mandatory access control / kernel hardening ----------------------------\<newline>'' @
     ''if command -v getenforce >/dev/null 2>&1; then p mac.selinux \"$(getenforce '' @
     ''2>/dev/null)\"; else p mac.selinux \"n/a\"; fi\<newline>'' @
     ''if command -v aa-status >/dev/null 2>&1; then\<newline>'' @
     ''  if aa-status --enabled 2>/dev/null; then p mac.apparmor \"enabled\"; else '' @
     ''p mac.apparmor \"disabled\"; fi\<newline>'' @
     ''else p mac.apparmor \"n/a\"; fi\<newline>'' @
     ''p sec.fips \"$(cat /proc/sys/crypto/fips_enabled 2>/dev/null || echo n/a)\"\<newline>'' @
     ''p sec.aslr \"$(cat /proc/sys/kernel/randomize_va_space 2>/dev/null || echo '' @
     ''n/a)\"\<newline>'' @
     ''if command -v mokutil >/dev/null 2>&1; then p sec.secureboot \"$(mokutil '' @
     ''--sb-state 2>/dev/null | head -1)\"; else p sec.secureboot \"n/a\"; fi\<newline>'' @
     ''if systemctl is-active auditd >/dev/null 2>&1; then p sec.auditd active; '' @
     ''else p sec.auditd inactive; fi\<newline>'' @
     ''if systemctl is-active fail2ban >/dev/null 2>&1; then p sec.fail2ban active\<newline>'' @
     ''elif command -v fail2ban-client >/dev/null 2>&1; then p sec.fail2ban installed\<newline>'' @
     ''else p sec.fail2ban absent; fi\<newline>'' @
     ''if [ -d /etc/modprobe.d ] && grep -rqsiE 'install[[:space:]]+usb-storage[[:space:]]+/bin/(true|false)|blacklist[[:space:]]+usb-storage' '' @
     ''/etc/modprobe.d 2>/dev/null; then\<newline>'' @
     ''  p sec.usb_storage blocked; else p sec.usb_storage allowed; fi\<newline>'' @
     ''\<newline>'' @
     ''# --- Firewall ---------------------------------------------------------------\<newline>'' @
     ''# active=0 USED TO MEAN TWO THINGS, and the console could not tell them '' @
     ''apart:\<newline>'' @
     ''# \"no firewall is running\" and \"every way of asking failed\". The probe '' @
     ''asks the\<newline>'' @ ''# firewall's own CLI, while enabled_at_boot asks systemd '' @
     [CHR 0xE2, CHR 0x80, CHR 0x94] @ '' two different\<newline>'' @ ''# mechanisms '' @
     [CHR 0xE2, CHR 0x80, CHR 0x94] @
     '' so any CLI that could not answer (D-Bus unreachable, polkit\<newline>'' @
     ''# refusing, not root, the binary timing out) produced active=0 beside\<newline>'' @
     ''# enabled_at_boot=firewalld, and the dashboard called a perfectly healthy '' @
     ''host\<newline>'' @
     ''# \"Firewall enabled but not running\", in red, as a critical finding.\<newline>'' @
     ''#\<newline>'' @
     ''# So each probe records WHY it said no, and a definite negative is kept '' @
     ''apart\<newline>'' @
     ''# from a failure to look. fw.determined=0 means this host's firewall state '' @
     ''is\<newline>'' @ ''# UNKNOWN and nothing downstream may claim it is on OR off.\<newline>'' @
     ''#\<newline>'' @
     ''# STDOUT AND STDERR ARE KEPT APART, which is the whole correctness of this\<newline>'' @
     ''# block. Seen on a real host: as a non-root user `nft list ruleset` prints\<newline>'' @
     ''#   netlink: Error: cache initialization failed: Operation not permitted\<newline>'' @
     ''# and `iptables -S` prints\<newline>'' @
     ''#   Could not fetch rule set generation id: Permission denied (you must '' @
     ''be root)\<newline>'' @
     ''# Capture those with 2>&1 and the \"is there a ruleset?\" test sees a non-empty\<newline>'' @
     ''# string and reports A FIREWALL THAT IS NOT THERE. Claiming protection '' @
     ''that\<newline>'' @
     ''# does not exist is far worse than the false alarm this block was written '' @
     ''to\<newline>'' @
     ''# fix, so the decision reads stdout only and a privilege-flavoured stderr '' @
     ''forces\<newline>'' @ ''# UNKNOWN whatever the exit code says.\<newline>'' @
     ''#\<newline>'' @
     ''# Note on ufw specifically: `systemctl is-active ufw` is NOT a substitute '' @
     ''for\<newline>'' @
     ''# `ufw status`. ufw's unit is a RemainAfterExit oneshot, so it reads active '' @
     ''long\<newline>'' @ ''# after `ufw disable` has flushed the rules '' @
     [CHR 0xE2, CHR 0x80, CHR 0x94] @ '' same error, other direction.\<newline>'' @
     ''fw=none; fwa=0; fwdet=0; fwwhy=\"\"\<newline>'' @
     ''_fwnote(){ fwwhy=\"${fwwhy:+$fwwhy; }$1\"; }\<newline>'' @
     ''_fwerr=\"${TMPDIR:-/tmp}/.sysible-fw.$$\"\<newline>'' @
     ''# Does this stderr mean \"I was not allowed to look\"? Then the answer is '' @
     ''UNKNOWN,\<newline>'' @ ''# not \"no firewall\" '' @ [CHR 0xE2, CHR 0x80, CHR 0x94] @
     '' and not \"firewall present\" either.\<newline>'' @
     ''_fwdenied(){ printf '%s' \"$1\" | grep -qiE 'not authoriz|not permitted|permission '' @
     ''denied|must be root|operation not permitted|authentication|polkit|refus'; '' @
     ''}\<newline>'' @ ''_fwtrim(){ printf '%s' \"$1\" | tr '' @ SQ @ BS @
     ''n' ' ' | cut -c1-90; }\<newline>'' @ ''\<newline>'' @
     ''if command -v firewall-cmd >/dev/null 2>&1; then\<newline>'' @
     ''  _o=$($TMO firewall-cmd --state 2>\"$_fwerr\"); _rc=$?; _e=$(cat \"$_fwerr\" '' @
     ''2>/dev/null)\<newline>'' @
     ''  if [ \"$_rc\" = 0 ] && ! _fwdenied \"$_e\"; then fw=firewalld; fwa=1; fwdet=1\<newline>'' @
     ''  elif _fwdenied \"$_e\"; then _fwnote \"firewall-cmd:denied:$(_fwtrim \"$_e\")\"\<newline>'' @
     ''  elif [ \"$_rc\" = 252 ] || printf '%s%s' \"$_o\" \"$_e\" | grep -qi 'not running'; '' @
     ''then\<newline>'' @
     ''    fwdet=1; _fwnote \"firewalld:stopped\"          # a real, trustworthy '' @
     ''negative\<newline>'' @ ''  else\<newline>'' @
     ''    _fwnote \"firewall-cmd:rc=$_rc:$(_fwtrim \"$_e\")\"\<newline>'' @ ''  fi\<newline>'' @
     ''fi\<newline>'' @ ''if [ \"$fwa\" = 0 ] && command -v ufw >/dev/null 2>&1; then\<newline>'' @
     ''  _o=$($TMO ufw status 2>\"$_fwerr\"); _rc=$?; _e=$(cat \"$_fwerr\" 2>/dev/null)\<newline>'' @
     ''  if _fwdenied \"$_e$_o\"; then _fwnote \"ufw:denied:$(_fwtrim \"$_e$_o\")\"\<newline>'' @
     ''  elif [ \"$_rc\" = 0 ] && printf '%s' \"$_o\" | grep -qi 'Status: active'; '' @
     ''then fw=ufw; fwa=1; fwdet=1\<newline>'' @
     ''  elif [ \"$_rc\" = 0 ] && printf '%s' \"$_o\" | grep -qi 'Status: inactive'; '' @
     ''then\<newline>'' @ ''    fwdet=1; _fwnote \"ufw:inactive\"\<newline>'' @
     ''  else\<newline>'' @ ''    _fwnote \"ufw:rc=$_rc:$(_fwtrim \"$_e\")\"\<newline>'' @
     ''  fi\<newline>'' @ ''fi\<newline>'' @
     ''if [ \"$fwa\" = 0 ] && command -v nft >/dev/null 2>&1; then\<newline>'' @
     ''  _o=$($TMO nft list ruleset 2>\"$_fwerr\"); _rc=$?; _e=$(cat \"$_fwerr\" 2>/dev/null)\<newline>'' @
     ''  if _fwdenied \"$_e\"; then _fwnote \"nft:denied:$(_fwtrim \"$_e\")\"\<newline>'' @
     ''  elif [ \"$_rc\" = 0 ] && [ -n \"$_o\" ]; then fw=nftables; fwa=1; fwdet=1\<newline>'' @
     ''  elif [ \"$_rc\" = 0 ]; then fwdet=1; _fwnote \"nft:empty\"\<newline>'' @
     ''  else _fwnote \"nft:rc=$_rc:$(_fwtrim \"$_e\")\"; fi\<newline>'' @ ''fi\<newline>'' @
     ''if [ \"$fwa\" = 0 ] && command -v iptables >/dev/null 2>&1; then\<newline>'' @
     ''  _o=$($TMO iptables -S 2>\"$_fwerr\"); _rc=$?; _e=$(cat \"$_fwerr\" 2>/dev/null)\<newline>'' @
     ''  if _fwdenied \"$_e\"; then _fwnote \"iptables:denied:$(_fwtrim \"$_e\")\"\<newline>'' @
     ''  elif [ \"$_rc\" = 0 ] && printf '%s' \"$_o\" | grep -qE '^-A'; then fw=iptables; '' @
     ''fwa=1; fwdet=1\<newline>'' @
     ''  elif [ \"$_rc\" = 0 ]; then fwdet=1; _fwnote \"iptables:no-rules\"\<newline>'' @
     ''  else _fwnote \"iptables:rc=$_rc:$(_fwtrim \"$_e\")\"; fi\<newline>'' @ ''fi\<newline>'' @
     ''rm -f \"$_fwerr\"\<newline>'' @
     ''# Nothing installed at all is a definite answer too: a host with no firewall\<newline>'' @
     ''# tooling genuinely has no firewall, and that is \"disabled\", not \"unknown\".\<newline>'' @
     ''if [ \"$fwa\" = 0 ] && [ \"$fwdet\" = 0 ] && [ -z \"$fwwhy\" ]; then fwdet=1; '' @
     ''_fwnote \"none-installed\"; fi\<newline>'' @
     ''# Which firewall is set to come up at boot, REGARDLESS of whether it is '' @
     ''running.\<newline>'' @
     ''# Without this, a host whose firewalld is enabled but failed to start this '' @
     ''boot\<newline>'' @ ''# reports backend=none/active=0 '' @ [CHR 0xE2, CHR 0x80, CHR 0x94] @
     '' identical to a host nobody ever configured.\<newline>'' @
     ''# Those are different problems with different fixes, and collapsing them '' @
     ''reads as\<newline>'' @
     ''# \"someone turned the firewall off\" when nobody did. Seen for real: systemd '' @
     ''broke\<newline>'' @
     ''# an ordering cycle involving cloud-init by deleting firewalld's job, so '' @
     ''the\<newline>'' @
     ''# service never started and the console called it a missing firewall.\<newline>'' @
     ''fwe=none\<newline>'' @ ''for _u in firewalld ufw nftables; do\<newline>'' @
     ''  if systemctl is-enabled \"$_u\" >/dev/null 2>&1; then fwe=\"$_u\"; break; '' @
     ''fi\<newline>'' @ ''done\<newline>'' @
     ''p fw.backend \"$fw\"; p fw.active \"$fwa\"; p fw.enabled_at_boot \"$fwe\"\<newline>'' @
     ''p fw.determined \"$fwdet\"; p fw.why \"$fwwhy\"\<newline>'' @
     ''# The uid this ran under. Every CLI above needs root on most distros, so '' @
     ''this is\<newline>'' @
     ''# the first thing worth knowing when a host's firewall state looks wrong '' @
     [CHR 0xE2, CHR 0x80, CHR 0x94] @ '' and\<newline>'' @
     ''# not having it cost a full round trip of guessing the first time.\<newline>'' @
     ''p fw.probe_uid \"$(id -u 2>/dev/null)\"\<newline>'' @ ''\<newline>'' @
     ''# --- Users / accounts -------------------------------------------------------\<newline>'' @
     ''p users.uid0 \"$(awk -F: '$3==0{print $1}' /etc/passwd 2>/dev/null | paste '' @
     ''-sd, -)\"\<newline>'' @
     ''p users.uid0_count \"$(awk -F: '$3==0' /etc/passwd 2>/dev/null | wc -l | '' @
     ''tr -d ' ')\"\<newline>'' @
     ''p users.empty_pw \"$(awk -F: '($2==\"\"){print $1}' /etc/shadow 2>/dev/null '' @
     ''| paste -sd, -)\"\<newline>'' @
     ''p users.empty_pw_count \"$(awk -F: '($2==\"\"){c++} END{print c+0}' /etc/shadow '' @
     ''2>/dev/null)\"\<newline>'' @
     ''p users.dup_uid \"$(awk -F: '{print $3}' /etc/passwd 2>/dev/null | sort '' @
     ''| uniq -d | paste -sd, -)\"\<newline>'' @
     ''p users.dup_gid \"$(awk -F: '{print $3}' /etc/group 2>/dev/null | sort | '' @
     ''uniq -d | paste -sd, -)\"\<newline>'' @
     ''p users.admins \"$(getent group sudo wheel 2>/dev/null | awk -F: '{print '' @
     ''$4}' | tr ',' '' @ SQ @ BS @ ''n' | sed '/^$/d' | sort -u | paste -sd, -)\"\<newline>'' @
     ''p users.pw_max_days \"$(awk '/^PASS_MAX_DAYS/{print $2}' /etc/login.defs '' @
     ''2>/dev/null | head -1)\"\<newline>'' @
     ''p users.pw_min_len \"$(awk '/^PASS_MIN_LEN/{print $2}' /etc/login.defs 2>/dev/null '' @
     ''| head -1)\"\<newline>'' @
     ''p users.locked_count \"$(awk -F: '($2 ~ /^[!*]/){c++} END{print c+0}' /etc/shadow '' @
     ''2>/dev/null)\"\<newline>'' @
     ''p users.svc_login_shells \"$(awk -F: '($3>0 && $3<1000 && $7 !~ /(nologin|false|sync|halt|shutdown)$/){print '' @
     ''$1}' /etc/passwd 2>/dev/null | paste -sd, -)\"\<newline>'' @
     ''if grep -rqsE 'pam_pwquality|pam_cracklib' /etc/pam.d 2>/dev/null; then '' @
     ''p users.pw_complexity configured; else p users.pw_complexity none; fi\<newline>'' @
     ''\<newline>'' @
     ''# --- SSH (effective config via sshd -T, falls back to file) -----------------\<newline>'' @
     ''# `sshd -T` can block (DNS/PAM lookups, a wedged config include), so cap '' @
     ''it with\<newline>'' @
     ''# $TMO; on a timeout ST is empty and we fall back to reading sshd_config.\<newline>'' @
     ''ST=$($TMO sshd -T 2>/dev/null); [ -z \"$ST\" ] && ST=$(grep -vE '^'' @ BS @ ''s*#|^'' @ BS @
     ''s*$' '' @ ''/etc/ssh/sshd_config 2>/dev/null)\<newline>'' @ ''sg(){ printf '%s'' @ BS @
     ''n' \"$ST\" | awk -v k=\"$1\" 'BEGIN{IGNORECASE=1} tolower($1)==k{$1=\"\";sub(/^[ '' @ BS @
     ''t]+/,\"\");print;exit}'; }\<newline>'' @ ''if [ -n \"$ST\" ]; then\<newline>'' @
     ''  p ssh.permit_root_login \"$(sg permitrootlogin)\"\<newline>'' @
     ''  p ssh.password_auth \"$(sg passwordauthentication)\"\<newline>'' @
     ''  p ssh.pubkey_auth \"$(sg pubkeyauthentication)\"\<newline>'' @
     ''  p ssh.max_auth_tries \"$(sg maxauthtries)\"\<newline>'' @
     ''  p ssh.idle_timeout \"$(sg clientaliveinterval)\"\<newline>'' @
     ''  p ssh.banner \"$(sg banner)\"\<newline>'' @
     ''  p ssh.allow_users \"$(sg allowusers)\"\<newline>'' @
     ''  p ssh.allow_groups \"$(sg allowgroups)\"\<newline>'' @
     ''  p ssh.x11_forwarding \"$(sg x11forwarding)\"\<newline>'' @
     ''  p ssh.weak_ciphers \"$(sg ciphers | tr ', ' '' @ SQ @ BS @ ''n'' @ BS @
     ''n' | grep -iE 'cbc|arcfour|3des' '' @ ''| sort -u | paste -sd, -)\"\<newline>'' @
     ''  p ssh.weak_macs \"$(sg macs | tr ', ' '' @ SQ @ BS @ ''n'' @ BS @
     ''n' | grep -iE 'md5|sha1|-96' '' @ ''| sort -u | paste -sd, -)\"\<newline>'' @
     ''  p ssh.weak_kex \"$(sg kexalgorithms | tr ', ' '' @ SQ @ BS @ ''n'' @ BS @
     ''n' | grep -iE 'sha1$|group1-|group-exchange-sha1' '' @
     ''| sort -u | paste -sd, -)\"\<newline>'' @ ''fi\<newline>'' @
     ''command -v ssh >/dev/null 2>&1 && p ssh.version \"$(ssh -V 2>&1 | head -1)\"\<newline>'' @
     ''\<newline>'' @
     ''# --- Filesystem -------------------------------------------------------------\<newline>'' @
     ''p fs.disk_pct \"$(df -P 2>/dev/null | awk 'NR>1 && $1 !~ /^(tmpfs|devtmpfs|overlay|squashfs|udev)$/ '' @
     ''&& $6 !~ /^('' @ BS @ ''/dev|'' @ BS @ ''/proc|'' @ BS @ ''/sys|'' @ BS @ ''/run|'' @ BS @
     ''/snap|'' @ BS @ ''/var'' @ BS @ ''/lib'' @ BS @ ''/docker)/ {gsub(/%/,\"\",$5); '' @
     ''if($5+0>m)m=$5+0} END{print m+0}')\"\<newline>'' @
     ''p fs.inode_pct \"$(df -Pi 2>/dev/null | awk 'NR>1 && $1 !~ /^(tmpfs|devtmpfs|overlay|squashfs|udev)$/ '' @
     ''{gsub(/%/,\"\",$5); if($5+0>m)m=$5+0} END{print m+0}')\"\<newline>'' @
     ''for mp in / /tmp /var /home /dev/shm /boot; do\<newline>'' @
     ''  opts=$(awk -v m=\"$mp\" '$2==m{print $4; exit}' /proc/mounts 2>/dev/null)\<newline>'' @
     ''  key=$(printf '%s' \"$mp\" | sed 's#^/$#root#; s#^/##; s#/#_#g')\<newline>'' @
     ''  [ -n \"$opts\" ] && p \"mount.$key\" \"$opts\"\<newline>'' @ ''done\<newline>'' @
     ''# These three integrity checks are each a full-tree `find /` walk '' @
     [CHR 0xE2, CHR 0x80, CHR 0x94] @ '' by '' @ ''far the\<newline>'' @
     ''# slowest part of posture. Run them in PARALLEL (each into its own temp '' @
     ''file),\<newline>'' @
     ''# so this section costs roughly ONE walk instead of three back-to-back. '' @
     ''Falls\<newline>'' @ ''# back to sequential if mktemp -d isn't available.\<newline>'' @
     ''FSD=$(mktemp -d 2>/dev/null)\<newline>'' @
     ''if [ -n \"$FSD\" ] && [ -d \"$FSD\" ]; then\<newline>'' @
     ''  ( $TMO find / -xdev -type f '' @ BS @ ''( -perm -4000 -o -perm -2000 '' @ BS @
     '') 2>/dev/null '' @ ''| wc -l | tr -d ' ' > \"$FSD/suid\" ) &\<newline>'' @
     ''  ( $TMO find / -xdev -type f -perm -0002 2>/dev/null | wc -l | tr -d ' '' @ SQ @
     '' > \"$FSD/ww\" ) &\<newline>'' @ ''  ( $TMO find / -xdev '' @ BS @
     ''( -nouser -o -nogroup '' @ BS @ '') 2>/dev/null | wc -l | tr '' @
     ''-d ' ' > \"$FSD/no\" ) &\<newline>'' @ ''  wait\<newline>'' @
     ''  sg2=$(cat \"$FSD/suid\" 2>/dev/null); ww=$(cat \"$FSD/ww\" 2>/dev/null); '' @
     ''no=$(cat \"$FSD/no\" 2>/dev/null)\<newline>'' @
     ''  rm -rf \"$FSD\" 2>/dev/null\<newline>'' @ ''else\<newline>'' @
     ''  sg2=$($TMO find / -xdev -type f '' @ BS @ ''( -perm -4000 -o -perm -2000 '' @ BS @
     '') 2>/dev/null '' @ ''| wc -l | tr -d ' ')\<newline>'' @
     ''  ww=$($TMO find / -xdev -type f -perm -0002 2>/dev/null | wc -l | tr -d '' @ SQ @
     '' ')\<newline>'' @ ''  no=$($TMO find / -xdev '' @ BS @ ''( -nouser -o -nogroup '' @ BS @
     '') 2>/dev/null | wc -l '' @ ''| tr -d ' ')\<newline>'' @ ''fi\<newline>'' @
     ''p fs.suid_sgid_count \"${sg2:-na}\"\<newline>'' @
     ''p fs.world_writable_count \"${ww:-na}\"\<newline>'' @
     ''p fs.unowned_count \"${no:-na}\"\<newline>'' @ ''\<newline>'' @
     ''# --- Time synchronization ---------------------------------------------------\<newline>'' @
     ''if command -v timedatectl >/dev/null 2>&1; then\<newline>'' @
     ''  p time.synced \"$(timedatectl show -p NTPSynchronized --value 2>/dev/null)\"\<newline>'' @
     ''  p time.ntp_service \"$(timedatectl show -p NTP --value 2>/dev/null)\"\<newline>'' @
     ''  p time.timezone \"$(timedatectl show -p Timezone --value 2>/dev/null)\"\<newline>'' @
     ''fi\<newline>'' @ ''if command -v chronyc >/dev/null 2>&1; then\<newline>'' @
     ''  p time.source chrony\<newline>'' @
     ''  p time.offset \"$(chronyc tracking 2>/dev/null | awk -F': ' '/Last offset/{print '' @
     ''$2; exit}')\"\<newline>'' @
     ''elif systemctl is-active systemd-timesyncd >/dev/null 2>&1; then p time.source '' @
     ''systemd-timesyncd\<newline>'' @
     ''elif command -v ntpq >/dev/null 2>&1; then p time.source ntpd; fi\<newline>'' @
     ''\<newline>'' @
     ''# --- Logging ----------------------------------------------------------------\<newline>'' @
     ''if systemctl is-active rsyslog >/dev/null 2>&1; then p log.rsyslog active; '' @
     ''else p log.rsyslog inactive; fi\<newline>'' @
     ''if systemctl is-active systemd-journald >/dev/null 2>&1; then p log.journald '' @
     ''active; else p log.journald inactive; fi\<newline>'' @
     ''if grep -rqsE '^[^#]*@@?[A-Za-z0-9.]' /etc/rsyslog.conf /etc/rsyslog.d '' @
     ''2>/dev/null; then p log.remote_forward 1; else p log.remote_forward 0; fi\<newline>'' @
     ''if command -v logrotate >/dev/null 2>&1; then p log.logrotate present; '' @
     ''else p log.logrotate absent; fi\<newline>'' @
     ''# `du -sm /var/log` walks the whole log tree '' @ [CHR 0xE2, CHR 0x80, CHR 0x94] @
     '' on a host with a huge/backed-up\<newline>'' @
     ''# journal or app logs this can take a long time, so bound it with $TMO '' @
     ''(empty\<newline>'' @
     ''# result on timeout, which just leaves var_log_mb blank).\<newline>'' @
     ''p log.var_log_mb \"$($TMO du -sm /var/log 2>/dev/null | awk '{print $1}')\"\<newline>'' @
     ''\<newline>'' @
     ''# --- Networking -------------------------------------------------------------\<newline>'' @
     ''if command -v ss >/dev/null 2>&1; then\<newline>'' @
     ''  p net.listen_count \"$(ss -tulnH 2>/dev/null | wc -l | tr -d ' ')\"\<newline>'' @
     ''  p net.listen_ports \"$(ss -tulnH 2>/dev/null | awk '{print $5}' | sed '' @ SQ @
     ''s/.*://' | grep -E '^[0-9]+$' | sort -un | paste -sd, - | cut -c1-300)\"\<newline>'' @
     ''fi\<newline>'' @
     ''_sy_ips=\"$(ip -o addr show scope global 2>/dev/null | awk '{print $4}' '' @
     ''| cut -d/ -f1)\"\<newline>'' @
     ''[ -n \"$_sy_ips\" ] || _sy_ips=\"$(hostname -I 2>/dev/null | tr ' ' '' @ SQ @ BS @
     ''n')\"\<newline>'' @ ''p net.ipv4 \"$(printf '%s'' @ BS @
     ''n' \"$_sy_ips\" | grep -E '^[0-9]+'' @ BS @ ''.' | paste -sd, '' @
     ''- | cut -c1-300)\"\<newline>'' @ ''p net.ipv6 \"$(printf '%s'' @ BS @
     ''n' \"$_sy_ips\" | grep ':' | grep -viE '^fe80' | '' @
     ''paste -sd, - | cut -c1-300)\"\<newline>'' @
     ''p net.dns \"$(awk '/^nameserver/{print $2}' /etc/resolv.conf 2>/dev/null '' @
     ''| paste -sd, -)\"\<newline>'' @
     ''p net.gateway \"$(ip route 2>/dev/null | awk '/^default/{print $3; exit}')\"\<newline>'' @
     ''p net.ip_forward \"$(cat /proc/sys/net/ipv4/ip_forward 2>/dev/null)\"\<newline>'' @
     ''p net.ipv6_disabled \"$(cat /proc/sys/net/ipv6/conf/all/disable_ipv6 2>/dev/null)\"\<newline>'' @
     ''p net.hostname \"$(hostname 2>/dev/null)\"\<newline>'' @ ''\<newline>'' @
     ''# --- TLS certificates (bounded scan of common dirs) -------------------------\<newline>'' @
     ''if command -v openssl >/dev/null 2>&1; then\<newline>'' @
     ''  cn=0; c30=0; cself=0; near=\<newline>'' @
     ''  for f in $($TMO find /etc/ssl /etc/pki /etc/letsencrypt /etc/nginx /etc/apache2 '' @
     ''/etc/httpd -type f '' @ BS @ ''( -name '*.crt' -o -name '*.pem' -o -name '*.cer' '' @ BS @
     '') '' @ ''2>/dev/null | head -60); do\<newline>'' @
     ''    end=$(openssl x509 -enddate -noout -in \"$f\" 2>/dev/null | cut -d= -f2)\<newline>'' @
     ''    [ -z \"$end\" ] && continue\<newline>'' @
     ''    es=$(date -d \"$end\" +%s 2>/dev/null) || continue\<newline>'' @
     ''    [ -z \"$es\" ] && continue\<newline>'' @
     ''    days=$(( (es - $(date +%s)) / 86400 ))\<newline>'' @ ''    cn=$((cn+1))\<newline>'' @
     ''    [ \"$days\" -lt 30 ] 2>/dev/null && c30=$((c30+1))\<newline>'' @
     ''    { [ -z \"$near\" ] || [ \"$days\" -lt \"$near\" ] 2>/dev/null; } && near=$days\<newline>'' @
     ''    sub=$(openssl x509 -noout -subject -in \"$f\" 2>/dev/null); iss=$(openssl '' @
     ''x509 -noout -issuer -in \"$f\" 2>/dev/null)\<newline>'' @
     ''    [ \"${sub#subject}\" = \"${iss#issuer}\" ] && cself=$((cself+1))\<newline>'' @
     ''  done\<newline>'' @
     ''  p cert.count \"$cn\"; p cert.expiring_30d \"$c30\"; p cert.self_signed \"$cself\"\<newline>'' @
     ''  [ -n \"$near\" ] && p cert.nearest_days \"$near\"\<newline>'' @ ''fi\<newline>'' @
     ''\<newline>'' @
     ''# --- Services ---------------------------------------------------------------\<newline>'' @
     ''if command -v systemctl >/dev/null 2>&1; then\<newline>'' @
     ''  p svc.failed_count \"$(systemctl --failed --no-legend 2>/dev/null | wc '' @
     ''-l | tr -d ' ')\"\<newline>'' @
     ''  p svc.failed \"$(systemctl --failed --no-legend --plain 2>/dev/null | '' @
     ''awk '{print $1}' | head -10 | paste -sd, -)\"\<newline>'' @ ''fi\<newline>'' @
     ''p svc.zombies \"$(ps -eo stat 2>/dev/null | grep -c '^Z')\"\<newline>'' @ ''\<newline>'' @
     ''# --- Hardware ---------------------------------------------------------------\<newline>'' @
     ''p hw.mem_pct \"$(awk '/^MemTotal:/{t=$2}/^MemAvailable:/{a=$2}END{if(t>0)printf '' @
     ''\"%d\",(t-a)*100/t}' /proc/meminfo 2>/dev/null)\"\<newline>'' @
     ''p hw.swap_pct \"$(awk '/^SwapTotal:/{t=$2}/^SwapFree:/{f=$2}END{if(t>0)printf '' @
     ''\"%d\",(t-f)*100/t; else print 0}' /proc/meminfo 2>/dev/null)\"\<newline>'' @
     ''p hw.cores \"$(nproc 2>/dev/null || echo 1)\"\<newline>'' @
     ''[ -r /proc/mdstat ] && p hw.raid \"$(awk '/^md[0-9]/{print $1}' /proc/mdstat '' @
     ''2>/dev/null | paste -sd, -)\"\<newline>'' @
     ''if command -v smartctl >/dev/null 2>&1 && command -v lsblk >/dev/null 2>&1; '' @
     ''then\<newline>'' @ ''  shl=ok\<newline>'' @
     ''  for d in $(lsblk -dno NAME,TYPE 2>/dev/null | awk '$2==\"disk\"{print $1}'); '' @
     ''do\<newline>'' @
     ''    if $TMO smartctl -H \"/dev/$d\" 2>/dev/null | grep -iE 'overall-health|SMART '' @
     ''Health' | grep -iqv 'PASSED'; then shl=failing; fi\<newline>'' @ ''  done\<newline>'' @
     ''  p hw.smart \"$shl\"\<newline>'' @ ''fi\<newline>'' @ ''\<newline>'' @
     ''# --- Virtualization ---------------------------------------------------------\<newline>'' @
     ''if command -v systemd-detect-virt >/dev/null 2>&1; then p virt.type \"$(systemd-detect-virt '' @
     ''2>/dev/null)\"; else p virt.type \"n/a\"; fi\<newline>'' @
     ''if systemctl is-active qemu-guest-agent >/dev/null 2>&1; then p virt.guest_agent '' @
     ''qemu-guest-agent\<newline>'' @
     ''elif systemctl is-active vmtoolsd >/dev/null 2>&1; then p virt.guest_agent '' @
     ''open-vm-tools; fi\<newline>'' @
     ''# Is THIS host a hypervisor running guests (a VM host), vs a guest itself? '' @
     ''Emit a\<newline>'' @
     ''# role + running-guest count so the console badges it and warns before '' @
     ''a reboot.\<newline>'' @ ''vhyp=none\<newline>'' @
     ''[ -d /etc/pve ] && vhyp=proxmox\<newline>'' @
     ''grep -q control_d /proc/xen/capabilities 2>/dev/null && [ \"$vhyp\" = none '' @
     ''] && vhyp=xen-dom0\<newline>'' @
     ''vqk=$(ps -e -o comm= 2>/dev/null | grep -cE 'qemu-system|qemu-kvm')\<newline>'' @
     ''vvb=$(ps -e -o comm= 2>/dev/null | grep -c VBoxHeadless)\<newline>'' @
     ''vvw=$(ps -e -o comm= 2>/dev/null | grep -c vmware-vmx)\<newline>'' @
     ''[ \"$vhyp\" = none ] && [ \"${vqk:-0}\" -gt 0 ] 2>/dev/null && { if [ -e /dev/kvm '' @
     '']; then vhyp=kvm; else vhyp=qemu; fi; }\<newline>'' @
     ''[ \"$vhyp\" = none ] && [ \"${vvb:-0}\" -gt 0 ] 2>/dev/null && vhyp=virtualbox\<newline>'' @
     ''[ \"$vhyp\" = none ] && [ \"${vvw:-0}\" -gt 0 ] 2>/dev/null && vhyp=vmware\<newline>'' @
     ''[ \"$vhyp\" = none ] && [ -e /dev/kvm ] && { [ -d /etc/libvirt ] || [ -e '' @
     ''/run/libvirt ]; } && vhyp=kvm\<newline>'' @ ''p virt.hypervisor \"$vhyp\"\<newline>'' @
     ''p virt.vms_running \"$((vqk + vvb + vvw))\"\<newline>'' @ ''\<newline>'' @
     ''# --- Containers -------------------------------------------------------------\<newline>'' @
     ''# Every docker/podman call below talks to the container daemon, which can '' @
     ''hang\<newline>'' @
     ''# hard when it's wedged (unresponsive dockerd, stuck socket). Cap each '' @
     ''daemon\<newline>'' @
     ''# call with $TMO so an unhealthy daemon can't stall the whole posture scan.\<newline>'' @
     ''if command -v docker >/dev/null 2>&1; then\<newline>'' @
     ''  p cont.docker \"$(docker --version 2>/dev/null | awk '{print $3}' | tr '' @
     ''-d ,)\"\<newline>'' @
     ''  p cont.docker_running \"$($TMO docker ps -q 2>/dev/null | wc -l | tr -d '' @ SQ @
     '' ')\"\<newline>'' @
     ''  p cont.docker_privileged \"$($TMO docker ps -q 2>/dev/null | xargs -r '' @
     ''$TMO docker inspect -f '{{.HostConfig.Privileged}}' 2>/dev/null | grep -c '' @
     ''true)\"\<newline>'' @ ''fi\<newline>'' @
     ''if command -v podman >/dev/null 2>&1; then\<newline>'' @
     ''  p cont.podman \"$(podman --version 2>/dev/null | awk '{print $3}')\"\<newline>'' @
     ''  p cont.podman_running \"$($TMO podman ps -q 2>/dev/null | wc -l | tr -d '' @ SQ @
     '' ')\"\<newline>'' @ ''fi\<newline>'' @ ''\<newline>'' @
     ''# --- AD / Identity ----------------------------------------------------------\<newline>'' @
     ''if command -v realm >/dev/null 2>&1; then p ad.domain \"$(realm list --name-only '' @
     ''2>/dev/null | head -1)\"; fi\<newline>'' @
     ''if systemctl is-active sssd >/dev/null 2>&1; then p ad.sssd active; else '' @
     ''p ad.sssd inactive; fi\<newline>'' @
     ''command -v klist >/dev/null 2>&1 && p ad.kerberos present\<newline>'' @ ''\<newline>'' @
     ''# --- Performance ------------------------------------------------------------\<newline>'' @
     ''p perf.load1 \"$(awk '{print $1}' /proc/loadavg 2>/dev/null)\"\<newline>'' @
     ''p perf.oom \"$(dmesg -t 2>/dev/null | grep -ciE 'out of memory|killed process|oom-killer')\"\<newline>'' @
     ''\<newline>'' @
     ''# --- Miscellaneous ----------------------------------------------------------\<newline>'' @
     ''p misc.last_login \"$(last -1 -w 2>/dev/null | head -1 | cut -c1-120)\"\<newline>'' @
     ''p misc.cron_jobs \"$(ls /etc/cron.d 2>/dev/null | wc -l | tr -d ' ')\"\<newline>'' @
     ''command -v systemctl >/dev/null 2>&1 && p misc.timers \"$(systemctl list-timers '' @
     ''--no-legend 2>/dev/null | wc -l | tr -d ' ')\"\<newline>'' @ ''\<newline>'' @
     ''# Whether this ran as root. Many checks above (shadow, sshd -T, SUID scans)\<newline>'' @
     ''# only see the truth as root; on an unprivileged SSH host they read blank '' @
     ''and\<newline>'' @
     ''# would otherwise look falsely \"clean\", so the controller marks such a '' @
     ''host's\<newline>'' @ ''# posture as limited rather than trusting it.\<newline>'' @
     ''p meta.privileged \"$([ \"$(id -u 2>/dev/null)\" = 0 ] && echo 1 || echo 0)\"\<newline>'' @
     ''printf 'POSTURE|meta.done=1'' @ BS @ ''n'\<newline>''"

definition SOS_MISSING_MSG :: string where
  "SOS_MISSING_MSG =
     ''sos is not installed on this host (package: 'sos' on RHEL/Fedora/openSUSE, '' @ SQ @
     ''sosreport' on Debian/Ubuntu). Install it first, then try again.''"

definition cmd_disk_usage :: "string" where
  "cmd_disk_usage =
     ''df -hT -x tmpfs -x devtmpfs -x overlay -x squashfs -x iso9660 -x udf 2>/dev/null '' @
          ''| awk 'NR==1 || $7 !~ /^'' @ BS @ ''/(media|run'' @ BS @ ''/media|cdrom|snap)('' @ BS @
          ''/|$)/'' @ SQ"

definition cmd_memory_cpu_snapshot :: "string" where
  "cmd_memory_cpu_snapshot =
     ''mem_pct=$(LANG=C free -m 2>/dev/null | awk 'NR==2 && $2>0 {printf \"%.0f\", '' @
          ''$3/$2*100}'); mem_status=OK; if [ -n \"$mem_pct\" ]; then if [ \"$mem_pct\" '' @
          ''-ge 90 ] 2>/dev/null; then mem_status=CRITICAL; elif [ \"$mem_pct\" -ge 75 '' @
          ''] 2>/dev/null; then mem_status=WARNING; fi; fi; echo \"Memory usage: ${mem_pct:-unknown}% '' @
          ''($mem_status)\" && echo && echo '== Memory ==' && free -h && echo && echo '' @ SQ @
          ''== Load / Uptime ==' && uptime && echo && echo '== Top CPU Processes ==' '' @
          ''&& ps -eo pid,comm,%cpu,%mem --sort=-%cpu | head -n 11''"

definition cmd_find_large_files :: "string \<Rightarrow> int \<Rightarrow> string" where
  "cmd_find_large_files path top_n =
     (let path = if path \<noteq> [] \<and> ((strip path) \<noteq> []) then strip path else ''/'' in
      let top_n = max 1 top_n in
      ''find '' @ quote path @ '' -xdev -type f -printf '%s %p'' @ BS @
           ''n' 2>/dev/null | sort -rn | head -n '' @ show_int top_n @
           '' | awk '{printf \"%.1f MB  %s'' @ BS @ ''n\", $1/1024/1024, $2}'' @ SQ)"

definition cmd_failed_services :: "string" where
  "cmd_failed_services =
     ''if ! command -v systemctl >/dev/null 2>&1; then echo 'systemctl not available '' @
          ''on this host'; else out=$(systemctl --failed --no-legend 2>/dev/null); if '' @
          ''[ -z \"$out\" ]; then echo 'No failed services.'; else echo \"$out\"; fi; fi''"

definition cmd_uptime :: "string" where
  "cmd_uptime =
     ''uptime''"

definition cmd_reboot_host :: "string" where
  "cmd_reboot_host =
     cmd_power ''reboot'' ''-r'' ''Reboot''"

definition cmd_poweroff_host :: "string" where
  "cmd_poweroff_host =
     cmd_power ''poweroff'' ''-P'' ''Power off''"

definition cmd_reset_failed_units :: "string" where
  "cmd_reset_failed_units =
     ''if ! command -v systemctl >/dev/null 2>&1; then echo 'systemctl not available '' @
          ''on this host' >&2; exit 1; fi; systemctl reset-failed; rc=$?; if [ \"$rc\" '' @
          ''-eq 0 ]; then echo 'Cleared failed-unit state.'; else echo \"reset-failed '' @
          ''exited $rc\" >&2; fi; exit \"$rc\"''"

definition cmd_daemon_reload :: "string" where
  "cmd_daemon_reload =
     ''if ! command -v systemctl >/dev/null 2>&1; then echo 'systemctl not available '' @
          ''on this host' >&2; exit 1; fi; systemctl daemon-reload; rc=$?; if [ \"$rc\" '' @
          ''-eq 0 ]; then echo 'Reloaded systemd manager configuration.'; else echo '' @
          ''\"daemon-reload exited $rc\" >&2; fi; exit \"$rc\"''"

definition cmd_restart_ssh :: "string" where
  "cmd_restart_ssh =
     ''if systemctl list-unit-files 2>/dev/null | grep -q '^sshd'' @ BS @
          ''.service'; then '' @
          ''u=sshd; elif systemctl list-unit-files 2>/dev/null | grep -q '^ssh'' @ BS @
          ''.service'; '' @
          ''then u=ssh; else echo 'No sshd/ssh service found' >&2; exit 1; fi; systemctl '' @
          ''restart \"$u\"; rc=$?; if [ \"$rc\" -eq 0 ]; then echo \"Restarted $u.\"; else '' @
          ''echo \"Failed to restart $u (exit $rc).\" >&2; fi; exit \"$rc\"''"

definition cmd_restart_timesync :: "string" where
  "cmd_restart_timesync =
     ''for u in chronyd chrony systemd-timesyncd ntpd ntp; do if systemctl list-unit-files '' @
          ''2>/dev/null | grep -q \"^$u'' @ BS @
          ''.service\"; then systemctl restart \"$u\"; rc=$?; '' @
          ''if [ \"$rc\" -eq 0 ]; then echo \"Restarted $u.\"; else echo \"Failed to restart '' @
          ''$u (exit $rc).\" >&2; fi; exit \"$rc\"; fi; done; echo 'No time-sync service '' @
          ''(chrony/timesyncd/ntp) found' >&2; exit 1''"

definition cmd_flush_dns :: "string" where
  "cmd_flush_dns =
     ''if command -v resolvectl >/dev/null 2>&1; then resolvectl flush-caches && '' @
          ''echo 'Flushed systemd-resolved cache.' && exit 0; fi; if command -v systemd-resolve '' @
          ''>/dev/null 2>&1; then systemd-resolve --flush-caches && echo 'Flushed systemd-resolved '' @
          ''cache.' && exit 0; fi; for u in nscd dnsmasq; do if systemctl list-unit-files '' @
          ''2>/dev/null | grep -q \"^$u'' @ BS @
          ''.service\"; then systemctl restart \"$u\" && echo '' @
          ''\"Restarted $u (DNS cache cleared).\" && exit 0; fi; done; echo 'No local '' @
          ''DNS cache to flush (no resolved/nscd/dnsmasq).'' @ SQ"

definition cmd_update_status :: "bool \<Rightarrow> string" where
  "cmd_update_status refresh =
     (let prep = [] in
      let prep = (if refresh then ''if command -v dnf >/dev/null 2>&1; then dnf -q makecache --refresh >/dev/null '' @
                  ''2>&1; elif command -v yum >/dev/null 2>&1; then yum -q makecache >/dev/null '' @
                  ''2>&1; elif command -v zypper >/dev/null 2>&1; then zypper --non-interactive '' @
                  ''-q refresh >/dev/null 2>&1; elif command -v apt-get >/dev/null 2>&1; then '' @
                  ''apt-get -qq update >/dev/null 2>&1; fi\<newline>''
            else prep) in
      prep @ ''mgr=unknown; total=0; sec=0; rr=0\<newline>'' @
           ''if command -v dnf >/dev/null 2>&1; then mgr=dnf; total=$(dnf -q check-update '' @
           ''2>/dev/null | awk 'NF>=3 && $1!~/^(Obsoleting|Last|Security|Loaded|Dependencies)/{c++} '' @
           ''END{print c+0}'); sec=$(dnf -q --security check-update 2>/dev/null | awk '' @ SQ @
           ''NF>=3 && $1!~/^(Obsoleting|Last|Security|Loaded|Dependencies)/{c++} END{print '' @
           ''c+0}'); elif command -v yum >/dev/null 2>&1; then mgr=yum; total=$(yum -q '' @
           ''check-update 2>/dev/null | awk 'NF>=3 && $1!~/^(Obsoleting|Last|Security|Loaded|Dependencies)/{c++} '' @
           ''END{print c+0}'); sec=$(yum -q --security check-update 2>/dev/null | awk '' @ SQ @
           ''NF>=3 && $1!~/^(Obsoleting|Last|Security|Loaded|Dependencies)/{c++} END{print '' @
           ''c+0}'); elif command -v zypper >/dev/null 2>&1; then mgr=zypper; total=$(zypper '' @
           ''--non-interactive -q list-updates 2>/dev/null | grep -cE '^v '' @ BS @
           ''|'); sec=$(zypper '' @
           ''--non-interactive -q list-patches --category security 2>/dev/null | grep '' @
           ''-cE '' @ SQ @ BS @
           ''| *needed'); elif command -v apt-get >/dev/null 2>&1; then mgr=apt; '' @
           ''up=$(apt-get -s -o Debug::NoLocking=true upgrade 2>/dev/null | grep '^Inst '' @ SQ @
           ''); total=$(printf '%s'' @ BS @ ''n' \"$up\" | grep -c '^Inst '); sec=$(printf '%s'' @
           BS @ ''n' '' @
           ''\"$up\" | grep -ci security); elif command -v pacman >/dev/null 2>&1; then '' @
           ''mgr=pacman; if command -v checkupdates >/dev/null 2>&1; then total=$(checkupdates '' @
           ''2>/dev/null | grep -c .); else total=$(pacman -Qu 2>/dev/null | grep -c '' @
           ''.); fi; sec=0; fi\<newline>'' @ ''[ -f /var/run/reboot-required ] && rr=1\<newline>'' @
           ''if command -v needs-restarting >/dev/null 2>&1; then needs-restarting -r '' @
           ''>/dev/null 2>&1 || rr=1; fi\<newline>'' @
           ''if command -v zypper >/dev/null 2>&1; then zypper needs-rebooting >/dev/null '' @
           ''2>&1; [ \"$?\" = 102 ] && rr=1; fi\<newline>'' @
           ''printf 'SYSUPDATES|mgr=%s|total=%s|security=%s|reboot=%s'' @ BS @
           ''n' \"$mgr\" \"${total:-0}\" '' @ ''\"${sec:-0}\" \"$rr\"\<newline>'')"

definition cmd_drop_caches :: "string" where
  "cmd_drop_caches =
     ''sync && echo 3 > /proc/sys/vm/drop_caches && echo 'Dropped page cache, dentries '' @
          ''and inodes.'' @ SQ"

definition cmd_clean_package_cache :: "string" where
  "cmd_clean_package_cache =
     ''if command -v dnf >/dev/null 2>&1; then dnf clean all; elif command -v yum '' @
          ''>/dev/null 2>&1; then yum clean all; elif command -v zypper >/dev/null 2>&1; '' @
          ''then zypper clean; elif command -v apt-get >/dev/null 2>&1; then apt-get '' @
          ''clean; elif command -v pacman >/dev/null 2>&1; then pacman -Sc --noconfirm; '' @
          ''else echo 'No supported package manager found' >&2; exit 1; fi; echo 'Package '' @
          ''cache cleaned.'' @ SQ"

definition cmd_vacuum_journal :: "int \<Rightarrow> string" where
  "cmd_vacuum_journal keep_days =
     (let d = max 1 keep_days in
      ''if ! command -v journalctl >/dev/null 2>&1; then echo 'journalctl not available' '' @
           ''>&2; exit 1; fi; journalctl --vacuum-time='' @ show_int d @
           ''d && echo 'Journal vacuumed to the last '' @ show_int d @ '' day(s).'' @ SQ)"

definition cmd_fstrim :: "string" where
  "cmd_fstrim =
     ''if ! command -v fstrim >/dev/null 2>&1; then echo 'fstrim not available '' @
          ''on this host' >&2; exit 1; fi; fstrim -av''"

definition cmd_sync_time_now :: "string" where
  "cmd_sync_time_now =
     ''if command -v chronyc >/dev/null 2>&1; then chronyc makestep && echo 'Requested '' @
          ''a chrony step.' && exit 0; fi; if command -v ntpd >/dev/null 2>&1; then '' @
          ''ntpd -gq && echo 'Stepped the clock via ntpd.' && exit 0; fi; if command '' @
          ''-v timedatectl >/dev/null 2>&1; then timedatectl set-ntp true && echo 'Enabled '' @
          ''NTP via timedatectl.' && exit 0; fi; echo 'No time-sync tool available (chrony/ntpd/timedatectl).' '' @
          ''>&2; exit 1''"

definition cmd_restart_agent :: "string" where
  "cmd_restart_agent =
     ''systemd-run --collect --unit=sysible-agent-restart systemctl restart sysible-agent '' @
          ''&& echo 'Agent restart dispatched (detached); this host will reconnect shortly.'' @ SQ"

definition cmd_metrics_snapshot :: "string" where
  "cmd_metrics_snapshot =
     ''disk=$(df -P 2>/dev/null | awk 'NR>1 && $1!~/^(tmpfs|devtmpfs|overlay|squashfs)$/ '' @
          ''&& $6!~/^('' @ BS @ ''/dev|'' @ BS @ ''/proc|'' @ BS @ ''/sys|'' @ BS @ ''/run|'' @
          BS @ ''/snap|'' @ BS @ ''/media|'' @ BS @ ''/cdrom)/ {gsub(/%/,\"\",$5); '' @
          ''if($5+0>m){m=$5+0; mt=$6}} END{print m+0\"|\"(mt?mt:\"/\")}'); diskpct=${disk%%|*}; '' @
          ''diskmnt=${disk#*|}; mem=$(awk '/^MemTotal:/{t=$2} /^MemAvailable:/{a=$2} '' @
          ''END{if(t>0)printf \"%d\",(t-a)*100/t; else print 0}' /proc/meminfo 2>/dev/null); '' @
          ''load1=$(awk '{print $1}' /proc/loadavg 2>/dev/null); cores=$(nproc 2>/dev/null '' @
          ''|| grep -c ^processor /proc/cpuinfo 2>/dev/null || echo 1); flist=$(systemctl '' @
          ''--failed --no-legend 2>/dev/null | awk '{for(i=1;i<=NF;i++) if($i ~ /'' @ BS @
          ''.(service|socket|mount|timer|target|path|scope|automount|swap|slice)$/){print '' @
          ''$i; break}}'); failed=$(printf '%s' \"$flist\" | grep -c .); [ -z \"$failed\" '' @
          ''] && failed=0; units=$(printf '%s'' @ BS @
          ''n' \"$flist\" | grep . | head -4 | paste '' @
          ''-sd, - 2>/dev/null); [ -z \"$units\" ] && units=-; sysd=$(systemctl is-system-running '' @
          ''2>/dev/null); [ -z \"$sysd\" ] && sysd=unknown; oom=$(dmesg -t 2>/dev/null '' @
          ''| grep -ciE 'out of memory|killed process|oom-killer'); [ -z \"$oom\" ] && '' @
          ''oom=0; up=$(awk '{print int($1)}' /proc/uptime 2>/dev/null); hyp=none; [ '' @
          ''-d /etc/pve ] && hyp=proxmox; grep -q control_d /proc/xen/capabilities 2>/dev/null '' @
          ''&& [ \"$hyp\" = none ] && hyp=xen-dom0; qk=$(ps -e -o comm= 2>/dev/null | '' @
          ''grep -cE 'qemu-system|qemu-kvm'); vb=$(ps -e -o comm= 2>/dev/null | grep '' @
          ''-c VBoxHeadless); vw=$(ps -e -o comm= 2>/dev/null | grep -c vmware-vmx); '' @
          ''vms=$((qk + vb + vw)); [ \"$hyp\" = none ] && [ \"${qk:-0}\" -gt 0 ] 2>/dev/null '' @
          ''&& { if [ -e /dev/kvm ]; then hyp=kvm; else hyp=qemu; fi; }; [ \"$hyp\" = '' @
          ''none ] && [ \"${vb:-0}\" -gt 0 ] 2>/dev/null && hyp=virtualbox; [ \"$hyp\" = '' @
          ''none ] && [ \"${vw:-0}\" -gt 0 ] 2>/dev/null && hyp=vmware; [ \"$hyp\" = none '' @
          ''] && [ -e /dev/kvm ] && { [ -d /etc/libvirt ] || [ -e /run/libvirt ]; } '' @
          ''&& hyp=kvm; v=OK; [ \"${diskpct:-0}\" -ge 80 ] 2>/dev/null && v=WARNING; [ '' @
          ''\"${failed:-0}\" -ge 1 ] 2>/dev/null && v=WARNING; [ \"$sysd\" = degraded ] '' @
          ''&& v=WARNING; [ \"${oom:-0}\" -ge 1 ] 2>/dev/null && v=WARNING; [ \"${diskpct:-0}\" '' @
          ''-ge 90 ] 2>/dev/null && v=CRITICAL; [ \"${failed:-0}\" -ge 3 ] 2>/dev/null '' @
          ''&& v=CRITICAL; printf 'SYSMETRICS|verdict=%s|disk=%s|mount=%s|mem=%s|load1=%s|cores=%s|failed=%s|uptime=%s|sysd=%s|units=%s|oom=%s|hyp=%s|vms=%s'' @
          BS @ ''n' '' @
          ''\"$v\" \"${diskpct:-0}\" \"${diskmnt:-/}\" \"${mem:-0}\" \"${load1:-0}\" \"${cores:-1}\" '' @
          ''\"${failed:-0}\" \"${up:-0}\" \"${sysd:-unknown}\" \"${units:--}\" \"${oom:-0}\" \"${hyp:-none}\" '' @
          ''\"${vms:-0}\"''"

definition cmd_posture_snapshot :: "string" where
  "cmd_posture_snapshot =
     POSTURE_SH"

definition cmd_health_check :: "string" where
  "cmd_health_check =
     ''disk_detail=$(df -hPT 2>/dev/null | awk 'NR>1 && $7!=\"\" {\<newline>'' @
          ''    fstype=$2; mnt=$7; pct=$6;\<newline>'' @
          ''    if (fstype==\"squashfs\" || fstype==\"iso9660\" || fstype==\"udf\" || fstype==\"overlay\") '' @
          ''next;\<newline>'' @ ''    if (mnt ~ /^'' @ BS @ ''/(media|run'' @ BS @
          ''/media|cdrom|snap)('' @ BS @ ''/|$)/) next;\<newline>'' @
          ''    gsub(\"%\",\"\",pct); pct=pct+0;\<newline>'' @
          ''    status=\"ok\"; if (pct>=90) status=\"critical\"; else if (pct>=75) status=\"warning\";\<newline>'' @
          ''    printf \"%-8s %4s%%  %s'' @ BS @ ''n\", status, pct, mnt\<newline>'' @
          ''}')\<newline>'' @ ''disk_status=\"OK\"\<newline>'' @
          ''if echo \"$disk_detail\" | grep -q \"^critical\"; then disk_status=\"CRITICAL\"\<newline>'' @
          ''elif echo \"$disk_detail\" | grep -q \"^warning\"; then disk_status=\"WARNING\"\<newline>'' @
          ''fi\<newline>'' @ ''\<newline>'' @
          ''failed_count=$(systemctl --failed --no-legend 2>/dev/null | wc -l | tr '' @
          ''-d ' ')\<newline>'' @ ''[ -z \"$failed_count\" ] && failed_count=0\<newline>'' @
          ''failed_status=\"OK\"\<newline>'' @
          ''if [ \"$failed_count\" -ge 3 ] 2>/dev/null; then failed_status=\"CRITICAL\"\<newline>'' @
          ''elif [ \"$failed_count\" -ge 1 ] 2>/dev/null; then failed_status=\"WARNING\"\<newline>'' @
          ''fi\<newline>'' @ ''\<newline>'' @ ''cores=$(nproc 2>/dev/null || echo 1)\<newline>'' @
          ''load1=$(uptime | awk -F'load average' '{print $2}' | tr -d ':' | awk -F',' '' @ SQ @
          ''{print $1}' | tr -d ' ')\<newline>'' @
          ''load_ratio=$(awk -v l=\"$load1\" -v c=\"$cores\" 'BEGIN{ if (c==\"\" || c==0) '' @
          ''c=1; if (l==\"\") l=0; printf \"%.2f\", l/c }')\<newline>'' @
          ''load_status=\"OK\"\<newline>'' @
          ''if awk -v r=\"$load_ratio\" 'BEGIN{exit !(r>=2)}'; then load_status=\"CRITICAL\"\<newline>'' @
          ''elif awk -v r=\"$load_ratio\" 'BEGIN{exit !(r>=1)}'; then load_status=\"WARNING\"\<newline>'' @
          ''fi\<newline>'' @ ''\<newline>'' @ ''overall=\"OK\"\<newline>'' @
          ''if [ \"$disk_status\" = \"CRITICAL\" ] || [ \"$failed_status\" = \"CRITICAL\" ] '' @
          ''|| [ \"$load_status\" = \"CRITICAL\" ]; then\<newline>'' @
          ''    overall=\"CRITICAL\"\<newline>'' @
          ''elif [ \"$disk_status\" = \"WARNING\" ] || [ \"$failed_status\" = \"WARNING\" ] '' @
          ''|| [ \"$load_status\" = \"WARNING\" ]; then\<newline>'' @
          ''    overall=\"WARNING\"\<newline>'' @ ''fi\<newline>'' @ ''\<newline>'' @
          ''echo \"HEALTH: $overall\"\<newline>'' @ ''echo\<newline>'' @
          ''echo \"Reasons:\"\<newline>'' @
          ''echo \"  Disk usage:      $disk_status\"\<newline>'' @
          ''echo \"$disk_detail\" | sed 's/^/    /'\<newline>'' @
          ''echo \"  Failed services: $failed_status  ($failed_count failed unit(s))\"\<newline>'' @
          ''echo \"  Load average:    $load_status  (load $load1 across $cores core(s), '' @
          ''ratio $load_ratio)\"\<newline>'' @ ''echo\<newline>'' @
          ''echo \"-- Raw signals --\"\<newline>'' @
          ''echo \"Disk usage (real volumes):\"\<newline>'' @ ''df -hT 2>/dev/null\<newline>'' @
          ''echo\<newline>'' @ ''echo \"systemctl --failed:\"\<newline>'' @
          ''systemctl --failed --no-legend 2>/dev/null || echo '(systemctl not available '' @
          ''on this host)'\<newline>'' @ ''echo\<newline>'' @ ''echo \"uptime:\"\<newline>'' @
          ''uptime''"

definition cmd_search_log :: "string \<Rightarrow> int \<Rightarrow> string" where
  "cmd_search_log pattern lines' =
     (let lines' = max 1 lines' in
      if pattern \<noteq> [] \<and> ((strip pattern) \<noteq> []) then
        let p = quote (strip pattern) in
        ''journalctl -n '' @ show_int lines' @ '' --no-pager 2>/dev/null | grep -i '' @ p @
             '' || grep -i '' @ p @ '' /var/log/syslog 2>/dev/null || grep -i '' @ p @
             '' /var/log/messages 2>/dev/null || echo 'No matching log lines found (or '' @
             ''no readable log source on this host).'' @ SQ
      else 
      ''journalctl -n '' @ show_int lines' @ '' --no-pager 2>/dev/null || tail -n '' @
           show_int lines' @ '' /var/log/syslog 2>/dev/null || tail -n '' @ show_int lines' @
           '' /var/log/messages 2>/dev/null || echo 'No readable log source found on '' @
           ''this host.'' @ SQ)"

definition cmd_review_system_logs :: "int \<Rightarrow> string" where
  "cmd_review_system_logs lines' =
     (let lines' = max 1 lines' in
      ''if command -v journalctl >/dev/null 2>&1; then err=$(journalctl -b -p err '' @
           ''--no-pager 2>/dev/null | wc -l | tr -d ' '); warnplus=$(journalctl -b -p '' @
           ''warning --no-pager 2>/dev/null | wc -l | tr -d ' '); warn=$((warnplus - '' @
           ''err)); echo \"This boot so far: $err error-level line(s), $warn warning-level '' @
           ''line(s).\"; echo; echo '== Most recent '' @ show_int lines' @
           '' log lines =='; journalctl -n '' @ show_int lines' @
           '' --no-pager 2>&1; else echo '(journalctl not available - falling back to '' @
           ''flat log files)'; echo; tail -n '' @ show_int lines' @
           '' /var/log/syslog 2>/dev/null || tail -n '' @ show_int lines' @
           '' /var/log/messages 2>/dev/null || echo 'No readable log source found on '' @
           ''this host.'; fi'')"

definition cmd_analyze_journal_logs :: "string \<Rightarrow> int \<Rightarrow> string checked" where
  "cmd_analyze_journal_logs priority lines' =
     (let lines' = max 1 lines' in
      let priority = lower (strip priority) in
      if priority \<noteq> [] \<and> (priority \<notin> set JOURNAL_PRIORITIES) then
        Inl Value_Error
      else 
      let no_journal_msg = ''journalctl is not available on this host (no systemd journal).'' in
      if priority = [] then
        Inr (''if ! command -v journalctl >/dev/null 2>&1; then echo '' @ quote no_journal_msg @
             ''; exit 0; fi; journalctl -b -n '' @ show_int lines' @ '' --no-pager 2>&1'')
      else 
      let p = quote priority in
      let empty_msg = quote (''No journal entries at priority '' @ SQ @ priority @ SQ @ '' or higher for this boot.'') in
      Inr (''if ! command -v journalctl >/dev/null 2>&1; then echo '' @ quote no_journal_msg @
           ''; exit 0; fi; out=$(journalctl -b -p '' @ p @ '' -n '' @ show_int lines' @
           '' --no-pager 2>&1); if [ -z \"$out\" ]; then echo '' @ empty_msg @
           ''; else echo \"$out\"; fi''))"

definition cmd_investigate_boot_failures :: "string" where
  "cmd_investigate_boot_failures =
     ''echo '== Recent boots (journalctl --list-boots) =='\<newline>'' @
          ''if command -v journalctl >/dev/null 2>&1; then\<newline>'' @
          ''    journalctl --list-boots --no-pager 2>&1\<newline>'' @ ''else\<newline>'' @
          ''    echo 'journalctl is not available on this host.'\<newline>'' @ ''fi\<newline>'' @
          ''echo\<newline>'' @ ''echo '== Boot time breakdown (systemd-analyze) =='\<newline>'' @
          ''if command -v systemd-analyze >/dev/null 2>&1; then\<newline>'' @
          ''    systemd-analyze 2>&1\<newline>'' @ ''    echo\<newline>'' @
          ''    echo '== Slowest units to start (systemd-analyze blame, top 20) =='\<newline>'' @
          ''    systemd-analyze blame --no-pager 2>&1 | head -n 20\<newline>'' @
          ''    echo\<newline>'' @
          ''    echo '== Critical chain (what the boot waited on) =='\<newline>'' @
          ''    systemd-analyze critical-chain --no-pager 2>&1\<newline>'' @ ''else\<newline>'' @
          ''    echo 'systemd-analyze is not available on this host.'\<newline>'' @
          ''fi\<newline>'' @ ''echo\<newline>'' @
          ''echo '== Units currently in the failed list =='\<newline>'' @
          ''if command -v systemctl >/dev/null 2>&1; then\<newline>'' @
          ''    out=$(systemctl --failed --no-legend 2>/dev/null)\<newline>'' @
          ''    if [ -z \"$out\" ]; then echo 'No failed units.'; else echo \"$out\"; fi\<newline>'' @
          ''else\<newline>'' @ ''    echo 'systemctl not available on this host.'\<newline>'' @
          ''fi''"

definition cmd_trace_application_errors :: "string \<Rightarrow> int \<Rightarrow> string" where
  "cmd_trace_application_errors unit lines' =
     (let lines' = max 1 lines' in
      let grep_pattern = quote ''(error|exception|traceback|fatal|panic)'' in
      let unit = strip unit in
      let no_journal_msg = quote ''journalctl is not available on this host.'' in
      if unit \<noteq> [] then
        let u = quote unit in
        let empty_msg = quote (''No application-error-like lines found for '' @ SQ @ unit @ SQ @ '' in the last '' @ show_int lines' @ '' journal lines.'') in
        ''if ! command -v journalctl >/dev/null 2>&1; then echo '' @ no_journal_msg @
             ''; exit 0; fi; out=$(journalctl -u '' @ u @ '' -n '' @ show_int lines' @
             '' --no-pager 2>&1 | grep -iE '' @ grep_pattern @
             ''); if [ -z \"$out\" ]; then echo '' @ empty_msg @ ''; else echo \"$out\"; fi''
      else 
      let empty_msg = quote (''No application-error-like lines found in the last '' @ show_int lines' @ '' journal lines.'') in
      ''if ! command -v journalctl >/dev/null 2>&1; then echo '' @ no_journal_msg @
           ''; exit 0; fi; out=$(journalctl -n '' @ show_int lines' @
           '' --no-pager 2>&1 | grep -iE '' @ grep_pattern @ ''); if [ -z \"$out\" ]; then echo '' @
           empty_msg @ ''; else echo \"$out\"; fi'')"

definition cmd_monitor_kernel_messages :: "int \<Rightarrow> string" where
  "cmd_monitor_kernel_messages lines' =
     (let lines' = max 1 lines' in
      ''if command -v dmesg >/dev/null 2>&1 && dmesg -T >/dev/null 2>&1; then dmesg '' @
           ''-T 2>/dev/null | tail -n '' @ show_int lines' @
           ''; elif command -v journalctl >/dev/null 2>&1; then journalctl -k -n '' @
           show_int lines' @
           '' --no-pager 2>&1; else echo 'Neither dmesg nor journalctl -k is available/permitted '' @
           ''on this host.'; fi'')"

definition cmd_collect_support_info :: "string" where
  "cmd_collect_support_info =
     ''echo '== Identity =='\<newline>'' @
          ''echo \"Hostname: $(hostname 2>/dev/null)\"\<newline>'' @
          ''if [ -r /etc/os-release ]; then . /etc/os-release; echo \"OS: ${PRETTY_NAME:-unknown}\"; '' @
          ''fi\<newline>'' @ ''echo \"Kernel: $(uname -srm 2>/dev/null)\"\<newline>'' @
          ''echo \"Date: $(date 2>/dev/null)\"\<newline>'' @ ''echo\<newline>'' @
          ''echo '== Uptime / Load =='\<newline>'' @ ''uptime\<newline>'' @ ''echo\<newline>'' @
          ''echo '== Memory =='\<newline>'' @
          ''free -h 2>/dev/null || echo 'free not available'\<newline>'' @ ''echo\<newline>'' @
          ''echo '== Disk =='\<newline>'' @ ''df -hT 2>/dev/null\<newline>'' @ ''echo\<newline>'' @
          ''echo '== Network interfaces =='\<newline>'' @
          ''(ip -brief addr 2>/dev/null || ifconfig 2>/dev/null || echo 'no ip/ifconfig '' @
          ''available')\<newline>'' @ ''echo\<newline>'' @
          ''echo '== Failed services =='\<newline>'' @
          ''if command -v systemctl >/dev/null 2>&1; then\<newline>'' @
          ''    out=$(systemctl --failed --no-legend 2>/dev/null)\<newline>'' @
          ''    if [ -z \"$out\" ]; then echo 'No failed services.'; else echo \"$out\"; '' @
          ''fi\<newline>'' @ ''else\<newline>'' @
          ''    echo 'systemctl not available.'\<newline>'' @ ''fi''"

definition cmd_generate_sos_report :: "string" where
  "cmd_generate_sos_report =
     ''if command -v sos >/dev/null 2>&1; then sos report --batch 2>&1; elif command '' @
          ''-v sosreport >/dev/null 2>&1; then sosreport --batch 2>&1; else echo '' @
          quote SOS_MISSING_MSG @ '' >&2; exit 1; fi''"

definition cmd_install_sos :: "string" where
  "cmd_install_sos =
     ''set -e; if command -v apt-get >/dev/null 2>&1; then export DEBIAN_FRONTEND=noninteractive; '' @
          ''apt-get update; apt-get install -y sos || apt-get install -y sosreport; '' @
          ''elif command -v dnf >/dev/null 2>&1; then dnf install -y sos; elif command '' @
          ''-v yum >/dev/null 2>&1; then yum install -y sos; elif command -v zypper '' @
          ''>/dev/null 2>&1; then zypper --non-interactive install sos; elif command '' @
          ''-v pacman >/dev/null 2>&1; then echo 'sos/sosreport is a Red Hat diagnostic '' @
          ''tool and is not packaged for Arch Linux.' >&2; exit 1; else echo 'No supported '' @
          ''package manager found (apt/dnf/yum/zypper/pacman).' >&2; exit 1; fi; echo; '' @
          ''echo 'sos installed - you can now run Generate sos Report.'' @ SQ"

definition cmd_install_auditd :: "string" where
  "cmd_install_auditd =
     ''set -e; if command -v apt-get >/dev/null 2>&1; then export DEBIAN_FRONTEND=noninteractive; '' @
          ''apt-get update; apt-get install -y auditd; elif command -v dnf >/dev/null '' @
          ''2>&1; then dnf install -y audit; elif command -v yum >/dev/null 2>&1; then '' @
          ''yum install -y audit; elif command -v zypper >/dev/null 2>&1; then zypper '' @
          ''--non-interactive install audit; elif command -v pacman >/dev/null 2>&1; '' @
          ''then pacman -Sy --noconfirm audit; else echo 'No supported package manager '' @
          ''found (apt/dnf/yum/zypper/pacman).' >&2; exit 1; fi; systemctl enable --now '' @
          ''auditd 2>&1 || true; if systemctl is-active --quiet auditd; then echo; echo '' @ SQ @
          ''auditd installed and started.'; else echo 'auditd was installed but did '' @
          ''NOT start (masked unit, non-systemd host, or policy refusal).' >&2; systemctl '' @
          ''status auditd --no-pager -l 2>&1 | tail -n 12 >&2; exit 1; fi''"

definition cmd_investigate_crashes :: "string" where
  "cmd_investigate_crashes =
     ''echo '== Kernel oops / panic / segfault (dmesg) =='\<newline>'' @
          ''if command -v dmesg >/dev/null 2>&1; then\<newline>'' @
          ''    out=$(dmesg -T 2>/dev/null | grep -iE 'panic|oops|segfault|general '' @
          ''protection fault')\<newline>'' @
          ''    if [ -z \"$out\" ]; then echo 'No kernel panic/oops/segfault lines found.'; '' @
          ''else echo \"$out\"; fi\<newline>'' @ ''else\<newline>'' @
          ''    echo 'dmesg not available on this host.'\<newline>'' @ ''fi\<newline>'' @
          ''echo\<newline>'' @ ''echo '== OOM killer events =='\<newline>'' @
          ''if command -v journalctl >/dev/null 2>&1; then\<newline>'' @
          ''    out=$(journalctl -k --no-pager 2>/dev/null | grep -iE 'out of memory|oom-kill|killed '' @
          ''process')\<newline>'' @
          ''    if [ -z \"$out\" ]; then echo 'No OOM-killer events found in the kernel '' @
          ''journal.'; else echo \"$out\"; fi\<newline>'' @ ''else\<newline>'' @
          ''    echo 'journalctl not available on this host.'\<newline>'' @ ''fi\<newline>'' @
          ''echo\<newline>'' @ ''echo '== Recorded core dumps (coredumpctl) =='\<newline>'' @
          ''if command -v coredumpctl >/dev/null 2>&1; then\<newline>'' @
          ''    coredumpctl list --no-pager 2>&1 || echo 'No core dumps recorded.'\<newline>'' @
          ''else\<newline>'' @ ''    echo 'coredumpctl not available on this host.'\<newline>'' @
          ''fi''"

definition cmd_troubleshoot_memory_issues :: "string" where
  "cmd_troubleshoot_memory_issues =
     ''mem_pct=$(LANG=C free -m 2>/dev/null | awk 'NR==2 && $2>0 {printf \"%.0f\", '' @
          ''$3/$2*100}')\<newline>'' @ ''mem_status=OK\<newline>'' @
          ''if [ -n \"$mem_pct\" ]; then\<newline>'' @
          ''    if [ \"$mem_pct\" -ge 90 ] 2>/dev/null; then mem_status=CRITICAL\<newline>'' @
          ''    elif [ \"$mem_pct\" -ge 75 ] 2>/dev/null; then mem_status=WARNING\<newline>'' @
          ''    fi\<newline>'' @ ''fi\<newline>'' @
          ''echo \"Memory usage: ${mem_pct:-unknown}% ($mem_status)\"\<newline>'' @
          ''echo\<newline>'' @ ''echo '== Memory / Swap =='\<newline>'' @ ''free -h\<newline>'' @
          ''echo\<newline>'' @ ''echo '== Top 15 memory consumers =='\<newline>'' @
          ''ps -eo pid,ppid,user,%mem,%cpu,comm --sort=-%mem | head -n 16\<newline>'' @
          ''echo\<newline>'' @ ''echo '== Swap activity (vmstat, one 1s sample) =='\<newline>'' @
          ''vmstat 1 2 2>/dev/null | tail -n 1 || echo 'vmstat not available on this '' @
          ''host'\<newline>'' @ ''echo\<newline>'' @
          ''echo '== OOM-killer history (journal, kernel) =='\<newline>'' @
          ''if command -v journalctl >/dev/null 2>&1; then\<newline>'' @
          ''    out=$(journalctl -k --no-pager 2>/dev/null | grep -iE 'out of memory|oom-kill|killed '' @
          ''process')\<newline>'' @
          ''    if [ -z \"$out\" ]; then echo 'No OOM-killer events found.'; else echo '' @
          ''\"$out\"; fi\<newline>'' @ ''else\<newline>'' @
          ''    echo 'journalctl not available on this host.'\<newline>'' @ ''fi''"

definition cmd_analyze_cpu_bottlenecks :: "string" where
  "cmd_analyze_cpu_bottlenecks =
     ''cores=$(nproc 2>/dev/null || echo 1)\<newline>'' @
          ''load1=$(uptime | awk -F'load average' '{print $2}' | tr -d ':' | awk -F',' '' @ SQ @
          ''{print $1}' | tr -d ' ')\<newline>'' @
          ''load_ratio=$(awk -v l=\"$load1\" -v c=\"$cores\" 'BEGIN{ if (c==\"\" || c==0) '' @
          ''c=1; if (l==\"\") l=0; printf \"%.2f\", l/c }')\<newline>'' @
          ''load_status=OK\<newline>'' @
          ''if awk -v r=\"$load_ratio\" 'BEGIN{exit !(r>=2)}'; then load_status=CRITICAL\<newline>'' @
          ''elif awk -v r=\"$load_ratio\" 'BEGIN{exit !(r>=1)}'; then load_status=WARNING\<newline>'' @
          ''fi\<newline>'' @
          ''echo \"CPU load: $load_status  (load $load1 across $cores core(s), ratio '' @
          ''$load_ratio)\"\<newline>'' @ ''echo\<newline>'' @
          ''echo '== Per-core utilization (mpstat, one 1s sample) =='\<newline>'' @
          ''if command -v mpstat >/dev/null 2>&1; then\<newline>'' @
          ''    mpstat -P ALL 1 1 2>/dev/null\<newline>'' @ ''else\<newline>'' @
          ''    echo 'mpstat not available (package: sysstat) - see the load average '' @
          ''above instead.'\<newline>'' @ ''fi\<newline>'' @ ''echo\<newline>'' @
          ''echo '== Run queue / context switches / interrupts (vmstat, one 1s sample) '' @
          ''=='\<newline>'' @
          ''vmstat 1 2 2>/dev/null | tail -n 2 || echo 'vmstat not available on this '' @
          ''host'\<newline>'' @ ''echo\<newline>'' @ ''echo '== Top 15 by CPU =='\<newline>'' @
          ''ps -eo pid,ppid,user,%cpu,%mem,stat,etime,comm --sort=-%cpu | head -n 16''"

definition cmd_review_audit_logs :: "int \<Rightarrow> string" where
  "cmd_review_audit_logs lines' =
     (let lines' = max 1 lines' in
      let no_audit_msg = quote (''No readable audit log found (auditd may not be installed, or this user cannot '' @ ''read /var/log/audit/audit.log).'') in
      ''if command -v ausearch >/dev/null 2>&1; then ausearch -i 2>&1 | tail -n '' @
           show_int lines' @ ''; elif [ -r /var/log/audit/audit.log ]; then tail -n '' @
           show_int lines' @ '' /var/log/audit/audit.log 2>&1; else echo '' @ no_audit_msg @ ''; fi'')"

section \<open>What the shell reads\<close>

lemmas host_builders = cmd_find_large_files_def cmd_update_status_def cmd_vacuum_journal_def cmd_search_log_def
  cmd_review_system_logs_def cmd_analyze_journal_logs_def cmd_trace_application_errors_def
  cmd_monitor_kernel_messages_def cmd_review_audit_logs_def

lemma plain_host_free:
  "injection_free (\<lambda>(path, top_n). Inr (cmd_find_large_files path top_n)) \<and>
   injection_free (\<lambda>refresh. Inr (cmd_update_status refresh)) \<and>
   injection_free (\<lambda>keep_days. Inr (cmd_vacuum_journal keep_days)) \<and>
   injection_free (\<lambda>(pattern, lines'). Inr (cmd_search_log pattern lines')) \<and>
   injection_free (\<lambda>lines'. Inr (cmd_review_system_logs lines')) \<and>
   injection_free (\<lambda>(priority, lines'). cmd_analyze_journal_logs priority lines') \<and>
   injection_free (\<lambda>(unit, lines'). Inr (cmd_trace_application_errors unit lines')) \<and>
   injection_free (\<lambda>lines'. Inr (cmd_monitor_kernel_messages lines')) \<and>
   injection_free (\<lambda>lines'. Inr (cmd_review_audit_logs lines'))"
  unfolding host_builders  case_prod_unfold return_push let_flat
  by (rule conjI free_rules | rule free_steps | (simp add: read_simps; fail)[1] | (simp only: joined_simps)[1])+

end
