(* ===== verification/Cmd_Mount.thy ===== *)
theory Cmd_Mount
  imports Cmd_Filesystem
begin

text \<open>
  The builders of \<^verbatim>\<open>client/_api_filesystem_mount.py\<close>: mounting, network file systems, resize and
  repair, the file system table and quotas.  Every command is confined, and the line added to
  \<^verbatim>\<open>/etc/fstab\<close> has the six fields the entry was given, unless the device or the mount point holds
  white space, which the builder does not refuse.
\<close>

section \<open>Validators\<close>

definition mount_path :: "string \<Rightarrow> string checked" where
  "mount_path path =
     (let p = strip path
      in if p = [] then Inl Value_Error
         else if CHR 0x00 \<in> set p \<or> has_newline p then Inl Value_Error
         else Inr p)"

definition reject_critical_mount :: "string \<Rightarrow> bool \<Rightarrow> unit checked" where
  "reject_critical_mount path allow_critical =
     (if allow_critical then Inr ()
      else if system_critical_reason path \<noteq> None then Inl Value_Error else Inr ())"

text \<open>
  The regular expressions are applied to texts without surrounding white space, so that their
  \<^verbatim>\<open>$\<close> is the end of the text.
\<close>

definition host_name :: "string \<Rightarrow> bool" where
  "host_name s = (s \<noteq> [] \<and> list_all (\<lambda>c. is_alnum c \<or> c \<in> set ''.-'') s)"

definition share_name :: "string \<Rightarrow> bool" where
  "share_name s = (s \<noteq> [] \<and> list_all (\<lambda>c. c \<notin> {CHR 0x00, CHR ''/'', CHR 0x0D, CHR 0x0A}) s)"

definition fs_type :: "string \<Rightarrow> bool" where
  "fs_type s = (s \<noteq> [] \<and> list_all (\<lambda>c. is_alnum c \<or> c \<in> set ''._-'') s)"

definition validate_mount_options :: "string \<Rightarrow> string checked" where
  "validate_mount_options options =
     (let opts = strip options
      in if opts = [] then Inr opts
         else if list_ex (\<lambda>c. is_space c \<or> c = CHR 0x00) opts then Inl Value_Error
         else Inr opts)"

text \<open>\<^verbatim>\<open>mount_point.strip('/').replace('/', '-') or 'root'\<close>, the name of the credentials file.\<close>

definition cred_name :: "string \<Rightarrow> string" where
  "cred_name mount_point =
     if_empty (map (\<lambda>c. if c = CHR ''/'' then CHR ''-'' else c)
       (rev (dropWhile (\<lambda>c. c = CHR ''/'') (rev (dropWhile (\<lambda>c. c = CHR ''/'') mount_point))))) ''root''"

text \<open>The line for the file system table: six fields separated by tabs.\<close>

definition fstab_line :: "string \<Rightarrow> string \<Rightarrow> string \<Rightarrow> string \<Rightarrow> int \<Rightarrow> int \<Rightarrow> string" where
  "fstab_line device mount_point fstype options dump pass_num =
     device @ [CHR 0x09] @ mount_point @ [CHR 0x09] @ fstype @ [CHR 0x09] @ options @
       [CHR 0x09] @ show_int dump @ [CHR 0x09] @ show_int pass_num"

section \<open>Builders\<close>

definition cmd_mount_filesystem :: "string \<Rightarrow> string \<Rightarrow> string \<Rightarrow> string \<Rightarrow> string checked" where
  "cmd_mount_filesystem device mount_point fstype options =
     and_then (mount_path device) (\<lambda>device.
     and_then (mount_path mount_point) (\<lambda>mount_point.
     let q_dev = quote device in
     let q_mnt = quote mount_point in
     let parts = [''mkdir -p '' @ q_mnt, ''&&'', ''mount''] in
     let fstype = strip fstype in
     let parts = (if fstype \<noteq> [] then parts @ [''-t'', quote fstype]
           else parts) in
     let options = strip options in
     let parts = (if options \<noteq> [] then parts @ [''-o'', quote options]
           else parts) in
     let parts = parts @ [q_dev, q_mnt] in
     Inr (join '' '' parts @ '' 2>&1'')))"

definition cmd_unmount_filesystem :: "string \<Rightarrow> bool \<Rightarrow> bool \<Rightarrow> string checked" where
  "cmd_unmount_filesystem target force allow_critical =
     and_then (mount_path target) (\<lambda>target.
     and_then (reject_critical_mount target allow_critical) (\<lambda>_.
     let flag = if force then ''-f '' else [] in
     Inr (''umount '' @ flag @ quote target @ '' 2>&1'')))"

definition cmd_mount_nfs :: "string \<Rightarrow> string \<Rightarrow> string \<Rightarrow> string \<Rightarrow> bool \<Rightarrow> string checked" where
  "cmd_mount_nfs server export_path mount_point options persist =
     (let server = strip server in
      let export_path = strip export_path in
      and_then (mount_path mount_point) (\<lambda>mount_point.
      if \<not> (host_name server) then
        Inl Value_Error
      else if \<not> (starts_with ''/'' export_path) then
        Inl Value_Error
      else if (CHR 0x00 \<in> set export_path) \<or> (CHR 0x0A \<in> set export_path) \<or> (CHR 0x0D \<in> set export_path) then
        Inl Value_Error
      else 
      and_then (validate_mount_options options) (\<lambda>options_ok.
      let opts = if_empty options_ok ''defaults'' in
      let src = server @ '':'' @ export_path in
      let q_src = quote src in
      let q_mnt = quote mount_point in
      let q_opts = quote opts in
      let cmd = ''if ! command -v mount.nfs >/dev/null 2>&1 && ! ls /sbin/mount.nfs* >/dev/null '' @
                ''2>&1; then echo 'NFS client not installed - install nfs-common (Debian/Ubuntu) '' @
                ''or nfs-utils (RHEL/SUSE) first.' >&2; exit 1; fi; mkdir -p '' @ q_mnt @
                '' && mount -t nfs -o '' @ q_opts @ '' '' @ q_src @ '' '' @ q_mnt @
                '' && printf 'Mounted %s at %s.'' @ BS @ ''n' '' @ q_src @ '' '' @ q_mnt in
      let cmd = (if persist then let fstab_line = src @ '' '' @ mount_point @ '' nfs '' @ opts @ '' 0 0'' in 
             cmd @ '' && { grep -qsF '' @ quote (mount_point @ '' nfs'') @
                  '' /etc/fstab || printf '%s'' @ BS @ ''n' '' @ quote fstab_line @
                  '' >> /etc/fstab; echo 'Persisted to /etc/fstab.'; }''
            else cmd) in
      Inr (cmd))))"

definition cmd_mount_cifs :: "string \<Rightarrow> string \<Rightarrow> string \<Rightarrow> string \<Rightarrow> string \<Rightarrow> string \<Rightarrow> bool \<Rightarrow> string checked" where
  "cmd_mount_cifs server share mount_point username password options persist =
     (let server = strip server in
      let share = strip share in
      and_then (mount_path mount_point) (\<lambda>mount_point.
      let username = strip username in
      if \<not> (host_name server) then
        Inl Value_Error
      else if \<not> (share_name share) then
        Inl Value_Error
      else 
      let unc = ''//'' @ server @ ''/'' @ share in
      and_then (validate_mount_options options) (\<lambda>opts.
      let extra = if opts \<noteq> [] then '','' @ opts else [] in
      let q_unc = quote unc in
      let q_mnt = quote mount_point in
      let q_user = quote (if_empty username ''guest'') in
      let q_pass = quote password in
      let q_opts = quote opts in
      let pre = ''if ! command -v mount.cifs >/dev/null 2>&1 && ! ls /sbin/mount.cifs >/dev/null '' @
                ''2>&1; then echo 'CIFS client not installed - install cifs-utils first.' '' @
                ''>&2; exit 1; fi; mkdir -p '' @ q_mnt @ ''; '' in
      if persist then
        let cred_path = ''/etc/sysible-cifs/'' @ cred_name mount_point @ ''.cred'' in
        let q_cred = quote cred_path in
        let fstab_line = unc @ '' '' @ mount_point @ '' cifs credentials='' @ cred_path @ extra @
                         '' 0 0'' in
        Inr (pre @ ''mkdir -p /etc/sysible-cifs && cred='' @ q_cred @ ''; printf 'username=%s'' @
             BS @ ''npassword=%s'' @ BS @ ''n' '' @ q_user @ '' '' @ q_pass @
             '' > \"$cred\" && chmod 600 \"$cred\"; O='' @ q_opts @
             ''; mount -t cifs -o \"credentials=$cred${O:+,$O}\" '' @ q_unc @ '' '' @ q_mnt @
             '' && printf 'Mounted %s at %s.'' @ BS @ ''n' '' @ q_unc @ '' '' @ q_mnt @
             '' && { grep -qsF '' @ quote (mount_point @ '' cifs'') @
             '' /etc/fstab || printf '%s'' @ BS @ ''n' '' @ quote fstab_line @
             '' >> /etc/fstab; echo 'Persisted to /etc/fstab.'; }'')
      else Inr (pre @ ''cred=$(mktemp) && chmod 600 \"$cred\"; printf 'username=%s'' @ BS @
           ''npassword=%s'' @ BS @ ''n' '' @ q_user @ '' '' @ q_pass @ '' > \"$cred\"; O='' @
           q_opts @ ''; mount -t cifs -o \"credentials=$cred${O:+,$O}\" '' @ q_unc @ '' '' @ q_mnt @
           ''; rc=$?; rm -f \"$cred\"; if [ \"$rc\" -eq 0 ]; then printf 'Mounted %s at %s.'' @ BS @
           ''n' '' @ q_unc @ '' '' @ q_mnt @
           ''; else echo 'CIFS mount failed.' >&2; exit \"$rc\"; fi''))))"

definition cmd_resize_filesystem :: "string \<Rightarrow> string \<Rightarrow> string checked" where
  "cmd_resize_filesystem target new_size =
     and_then (mount_path target) (\<lambda>target.
     let q_target = quote target in
     let size' = strip new_size in
     let q_size = if size' \<noteq> [] then quote size' else [] in
     let btrfs_size = if size' \<noteq> [] then q_size else ''max'' in
     Inr (''_fst=$(findmnt -no FSTYPE '' @ q_target @ '' 2>/dev/null || lsblk -no FSTYPE '' @
          q_target @ '' 2>/dev/null); _mnt=$(findmnt -no TARGET '' @ q_target @
          '' 2>/dev/null); case \"$_fst\" in ext2|ext3|ext4) if command -v resize2fs >/dev/null '' @
          ''2>&1; then resize2fs '' @ q_target @ '' '' @ q_size @
          '' 2>&1; else echo 'resize2fs not installed on this host (package: e2fsprogs).' '' @
          ''>&2; exit 1; fi;; xfs) if [ -z \"$_mnt\" ]; then echo 'Target is not a mounted '' @
          ''xfs filesystem (xfs can only grow while mounted).' >&2; exit 1; elif ! command '' @
          ''-v xfs_growfs >/dev/null 2>&1; then echo 'xfs_growfs not installed on this '' @
          ''host (package: xfsprogs).' >&2; exit 1; else xfs_growfs \"$_mnt\" 2>&1; fi;; '' @
          ''btrfs) if [ -z \"$_mnt\" ]; then echo 'Target is not a mounted btrfs filesystem '' @
          ''(btrfs can only resize while mounted).' >&2; exit 1; elif ! command -v btrfs '' @
          ''>/dev/null 2>&1; then echo 'btrfs-progs not installed on this host.' >&2; '' @
          ''exit 1; else btrfs filesystem resize '' @ btrfs_size @
          '' \"$_mnt\" 2>&1; fi;; *) echo \"Unsupported or undetected filesystem type ('' @ BS @
          ''\"$_fst'' @ BS @ ''\") '' @
          ''- supported: ext2/ext3/ext4, xfs, btrfs.\" >&2; exit 1;; esac''))"

definition cmd_repair_filesystem :: "string \<Rightarrow> bool \<Rightarrow> string checked" where
  "cmd_repair_filesystem device auto_yes =
     and_then (mount_path device) (\<lambda>device.
     let q_dev = quote device in
     case if auto_yes
          then (''e2fsck -y'', ''xfs_repair'', ''btrfs check --repair'', ''fsck.fat -a'', ''fsck -y'')
          else (''e2fsck -n'', ''xfs_repair -n'', ''btrfs check'', ''fsck.fat -n'', ''fsck -n'') of (ext, xfs, btrfs, fat, gen) \<Rightarrow>
     Inr (''if findmnt -no TARGET '' @ q_dev @
          '' >/dev/null 2>&1; then echo 'Refusing to check/repair - target is currently '' @
          ''mounted. Unmount it first.' >&2; exit 1; fi; t=$(blkid -o value -s TYPE '' @ q_dev @
          '' 2>/dev/null); [ -z \"$t\" ] && t=$(lsblk -dno FSTYPE '' @ q_dev @
          '' 2>/dev/null | head -n1); case \"$t\" in ext2|ext3|ext4) '' @ ext @ '' '' @ q_dev @
          '' 2>&1;; xfs) if command -v xfs_repair >/dev/null 2>&1; then '' @ xfs @ '' '' @ q_dev @
          '' 2>&1; else echo 'xfs_repair not installed on this host (package: xfsprogs).' '' @
          ''>&2; exit 1; fi;; btrfs) if command -v btrfs >/dev/null 2>&1; then '' @ btrfs @ '' '' @
          q_dev @
          '' 2>&1; else echo 'btrfs tools not installed on this host (package: btrfs-progs; '' @
          ''btrfsprogs on openSUSE).' >&2; exit 1; fi;; vfat|fat|msdos) '' @ fat @ '' '' @ q_dev @
          '' 2>&1;; '' @ SQ @ SQ @
          '') echo 'Could not determine the filesystem type - refusing to '' @
          ''guess. Verify the device path, or format it first.' >&2; exit 1;; *) '' @ gen @ '' '' @
          q_dev @ '' 2>&1;; esac''))"

definition cmd_show_fstab :: "string" where
  "cmd_show_fstab =
     ''cat /etc/fstab 2>&1''"

definition cmd_add_fstab_entry :: "string \<Rightarrow> string \<Rightarrow> string \<Rightarrow> string \<Rightarrow> string \<Rightarrow> string \<Rightarrow> string checked" where
  "cmd_add_fstab_entry device mount_point fstype options dump pass_num =
     and_then (mount_path device) (\<lambda>device.
     and_then (mount_path mount_point) (\<lambda>mount_point.
     let fstype = strip fstype in
     if fstype = [] then
       Inl Value_Error
     else if \<not> (fs_type fstype) then
       Inl Value_Error
     else 
     and_then (validate_mount_options options) (\<lambda>options_ok.
     let options = if_empty options_ok ''defaults'' in
     and_then (validate_int_range dump 0 1) (\<lambda>dump.
     and_then (validate_int_range pass_num 0 9) (\<lambda>pass_num.
     let line = fstab_line device mount_point fstype options dump pass_num in
     let q_line = quote line in
     let q_mnt = quote mount_point in
     Inr (''if awk -v m='' @ q_mnt @
          '' '$2==m{f=1} END{exit !f}' /etc/fstab 2>/dev/null; then echo 'An /etc/fstab '' @
          ''entry for that mount point already exists - remove it first if you want '' @
          ''to replace it.' >&2; exit 1; fi; cp /etc/fstab /etc/fstab.bak.$(date +%s) '' @
          ''&& echo '' @ q_line @ '' >> /etc/fstab && echo 'Added to /etc/fstab:' && grep -F '' @
          q_line @ '' /etc/fstab''))))))"

definition cmd_remove_fstab_entry :: "string \<Rightarrow> bool \<Rightarrow> string checked" where
  "cmd_remove_fstab_entry mount_point allow_critical =
     and_then (mount_path mount_point) (\<lambda>mount_point.
     and_then (reject_critical_mount mount_point allow_critical) (\<lambda>_.
     let q_mnt = quote mount_point in
     Inr (''cp /etc/fstab /etc/fstab.bak.$(date +%s) && awk -v mnt='' @ q_mnt @
          '' '$2 != mnt' /etc/fstab > /tmp/fstab.new.$$ && mv /tmp/fstab.new.$$ /etc/fstab '' @
          ''&& echo 'Removed any /etc/fstab entry for' '' @ q_mnt)))"

definition cmd_enable_quotas :: "string \<Rightarrow> string checked" where
  "cmd_enable_quotas mount_point =
     and_then (mount_path mount_point) (\<lambda>mount_point.
     let q_mnt = quote mount_point in
     Inr (''t=$(findmnt -no FSTYPE '' @ q_mnt @
          '' 2>/dev/null); if [ \"$t\" = xfs ]; then echo 'XFS manages quotas in-kernel: '' @
          ''add uquota,gquota (or prjquota) to the /etc/fstab options for this mount '' @
          ''and remount (or reboot). quotacheck/quotaon are not used on XFS; use xfs_quota '' @
          ''to set limits.' >&2; exit 1; fi; if ! command -v quotacheck >/dev/null 2>&1 '' @
          ''|| ! command -v quotaon >/dev/null 2>&1; then echo 'quotacheck/quotaon not '' @
          ''installed on this host (package: quota).' >&2; exit 1; fi; quotacheck -ugm '' @ q_mnt @
          '' 2>&1 && quotaon '' @ q_mnt @ '' 2>&1''))"

definition cmd_show_quotas :: "string \<Rightarrow> string" where
  "cmd_show_quotas mount_point =
     (let mount_point = strip mount_point in
      let target = if mount_point \<noteq> [] then quote mount_point else ''-a'' in
      ''if ! command -v repquota >/dev/null 2>&1; then echo 'repquota is not installed '' @
           ''on this host (package: quota).' >&2; exit 1; fi; repquota '' @ target @ '' 2>&1'')"

definition cmd_set_user_quota :: "string \<Rightarrow> string \<Rightarrow> string \<Rightarrow> string \<Rightarrow> string \<Rightarrow> string \<Rightarrow> string checked" where
  "cmd_set_user_quota username mount_point block_soft block_hard inode_soft inode_hard =
     and_then (validate_user_or_group username) (\<lambda>username.
     and_then (mount_path mount_point) (\<lambda>mount_point.
     and_then (validate_int_range block_soft 0 2147483647) (\<lambda>block_soft.
     and_then (validate_int_range block_hard 0 2147483647) (\<lambda>block_hard.
     and_then (validate_int_range inode_soft 0 2147483647) (\<lambda>inode_soft.
     and_then (validate_int_range inode_hard 0 2147483647) (\<lambda>inode_hard.
     let q_user = quote username in
     let q_mnt = quote mount_point in
     Inr (''if ! command -v setquota >/dev/null 2>&1; then echo 'setquota is not installed '' @
          ''on this host (package: quota).' >&2; exit 1; fi; setquota -u '' @ q_user @ '' '' @
          show_int block_soft @ '' '' @ show_int block_hard @ '' '' @ show_int inode_soft @ '' '' @
          show_int inode_hard @ '' 0 '' @ q_mnt @ '' 2>&1 && echo 'Quota updated.'' @ SQ)))))))"

section \<open>What the shell reads\<close>

lemma accepted_mount [accepted]: "mount_path p = Inr q \<Longrightarrow> q = strip p"
  "validate_mount_options opts = Inr q \<Longrightarrow> q = strip opts"
  by (auto simp: mount_path_def validate_mount_options_def Let_def split: if_splits)

lemma confined_mount [confined_rules]:
  "confined args (\<lambda>x. f x (strip (p x))) \<Longrightarrow> confined args (\<lambda>x. and_then (mount_path (p x)) (f x))"
  "confined args (\<lambda>x. f x (strip (p x))) \<Longrightarrow> confined args (\<lambda>x. and_then (validate_mount_options (p x)) (f x))"
  by (rule confined_and_then, auto intro: accepted)+

lemmas mount_builders = cmd_mount_filesystem_def cmd_unmount_filesystem_def cmd_mount_nfs_def cmd_mount_cifs_def cmd_resize_filesystem_def cmd_repair_filesystem_def cmd_show_fstab_def cmd_add_fstab_entry_def cmd_remove_fstab_entry_def cmd_enable_quotas_def cmd_show_quotas_def cmd_set_user_quota_def

text \<open>The line a persisted share leaves in the file system table.\<close>

definition share_unc :: "string \<Rightarrow> string \<Rightarrow> string" where
  "share_unc server share = ''//'' @ strip server @ ''/'' @ strip share"

definition cred_file :: "string \<Rightarrow> string" where
  "cred_file mount_point = ''/etc/sysible-cifs/'' @ cred_name mount_point @ ''.cred''"

definition cifs_line :: "string \<Rightarrow> string \<Rightarrow> string \<Rightarrow> string \<Rightarrow> string" where
  "cifs_line server share mount_point opts =
     share_unc server share @ '' '' @ mount_point @ '' cifs credentials='' @ cred_file mount_point @
       (if opts \<noteq> [] then '','' @ opts else []) @ '' 0 0''"

lemma cifs_confined:
  "\<forall>p. confined (\<lambda>(s, sh, m, u, pw, opts).
      [Word (strip m), Word (share_unc s sh), Word (if_empty (strip u) ''guest''), Word pw, Word (strip opts),
       Word (cred_file (strip m)), Word (strip m @ '' cifs''), Word (cifs_line s sh (strip m) (strip opts))])
      (\<lambda>(s, sh, m, u, pw, opts). cmd_mount_cifs s sh m u pw opts p)"
  unfolding cmd_mount_cifs_def case_prod_unfold all_bool fst_conv snd_conv if_True if_False
    share_unc_def cred_file_def cifs_line_def append_assoc
  apply (intro conjI confined_rules confined_let confined_if confined_error confined_return)
   apply (simp_all only: read_simps)
   apply ((rule parts_intros)+)?
  done

text \<open>C25: Each of the twelve builders of the mount operations is confined: whatever devices, mount
  points, servers, shares, user names, passwords, options and sizes are given, the command that reaches
  the host's shell reads as a fixed text around whole literal operands; in particular the credentials
  of a share and every line for the file system table are one literal operand each.\<close>

theorem mount_confined:
  "confined (\<lambda>(d, m, t, opts). [Word (strip d), Word (strip m), Word (strip t), Word (strip opts)])
     (\<lambda>(d, m, t, opts). cmd_mount_filesystem d m t opts) \<and>
   (\<forall>f a. confined (\<lambda>t. [Word (strip t)]) (\<lambda>t. cmd_unmount_filesystem t f a)) \<and>
   (\<forall>p. confined (\<lambda>(s, e, m, opts).
      [Word (strip m), Word (strip s @ '':'' @ strip e), Word (if_empty (strip opts) ''defaults''),
       Word (strip m @ '' nfs''), Word (strip s @ '':'' @ strip e @ '' '' @ strip m @ '' nfs '' @
         if_empty (strip opts) ''defaults'' @ '' 0 0'')])
      (\<lambda>(s, e, m, opts). cmd_mount_nfs s e m opts p)) \<and>
   (\<forall>p. confined (\<lambda>(s, sh, m, u, pw, opts).
      [Word (strip m), Word (share_unc s sh), Word (if_empty (strip u) ''guest''), Word pw, Word (strip opts),
       Word (cred_file (strip m)), Word (strip m @ '' cifs''), Word (cifs_line s sh (strip m) (strip opts))])
      (\<lambda>(s, sh, m, u, pw, opts). cmd_mount_cifs s sh m u pw opts p)) \<and>
   confined (\<lambda>(t, s). [Word (strip t), Word (strip s)]) (\<lambda>(t, s). cmd_resize_filesystem t s) \<and>
   (\<forall>y. confined (\<lambda>d. [Word (strip d)]) (\<lambda>d. cmd_repair_filesystem d y)) \<and>
   confined (\<lambda>u :: unit. []) (\<lambda>u. Inr cmd_show_fstab) \<and>
   confined (\<lambda>(d, m, t, opts, du, pa).
      [Word (strip m), Word (fstab_line (strip d) (strip m) (strip t) (if_empty (strip opts) ''defaults'')
         (the (parse_int du)) (the (parse_int pa)))])
      (\<lambda>(d, m, t, opts, du, pa). cmd_add_fstab_entry d m t opts du pa) \<and>
   (\<forall>a. confined (\<lambda>m. [Word (strip m)]) (\<lambda>m. cmd_remove_fstab_entry m a)) \<and>
   confined (\<lambda>m. [Word (strip m)]) cmd_enable_quotas \<and>
   confined (\<lambda>m. [Word (strip m)]) (\<lambda>m. Inr (cmd_show_quotas m)) \<and>
   confined (\<lambda>(u, m, bs, bh, is, ih). [Word (strip u), Word (strip m),
       Word (show_int (the (parse_int bs))), Word (show_int (the (parse_int bh))),
       Word (show_int (the (parse_int is))), Word (show_int (the (parse_int ih)))])
     (\<lambda>(u, m, bs, bh, is, ih). cmd_set_user_quota u m bs bh is ih)"
  apply (intro conjI; (rule cifs_confined)?)
  unfolding mount_builders case_prod_unfold all_bool fst_conv snd_conv if_True if_False return_push let_flat
  by (((intro conjI confined_rules confined_check confined_intros); (simp only: read_simps)?;
      ((rule parts_intros)+)?)+)

section \<open>The line in the file system table\<close>

lemma words_from_space: "is_space c \<Longrightarrow> words_from w (s @ c # t) = words_from w s @ words_from [] t"
  by (induction w s rule: words_from.induct) auto

lemma words_from_solid: "list_all (\<lambda>c. \<not> is_space c) s \<Longrightarrow> words_from w s = (if w @ s = [] then [] else [w @ s])"
  by (induction s arbitrary: w) auto

lemma words_from_something: "w \<noteq> [] \<or> \<not> list_all is_space s \<Longrightarrow> words_from w s \<noteq> []"
  by (induction w s rule: words_from.induct) auto

lemma strip_ends:
  assumes "strip s \<noteq> []"
  shows "\<not> is_space (hd (strip s))" "\<not> is_space (last (strip s))"
proof -
  let ?l = "dropWhile is_space s" and ?r = "\<lambda>t. rev (dropWhile is_space (rev t))"
  have "\<not> is_space (hd (dropWhile is_space (rev ?l)))"
    using assms hd_dropWhile [of is_space "rev ?l"] by (auto simp: strip_def dropWhile_eq_Nil_conv)
  then show "\<not> is_space (last (strip s))" using assms by (simp add: strip_def last_rev)
  have "?r (dropWhile is_space s) = strip s" by (simp add: strip_def)
  moreover have "dropWhile is_space (strip s) = strip s"
    using dropWhile_rev_dropWhile [of is_space s] by (simp add: strip_def)
  ultimately show "\<not> is_space (hd (strip s))"
    using assms hd_dropWhile [of is_space "strip s"] by (metis dropWhile_eq_Nil_conv)
qed

text \<open>A text without outer white space is one field or has white space inside.\<close>

lemma one_field_iff:
  assumes "strip s \<noteq> []"
  shows "1 \<le> length (split_words (strip s))"
    "length (split_words (strip s)) = 1 \<longleftrightarrow> list_all (\<lambda>c. \<not> is_space c) (strip s)"
proof -
  let ?s = "strip s"
  have "last ?s \<in> set ?s" using assms by (rule last_in_set)
  then have "\<not> list_all is_space ?s" using strip_ends [OF assms] by (auto simp: list_all_iff)
  then have "split_words ?s \<noteq> []" unfolding split_words_def using words_from_something by blast
  then show least: "1 \<le> length (split_words ?s)" by (cases "split_words ?s") simp_all
  show "length (split_words ?s) = 1 \<longleftrightarrow> list_all (\<lambda>c. \<not> is_space c) ?s"
  proof
    assume one: "length (split_words ?s) = 1"
    show "list_all (\<lambda>c. \<not> is_space c) ?s"
    proof (rule ccontr)
      assume "\<not> list_all (\<lambda>c. \<not> is_space c) ?s"
      then obtain a c b where s: "?s = a @ c # b" "is_space c"
        by (metis (no_types, lifting) list_all_iff split_list)
      have "a \<noteq> []" using strip_ends(1) [OF assms] s by (cases a) auto
      then have "hd a = hd ?s" "hd a \<in> set a" using s by auto
      then have "words_from [] a \<noteq> []"
        using strip_ends(1) [OF assms] words_from_something [of "[]" a] by (auto simp: list_all_iff)
      moreover have "b \<noteq> []" using strip_ends(2) [OF assms] s by auto
      then have "last b = last ?s" "last b \<in> set b" using s by auto
      then have "words_from [] b \<noteq> []"
        using strip_ends(2) [OF assms] words_from_something [of "[]" b] by (auto simp: list_all_iff)
      ultimately have "2 \<le> length (split_words ?s)"
        unfolding split_words_def s(1) words_from_space [OF s(2)]
        by (cases "words_from [] a"; cases "words_from [] b") auto
      then show False using one by simp
    qed
  next
    assume "list_all (\<lambda>c. \<not> is_space c) ?s"
    then show "length (split_words ?s) = 1" using assms by (simp add: split_words_def words_from_solid)
  qed
qed

lemma solid_number: "list_all (\<lambda>c. \<not> is_space c) (show_int n) \<and> show_int n \<noteq> []"
proof -
  have "safe_char c \<Longrightarrow> \<not> is_space c" for c
    by (auto simp: safe_char_def is_alnum_def is_digit_def is_upper_def is_lower_def is_space_def Let_def)
  then show ?thesis using safe_show_int [of n] by (auto simp: list_all_iff)
qed

lemma solid_field: "list_all (\<lambda>c. \<not> is_space c) s \<and> s \<noteq> [] \<Longrightarrow> split_words s = [s]"
  by (simp add: split_words_def words_from_solid)

lemma split_words_tab: "split_words (s @ CHR 0x09 # t) = split_words s @ split_words t"
  by (simp add: split_words_def words_from_space is_space_def)

lemma fs_type_solid: "fs_type t \<Longrightarrow> list_all (\<lambda>c. \<not> is_space c) t \<and> t \<noteq> []"
  by (auto simp: fs_type_def list_all_iff is_alnum_def is_digit_def is_upper_def is_lower_def
      is_space_def Let_def)

lemma mount_options_solid:
  "validate_mount_options v = Inr opts \<Longrightarrow>
     list_all (\<lambda>c. \<not> is_space c) (if_empty opts ''defaults'') \<and> if_empty opts ''defaults'' \<noteq> []"
  by (cases "opts = []")
     (simp add: if_empty_def is_space_def,
      auto simp: validate_mount_options_def if_empty_def list_ex_iff list_all_iff Let_def split: if_splits)

text \<open>The entry the builder of the file system table's lines accepts is written as a line of exactly the six
  fields given, provided that neither the device nor the mount point has white space inside; with
  white space there, which the builder does not refuse, the line has more fields than that.\<close>

theorem fstab_fields:
  assumes "cmd_add_fstab_entry d m t opts du pa = Inr s"
  shows "(let line = fstab_line (strip d) (strip m) (strip t) (if_empty (strip opts) ''defaults'')
                       (the (parse_int du)) (the (parse_int pa))
          in if list_all (\<lambda>c. \<not> is_space c) (strip d @ strip m)
             then split_words line = [strip d, strip m, strip t, if_empty (strip opts) ''defaults'',
                    show_int (the (parse_int du)), show_int (the (parse_int pa))]
             else 6 < length (split_words line))"
proof -
  obtain o' where acc: "mount_path d = Inr (strip d)" "mount_path m = Inr (strip m)" "fs_type (strip t)"
    "validate_mount_options opts = Inr o'"
    using assms accepted_mount(1)
    by (auto simp: cmd_add_fstab_entry_def and_then_Inr Let_def split: if_splits)
  have o': "o' = strip opts" using accepted_mount(2) [OF acc(4)] .
  have ne: "strip d \<noteq> []" "strip m \<noteq> []" using acc(1,2) by (auto simp: mount_path_def Let_def split: if_splits)
  let ?rest = "[strip t, if_empty (strip opts) ''defaults'', show_int (the (parse_int du)),
      show_int (the (parse_int pa))]"
  have line: "split_words (fstab_line (strip d) (strip m) (strip t) (if_empty (strip opts) ''defaults'')
      (the (parse_int du)) (the (parse_int pa))) = split_words (strip d) @ split_words (strip m) @ ?rest"
    using mount_options_solid [OF acc(4)] o'
    by (simp add: fstab_line_def split_words_tab solid_field fs_type_solid [OF acc(3)] solid_number)
  show ?thesis
  proof (cases "list_all (\<lambda>c. \<not> is_space c) (strip d @ strip m)")
    case True
    then show ?thesis unfolding Let_def line using ne by (simp add: solid_field)
  next
    case False
    then have "length (split_words (strip d)) \<noteq> 1 \<or> length (split_words (strip m)) \<noteq> 1"
      using one_field_iff(2) ne by auto
    moreover have "1 \<le> length (split_words (strip d))" "1 \<le> length (split_words (strip m))"
      using one_field_iff(1) ne by blast+
    ultimately have "6 < length (split_words (strip d) @ split_words (strip m) @ ?rest)" by auto
    then show ?thesis unfolding Let_def line if_not_P [OF False] .
  qed
qed

lemma fstab_fields_witness:
  "6 < length (split_words (fstab_line ''/dev/sdb1'' ''/my data'' ''ext4'' ''defaults'' 0 0))"
proof -
  have "cmd_add_fstab_entry ''/dev/sdb1'' ''/my data'' ''ext4'' [] ''0'' ''0'' =
      Inr (the (case cmd_add_fstab_entry ''/dev/sdb1'' ''/my data'' ''ext4'' [] ''0'' ''0'' of
            Inl e \<Rightarrow> None | Inr s \<Rightarrow> Some s))"
    by (simp add: cmd_add_fstab_entry_def mount_path_def strip_def is_space_def starts_with_def fs_type_def
        validate_mount_options_def validate_int_range_def parse_int_def is_alnum_def is_digit_def
        is_upper_def is_lower_def if_empty_def digits_val_def Let_def)
  from fstab_fields [OF this] show ?thesis
    by (simp add: strip_def is_space_def if_empty_def parse_int_def is_digit_def digits_val_def)
qed

end
