(* ===== verification/Cmd_Process.thy ===== *)
theory Cmd_Process
  imports Shell_Uniform
begin

text \<open>
  The builders of \<^verbatim>\<open>client/_api_process_service.py\<close>: processes and systemd services.  A process id is
  given as text, as the console passes it on.
\<close>

section \<open>Validators and fragments\<close>

definition validate_pid :: "string \<Rightarrow> string checked" where
  "validate_pid pid =
     (case parse_int (strip pid) of None \<Rightarrow> Inl Value_Error
      | Some n \<Rightarrow> if n \<le> 0 then Inl Value_Error else Inr (show_int n))"

definition ALLOWED_SIGNALS :: "string list" where
  "ALLOWED_SIGNALS = [''TERM'', ''KILL'', ''HUP'', ''INT'', ''QUIT'', ''USR1'', ''USR2'', ''STOP'', ''CONT'']"

definition UNIT_SUFFIXES :: "string list" where
  "UNIT_SUFFIXES = [''.service'', ''.socket'', ''.target'', ''.mount'', ''.automount'', ''.timer'', ''.path'', ''.slice'', ''.scope'', ''.device'', 
      ''.swap'']"

definition service_unit :: "string \<Rightarrow> string checked" where
  "service_unit name =
     (let name = strip name
      in if name = [] then Inl Value_Error
         else if CHR ''/'' \<in> set name \<or> CHR 0x5C \<in> set name \<or> is_substring ''..'' name then Inl Value_Error
         else Inr (if list_ex (\<lambda>suffix. ends_with suffix name) UNIT_SUFFIXES then name
                   else name @ ''.service''))"

definition reject_newlines :: "string \<Rightarrow> string checked" where
  "reject_newlines v = (if has_newline v then Inl Value_Error else Inr v)"

section \<open>Builders\<close>

definition SVC_ALIAS_RESOLVE :: string where
  "SVC_ALIAS_RESOLVE =
     ''if ! systemctl list-unit-files --no-legend \"$u\" 2>/dev/null | grep -q .; '' @
     ''then case \"$u\" in ssh.service) systemctl list-unit-files --no-legend sshd.service '' @
     ''2>/dev/null | grep -q . && u=sshd.service;; sshd.service) systemctl list-unit-files '' @
     ''--no-legend ssh.service 2>/dev/null | grep -q . && u=ssh.service;; cron.service) '' @
     ''systemctl list-unit-files --no-legend crond.service 2>/dev/null | grep -q '' @
     ''. && u=crond.service;; crond.service) systemctl list-unit-files --no-legend '' @
     ''cron.service 2>/dev/null | grep -q . && u=cron.service;; chrony.service) '' @
     ''systemctl list-unit-files --no-legend chronyd.service 2>/dev/null | grep '' @
     ''-q . && u=chronyd.service;; chronyd.service) systemctl list-unit-files --no-legend '' @
     ''chrony.service 2>/dev/null | grep -q . && u=chrony.service;; esac; fi; ''"

definition service_action_cmd :: "string \<Rightarrow> string \<Rightarrow> string \<Rightarrow> string checked" where
  "service_action_cmd verb name past =
     and_then (service_unit name) (\<lambda>name_ok.
     let q = quote name_ok in
     Inr (''u='' @ q @ ''; '' @ SVC_ALIAS_RESOLVE @ ''systemctl '' @ verb @
          '' \"$u\"; rc=$?; if [ \"$rc\" -eq 0 ]; then echo \"'' @ past @
          '' $u.\"; else echo \"Failed to '' @ verb @
          '' $u (exit $rc).\" >&2; fi; echo \"Now: active=$(systemctl is-active \"$u\" 2>/dev/null), '' @
          ''enabled=$(systemctl is-enabled \"$u\" 2>/dev/null)\"; exit \"$rc\"''))"

definition cmd_list_processes :: "string \<Rightarrow> int \<Rightarrow> string" where
  "cmd_list_processes sort_by top_n =
     (let top_n = max 1 top_n in
      let mem = (lower (strip sort_by)) = ''mem'' in
      let key = if mem then ''%mem'' else ''%cpu'' in
      let title = ''Top '' @ show_int top_n @ '' processes by '' @
                  (if mem then ''memory'' else ''CPU'') @ '' usage'' in
      ''echo '== '' @ title @
           '' =='; echo; ps -eo pid,ppid,user,%cpu,%mem,stat,etime,comm --sort=-'' @ key @
           '' | head -n '' @ show_int (top_n + 1))"

definition cmd_investigate_high_load :: "string" where
  "cmd_investigate_high_load =
     ''cores=$(nproc 2>/dev/null || echo 1); load1=$(uptime | awk -F'load average' '' @ SQ @
          ''{print $2}' | tr -d ':' | awk -F',' '{print $1}' | tr -d ' '); load_ratio=$(awk '' @
          ''-v l=\"$load1\" -v c=\"$cores\" 'BEGIN{ if (c==\"\"||c==0) c=1; if (l==\"\") l=0; '' @
          ''printf \"%.2f\", l/c }'); load_status=OK; if awk -v r=\"$load_ratio\" 'BEGIN{exit '' @
          ''!(r>=2)}'; then load_status=CRITICAL; elif awk -v r=\"$load_ratio\" 'BEGIN{exit '' @
          ''!(r>=1)}'; then load_status=WARNING; fi; echo \"Load average: $load_status '' @
          '' (load $load1 across $cores core(s), ratio $load_ratio)\" && echo && echo '' @ SQ @
          ''== Load / Uptime ==' && uptime && echo && echo '== CPU core count ==' && '' @
          ''(nproc 2>/dev/null || echo 'unknown') && echo && echo '== Top 15 by CPU '' @
          ''==' && ps -eo pid,ppid,user,%cpu,%mem,stat,etime,comm --sort=-%cpu | head '' @
          ''-n 16 && echo && echo '== Top 15 by Memory ==' && ps -eo pid,ppid,user,%cpu,%mem,stat,etime,comm '' @
          ''--sort=-%mem | head -n 16 && echo && echo '== I/O wait (vmstat, one 1s sample) '' @
          ''==' && (vmstat 1 2 2>/dev/null | tail -n 1 || echo 'vmstat not available '' @
          ''on this host')''"

definition cmd_zombie_processes :: "string" where
  "cmd_zombie_processes =
     ''zombies=$(ps -eo pid,ppid,user,stat,comm 2>/dev/null | awk 'NR==1 || $4 '' @
          ''~ /Z/')\<newline>'' @ ''count=$(printf '%s'' @ BS @
          ''n' \"$zombies\" | tail -n +2 | grep -c .)\<newline>'' @
          ''if [ -z \"$count\" ] || [ \"$count\" -eq 0 ] 2>/dev/null; then\<newline>'' @
          ''    echo 'No zombie processes found.'\<newline>'' @ ''else\<newline>'' @
          ''    echo \"$zombies\"\<newline>'' @ ''    echo\<newline>'' @
          ''    echo \"Found $count zombie process(es). A zombie's resources are released '' @
          ''once its\"\<newline>'' @
          ''    echo \"parent reaps it (calls wait()) - if these persist, the parent '' @
          ''PID (PPID) above\"\<newline>'' @
          ''    echo \"is the one to investigate or restart.\"\<newline>'' @ ''fi''"

definition cmd_kill_process :: "string \<Rightarrow> string \<Rightarrow> string checked" where
  "cmd_kill_process pid signal =
     and_then (validate_pid pid) (\<lambda>pid.
     let sig = upper (strip (if_empty signal ''TERM'')) in
     if sig \<notin> set ALLOWED_SIGNALS then
       Inl Value_Error
     else Inr (''if ! kill -0 '' @ pid @ '' 2>/dev/null; then echo 'No process with PID '' @ pid @
          '' on this host.'; else echo 'Before:'; ps -o pid,ppid,user,%cpu,%mem,comm '' @ ''-p '' @
          pid @ '' 2>/dev/null | tail -n +2; kill -'' @ sig @ '' '' @ pid @
          '' && echo 'Sent SIG'' @ sig @ '' to PID '' @ pid @ ''.' || echo 'kill -'' @ sig @
          '' '' @ pid @ '' failed.'; sleep 1; if kill -0 '' @ pid @
          '' 2>/dev/null; then echo 'PID '' @ pid @ '' is still running after SIG'' @ sig @
          ''.'; else echo 'PID '' @ pid @ '' is no longer running.'; fi; fi''))"

definition cmd_renice_process :: "string \<Rightarrow> string \<Rightarrow> string checked" where
  "cmd_renice_process pid niceness =
     and_then (validate_pid pid) (\<lambda>pid.
     and_then (int_of niceness) (\<lambda>niceness.
     if (niceness < (- 20)) \<or> (niceness > 19) then
       Inl Value_Error
     else Inr (''if ! kill -0 '' @ pid @ '' 2>/dev/null; then echo 'No process with PID '' @ pid @
          '' on this host.'; else echo 'Current priority:'; ps -o pid,ni,comm -p '' @ pid @
          '' 2>/dev/null | tail -n +2; renice '' @ show_int niceness @ '' -p '' @ pid @
          '' >/dev/null 2>&1 && echo 'Set niceness of PID '' @ pid @ '' to '' @ show_int niceness @
          ''.' || echo 'renice failed (negative niceness usually needs root/sudo on '' @
          ''the agent or SSH user).'; echo 'New priority:'; ps -o pid,ni,comm -p '' @ pid @
          '' 2>/dev/null | tail -n +2; fi'')))"

definition cmd_restart_process :: "string \<Rightarrow> string checked" where
  "cmd_restart_process pid =
     and_then (validate_pid pid) (\<lambda>pid.
     Inr (''if ! kill -0 '' @ pid @ '' 2>/dev/null; then\<newline>'' @
          ''    echo 'No process with PID '' @ pid @ '' on this host.'\<newline>'' @
          ''    exit 0\<newline>'' @ ''fi\<newline>'' @ ''if [ ! -r /proc/'' @ pid @
          ''/cmdline ]; then\<newline>'' @ ''    echo 'Cannot read /proc/'' @ pid @
          ''/cmdline - restarting a process needs a Linux host with /proc.'\<newline>'' @
          ''    exit 0\<newline>'' @ ''fi\<newline>'' @ ''cmdline=$(tr '' @ SQ @ BS @
          ''0' ' ' < /proc/'' @ pid @ ''/cmdline | sed 's/[[:space:]]*$//')\<newline>'' @
          ''if [ -z \"$cmdline\" ]; then\<newline>'' @
          ''    echo 'Could not read the command line for PID '' @ pid @
          '' (kernel thread, or it already exited?). Not restarting.'\<newline>'' @
          ''    exit 0\<newline>'' @ ''fi\<newline>'' @ ''cwd=$(readlink /proc/'' @ pid @
          ''/cwd 2>/dev/null)\<newline>'' @ ''[ -z \"$cwd\" ] && cwd=\"$HOME\"\<newline>'' @
          ''echo \"Captured command: $cmdline\"\<newline>'' @
          ''echo \"Captured working dir: $cwd\"\<newline>'' @ ''kill -TERM '' @ pid @
          '' 2>/dev/null\<newline>'' @ ''i=0\<newline>'' @ ''while [ \"$i\" -lt 5 ] && kill -0 '' @
          pid @ '' 2>/dev/null; do\<newline>'' @ ''    sleep 1\<newline>'' @
          ''    i=$((i + 1))\<newline>'' @ ''done\<newline>'' @ ''if kill -0 '' @ pid @
          '' 2>/dev/null; then\<newline>'' @ ''    echo 'PID '' @ pid @
          '' did not exit after SIGTERM - sending SIGKILL...'\<newline>'' @ ''    kill -KILL '' @
          pid @ '' 2>/dev/null\<newline>'' @ ''    sleep 1\<newline>'' @ ''fi\<newline>'' @
          ''if kill -0 '' @ pid @ '' 2>/dev/null; then\<newline>'' @
          ''    echo 'Could not stop PID '' @ pid @
          '' (still running after SIGTERM+SIGKILL, e.g. uninterruptible D-state / I/O '' @
          ''wait). Not relaunching to avoid a duplicate instance.' >&2\<newline>'' @
          ''    exit 1\<newline>'' @ ''fi\<newline>'' @
          ''echo 'Old process stopped. Relaunching...'\<newline>'' @
          ''(cd \"$cwd\" 2>/dev/null || cd \"$HOME\"; nohup sh -c \"$cmdline\" >/dev/null '' @
          ''2>&1 &)\<newline>'' @ ''sleep 1\<newline>'' @
          ''firstword=$(printf '%s' \"$cmdline\" | awk '{print $1}')\<newline>'' @
          ''newpid=$(pgrep -f \"$firstword\" 2>/dev/null | tail -n 1)\<newline>'' @
          ''if [ -n \"$newpid\" ]; then\<newline>'' @
          ''    echo \"Relaunched. New PID (best guess): $newpid\"\<newline>'' @
          ''else\<newline>'' @
          ''    echo \"Relaunch command issued; could not confirm a new PID automatically. '' @
          ''Check the process list.\"\<newline>'' @ ''fi''))"

definition cmd_list_usernames :: "string" where
  "cmd_list_usernames =
     ''getent passwd 2>/dev/null | cut -d: -f1 || awk -F: '{print $1}' /etc/passwd '' @
          ''2>/dev/null || echo 'could not read user list'' @ SQ"

definition cmd_list_services :: "string" where
  "cmd_list_services =
     ''systemctl list-unit-files --type=service --no-legend 2>/dev/null | awk '{print '' @
          ''$1}' | sed 's/'' @ BS @
          ''.service$//' | sort || echo 'systemctl not available on this '' @ ''host'' @ SQ"

definition cmd_list_running_services :: "string" where
  "cmd_list_running_services =
     ''systemctl list-units --type=service --state=running --no-pager --no-legend '' @
          ''2>/dev/null || echo 'systemctl not available on this host'' @ SQ"

definition cmd_service_status :: "string \<Rightarrow> string checked" where
  "cmd_service_status name =
     and_then (service_unit name) (\<lambda>name_ok.
     Inr (''systemctl status '' @ quote name_ok @ '' --no-pager -l 2>&1; true''))"

definition cmd_service_start :: "string \<Rightarrow> string checked" where
  "cmd_service_start name =
     service_action_cmd ''start'' name ''Started''"

definition cmd_service_stop :: "string \<Rightarrow> string checked" where
  "cmd_service_stop name =
     service_action_cmd ''stop'' name ''Stopped''"

definition cmd_service_restart :: "string \<Rightarrow> string checked" where
  "cmd_service_restart name =
     service_action_cmd ''restart'' name ''Restarted''"

definition cmd_service_reload :: "string \<Rightarrow> string checked" where
  "cmd_service_reload name =
     service_action_cmd ''reload'' name ''Reloaded''"

definition cmd_reset_failed_unit :: "string \<Rightarrow> string checked" where
  "cmd_reset_failed_unit name =
     and_then (service_unit name) (\<lambda>name_ok.
     let q = quote name_ok in
     Inr (''u='' @ q @
          ''; if ! command -v systemctl >/dev/null 2>&1; then echo 'systemctl not available '' @
          ''on this host' >&2; exit 1; fi; systemctl reset-failed \"$u\"; rc=$?; if [ '' @
          ''\"$rc\" -eq 0 ]; then echo \"Cleared failed state of $u.\"; else echo \"reset-failed '' @
          ''$u exited $rc\" >&2; fi; exit \"$rc\"''))"

definition cmd_service_enable :: "string \<Rightarrow> string checked" where
  "cmd_service_enable name =
     service_action_cmd ''enable'' name ''Enabled''"

definition cmd_service_disable :: "string \<Rightarrow> string checked" where
  "cmd_service_disable name =
     service_action_cmd ''disable'' name ''Disabled''"

definition cmd_service_logs :: "string \<Rightarrow> int \<Rightarrow> string checked" where
  "cmd_service_logs name lines' =
     and_then (service_unit name) (\<lambda>name_ok.
     let unit = quote name_ok in
     let lines' = max 1 lines' in
     Inr (''journalctl -u '' @ unit @ '' -n '' @ show_int lines' @
          '' --no-pager 2>&1 || echo 'journalctl not available on this host'' @ SQ))"

definition cmd_troubleshoot_service :: "string \<Rightarrow> string checked" where
  "cmd_troubleshoot_service name =
     and_then (service_unit name) (\<lambda>name_ok.
     let unit = quote name_ok in
     Inr (''printf '== systemctl status %s =='' @ BS @ ''n' '' @ unit @ '' && systemctl status '' @
          unit @ '' --no-pager -l 2>&1; echo && echo '== Currently in the --failed list? ==' '' @
          ''&& (systemctl --failed --no-legend 2>/dev/null | grep -F '' @ unit @
          '' || echo 'Not currently in the failed list.'); printf '' @ SQ @ BS @
          ''n== Last 100 log '' @ ''lines (journalctl -u %s) =='' @ BS @ ''n' '' @ unit @
          '' && journalctl -u '' @ unit @ '' -n 100 --no-pager 2>&1''))"

definition cmd_service_dependencies :: "string \<Rightarrow> string checked" where
  "cmd_service_dependencies name =
     and_then (service_unit name) (\<lambda>name_ok.
     let unit = quote name_ok in
     Inr (''echo '== Depends on (After/Requires/Wants) ==' && systemctl list-dependencies '' @
          unit @
          '' --no-pager 2>&1; echo && echo '== Depended on by (reverse) ==' && systemctl '' @
          ''list-dependencies '' @ unit @ '' --reverse --no-pager 2>&1''))"

definition cmd_set_service_dependencies :: "string \<Rightarrow> string \<Rightarrow> string \<Rightarrow> string \<Rightarrow> string checked" where
  "cmd_set_service_dependencies name after requires wants =
     and_then (service_unit name) (\<lambda>unit.
     and_then (reject_newlines after) (\<lambda>_.
     and_then (reject_newlines requires) (\<lambda>_.
     and_then (reject_newlines wants) (\<lambda>_.
     let body_lines = [''[Unit]''] in
     let body_lines = (if (strip after) \<noteq> [] then body_lines @ [''After='' @ strip after]
           else body_lines) in
     let body_lines = (if (strip requires) \<noteq> [] then body_lines @ [''Requires='' @ strip requires]
           else body_lines) in
     let body_lines = (if (strip wants) \<noteq> [] then body_lines @ [''Wants='' @ strip wants]
           else body_lines) in
     if (int (length body_lines)) = 1 then
       Inl Value_Error
     else 
     let override_dir = ''/etc/systemd/system/'' @ unit @ ''.d'' in
     let override_path = override_dir @ ''/override.conf'' in
     let body = join ''\<newline>'' body_lines in
     Inr (''mkdir -p '' @ quote override_dir @ '' && cat > '' @ quote override_path @
          '' <<'SYSIBLE_EOF'\<newline>'' @ body @ ''\<newline>'' @ ''SYSIBLE_EOF\<newline>'' @
          ''systemctl daemon-reload'')))))"

definition cmd_create_systemd_service :: "string \<Rightarrow> string \<Rightarrow> string \<Rightarrow> string \<Rightarrow> string \<Rightarrow> string \<Rightarrow> string \<Rightarrow> bool \<Rightarrow> string checked" where
  "cmd_create_systemd_service name description exec_start working_directory run_as_user restart_policy after enable_now =
     and_then (service_unit name) (\<lambda>unit.
     if (strip exec_start) = [] then
       Inl Value_Error
     else 
     and_then (reject_newlines description) (\<lambda>_.
     and_then (reject_newlines exec_start) (\<lambda>_.
     and_then (reject_newlines working_directory) (\<lambda>_.
     and_then (reject_newlines run_as_user) (\<lambda>_.
     and_then (reject_newlines restart_policy) (\<lambda>_.
     and_then (reject_newlines after) (\<lambda>_.
     let body_lines = [''[Unit]'', ''Description='' @ if_empty (strip description) name] in
     let body_lines = (if (strip after) \<noteq> [] then body_lines @ [''After='' @ strip after]
           else body_lines) in
     let body_lines = body_lines @ [[], ''[Service]'', ''ExecStart='' @ strip exec_start, ''Restart='' @ if_empty (strip restart_policy) ''on-failure'', ''User='' @ if_empty (strip run_as_user) ''root''] in
     let body_lines = (if (strip working_directory) \<noteq> [] then body_lines @ [''WorkingDirectory='' @ strip working_directory]
           else body_lines) in
     let body_lines = body_lines @ [[], ''[Install]'', ''WantedBy=multi-user.target''] in
     let body = join ''\<newline>'' body_lines in
     let unit_path = ''/etc/systemd/system/'' @ unit in
     let cmd = ''cat > '' @ quote unit_path @ '' <<'SYSIBLE_EOF'\<newline>'' @ body @
               ''\<newline>'' @ ''SYSIBLE_EOF\<newline>'' @ ''systemctl daemon-reload'' in
     let cmd = (if enable_now then cmd @ '' && systemctl enable --now '' @ quote unit
           else cmd) in
     Inr (cmd))))))))"

section \<open>What the shell reads\<close>

lemma pid_safe: "validate_pid p = Inr s \<Longrightarrow> s \<noteq> [] \<and> list_all safe_char s"
  using safe_show_int by (auto simp: validate_pid_def split: option.splits if_splits)

lemma free_pid [free_rules]:
  "injection_free (\<lambda>x. f x (tame (projr (validate_pid (p x))))) \<Longrightarrow>
     injection_free (\<lambda>x. and_then (validate_pid (p x)) (f x))"
  by (rule free_and_then_tame) (auto dest: pid_safe)

lemmas process_builders = cmd_list_processes_def cmd_investigate_high_load_def cmd_zombie_processes_def
  cmd_renice_process_def cmd_restart_process_def cmd_list_usernames_def cmd_list_services_def
  cmd_list_running_services_def cmd_service_status_def cmd_service_start_def cmd_service_stop_def
  cmd_service_restart_def cmd_service_reload_def cmd_reset_failed_unit_def cmd_service_enable_def
  cmd_service_disable_def cmd_service_logs_def cmd_troubleshoot_service_def
  cmd_service_dependencies_def

lemma plain_processes_free:
  "injection_free (\<lambda>(sort_by, top_n). Inr (cmd_list_processes sort_by top_n)) \<and>
   injection_free (\<lambda>u. Inr cmd_investigate_high_load) \<and>
   injection_free (\<lambda>u. Inr cmd_zombie_processes) \<and>
   injection_free (\<lambda>(pid, niceness). cmd_renice_process pid niceness) \<and>
   injection_free (\<lambda>pid. cmd_restart_process pid) \<and>
   injection_free (\<lambda>u. Inr cmd_list_usernames) \<and>
   injection_free (\<lambda>u. Inr cmd_list_services) \<and>
   injection_free (\<lambda>u. Inr cmd_list_running_services) \<and>
   injection_free (\<lambda>name. cmd_service_status name) \<and>
   injection_free (\<lambda>name. cmd_service_start name) \<and>
   injection_free (\<lambda>name. cmd_service_stop name) \<and>
   injection_free (\<lambda>name. cmd_service_restart name) \<and>
   injection_free (\<lambda>name. cmd_service_reload name) \<and>
   injection_free (\<lambda>name. cmd_reset_failed_unit name) \<and>
   injection_free (\<lambda>name. cmd_service_enable name) \<and>
   injection_free (\<lambda>name. cmd_service_disable name) \<and>
   injection_free (\<lambda>(name, lines'). cmd_service_logs name lines') \<and>
   injection_free (\<lambda>name. cmd_troubleshoot_service name) \<and>
   injection_free (\<lambda>name. cmd_service_dependencies name)"
  unfolding process_builders service_action_cmd_def SVC_ALIAS_RESOLVE_def case_prod_unfold return_push let_flat
  by (rule conjI free_rules | rule free_steps | (simp add: read_simps; fail)[1])+

lemma signals_safe: "s \<in> set ALLOWED_SIGNALS \<Longrightarrow> s \<noteq> [] \<and> list_all safe_char s"
  by (auto simp: ALLOWED_SIGNALS_def safe_char_def is_alnum_def is_digit_def is_upper_def)

lemma kill_process_free: "injection_free (\<lambda>(pid, signal). cmd_kill_process pid signal)"
  unfolding cmd_kill_process_def case_prod_unfold
  apply (rule free_pid, rule free_let_tame)
   apply (rule signals_safe, simp)
  apply (rule free_steps | (simp add: read_simps; fail)[1])+
  done

lemma set_dependencies_free:
  "injection_free (\<lambda>(n, a, r, w). cmd_set_service_dependencies n a r w)"
  apply (rule free_norm [where N = "\<lambda>(n, a, r, w). (n, one_line a, one_line r, one_line w)"])
   apply (auto simp: cmd_set_service_dependencies_def reject_newlines_def and_then_Inr one_line_same
      split: if_splits prod.splits)[1]
  unfolding cmd_set_service_dependencies_def case_prod_unfold fst_conv snd_conv
  apply (rule free_split_steps reads_one_line_of | (simp add: read_simps; fail)[1] | (simp only: joined_simps)[1])+
  done

lemma create_service_free:
  "injection_free (\<lambda>(n, d, e, wd, u, r, a, b). if has_newline n then Inl Value_Error
     else cmd_create_systemd_service n d e wd u r a b)"
  apply (rule free_norm [where N = "\<lambda>(n, d, e, wd, u, r, a, b).
      (one_line n, one_line d, one_line e, one_line wd, one_line u, one_line r, one_line a, b)"])
   apply (auto simp: cmd_create_systemd_service_def reject_newlines_def and_then_Inr one_line_same
      split: if_splits prod.splits)[1]
  unfolding cmd_create_systemd_service_def case_prod_unfold fst_conv snd_conv
  apply (rule free_split_steps reads_one_line_of | (simp add: read_simps; fail)[1] | (simp only: joined_simps)[1])+
  done

section \<open>The description that defaults to the name\<close>

lemma no_dots: "CHR ''.'' \<notin> set s \<Longrightarrow> \<not> is_substring ''..'' s"
proof (induction s)
  case (Cons c s)
  have "CHR ''.'' \<in> set (take 2 (c # s))" if "take 2 (c # s) = ''..''" using that by simp
  then show ?case using Cons by (auto dest: in_set_takeD)
qed simp

lemma service_unit_accepts:
  assumes "CHR ''/'' \<notin> set n" "CHR 0x5C \<notin> set n" "CHR ''.'' \<notin> set n" "strip n \<noteq> []"
  shows "\<exists>unit. service_unit n = Inr unit"
  using assms no_dots [of "strip n"] set_strip [of n]
  by (auto simp: service_unit_def Let_def subset_iff)

lemma strip_head: "\<not> is_space c \<Longrightarrow> strip (c # s) \<noteq> []"
  by (simp add: strip_def dropWhile_append)

text \<open>The name of a new service is not checked for line breaks, and an empty description defaults
  to it inside the here-document of the unit file.  So a line of any text without slashes,
  backslashes and dots, smuggled in with the name, ends up where the shell reads commands.\<close>

theorem service_name_runs_commands:
  assumes "CHR ''/'' \<notin> set c" "CHR 0x5C \<notin> set c" "CHR ''.'' \<notin> set c"
    and "strip e \<noteq> []" "\<not> has_newline e"
  shows "\<exists>before after.
    cmd_create_systemd_service (''x\<newline>SYSIBLE_EOF\<newline>'' @ c) [] e [] [] [] [] b = Inr (before @ c @ after) \<and>
    run_reader (Gap, [], None) before = (Gap, [], None)"
proof -
  let ?n = "''x\<newline>SYSIBLE_EOF\<newline>'' @ c"
  have "strip ?n \<noteq> []" using strip_head [of "CHR ''x''"] by (simp add: is_space_def)
  moreover have "CHR ''/'' \<notin> set ?n" "CHR 0x5C \<notin> set ?n" "CHR ''.'' \<notin> set ?n" using assms by simp_all
  ultimately obtain unit where unit: "service_unit ?n = Inr unit" using service_unit_accepts by blast
  let ?before = "''cat > '' @ quote (''/etc/systemd/system/'' @ unit) @ '' <<'SYSIBLE_EOF'\<newline>'' @
      ''[Unit]\<newline>Description=x\<newline>SYSIBLE_EOF\<newline>''"
  have built: "\<exists>after. cmd_create_systemd_service ?n [] e [] [] [] [] b = Inr (?before @ c @ after)"
    using assms(4,5)
    unfolding cmd_create_systemd_service_def unit reject_newlines_def
    by (simp add: if_empty_def join_Cons Let_def del: append_assoc) (simp add: join_def)
  have "run_reader (Gap, [], None) ?before = (Gap, [], None)"
    by (simp add: read_simps)
  then show ?thesis using built by blast
qed

lemma service_name_runs_commands_witness:
  "\<exists>before after.
    cmd_create_systemd_service (''x\<newline>SYSIBLE_EOF\<newline>'' @ ''reboot'') [] ''sleep 1'' [] [] [] [] True =
      Inr (before @ ''reboot'' @ after) \<and>
    run_reader (Gap, [], None) before = (Gap, [], None)"
  by (rule service_name_runs_commands) (simp_all add: strip_def is_space_def)

end
