(* ===== verification/Cmd_Repo.thy ===== *)
theory Cmd_Repo
  imports Cmd_Automation
begin

text \<open>
  The builders of \<^verbatim>\<open>client/_api_repo.py\<close>: package repositories of the distributions.
\<close>

text \<open>The alias is optional when a repository is added.\<close>

definition alias_or_none :: "string \<Rightarrow> string checked" where
  "alias_or_none alias = (if alias \<noteq> [] then validate_repo_alias alias else Inr [])"

section \<open>Builders\<close>

definition PACMAN_REPO_MANUAL :: string where
  "PACMAN_REPO_MANUAL =
     ''echo 'On Arch, edit /etc/pacman.conf to add or toggle a repository (this '' @
     ''action does not manage pacman.conf).' >&2; exit 1''"

definition cmd_list_repositories :: "string" where
  "cmd_list_repositories =
     pkgmgr_dispatch
         (''\"$PKGMGR\" repolist --all 2>/dev/null || \"$PKGMGR\" repolist all'')
         (''zypper repos --details'')
         (''for f in /etc/apt/sources.list /etc/apt/sources.list.d/*; do [ -f \"$f\" ] '' @
           ''|| continue; echo \"--- $f ---\"; cat \"$f\"; echo; done'')
         (Some (''pacman-conf --repo-list 2>/dev/null || grep -E '^'' @ BS @ ''[' /etc/pacman.conf''))"

definition cmd_add_repository :: "string \<Rightarrow> string \<Rightarrow> string checked" where
  "cmd_add_repository url alias =
     (let url = strip url in
      if url = [] then
        Inl Value_Error
      else if (CHR 0x0A \<in> set url) \<or> (CHR 0x0D \<in> set url) then
        Inl Value_Error
      else 
      let q_url = quote url in
      let alias = strip alias in
      and_then (alias_or_none alias) (\<lambda>alias_safe.
      let id_arg = if alias \<noteq> [] then '' --id='' @ quote alias_safe else [] in
      let rpm_cmd = ''if [ \"$PKGMGR\" = \"dnf\" ]; then   if dnf config-manager --help 2>&1 | grep '' @
                    ''-q -- \"--add-repo\"; then     dnf config-manager --add-repo '' @ q_url @
                    '' 2>&1;   else     _u='' @ q_url @
                    ''; case \"$_u\" in       *.repo) dnf config-manager addrepo --from-repofile='' @
                    q_url @ '' 2>&1;;       *) dnf config-manager addrepo'' @ id_arg @
                    '' --set=baseurl='' @ q_url @
                    '' --set=enabled=1 2>&1;;     esac;   fi || { rc=$?; echo \"Failed - install '' @
                    ''the config-manager plugin (dnf4: dnf-plugins-core, dnf5: dnf5-plugins).\" '' @
                    ''>&2; exit \"$rc\"; }; else yum-config-manager --add-repo '' @ q_url @
                    '' 2>&1 || { rc=$?; echo \"Failed - is yum-utils installed? (Install Packages: '' @
                    ''yum-utils)\" >&2; exit \"$rc\"; }; fi'' in
      let q_alias = quote alias_safe in
      let apt_path = quote (''/etc/apt/sources.list.d/'' @ alias_safe @ ''.list'') in
      let zypper_cmd = if alias \<noteq> [] then ''zypper --non-interactive addrepo '' @ q_url @ '' '' @ q_alias else ''echo \"zypper requires the Alias / Repository ID field - fill it in and retry.\"'' in
      let apt_cmd = if alias \<noteq> [] then ''echo '' @ q_url @ '' > '' @ apt_path @ '' && apt-get update'' else ''echo \"Debian/Ubuntu requires the Alias / Repository ID field (used as the '' @ ''filename) - fill it in and retry.\"'' in
      Inr (pkgmgr_dispatch
          rpm_cmd
          zypper_cmd
          apt_cmd
          (Some PACMAN_REPO_MANUAL))))"

definition cmd_enable_repository :: "string \<Rightarrow> string checked" where
  "cmd_enable_repository alias =
     and_then (validate_repo_alias alias) (\<lambda>alias_safe.
     let q_alias = quote alias_safe in
     let base = ''/etc/apt/sources.list.d/'' @ alias_safe in
     let list_path = quote (base @ ''.list'') in
     let disabled_path = quote (base @ ''.list.disabled'') in
     let rpm_cmd = ''if [ \"$PKGMGR\" = \"dnf\" ]; then   if dnf config-manager --help 2>&1 | grep '' @
                   ''-q -- \"--set-enabled\"; then     dnf config-manager --set-enabled '' @
                   q_alias @ '';   else dnf config-manager setopt '' @ q_alias @
                   ''.enabled=1; fi; else yum-config-manager --enable '' @ q_alias @ ''; fi'' in
     Inr (pkgmgr_dispatch
         rpm_cmd
         (''zypper modifyrepo --enable '' @ q_alias)
         (''if [ -f '' @ disabled_path @ '' ]; then mv '' @ disabled_path @ '' '' @ list_path @
           '' && apt-get update; elif [ -f '' @ list_path @
           '' ]; then echo \"Already enabled.\"; else echo \"No such repository file: '' @ base @
           ''.list (or .list.disabled)\"; fi'')
         (Some PACMAN_REPO_MANUAL)))"

definition cmd_disable_repository :: "string \<Rightarrow> string checked" where
  "cmd_disable_repository alias =
     and_then (validate_repo_alias alias) (\<lambda>alias_safe.
     let q_alias = quote alias_safe in
     let base = ''/etc/apt/sources.list.d/'' @ alias_safe in
     let list_path = quote (base @ ''.list'') in
     let disabled_path = quote (base @ ''.list.disabled'') in
     let rpm_cmd = ''if [ \"$PKGMGR\" = \"dnf\" ]; then   if dnf config-manager --help 2>&1 | grep '' @
                   ''-q -- \"--set-disabled\"; then     dnf config-manager --set-disabled '' @
                   q_alias @ '';   else dnf config-manager setopt '' @ q_alias @
                   ''.enabled=0; fi; else yum-config-manager --disable '' @ q_alias @ ''; fi'' in
     Inr (pkgmgr_dispatch
         rpm_cmd
         (''zypper modifyrepo --disable '' @ q_alias)
         (''if [ -f '' @ list_path @ '' ]; then mv '' @ list_path @ '' '' @ disabled_path @
           '' && apt-get update; elif [ -f '' @ disabled_path @
           '' ]; then echo \"Already disabled.\"; else echo \"No such repository file: '' @ base @
           ''.list (or .list.disabled)\"; fi'')
         (Some PACMAN_REPO_MANUAL)))"

definition cmd_remove_repository :: "string \<Rightarrow> string checked" where
  "cmd_remove_repository alias =
     and_then (validate_repo_alias alias) (\<lambda>alias_safe.
     let q_alias = quote alias_safe in
     let base = ''/etc/apt/sources.list.d/'' @ alias_safe in
     let list_path = quote (base @ ''.list'') in
     let disabled_path = quote (base @ ''.list.disabled'') in
     let rpm_cmd = ''f=$(grep -lF \"['' @ alias_safe @
                   '']\" /etc/yum.repos.d/*.repo 2>/dev/null | head -n1); if [ -n \"$f\" ]; then '' @
                   ''rm -f \"$f\"; echo \"Removed $f\"; else echo \"No .repo file found defining ['' @
                   alias_safe @ ''].\"; fi'' in
     Inr (pkgmgr_dispatch
         rpm_cmd
         (''zypper --non-interactive removerepo '' @ q_alias)
         (''rm -f '' @ list_path @ '' '' @ disabled_path @
           '' && apt-get update && echo \"Removed.\"'')
         (Some PACMAN_REPO_MANUAL)))"

definition cmd_create_repository :: "string \<Rightarrow> string \<Rightarrow> string \<Rightarrow> bool \<Rightarrow> string \<Rightarrow> string \<Rightarrow> string \<Rightarrow> string checked" where
  "cmd_create_repository alias baseurl name gpgcheck gpgkey distribution components =
     and_then (validate_repo_alias alias) (\<lambda>alias_safe.
     let baseurl = strip baseurl in
     if baseurl = [] then
       Inl Value_Error
     else 
     let name = if_empty (strip name) alias_safe in
     let gpgkey = strip gpgkey in
     let distribution = if_empty (strip distribution) ''stable'' in
     let components = if_empty (strip components) ''main'' in
     if (CHR 0x0A \<in> set name) \<or> (CHR 0x0D \<in> set name) then
       Inl Value_Error
     else if (CHR 0x0A \<in> set baseurl) \<or> (CHR 0x0D \<in> set baseurl) then
       Inl Value_Error
     else if (CHR 0x0A \<in> set gpgkey) \<or> (CHR 0x0D \<in> set gpgkey) then
       Inl Value_Error
     else if (CHR 0x0A \<in> set distribution) \<or> (CHR 0x0D \<in> set distribution) then
       Inl Value_Error
     else if (CHR 0x0A \<in> set components) \<or> (CHR 0x0D \<in> set components) then
       Inl Value_Error
     else 
     let q_alias = quote alias_safe in
     let q_name = quote name in
     let q_baseurl = quote baseurl in
     let q_gpgkey = if gpgkey \<noteq> [] then quote gpgkey else [] in
     let delim = ''SYSIBLE_REPO_EOF'' in
     let repo_lines = [''['' @ alias_safe @ '']'', ''name='' @ name, ''baseurl='' @ baseurl, ''enabled=1''] in
     let repo_lines = if gpgcheck then repo_lines @ [''gpgcheck=1''] else repo_lines @ [''gpgcheck=0''] in
     let repo_lines = if gpgcheck \<and> gpgkey \<noteq> [] then repo_lines @ [''gpgkey='' @ gpgkey] else repo_lines in
     let repo_file_body = join ''\<newline>'' repo_lines in
     let rpm_import = if gpgcheck \<and> gpgkey \<noteq> [] then ''rpm --import '' @ q_gpgkey @ '' 2>&1; '' else [] in
     let rpm_cmd = ''cat > /etc/yum.repos.d/'' @ alias_safe @ ''.repo <<'' @ SQ @ delim @ SQ @
                   ''\<newline>'' @ repo_file_body @ ''\<newline>'' @ delim @ ''\<newline>'' @
                   rpm_import @ ''\"$PKGMGR\" makecache -y 2>&1; echo \"Created repository '' @
                   alias_safe @ '' (/etc/yum.repos.d/'' @ alias_safe @ ''.repo).\"'' in
     let gpg_flag = if gpgcheck then ''--gpgcheck'' else ''--no-gpgcheck'' in
     let zypper_import = if gpgcheck \<and> gpgkey \<noteq> [] then ''rpm --import '' @ q_gpgkey @ '' 2>&1; '' else [] in
     let zypper_cmd = ''zypper --non-interactive addrepo --name '' @ q_name @ '' '' @ gpg_flag @
                      '' '' @ q_baseurl @ '' '' @ q_alias @ '' 2>&1; '' @ zypper_import @
                      ''zypper --non-interactive --gpg-auto-import-keys refresh '' @ q_alias @
                      '' 2>&1; echo \"Created repository '' @ alias_safe @ ''.\"'' in
     let keyring_path = ''/etc/apt/keyrings/'' @ alias_safe @ ''.gpg'' in
     let q_keyring_path = quote keyring_path in
     let list_path = ''/etc/apt/sources.list.d/'' @ alias_safe @ ''.list'' in
     let deb_opts = if gpgcheck \<and> gpgkey \<noteq> [] then ''signed-by='' @ keyring_path else if gpgcheck then [] else ''trusted=yes'' in
     let key_setup = if gpgcheck \<and> gpgkey \<noteq> [] then ''mkdir -p /etc/apt/keyrings && (curl -fsSL '' @ q_gpgkey @ '' || wget -qO- '' @ q_gpgkey @ '') | gpg --batch --yes --dearmor -o '' @ q_keyring_path @ '' 2>&1; '' else if gpgcheck then [] else [] in
     let deb_prefix = if deb_opts \<noteq> [] then ''deb ['' @ deb_opts @ ''] '' else ''deb '' in
     let deb_line = deb_prefix @ baseurl @ '' '' @ distribution @ '' '' @ components in
     let apt_cmd = key_setup @ ''cat > '' @ quote list_path @ '' <<'' @ SQ @ delim @ SQ @
                   ''\<newline>'' @ deb_line @ ''\<newline>'' @ delim @ ''\<newline>'' @
                   ''apt-get update 2>&1; echo \"Created repository '' @ alias_safe @ '' ('' @
                   list_path @ '').\"'' in
     Inr (pkgmgr_dispatch
         rpm_cmd
         zypper_cmd
         apt_cmd
         (Some PACMAN_REPO_MANUAL)))"

section \<open>What the shell reads\<close>

lemma alias_safe: "validate_repo_alias a = Inr s \<Longrightarrow> s \<noteq> [] \<and> list_all safe_char s"
proof -
  have "is_alnum c \<or> c \<in> set ''_.-'' \<Longrightarrow> safe_char c" for c by (auto simp: safe_char_def)
  then show "validate_repo_alias a = Inr s \<Longrightarrow> s \<noteq> [] \<and> list_all safe_char s"
    by (auto simp: validate_repo_alias_def repo_alias_def over_def list_all_iff Let_def split: if_splits)
qed

lemma free_alias [free_rules]:
  "injection_free (\<lambda>x. f x (tame (projr (validate_repo_alias (p x))))) \<Longrightarrow>
     injection_free (\<lambda>x. and_then (validate_repo_alias (p x)) (f x))"
  by (rule free_and_then_tame) (auto dest: alias_safe)

lemmas repo_builders = cmd_enable_repository_def cmd_disable_repository_def cmd_remove_repository_def

lemma plain_repo_free:
  "injection_free (\<lambda>alias. cmd_enable_repository alias) \<and>
   injection_free (\<lambda>alias. cmd_disable_repository alias) \<and>
   injection_free (\<lambda>alias. cmd_remove_repository alias)"
  unfolding repo_builders package_managers PACMAN_REPO_MANUAL_def case_prod_unfold return_push let_flat
  by (rule conjI free_rules | rule free_steps | (simp add: read_simps; fail)[1] | (simp only: joined_simps)[1])+

lemma add_repository_free: "injection_free (\<lambda>(url, alias). cmd_add_repository url alias)"
  unfolding cmd_add_repository_def case_prod_unfold package_managers PACMAN_REPO_MANUAL_def
  by (rule free_steps | (simp add: read_simps; fail)[1])+

lemma repository_lines:
  assumes "cmd_create_repository alias baseurl name gpgcheck gpgkey distribution components = Inr s"
  shows "one_line (strip baseurl) = strip baseurl" "one_line (strip name) = strip name"
    "one_line (strip gpgkey) = strip gpgkey" "one_line (strip distribution) = strip distribution"
    "one_line (strip components) = strip components"
proof -
  have passed: "(if c then Inl e else v) = Inr s \<longleftrightarrow> \<not> c \<and> v = Inr s" for c e and v :: "string checked" by simp
  obtain a where a: "validate_repo_alias alias = Inr a"
    using assms by (auto simp: cmd_create_repository_def and_then_Inr)
  have given: "CHR 0x0A \<notin> set (if_empty v w) \<Longrightarrow> CHR 0x0A \<notin> set v" for v w by (cases v) (simp_all add: if_empty_def)
  have "strip baseurl \<noteq> [] \<and> CHR 0x0A \<notin> set (if_empty (strip name) a) \<and> CHR 0x0A \<notin> set (strip baseurl)
      \<and> CHR 0x0A \<notin> set (strip gpgkey) \<and> CHR 0x0A \<notin> set (if_empty (strip distribution) ''stable'')
      \<and> CHR 0x0A \<notin> set (if_empty (strip components) ''main'')"
    using assms unfolding cmd_create_repository_def a and_then_simps Let_def passed de_Morgan_disj by (elim conjE) (intro conjI)
  then show "one_line (strip baseurl) = strip baseurl" "one_line (strip name) = strip name"
    "one_line (strip gpgkey) = strip gpgkey" "one_line (strip distribution) = strip distribution"
    "one_line (strip components) = strip components"
    by (auto intro!: one_line_same dest: given)
qed

lemma create_repository_same:
  assumes r: "cmd_create_repository alias baseurl name gpgcheck gpgkey distribution components = Inr s"
  shows "cmd_create_repository alias (one_line (strip baseurl)) (one_line (strip name)) gpgcheck
      (one_line (strip gpgkey)) (one_line (strip distribution)) (one_line (strip components)) = Inr s"
  unfolding repository_lines [OF r] cmd_create_repository_def strip_idem
  by (rule r [unfolded cmd_create_repository_def])

lemma create_repository_free:
  "injection_free (\<lambda>(alias, baseurl, name, gpgcheck, gpgkey, distribution, components).
     cmd_create_repository alias baseurl name gpgcheck gpgkey distribution components)"
proof (rule free_same [where f = "\<lambda>(alias, baseurl, name, gpgcheck, gpgkey, distribution, components).
      cmd_create_repository alias (one_line (strip baseurl)) (one_line (strip name)) gpgcheck
        (one_line (strip gpgkey)) (one_line (strip distribution)) (one_line (strip components))"])
  show "injection_free (\<lambda>(alias, baseurl, name, gpgcheck, gpgkey, distribution, components).
      cmd_create_repository alias (one_line (strip baseurl)) (one_line (strip name)) gpgcheck
        (one_line (strip gpgkey)) (one_line (strip distribution)) (one_line (strip components)))"
    unfolding cmd_create_repository_def case_prod_unfold package_managers PACMAN_REPO_MANUAL_def if_empty_def
    by (rule free_rules free_steps reads_one_line_of | (simp add: read_simps; fail)[1] | (simp only: joined_simps)[1])+
qed (auto dest: create_repository_same)

end
