(* ===== verification/Cmd_Subscriptions.thy ===== *)
theory Cmd_Subscriptions
  imports Shell_Uniform
begin

text \<open>
  The builders of \<^verbatim>\<open>client/_api_subscriptions.py\<close>: registration with the vendors of the
  commercial distributions.
\<close>

section \<open>Builders\<close>

definition RHSM_MISSING :: string where
  "RHSM_MISSING =
     ''if ! command -v subscription-manager >/dev/null 2>&1; then echo 'subscription-manager '' @
     ''is not installed - this does not look like a Red Hat-family subscription '' @
     ''host (RHEL / CentOS Stream / Fedora).' >&2; exit 1; fi; ''"

definition PRO_MISSING :: string where
  "PRO_MISSING =
     ''PRO=$(command -v pro 2>/dev/null || command -v ua 2>/dev/null); if [ -z '' @
     ''\"$PRO\" ]; then echo 'The Ubuntu Pro client (pro / ua / ubuntu-advantage-tools) '' @
     ''is not installed - this is an Ubuntu-only tool.' >&2; exit 1; fi; ''"

definition SUSE_MISSING :: string where
  "SUSE_MISSING =
     ''if ! command -v SUSEConnect >/dev/null 2>&1; then echo 'SUSEConnect is not '' @
     ''installed - this is a SUSE / SLES registration tool.' >&2; exit 1; fi; ''"

definition cmd_subscription_detect :: "string" where
  "cmd_subscription_detect =
     ''. /etc/os-release 2>/dev/null; echo \"Distro:  ${NAME:-unknown} ${VERSION_ID:-}\"; '' @
          ''echo \"ID:      ${ID:-?}    ID_LIKE: ${ID_LIKE:-}\"; echo; echo \"Subscription '' @
          ''tooling on this host:\"; for t in subscription-manager pro SUSEConnect; do '' @
          ''  if command -v \"$t\" >/dev/null 2>&1; then echo \"  $t: present\";   else '' @
          ''echo \"  $t: not installed\"; fi; done''"

definition cmd_subscription_register_all :: "string \<Rightarrow> string \<Rightarrow> string \<Rightarrow> string \<Rightarrow> bool \<Rightarrow> string \<Rightarrow> string \<Rightarrow> string \<Rightarrow> string checked" where
  "cmd_subscription_register_all org activationkey username password auto_attach pro_token suse_regcode suse_email =
     (let org = strip org in
      let ak = strip activationkey in
      let username = strip username in
      let pro_token = strip pro_token in
      let suse_regcode = strip suse_regcode in
      let suse_email = strip suse_email in
      let auto = if auto_attach then '' --auto-attach'' else [] in
      if \<not> (ak \<noteq> [] \<or> username \<noteq> [] \<or> pro_token \<noteq> [] \<or> suse_regcode \<noteq> []) then
        Inl Value_Error
      else if ak \<noteq> [] \<and> (org = []) then
        Inl Value_Error
      else if (ak = []) \<and> username \<noteq> [] \<and> (password = []) then
        Inl Value_Error
      else 
      let rhsm = (if ak \<noteq> [] then ''echo '== Red Hat (RHSM) =='; subscription-manager register --org '' @
                  quote org @ '' --activationkey '' @ quote ak @ auto @ '' 2>&1''
            else (if username \<noteq> [] then let org_arg = if org \<noteq> [] then '' --org '' @ quote org else [] in 
             ''echo '== Red Hat (RHSM) =='; subscription-manager register --username '' @
                  quote username @ '' --password '' @ quote password @ org_arg @ auto @ '' 2>&1''
            else ''echo 'Red Hat-family host detected, but no RHSM credentials were provided '' @
                  ''(org + activation key, or username + password). Skipping.' >&2; exit 1'')) in
      let pro = (if pro_token \<noteq> [] then ''echo '== Ubuntu Pro =='; PRO=$(command -v pro 2>/dev/null || command -v '' @
                  ''ua 2>/dev/null); \"$PRO\" attach '' @ quote pro_token @ '' 2>&1''
            else ''echo 'Ubuntu host detected, but no Ubuntu Pro token was provided. Skipping.' '' @
                  ''>&2; exit 1'') in
      let suse = (if suse_regcode \<noteq> [] then let email_arg = if suse_email \<noteq> [] then '' -e '' @ quote suse_email else [] in 
             ''echo '== SUSE (SCC) =='; SUSEConnect -r '' @ quote suse_regcode @ email_arg @
                  '' 2>&1''
            else ''echo 'SUSE / SLES host detected, but no SUSE registration code was provided. '' @
                  ''Skipping.' >&2; exit 1'') in
      Inr (''if command -v subscription-manager >/dev/null 2>&1; then '' @ rhsm @
           ''; elif command -v pro >/dev/null 2>&1 || command -v ua >/dev/null 2>&1; '' @
           ''then '' @ pro @ ''; elif command -v SUSEConnect >/dev/null 2>&1; then '' @ suse @
           ''; else echo 'No supported subscription tool (subscription-manager / pro '' @
           ''/ ua / SUSEConnect) found on this host.' >&2; exit 1; fi''))"

definition cmd_rhsm_status :: "string" where
  "cmd_rhsm_status =
     RHSM_MISSING @
          ''subscription-manager status 2>&1; echo; subscription-manager identity 2>&1 '' @
          ''|| true''"

definition cmd_rhsm_register :: "string \<Rightarrow> string \<Rightarrow> string \<Rightarrow> string \<Rightarrow> bool \<Rightarrow> string checked" where
  "cmd_rhsm_register org activationkey username password auto_attach =
     (let org = strip org in
      let ak = strip activationkey in
      let username = strip username in
      let auto = if auto_attach then '' --auto-attach'' else [] in
      if ak \<noteq> [] then
        if org = [] then
          Inl Value_Error
        else Inr (RHSM_MISSING @ ''subscription-manager register --org '' @ quote org @
             '' --activationkey '' @ quote ak @ auto @ '' 2>&1'')
      else if username \<noteq> [] then
        if password = [] then
          Inl Value_Error
        else 
        let org_arg = if org \<noteq> [] then '' --org '' @ quote org else [] in
        Inr (RHSM_MISSING @ ''subscription-manager register --username '' @ quote username @
             '' --password '' @ quote password @ org_arg @ auto @ '' 2>&1'')
      else Inl Value_Error)"

definition cmd_rhsm_auto_attach :: "string" where
  "cmd_rhsm_auto_attach =
     RHSM_MISSING @ ''subscription-manager attach --auto 2>&1''"

definition cmd_rhsm_refresh :: "string" where
  "cmd_rhsm_refresh =
     RHSM_MISSING @ ''subscription-manager refresh 2>&1 && echo 'Refreshed.'' @ SQ"

definition cmd_rhsm_list_consumed :: "string" where
  "cmd_rhsm_list_consumed =
     RHSM_MISSING @ ''subscription-manager list --consumed 2>&1''"

definition cmd_rhsm_list_available :: "string" where
  "cmd_rhsm_list_available =
     RHSM_MISSING @ ''subscription-manager list --available 2>&1''"

definition cmd_rhsm_repos :: "string" where
  "cmd_rhsm_repos =
     RHSM_MISSING @ ''subscription-manager repos --list 2>&1''"

definition cmd_rhsm_unregister :: "string" where
  "cmd_rhsm_unregister =
     RHSM_MISSING @
          ''subscription-manager unregister 2>&1 && subscription-manager clean 2>&1 '' @
          ''&& echo 'Unregistered and cleaned.'' @ SQ"

definition cmd_pro_status :: "string" where
  "cmd_pro_status =
     PRO_MISSING @ ''\"$PRO\" status --all 2>&1''"

definition cmd_pro_attach :: "string \<Rightarrow> string checked" where
  "cmd_pro_attach token =
     (let token = strip token in
      if token = [] then
        Inl Value_Error
      else Inr (PRO_MISSING @ ''\"$PRO\" attach '' @ quote token @ '' 2>&1''))"

definition cmd_pro_detach :: "string" where
  "cmd_pro_detach =
     PRO_MISSING @ ''\"$PRO\" detach --assume-yes 2>&1''"

definition cmd_pro_enable :: "string \<Rightarrow> string checked" where
  "cmd_pro_enable service =
     (let service = strip service in
      if service = [] then
        Inl Value_Error
      else Inr (PRO_MISSING @ ''\"$PRO\" enable '' @ quote service @ '' --assume-yes 2>&1''))"

definition cmd_pro_disable :: "string \<Rightarrow> string checked" where
  "cmd_pro_disable service =
     (let service = strip service in
      if service = [] then
        Inl Value_Error
      else Inr (PRO_MISSING @ ''\"$PRO\" disable '' @ quote service @ '' --assume-yes 2>&1''))"

definition cmd_pro_refresh :: "string" where
  "cmd_pro_refresh =
     PRO_MISSING @ ''\"$PRO\" refresh 2>&1 && echo 'Refreshed.'' @ SQ"

definition cmd_suse_status :: "string" where
  "cmd_suse_status =
     SUSE_MISSING @ ''SUSEConnect --status-text 2>&1''"

definition cmd_suse_register :: "string \<Rightarrow> string \<Rightarrow> string checked" where
  "cmd_suse_register regcode email =
     (let regcode = strip regcode in
      let email = strip email in
      if regcode = [] then
        Inl Value_Error
      else 
      let email_arg = if email \<noteq> [] then '' -e '' @ quote email else [] in
      Inr (SUSE_MISSING @ ''SUSEConnect -r '' @ quote regcode @ email_arg @ '' 2>&1''))"

definition cmd_suse_list_extensions :: "string" where
  "cmd_suse_list_extensions =
     SUSE_MISSING @ ''SUSEConnect --list-extensions 2>&1''"

definition cmd_suse_deregister :: "string" where
  "cmd_suse_deregister =
     SUSE_MISSING @ ''SUSEConnect -d 2>&1 && echo 'Deregistered.'' @ SQ"

section \<open>What the shell reads\<close>

lemmas subscriptions_builders = cmd_subscription_register_all_def cmd_rhsm_register_def cmd_pro_attach_def cmd_pro_enable_def
  cmd_pro_disable_def cmd_suse_register_def

lemma plain_subscriptions_free:
  "injection_free (\<lambda>(org, activationkey, username, password, auto_attach, pro_token, suse_regcode, suse_email). cmd_subscription_register_all org activationkey username password auto_attach pro_token suse_regcode suse_email) \<and>
   injection_free (\<lambda>(org, activationkey, username, password, auto_attach). cmd_rhsm_register org activationkey username password auto_attach) \<and>
   injection_free (\<lambda>token. cmd_pro_attach token) \<and>
   injection_free (\<lambda>service. cmd_pro_enable service) \<and>
   injection_free (\<lambda>service. cmd_pro_disable service) \<and>
   injection_free (\<lambda>(regcode, email). cmd_suse_register regcode email)"
  unfolding subscriptions_builders RHSM_MISSING_def PRO_MISSING_def SUSE_MISSING_def case_prod_unfold return_push let_flat
  by (rule conjI free_rules | rule free_steps | (simp add: read_simps; fail)[1] | (simp only: joined_simps)[1])+

end
