(* ===== verification/Cmd_Software.thy ===== *)
theory Cmd_Software
  imports Cmd_Repo Cmd_Subscriptions
begin





end
