(* ===== verification/Cmd_Timesync.thy ===== *)
theory Cmd_Timesync
  imports Shell_Uniform
begin

text \<open>
  The builders of \<^verbatim>\<open>client/_api_timesync.py\<close>: chrony, NTP and time zones.
\<close>

definition server_names :: "string \<Rightarrow> bool" where
  "server_names = over (\<lambda>c. is_alnum c \<or> c \<in> set ''_.-: '')"

definition zone_name :: "string \<Rightarrow> bool" where
  "zone_name s \<longleftrightarrow>
     over (\<lambda>c. is_alnum c \<or> c \<in> set ''_+-/'') s \<and> list_all (\<lambda>p. p \<noteq> []) (split_on (CHR ''/'') s)"

definition zone_filter :: "string \<Rightarrow> bool" where
  "zone_filter = over (\<lambda>c. is_alnum c \<or> c \<in> set ''_/-+ '')"

section \<open>Builders\<close>

definition install_chrony_fragment :: "string" where
  "install_chrony_fragment =
     ''if command -v apt-get >/dev/null 2>&1; then export DEBIAN_FRONTEND=noninteractive; '' @
          ''apt-get update; apt-get install -y chrony; elif command -v dnf >/dev/null '' @
          ''2>&1; then dnf install -y chrony; elif command -v yum >/dev/null 2>&1; then '' @
          ''yum install -y chrony; elif command -v zypper >/dev/null 2>&1; then zypper '' @
          ''--non-interactive install chrony; elif command -v pacman >/dev/null 2>&1; '' @
          ''then pacman -Sy --needed --noconfirm chrony; else echo 'No supported package '' @
          ''manager found.' >&2; exit 1; fi''"

definition chrony_service_fragment :: "string" where
  "chrony_service_fragment =
     ''systemctl enable --now \"$(systemctl list-unit-files 2>/dev/null | grep -q '' @ SQ @
          ''^chrony'' @ BS @ ''.service' && echo chrony || echo chronyd)\"''"

definition install_ntp_fragment :: "string" where
  "install_ntp_fragment =
     ''if command -v apt-get >/dev/null 2>&1; then export DEBIAN_FRONTEND=noninteractive; '' @
          ''apt-get update; apt-get install -y ntpsec || apt-get install -y ntp; elif '' @
          ''command -v dnf >/dev/null 2>&1; then dnf install -y ntp || dnf install -y '' @
          ''ntpsec; elif command -v yum >/dev/null 2>&1; then yum install -y ntp; elif '' @
          ''command -v zypper >/dev/null 2>&1; then zypper --non-interactive install '' @
          ''ntp; elif command -v pacman >/dev/null 2>&1; then pacman -Sy --needed --noconfirm '' @
          ''ntp; else echo 'No supported package manager found.' >&2; exit 1; fi''"

definition ntp_service_fragment :: "string" where
  "ntp_service_fragment =
     ''found=\"$(for s in ntpsec ntp ntpd; do systemctl list-unit-files 2>/dev/null '' @
          ''| grep -q \"^${s}'' @ BS @
          ''.service\" && { printf %s \"$s\"; break; }; done)\" && { [ '' @
          ''-n \"$found\" ] || { echo 'ntp installed but no ntp service unit was found '' @
          ''to enable.' >&2; exit 1; }; } && systemctl enable --now \"$found\"''"

definition cmd_timesync_status :: "string" where
  "cmd_timesync_status =
     ''echo '== timedatectl =='; timedatectl 2>&1 || echo '(timedatectl not available)'; '' @
          ''echo; if command -v chronyc >/dev/null 2>&1; then echo '== chronyc tracking '' @
          ''=='; chronyc tracking 2>&1; elif command -v ntpq >/dev/null 2>&1; then echo '' @ SQ @
          ''== ntpq -p =='; ntpq -p 2>&1; else echo '(neither chrony nor ntp is installed)'; '' @
          ''fi''"

definition cmd_configure_chrony :: "string" where
  "cmd_configure_chrony =
     install_chrony_fragment @ '' && '' @ chrony_service_fragment @
          '' && echo 'chrony installed, enabled, and started.'' @ SQ"

definition cmd_install_chrony :: "string" where
  "cmd_install_chrony =
     install_chrony_fragment @ '' && '' @ chrony_service_fragment @
          '' && echo 'chrony installed, enabled, and started.'' @ SQ"

definition cmd_install_ntp :: "string" where
  "cmd_install_ntp =
     install_ntp_fragment @ '' && '' @ ntp_service_fragment @
          '' && echo 'ntp installed, enabled, and started.'' @ SQ"

definition cmd_set_ntp_servers :: "string \<Rightarrow> string checked" where
  "cmd_set_ntp_servers servers =
     (let servers = strip servers in
      if (servers = []) \<or> (\<not> (server_names servers)) then
        Inl Value_Error
      else 
      let server_lines = join (BS @ ''n'') (map (\<lambda>s. ''server '' @ s @ '' iburst'') (split_words servers)) in
      Inr (''conf=/etc/chrony/chrony.conf; [ -f /etc/chrony.conf ] && conf=/etc/chrony.conf; '' @
           ''if [ ! -f \"$conf\" ]; then echo \"chrony config not found - run Configure '' @
           ''chrony first.\" >&2; exit 1; fi; cp \"$conf\" \"$conf.sysible.bak\" && sed -i '' @ SQ @
           ''/^'' @ BS @ ''(server'' @ BS @ ''|pool'' @ BS @
           '') /d' \"$conf\" && sed -i 's|^[[:space:]]*sourcedir[[:space:]]|# '' @
           ''&|' \"$conf\" && printf '' @ SQ @ server_lines @ BS @ ''n' >> \"$conf\" && '' @
           replace_text ''enable --now'' ''restart'' chrony_service_fragment @
           '' && echo 'Set NTP servers ('' @ servers @
           '') and restarted chrony (backup at $conf.sysible.bak; DHCP-supplied NTP disabled '' @
           ''- any pools in conf.d drop-ins are left as-is).'' @ SQ))"

definition cmd_verify_sync :: "string" where
  "cmd_verify_sync =
     ''echo '== Sync state =='; timedatectl show -p NTP -p NTPSynchronized 2>/dev/null '' @
          ''|| timedatectl 2>&1; echo; if command -v chronyc >/dev/null 2>&1; then echo '' @ SQ @
          ''== chronyc sources =='; chronyc sources -v 2>&1; echo; echo '== chronyc '' @
          ''tracking =='; chronyc tracking 2>&1; elif command -v ntpstat >/dev/null '' @
          ''2>&1; then ntpstat 2>&1; else echo '(install chrony for detailed sync verification)'; '' @
          ''fi''"

definition cmd_troubleshoot_drift :: "string" where
  "cmd_troubleshoot_drift =
     ''echo '== System vs hardware clock =='; echo \"System: $(date)\"; (hwclock '' @
          ''2>/dev/null && echo \"(hardware clock above)\") || echo '(hwclock unavailable)'; '' @
          ''echo; if command -v chronyc >/dev/null 2>&1; then echo '== Drift / offset '' @
          ''(chronyc tracking) =='; chronyc tracking 2>&1; echo; echo '== Source measurements '' @
          ''=='; chronyc sourcestats -v 2>&1; else echo '(install chrony for drift analysis)'; '' @
          ''fi''"

definition cmd_set_timezone :: "string \<Rightarrow> string checked" where
  "cmd_set_timezone tz =
     (let tz = strip tz in
      if (tz = []) \<or> (\<not> (zone_name tz)) then
        Inl Value_Error
      else 
      let q = quote tz in
      Inr (''if timedatectl set-timezone '' @ q @ '' 2>&1; then echo 'Time zone set to '' @ tz @
           ''.'; timedatectl 2>/dev/null | grep -i 'time zone'; else echo 'Failed to '' @
           ''set time zone (is it a valid zone? see List Time Zones).' >&2; exit 1; fi''))"

definition cmd_list_timezones :: "string \<Rightarrow> string checked" where
  "cmd_list_timezones filter_text =
     (let filter_text = strip filter_text in
      let base = ''{ timedatectl list-timezones 2>/dev/null || find /usr/share/zoneinfo -type '' @
                 ''f -printf '%P'' @ BS @ ''n' 2>/dev/null; }'' in
      if filter_text \<noteq> [] then
        if \<not> (zone_filter filter_text) then
          Inl Value_Error
        else Inr (base @ '' | grep -i '' @ quote filter_text @ '' || echo 'No matching time zones.'' @ SQ)
      else Inr (base))"

section \<open>What the shell reads\<close>

lemmas timesync_builders = cmd_list_timezones_def

lemma plain_timesync_free:
  "injection_free (\<lambda>filter_text. cmd_list_timezones filter_text)"
  unfolding timesync_builders  case_prod_unfold return_push let_flat
  by (rule conjI free_rules | rule free_steps | (simp add: read_simps; fail)[1] | (simp only: joined_simps)[1])+

lemma zone_tame: "zone_name s \<Longrightarrow> tame s = s"
  unfolding zone_name_def by (erule conjE, rule over_tame(1)) (auto simp: safe_char_def)

lemma servers_plain: "server_names s \<Longrightarrow> plain s = s"
  unfolding server_names_def by (rule over_plain) (auto simp: plain_char_def safe_char_def)

lemma words_chars: "w \<in> set (words_from u s) \<Longrightarrow> set w \<subseteq> set u \<union> set s"
  by (induction u s arbitrary: w rule: words_from.induct) (fastforce split: if_splits)+

lemma server_lines_unquoted:
  "CHR 0x27 \<notin> set (join (BS @ ''n'') (map (\<lambda>s. ''server '' @ s @ '' iburst'') (split_words (plain t))))"
proof -
  have "CHR 0x27 \<notin> set w" if "w \<in> set (split_words (plain t))" for w
    using that words_chars [of w "[]" "plain t"] plain_unquoted [OF plain_plain [of t]]
    by (auto simp: split_words_def)
  then show ?thesis by (auto simp: join_def split: list.splits)
qed

lemma reads_server_lines:
  "reads (Single, fs, h)
    (\<lambda>x. join (BS @ ''n'') (map (\<lambda>s. ''server '' @ s @ '' iburst'') (split_words (plain (v x))))) (Single, fs, h)"
  by (rule reads_in_single) (rule server_lines_unquoted)

lemma set_ntp_servers_free: "injection_free (\<lambda>servers. cmd_set_ntp_servers servers)"
  apply (rule free_same [where f = "\<lambda>servers. cmd_set_ntp_servers (plain (strip servers))"])
   unfolding cmd_set_ntp_servers_def case_prod_unfold fst_conv snd_conv strip_tame strip_plain
   apply (rule reads_server_lines free_steps | (simp add: read_simps chrony_service_fragment_def; fail)[1] | (simp only: joined_simps)[1])+
  apply (auto simp: Let_def and_then_Inr servers_plain split: if_splits)[1]
  done

lemma set_timezone_free: "injection_free (\<lambda>tz. cmd_set_timezone tz)"
  apply (rule free_same [where f = "\<lambda>tz. cmd_set_timezone (tame (strip tz))"])
   unfolding cmd_set_timezone_def case_prod_unfold fst_conv snd_conv strip_tame strip_plain
   apply (rule free_steps | (simp add: read_simps; fail)[1] | (simp only: joined_simps)[1])+
  apply (auto simp: Let_def and_then_Inr zone_tame split: if_splits)[1]
  done

end
