(* ===== verification/Py_Crypt.thy ===== *)
theory Py_Crypt
  imports Py_Hash
begin

text \<open>
  The password hash an account command carries: \<^verbatim>\<open>hashlib.sha512\<close> and, on top of it, the
  SHA-512 scheme of \<^verbatim>\<open>crypt\<close> as \<^verbatim>\<open>client/_api_users.py\<close> writes it out for interpreters without
  the module.  What the builders need of it is shown here: a hash is one line without a colon.
\<close>

section \<open>SHA-512\<close>

type_synonym w64 = "64 word"

definition sha512_k :: "w64 list" where
  "sha512_k =
    [4794697086780616226, 8158064640168781261, 13096744586834688815, 16840607885511220156,
     4131703408338449720, 6480981068601479193, 10538285296894168987, 12329834152419229976,
     15566598209576043074, 1334009975649890238, 2608012711638119052, 6128411473006802146,
     8268148722764581231, 9286055187155687089, 11230858885718282805, 13951009754708518548,
     16472876342353939154, 17275323862435702243, 1135362057144423861, 2597628984639134821,
     3308224258029322869, 5365058923640841347, 6679025012923562964, 8573033837759648693,
     10970295158949994411, 12119686244451234320, 12683024718118986047, 13788192230050041572,
     14330467153632333762, 15395433587784984357, 489312712824947311, 1452737877330783856,
     2861767655752347644, 3322285676063803686, 5560940570517711597, 5996557281743188959,
     7280758554555802590, 8532644243296465576, 9350256976987008742, 10552545826968843579,
     11727347734174303076, 12113106623233404929, 14000437183269869457, 14369950271660146224,
     15101387698204529176, 15463397548674623760, 17586052441742319658, 1182934255886127544,
     1847814050463011016, 2177327727835720531, 2830643537854262169, 3796741975233480872,
     4115178125766777443, 5681478168544905931, 6601373596472566643, 7507060721942968483,
     8399075790359081724, 8693463985226723168, 9568029438360202098, 10144078919501101548,
     10430055236837252648, 11840083180663258601, 13761210420658862357, 14299343276471374635,
     14566680578165727644, 15097957966210449927, 16922976911328602910, 17689382322260857208,
     500013540394364858, 748580250866718886, 1242879168328830382, 1977374033974150939,
     2944078676154940804, 3659926193048069267, 4368137639120453308, 4836135668995329356,
     5532061633213252278, 6448918945643986474, 6902733635092675308, 7801388544844847127]"

definition sha512_h0 :: "w64 list" where
  "sha512_h0 =
    [7640891576956012808, 13503953896175478587, 4354685564936845355, 11912009170470909681,
     5840696475078001361, 11170449401992604703, 2270897969802886507, 6620516959819538809]"

definition rot64 :: "nat \<Rightarrow> w64 \<Rightarrow> w64" where
  "rot64 n x = drop_bit n x OR push_bit (64 - n) x"

definition be_word64 :: "bytes \<Rightarrow> w64" where
  "be_word64 bs = foldl (\<lambda>acc b. push_bit 8 acc OR ucast b) 0 bs"

definition sha512_pad :: "bytes \<Rightarrow> bytes" where
  "sha512_pad m =
     (let l = length m
      in m @ [128] @ replicate ((239 - l mod 128) mod 128) 0 @ be_bytes 16 (word_of_nat (8 * l) :: 128 word))"

text \<open>The message schedule, newest word first.\<close>

fun sha512_expand :: "nat \<Rightarrow> w64 list \<Rightarrow> w64 list" where
  "sha512_expand 0 ws = ws"
| "sha512_expand (Suc n) ws =
     (let x = ws ! 1; y = ws ! 14;
          s1 = rot64 19 x XOR rot64 61 x XOR drop_bit 6 x;
          s0 = rot64 1 y XOR rot64 8 y XOR drop_bit 7 y
      in sha512_expand n ((ws ! 15 + s0 + ws ! 6 + s1) # ws))"

definition sha512_schedule :: "bytes \<Rightarrow> w64 list" where
  "sha512_schedule block = rev (sha512_expand 64 (rev (map be_word64 (chunks 16 8 block))))"

fun sha512_round :: "w64 list \<Rightarrow> w64 \<times> w64 \<Rightarrow> w64 list" where
  "sha512_round [a, b, c, d, e, f, g, h] (k, w) =
     (let t1 = h + (rot64 14 e XOR rot64 18 e XOR rot64 41 e) + ((e AND f) XOR (NOT e AND g)) + k + w;
          t2 = (rot64 28 a XOR rot64 34 a XOR rot64 39 a) + ((a AND b) XOR (a AND c) XOR (b AND c))
      in [t1 + t2, a, b, c, d + t1, e, f, g])"
| "sha512_round st kw = st"

definition sha512_block :: "w64 list \<Rightarrow> bytes \<Rightarrow> w64 list" where
  "sha512_block st block =
     map (\<lambda>(x, y). x + y) (zip st (foldl sha512_round st (zip sha512_k (sha512_schedule block))))"

definition sha512 :: "bytes \<Rightarrow> bytes" where
  "sha512 m =
     (let p = sha512_pad m
      in concat (map (be_bytes 8) (foldl sha512_block sha512_h0 (chunks (length p div 128) 128 p))))"

section \<open>The crypt scheme\<close>

definition CRYPT_ITOA64 :: string where
  "CRYPT_ITOA64 = ''./0123456789ABCDEFGHIJKLMNOPQRSTUVWXYZabcdefghijklmnopqrstuvwxyz''"

fun crypt_b64 :: "nat \<Rightarrow> nat \<Rightarrow> string" where
  "crypt_b64 0 w = []"
| "crypt_b64 (Suc n) w = CRYPT_ITOA64 ! (w AND 63) # crypt_b64 n (drop_bit 6 w)"

definition crypt_b64_from_24bit :: "8 word \<Rightarrow> 8 word \<Rightarrow> 8 word \<Rightarrow> nat \<Rightarrow> string" where
  "crypt_b64_from_24bit b2 b1 b0 n =
     crypt_b64 n (push_bit 16 (unat b2) OR push_bit 8 (unat b1) OR unat b0)"

text \<open>The two loops over the length of the password.\<close>

fun crypt_fill :: "bytes \<Rightarrow> nat \<Rightarrow> bytes" where
  "crypt_fill alt i = (if i = 0 then [] else take (min i 64) alt @ crypt_fill alt (i - 64))"

fun crypt_bits :: "bytes \<Rightarrow> bytes \<Rightarrow> nat \<Rightarrow> bytes" where
  "crypt_bits alt pw i =
     (if i = 0 then [] else (if odd i then alt else pw) @ crypt_bits alt pw (i div 2))"

declare crypt_fill.simps [simp del] crypt_bits.simps [simp del]

definition crypt_round :: "bytes \<Rightarrow> bytes \<Rightarrow> bytes \<Rightarrow> nat \<Rightarrow> bytes" where
  "crypt_round p_seq s_seq c r =
     sha512 ((if odd r then p_seq else c) @ (if r mod 3 \<noteq> 0 then s_seq else []) @
             (if r mod 7 \<noteq> 0 then p_seq else []) @ (if odd r then c else p_seq))"

definition crypt_order :: "(nat \<times> nat \<times> nat) list" where
  "crypt_order =
     [(0, 21, 42), (22, 43, 1), (44, 2, 23), (3, 24, 45), (25, 46, 4), (47, 5, 26), (6, 27, 48),
      (28, 49, 7), (50, 8, 29), (9, 30, 51), (31, 52, 10), (53, 11, 32), (12, 33, 54), (34, 55, 13),
      (56, 14, 35), (15, 36, 57), (37, 58, 16), (59, 17, 38), (18, 39, 60), (40, 61, 19),
      (62, 20, 41)]"

text \<open>Of a password, the salt and the number of rounds, which the source fixes at 5000.\<close>

definition crypt_digest :: "nat \<Rightarrow> bytes \<Rightarrow> bytes \<Rightarrow> bytes" where
  "crypt_digest rounds pw salt =
     (let plen = length pw;
          alt = sha512 (pw @ salt @ pw);
          a_digest = sha512 (pw @ salt @ crypt_fill alt plen @ crypt_bits alt pw plen);
          dp = sha512 (concat (replicate plen pw));
          p_seq = take plen (concat (replicate (plen div 64 + 1) dp));
          ds = sha512 (concat (replicate (16 + unat (a_digest ! 0)) salt));
          s_seq = take (length salt) (concat (replicate (length salt div 64 + 1) ds))
      in foldl (crypt_round p_seq s_seq) a_digest [0..<rounds])"

definition crypt_text :: "bytes \<Rightarrow> string" where
  "crypt_text c =
     concat (map (\<lambda>(x, y, z). crypt_b64_from_24bit (c ! x) (c ! y) (c ! z) 4) crypt_order) @
     crypt_b64_from_24bit 0 0 (c ! 63) 2"

definition sha512_crypt :: "string \<Rightarrow> string \<Rightarrow> string" where
  "sha512_crypt password salt =
     ''$6$'' @ take 16 salt @ ''$'' @ crypt_text (crypt_digest 5000 (utf8 password) (utf8 (take 16 salt)))"

text \<open>\<^verbatim>\<open>_hash_password\<close>: the \<^verbatim>\<open>crypt\<close> module where the interpreter has one and it works, with the
  salt it makes itself, else the scheme above with a salt drawn from the alphabet.\<close>

definition hash_password :: "(string \<Rightarrow> string option) option \<Rightarrow> string \<Rightarrow> string \<Rightarrow> string option" where
  "hash_password crypt salt password =
     (case crypt of Some f \<Rightarrow> f password | None \<Rightarrow> Some (sha512_crypt password salt))"

section \<open>What a hash looks like\<close>

lemma and_63_less: "(w :: nat) AND 63 < 64"
proof -
  have "w AND 63 = take_bit 6 w" by (simp add: take_bit_eq_mask mask_eq_exp_minus_1)
  then show ?thesis using take_bit_nat_less_exp [of 6 w] by simp
qed

lemma set_crypt_b64: "set (crypt_b64 n w) \<subseteq> set CRYPT_ITOA64"
proof (induction n arbitrary: w)
  case (Suc n)
  have "w AND 63 < length CRYPT_ITOA64" using and_63_less [of w] by (simp add: CRYPT_ITOA64_def)
  then show ?case using Suc [of "drop_bit 6 w"] by auto
qed simp

lemma set_from_24bit: "set (crypt_b64_from_24bit x y z n) \<subseteq> set CRYPT_ITOA64"
  unfolding crypt_b64_from_24bit_def by (rule set_crypt_b64)

lemma set_crypt_text: "set (crypt_text c) \<subseteq> set CRYPT_ITOA64"
  unfolding crypt_text_def set_append set_concat set_map
  by (intro Un_least UN_least set_from_24bit) (auto intro: subsetD [OF set_from_24bit])

lemma set_sha512_crypt:
  assumes "set salt \<subseteq> set CRYPT_ITOA64"
  shows "set (sha512_crypt password salt) \<subseteq> insert (CHR ''$'') (insert (CHR ''6'') (set CRYPT_ITOA64))"
  using set_crypt_text [of "crypt_digest 5000 (utf8 password) (utf8 (take 16 salt))"] assms
    set_take_subset [of 16 salt]
  unfolding sha512_crypt_def by (simp add: subset_iff)

end
