(* ===== verification/Cmd_Users.thy ===== *)
theory Cmd_Users
  imports Shell_Uniform Py_Crypt
begin

text \<open>
  The account builders of \<^verbatim>\<open>client/_api_users.py\<close>: users, groups, sudo rights, passwords, their
  aging and the policies for passwords, lockout and sudo.  A number is given as an optional integer,
  which is what the console makes of its form.  The password builders take the \<^verbatim>\<open>crypt\<close> module of
  the interpreter, if it has one, and the drawn salt.
\<close>

section \<open>Builders\<close>

definition reject_leading_dash :: "string \<Rightarrow> unit checked" where
  "reject_leading_dash username = (if starts_with ''-'' (strip username) then Inl Value_Error else Inr ())"

text \<open>One setting of a configuration file, replaced where it stands or appended.\<close>

definition security_conf_step :: "string \<Rightarrow> string \<Rightarrow> string \<times> string \<Rightarrow> string" where
  "security_conf_step quoted_path sep = (\<lambda>(key, v).
     ''(grep -qE '^[[:space:]]*#?[[:space:]]*'' @ key @ ''([[:space:]]|=)' '' @ quoted_path @
     '' && sed -i -E 's/^[[:space:]]*#?[[:space:]]*'' @ key @ ''([[:space:]]|=).*/'' @ key @ sep @ v @
     ''/' '' @ quoted_path @ '' || echo ''  @ SQ @ key @ sep @ v @ SQ @ '' >> '' @ quoted_path @ '')'')"

definition set_security_conf_keys :: "string \<Rightarrow> (string \<times> string) list \<Rightarrow> string \<Rightarrow> string" where
  "set_security_conf_keys path settings sep =
     (let quoted_path = quote path
      in join '' && '' ((''touch '' @ quoted_path) # map (security_conf_step quoted_path sep) settings))"

text \<open>The settings that are given.\<close>

definition present_settings :: "(string \<times> int option) list \<Rightarrow> (string \<times> string) list" where
  "present_settings raw = map (\<lambda>(k, v). (k, show_int (the v))) (filter (\<lambda>(k, v). v \<noteq> None) raw)"

definition umask_value :: "string \<Rightarrow> bool" where
  "umask_value v = ((length v = 3 \<or> length v = 4) \<and> list_all (\<lambda>c. c \<in> set ''01234567'') v)"

definition cmd_set_password ::
  "(string \<Rightarrow> string option) option \<Rightarrow> string \<Rightarrow> string \<Rightarrow> string \<Rightarrow> string checked" where
  "cmd_set_password crypt salt username password =
     and_then (reject_leading_dash username) (\<lambda>_.
     if has_newline username \<or> CHR '':'' \<in> set username then Inl Value_Error
     else case hash_password crypt salt password of None \<Rightarrow> Inl Runtime_Error
       | Some hashed \<Rightarrow>
           Inr (''chpasswd -e <<'SYSIBLE_PW_EOF'\<newline>'' @ username @ '':'' @ hashed @
                ''\<newline>SYSIBLE_PW_EOF''))"

definition cmd_create_user ::
  "(string \<Rightarrow> string option) option \<Rightarrow> string \<Rightarrow> string \<Rightarrow> string \<Rightarrow> string \<Rightarrow> string checked" where
  "cmd_create_user crypt salt username password shell =
     and_then (reject_leading_dash username) (\<lambda>_.
     let u = quote username in
     let sh = quote (if_empty shell ''/bin/bash'') in
     let ensure_home = ''h=\"$(getent passwd '' @ u @
                       '' | cut -d: -f6)\"; if [ -n \"$h\" ] && [ ! -d \"$h\" ]; then   mkdir -p \"$h\"; '' @
                       ''cp -aT /etc/skel \"$h\" 2>/dev/null || true;   chown -R '' @ u @ '':'' @
                       u @
                       '' \"$h\" 2>/dev/null || true; chmod 700 \"$h\"; fi; if [ -z \"$h\" ] || [ ! -d '' @
                       ''\"$h\" ]; then   echo \"user created but home directory could not be created\" '' @
                       ''>&2; exit 1; fi; echo \"home directory ready: $h\"'' in
     let create = ''if getent group '' @ u @ '' >/dev/null 2>&1; then useradd -m -N -s '' @ sh @
                  '' '' @ u @ ''; else useradd -m -s '' @ sh @ '' '' @ u @ ''; fi'' in
     let cmd = create @ '' && { '' @ ensure_home @ ''; }'' in
     if password \<noteq> [] then
        and_then (cmd_set_password crypt salt username password) (\<lambda>change. Inr (cmd @ '' && '' @ change))
      else Inr cmd)"

definition cmd_delete_user :: "string \<Rightarrow> string checked" where
  "cmd_delete_user username =
     and_then (reject_leading_dash username) (\<lambda>_.
     Inr (''userdel -r '' @ quote username @ '' && echo \"User deleted (home directory removed).\"''))"

definition cmd_lock_user :: "string \<Rightarrow> string checked" where
  "cmd_lock_user username =
     and_then (reject_leading_dash username) (\<lambda>_.
     Inr (''usermod -L '' @ quote username @ '' && echo \"User locked '' @
          [CHR 0xE2, CHR 0x80, CHR 0x94] @ '' password authentication is now disabled.\"''))"

definition cmd_unlock_user :: "string \<Rightarrow> string checked" where
  "cmd_unlock_user username =
     and_then (reject_leading_dash username) (\<lambda>_.
     Inr (''usermod -U '' @ quote username @ '' && echo \"User unlocked '' @
          [CHR 0xE2, CHR 0x80, CHR 0x94] @ '' password authentication is re-enabled.\"''))"

definition cmd_set_sudo :: "string \<Rightarrow> bool \<Rightarrow> string" where
  "cmd_set_sudo username enable =
     (let u = quote username in
      let detect = ''if command -v apt-get >/dev/null 2>&1; then grp=sudo; else grp=wheel; fi'' in
      if enable then
        detect @
             ''; if ! getent group \"$grp\" >/dev/null 2>&1; then echo \"sudo group '$grp' '' @
             ''does not exist on this host.\" >&2; exit 1; fi; usermod -aG \"$grp\" '' @ u @
             '' || exit 1; tmp=$(mktemp) || exit 1; printf '%%%s ALL=(ALL:ALL) ALL'' @ BS @
             ''n' \"$grp\" '' @
             ''> \"$tmp\"; if visudo -cf \"$tmp\" >/dev/null 2>&1; then install -m 0440 -o '' @
             ''root -g root \"$tmp\" /etc/sudoers.d/sysible-sudo-group; fi; rm -f \"$tmp\"; '' @
             ''echo \"Granted sudo (added to group $grp).\"''
      else 
      detect @ ''; gpasswd -d '' @ u @
           '' \"$grp\" && echo \"Revoked sudo (removed from group $grp).\"'')"

definition cmd_create_group :: "string \<Rightarrow> string checked" where
  "cmd_create_group name =
     and_then (reject_leading_dash name) (\<lambda>_.
     Inr (''groupadd '' @ quote name))"

definition cmd_delete_group :: "string \<Rightarrow> string checked" where
  "cmd_delete_group name =
     and_then (reject_leading_dash name) (\<lambda>_.
     Inr (''groupdel '' @ quote name))"

definition cmd_add_user_to_group :: "string \<Rightarrow> string \<Rightarrow> string checked" where
  "cmd_add_user_to_group group' username =
     and_then (reject_leading_dash group') (\<lambda>_.
     and_then (reject_leading_dash username) (\<lambda>_.
     Inr (''usermod -aG '' @ quote group' @ '' '' @ quote username)))"

definition cmd_remove_user_from_group :: "string \<Rightarrow> string \<Rightarrow> string checked" where
  "cmd_remove_user_from_group group' username =
     and_then (reject_leading_dash group') (\<lambda>_.
     and_then (reject_leading_dash username) (\<lambda>_.
     Inr (''gpasswd -d '' @ quote username @ '' '' @ quote group')))"

definition cmd_kill_user_sessions :: "string \<Rightarrow> string" where
  "cmd_kill_user_sessions username =
     (let user = quote username in
      ''if command -v loginctl >/dev/null 2>&1; then loginctl terminate-user '' @ user @
           ''; rc=$?; else pkill -KILL -u '' @ user @
           ''; rc=$?; [ \"$rc\" -eq 1 ] && rc=0; fi; if [ \"$rc\" -ne 0 ]; then exit \"$rc\"; '' @
           ''fi; echo 'Done (sessions terminated, or there were none).'' @ SQ)"

definition cmd_force_password_reset :: "string \<Rightarrow> string checked" where
  "cmd_force_password_reset username =
     and_then (reject_leading_dash username) (\<lambda>_.
     Inr (''chage -d 0 '' @ quote username))"

definition cmd_set_password_aging :: "string \<Rightarrow> int option \<Rightarrow> int option \<Rightarrow> int option \<Rightarrow> string checked" where
  "cmd_set_password_aging username max_days min_days warn_days =
     (let user = quote username in
      let parts = [''chage''] in
      let parts = (if max_days \<noteq> None then parts @ [''-M'', show_int (the max_days)]
            else parts) in
      let parts = (if min_days \<noteq> None then parts @ [''-m'', show_int (the min_days)]
            else parts) in
      let parts = (if warn_days \<noteq> None then parts @ [''-W'', show_int (the warn_days)]
            else parts) in
      if (length parts) = 1 then
        Inl Value_Error
      else 
      let parts = parts @ [user] in
      Inr (join '' '' parts))"

definition cmd_set_account_expiration :: "string \<Rightarrow> string \<Rightarrow> string" where
  "cmd_set_account_expiration username expire_date =
     (let user = quote username in
      let date = strip expire_date in
      if date = [] then
        ''chage -E -1 '' @ user
      else 
      ''chage -E '' @ quote date @ '' '' @ user)"

definition cmd_set_user_shell :: "string \<Rightarrow> string \<Rightarrow> string checked" where
  "cmd_set_user_shell username shell =
     and_then (reject_leading_dash username) (\<lambda>_.
     Inr (''usermod -s '' @ quote shell @ '' '' @ quote username))"

definition cmd_set_user_comment :: "string \<Rightarrow> string \<Rightarrow> string checked" where
  "cmd_set_user_comment username comment =
     and_then (reject_leading_dash username) (\<lambda>_.
     Inr (''usermod -c '' @ quote comment @ '' '' @ quote username))"

definition cmd_audit_privileged_users :: "string" where
  "cmd_audit_privileged_users =
     ''echo '== sudo/wheel/admin group members ==' && for g in sudo wheel admin; '' @
          ''do getent group \"$g\" 2>/dev/null | awk -F: '{print $1\": \"$4}'; done; echo '' @
          ''&& echo '== Accounts with UID 0 besides root ==' && (awk -F: '($3==0 && '' @
          ''$1!=\"root\"){print $1}' /etc/passwd || true); echo && echo '== sudoers NOPASSWD '' @
          ''entries ==' && (grep -rH 'NOPASSWD' /etc/sudoers /etc/sudoers.d/ 2>/dev/null '' @
          ''| grep -v '^[^:]*:#' || echo 'None found.')''"

definition cmd_list_groups_with_members :: "string" where
  "cmd_list_groups_with_members =
     ''getent group | awk -F: '{print $1\": \"$4}'' @ SQ"

definition cmd_set_password_quality_policy ::
  "int option \<Rightarrow> int option \<Rightarrow> int option \<Rightarrow> int option \<Rightarrow> int option \<Rightarrow> int option \<Rightarrow> string checked" where
  "cmd_set_password_quality_policy minlen retry dcredit ucredit lcredit ocredit =
     (let raw = [(''minlen'', minlen), (''retry'', retry), (''dcredit'', dcredit),
                 (''ucredit'', ucredit), (''lcredit'', lcredit), (''ocredit'', ocredit)];
          settings = present_settings raw
      in if settings = [] then Inl Value_Error
         else Inr (set_security_conf_keys ''/etc/security/pwquality.conf'' settings '' = '' @
                   ''; rc=$?; if command -v apt-get >/dev/null 2>&1 && ! grep -rq pam_pwquality '' @
                   ''/etc/pam.d/ 2>/dev/null; then echo 'Note: pam_pwquality is not referenced '' @
                   ''in this host'\"'\"'s PAM stack (Debian/Ubuntu default). Install libpam-pwquality '' @
                   ''and enable it in /etc/pam.d/common-password for this to take effect.' >&2; '' @
                   ''fi; exit \"$rc\"''))"

definition cmd_set_account_lockout_policy :: "int option \<Rightarrow> int option \<Rightarrow> string checked" where
  "cmd_set_account_lockout_policy deny unlock_time =
     (let raw = [(''deny'', deny), (''unlock_time'', unlock_time)];
          settings = present_settings raw
      in if settings = [] then Inl Value_Error
         else Inr (set_security_conf_keys ''/etc/security/faillock.conf'' settings '' = '' @
                   ''; rc=$?; if command -v authselect >/dev/null 2>&1 && authselect current '' @
                   ''>/dev/null 2>&1; then authselect enable-feature with-faillock 2>&1 || true; '' @
                   ''fi; echo 'faillock.conf updated. Confirm /etc/pam.d/system-auth (or common-auth) '' @
                   ''references pam_faillock on this host - on Debian/Ubuntu and RHEL7/Amazon '' @
                   ''Linux 2 it may need adding manually.'; exit \"$rc\"''))"

definition cmd_set_umask_policy :: "string \<Rightarrow> string checked" where
  "cmd_set_umask_policy v =
     (let v = strip v
      in if \<not> umask_value v then Inl Value_Error
         else Inr (set_security_conf_keys ''/etc/login.defs'' [(''UMASK'', v)] '' ''))"

definition cmd_set_sudo_policy :: "int option \<Rightarrow> bool option \<Rightarrow> string \<Rightarrow> string checked" where
  "cmd_set_sudo_policy timestamp_timeout require_password sudo_group =
     (let sudo_group = strip sudo_group
      in if sudo_group \<noteq> [] \<and> \<not> list_all (\<lambda>c. is_alnum c \<or> c \<in> set ''_-'') sudo_group then Inl Value_Error
         else
           let static_lines =
                 (if timestamp_timeout \<noteq> None
                  then [''Defaults timestamp_timeout='' @ show_int (the timestamp_timeout)] else []);
               need_group_rule = (require_password \<noteq> None)
           in if static_lines = [] \<and> \<not> need_group_rule then Inl Value_Error
         else
           let quoted_tmp = quote ''/tmp/.sysible_sudoers_policy'';
               quoted_dest = quote ''/etc/sudoers.d/sysible-policy'';
               prefix =
                 (if need_group_rule then
                    (if sudo_group \<noteq> [] then ''grp='' @ quote sudo_group @ ''; ''
                     else ''if command -v apt-get >/dev/null 2>&1; then grp=sudo; else grp=wheel; fi; '') @
                    ''if ! getent group \"$grp\" >/dev/null 2>&1; then '' @
                    ''echo \"sudo group '$grp' does not exist on this host.\" >&2; exit 1; fi; ''
                  else []);
               rule = (if require_password = Some True then ''ALL=(ALL:ALL) ALL''
                       else ''ALL=(ALL:ALL) NOPASSWD: ALL'');
               append_rule =
                 (if need_group_rule then ''&& echo \"%$grp '' @ rule @ ''\" >> '' @ quoted_tmp @ '' ''
                  else []);
               body = (if static_lines \<noteq> [] then join ''\<newline>'' static_lines @ ''\<newline>'' else [])
           in Inr (prefix @ ''{ cat > '' @ quoted_tmp @ '' <<'SYSIBLE_EOF'\<newline>'' @ body @
                   ''SYSIBLE_EOF\<newline>} '' @ append_rule @ ''&& chmod 440 '' @ quoted_tmp @
                   '' && visudo -c -f '' @ quoted_tmp @
                   '' && mv '' @ quoted_tmp @ '' '' @ quoted_dest @
                   '' && chown root:root '' @ quoted_dest @
                   '' && chmod 440 '' @ quoted_dest))"

section \<open>What the shell reads\<close>

lemmas user_builders = cmd_delete_user_def cmd_lock_user_def cmd_unlock_user_def cmd_set_sudo_def
  cmd_create_group_def cmd_delete_group_def cmd_add_user_to_group_def cmd_remove_user_from_group_def
  cmd_kill_user_sessions_def cmd_force_password_reset_def cmd_set_password_aging_def
  cmd_set_account_expiration_def cmd_set_user_shell_def cmd_set_user_comment_def
  cmd_audit_privileged_users_def cmd_list_groups_with_members_def

lemma plain_accounts_free:
  "injection_free cmd_delete_user \<and> injection_free cmd_lock_user \<and> injection_free cmd_unlock_user \<and>
   (\<forall>b. injection_free (\<lambda>u. Inr (cmd_set_sudo u b))) \<and>
   injection_free cmd_create_group \<and> injection_free cmd_delete_group \<and>
   injection_free (\<lambda>(g, u). cmd_add_user_to_group g u) \<and>
   injection_free (\<lambda>(g, u). cmd_remove_user_from_group g u) \<and>
   injection_free (\<lambda>u. Inr (cmd_kill_user_sessions u)) \<and>
   injection_free cmd_force_password_reset \<and>
   injection_free (\<lambda>(u, a, i, w). cmd_set_password_aging u a i w) \<and>
   injection_free (\<lambda>(u, d). Inr (cmd_set_account_expiration u d)) \<and>
   injection_free (\<lambda>(u, s). cmd_set_user_shell u s) \<and>
   injection_free (\<lambda>(u, c). cmd_set_user_comment u c) \<and>
   injection_free (\<lambda>u. Inr cmd_audit_privileged_users) \<and>
   injection_free (\<lambda>u. Inr cmd_list_groups_with_members)"
  unfolding user_builders case_prod_unfold all_bool fst_conv snd_conv if_True if_False return_push let_flat
  apply (intro conjI free_and_then free_let_if free_let free_if free_error free_reads)
  apply (simp_all only: joined_simps)
  apply ((rule reads_rules | (simp add: read_simps; fail)[1])+)?
  done

section \<open>Settings of a configuration file\<close>

lemma reads_conf_step:
  assumes "CHR 0x27 \<notin> set k" "\<And>x. v x = tame (u x)" "sep = '' '' \<or> sep = '' = ''"
  shows "reads (Gap, [], None) (\<lambda>x. security_conf_step (quote path) sep (k, v x)) (Inword, [], None)"
proof -
  have key: "reads (Single, [False], None) (\<lambda>_. k) (Single, [False], None)"
    using assms(1) by (rule reads_in_single)
  have v: "v = (\<lambda>x. tame (u x))" using assms(2) by auto
  show ?thesis
    unfolding security_conf_step_def prod.case v
    using assms(3)
    apply (elim disjE; hypsubst)
    apply (rule key | rule reads_rules | (simp only: read_simps)[1])+
    done
qed

lemma reads_conf_keys:
  assumes "\<And>k v. (k, v) \<in> set kvs \<Longrightarrow> CHR 0x27 \<notin> set k" "sep = '' '' \<or> sep = '' = ''"
  shows "reads (Gap, [], None)
    (\<lambda>x. set_security_conf_keys path (map (\<lambda>(k, v). (k, tame (v x))) kvs) sep) (Inword, [], None)"
proof -
  let ?first = "\<lambda>x. ''touch '' @ quote path"
  let ?steps = "map (\<lambda>(k, v) x. security_conf_step (quote path) sep (k, tame (v x))) kvs"
  have "reads (Gap, [], None) (\<lambda>x. join '' && '' (map (\<lambda>f. f x) (?first # ?steps))) (Inword, [], None)"
  proof (rule reads_joined)
    show "reads (Gap, [], None) ?first (Inword, [], None)"
      by (rule reads_append [OF reads_const reads_quote(1)]) (simp only: read_simps)
    show "reads (Gap, [], None) f (Inword, [], None)" if "f \<in> set ?steps" for f
      using that assms by (auto intro!: reads_conf_step)
    show "run_reader (Inword, [], None) '' && '' = (Gap, [], None)" by (simp only: read_simps)
  qed
  then show ?thesis by (simp add: set_security_conf_keys_def comp_def case_prod_unfold Let_def)
qed

lemma tame_number: "tame (show_int n) = show_int n"
  using safe_show_int [of n] by (intro tame_same) simp

text \<open>Which settings are given is one of finitely many cases.\<close>

definition pick :: "bool list \<Rightarrow> 'a list \<Rightarrow> 'a list" where
  "pick bs xs = map snd (filter fst (zip bs xs))"

lemma present_settings_pick:
  "present_settings (map (\<lambda>(k, g). (k, g x)) kgs) =
     map (\<lambda>(k, v). (k, tame (v x)))
       (map (\<lambda>(k, g). (k, \<lambda>x. show_int (the (g x)))) (pick (map (\<lambda>(k, g). g x \<noteq> None) kgs) kgs))"
proof (induction kgs)
  case (Cons kg kgs)
  then show ?case
    by (cases kg; cases "snd kg x") (simp_all add: present_settings_def pick_def tame_number)
qed (simp add: present_settings_def pick_def)

lemma set_pick: "set (pick bs xs) \<subseteq> set xs"
  unfolding pick_def by (auto dest: set_zip_rightD)

lemma free_settings:
  assumes "list_all (\<lambda>(k, g). CHR 0x27 \<notin> set k) kgs" "run_reader (Inword, [], None) rest = r'"
  shows "injection_free (\<lambda>x.
      let settings = present_settings (map (\<lambda>(k, g). (k, g x)) kgs)
      in if settings = [] then Inl e
         else Inr (set_security_conf_keys path settings '' = '' @ rest))"
proof -
  let ?case = "\<lambda>x. map (\<lambda>(k, g). g x \<noteq> None) kgs"
  let ?picked = "\<lambda>c. map (\<lambda>(k, g). (k, \<lambda>x. show_int (the (g x)))) (pick c kgs)"
  let ?f = "\<lambda>c x. let settings = map (\<lambda>(k, v). (k, tame (v x))) (?picked c)
      in if settings = [] then Inl e
         else Inr (set_security_conf_keys path settings '' = '' @ rest)"
  have "injection_free (\<lambda>x. ?f (?case x) x)"
  proof (rule free_cases [where f = ?f])
    show "finite {c :: bool list. length c = length kgs}"
      using finite_lists_length_eq [of "UNIV :: bool set" "length kgs"] by simp
    show "?case x \<in> {c. length c = length kgs}" for x by simp
    fix c :: "bool list"
    have "reads (Gap, [], None)
        (\<lambda>x. set_security_conf_keys path (map (\<lambda>(k, v). (k, tame (v x))) (?picked c)) '' = '' @ rest) r'"
    proof (rule reads_append [OF reads_conf_keys reads_const])
      show "CHR 0x27 \<notin> set k" if "(k, v) \<in> set (?picked c)" for k and v :: "'a \<Rightarrow> string"
        using that assms(1) set_pick [of c kgs] by (auto simp: list_all_iff)
      show "run_reader (Inword, [], None) rest = r'" by (rule assms(2))
    qed simp
    then show "injection_free (?f c)"
      unfolding Let_def by (intro free_if free_error free_reads)
  qed
  then show ?thesis unfolding present_settings_pick .
qed

lemma quality_policy_free:
  "injection_free (\<lambda>(m, r, d, u, l, oc). cmd_set_password_quality_policy m r d u l oc)"
  unfolding cmd_set_password_quality_policy_def case_prod_unfold Let_def [of "_ # _"]
  apply (rule free_settings [where kgs = "[(''minlen'', fst), (''retry'', \<lambda>x. fst (snd x)),
      (''dcredit'', \<lambda>x. fst (snd (snd x))), (''ucredit'', \<lambda>x. fst (snd (snd (snd x)))),
      (''lcredit'', \<lambda>x. fst (snd (snd (snd (snd x))))), (''ocredit'', \<lambda>x. snd (snd (snd (snd (snd x)))))]",
      unfolded list.map prod.case fst_conv snd_conv])
   apply simp
  apply (simp only: read_simps)
  done

lemma lockout_policy_free: "injection_free (\<lambda>(d, u). cmd_set_account_lockout_policy d u)"
  unfolding cmd_set_account_lockout_policy_def case_prod_unfold Let_def [of "_ # _"]
  apply (rule free_settings [where kgs = "[(''deny'', fst), (''unlock_time'', snd)]",
      unfolded list.map prod.case fst_conv snd_conv])
   apply simp
  apply (simp only: read_simps)
  done

lemma umask_safe: "umask_value v \<Longrightarrow> v \<noteq> [] \<and> list_all safe_char v"
proof -
  assume v: "umask_value v"
  have "set ''01234567'' \<subseteq> Collect safe_char" by (simp add: safe_char_def is_alnum_def is_digit_def)
  moreover have "list_all (\<lambda>c. c \<in> set ''01234567'') v" "v \<noteq> []" using v unfolding umask_value_def by auto
  ultimately show ?thesis unfolding list_all_iff by blast
qed

lemma umask_policy_free: "injection_free cmd_set_umask_policy"
proof -
  have "injection_free (\<lambda>x. Inr (set_security_conf_keys ''/etc/login.defs'' [(''UMASK'', tame (strip x))] '' ''))"
    using reads_conf_keys [where kvs = "[(''UMASK'', strip)]" and sep = "'' ''"]
    by (intro free_reads) simp
  then show ?thesis
    by (rule free_same) (auto simp: cmd_set_umask_policy_def Let_def tame_same umask_safe split: if_splits)
qed

lemma sudo_policy_free: "injection_free (\<lambda>(t, r, g). cmd_set_sudo_policy t r g)"
  unfolding cmd_set_sudo_policy_def case_prod_unfold
  apply (intro free_let_if free_let free_if free_error free_reads)
  apply (simp_all only: if_True if_False simp_thms list.distinct joined_simps)
  apply ((rule reads_rules | (simp add: read_simps; fail)[1])+)?
  done

section \<open>Passwords\<close>

text \<open>What \<^verbatim>\<open>crypt\<close> documents: a hash is one line.\<close>

definition crypt_output :: "(string \<Rightarrow> string option) option \<Rightarrow> string \<Rightarrow> bool" where
  "crypt_output crypt salt \<longleftrightarrow>
     (case crypt of Some f \<Rightarrow> \<forall>p h. f p = Some h \<longrightarrow> CHR 0x0A \<notin> set h
      | None \<Rightarrow> set salt \<subseteq> set CRYPT_ITOA64)"

lemma hash_one_line:
  assumes "crypt_output crypt salt" "hash_password crypt salt p = Some h"
  shows "CHR 0x0A \<notin> set h"
proof (cases crypt)
  case None
  have "CHR 0x0A \<notin> set CRYPT_ITOA64" by (simp add: CRYPT_ITOA64_def)
  then show ?thesis
    using assms None set_sha512_crypt [of salt p] by (auto simp: crypt_output_def hash_password_def)
next
  case (Some f)
  then show ?thesis using assms by (auto simp: crypt_output_def hash_password_def)
qed

definition password_lines :: "string \<Rightarrow> string \<Rightarrow> string" where
  "password_lines username hashed =
     ''chpasswd -e <<'SYSIBLE_PW_EOF'\<newline>'' @ (one_line username @ '':'' @ one_line hashed) @
     ''\<newline>SYSIBLE_PW_EOF''"

lemma set_password_same:
  assumes "crypt_output crypt salt" "cmd_set_password crypt salt u p = Inr s"
  shows "s = password_lines u (the (hash_password crypt salt p))"
  using assms hash_one_line [OF assms(1)]
  by (auto simp: cmd_set_password_def password_lines_def and_then_Inr one_line_same
      split: if_splits option.splits)

lemma reads_password_lines:
  "reads (Gap, [], None) (\<lambda>x. password_lines (u x) (h x)) (Line ''SYSIBLE_PW_EOF'' ''SYSIBLE_PW_EOF'', [], None)"
  unfolding password_lines_def
  apply (rule reads_append [OF reads_const], (simp add: read_simps; fail)[1])
  apply (rule reads_append [OF reads_line])
    apply (simp, simp)
  apply (rule reads_const)
  apply (simp add: read_simps)
  done

section \<open>The account builders\<close>

lemma set_password_free:
  assumes "crypt_output crypt salt"
  shows "injection_free (\<lambda>(u, p). cmd_set_password crypt salt u p)"
proof -
  have "injection_free (\<lambda>x. Inr (password_lines (fst x) (the (hash_password crypt salt (snd x)))))"
    by (rule free_reads [OF reads_password_lines])
  then show ?thesis by (rule free_same) (auto dest: set_password_same [OF assms])
qed

lemma create_user_free:
  assumes "crypt_output crypt salt"
  shows "injection_free (\<lambda>(u, p, s). cmd_create_user crypt salt u p s)"
  unfolding cmd_create_user_def case_prod_unfold
  apply (rule free_and_then)
  apply (intro free_let free_if free_reads
      free_and_then_known [where k = "\<lambda>x. password_lines (fst x) (the (hash_password crypt salt (fst (snd x))))"])
    apply (erule set_password_same [OF assms])
   apply (rule reads_password_lines | rule reads_rules | (simp add: read_simps; fail)[1])+
  done

lemma dash_names_refused:
  assumes "starts_with ''-'' (strip u)"
  shows "cmd_create_user crypt salt u p sh = Inl Value_Error" "cmd_set_password crypt salt u p = Inl Value_Error"
    "cmd_delete_user u = Inl Value_Error" "cmd_lock_user u = Inl Value_Error" "cmd_unlock_user u = Inl Value_Error"
    "cmd_create_group u = Inl Value_Error" "cmd_delete_group u = Inl Value_Error"
    "cmd_add_user_to_group u v = Inl Value_Error" "cmd_add_user_to_group v u = Inl Value_Error"
    "cmd_remove_user_from_group u v = Inl Value_Error" "cmd_remove_user_from_group v u = Inl Value_Error"
    "cmd_force_password_reset u = Inl Value_Error" "cmd_set_user_shell u sh = Inl Value_Error"
    "cmd_set_user_comment u c = Inl Value_Error"
proof -
  have u: "reject_leading_dash u = Inl Value_Error" using assms by (simp add: reject_leading_dash_def)
  have v: "and_then (reject_leading_dash v) (\<lambda>_. Inl Value_Error) = Inl Value_Error" for v
    by (simp add: reject_leading_dash_def)
  show "cmd_create_user crypt salt u p sh = Inl Value_Error" "cmd_set_password crypt salt u p = Inl Value_Error"
    "cmd_delete_user u = Inl Value_Error" "cmd_lock_user u = Inl Value_Error" "cmd_unlock_user u = Inl Value_Error"
    "cmd_create_group u = Inl Value_Error" "cmd_delete_group u = Inl Value_Error"
    "cmd_add_user_to_group u v = Inl Value_Error" "cmd_add_user_to_group v u = Inl Value_Error"
    "cmd_remove_user_from_group u v = Inl Value_Error" "cmd_remove_user_from_group v u = Inl Value_Error"
    "cmd_force_password_reset u = Inl Value_Error" "cmd_set_user_shell u sh = Inl Value_Error"
    "cmd_set_user_comment u c = Inl Value_Error"
    unfolding cmd_create_user_def cmd_set_password_def cmd_add_user_to_group_def
      cmd_remove_user_from_group_def user_builders u and_then_simps v by (rule refl)+
qed

text \<open>C29: The account builders.  Whatever names, passwords, comments, dates and groups an operator
  enters, the command that is built reads as a fixed text around whole literal words, with the
  password handed over as one line of a here-document that the shell does not touch.  And a
  name that begins with a dash, which the tools would take for an option, is refused by all of them but
  those that set sudo rights, end sessions, or set the aging and the end of an account.\<close>

theorem account_commands_free:
  assumes "crypt_output crypt salt"
  shows "injection_free (\<lambda>(u, p, s). cmd_create_user crypt salt u p s) \<and>
    injection_free (\<lambda>(u, p). cmd_set_password crypt salt u p) \<and>
    injection_free cmd_delete_user \<and> injection_free cmd_lock_user \<and> injection_free cmd_unlock_user \<and>
    (\<forall>b. injection_free (\<lambda>u. Inr (cmd_set_sudo u b))) \<and>
    injection_free cmd_create_group \<and> injection_free cmd_delete_group \<and>
    injection_free (\<lambda>(g, u). cmd_add_user_to_group g u) \<and>
    injection_free (\<lambda>(g, u). cmd_remove_user_from_group g u) \<and>
    injection_free (\<lambda>u. Inr (cmd_kill_user_sessions u)) \<and>
    injection_free cmd_force_password_reset \<and>
    injection_free (\<lambda>(u, a, i, w). cmd_set_password_aging u a i w) \<and>
    injection_free (\<lambda>(u, d). Inr (cmd_set_account_expiration u d)) \<and>
    injection_free (\<lambda>(u, s). cmd_set_user_shell u s) \<and>
    injection_free (\<lambda>(u, c). cmd_set_user_comment u c) \<and>
    injection_free (\<lambda>(m, r, d, u, l, oc). cmd_set_password_quality_policy m r d u l oc) \<and>
    injection_free (\<lambda>(d, u). cmd_set_account_lockout_policy d u) \<and>
    injection_free cmd_set_umask_policy \<and>
    injection_free (\<lambda>(t, r, g). cmd_set_sudo_policy t r g) \<and>
    (\<forall>u p sh g c. starts_with ''-'' (strip u) \<longrightarrow>
       {cmd_create_user crypt salt u p sh, cmd_set_password crypt salt u p, cmd_delete_user u,
        cmd_lock_user u, cmd_unlock_user u, cmd_create_group u, cmd_delete_group u,
        cmd_add_user_to_group u g, cmd_add_user_to_group g u, cmd_remove_user_from_group u g,
        cmd_remove_user_from_group g u, cmd_force_password_reset u, cmd_set_user_shell u sh,
        cmd_set_user_comment u c} = {Inl Value_Error})"
  by (intro conjI allI create_user_free set_password_free assms quality_policy_free lockout_policy_free
      umask_policy_free sudo_policy_free plain_accounts_free [THEN conjunct1]
      plain_accounts_free [THEN conjunct2, THEN conjunct1]) (use plain_accounts_free in blast | simp add: dash_names_refused)+

lemma account_commands_free_witness:
  "injection_free (\<lambda>(u, p, s). cmd_create_user None ''saltsaltsaltsalt'' u p s) \<and>
   cmd_lock_user ''-x'' = Inl Value_Error"
proof -
  have "crypt_output None ''saltsaltsaltsalt''" by (simp add: crypt_output_def CRYPT_ITOA64_def)
  from account_commands_free [OF this] show ?thesis
    by (elim conjE) (simp add: strip_def starts_with_def is_space_def)
qed

end
