(* ===== verification/Fleet_Hosts.thy ===== *)
theory Fleet_Hosts
  imports App_Facts Db_Config
begin

text \<open>
  The fleet as the console sees it: the inventory route of the controller
  (\<^verbatim>\<open>backend/app.py\<close>), and the rows the console acts on (\<^verbatim>\<open>client/_api_dispatch.py\<close>), where an
  agent and an SSH record of the same machine are one row.

  The SSH records are the answer of a route that is not modelled.
\<close>

section \<open>The inventory\<close>

text \<open>\<open>s.split(''.'')[0]\<close>.\<close>

definition short_name :: "string \<Rightarrow> string" where
  "short_name s = takeWhile (\<lambda>c. c \<noteq> CHR ''.'') s"

text \<open>The names and addresses of the controller itself: the machine's own, and the configured ones.
  (The cache of this pair is left out.)\<close>

definition controller_identity ::
    "string \<Rightarrow> string list \<Rightarrow> string list \<Rightarrow> db \<Rightarrow> string list \<times> string list" where
  "controller_identity os_name ips ips' d =
     (let own = (if os_name = [] then [] else filter (\<lambda>n. n \<noteq> []) [lower os_name, lower (short_name os_name)]);
          cfg = fst (get_controller_config ips ips' d);
          chn = lower (strip (cv_hostname cfg));
          cip = strip (cv_ip cfg)
      in (own @ (if chn = [] then [] else [chn, short_name chn]),
          [''127.0.0.1'', ''::1''] @ ips @ (if cip = [] then [] else [cip])))"

definition is_controller_host :: "string option \<Rightarrow> string option \<Rightarrow> string list \<Rightarrow> string list \<Rightarrow> bool" where
  "is_controller_host hostname ip names ips =
     (let hn = lower (or_else hostname [])
      in if hn \<noteq> [] \<and> (hn \<in> set names \<or> short_name hn \<in> set names) then True
         else truthy ip \<and> the ip \<in> set ips)"

record agent_view =
  av_host_id :: string
  av_hostname :: "string option"
  av_ip :: "string option"
  av_environment :: "string option"
  av_requires_sudo :: bool
  av_revoked :: bool
  av_last_seen :: "instant option"
  av_quarantined :: bool
  av_is_controller :: bool

definition agent_view_of :: "string list \<times> string list \<Rightarrow> integ_state \<Rightarrow> agent_row \<Rightarrow> agent_view" where
  "agent_view_of self st a =
     \<lparr>av_host_id = ag_host_id a, av_hostname = ag_hostname a, av_ip = ag_ip a,
      av_environment = ag_environment a, av_requires_sudo = ag_requires_sudo a, av_revoked = ag_revoked a,
      av_last_seen = ag_last_seen a, av_quarantined = is_quarantined (ag_host_id a) st,
      av_is_controller = is_controller_host (ag_hostname a) (ag_ip a) (fst self) (snd self)\<rparr>"

definition get_agents ::
    "settings \<Rightarrow> string option \<Rightarrow> string option \<Rightarrow> string \<Rightarrow> string list \<Rightarrow> string list \<Rightarrow> controller \<Rightarrow> agent_view list response" where
  "get_agents cfg key presented os_name ips ips' c =
     (case require_api_key_or_gateway cfg key presented of Inl e \<Rightarrow> Inl e
      | Inr _ \<Rightarrow> Inr (map (agent_view_of (controller_identity os_name ips ips' (cdb c)) (integrity c)) (list_agents (cdb c))))"

section \<open>Rows of the console\<close>

record host_entry =
  he_agent :: bool
  he_id :: string
  he_label :: string
  he_address :: string
  he_environment :: string
  he_requires_sudo :: bool
  he_is_controller :: bool
  he_quarantined :: bool

text \<open>A row is one record, or an agent and the SSH record of the same name.  The merged row is
  made of what the code copies into it: the flags of a missing password and of a quarantine stay on
  the agent's record inside.\<close>

datatype entry = Solo host_entry | Merged host_entry host_entry

fun underlying_entry :: "entry \<Rightarrow> host_entry" where
  "underlying_entry (Solo e) = e"
| "underlying_entry (Merged a s) = a"

fun entry_id :: "entry \<Rightarrow> string" where
  "entry_id (Solo e) = he_id e"
| "entry_id (Merged a s) = he_label a"

fun entry_label :: "entry \<Rightarrow> string" where
  "entry_label (Solo e) = he_label e"
| "entry_label (Merged a s) = he_label a"

fun entry_environment :: "entry \<Rightarrow> string" where
  "entry_environment (Solo e) = he_environment e"
| "entry_environment (Merged a s) = or_else (Some (he_environment a)) (he_environment s)"

fun entry_is_controller :: "entry \<Rightarrow> bool" where
  "entry_is_controller (Solo e) = he_is_controller e"
| "entry_is_controller (Merged a s) = (he_is_controller a \<or> he_is_controller s)"

fun entry_quarantined :: "entry \<Rightarrow> bool" where
  "entry_quarantined (Solo e) = he_quarantined e"
| "entry_quarantined (Merged a s) = False"

fun entry_has_agent :: "entry \<Rightarrow> bool" where
  "entry_has_agent (Solo e) = he_agent e"
| "entry_has_agent (Merged a s) = True"

definition merge_group :: "host_entry list \<Rightarrow> entry list" where
  "merge_group g =
     (case (find he_agent g, find (\<lambda>e. \<not> he_agent e) g) of
        (Some a, Some s) \<Rightarrow> Merged a s # map Solo (remove1 s (remove1 a g))
      | _ \<Rightarrow> map Solo g)"

text \<open>The keys of a dict that is filled from a list, in order of first appearance.\<close>

definition first_labels :: "string list \<Rightarrow> string list" where
  "first_labels ls = rev (remdups (rev ls))"

definition merge_duplicate_host_entries :: "host_entry list \<Rightarrow> entry list" where
  "merge_duplicate_host_entries es =
     concat (map (\<lambda>l. merge_group (filter (\<lambda>e. he_label e = l) es)) (first_labels (map he_label es)))"

definition ip_of :: "string \<Rightarrow> string" where
  "ip_of addr = strip (last (split_on (CHR 0x40) addr))"

fun entry_ip :: "entry \<Rightarrow> string" where
  "entry_ip (Solo e) = ip_of (he_address e)"
| "entry_ip (Merged a s) = or_else (Some (ip_of (he_address a))) (ip_of (he_address s))"

fun dedupe_from :: "string list \<Rightarrow> string list \<Rightarrow> entry list \<Rightarrow> entry list" where
  "dedupe_from agent_ips seen [] = []"
| "dedupe_from agent_ips seen (e # es) =
     (if entry_has_agent e then e # dedupe_from agent_ips seen es
      else if entry_ip e = [] then e # dedupe_from agent_ips seen es
      else if entry_ip e \<in> set agent_ips then dedupe_from agent_ips seen es
      else if entry_ip e \<in> set seen then dedupe_from agent_ips seen es
      else e # dedupe_from agent_ips (entry_ip e # seen) es)"

definition dedupe_same_ip :: "entry list \<Rightarrow> entry list" where
  "dedupe_same_ip es = dedupe_from (filter (\<lambda>i. i \<noteq> []) (map entry_ip (filter entry_has_agent es))) [] es"

definition agent_entry :: "agent_view \<Rightarrow> host_entry" where
  "agent_entry a =
     \<lparr>he_agent = True, he_id = av_host_id a, he_label = or_else (av_hostname a) (av_host_id a),
      he_address = or_else (av_ip a) (av_host_id a), he_environment = or_else (av_environment a) [],
      he_requires_sudo = av_requires_sudo a, he_is_controller = av_is_controller a,
      he_quarantined = av_quarantined a\<rparr>"

record ssh_host =
  sh_user :: "string option"
  sh_ip :: "string option"
  sh_environment :: "string option"

definition ssh_entry :: "string \<times> ssh_host \<Rightarrow> host_entry" where
  "ssh_entry h =
     \<lparr>he_agent = False, he_id = fst h, he_label = fst h,
      he_address = (case sh_user (snd h) of None \<Rightarrow> ''root'' | Some u \<Rightarrow> u) @ [CHR 0x40] @
        (case sh_ip (snd h) of None \<Rightarrow> ''?'' | Some i \<Rightarrow> i),
      he_environment = or_else (sh_environment (snd h)) [],
      he_requires_sudo = False, he_is_controller = False, he_quarantined = False\<rparr>"

text \<open>A call that fails gives no records.\<close>

definition list_merged_hosts ::
    "bool \<Rightarrow> agent_view list option \<Rightarrow> (string \<times> ssh_host) list option \<Rightarrow> entry list" where
  "list_merged_hosts agent_only views ssh =
     (let entries = map agent_entry (filter (\<lambda>a. \<not> av_revoked a) (case views of None \<Rightarrow> [] | Some xs \<Rightarrow> xs)) @
                    map ssh_entry (case ssh of None \<Rightarrow> [] | Some xs \<Rightarrow> xs);
          merged = dedupe_same_ip (merge_duplicate_host_entries entries)
      in if agent_only then filter entry_has_agent merged else merged)"

section \<open>Every host once\<close>

text \<open>The agents in a list of rows.\<close>

definition agents_in :: "entry list \<Rightarrow> host_entry multiset" where
  "agents_in es = mset (map underlying_entry (filter entry_has_agent es))"

lemma agents_in_simps [simp]:
  "agents_in [] = {#}"
  "agents_in (e # es) = (if entry_has_agent e then {#underlying_entry e#} else {#}) + agents_in es"
  "agents_in (es @ fs) = agents_in es + agents_in fs"
  by (simp_all add: agents_in_def)

lemma agents_in_singles [simp]: "agents_in (map Solo es) = mset (filter he_agent es)"
  by (induction es) simp_all

lemma agents_in_merged: "agents_in (merge_group g) = mset (filter he_agent g)"
proof (cases "find he_agent g")
  case None
  then show ?thesis by (simp add: merge_group_def)
next
  case (Some a)
  then have a: "he_agent a" "a \<in> set g" by (auto dest: find_SomeD)
  show ?thesis
  proof (cases "find (\<lambda>e. \<not> he_agent e) g")
    case None
    then show ?thesis using Some by (simp add: merge_group_def)
  next
    fix s assume s: "find (\<lambda>e. \<not> he_agent e) g = Some s"
    then have "\<not> he_agent s" by (auto dest: find_SomeD)
    then have "filter he_agent (remove1 s (remove1 a g)) = remove1 a (filter he_agent g)"
      by (simp add: filter_remove1 remove1_idem)
    then show ?thesis using Some s a by (simp add: merge_group_def)
  qed
qed

lemma sum_list_pick:
  fixes v :: "'a multiset"
  assumes "distinct ls"
  shows "(\<Sum>l\<leftarrow>ls. if k = l \<and> p then v else {#}) = (if k \<in> set ls \<and> p then v else {#})"
  using assms by (induction ls) auto

lemma mset_grouped:
  assumes "distinct ls" "set (map key xs) \<subseteq> set ls"
  shows "(\<Sum>l\<leftarrow>ls. mset (filter p (filter (\<lambda>x. key x = l) xs))) = mset (filter p xs)"
  using assms(2)
proof (induction xs)
  case (Cons x xs)
  have "(\<Sum>l\<leftarrow>ls. mset (filter p (filter (\<lambda>y. key y = l) (x # xs)))) =
      (\<Sum>l\<leftarrow>ls. (if key x = l \<and> p x then {#x#} else {#}) + mset (filter p (filter (\<lambda>y. key y = l) xs)))"
    by (intro arg_cong [where f = sum_list] map_cong) (auto simp: filter_filter_mset)
  also have "\<dots> = (\<Sum>l\<leftarrow>ls. if key x = l \<and> p x then {#x#} else {#}) + mset (filter p xs)"
    using Cons by (simp add: sum_list_addf)
  also have "(\<Sum>l\<leftarrow>ls. if key x = l \<and> p x then {#x#} else {#}) = (if p x then {#x#} else {#})"
    using assms(1) Cons.prems by (simp add: sum_list_pick)
  finally show ?case by simp
qed (simp add: sum_list_0)

lemma agents_in_concat: "agents_in (concat gs) = (\<Sum>g\<leftarrow>gs. agents_in g)"
  by (induction gs) simp_all

lemma agents_in_merge: "agents_in (merge_duplicate_host_entries es) = mset (filter he_agent es)"
proof -
  have ls: "distinct (first_labels (map he_label es))" "set (map he_label es) \<subseteq> set (first_labels (map he_label es))"
    by (simp_all add: first_labels_def)
  have "agents_in (merge_duplicate_host_entries es) =
      (\<Sum>l\<leftarrow>first_labels (map he_label es). mset (filter he_agent (filter (\<lambda>e. he_label e = l) es)))"
    by (simp add: merge_duplicate_host_entries_def agents_in_concat comp_def agents_in_merged)
  then show ?thesis using mset_grouped [OF ls, of he_agent] by simp
qed

lemma agents_in_dedupe: "agents_in (dedupe_same_ip es) = agents_in es"
proof -
  have "agents_in (dedupe_from ips seen es) = agents_in es" for ips seen
    by (induction ips seen es rule: dedupe_from.induct) auto
  then show ?thesis by (simp add: dedupe_same_ip_def)
qed

lemma agents_in_filter: "agents_in (filter entry_has_agent es) = agents_in es"
  by (simp add: agents_in_def)

lemma agents_in_list_merged:
  "agents_in (list_merged_hosts agent_only (Some views) ssh) =
     mset (map agent_entry (filter (\<lambda>a. \<not> av_revoked a) views))"
proof -
  have "filter he_agent (map agent_entry vs) = map agent_entry vs" for vs by (induction vs) (simp_all add: agent_entry_def)
  moreover have "filter he_agent (map ssh_entry vs) = []" for vs by (induction vs) (simp_all add: ssh_entry_def)
  ultimately show ?thesis
    by (simp add: list_merged_hosts_def Let_def agents_in_filter agents_in_dedupe agents_in_merge)
qed

text \<open>C38: The console shows every host that is enrolled and not revoked in exactly one row, and no
  other agent, whatever SSH records exist and whatever names and addresses the hosts report; a
  command for the row goes to that host's agent.  The agents' rows are all rows of the agent-only
  list.\<close>

theorem fleet_shows_each_host_once:
  assumes "get_agents cfg key presented os_name ips ips' c = Inr views"
  shows "image_mset he_id (agents_in (list_merged_hosts agent_only (Some views) ssh)) =
      mset (map ag_host_id (filter (\<lambda>a. \<not> ag_revoked a) (agents (cdb c)))) \<and>
    (\<forall>e \<in> set (list_merged_hosts True (Some views) ssh). he_agent (underlying_entry e)) \<and>
    (\<forall>e \<in># agents_in (list_merged_hosts agent_only (Some views) ssh). he_quarantined e = is_quarantined (he_id e) (integrity c))"
proof -
  let ?self = "controller_identity os_name ips ips' (cdb c)"
  have v: "views = map (agent_view_of ?self (integrity c)) (list_agents (cdb c))"
    using assms by (simp add: get_agents_def split: sum.splits)
  have ids: "mset (map av_host_id (filter (\<lambda>a. \<not> av_revoked a) views)) =
      mset (map ag_host_id (filter (\<lambda>a. \<not> ag_revoked a) (agents (cdb c))))"
    by (simp add: v filter_map comp_def agent_view_of_def list_agents_def)
  have "he_agent (underlying_entry e)" if "entry_has_agent e" "e \<in> set (merge_duplicate_host_entries es)" for e es
  proof (cases e)
    case (Merged a s)
    note listed = that(2)
    then obtain g where "Merged a s \<in> set (merge_group g)"
      using Merged by (auto simp: merge_duplicate_host_entries_def)
    then have "find he_agent g = Some a" by (auto simp: merge_group_def split: option.splits)
    then show ?thesis using Merged by (auto dest: find_SomeD)
  qed (use that(1) in simp)
  moreover have "set (dedupe_same_ip es) \<subseteq> set es" for es
  proof -
    have "set (dedupe_from ips seen es) \<subseteq> set es" for ips seen
      by (induction ips seen es rule: dedupe_from.induct) auto
    then show ?thesis by (simp add: dedupe_same_ip_def)
  qed
  ultimately have "\<forall>e \<in> set (list_merged_hosts True (Some views) ssh). he_agent (underlying_entry e)"
    unfolding list_merged_hosts_def Let_def by (simp, blast)
  moreover have "\<forall>e \<in># agents_in (list_merged_hosts agent_only (Some views) ssh).
      he_quarantined e = is_quarantined (he_id e) (integrity c)"
    unfolding agents_in_list_merged v by (auto simp: agent_entry_def agent_view_of_def)
  ultimately show ?thesis
    unfolding agents_in_list_merged using ids by (simp add: multiset.map_comp comp_def agent_entry_def)
qed


definition fleet_agent :: "string \<Rightarrow> string \<Rightarrow> bool \<Rightarrow> agent_row" where
  "fleet_agent h n revoked =
     \<lparr>ag_host_id = h, ag_hostname = Some n, ag_platform = None, ag_kernel = None, ag_status = ''active'',
      ag_last_seen = Some 100, ag_secret = None, ag_ip = Some ''10.0.0.5'', ag_requires_sudo = False,
      ag_environment = None, ag_version = None, ag_revoked = revoked, ag_config_poll = None\<rparr>"

definition demo_fleet :: controller where
  "demo_fleet = empty_control\<lparr>cdb := fresh_db\<lparr>agents := [fleet_agent ''h1'' ''web'' False, fleet_agent ''h2'' ''web'' False,
     fleet_agent ''h3'' ''old'' True]\<rparr>\<rparr>"

definition demo_ssh :: "(string \<times> ssh_host) list" where
  "demo_ssh = [(''web'', \<lparr>sh_user = None, sh_ip = Some ''10.0.0.5'', sh_environment = None\<rparr>),
     (''nas'', \<lparr>sh_user = Some ''ann'', sh_ip = Some ''10.0.0.5'', sh_environment = None\<rparr>)]"

definition demo_views :: "agent_view list" where
  "demo_views = map (agent_view_of (controller_identity ''ctl'' [] [] (cdb demo_fleet)) []) (list_agents (cdb demo_fleet))"

lemma fleet_shows_each_host_once_witness:
  "image_mset he_id (agents_in (list_merged_hosts False (Some demo_views) (Some demo_ssh))) = {#''h1'', ''h2''#} \<and>
   map entry_id (list_merged_hosts False (Some demo_views) (Some demo_ssh)) = [''web'', ''h2'']"
proof
  have "get_agents demo_settings (Some ''key'') None ''ctl'' [] [] demo_fleet = Inr demo_views"
    by (simp add: get_agents_def require_api_key_or_gateway_def valid_api_key_def demo_settings_def demo_views_def
        demo_fleet_def empty_control_def)
  from fleet_shows_each_host_once [OF this, of False "Some demo_ssh"]
  show "image_mset he_id (agents_in (list_merged_hosts False (Some demo_views) (Some demo_ssh))) = {#''h1'', ''h2''#}"
    by (simp add: demo_fleet_def fleet_agent_def)
  show "map entry_id (list_merged_hosts False (Some demo_views) (Some demo_ssh)) = [''web'', ''h2'']"
    by code_simp
qed

end
