(* ===== verification/Console_Dispatch.thy ===== *)
theory Console_Dispatch
  imports Fleet_Hosts Agent_Run
begin

text \<open>
  How the console runs a command on a host (\<^verbatim>\<open>client/_api_dispatch.py\<close>,
  \<^verbatim>\<open>client/_api_users.py\<close> and \<^verbatim>\<open>webgui/server.py\<close>): an SSH host answers at once, an agent's task is
  queued and its result polled until a deadline.

  What the console reaches through its HTTP client is a channel over a state \<open>'w\<close> of the rest of the
  world, in which time passes: the clock and a sleep, queueing a task under a login token, the newest
  result of a task, an SSH command, and the reading of a result's JSON text.
\<close>

section \<open>The channel\<close>

text \<open>A report as \<open>get\<close> reads it, missing entries being empty.\<close>

record report =
  rp_stdout :: string
  rp_stderr :: string
  rp_code :: "int option"

text \<open>The JSON text of a result: unreadable, not an object, or a report.\<close>

datatype parsed = Unreadable | Not_Object | Report report

record 'w channel =
  ch_clock :: "'w \<Rightarrow> instant"
  ch_sleep :: "rat \<Rightarrow> 'w \<Rightarrow> 'w"
  ch_queue :: "string option \<Rightarrow> string \<Rightarrow> task_request \<Rightarrow> 'w \<Rightarrow> int option \<times> 'w"
  ch_results :: "string \<Rightarrow> int \<Rightarrow> 'w \<Rightarrow> (string + string option) \<times> 'w"
  ch_exec :: "string option \<Rightarrow> string \<Rightarrow> string \<Rightarrow> string option \<Rightarrow> string option \<Rightarrow> bool \<Rightarrow> 'w \<Rightarrow> (string + report) \<times> 'w"
  ch_loads :: "string \<Rightarrow> parsed"

section \<open>One command on one row\<close>

definition SBIN_PATH_EXPORT :: string where
  "SBIN_PATH_EXPORT = ''export PATH=\"/usr/local/sbin:/usr/sbin:/sbin:$PATH\"; ''"

definition with_sbin_path :: "string \<Rightarrow> string" where
  "with_sbin_path command =
     (if command = [] then command
      else if starts_with (butlast (butlast SBIN_PATH_EXPORT)) (dropWhile is_space command) then command
      else SBIN_PATH_EXPORT @ command)"

definition SUDO_AUTH_FAIL_MARKERS :: "string list" where
  "SUDO_AUTH_FAIL_MARKERS =
     [''incorrect password attempt'', ''incorrect password attempts'', ''sorry, try again'',
      ''a password is required'', ''no password was provided'', ''a terminal is required to read the password'']"

definition sudo_auth_failed :: "string \<Rightarrow> bool" where
  "sudo_auth_failed out = list_ex (\<lambda>m. is_substring m (lower out)) SUDO_AUTH_FAIL_MARKERS"

text \<open>The texts of the two hints are constants here.\<close>

definition sudo_hint :: string where "sudo_hint = ''Sudo authentication failed''"
definition sudo_missing :: string where "sudo_missing = ''sudo password not stored''"

record tool_output =
  to_stdout :: string
  to_stderr :: string
  to_code :: "int option"
  to_error :: "string option"

text \<open>The body of the request that queues a task.\<close>

definition queue_body :: "string \<Rightarrow> string \<Rightarrow> string option \<Rightarrow> string option \<Rightarrow> bool \<Rightarrow> bool \<Rightarrow> task_request" where
  "queue_body command kd description become logged want_root =
     \<lparr>tr_command = command, tr_kind = kd, tr_description = (if truthy description then description else None),
      tr_become = (if truthy become then become else None), tr_log = logged, tr_want_root = want_root\<rparr>"

datatype outcome = Ready tool_output | Queued "int option" "string option"

definition run_on_entry ::
    "'w channel \<Rightarrow> string option \<Rightarrow> entry \<Rightarrow> string \<Rightarrow> string \<Rightarrow> string option \<Rightarrow> string option \<Rightarrow> bool \<Rightarrow> bool \<Rightarrow>
     bool \<Rightarrow> 'w \<Rightarrow> outcome \<times> 'w" where
  "run_on_entry ch token e command kd description become needs_sudo logged want_root w =
     (let u = underlying_entry e;
          cmd = with_sbin_path command
      in if he_requires_sudo u \<and> needs_sudo \<and> \<not> truthy become
         then (Ready \<lparr>to_stdout = [], to_stderr = sudo_missing, to_code = None, to_error = Some sudo_missing\<rparr>, w)
         else if \<not> he_agent u
         then (case ch_exec ch token (he_id u) cmd description become logged w of
                 (Inl err, w1) \<Rightarrow> (Ready \<lparr>to_stdout = [], to_stderr = [], to_code = None, to_error = Some err\<rparr>, w1)
               | (Inr r, w1) \<Rightarrow>
                   (Ready \<lparr>to_stdout = rp_stdout r, to_stderr = rp_stderr r, to_code = rp_code r,
                      to_error = (if truthy become \<and> sudo_auth_failed (rp_stderr r) then Some sudo_hint else None)\<rparr>, w1))
         else (case ch_queue ch token (he_id u) (queue_body cmd kd description become logged want_root) w of
                 (i, w1) \<Rightarrow> (Queued i (if i = None then Some ''failed to queue task'' else None), w1)))"

text \<open>\<open>None\<close> is a result that has not arrived, or is not JSON; a JSON value that is no object has
  no \<open>get\<close>.\<close>

definition parse_task_output :: "(string \<Rightarrow> parsed) \<Rightarrow> string option \<Rightarrow> parsed" where
  "parse_task_output loads raw = (if truthy raw then loads (the raw) else Unreadable)"

definition poll_entry_result ::
    "'w channel \<Rightarrow> entry \<Rightarrow> int \<Rightarrow> 'w \<Rightarrow> (string + tool_output option) \<times> 'w" where
  "poll_entry_result ch e i w =
     (case ch_results ch (he_id (underlying_entry e)) i w of
        (Inl err, w1) \<Rightarrow> (Inl err, w1)
      | (Inr raw, w1) \<Rightarrow>
          (case parse_task_output (ch_loads ch) raw of
             Unreadable \<Rightarrow> (Inr None, w1)
           | Not_Object \<Rightarrow> (Inl ''object has no attribute get'', w1)
           | Report r \<Rightarrow>
               (Inr (Some \<lparr>to_stdout = rp_stdout r, to_stderr = rp_stderr r, to_code = rp_code r,
                  to_error = (if rp_code r \<notin> {Some 0, None} \<and> sudo_auth_failed (rp_stderr r)
                              then Some sudo_hint else None)\<rparr>), w1)))"

section \<open>Waiting for a result\<close>

text \<open>The loop of both waiting routines: ask until there is an answer, the question fails, or the
  deadline has passed; between two questions it sleeps.  \<open>None\<close> is a loop that does not end.\<close>

partial_function (option) await ::
    "('w \<Rightarrow> instant) \<Rightarrow> ('w \<Rightarrow> 'w) \<Rightarrow> ('w \<Rightarrow> ('e + 'r option) \<times> 'w) \<Rightarrow> instant \<Rightarrow> 'w \<Rightarrow> (('e + 'r option) \<times> 'w) option"
where
  "await clock sleep ask deadline w =
     (if clock w < deadline
      then (case ask w of
              (Inl err, w1) \<Rightarrow> Some (Inl err, w1)
            | (Inr (Some r), w1) \<Rightarrow> Some (Inr (Some r), w1)
            | (Inr None, w1) \<Rightarrow> await clock sleep ask deadline (sleep w1))
      else Some (Inr None, w))"

lemma await_now:
  "clock w < deadline \<Longrightarrow> ask w = (Inr (Some r), w1) \<Longrightarrow> await clock sleep ask deadline w = Some (Inr (Some r), w1)"
  by (simp add: await.simps)

lemma await_later:
  "clock w < deadline \<Longrightarrow> ask w = (Inr None, w1) \<Longrightarrow>
     await clock sleep ask deadline w = await clock sleep ask deadline (sleep w1)"
  by (subst await.simps) simp

section \<open>A host's result\<close>

record host_result =
  hr_host :: string
  hr_environment :: string
  hr_ok :: bool
  hr_error :: "string option"
  hr_stdout :: string
  hr_stderr :: string
  hr_code :: "int option"

definition normalize :: "string \<Rightarrow> string \<Rightarrow> tool_output \<Rightarrow> host_result" where
  "normalize label env r =
     \<lparr>hr_host = label, hr_environment = env,
      hr_ok = (case to_code r of Some k \<Rightarrow> k = 0 | None \<Rightarrow> to_stderr r = []),
      hr_error = to_error r, hr_stdout = to_stdout r, hr_stderr = to_stderr r, hr_code = to_code r\<rparr>"

definition failed_result :: "string \<Rightarrow> string \<Rightarrow> string \<Rightarrow> host_result" where
  "failed_result label env err =
     \<lparr>hr_host = label, hr_environment = env, hr_ok = False, hr_error = Some err, hr_stdout = [],
      hr_stderr = [], hr_code = None\<rparr>"

definition host_bounded :: "string \<Rightarrow> int \<Rightarrow> string" where
  "host_bounded command secs =
     ''if command -v timeout >/dev/null 2>&1; then timeout -k 5 '' @ show_int secs @ '' sh -c '' @ quote command @
     ''; else sh -c '' @ quote command @ ''; fi''"

definition TASK_TIMEOUT :: rat where "TASK_TIMEOUT = 60"

record dispatch_opts =
  do_needs_sudo :: bool
  do_log :: bool
  do_poll_timeout :: "rat option"
  do_exec_timeout :: "int option"
  do_want_root :: bool

definition plain_opts :: dispatch_opts where
  "plain_opts = \<lparr>do_needs_sudo = True, do_log = True, do_poll_timeout = None, do_exec_timeout = None, do_want_root = False\<rparr>"

text \<open>\<open>Inl\<close> is an exception out of the waiting loop, which nothing here catches.\<close>

definition dispatch_one ::
    "'w channel \<Rightarrow> entry \<Rightarrow> string \<Rightarrow> string \<Rightarrow> string option \<Rightarrow> string option \<Rightarrow> string option \<Rightarrow> dispatch_opts \<Rightarrow> 'w \<Rightarrow>
     ((string + host_result) \<times> 'w) option" where
  "dispatch_one ch e command kd become token description opt w =
     (let label = entry_label e;
          env = or_else (Some (entry_environment e)) ''Unassigned'';
          cmd = (case do_exec_timeout opt of None \<Rightarrow> command | Some s \<Rightarrow> if s = 0 then command else host_bounded command s)
      in case run_on_entry ch token e cmd kd description become (do_needs_sudo opt) (do_log opt) (do_want_root opt) w of
           (Ready r, w1) \<Rightarrow>
             if truthy (to_error r) then Some (Inr (failed_result label env (the (to_error r))), w1)
             else Some (Inr (normalize label env r), w1)
         | (Queued i err, w1) \<Rightarrow>
             if truthy err then Some (Inr (failed_result label env (the err)), w1)
             else
               (let tmo = (case do_poll_timeout opt of None \<Rightarrow> TASK_TIMEOUT | Some t \<Rightarrow> t)
                in map_option (map_prod (map_sum id (\<lambda>p. case p of
                       Some r \<Rightarrow> normalize label env r
                     | None \<Rightarrow> failed_result label env ''timed out waiting for agent'')) id)
                     (await (ch_clock ch) (ch_sleep ch (1 / 2)) (poll_entry_result ch e (the i)) (ch_clock ch w1 + tmo) w1)))"

section \<open>Termination\<close>

text \<open>What waiting asks of the world: sleeping lets at least its time pass, and no question turns
  the clock back.\<close>

locale passing_time =
  fixes clock :: "'w \<Rightarrow> instant" and sleep :: "'w \<Rightarrow> 'w" and ask :: "'w \<Rightarrow> ('e + 'r option) \<times> 'w" and nap :: rat
  assumes nap: "0 < nap"
    and slept: "clock w + nap \<le> clock (sleep w)"
    and asked: "clock w \<le> clock (snd (ask w))"
begin

text \<open>The same loop that counts its questions.\<close>

definition counted :: "'w \<times> nat \<Rightarrow> ('e + 'r option) \<times> 'w \<times> nat" where
  "counted s = (case ask (fst s) of (r, w) \<Rightarrow> (r, w, Suc (snd s)))"

lemma await_counted:
  assumes "deadline - clock w \<le> of_nat k * nap"
  shows "\<exists>r w1 n'. await (clock \<circ> fst) (map_prod sleep id) counted deadline (w, n) = Some (r, w1, n') \<and>
    n' \<le> n + k \<and> await clock sleep ask deadline w = Some (r, w1)"
  using assms
proof (induction k arbitrary: w n)
  case 0
  then have "\<not> clock w < deadline" by simp
  then show ?case by (simp add: await.simps)
next
  case (Suc k)
  show ?case
  proof (cases "clock w < deadline")
    case False
    then show ?thesis by (simp add: await.simps)
  next
    case True
    obtain r w1 where a: "ask w = (r, w1)" by fastforce
    then have c: "counted (w, n) = (r, w1, Suc n)" by (simp add: counted_def)
    have "clock w \<le> clock w1" using asked [of w] a by simp
    then have "deadline - clock (sleep w1) \<le> of_nat k * nap"
      using slept [of w1] Suc.prems by (simp add: algebra_simps)
    from Suc.IH [OF this, of "Suc n"] obtain r' w2 n' where ih:
      "await (clock \<circ> fst) (map_prod sleep id) counted deadline (sleep w1, Suc n) = Some (r', w2, n')"
      "n' \<le> Suc n + k" "await clock sleep ask deadline (sleep w1) = Some (r', w2)" by blast
    show ?thesis
    proof (cases r)
      case (Inl err)
      then show ?thesis using True a c by (simp add: await.simps)
    next
      case (Inr p)
      show ?thesis
      proof (cases p)
        case None
        then show ?thesis using True a c ih Inr
          by (subst (1 2) await.simps) simp
      next
        case (Some x)
        then show ?thesis using True a c Inr by (simp add: await.simps)
      qed
    qed
  qed
qed

lemma await_returns: "\<exists>r w1. await clock sleep ask deadline w = Some (r, w1)"
proof -
  obtain k where "(deadline - clock w) / nap < of_nat k" using reals_Archimedean2 by blast
  then have "deadline - clock w \<le> of_nat k * nap" using nap by (simp add: field_simps less_imp_le)
  from await_counted [OF this, of 0] show ?thesis by blast
qed

end

text \<open>Where a nap takes its time and a question, as long as some condition on the world lasts, at most
  \<open>call\<close>: the loop is left at most one question and one nap after its deadline.\<close>

locale bounded_time = passing_time +
  fixes inv :: "'a \<Rightarrow> bool" and call :: rat
  assumes slept_exactly: "clock (sleep w) = clock w + nap"
    and asked_within: "inv w \<Longrightarrow> clock (snd (ask w)) \<le> clock w + call"
    and inv_kept: "inv w \<Longrightarrow> inv (snd (ask w))" "inv w \<Longrightarrow> inv (sleep w)"
begin

lemma await_punctual:
  assumes "await clock sleep ask deadline w = Some (r, w1)" "inv w"
  shows "clock w1 \<le> max (clock w) (deadline + call + nap)"
proof -
  have "await clock sleep ask deadline v = Some (r, w1) \<Longrightarrow> inv v \<Longrightarrow>
      clock w1 \<le> max (clock v) (deadline + call + nap)"
    if "deadline - clock v \<le> of_nat k * nap" for k v
    using that
  proof (induction k arbitrary: v)
    case 0
    then show ?case by (auto simp: await.simps split: if_splits)
  next
    case (Suc k)
    obtain p v1 where a: "ask v = (p, v1)" by fastforce
    have later: "clock v \<le> clock v1" using asked [of v] a by simp
    have soon: "clock v1 \<le> clock v + call" using asked_within [OF Suc.prems(2)] a by simp
    have kept: "inv (sleep v1)" using inv_kept(2) [OF inv_kept(1) [OF Suc.prems(2)]] a by simp
    have "deadline - clock (sleep v1) \<le> of_nat k * nap"
      using slept_exactly [of v1] later Suc.prems(3) by (simp add: algebra_simps)
    note ih = Suc.IH [OF _ kept this]
    show ?case
    proof (cases "clock v < deadline \<and> p = Inr None")
      case True
      then have "await clock sleep ask deadline (sleep v1) = Some (r, w1)"
        using Suc.prems(1) a by (subst (asm) await.simps) simp
      then have "clock w1 \<le> max (clock (sleep v1)) (deadline + call + nap)" by (rule ih)
      then show ?thesis using slept_exactly [of v1] soon True by simp
    next
      case False
      then show ?thesis using Suc.prems(1) a soon nap
        by (subst (asm) await.simps) (auto split: if_splits sum.splits option.splits)
    qed
  qed
  moreover obtain k where "(deadline - clock w) / nap < of_nat k" using reals_Archimedean2 by blast
  then have "deadline - clock w \<le> of_nat k * nap" using nap by (simp add: field_simps less_imp_le)
  ultimately show ?thesis using assms by blast
qed

end

end
