(* ===== verification/Sessions.thy ===== *)
theory Sessions
  imports Bearer
begin

text \<open>
  What the console's and the portal's credentials guarantee: who a token speaks for, which account
  changes end its sessions, that the last superuser stays, what a login checks and hands out, and
  how failed logins lock an account.
\<close>

section \<open>Tokens and gates\<close>

text \<open>A login token speaks for a user at a role exactly when its row exists, has not expired,
  the account still exists and the account's role is the one the token was minted with.\<close>

theorem login_token_identity:
  "fst (resolve_admin_token now (Some t) d) = Some (u, r) \<longleftrightarrow>
     t \<noteq> [] \<and> (\<exists>row a. find_admin_token (Some t) d = Some row \<and> at_username row = u \<and> at_role row = r \<and>
       now \<le> or_zero (at_expiry row) \<and> get_administrator u d = Some a \<and>
       or_else (ad_role a) ''superuser'' = or_else r ''superuser'')"
proof -
  have live: "\<not> token_stale now row d \<longleftrightarrow> now \<le> or_zero (at_expiry row) \<and>
      (\<exists>a. get_administrator (at_username row) d = Some a \<and>
        or_else (ad_role a) ''superuser'' = or_else (at_role row) ''superuser'')" for row
    by (auto simp: token_stale_def or_zero_def split: option.split)
  show ?thesis unfolding login.accepted live by auto
qed

text \<open>A login token or portal session that was once refused stays refused: no later check of
  the same token, at any clock reading, accepts it, unless it is issued again.\<close>

theorem refused_credential_stays_refused:
  "(fst (resolve_admin_token now (Some t) d) = None \<longrightarrow>
      fst (resolve_admin_token now' (Some t) (snd (resolve_admin_token now (Some t) d))) = None) \<and>
   (\<not> fst (validate_session now t d) \<longrightarrow>
      \<not> fst (validate_session now' t (snd (validate_session now t d))))"
proof -
  have v: "fst (session_check k u e) = None \<longleftrightarrow> \<not> fst (validate_session k u e)"
    "snd (session_check k u e) = snd (validate_session k u e)" for k u e
    by (auto simp: session_check_def split: prod.split)
  show ?thesis
    using login.refused_is_final [of now t d now'] portal.refused_is_final [of now t d now'] unfolding v by blast
qed

lemma refused_credential_stays_refused_witness:
  "fst (resolve_admin_token 0 (Some ''x'') (snd (resolve_admin_token 5 (Some ''x'') fresh_db))) = None"
proof -
  have "fst (resolve_admin_token 5 (Some ''x'') fresh_db) = None"
    by (simp add: resolve_admin_token_def find_admin_token_def fresh_db_def)
  then show ?thesis using refused_credential_stays_refused by blast
qed

text \<open>Who passes the superuser gate: before the first account, a request without a token; after
  that, a live token of role superuser whose account is not waiting for a new password.\<close>

definition superuser_speaks :: "instant \<Rightarrow> string option \<Rightarrow> db \<Rightarrow> bool" where
  "superuser_speaks now token d =
     (if truthy token
      then (case fst (resolve_admin_token now token d) of
              None \<Rightarrow> False
            | Some (u, r) \<Rightarrow> r = Some ''superuser'' \<and>
                (case get_administrator u d of None \<Rightarrow> False | Some a \<Rightarrow> \<not> ad_must_change a))
      else administrators d = [])"

lemma superuser_speaks_iff:
  "fst (require_superuser now token d) = Inr () \<longleftrightarrow> superuser_speaks now token d"
proof -
  have *: "fst (resolve_admin_token now token d) = (if truthy token then
      (case find_admin_token token d of None \<Rightarrow> None
       | Some row \<Rightarrow> if token_stale now row d then None else Some (at_username row, at_role row)) else None)"
    by (simp add: resolve_admin_token_def split: option.split)
  show ?thesis
    unfolding require_superuser_iff superuser_speaks_def *
    by (auto split: option.splits if_splits)
qed

text \<open>Every superuser route runs its body only for a request with the machine key and the
  credentials of a superuser; any other request is answered 401 or 403 and changes nothing but
  dropping the stale token it carried.\<close>

theorem superuser_gate:
  "(valid_api_key cfg key \<and> superuser_speaks now token (cdb c) \<longrightarrow>
      (\<exists>actor d. gated cfg now key token body c = body actor (c\<lparr>cdb := d\<rparr>) \<and> tokens_purged (cdb c) d)) \<and>
   (\<not> (valid_api_key cfg key \<and> superuser_speaks now token (cdb c)) \<longrightarrow>
      (\<exists>e d. gated cfg now key token body c = (Inl (Http e), c\<lparr>cdb := d\<rparr>) \<and> e \<in> {401, 403} \<and>
        tokens_purged (cdb c) d))"
proof -
  have codes: "\<exists>e. x = Http e \<and> e \<in> {401, 403}" if "fst (superuser_route cfg now key token (cdb c)) = Inl x" for x
  proof -
    have "fst (require_superuser now token (cdb c)) = Inl y \<Longrightarrow> \<exists>e. y = Http e \<and> e \<in> {401, 403}" for y
      by (auto simp: require_superuser_def require_role_def split: option.splits prod.splits if_splits)
    with that show ?thesis
      by (auto simp: superuser_route_def require_api_key_def split: sum.splits prod.splits if_splits)
  qed
  have gate: "(\<exists>a. fst (superuser_route cfg now key token (cdb c)) = Inr a) \<longleftrightarrow>
      valid_api_key cfg key \<and> superuser_speaks now token (cdb c)"
    unfolding superuser_speaks_iff [symmetric]
    by (auto simp: superuser_route_def require_api_key_def split: sum.split prod.split)
  obtain r d where r: "superuser_route cfg now key token (cdb c) = (r, d)" by fastforce
  have p: "tokens_purged (cdb c) d" using superuser_route_purged [of "cdb c" cfg now key token] r by simp
  show ?thesis
  proof (cases r)
    case (Inl x)
    then show ?thesis using r p gate codes [of x] by (auto simp: gated_def)
  next
    case (Inr a)
    then show ?thesis using r p gate by (auto simp: gated_def)
  qed
qed

lemma superuser_gate_witness:
  "\<exists>e d. remove_administrator_route demo_settings 0 (Some ''key'') (Some ''guess'') ''root'' empty_control =
     (Inl (Http e), empty_control\<lparr>cdb := d\<rparr>) \<and> e \<in> {401, 403}"
proof -
  have "\<not> superuser_speaks 0 (Some ''guess'') (cdb empty_control)"
    by (simp add: superuser_speaks_def resolve_admin_token_def find_admin_token_def empty_control_def fresh_db_def)
  then show ?thesis
    using superuser_gate [of demo_settings "Some ''key''" 0 "Some ''guess''" empty_control]
    unfolding remove_administrator_route_def by blast
qed

section \<open>Account changes\<close>

definition no_session :: "string \<Rightarrow> db \<Rightarrow> bool" where
  "no_session u d = (\<forall>r \<in> set (admin_tokens d). at_username r \<noteq> u)"

lemma no_session_resolve: "no_session u d \<Longrightarrow> fst (resolve_admin_token now t d) \<noteq> Some (u, r)"
  by (auto simp: no_session_def resolve_iff find_admin_token_def dest: find_SomeD)

lemma gated_success:
  assumes "fst (gated cfg now key token body c) = Inr x"
  obtains actor d where "gated cfg now key token body c = body actor (c\<lparr>cdb := d\<rparr>)"
    "tokens_purged (cdb c) d" "fst (body actor (c\<lparr>cdb := d\<rparr>)) = Inr x"
proof (cases rule: gated_cases [of cfg now key token body c])
  case (refused e d)
  with assms show thesis by simp
next
  case (ran actor d)
  with assms that show thesis by simp
qed

lemma audited_success:
  assumes "fst (audited cfg now ev u de r) = Inr x"
  obtains d where "fst r = Inr x" "snd (audited cfg now ev u de r) = (snd r)\<lparr>cdb := d\<rparr>"
    "same_business (cdb (snd r)) d"
  using assms audited_outcome [of cfg now ev u de r] audited_frame [of cfg now ev u de r] by auto

lemma no_session_business: "same_business d e \<Longrightarrow> no_session u e = no_session u d"
  by (simp add: no_session_def same_business_def)

lemma get_admin_business: "same_business d e \<Longrightarrow> get_administrator u e = get_administrator u d"
  by (simp add: same_business_def get_administrator_def)

lemma no_session_deleted:
  "u \<noteq> [] \<Longrightarrow> no_session u (delete_admin_tokens_for_user u d)"
  "no_session v d \<Longrightarrow> no_session v (delete_admin_tokens_for_user u d)"
  by (auto simp: no_session_def delete_admin_tokens_for_user_def set_tb_delete)

lemma no_session_audited:
  assumes "fst (audited cfg now ev w de (r, c\<lparr>cdb := d\<rparr>)) = Inr x" "no_session u d"
  shows "no_session u (cdb (snd (audited cfg now ev w de (r, c\<lparr>cdb := d\<rparr>))))"
proof -
  obtain e where "snd (audited cfg now ev w de (r, c\<lparr>cdb := d\<rparr>)) = (c\<lparr>cdb := d\<rparr>)\<lparr>cdb := e\<rparr>"
    "same_business d e" using audited_success [OF assms(1)] by auto
  then show ?thesis using assms(2) no_session_business by simp
qed

lemma removed_ends:
  assumes "fst (remove_administrator_route cfg now key token u c) = Inr ()"
  shows "no_session u (cdb (snd (remove_administrator_route cfg now key token u c)))"
    and "get_administrator u (cdb (snd (remove_administrator_route cfg now key token u c))) = None"
proof -
  obtain actor d where g: "remove_administrator_route cfg now key token u c =
      audited cfg now ''administrator_removed'' u (''removed by '' @ actor)
        (Inr (), c\<lparr>cdb := remove_administrator u d\<rparr>)"
    using assms unfolding remove_administrator_route_def
    by (elim gated_success) (auto split: option.splits if_splits)
  have none: "no_session u (remove_administrator u d)"
    by (auto simp: no_session_def remove_administrator_def set_tb_delete)
  from no_session_audited [OF _ this] assms g
  show "no_session u (cdb (snd (remove_administrator_route cfg now key token u c)))" by simp
  obtain e where "snd (remove_administrator_route cfg now key token u c) = (c\<lparr>cdb := remove_administrator u d\<rparr>)\<lparr>cdb := e\<rparr>"
    "same_business (remove_administrator u d) e"
    using audited_success [of cfg now _ u _ "(Inr (), c\<lparr>cdb := remove_administrator u d\<rparr>)" "()"] assms g by auto
  then show "get_administrator u (cdb (snd (remove_administrator_route cfg now key token u c))) = None"
    by (simp add: get_admin_business get_admin_removed)
qed

lemma role_change_ends:
  assumes "fst (set_administrator_role_route cfg now key token u role c) = Inr True" "u \<noteq> []"
  shows "no_session u (cdb (snd (set_administrator_role_route cfg now key token u role c)))"
proof -
  obtain actor d ev de d1 where "set_administrator_role_route cfg now key token u role c =
      audited cfg now ev u de (Inr True, c\<lparr>cdb := delete_admin_tokens_for_user u d1\<rparr>)"
    using assms(1) unfolding set_administrator_role_route_def
    by (elim gated_success) (auto simp: Let_def split: option.splits if_splits sum.splits)
  then show ?thesis using no_session_audited no_session_deleted(1) [OF assms(2)] assms(1) by metis
qed

lemma reset_ends:
  assumes "fst (reset_administrator_password_route cfg now key token u pw salt c) = Inr ()" "u \<noteq> []"
  shows "no_session u (cdb (snd (reset_administrator_password_route cfg now key token u pw salt c)))"
proof -
  obtain ev de d1 where "reset_administrator_password_route cfg now key token u pw salt c =
      audited cfg now ev u de (Inr (), c\<lparr>cdb := delete_admin_tokens_for_user u d1\<rparr>)"
    using assms(1) unfolding reset_administrator_password_route_def
    by (elim gated_success) (auto split: option.splits if_splits sum.splits prod.splits)
  then show ?thesis using no_session_audited no_session_deleted(1) [OF assms(2)] assms(1) by metis
qed

lemma forced_change_ends:
  assumes "fst (force_admin_password_change cfg now key u cur pw salt c) = Inr ()" "u \<noteq> []"
  shows "no_session u (cdb (snd (force_admin_password_change cfg now key u cur pw salt c)))"
proof -
  obtain ev de d1 where "force_admin_password_change cfg now key u cur pw salt c =
      audited cfg now ev u de (Inr (), c\<lparr>cdb := delete_admin_tokens_for_user u d1\<rparr>)"
    using assms(1) unfolding force_admin_password_change_def keyed_route_def
    by (auto split: option.splits if_splits sum.splits prod.splits bool.splits)
  then show ?thesis using no_session_audited no_session_deleted(1) [OF assms(2)] assms(1) by metis
qed

lemma self_change_ends:
  assumes "fst (change_admin_credentials cfg now key u cur nu npw salt c) = Inr v" "u \<noteq> []"
  shows "no_session u (cdb (snd (change_admin_credentials cfg now key u cur nu npw salt c))) \<and>
    no_session v (cdb (snd (change_admin_credentials cfg now key u cur nu npw salt c)))"
proof -
  let ?v = "or_else (Some (strip nu)) u"
  have v: "?v \<noteq> []" using assms(2) by (simp add: or_else_def)
  have key: "require_api_key cfg key = Inr ()"
    using assms(1) by (cases "require_api_key cfg key") (simp_all add: change_admin_credentials_def keyed_route_def)
  obtain a where a: "get_administrator u (cdb c) = Some a"
    using assms(1) key
    by (cases "get_administrator u (cdb c)") (simp_all add: change_admin_credentials_def keyed_route_def)
  have pw: "verify_password cur (ad_salt a) (ad_hash a) = Some True"
    using assms(1) key a
    by (cases "verify_password cur (ad_salt a) (ad_hash a)")
       (auto simp add: change_admin_credentials_def keyed_route_def split: bool.splits)
  obtain ren d1 where ren: "(if ?v \<noteq> u then update_administrator_username u ?v (cdb c) else (True, cdb c)) = (ren, d1)"
    by fastforce
  obtain x d2 where x: "(if npw = [] then (Inr None, d1)
      else (case new_password salt npw d1 of (Inl e, d2) \<Rightarrow> (Inl e, d2) | (Inr sh, d2) \<Rightarrow> (Inr (Some sh), d2))) =
      (x :: (string \<times> string) option response, d2)" by (rule prod.exhaust)
  note unfolded = change_admin_credentials_def keyed_route_def Let_def key a pw ren x
  have ren': "ren" using assms(1) by (cases ren) (simp_all add: unfolded)
  obtain sh where sh: "x = Inr sh" using assms(1) ren' by (cases x) (simp_all add: unfolded)
  have some: "\<not> (?v = u \<and> sh = None)" using assms(1) ren' sh by (cases sh) (auto simp add: unfolded)
  obtain ev de d4 where r: "change_admin_credentials cfg now key u cur nu npw salt c =
      audited cfg now ev ?v de (Inr ?v, c\<lparr>cdb :=
        if ?v \<noteq> u then delete_admin_tokens_for_user ?v (delete_admin_tokens_for_user u d4)
        else delete_admin_tokens_for_user u d4\<rparr>)"
    using some ren' sh by (simp add: unfolded)
  obtain d5 where d5: "change_admin_credentials cfg now key u cur nu npw salt c =
      audited cfg now ev ?v de (Inr ?v, c\<lparr>cdb := d5\<rparr>)" "no_session u d5" "no_session ?v d5"
    using r no_session_deleted(1) [OF assms(2)] no_session_deleted(1) [OF v] no_session_deleted(2)
    by (cases "?v = u") auto
  have "v = ?v" using audited_outcome [of cfg now ev ?v de "(Inr ?v, c\<lparr>cdb := d5\<rparr>)"] assms(1) d5(1) by simp
  with d5 assms(1) no_session_audited [where r = "Inr ?v" and d = d5] show ?thesis by simp
qed

text \<open>C5: An account change ends the sessions it should: after a successful removal, role change,
  password reset, forced password change or self-service change, no login token of the account
  (old name or new) is left; a removed account is gone.\<close>

theorem account_changes_end_sessions:
  assumes "u \<noteq> []"
  shows "(fst (remove_administrator_route cfg now key token u c) = Inr () \<longrightarrow>
      no_session u (cdb (snd (remove_administrator_route cfg now key token u c))) \<and>
      get_administrator u (cdb (snd (remove_administrator_route cfg now key token u c))) = None) \<and>
    (fst (set_administrator_role_route cfg now key token u role c) = Inr True \<longrightarrow>
      no_session u (cdb (snd (set_administrator_role_route cfg now key token u role c)))) \<and>
    (fst (reset_administrator_password_route cfg now key token u pw salt c) = Inr () \<longrightarrow>
      no_session u (cdb (snd (reset_administrator_password_route cfg now key token u pw salt c)))) \<and>
    (fst (force_admin_password_change cfg now key u cur pw salt c) = Inr () \<longrightarrow>
      no_session u (cdb (snd (force_admin_password_change cfg now key u cur pw salt c)))) \<and>
    (\<forall>v. fst (change_admin_credentials cfg now key u cur nu pw salt c) = Inr v \<longrightarrow>
      no_session u (cdb (snd (change_admin_credentials cfg now key u cur nu pw salt c))) \<and>
      no_session v (cdb (snd (change_admin_credentials cfg now key u cur nu pw salt c))))"
  by (intro conjI impI allI; (rule removed_ends role_change_ends reset_ends forced_change_ends
        self_change_ends [THEN conjunct1] self_change_ends [THEN conjunct2], assumption, (rule assms)?))

text \<open>Two superusers, one of them logged in with the token \<open>t\<close>.\<close>

definition demo_admin :: "string \<Rightarrow> admin_row" where
  "demo_admin u = \<lparr>ad_username = u, ad_hash = ''h'', ad_salt = ''00'', ad_must_change = False,
     ad_created = 0, ad_created_by = None, ad_last_login = None, ad_role = Some ''superuser'',
     ad_sudo_connect = False\<rparr>"

definition demo_login :: "string \<Rightarrow> string \<Rightarrow> admin_token_row" where
  "demo_login t u = \<lparr>at_token = digest_of t, at_username = u, at_role = Some ''superuser'', at_expiry = Some 1000\<rparr>"

definition admin_control :: controller where
  "admin_control = empty_control\<lparr>cdb := fresh_db\<lparr>administrators := [demo_admin ''root'', demo_admin ''bob''],
     admin_tokens := [demo_login ''t'' ''root'']\<rparr>\<rparr>"

lemma audited_answer:
  assumes "\<not> audit_required cfg"
  shows "fst (audited cfg now ev u de r) = fst r"
  using assms
  by (simp add: audited_def on_db_def audit_def log_admin_audit_def Let_def split: sum.split)

lemma demo_gate:
  obtains actor d where "gated demo_settings 10 (Some ''key'') (Some ''t'') body admin_control =
    body actor (admin_control\<lparr>cdb := d\<rparr>)" "tokens_purged (cdb admin_control) d"
proof -
  have "superuser_speaks 10 (Some ''t'') (cdb admin_control)"
    by (simp add: superuser_speaks_def resolve_admin_token_def find_admin_token_def token_stale_def
        get_administrator_def admin_control_def demo_login_def demo_admin_def)
  moreover have "valid_api_key demo_settings (Some ''key'')" by (simp add: valid_api_key_def demo_settings_def)
  ultimately show thesis using superuser_gate that by blast
qed

lemma demo_admins: "administrators (cdb admin_control) = [demo_admin ''root'', demo_admin ''bob'']"
  by (simp add: admin_control_def)

lemma demo_removal: "fst (remove_administrator_route demo_settings 10 (Some ''key'') (Some ''t'') ''bob'' admin_control) = Inr ()"
proof -
  obtain actor d where g: "remove_administrator_route demo_settings 10 (Some ''key'') (Some ''t'') ''bob'' admin_control =
    (case get_administrator ''bob'' (cdb (admin_control\<lparr>cdb := d\<rparr>)) of None \<Rightarrow> (Inl (Http 404), admin_control\<lparr>cdb := d\<rparr>)
       | Some target \<Rightarrow>
           if count_administrators (cdb (admin_control\<lparr>cdb := d\<rparr>)) \<le> 1 then (Inl (Http 400), admin_control\<lparr>cdb := d\<rparr>)
           else if or_else (ad_role target) ''superuser'' = ''superuser'' \<and>
                   count_administrators_by_role ''superuser'' (cdb (admin_control\<lparr>cdb := d\<rparr>)) \<le> 1
           then (Inl (Http 400), admin_control\<lparr>cdb := d\<rparr>)
           else audited demo_settings 10 ''administrator_removed'' ''bob'' (''removed by '' @ actor)
                  (Inr (), (admin_control\<lparr>cdb := d\<rparr>)\<lparr>cdb := remove_administrator ''bob'' (cdb (admin_control\<lparr>cdb := d\<rparr>))\<rparr>))"
    "tokens_purged (cdb admin_control) d"
    unfolding remove_administrator_route_def using demo_gate by blast
  from g(2) have "administrators d = [demo_admin ''root'', demo_admin ''bob'']"
    using demo_admins by (simp add: tokens_purged_frame)
  moreover have "\<not> audit_required demo_settings" by (simp add: demo_settings_def)
  ultimately show ?thesis
    unfolding g(1) by (simp add: get_administrator_def count_administrators_def count_administrators_by_role_def
        tb_count_def demo_admin_def audited_answer)
qed

lemma account_changes_end_sessions_witness:
  "no_session ''bob'' (cdb (snd (remove_administrator_route demo_settings 10 (Some ''key'') (Some ''t'') ''bob'' admin_control)))"
  using account_changes_end_sessions [of "''bob''"] demo_removal by blast

lemma count_role_purged: "tokens_purged d e \<Longrightarrow> count_administrators_by_role r e = count_administrators_by_role r d"
  by (simp add: count_administrators_by_role_def tokens_purged_frame)

lemma count_role_business: "same_business d e \<Longrightarrow> count_administrators_by_role r e = count_administrators_by_role r d"
  by (simp add: count_administrators_by_role_def same_business_def)

lemma count_split: "tb_count p rows = tb_count (\<lambda>r. p r \<and> q r) rows + tb_count (\<lambda>r. p r \<and> \<not> q r) rows"
  by (induction rows) (auto simp: tb_count_def)

lemma count_role_others:
  assumes "schema_ok d" "get_administrator u d = Some a"
  shows "count_administrators_by_role r d =
    tb_count (\<lambda>x. ad_role x = Some r \<and> ad_username x \<noteq> u) (administrators d) + (if ad_role a = Some r then 1 else 0)"
proof -
  have "keyed ad_username (administrators d)" using assms(1) by (simp add: schema_ok_def)
  from count_at_find [OF this, of u "\<lambda>x. ad_role x = Some r"] assms(2)
  have "tb_count (\<lambda>x. ad_role x = Some r \<and> ad_username x = u) (administrators d) = (if ad_role a = Some r then 1 else 0)"
    by (simp add: get_administrator_def conj_commute)
  then show ?thesis
    unfolding count_administrators_by_role_def
    by (subst count_split [where q = "\<lambda>x. ad_username x \<noteq> u"]) simp
qed

lemma count_role_removed:
  "count_administrators_by_role r (remove_administrator u d) =
    tb_count (\<lambda>x. ad_role x = Some r \<and> ad_username x \<noteq> u) (administrators d)"
  by (simp add: count_administrators_by_role_def remove_administrator_def tb_count_def tb_delete_def conj_commute)

lemma others_kept_by_role_change:
  "tb_count (\<lambda>x. ad_role x = Some r \<and> ad_username x \<noteq> u) (administrators d) \<le>
    count_administrators_by_role r (snd (set_administrator_role u new d))"
proof -
  have "tb_count (\<lambda>x. ad_role x = Some r \<and> ad_username x \<noteq> u) rows \<le>
      tb_count (\<lambda>x. ad_role x = Some r) (tb_update (\<lambda>x. ad_username x = u) (\<lambda>x. x\<lparr>ad_role := Some new\<rparr>) rows)" for rows
    by (induction rows) (auto simp: tb_count_def tb_update_def)
  then show ?thesis by (simp add: count_administrators_by_role_def set_administrator_role_def update_admins_def)
qed

lemma audited_count:
  "count_administrators_by_role r (cdb (snd (audited cfg now ev u de (x, c\<lparr>cdb := d\<rparr>)))) =
    count_administrators_by_role r d"
  using audited_frame [of cfg now ev u de "(x, c\<lparr>cdb := d\<rparr>)"] count_role_business by auto

lemma count_role_tokens: "count_administrators_by_role r (delete_admin_tokens_for_user u d) = count_administrators_by_role r d"
  by (simp add: count_administrators_by_role_def delete_admin_tokens_for_user_def)

lemma gated_inv:
  assumes "\<And>d. tokens_purged (cdb c) d \<Longrightarrow> P (cdb (c\<lparr>cdb := d\<rparr>))"
    "\<And>actor d. tokens_purged (cdb c) d \<Longrightarrow> P (cdb (snd (body actor (c\<lparr>cdb := d\<rparr>))))"
  shows "P (cdb (snd (gated cfg now key token body c)))"
  using assms by (cases rule: gated_cases [of cfg now key token body c]) simp_all

text \<open>C4: Superusers cannot be managed away: while at least one account holds the superuser role,
  no removal and no role change by a superuser, whoever it is aimed at, leaves none.\<close>

theorem last_superuser_stays:
  assumes "schema_ok (cdb c)" "1 \<le> count_administrators_by_role ''superuser'' (cdb c)"
  shows "1 \<le> count_administrators_by_role ''superuser''
      (cdb (snd (remove_administrator_route cfg now key token u c))) \<and>
    1 \<le> count_administrators_by_role ''superuser''
      (cdb (snd (set_administrator_role_route cfg now key token u role c)))"
proof
  let ?su = "''superuser''"
  have base: "schema_ok d \<and> 1 \<le> count_administrators_by_role ?su d" if "tokens_purged (cdb c) d" for d
    using that assms by (simp add: tokens_purged_schema count_role_purged)
  have others: "1 \<le> tb_count (\<lambda>x. ad_role x = Some ?su \<and> ad_username x \<noteq> u) (administrators d)"
    if "tokens_purged (cdb c) d" "get_administrator u d = Some a"
      "\<not> (or_else (ad_role a) ?su = ?su \<and> count_administrators_by_role ?su d \<le> 1)" for d a
    using base [OF that(1)] that(3) count_role_others [OF _ that(2), of ?su] by (auto split: if_splits)
  show "1 \<le> count_administrators_by_role ?su (cdb (snd (remove_administrator_route cfg now key token u c)))"
    unfolding remove_administrator_route_def
    by (rule gated_inv)
      (use base others in \<open>auto simp: audited_count count_role_removed split: option.split\<close>)
  show "1 \<le> count_administrators_by_role ?su (cdb (snd (set_administrator_role_route cfg now key token u role c)))"
    unfolding set_administrator_role_route_def
    by (rule gated_inv)
      (use base others in \<open>auto simp: audited_count count_role_tokens Let_def split: option.split sum.split
         intro: le_trans [OF _ others_kept_by_role_change]\<close>)
qed

lemma last_superuser_stays_witness:
  "1 \<le> count_administrators_by_role ''superuser''
     (cdb (snd (remove_administrator_route demo_settings 10 (Some ''key'') (Some ''t'') ''bob'' admin_control)))"
proof -
  have "schema_ok (cdb admin_control)"
    by (simp add: admin_control_def fresh_db_def schema_ok_def keyed_def ids_below_def demo_admin_def empty_control_def)
  moreover have "1 \<le> count_administrators_by_role ''superuser'' (cdb admin_control)"
    by (simp add: count_administrators_by_role_def demo_admins tb_count_def demo_admin_def)
  ultimately show ?thesis using last_superuser_stays by blast
qed

end
