(* ===== verification/Console_Login.thy ===== *)
theory Console_Login
  imports Sessions
begin

text \<open>
  The password login: what it checks and what the token it hands out is good for, and how failed
  attempts lock a name.
\<close>

section \<open>The password gate\<close>

lemma audited_refuses: "fst (audited cfg now ev u de (Inl e, c)) \<in> {Inl e, Inl (Http 500)}"
  using audited_outcome [of cfg now ev u de "(Inl e, c)"] by simp

lemma password_gate_passed:
  assumes "password_gate cfg now thr failed u pw c = (Inr (), c1)"
  shows "c1 = c" "login_throttle_locked_for now (throttle_key u) (cdb c) = 0"
    "credentials_valid u pw (cdb c) = Some True"
proof -
  have no: "audited cfg now ev u de (Inl e, c') \<noteq> (Inr (), c1)" for ev de e c'
    using audited_refuses [where 'a = unit, of cfg now ev u de e c'] by auto
  show "c1 = c" "login_throttle_locked_for now (throttle_key u) (cdb c) = 0"
    "credentials_valid u pw (cdb c) = Some True"
    using assms no by (auto simp: password_gate_def Let_def split: if_splits option.splits bool.splits)
qed

lemma throttle_key_not_Nil [simp]: "throttle_key u \<noteq> []"
  by (simp add: throttle_key_def)

lemma find_throttle_business: "same_business d e \<Longrightarrow> find_throttle k e = find_throttle k d"
  by (simp add: find_throttle_def same_business_def)

lemma locked_for_business:
  "same_business d e \<Longrightarrow> login_throttle_locked_for now k e = login_throttle_locked_for now k d"
  by (simp add: login_throttle_locked_for_def find_throttle_business)

section \<open>A successful login\<close>

lemma admin_login_success:
  assumes "admin_login cfg now key u_in pw salt tok c = (Inr a, c')"
  obtains acc d where "valid_api_key cfg key"
    "login_throttle_locked_for now (throttle_key (strip u_in)) (cdb c) = 0"
    "credentials_valid (strip u_in) pw (cdb c) = Some True"
    "get_administrator (strip u_in) (cdb c) = Some acc"
    "a = \<lparr>la_username = strip u_in, la_role = or_else (ad_role acc) ''auditor'', la_token = tok,
          la_must_change = ad_must_change acc, la_sudo_connect = ad_sudo_connect acc\<rparr>"
    "cdb c' = create_admin_token tok (strip u_in) (or_else (ad_role acc) ''auditor'') (now + ADMIN_TOKEN_TTL) d"
    "same_business (record_administrator_login now (strip u_in)
       (login_throttle_clear (throttle_key (strip u_in)) (rehash_on_login salt (strip u_in) pw (cdb c)))) d"
proof -
  have key: "valid_api_key cfg key"
    using assms by (auto simp: admin_login_def keyed_route_def require_api_key_def Let_def split: if_splits)
  obtain c1 where g: "password_gate cfg now ''login_throttled'' ''login_failed'' (strip u_in) pw c = (Inr (), c1)"
    using assms key
    by (cases "password_gate cfg now ''login_throttled'' ''login_failed'' (strip u_in) pw c")
       (auto simp: admin_login_def keyed_route_def require_api_key_def Let_def split: sum.splits)
  note gate = password_gate_passed [OF g]
  obtain acc where acc: "get_administrator (strip u_in) (cdb c) = Some acc"
    using gate(3) by (auto simp: credentials_valid_def split: option.splits)
  let ?d = "record_administrator_login now (strip u_in)
       (login_throttle_clear (throttle_key (strip u_in)) (rehash_on_login salt (strip u_in) pw (cdb c)))"
  obtain d where d: "log_admin_audit (audit_key cfg) (audit_required cfg) now (Some ''login_success'')
      (Some (strip u_in)) (Some []) ?d = Inr d"
    using assms key acc gate(1)
    by (cases "log_admin_audit (audit_key cfg) (audit_required cfg) now (Some ''login_success'')
          (Some (strip u_in)) (Some []) ?d")
       (auto simp: admin_login_def keyed_route_def require_api_key_def Let_def g)
  show thesis
    by (rule that [OF key gate(2,3) acc _ _ log_admin_audit_business [OF d]])
       (use assms key gate(1) acc d in \<open>auto simp: admin_login_def keyed_route_def require_api_key_def Let_def g\<close>)
qed

lemma role_after_login:
  assumes "get_administrator u d0 = Some acc"
    and "same_business (record_administrator_login now u
       (login_throttle_clear k (rehash_on_login salt u pw d0))) d"
  obtains acc' where "get_administrator u d = Some acc'" "ad_role acc' = ad_role acc"
  using assms that
  by (auto simp: get_admin_business record_administrator_login_def rehash_on_login_def login_throttle_clear_def
      update_administrator_password_def admin_simps split: option.splits prod.splits if_splits)

text \<open>C11: What a login is: it succeeds only with the machine key, for a name that is not locked and
  with the password of that account; it clears the name's failures; and the token it hands out
  speaks for the account at its role exactly until the token expires.  (For an account with no
  role the token is minted as an auditor's and never speaks for anyone.)\<close>

theorem login_issues_session:
  assumes "admin_login cfg now key u_in pw salt tok c = (Inr a, c')" "tok \<noteq> []"
  shows "valid_api_key cfg key \<and>
    login_throttle_locked_for now (throttle_key (strip u_in)) (cdb c) = 0 \<and>
    credentials_valid (strip u_in) pw (cdb c) = Some True \<and>
    find_throttle (throttle_key (strip u_in)) (cdb c') = None \<and>
    (\<exists>acc. get_administrator (strip u_in) (cdb c) = Some acc \<and>
      la_role a = or_else (ad_role acc) ''auditor'' \<and>
      (\<forall>t. fst (resolve_admin_token t (Some tok) (cdb c')) =
        (if truthy (ad_role acc) \<and> t \<le> now + ADMIN_TOKEN_TTL
         then Some (strip u_in, Some (la_role a)) else None)))"
proof -
  obtain acc d where l: "valid_api_key cfg key"
    "login_throttle_locked_for now (throttle_key (strip u_in)) (cdb c) = 0"
    "credentials_valid (strip u_in) pw (cdb c) = Some True"
    "get_administrator (strip u_in) (cdb c) = Some acc"
    "a = \<lparr>la_username = strip u_in, la_role = or_else (ad_role acc) ''auditor'', la_token = tok,
          la_must_change = ad_must_change acc, la_sudo_connect = ad_sudo_connect acc\<rparr>"
    and c': "cdb c' = create_admin_token tok (strip u_in) (or_else (ad_role acc) ''auditor'') (now + ADMIN_TOKEN_TTL) d"
    and d: "same_business (record_administrator_login now (strip u_in)
       (login_throttle_clear (throttle_key (strip u_in)) (rehash_on_login salt (strip u_in) pw (cdb c)))) d"
    by (rule admin_login_success [OF assms(1)])
  obtain acc' where acc': "get_administrator (strip u_in) d = Some acc'" "ad_role acc' = ad_role acc"
    by (rule role_after_login [OF l(4) d])
  have row: "find_admin_token (Some tok) (cdb c') = Some \<lparr>at_token = digest_of tok, at_username = strip u_in,
      at_role = Some (or_else (ad_role acc) ''auditor''), at_expiry = Some (now + ADMIN_TOKEN_TTL)\<rparr>"
    by (simp add: c' admin_simps)
  have adm: "get_administrator (strip u_in) (cdb c') = Some acc'"
    using acc'(1) by (simp add: c' create_admin_token_def)
  have same: "or_else (ad_role acc) ''superuser'' = or_else (Some (or_else (ad_role acc) ''auditor'')) ''superuser''
      \<longleftrightarrow> truthy (ad_role acc)"
    by (cases "ad_role acc") (auto simp: or_else_def truthy_def)
  have "fst (resolve_admin_token t (Some tok) (cdb c')) =
      (if truthy (ad_role acc) \<and> t \<le> now + ADMIN_TOKEN_TTL
       then Some (strip u_in, Some (la_role a)) else None)" for t
    using assms(2) row adm same acc'(2) l(5) by (auto simp: login.check_answer token_stale_def)
  moreover have "find_throttle (throttle_key (strip u_in)) (cdb c') = None"
    using find_throttle_business [OF d, of "throttle_key (strip u_in)"]
    by (simp add: c' create_admin_token_def find_throttle_def [of _ "d\<lparr>admin_tokens := _\<rparr>"]
        find_throttle_def [symmetric] record_administrator_login_def find_throttle_def [of _ "update_admins _ _ _"])
       (simp add: find_throttle_def [symmetric] admin_simps)
  moreover have "la_role a = or_else (ad_role acc) ''auditor''" by (simp add: l(5))
  ultimately show ?thesis using l(1-4) by blast
qed

text \<open>A login that works.\<close>

lemma demo_admin_login:
  obtains c a c' acc where
    "admin_login demo_settings 10 (Some ''key'') ''ann'' ''secret'' ''00ff'' ''tok'' c = (Inr a, c')"
    "get_administrator ''ann'' (cdb c) = Some acc" "ad_role acc = Some ''superuser''" "\<not> ad_must_change acc"
proof -
  obtain s h where h: "hash_password ''00ff'' ''secret'' = Some (s, h)" by (rule some_password_is_hashed)
  have ver: "verify_password ''secret'' s h = Some True" using own_hash_verifies(1) [OF h] by simp
  define c where "c = empty_control\<lparr>cdb := fresh_db\<lparr>administrators := [(demo_admin ''ann'')\<lparr>ad_hash := h, ad_salt := s\<rparr>]\<rparr>\<rparr>"
  have ann: "get_administrator ''ann'' (cdb c) = Some ((demo_admin ''ann'')\<lparr>ad_hash := h, ad_salt := s\<rparr>)"
    by (simp add: c_def get_administrator_def demo_admin_def)
  have "login_throttle_locked_for 10 k (cdb c) = 0" for k
    by (simp add: login_throttle_locked_for_def find_throttle_def c_def fresh_db_def)
  then have gate: "password_gate demo_settings 10 thr failed ''ann'' ''secret'' c = (Inr (), c)" for thr failed
    using ver by (simp add: password_gate_def credentials_valid_def ann demo_admin_def)
  have key: "require_api_key demo_settings (Some ''key'') = Inr ()"
    by (simp add: require_api_key_def valid_api_key_def demo_settings_def truthy_def)
  have ann': "strip ''ann'' = ''ann''" by code_simp
  obtain d where "log_admin_audit (audit_key demo_settings) (audit_required demo_settings) 10
      (Some ''login_success'') (Some ''ann'') (Some []) (record_administrator_login 10 ''ann''
        (login_throttle_clear (throttle_key ''ann'') (rehash_on_login ''00ff'' ''ann'' ''secret'' (cdb c)))) = Inr d"
    by (simp add: log_admin_audit_def Let_def demo_settings_def)
  then obtain a c' where l: "admin_login demo_settings 10 (Some ''key'') ''ann'' ''secret'' ''00ff'' ''tok'' c = (Inr a, c')"
    by (simp add: admin_login_def keyed_route_def key Let_def gate ann' ann)
  show thesis by (rule that [OF l ann]) (simp_all add: demo_admin_def)
qed

lemma login_issues_session_witness:
  "\<exists>c a c'. admin_login demo_settings 10 (Some ''key'') ''ann'' ''secret'' ''00ff'' ''tok'' c = (Inr a, c') \<and>
     fst (resolve_admin_token 20 (Some ''tok'') (cdb c')) = Some (''ann'', Some ''superuser'')"
proof -
  obtain c a c' acc where l: "admin_login demo_settings 10 (Some ''key'') ''ann'' ''secret'' ''00ff'' ''tok'' c = (Inr a, c')"
    "get_administrator ''ann'' (cdb c) = Some acc" "ad_role acc = Some ''superuser''" by (rule demo_admin_login)
  have ann': "strip ''ann'' = ''ann''" by code_simp
  have "fst (resolve_admin_token 20 (Some ''tok'') (cdb c')) = Some (''ann'', Some ''superuser'')"
    using login_issues_session [OF l(1)] l(2,3) ann' by (auto simp: ADMIN_TOKEN_TTL_def)
  with l(1) show ?thesis by blast
qed

section \<open>Failed attempts\<close>

text \<open>A refused attempt is counted: the throttle row of the name is the recorded one.\<close>

lemma login_refused:
  assumes "fst (admin_login cfg now key u pw salt tok c) = Inl (Http 401)" "valid_api_key cfg key"
  shows "login_throttle_locked_for now (throttle_key (strip u)) (cdb c) = 0"
    and "find_throttle k (cdb (snd (admin_login cfg now key u pw salt tok c))) =
      find_throttle k (admin_login_record_failure now (throttle_key (strip u)) (cdb c))"
proof -
  let ?g = "password_gate cfg now ''login_throttled'' ''login_failed'' (strip u) pw c"
  have key: "require_api_key cfg key = Inr ()" using assms(2) by (simp add: require_api_key_def)
  have r: "fst ?g = Inl (Http 401) \<and> snd (admin_login cfg now key u pw salt tok c) = snd ?g"
    using assms(1)
    by (cases ?g) (auto simp: admin_login_def keyed_route_def key Let_def
        split: sum.splits option.splits)
  have ans: "fst (audited cfg now ev w de (Inl e, c') :: unit response \<times> controller) \<in> {Inl e, Inl (Http 500)}"
    for ev w de e c' using audited_refuses [where 'a = unit] .
  show unlocked: "login_throttle_locked_for now (throttle_key (strip u)) (cdb c) = 0"
  proof (rule ccontr)
    assume "login_throttle_locked_for now (throttle_key (strip u)) (cdb c) \<noteq> 0"
    then obtain de where "?g = audited cfg now ''login_throttled'' (strip u) de (Inl (Http 429), c)"
      by (simp add: password_gate_def Let_def)
    with r ans [of "''login_throttled''" "strip u" de "Http 429" c] show False by auto
  qed
  have "credentials_valid (strip u) pw (cdb c) = Some False"
    using r unlocked by (auto simp: password_gate_def Let_def split: option.splits bool.splits)
  then show "find_throttle k (cdb (snd (admin_login cfg now key u pw salt tok c))) =
      find_throttle k (admin_login_record_failure now (throttle_key (strip u)) (cdb c))"
    using r unlocked audited_frame [where 'a = unit, of cfg now "''login_failed''" "strip u" "''Invalid username or password''"
        "(Inl (Http 401), c\<lparr>cdb := admin_login_record_failure now (throttle_key (strip u)) (cdb c)\<rparr>)"]
    by (auto simp: password_gate_def find_throttle_business)
qed

lemma login_locked:
  assumes "login_throttle_locked_for now (throttle_key (strip u)) (cdb c) \<noteq> 0" "valid_api_key cfg key"
  shows "fst (admin_login cfg now key u pw salt tok c) \<in> {Inl (Http 429), Inl (Http 500)}"
    "same_business (cdb c) (cdb (snd (admin_login cfg now key u pw salt tok c)))"
proof -
  let ?g = "password_gate cfg now ''login_throttled'' ''login_failed'' (strip u) pw c"
  have key: "require_api_key cfg key = Inr ()" using assms(2) by (simp add: require_api_key_def)
  obtain de where g: "?g = audited cfg now ''login_throttled'' (strip u) de (Inl (Http 429), c)"
    using assms(1) by (simp add: password_gate_def Let_def)
  have ans: "fst ?g \<in> {Inl (Http 429), Inl (Http 500)}" unfolding g by (rule audited_refuses)
  then have "fst (admin_login cfg now key u pw salt tok c) \<in> {Inl (Http 429), Inl (Http 500)} \<and>
      snd (admin_login cfg now key u pw salt tok c) = snd ?g"
    by (cases ?g) (auto simp: admin_login_def keyed_route_def key Let_def)
  moreover have "same_business (cdb c) (cdb (snd ?g))"
    unfolding g using audited_frame [where 'a = unit, of cfg now "''login_throttled''" "strip u" de "(Inl (Http 429), c)"]
    by auto
  ultimately show "fst (admin_login cfg now key u pw salt tok c) \<in> {Inl (Http 429), Inl (Http 500)}"
    "same_business (cdb c) (cdb (snd (admin_login cfg now key u pw salt tok c)))" by simp_all
qed

text \<open>A series of attempts for one name, each with its own clock reading, password and draws.\<close>

fun login_attempts ::
    "settings \<Rightarrow> string option \<Rightarrow> string \<Rightarrow> (instant \<times> string \<times> string \<times> string) list \<Rightarrow> controller \<Rightarrow>
     login_answer response list \<times> controller" where
  "login_attempts cfg key u [] c = ([], c)"
| "login_attempts cfg key u ((now, pw, salt, tok) # xs) c =
     (case admin_login cfg now key u pw salt tok c of (r, c1) \<Rightarrow>
       (case login_attempts cfg key u xs c1 of (rs, c2) \<Rightarrow> (r # rs, c2)))"

definition counting :: "string \<Rightarrow> instant list \<Rightarrow> db \<Rightarrow> bool" where
  "counting k ts d =
     (ts = [] \<or> (\<exists>r pre. find_throttle k d = Some r \<and> lt_fails r = Some (pre @ ts) \<and>
        length (pre @ ts) < ADMIN_LOGIN_MAX_FAILURES))"

definition locked_until :: "string \<Rightarrow> instant \<Rightarrow> db \<Rightarrow> bool" where
  "locked_until k t d = (\<exists>r. find_throttle k d = Some r \<and> lt_until r = Some t)"

lemma locked_until_locks:
  assumes "locked_until k u d" "k \<noteq> []" "t + 1 \<le> u"
  shows "login_throttle_locked_for t k d \<noteq> 0"
proof -
  have "\<lfloor>u - t\<rfloor> \<noteq> 0" using assms(3) by linarith
  then show ?thesis
    using assms by (auto simp: locked_until_def login_throttle_locked_for_def Let_def or_zero_def py_int_def)
qed

lemma failure_counts:
  assumes "counting k ts d" "\<forall>t \<in> set ts. now - t < ADMIN_LOGIN_WINDOW_S" "k \<noteq> []"
    and "find_throttle k d' = find_throttle k (admin_login_record_failure now k d)"
  shows "counting k (ts @ [now]) d' \<or> locked_until k (now + of_int ADMIN_LOGIN_LOCKOUT_S) d'"
proof -
  define fails where "fails = (case find_throttle k d of None \<Rightarrow> []
    | Some r \<Rightarrow> (case lt_fails r of None \<Rightarrow> [] | Some f \<Rightarrow> f))"
  have "\<exists>pre. filter (\<lambda>t. now - t < ADMIN_LOGIN_WINDOW_S) fails = pre @ ts"
    using assms(1,2) by (auto simp: counting_def fails_def filter_id_conv [THEN iffD2])
  then obtain pre where pre: "filter (\<lambda>t. now - t < ADMIN_LOGIN_WINDOW_S) fails @ [now] = pre @ ts @ [now]"
    by auto
  show ?thesis
    using assms(3,4) find_throttle_recorded [OF assms(3), of k now ADMIN_LOGIN_WINDOW_S ADMIN_LOGIN_MAX_FAILURES
        ADMIN_LOGIN_LOCKOUT_S d]
    unfolding admin_login_record_failure_def fails_def [symmetric] Let_def pre
    by (auto simp: counting_def locked_until_def split: if_splits)
qed

lemma attempts_count:
  assumes "valid_api_key cfg key" "counting (throttle_key (strip u)) ts (cdb c)"
    and "login_attempts cfg key u xs c = (rs, c')" "list_all (\<lambda>r. r = Inl (Http 401)) rs" "xs \<noteq> []"
    and "\<forall>t \<in> set (ts @ map fst xs). fst (last xs) - 599 \<le> t" "sorted (map fst xs)"
  shows "counting (throttle_key (strip u)) (ts @ map fst xs) (cdb c') \<or>
    locked_until (throttle_key (strip u)) (fst (last xs) + of_int ADMIN_LOGIN_LOCKOUT_S) (cdb c')"
  using assms(2-)
proof (induction xs arbitrary: ts c rs)
  case (Cons x xs)
  obtain now pw salt tok where x: "x = (now, pw, salt, tok)" by (cases x)
  let ?k = "throttle_key (strip u)" and ?c1 = "snd (admin_login cfg now key u pw salt tok c)"
  obtain rs' where run: "login_attempts cfg key u xs ?c1 = (rs', c')"
      and r: "fst (admin_login cfg now key u pw salt tok c) = Inl (Http 401)"
      and rs': "list_all (\<lambda>r. r = Inl (Http 401)) rs'"
    using Cons.prems(2,3) by (auto simp: x split: prod.splits)
  have le: "now \<le> fst (last (x # xs))"
    using Cons.prems(6) by (cases xs rule: rev_cases) (auto simp: x sorted_append)
  then have "now - t < ADMIN_LOGIN_WINDOW_S" if "t \<in> set ts" for t
    using Cons.prems(5) that by (force simp: ADMIN_LOGIN_WINDOW_S_def)
  then have step: "counting ?k (ts @ [now]) (cdb ?c1) \<or> locked_until ?k (now + of_int ADMIN_LOGIN_LOCKOUT_S) (cdb ?c1)"
    using failure_counts [OF Cons.prems(1), of now "cdb ?c1"] login_refused(2) [OF r assms(1)] by simp
  show ?case
  proof (cases xs)
    case Nil
    with step run show ?thesis by (simp add: x)
  next
    case (Cons y ys)
    obtain now2 pw2 salt2 tok2 where y: "y = (now2, pw2, salt2, tok2)" by (cases y)
    have "fst (admin_login cfg now2 key u pw2 salt2 tok2 ?c1) = Inl (Http 401)"
      using run rs' by (auto simp: Cons y split: prod.splits)
    from login_refused(1) [OF this assms(1)]
    have "\<not> now2 + 1 \<le> now + 600" if "locked_until ?k (now + of_int ADMIN_LOGIN_LOCKOUT_S) (cdb ?c1)"
      using locked_until_locks [OF that] by (auto simp: ADMIN_LOGIN_LOCKOUT_S_def)
    moreover have "now2 \<le> fst (last xs)" "fst (last xs) - 599 \<le> now"
      using Cons.prems(5,6) Cons by (cases ys rule: rev_cases; force simp: x y sorted_append)+
    ultimately have "counting ?k (ts @ [now]) (cdb ?c1)" using step by auto
    from Cons.IH [OF this run rs'] Cons.prems(5,6) Cons show ?thesis by (simp add: x)
  qed
qed simp

text \<open>C10: Ten failed logins for a name within ten minutes lock it: for the ten minutes after the
  last of them, up to a second, no attempt for that name is let past the throttle, with the right
  password or not; it issues no token and changes no account.\<close>

theorem ten_failures_lock:
  assumes "valid_api_key cfg key"
    and "login_attempts cfg key u xs c = (rs, c')" "list_all (\<lambda>r. r = Inl (Http 401)) rs"
    and "length xs = 10" "sorted (map fst xs)" "fst (last xs) - fst (hd xs) \<le> 599"
    and "now \<le> fst (last xs) + 599" "strip v = strip u"
  shows "fst (admin_login cfg now key v pw salt tok c') \<in> {Inl (Http 429), Inl (Http 500)} \<and>
    same_business (cdb c') (cdb (snd (admin_login cfg now key v pw salt tok c')))"
proof -
  have ne: "xs \<noteq> []" using assms(4) by auto
  have early: "\<forall>t \<in> set ([] @ map fst xs). fst (last xs) - 599 \<le> t"
  proof
    fix t assume "t \<in> set ([] @ map fst xs)"
    then have "fst (hd xs) \<le> t" using assms(5) by (cases xs) auto
    with assms(6) show "fst (last xs) - 599 \<le> t" by simp
  qed
  have "\<not> counting (throttle_key (strip u)) ([] @ map fst xs) (cdb c')"
    using assms(4) ne by (auto simp: counting_def ADMIN_LOGIN_MAX_FAILURES_def)
  then have "locked_until (throttle_key (strip u)) (fst (last xs) + of_int ADMIN_LOGIN_LOCKOUT_S) (cdb c')"
    using attempts_count [OF assms(1) _ assms(2,3) ne early assms(5)] by (auto simp: counting_def)
  then have "login_throttle_locked_for now (throttle_key (strip v)) (cdb c') \<noteq> 0"
    using locked_until_locks [of "throttle_key (strip u)" "fst (last xs) + of_int ADMIN_LOGIN_LOCKOUT_S" "cdb c'" now]
      assms(7,8) by (simp add: ADMIN_LOGIN_LOCKOUT_S_def)
  from login_locked [OF this assms(1)] show ?thesis by simp
qed

text \<open>Ten guesses at a name that has no account.\<close>

lemma unknown_name_refused:
  assumes "get_administrator (strip u) (cdb c) = None" "valid_api_key cfg key" "\<not> audit_required cfg"
    and "login_throttle_locked_for now (throttle_key (strip u)) (cdb c) = 0"
  shows "fst (admin_login cfg now key u pw salt tok c) = Inl (Http 401)"
    "administrators (cdb (snd (admin_login cfg now key u pw salt tok c))) = administrators (cdb c)"
proof -
  let ?g = "audited cfg now ''login_failed'' (strip u) ''Invalid username or password'' (Inl (Http 401),
      c\<lparr>cdb := admin_login_record_failure now (throttle_key (strip u)) (cdb c)\<rparr>) :: unit response \<times> controller"
  have g: "password_gate cfg now ''login_throttled'' ''login_failed'' (strip u) pw c = ?g"
    using assms(1,4) by (simp add: password_gate_def credentials_valid_def)
  have f: "fst ?g = Inl (Http 401)" using assms(3) by (simp add: audited_answer)
  then have l: "fst (admin_login cfg now key u pw salt tok c) = Inl (Http 401) \<and>
      snd (admin_login cfg now key u pw salt tok c) = snd ?g"
    using assms(2) by (cases ?g) (simp add: admin_login_def keyed_route_def require_api_key_def g)
  then show "fst (admin_login cfg now key u pw salt tok c) = Inl (Http 401)" by simp
  show "administrators (cdb (snd (admin_login cfg now key u pw salt tok c))) = administrators (cdb c)"
    using l audited_frame [where 'a = unit, of cfg now "''login_failed''" "strip u" "''Invalid username or password''"
        "(Inl (Http 401), c\<lparr>cdb := admin_login_record_failure now (throttle_key (strip u)) (cdb c)\<rparr>)"]
    by (auto simp: same_business_def admin_login_record_failure_def login_throttle_record_failure_def Let_def)
qed

lemma guesses_refused:
  assumes "get_administrator (strip u) (cdb c) = None" "valid_api_key cfg key" "\<not> audit_required cfg"
    and "0 \<le> now" "m + n \<le> 10"
    and "find_throttle (throttle_key (strip u)) (cdb c) = (if m = 0 then None else
      Some \<lparr>lt_key = throttle_key (strip u), lt_fails = Some (replicate m now), lt_until = Some 0\<rparr>)"
  shows "list_all (\<lambda>r. r = Inl (Http 401)) (fst (login_attempts cfg key u (replicate n (now, pw, salt, tok)) c))"
  using assms(1,5,6)
proof (induction n arbitrary: m c)
  case (Suc n)
  let ?c1 = "snd (admin_login cfg now key u pw salt tok c)" and ?k = "throttle_key (strip u)"
  have open_now: "login_throttle_locked_for now ?k (cdb c) = 0"
    using Suc.prems(3) assms(4) by (auto simp: login_throttle_locked_for_def or_zero_def)
  note one = unknown_name_refused [OF Suc.prems(1) assms(2,3) open_now, of pw salt tok]
  have "find_throttle ?k (cdb ?c1) = find_throttle ?k (admin_login_record_failure now ?k (cdb c))"
    using login_refused(2) [OF one(1) assms(2)] .
  then have th: "n = 0 \<or> find_throttle ?k (cdb ?c1) =
      Some \<lparr>lt_key = ?k, lt_fails = Some (replicate (Suc m) now), lt_until = Some 0\<rparr>"
    using Suc.prems(2,3)
    by (auto simp: admin_login_record_failure_def find_throttle_recorded Let_def or_zero_def
        ADMIN_LOGIN_MAX_FAILURES_def ADMIN_LOGIN_WINDOW_S_def replicate_append_same)
  have "get_administrator (strip u) (cdb ?c1) = None"
    using Suc.prems(1) one(2) by (simp add: get_administrator_def)
  then have "n = 0 \<or> list_all (\<lambda>r. r = Inl (Http 401)) (fst (login_attempts cfg key u (replicate n (now, pw, salt, tok)) ?c1))"
    using Suc.IH [of ?c1 "Suc m"] th Suc.prems(2) by auto
  then show ?case using one(1) by (auto split: prod.split)
qed simp

lemma ten_failures_lock_witness:
  "fst (admin_login demo_settings 699 (Some ''key'') ''eve'' ''right'' [] ''t'' (snd (login_attempts demo_settings
     (Some ''key'') ''eve'' (replicate 10 (100, ''guess'', [], ''t'')) empty_control))) \<in> {Inl (Http 429), Inl (Http 500)}"
proof -
  let ?xs = "replicate 10 (100 :: rat, ''guess'', [] :: string, ''t'')"
  have key: "valid_api_key demo_settings (Some ''key'')" "\<not> audit_required demo_settings"
    by (simp_all add: valid_api_key_def demo_settings_def)
  obtain rs c' where run: "login_attempts demo_settings (Some ''key'') ''eve'' ?xs empty_control = (rs, c')" by fastforce
  have "get_administrator w (cdb empty_control) = None" "find_throttle k (cdb empty_control) = None" for w k
    by (simp_all add: empty_control_def fresh_db_def get_administrator_def find_throttle_def)
  then have "list_all (\<lambda>r. r = Inl (Http 401)) (fst (login_attempts demo_settings (Some ''key'') ''eve'' ?xs empty_control))"
    by (intro guesses_refused [where m = 0] key) simp_all
  then have "list_all (\<lambda>r. r = Inl (Http 401)) rs" by (simp add: run)
  then show ?thesis
    using ten_failures_lock [OF key(1) run, of 699 "''eve''" "''right''" "[]" "''t''"] run by simp
qed

end
