(* ===== verification/Console_Site.thy ===== *)
theory Console_Site
  imports Console_Dispatch Agent_Work
begin

text \<open>
  The console, the controller and an agent together: the channel of Console_Dispatch is the
  controller of this development, and while the console sleeps the agent does cycles of its task
  loop.
\<close>

section \<open>The world of a waiting console\<close>

text \<open>What others do in the naps to come, and of each of the next calls of the HTTP client what happens to
  it and how long it takes: one that does not arrive, or whose answer is lost, takes until the client
  gives up on it.  The calls after those get through at once.\<close>

record 'h site =
  si_now :: instant
  si_ctrl :: controller
  si_host :: 'h
  si_later :: "(instant \<Rightarrow> controller \<times> 'h \<Rightarrow> controller \<times> 'h) list"
  si_net :: "(fate \<times> rat) list"

definition reach :: "'h site \<Rightarrow> fate \<times> 'h site" where
  "reach w =
     (case si_net w of [] \<Rightarrow> (Reached, w)
      | (f, d) # net \<Rightarrow> (f, w\<lparr>si_net := net, si_now := si_now w + max 0 d\<rparr>))"

definition site_sleep :: "rat \<Rightarrow> 'h site \<Rightarrow> 'h site" where
  "site_sleep s w =
     (let t = si_now w + s
      in case si_later w of
           [] \<Rightarrow> w\<lparr>si_now := t\<rparr>
         | f # fs \<Rightarrow> (case f t (si_ctrl w, si_host w) of
             (c, h) \<Rightarrow> w\<lparr>si_now := t, si_ctrl := c, si_host := h, si_later := fs\<rparr>))"

definition RESULTS_LIMIT :: nat where "RESULTS_LIMIT = 50"

definition get_agent_results ::
    "settings \<Rightarrow> string option \<Rightarrow> string \<Rightarrow> string option \<Rightarrow> int option \<Rightarrow> controller \<Rightarrow>
     (result_row \<times> task_row option) list response" where
  "get_agent_results cfg key h kd i c =
     (case require_api_key cfg key of Inl e \<Rightarrow> Inl e
      | Inr _ \<Rightarrow> if \<not> agent_exists h (cdb c) then Inl (Http 404)
                else Inr (list_results h RESULTS_LIMIT kd i (cdb c)))"

definition queue_command ::
    "settings \<Rightarrow> string option \<Rightarrow> string option \<Rightarrow> string \<Rightarrow> task_request \<Rightarrow> 'h site \<Rightarrow> int option \<times> 'h site" where
  "queue_command cfg key token h body w =
     (case reach w of
        (Not_Reached, w1) \<Rightarrow> (None, w1)
      | (f, w1) \<Rightarrow>
          (case queue_agent_task cfg (si_now w1) key token h body (si_ctrl w1) of
             (Inl _, c) \<Rightarrow> (None, w1\<lparr>si_ctrl := c\<rparr>)
           | (Inr i, c) \<Rightarrow> (if f = Reached then Some i else None, w1\<lparr>si_ctrl := c\<rparr>)))"

definition get_result_by_task ::
    "settings \<Rightarrow> string option \<Rightarrow> string \<Rightarrow> int \<Rightarrow> 'h site \<Rightarrow> (string + string option) \<times> 'h site" where
  "get_result_by_task cfg key h i w =
     (case reach w of
        (Not_Reached, w1) \<Rightarrow> (Inl ''unreachable'', w1)
      | (Reply_Lost, w1) \<Rightarrow> (Inl ''unreachable'', w1)
      | (Reached, w1) \<Rightarrow>
          (case get_agent_results cfg key h None (Some i) (si_ctrl w1) of
             Inl (Http n) \<Rightarrow> (Inl (show_int (int n)), w1)
           | Inr rows \<Rightarrow> (Inr (case rows of [] \<Rightarrow> None | r # _ \<Rightarrow> Some (rs_result (fst r))), w1)))"

text \<open>SSH commands are not modelled: their answer and the time it takes are a parameter.\<close>

definition site_channel ::
    "settings \<Rightarrow> string option \<Rightarrow> (string \<Rightarrow> string \<Rightarrow> (string + report) \<times> rat) \<Rightarrow> (string \<Rightarrow> parsed) \<Rightarrow> 'h site channel" where
  "site_channel cfg key ssh loads =
     \<lparr>ch_clock = si_now, ch_sleep = site_sleep, ch_queue = queue_command cfg key,
      ch_results = get_result_by_task cfg key,
      ch_exec = (\<lambda>token h cmd desc become lg w. case ssh h cmd of (r, d) \<Rightarrow> (r, w\<lparr>si_now := si_now w + max 0 d\<rparr>)),
      ch_loads = loads\<rparr>"

lemma site_channel_simps [simp]:
  "ch_clock (site_channel cfg key ssh loads) = si_now" "ch_sleep (site_channel cfg key ssh loads) = site_sleep"
  "ch_queue (site_channel cfg key ssh loads) = queue_command cfg key"
  "ch_results (site_channel cfg key ssh loads) = get_result_by_task cfg key"
  "ch_loads (site_channel cfg key ssh loads) = loads"
  by (simp_all add: site_channel_def)

text \<open>No call takes longer than \<open>D\<close>.\<close>

definition calls_within :: "rat \<Rightarrow> 'h site \<Rightarrow> bool" where
  "calls_within D w \<longleftrightarrow> 0 \<le> D \<and> (\<forall>(f, d) \<in> set (si_net w). d \<le> D)"

lemma reach_frame:
  "reach w = (f, w1) \<Longrightarrow> si_ctrl w1 = si_ctrl w \<and> si_host w1 = si_host w \<and> si_later w1 = si_later w \<and>
     si_now w \<le> si_now w1 \<and> (calls_within D w \<longrightarrow> si_now w1 \<le> si_now w + D \<and> calls_within D w1)"
  by (auto simp: reach_def calls_within_def split: list.splits prod.splits)

lemma results_clock:
  assumes "get_result_by_task cfg key h i w = (r, w1)"
  shows "si_now w \<le> si_now w1" "calls_within D w \<longrightarrow> si_now w1 \<le> si_now w + D \<and> calls_within D w1"
proof -
  obtain f w2 where "reach w = (f, w2)" by fastforce
  moreover from this assms have "w1 = w2"
    by (auto simp: get_result_by_task_def split: fate.splits sum.splits http_error.splits)
  ultimately show "si_now w \<le> si_now w1" "calls_within D w \<longrightarrow> si_now w1 \<le> si_now w + D \<and> calls_within D w1"
    using reach_frame by blast+
qed

lemma queue_clock:
  assumes "queue_command cfg key token h body w = (i, w1)"
  shows "si_now w \<le> si_now w1" "calls_within D w \<longrightarrow> si_now w1 \<le> si_now w + D \<and> calls_within D w1"
proof -
  obtain f w2 where "reach w = (f, w2)" by fastforce
  moreover from this assms have "si_now w1 = si_now w2" "si_net w1 = si_net w2"
    by (auto simp: queue_command_def split: fate.splits prod.splits sum.splits)
  ultimately show "si_now w \<le> si_now w1" "calls_within D w \<longrightarrow> si_now w1 \<le> si_now w + D \<and> calls_within D w1"
    using reach_frame [of w f w2 D] by (auto simp: calls_within_def)
qed

lemma sleep_clock [simp]:
  "si_now (site_sleep s w) = si_now w + s" "calls_within D (site_sleep s w) = calls_within D w"
  by (simp_all add: site_sleep_def calls_within_def Let_def split: list.split prod.split)

lemma poll_clock:
  "si_now w \<le> si_now (snd (poll_entry_result (site_channel cfg key ssh loads) e i w))"
  "calls_within D w \<Longrightarrow> si_now (snd (poll_entry_result (site_channel cfg key ssh loads) e i w)) \<le> si_now w + D"
  "calls_within D w \<Longrightarrow> calls_within D (snd (poll_entry_result (site_channel cfg key ssh loads) e i w))"
proof -
  obtain r w1 where g: "get_result_by_task cfg key (he_id (underlying_entry e)) i w = (r, w1)" by fastforce
  then have "snd (poll_entry_result (site_channel cfg key ssh loads) e i w) = w1"
    by (simp add: poll_entry_result_def split: sum.split parsed.split)
  then show "si_now w \<le> si_now (snd (poll_entry_result (site_channel cfg key ssh loads) e i w))"
    "calls_within D w \<Longrightarrow> si_now (snd (poll_entry_result (site_channel cfg key ssh loads) e i w)) \<le> si_now w + D"
    "calls_within D w \<Longrightarrow> calls_within D (snd (poll_entry_result (site_channel cfg key ssh loads) e i w))"
    using results_clock [OF g] by auto
qed

interpretation site: bounded_time si_now "site_sleep (1 / 2)" "poll_entry_result (site_channel cfg key ssh loads) e i"
    "1 / 2" "calls_within D" D
  for cfg key ssh loads e i D
  by unfold_locales (simp_all add: poll_clock)

lemma run_on_clock:
  assumes "run_on_entry (site_channel cfg key ssh loads) token e cmd kd desc become ns lg want w = (out, w1)"
    and "calls_within D w" "\<And>h c. snd (ssh h c) \<le> S"
  shows "he_agent (underlying_entry e) \<Longrightarrow> si_now w1 \<le> si_now w + D \<and> calls_within D w1"
    "\<not> he_agent (underlying_entry e) \<Longrightarrow> si_now w1 \<le> si_now w + max 0 S \<and> (\<exists>r. out = Ready r)"
proof -
  have D: "0 \<le> D" using assms(2) by (simp add: calls_within_def)
  show "si_now w1 \<le> si_now w + D \<and> calls_within D w1" if "he_agent (underlying_entry e)"
    using assms(1,2) that D
    by (auto simp: run_on_entry_def Let_def dest: queue_clock(2) [of _ _ _ _ _ _ _ _ D] split: prod.splits if_splits)
  show "si_now w1 \<le> si_now w + max 0 S \<and> (\<exists>r. out = Ready r)" if "\<not> he_agent (underlying_entry e)"
  proof -
    let ?ssh = "ssh (he_id (underlying_entry e)) (with_sbin_path cmd)"
    have "snd ?ssh \<le> S" by (rule assms(3))
    then show ?thesis
      using assms(1) that
      by (cases ?ssh) (auto simp: run_on_entry_def site_channel_def Let_def split: sum.splits if_splits)
  qed
qed

section \<open>Properties\<close>

text \<open>C39: Running a command on a host always returns, whatever the controller, the network and the
  agent do, and in bounded time: if no call of the HTTP client takes longer than D, a task on an
  agent's host has an answer, or is given up, at most two calls and one nap after the timeout of the
  wait (one call and no wait if queueing fails); a command over SSH returns when its one call does.\<close>

theorem dispatch_returns:
  assumes "calls_within D w" "\<And>h c. snd (ssh h c) \<le> S"
  shows "\<exists>r w1. dispatch_one (site_channel cfg key ssh loads) e cmd kd become token desc opt w = Some (r, w1) \<and>
     (he_agent (underlying_entry e) \<longrightarrow>
       si_now w1 \<le> si_now w + D +
         max 0 ((case do_poll_timeout opt of None \<Rightarrow> TASK_TIMEOUT | Some t \<Rightarrow> t) + D + 1 / 2)) \<and>
     (\<not> he_agent (underlying_entry e) \<longrightarrow> si_now w1 \<le> si_now w + max 0 S)"
proof -
  let ?ch = "site_channel cfg key ssh loads"
  let ?tmo = "case do_poll_timeout opt of None \<Rightarrow> TASK_TIMEOUT | Some t \<Rightarrow> t"
  let ?cmd = "case do_exec_timeout opt of None \<Rightarrow> cmd | Some s \<Rightarrow> if s = 0 then cmd else host_bounded cmd s"
  obtain out w1 where o: "run_on_entry ?ch token e ?cmd kd desc become (do_needs_sudo opt) (do_log opt)
      (do_want_root opt) w = (out, w1)" by fastforce
  note now = run_on_clock [OF o assms]
  show ?thesis
  proof (cases out)
    case (Ready r)
    then show ?thesis using o now by (force simp: dispatch_one_def Let_def)
  next
    case (Queued i err)
    then have agent: "he_agent (underlying_entry e)" using now(2) by blast
    show ?thesis
    proof (cases "truthy err")
      case True
      then show ?thesis using o now(1) [OF agent] agent Queued by (force simp: dispatch_one_def Let_def)
    next
      case False
      obtain r w2 where a: "await si_now (site_sleep (1 / 2)) (poll_entry_result ?ch e (the i)) (si_now w1 + ?tmo) w1 = Some (r, w2)"
        using site.await_returns by blast
      have "si_now w2 \<le> max (si_now w1) (si_now w1 + ?tmo + D + 1 / 2)"
        by (rule site.await_punctual [OF a]) (use now(1) [OF agent] in blast)
      then have "si_now w2 \<le> si_now w + D + max 0 (?tmo + D + 1 / 2)" using now(1) [OF agent] by linarith
      moreover have "\<exists>x. dispatch_one ?ch e cmd kd become token desc opt w = Some (x, w2)"
        using o a Queued False by (simp add: dispatch_one_def Let_def)
      ultimately show ?thesis using agent by blast
    qed
  qed
qed

text \<open>A controller that answers each call only after fifteen seconds, and then loses it.\<close>

definition slow_site :: "unit site" where
  "slow_site = \<lparr>si_now = 20, si_ctrl = demo_control, si_host = (), si_later = [],
     si_net = [(Reached, 15), (Reply_Lost, 15)]\<rparr>"

lemma dispatch_returns_witness:
  "\<exists>r w1. dispatch_one (site_channel demo_settings (Some ''key'') (\<lambda>h c. (Inl ''no ssh'', 15)) (\<lambda>s. Unreadable))
     (Solo \<lparr>he_agent = True, he_id = ''web1'', he_label = ''web'', he_address = ''10.0.0.5'', he_environment = [],
        he_requires_sudo = False, he_is_controller = False, he_quarantined = False\<rparr>)
     ''id'' ''command'' None None None plain_opts slow_site = Some (r, w1) \<and> si_now w1 \<le> 111"
proof -
  have calls: "calls_within 15 slow_site" by (simp add: calls_within_def slow_site_def)
  have ssh: "snd ((\<lambda>h c. (Inl ''no ssh'' :: string + report, 15 :: rat)) h c) \<le> 15" for h c :: string by simp
  from dispatch_returns [OF calls ssh, of demo_settings "Some ''key''" "\<lambda>s. Unreadable"
      "Solo \<lparr>he_agent = True, he_id = ''web1'', he_label = ''web'', he_address = ''10.0.0.5'', he_environment = [],
        he_requires_sudo = False, he_is_controller = False, he_quarantined = False\<rparr>" "''id''" "''command''" None None None plain_opts]
  show ?thesis by (force simp: plain_opts_def TASK_TIMEOUT_def slow_site_def)
qed

section \<open>From the console to the agent and back\<close>

definition agent_cycle ::
    "'h system \<Rightarrow> agent_env \<Rightarrow> (exec_result \<times> remark \<Rightarrow> string) \<Rightarrow> (int \<Rightarrow> instant) \<Rightarrow> nat \<Rightarrow> fate list \<Rightarrow>
     (int \<Rightarrow> fate list) \<Rightarrow> agent_state \<Rightarrow> conn \<Rightarrow> instant \<Rightarrow> controller \<times> 'h \<Rightarrow> controller \<times> 'h" where
  "agent_cycle sh env dumps clock n fetch fates st cn now s =
     (case poll_cycle sh env dumps now clock n fetch fates st cn (snd s) (fst s) of (_, _, h, c) \<Rightarrow> (c, h))"

lemma queue_effect:
  assumes "schema_ok (cdb c)" "queue_agent_task cfg now key token h body c = (Inr i, c1)"
  obtains who d where "dispatch_identity now token (cdb c) = (Inr who, d)"
    "agent_tasks (cdb c1) = agent_tasks (cdb c) @
       [\<lparr>tk_id = i, tk_host = h, tk_command = tr_command body, tk_kind = tr_kind body, tk_status = Pending,
         tk_created = Some now, tk_dispatched = None, tk_run_as = who\<rparr>]"
    "agents (cdb c1) = agents (cdb c)" "agent_results (cdb c1) = agent_results (cdb c)"
    "integrity c1 = integrity c" "schema_ok (cdb c1)" "i = task_seq (cdb c) + 1" "agent_exists h (cdb c)"
    "require_api_key cfg key = Inr ()"
proof -
  have key: "require_api_key cfg key = Inr ()" and ex: "agent_exists h (cdb c)"
    using assms(2) by (auto simp: queue_agent_task_def split: sum.splits if_splits)
  obtain ri d where di: "dispatch_identity now token (cdb c) = (ri, d)" by fastforce
  with assms(2) key ex obtain who where who: "ri = Inr who"
    by (cases ri) (auto simp: queue_agent_task_def)
  have "tokens_purged (cdb c) d"
    using resolve_purged [of "cdb c" now token] di
    by (auto simp: dispatch_identity_def split: if_splits option.splits prod.splits)
  then have d: "agent_tasks d = agent_tasks (cdb c)" "agents d = agents (cdb c)" "agent_results d = agent_results (cdb c)"
    "task_seq d = task_seq (cdb c)" by (auto simp: tokens_purged_def)
  have stored: "cdb (store_become now i p x) = cdb x" "integrity (store_become now i p x) = integrity x"
    "cdb (store_want_root now i x) = cdb x" "integrity (store_want_root now i x) = integrity x" for p x
    by (simp_all add: store_become_def sweep_become_def store_want_root_def sweep_want_root_def Let_def)
  let ?d1 = "snd (queue_task now h (tr_command body) (tr_kind body) who d)"
  have i: "i = task_seq d + 1" "integrity c1 = integrity c" and b: "same_business ?d1 (cdb c1)"
    using assms(2) key ex di who
    by (auto simp: queue_agent_task_def queue_task_def Let_def stored store_become_def sweep_become_def store_want_root_def
        sweep_want_root_def dest: log_activity_business split: if_splits sum.splits)
  moreover have "schema_ok (cdb c1)"
    using dispatch_implements [OF assms(1), of cfg now key token h body] assms(2) by (simp add: implements_queue_def)
  ultimately show thesis
    using that [OF di [unfolded who]] d key ex by (simp add: same_business_def queue_task_def Let_def)
qed

lemma one_result:
  assumes "result_log c' = result_log c @ [(i, h, text)]" "\<forall>r \<in> set (agent_results (cdb c)). rs_task_id r \<noteq> i"
  shows "\<exists>r t. list_results h RESULTS_LIMIT None (Some i) (cdb c') = [(r, t)] \<and> rs_result r = text"
proof -
  let ?p = "\<lambda>r. (rs_task_id r, rs_host r, rs_result r)"
  obtain old r where r: "agent_results (cdb c') = old @ [r]" "map ?p old = map ?p (agent_results (cdb c))" "?p r = (i, h, text)"
    using assms(1) by (auto simp: result_log_def map_eq_append_conv)
  have "rs_task_id x \<noteq> i" if "x \<in> set old" for x
  proof -
    have "?p x \<in> set (map ?p (agent_results (cdb c)))" using that unfolding r(2) [symmetric] by simp
    then show ?thesis using assms(2) by auto
  qed
  then have "filter (\<lambda>x. rs_host x = h \<and> rs_task_id x = i) old = []" by (simp add: filter_empty_conv)
  then show ?thesis using r by (auto simp: list_results_def newest_first_def RESULTS_LIMIT_def)
qed

lemma single_delivery:
  assumes "dl_task ` set ds = {r}" "distinct (map (\<lambda>d. tk_id (dl_task d)) ds)"
  shows "\<exists>x. ds = [x] \<and> dl_task x = r"
proof (cases ds)
  case Nil
  then show ?thesis using assms(1) by simp
next
  case (Cons x xs)
  have "xs = []"
  proof (cases xs)
    case (Cons y ys)
    then have "dl_task x = dl_task y" using assms(1) \<open>ds = x # xs\<close> by auto
    then show ?thesis using assms(2) Cons \<open>ds = x # xs\<close> by simp
  qed
  then show ?thesis using Cons assms(1) by simp
qed

text \<open>C40: What the console shows for a host is what the agent's run of that command reported, from
  the click to the answer.  When the console's calls get through at once, the agent's cycle
  during the first nap reaches the controller and each of its results reaches it at least once, the row's command is the one task it runs, under the
  identity of the login token, and the answer is that run's output and exit code.\<close>

theorem console_shows_agents_report:
  assumes "he_agent (underlying_entry e)" "he_id (underlying_entry e) = as_host st"
    and "he_requires_sudo (underlying_entry e) \<and> do_needs_sudo opt \<longrightarrow> truthy become"
    and "do_exec_timeout opt = None" "1 / 2 < (case do_poll_timeout opt of None \<Rightarrow> TASK_TIMEOUT | Some t \<Rightarrow> t)"
    and "fst (queue_agent_task cfg (si_now w) key token (as_host st)
           (queue_body (with_sbin_path cmd) ''command'' desc become (do_log opt) (do_want_root opt)) (si_ctrl w)) = Inr i"
    and "schema_ok (cdb (si_ctrl w))" "verified (as_host st) (as_secret st) (cdb (si_ctrl w))"
    and "\<not> is_quarantined (as_host st) (integrity (si_ctrl w))"
    and "\<forall>t \<in> set (agent_tasks (cdb (si_ctrl w))). tk_host t = as_host st \<longrightarrow> tk_status t \<noteq> Pending"
    and "\<forall>r \<in> set (agent_results (cdb (si_ctrl w))). rs_task_id r \<le> task_seq (cdb (si_ctrl w))"
    and "si_net w = []" "si_later w = agent_cycle sh env dumps clock n fetch fates st cn # later"
    and "take n fetch = replicate p Not_Reached @ Reached # rest" "\<forall>i. Reached \<in> set (take n (fates i))"
    and "\<forall>res rk. dumps (res, rk) \<noteq> [] \<and> loads (dumps (res, rk)) = Report \<lparr>rp_stdout = ex_stdout res, rp_stderr = ex_stderr res, rp_code = Some (ex_code res)\<rparr>"
  shows "\<exists>who d become' root' res rk h' w'.
    dispatch_identity (si_now w) token (cdb (si_ctrl w)) = (Inr who, d) \<and>
    run_command sh env (with_sbin_path cmd) who become' root' (si_host w) = ((res, rk), h') \<and>
    dispatch_one (site_channel cfg key ssh loads) e cmd ''command'' become token desc opt w =
      Some (Inr (normalize (entry_label e) (or_else (Some (entry_environment e)) ''Unassigned'')
        \<lparr>to_stdout = ex_stdout res, to_stderr = ex_stderr res, to_code = Some (ex_code res),
         to_error = (if ex_code res \<noteq> 0 \<and> sudo_auth_failed (ex_stderr res) then Some sudo_hint else None)\<rparr>), w')"
proof -
  let ?h = "as_host st" and ?s = "as_secret st" and ?e = "underlying_entry e"
  let ?body = "queue_body (with_sbin_path cmd) ''command'' desc become (do_log opt) (do_want_root opt)"
  let ?tmo = "case do_poll_timeout opt of None \<Rightarrow> TASK_TIMEOUT | Some t \<Rightarrow> t"
  let ?ask = "poll_entry_result (site_channel cfg key ssh loads) e i"
  obtain c1 where q: "queue_agent_task cfg (si_now w) key token ?h ?body (si_ctrl w) = (Inr i, c1)"
    using assms(6) by (metis prod.collapse)
  obtain who d where f: "dispatch_identity (si_now w) token (cdb (si_ctrl w)) = (Inr who, d)"
    "agent_tasks (cdb c1) = agent_tasks (cdb (si_ctrl w)) @
       [\<lparr>tk_id = i, tk_host = ?h, tk_command = tr_command ?body, tk_kind = tr_kind ?body, tk_status = Pending,
         tk_created = Some (si_now w), tk_dispatched = None, tk_run_as = who\<rparr>]"
    "agents (cdb c1) = agents (cdb (si_ctrl w))" "agent_results (cdb c1) = agent_results (cdb (si_ctrl w))"
    "integrity c1 = integrity (si_ctrl w)" "schema_ok (cdb c1)" "i = task_seq (cdb (si_ctrl w)) + 1"
    "require_api_key cfg key = Inr ()"
    using queue_effect [OF assms(7) q] by metis
  have ver: "verified ?h ?s (cdb c1)" using assms(8) verified_same_agents [OF f(3)] by simp
  have quar: "\<not> is_quarantined ?h (integrity c1)" using assms(9) f(5) by simp
  let ?t = "si_now w + 1 / 2"
  obtain ds cn' h' c' where run: "poll_cycle sh env dumps ?t clock n fetch fates st cn (si_host w) c1 = ((Going_On, ds \<noteq> []), cn', h', c')"
    "distinct (map (\<lambda>d. tk_id (dl_task d)) ds)" "verified ?h ?s (cdb c')"
    "dl_task ` set ds = {t\<lparr>tk_status := Dispatched, tk_dispatched := Some ?t\<rparr> | t.
       t \<in> set (agent_tasks (cdb c1)) \<and> tk_host t = ?h \<and> tk_status t = Pending}"
    "result_log c' = result_log c1 @ map (\<lambda>(i, rep). (i, ?h, dumps rep)) (reports sh env ds (si_host w))"
    using poll_cycle_runs_all [OF f(6) ver quar assms(14,15), of sh env dumps ?t clock cn "si_host w"] by blast
  let ?row = "\<lparr>tk_id = i, tk_host = ?h, tk_command = with_sbin_path cmd, tk_kind = ''command'', tk_status = Dispatched,
      tk_created = Some (si_now w), tk_dispatched = Some ?t, tk_run_as = who\<rparr>"
  let ?new = "?row\<lparr>tk_status := Pending, tk_dispatched := None\<rparr>"
  have "t \<in> set (agent_tasks (cdb c1)) \<and> tk_host t = ?h \<and> tk_status t = Pending \<longleftrightarrow> t = ?new" for t
    using assms(10) f(2) by (auto simp: queue_body_def)
  then have "dl_task ` set ds = {?row}" unfolding run(4) by simp
  then have "\<exists>x. ds = [x] \<and> dl_task x = ?row" by (rule single_delivery [OF _ run(2)])
  then obtain x where ds: "ds = [x]" "dl_task x = ?row" by (elim exE conjE)
  obtain res rk h1 where rc: "run_command sh env (with_sbin_path cmd) who (dl_become x) (dl_want_root x) (si_host w) = ((res, rk), h1)"
    by (metis prod.exhaust)
  have log: "result_log c' = result_log c1 @ [(i, ?h, dumps (res, rk))]"
    using run(5) ds rc by simp
  define w1 where "w1 = w\<lparr>si_ctrl := c1\<rparr>"
  have queued: "run_on_entry (site_channel cfg key ssh loads) token e cmd ''command'' desc become (do_needs_sudo opt) (do_log opt)
      (do_want_root opt) w = (Queued (Some i) None, w1)"
    using assms(1-3,12) q by (auto simp: run_on_entry_def queue_command_def reach_def w1_def Let_def)
  have "agent_exists ?h (cdb c1)" "agent_exists ?h (cdb c')"
    using ver run(3) by (auto simp: verified_def verify_agent_ok agent_exists_def)
  have fresh: "\<forall>r \<in> set (agent_results (cdb c1)). rs_task_id r \<noteq> i" using assms(11) f(4,7) by force
  have none: "list_results ?h RESULTS_LIMIT None (Some i) (cdb c1) = []"
  proof -
    have "filter (\<lambda>r. rs_host r = ?h \<and> rs_task_id r = i) (agent_results (cdb c1)) = []"
      using fresh by (auto simp: filter_empty_conv)
    then show ?thesis by (simp add: list_results_def newest_first_def)
  qed
  have first: "?ask w1 = (Inr None, w1)"
    using assms(2,12) \<open>agent_exists ?h (cdb c1)\<close> f(8) none
    by (simp add: poll_entry_result_def get_result_by_task_def get_agent_results_def reach_def w1_def parse_task_output_def)
  define w2 where "w2 = w1\<lparr>si_now := ?t, si_ctrl := c', si_host := h', si_later := later\<rparr>"
  have nap: "site_sleep (1 / 2) w1 = w2"
    using assms(13) run(1) by (simp add: site_sleep_def agent_cycle_def w1_def w2_def)
  obtain r t where res: "list_results ?h RESULTS_LIMIT None (Some i) (cdb c') = [(r, t)]" "rs_result r = dumps (res, rk)"
    using one_result [OF log fresh] by blast
  let ?out = "\<lparr>to_stdout = ex_stdout res, to_stderr = ex_stderr res, to_code = Some (ex_code res),
      to_error = (if ex_code res \<noteq> 0 \<and> sudo_auth_failed (ex_stderr res) then Some sudo_hint else None)\<rparr>"
  have second: "?ask w2 = (Inr (Some ?out), w2)"
    using assms(2,12,16) \<open>agent_exists ?h (cdb c')\<close> f(8) res
    by (simp add: poll_entry_result_def get_result_by_task_def get_agent_results_def reach_def w1_def w2_def parse_task_output_def)
  have "await si_now (site_sleep (1 / 2)) ?ask (si_now w1 + ?tmo) w1 = Some (Inr (Some ?out), w2)"
  proof -
    have "si_now w1 < si_now w1 + ?tmo" "si_now w2 < si_now w1 + ?tmo" using assms(5) by (simp_all add: w1_def w2_def)
    then show ?thesis
      using await_later [of si_now w1 "si_now w1 + ?tmo" ?ask w1 "site_sleep (1 / 2)"] first nap second
        await_now [of si_now w2 "si_now w1 + ?tmo" ?ask ?out w2 "site_sleep (1 / 2)"] by simp
  qed
  then have "dispatch_one (site_channel cfg key ssh loads) e cmd ''command'' become token desc opt w =
      Some (Inr (normalize (entry_label e) (or_else (Some (entry_environment e)) ''Unassigned'') ?out), w2)"
    using queued assms(4) by (simp add: dispatch_one_def Let_def)
  then show ?thesis using f(1) rc by blast
qed


text \<open>A readable report for the example: each text after its length in unary.\<close>

definition enc :: "string \<Rightarrow> string" where
  "enc s = replicate (length s) (CHR ''a'') @ CHR ''b'' # s"

definition dec :: "string \<Rightarrow> string \<times> string" where
  "dec t = (let n = length (takeWhile (\<lambda>c. c = CHR ''a'') t); r = drop (Suc n) t in (take n r, drop n r))"

lemma dec_enc [simp]: "dec (enc s @ t) = (s, t)"
proof -
  have "takeWhile (\<lambda>c. c = CHR ''a'') (replicate n (CHR ''a'') @ CHR ''b'' # u) = replicate n (CHR ''a'')" for n u
    by (induction n) simp_all
  then show ?thesis by (simp add: dec_def enc_def)
qed

definition demo_dumps :: "exec_result \<times> remark \<Rightarrow> string" where
  "demo_dumps rep = enc (ex_stdout (fst rep)) @ enc (ex_stderr (fst rep)) @
     (if ex_code (fst rep) < 0 then CHR ''-'' else CHR ''+'') # replicate (nat \<bar>ex_code (fst rep)\<bar>) (CHR ''a'')"

definition demo_loads :: "string \<Rightarrow> parsed" where
  "demo_loads s =
     (case dec s of (out, t) \<Rightarrow> case dec t of (err, c) \<Rightarrow>
        Report \<lparr>rp_stdout = out, rp_stderr = err,
          rp_code = Some ((if hd c = CHR ''-'' then -1 else 1) * int (length (tl c)))\<rparr>)"

lemma demo_loads_dumps:
  "demo_dumps (res, rk) \<noteq> [] \<and> demo_loads (demo_dumps (res, rk)) =
     Report \<lparr>rp_stdout = ex_stdout res, rp_stderr = ex_stderr res, rp_code = Some (ex_code res)\<rparr>"
  by (simp add: demo_dumps_def demo_loads_def)

definition idle_control :: controller where
  "idle_control = demo_control\<lparr>cdb := (cdb demo_control)\<lparr>agent_tasks := []\<rparr>\<rparr>"

definition demo_row :: entry where
  "demo_row = Solo \<lparr>he_agent = True, he_id = ''web1'', he_label = ''web'', he_address = ''10.0.0.5'', he_environment = [],
     he_requires_sudo = False, he_is_controller = False, he_quarantined = False\<rparr>"

definition demo_site :: "string list site" where
  "demo_site = \<lparr>si_now = 20, si_ctrl = idle_control, si_host = [],
     si_later = [agent_cycle demo_host demo_env demo_dumps (\<lambda>_. 30) 2 [Not_Reached, Reached] (\<lambda>_. [Reply_Lost, Reached])
       \<lparr>as_host = ''web1'', as_secret = ''k''\<rparr> \<lparr>cn_current = 0, cn_fails = 3\<rparr>], si_net = []\<rparr>"

lemma console_shows_agents_report_witness:
  "\<exists>become root res rk h' w'. run_command demo_host demo_env (with_sbin_path ''id'') None become root [] = ((res, rk), h') \<and>
     dispatch_one (site_channel demo_settings (Some ''key'') (\<lambda>h c. (Inl ''no ssh'', 0)) demo_loads) demo_row ''id'' ''command''
       None None None plain_opts demo_site =
     Some (Inr (normalize ''web'' ''Unassigned'' \<lparr>to_stdout = ex_stdout res, to_stderr = ex_stderr res, to_code = Some (ex_code res),
       to_error = (if ex_code res \<noteq> 0 \<and> sudo_auth_failed (ex_stderr res) then Some sudo_hint else None)\<rparr>), w')"
proof -
  let ?st = "\<lparr>as_host = ''web1'', as_secret = ''k''\<rparr>"
  let ?body = "queue_body (with_sbin_path ''id'') ''command'' None None (do_log plain_opts) (do_want_root plain_opts)"
  have w: "si_ctrl demo_site = idle_control" "si_now demo_site = 20" "si_host demo_site = []" by (simp_all add: demo_site_def)
  have agents: "agents (cdb idle_control) = agents (cdb demo_control)" by (simp add: idle_control_def)
  have ex: "agent_exists ''web1'' (cdb idle_control)"
    by (simp add: agent_exists_def find_agent_row_def idle_control_def demo_control_def Task_Control.demo_agent_def new_agent_def)
  have who: "dispatch_identity 20 None (cdb idle_control) = (Inr None, cdb idle_control)" by (simp add: dispatch_identity_def)
  have queued: "fst (queue_agent_task demo_settings (si_now demo_site) (Some ''key'') None (as_host ?st) ?body (si_ctrl demo_site)) =
      Inr (task_seq (cdb idle_control) + 1)"
    using ex by (simp add: queue_agent_task_def who w require_api_key_def valid_api_key_def demo_settings_def queue_task_def
        log_activity_def Let_def)
  have ok: "schema_ok (cdb (si_ctrl demo_site))"
    using demo_control_schema by (simp add: w idle_control_def schema_ok_def keyed_def ids_below_def)
  have ver: "verified (as_host ?st) (as_secret ?st) (cdb (si_ctrl demo_site))"
    using verified_same_agents [OF agents, of "''web1''" "''k''"] by (simp add: w verified_def demo_verify)
  have quar: "\<not> is_quarantined (as_host ?st) (integrity (si_ctrl demo_site))"
    using demo_quarantine by (simp add: w idle_control_def)
  have idle: "\<forall>t \<in> set (agent_tasks (cdb (si_ctrl demo_site))). tk_host t = as_host ?st \<longrightarrow> tk_status t \<noteq> Pending"
    by (simp add: w idle_control_def)
  have res: "\<forall>r \<in> set (agent_results (cdb (si_ctrl demo_site))). rs_task_id r \<le> task_seq (cdb (si_ctrl demo_site))"
    by (simp add: w idle_control_def demo_control_def demo_db_def queue_task_def fresh_db_def Let_def)
  have later: "si_later demo_site = agent_cycle demo_host demo_env demo_dumps (\<lambda>_. 30) 2 [Not_Reached, Reached]
      (\<lambda>_. [Reply_Lost, Reached]) ?st \<lparr>cn_current = 0, cn_fails = 3\<rparr> # []" by (simp add: demo_site_def)
  have fetch: "take 2 [Not_Reached, Reached] = replicate 1 Not_Reached @ Reached # []" by simp
  have fates: "\<forall>i::int. Reached \<in> set (take 2 ((\<lambda>_. [Reply_Lost, Reached]) i))" by simp
  have row: "he_agent (underlying_entry demo_row)" "he_id (underlying_entry demo_row) = as_host ?st"
    "he_requires_sudo (underlying_entry demo_row) \<and> do_needs_sudo plain_opts \<longrightarrow> truthy None" "do_exec_timeout plain_opts = None"
    "1 / 2 < (case do_poll_timeout plain_opts of None \<Rightarrow> TASK_TIMEOUT | Some t \<Rightarrow> t)" "si_net demo_site = []"
    by (simp_all add: demo_row_def plain_opts_def TASK_TIMEOUT_def demo_site_def)
  have codec: "\<forall>res rk. demo_dumps (res, rk) \<noteq> [] \<and> demo_loads (demo_dumps (res, rk)) =
      Report \<lparr>rp_stdout = ex_stdout res, rp_stderr = ex_stderr res, rp_code = Some (ex_code res)\<rparr>"
    using demo_loads_dumps by blast
  have label: "entry_label demo_row = ''web''" "or_else (Some (entry_environment demo_row)) ''Unassigned'' = ''Unassigned''"
    by (simp_all add: demo_row_def)
  from console_shows_agents_report [OF row(1-5) queued ok ver quar idle res row(6) later fetch fates codec,
      of "\<lambda>h c. (Inl ''no ssh'', 0)"]
  show ?thesis unfolding label w by (simp only: who prod.inject sum.inject ex_simps simp_thms)
qed

end
