(* ===== verification/Id_Store.thy ===== *)
theory Id_Store
  imports Prelude
begin

text \<open>
  The side-stores of the web console (\<^verbatim>\<open>webgui/pools.py\<close>, \<^verbatim>\<open>schedules.py\<close>,
  \<^verbatim>\<open>suppressions.py\<close>) are JSON lists of records with an \<^verbatim>\<open>id\<close>, loaded, changed and written
  back under one lock.  This is the contract their callers rely on and what follows from it; each
  store interprets it.
\<close>

definition get_by_id :: "('r \<Rightarrow> string) \<Rightarrow> string \<Rightarrow> 'r list \<Rightarrow> 'r option" where
  "get_by_id ident i rows = find (\<lambda>r. ident r = i) rows"

text \<open>The list comprehension of every \<open>delete\<close>, and whether it dropped something.\<close>

definition delete_by_id :: "('r \<Rightarrow> string) \<Rightarrow> string \<Rightarrow> 'r list \<Rightarrow> bool \<times> 'r list" where
  "delete_by_id ident i rows =
     (let new = filter (\<lambda>r. ident r \<noteq> i) rows in (length new \<noteq> length rows, new))"

text \<open>The loop of every update: the first record with the id is replaced.\<close>

fun update_first :: "('r \<Rightarrow> string) \<Rightarrow> string \<Rightarrow> ('r \<Rightarrow> 'r) \<Rightarrow> 'r list \<Rightarrow> 'r list" where
  "update_first ident i f [] = []"
| "update_first ident i f (r # rs) =
     (if ident r = i then f r # rs else r # update_first ident i f rs)"

locale id_store =
  fixes get :: "string \<Rightarrow> 'r list \<Rightarrow> 'r option"
    and del :: "string \<Rightarrow> 'r list \<Rightarrow> bool \<times> 'r list"
    and add :: "'r \<Rightarrow> 'r list \<Rightarrow> 'r list"
    and ident :: "'r \<Rightarrow> string"
  assumes get_del: "get j (snd (del i rows)) = (if j = i then None else get j rows)"
    and del_found: "fst (del i rows) \<longleftrightarrow> get i rows \<noteq> None"
    and get_add: "get j (add r rows) =
      (case get j rows of Some x \<Rightarrow> Some x | None \<Rightarrow> if ident r = j then Some r else None)"
begin

lemma del_twice: "\<not> fst (del i (snd (del i rows)))"
  by (simp add: del_found get_del)

lemma add_found: "get (ident r) rows = None \<Longrightarrow> get (ident r) (add r rows) = Some r"
  by (simp add: get_add)

lemma add_other: "ident r \<noteq> j \<Longrightarrow> get j (add r rows) = get j rows"
  by (simp add: get_add split: option.split)

lemma add_del:
  assumes "get (ident r) rows = None"
  shows "fst (del (ident r) (add r rows)) \<and>
    get j (snd (del (ident r) (add r rows))) = get j rows"
  using assms by (cases "j = ident r") (simp_all add: del_found get_del get_add split: option.split)

end

text \<open>Any list with an id column satisfies the contract.\<close>

lemma id_store_list:
  "id_store (get_by_id ident) (delete_by_id ident) (\<lambda>r rows. rows @ [r]) ident"
proof
  fix i j :: string and rows
  show "get_by_id ident j (snd (delete_by_id ident i rows)) =
      (if j = i then None else get_by_id ident j rows)"
    by (induction rows) (auto simp: get_by_id_def delete_by_id_def Let_def)
  show "fst (delete_by_id ident i rows) \<longleftrightarrow> get_by_id ident i rows \<noteq> None"
  proof -
    have "length (filter (\<lambda>r. ident r \<noteq> i) rows) + length (filter (\<lambda>r. ident r = i) rows) =
        length rows" by (induction rows) auto
    then have "length (filter (\<lambda>r. ident r \<noteq> i) rows) \<noteq> length rows \<longleftrightarrow>
        filter (\<lambda>r. ident r = i) rows \<noteq> []" by (cases "filter (\<lambda>r. ident r = i) rows") auto
    moreover have "find (\<lambda>r. ident r = i) rows = None \<longleftrightarrow> filter (\<lambda>r. ident r = i) rows = []"
      unfolding find_None_iff filter_empty_conv by blast
    ultimately show ?thesis by (simp add: get_by_id_def delete_by_id_def Let_def)
  qed
  show "get_by_id ident j (rows @ [r]) =
      (case get_by_id ident j rows of Some x \<Rightarrow> Some x
       | None \<Rightarrow> if ident r = j then Some r else None)" for r
    by (simp add: get_by_id_def find_append split: option.split)
qed

lemma get_update_first:
  assumes "\<And>r. ident (f r) = ident r"
  shows "get_by_id ident j (update_first ident i f rows) =
    (if j = i then map_option f (get_by_id ident j rows) else get_by_id ident j rows)"
  using assms by (induction rows) (auto simp: get_by_id_def)

end
