(* ===== verification/Rolling.thy ===== *)
theory Rolling
  imports Prelude "HOL-Library.Sublist"
begin

text \<open>
  Rolling maintenance (\<^verbatim>\<open>webgui/rolling.py\<close>): one group of a pool at a time is taken out of
  rotation, worked on, waited for, checked and put back.  A provider is a function on an
  arbitrary world \<open>'w\<close>; it answers with a verdict (\<open>Inr\<close>) or raises (\<open>Inl\<close> with the text).
  The callback \<open>on_event\<close> only observes and is left out; reasons are data instead of sentences.
\<close>

section \<open>Events and providers\<close>

datatype phase = Drain | Act | Settle | Health | Undrain

datatype event_status = Ev_Ok | Ev_Error

record event =
  ev_host :: string
  ev_phase :: phase
  ev_status :: event_status
  ev_detail :: string

type_synonym 'w provider = "string \<Rightarrow> 'w \<Rightarrow> (string + (bool \<times> string)) \<times> 'w"

record 'w pool =
  pl_drain :: "'w provider"
  pl_undrain :: "'w provider"
  pl_act :: "'w provider"
  pl_health :: "'w provider"
  pl_settle :: "'w provider option"
  pl_cancelled :: "'w \<Rightarrow> bool \<times> 'w"

text \<open>\<open>_safe\<close>: a provider that raises is one that failed.\<close>

definition safe :: "'w provider \<Rightarrow> string \<Rightarrow> 'w \<Rightarrow> (bool \<times> string) \<times> 'w" where
  "safe f h w = (case f h w of (Inl e, w') \<Rightarrow> ((False, e), w') | (Inr v, w') \<Rightarrow> (v, w'))"

section \<open>Batches and pre-flight\<close>

function chunks :: "nat \<Rightarrow> 'a list \<Rightarrow> 'a list list" where
  "chunks n [] = []"
| "chunks n (x # xs) = take (Suc n) (x # xs) # chunks n (drop (Suc n) (x # xs))"
  by pat_completeness auto
termination by (relation "measure (length \<circ> snd)") auto

definition batches :: "string list \<Rightarrow> int \<Rightarrow> string list list" where
  "batches members max_unavailable =
     (let n = max 1 (if max_unavailable = 0 then 1 else max_unavailable)
      in chunks (nat n - 1) members)"

text \<open>The health of every member, asked in order; a repeated member overwrites its entry.\<close>

fun probe :: "'w provider \<Rightarrow> string list \<Rightarrow> 'w \<Rightarrow> (string \<Rightarrow> bool option) \<Rightarrow> (string \<Rightarrow> bool option) \<times> 'w"
where
  "probe health [] w states = (states, w)"
| "probe health (h # hs) w states =
     (let ((ok, _), w1) = safe health h w in probe health hs w1 (states(h \<mapsto> ok)))"

datatype refusal = No_Members | None_Healthy | Degraded "string list"

definition preflight ::
    "string list \<Rightarrow> 'w provider \<Rightarrow> bool \<Rightarrow> 'w \<Rightarrow>
     refusal option \<times> (string \<Rightarrow> bool option) \<times> 'w" where
  "preflight members health allow_degraded w =
     (let (states, w1) = probe health members w Map.empty;
          healthy = filter (\<lambda>h. states h = Some True) (remdups members)
      in (if members = [] then Some No_Members
          else if healthy = [] then Some None_Healthy
          else if length healthy < length members \<and> \<not> allow_degraded
          then Some (Degraded (filter (\<lambda>h. states h \<noteq> Some True) members))
          else None,
          states, w1))"

section \<open>A run\<close>

record 'w roll =
  ro_world :: 'w
  ro_events :: "event list"
  ro_healthy :: "string set"
  ro_out :: "string set"
  ro_done :: "string list"

text \<open>Call a provider and log what it said.\<close>

definition call :: "'w provider \<Rightarrow> phase \<Rightarrow> string \<Rightarrow> 'w roll \<Rightarrow> (bool \<times> string) \<times> 'w roll" where
  "call f ph h s =
     (case safe f h (ro_world s) of ((ok, d), w) \<Rightarrow>
        ((ok, d), s\<lparr>ro_world := w, ro_events := ro_events s @
           [\<lparr>ev_host = h, ev_phase = ph, ev_status = (if ok then Ev_Ok else Ev_Error),
             ev_detail = d\<rparr>]\<rparr>))"

definition mark_out :: "string \<Rightarrow> 'w roll \<Rightarrow> 'w roll" where
  "mark_out h s = s\<lparr>ro_healthy := ro_healthy s - {h}, ro_out := insert h (ro_out s)\<rparr>"

definition mark_back :: "string \<Rightarrow> 'w roll \<Rightarrow> 'w roll" where
  "mark_back h s = s\<lparr>ro_healthy := insert h (ro_healthy s), ro_out := ro_out s - {h}\<rparr>"

datatype reason =
  Refused refusal
| Below_Minimum "string list" int
| Not_Drained string string
| Operator_Cancelled
| Act_Failed string string
| Never_Back string string
| Not_Healthy string string
| Not_Returned string string
| All_Rolled

text \<open>The members taken out so far, and the one that could not be.\<close>

fun drain_group ::
    "'w provider \<Rightarrow> string list \<Rightarrow> string list \<Rightarrow> 'w roll \<Rightarrow>
     (string \<times> string) option \<times> string list \<times> 'w roll" where
  "drain_group f [] drained s = (None, drained, s)"
| "drain_group f (h # hs) drained s =
     (case call f Drain h s of ((ok, d), s1) \<Rightarrow>
        if \<not> ok then (Some (h, d), drained, s1)
        else drain_group f hs (drained @ [h]) (mark_out h s1))"

datatype act_stop = Stop_Cancelled | Stop_Failed string string

fun act_group ::
    "('w \<Rightarrow> bool \<times> 'w) \<Rightarrow> 'w provider \<Rightarrow> string list \<Rightarrow> 'w roll \<Rightarrow> act_stop option \<times> 'w roll" where
  "act_group cancelled f [] s = (None, s)"
| "act_group cancelled f (h # hs) s =
     (case cancelled (ro_world s) of (stop, w) \<Rightarrow>
        (let s0 = s\<lparr>ro_world := w\<rparr>
         in if stop then (Some Stop_Cancelled, s0)
            else (case call f Act h s0 of ((ok, d), s1) \<Rightarrow>
                    if \<not> ok then (Some (Stop_Failed h d), s1) else act_group cancelled f hs s1)))"

text \<open>A phase that only checks: settle or health, the first failing member stops it.\<close>

fun check_group ::
    "'w provider \<Rightarrow> phase \<Rightarrow> string list \<Rightarrow> 'w roll \<Rightarrow> (string \<times> string) option \<times> 'w roll" where
  "check_group f ph [] s = (None, s)"
| "check_group f ph (h # hs) s =
     (case call f ph h s of ((ok, d), s1) \<Rightarrow>
        if \<not> ok then (Some (h, d), s1) else check_group f ph hs s1)"

fun undrain_group ::
    "'w provider \<Rightarrow> string list \<Rightarrow> 'w roll \<Rightarrow> (string \<times> string) option \<times> 'w roll" where
  "undrain_group f [] s = (None, s)"
| "undrain_group f (h # hs) s =
     (case call f Undrain h s of ((ok, d), s1) \<Rightarrow>
        if \<not> ok then (Some (h, d), s1)
        else undrain_group f hs ((mark_back h s1)\<lparr>ro_done := ro_done s1 @ [h]\<rparr>))"

text \<open>\<open>bail\<close>: put back the members of the group that are fine, all but the blamed one.\<close>

fun put_back :: "'w pool \<Rightarrow> string option \<Rightarrow> string list \<Rightarrow> 'w roll \<Rightarrow> 'w roll" where
  "put_back p blamed [] s = s"
| "put_back p blamed (h # hs) s =
     (if blamed = Some h then put_back p blamed hs s
      else (case call (pl_health p) Health h s of ((ok, _), s1) \<Rightarrow>
        if \<not> ok then put_back p blamed hs s1
        else (case call (pl_undrain p) Undrain h s1 of ((ok', _), s2) \<Rightarrow>
                put_back p blamed hs (if ok' then mark_back h s2 else s2))))"

datatype run_state = Run_Ok | Run_Failed | Run_Refused | Run_Cancelled

text \<open>
  One group through all phases, from the last to the first; \<open>None\<close> means the run goes on.
\<close>

definition return_phase ::
    "'w pool \<Rightarrow> string list \<Rightarrow> 'w roll \<Rightarrow> (run_state \<times> reason) option \<times> 'w roll" where
  "return_phase p drained s =
     (case undrain_group (pl_undrain p) drained s of
        (Some (h, d), s1) \<Rightarrow> (Some (Run_Failed, Not_Returned h d), put_back p (Some h) drained s1)
      | (None, s1) \<Rightarrow> (None, s1))"

definition health_phase ::
    "'w pool \<Rightarrow> string list \<Rightarrow> 'w roll \<Rightarrow> (run_state \<times> reason) option \<times> 'w roll" where
  "health_phase p drained s =
     (case check_group (pl_health p) Health drained s of
        (Some (h, d), s1) \<Rightarrow> (Some (Run_Failed, Not_Healthy h d), put_back p (Some h) drained s1)
      | (None, s1) \<Rightarrow> return_phase p drained s1)"

definition settle_phase ::
    "'w pool \<Rightarrow> string list \<Rightarrow> 'w roll \<Rightarrow> (run_state \<times> reason) option \<times> 'w roll" where
  "settle_phase p drained s =
     (case pl_settle p of None \<Rightarrow> health_phase p drained s
      | Some f \<Rightarrow>
          (case check_group f Settle drained s of
             (Some (h, d), s1) \<Rightarrow> (Some (Run_Failed, Never_Back h d), put_back p (Some h) drained s1)
           | (None, s1) \<Rightarrow> health_phase p drained s1))"

definition act_phase ::
    "'w pool \<Rightarrow> string list \<Rightarrow> 'w roll \<Rightarrow> (run_state \<times> reason) option \<times> 'w roll" where
  "act_phase p drained s =
     (case act_group (pl_cancelled p) (pl_act p) drained s of
        (Some Stop_Cancelled, s1) \<Rightarrow>
          (Some (Run_Cancelled, Operator_Cancelled), put_back p None drained s1)
      | (Some (Stop_Failed h d), s1) \<Rightarrow>
          (Some (Run_Failed, Act_Failed h d), put_back p (Some h) drained s1)
      | (None, s1) \<Rightarrow> settle_phase p drained s1)"

definition roll_group ::
    "'w pool \<Rightarrow> string list \<Rightarrow> 'w roll \<Rightarrow> (run_state \<times> reason) option \<times> 'w roll" where
  "roll_group p grp s =
     (case drain_group (pl_drain p) grp [] s of
        (Some (h, d), drained, s1) \<Rightarrow>
          (Some (Run_Failed, Not_Drained h d), put_back p None drained s1)
      | (None, drained, s1) \<Rightarrow> act_phase p drained s1)"

text \<open>How many healthy members would keep serving with the group out.\<close>

definition left_serving :: "string list \<Rightarrow> 'w roll \<Rightarrow> int" where
  "left_serving grp s =
     int (card (ro_healthy s)) - int (length (filter (\<lambda>h. h \<in> ro_healthy s) grp))"

fun roll_groups ::
    "'w pool \<Rightarrow> int \<Rightarrow> string list list \<Rightarrow> 'w roll \<Rightarrow> (run_state \<times> reason) \<times> 'w roll" where
  "roll_groups p min_healthy [] s = ((Run_Ok, All_Rolled), s)"
| "roll_groups p min_healthy (grp # rest) s =
     (case pl_cancelled p (ro_world s) of (stop, w) \<Rightarrow>
        (let s0 = s\<lparr>ro_world := w\<rparr>
         in if stop then ((Run_Cancelled, Operator_Cancelled), s0)
            else if left_serving grp s0 < min_healthy
            then ((Run_Failed, Below_Minimum grp (left_serving grp s0)),
                  s0\<lparr>ro_events := ro_events s0 @
                      [\<lparr>ev_host = hd grp, ev_phase = Drain, ev_status = Ev_Error, ev_detail = []\<rparr>]\<rparr>)
            else (case roll_group p grp s0 of
                    (Some r, s1) \<Rightarrow> (r, s1)
                  | (None, s1) \<Rightarrow> roll_groups p min_healthy rest s1)))"

record run_result =
  rr_state :: run_state
  rr_reason :: reason
  rr_done :: "string list"
  rr_members :: "string list"
  rr_drained :: "string set"
  rr_skipped :: "string list"
  rr_events :: "event list"

definition mk_result :: "string list \<Rightarrow> (run_state \<times> reason) \<times> 'w roll \<Rightarrow> run_result \<times> 'w" where
  "mk_result members r =
     (case r of ((state, reason), s) \<Rightarrow>
        (\<lparr>rr_state = state, rr_reason = reason, rr_done = ro_done s, rr_members = members,
          rr_drained = ro_out s,
          rr_skipped = filter (\<lambda>m. m \<notin> set (ro_done s) \<and> m \<notin> ro_out s) members,
          rr_events = ro_events s\<rparr>, ro_world s))"

definition healthy_set :: "string list \<Rightarrow> (string \<Rightarrow> bool option) \<Rightarrow> string set" where
  "healthy_set members states = set (filter (\<lambda>h. states h = Some True) members)"

definition run ::
    "string list \<Rightarrow> 'w pool \<Rightarrow> int \<Rightarrow> bool \<Rightarrow> int \<Rightarrow> 'w \<Rightarrow> run_result \<times> 'w" where
  "run members p max_unavailable allow_degraded min_healthy w =
     (case preflight members (pl_health p) allow_degraded w of
        (Some why, states, w1) \<Rightarrow>
          mk_result members ((Run_Refused, Refused why),
            \<lparr>ro_world = w1, ro_events = [\<lparr>ev_host = [], ev_phase = Drain, ev_status = Ev_Error,
                                         ev_detail = []\<rparr>],
             ro_healthy = {}, ro_out = {}, ro_done = []\<rparr>)
      | (None, states, w1) \<Rightarrow>
          mk_result members
            (roll_groups p min_healthy (batches members max_unavailable)
              \<lparr>ro_world = w1, ro_events = [], ro_healthy = healthy_set members states,
               ro_out = {}, ro_done = []\<rparr>))"

section \<open>Reading the log\<close>

text \<open>What the rotation looks like after a log: drained members out, returned ones in.\<close>

definition after :: "event \<Rightarrow> string set \<Rightarrow> string set" where
  "after e H =
     (if ev_status e = Ev_Ok \<and> ev_phase e = Drain then H - {ev_host e}
      else if ev_status e = Ev_Ok \<and> ev_phase e = Undrain then insert (ev_host e) H else H)"

definition replay :: "string set \<Rightarrow> event list \<Rightarrow> string set" where
  "replay H evs = foldl (\<lambda>H e. after e H) H evs"

definition out_after :: "event \<Rightarrow> string set \<Rightarrow> string set" where
  "out_after e Z =
     (if ev_status e = Ev_Ok \<and> ev_phase e = Drain then insert (ev_host e) Z
      else if ev_status e = Ev_Ok \<and> ev_phase e = Undrain then Z - {ev_host e} else Z)"

definition out_replay :: "event list \<Rightarrow> string set" where
  "out_replay evs = foldl (\<lambda>Z e. out_after e Z) {} evs"

definition drained_once :: "event list \<Rightarrow> bool" where
  "drained_once evs = list_ex (\<lambda>e. ev_phase e = Drain \<and> ev_status e = Ev_Ok) evs"

lemma replay_snoc [simp]: "replay H (evs @ [e]) = after e (replay H evs)"
  by (simp add: replay_def)

lemma out_replay_snoc [simp]: "out_replay (evs @ [e]) = out_after e (out_replay evs)"
  by (simp add: out_replay_def)

lemma drained_once_snoc [simp]:
  "drained_once (evs @ [e]) \<longleftrightarrow> drained_once evs \<or> ev_phase e = Drain \<and> ev_status e = Ev_Ok"
  by (auto simp: drained_once_def)

section \<open>Invariant of a run\<close>

text \<open>
  The state agrees with its own log, and at no point of the log after the first drain did fewer
  than \<open>k\<close> healthy members serve.
\<close>

definition inv :: "string set \<Rightarrow> int \<Rightarrow> 'w roll \<Rightarrow> bool" where
  "inv H k s =
     (ro_healthy s = replay H (ro_events s) \<and> ro_out s = out_replay (ro_events s) \<and>
      finite (ro_healthy s) \<and>
      (\<forall>evs. prefix evs (ro_events s) \<longrightarrow> drained_once evs \<longrightarrow> k \<le> int (card (replay H evs))))"

lemma inv_world [simp]: "inv H k (s\<lparr>ro_world := w\<rparr>) = inv H k s"
  "inv H k (s\<lparr>ro_done := ds\<rparr>) = inv H k s"
  by (simp_all add: inv_def)

lemma inv_finite: "inv H k s \<Longrightarrow> finite (ro_healthy s)"
  unfolding inv_def by blast

lemma invD: "inv H k s \<Longrightarrow> drained_once (ro_events s) \<Longrightarrow> k \<le> int (card (ro_healthy s))"
  by (simp add: inv_def)

lemma call_neutral:
  assumes "inv H k s" "call f ph h s = ((ok, d), s1)" "ph \<notin> {Drain, Undrain} \<or> \<not> ok"
  shows "inv H k s1" "ro_out s1 = ro_out s" "ro_healthy s1 = ro_healthy s" "ro_done s1 = ro_done s"
proof -
  show *: "ro_out s1 = ro_out s" "ro_healthy s1 = ro_healthy s" "ro_done s1 = ro_done s"
    using assms(2) by (auto simp: call_def split: prod.splits)
  from assms(2) obtain e where e: "ro_events s1 = ro_events s @ [e]" "ev_phase e = ph"
      "ev_status e = (if ok then Ev_Ok else Ev_Error)"
    by (auto simp: call_def split: prod.splits)
  then have "after e X = X" "out_after e X = X" "\<not> (ev_phase e = Drain \<and> ev_status e = Ev_Ok)" for X
    using assms(3) by (auto simp: after_def out_after_def split: if_splits)
  then show "inv H k s1" using assms(1) * e(1) by (auto simp: inv_def prefix_snoc)
qed

lemma call_drain:
  assumes "inv H k s" "call f Drain h s = ((True, d), s1)" "k \<le> int (card (ro_healthy s - {h}))"
  shows "inv H k (mark_out h s1)"
  using assms by (auto simp: call_def inv_def mark_out_def prefix_snoc after_def out_after_def
      split: prod.splits)

lemma call_undrain:
  assumes "inv H k s" "call f Undrain h s = ((True, d), s1)"
  shows "inv H k (mark_back h s1)"
proof -
  have "card (replay H (ro_events s)) \<le> card (insert h (replay H (ro_events s)))"
    by (rule card_insert_le)
  then show ?thesis
    using assms by (auto simp: call_def inv_def mark_back_def prefix_snoc after_def out_after_def
        split: prod.splits) (metis of_nat_mono order_trans prefix_order.refl)
qed

lemma drain_group_inv:
  assumes "inv H k s" "k \<le> left_serving hs s" "drain_group f hs dr s = (x, drained, s1)"
  shows "inv H k s1 \<and> ro_done s1 = ro_done s \<and>
    (\<exists>pre. drained = dr @ pre \<and> prefix pre hs \<and> (x = None \<longrightarrow> pre = hs) \<and>
      ro_out s1 = ro_out s \<union> set pre)"
  using assms
proof (induction hs arbitrary: dr s)
  case Nil
  then show ?case by auto
next
  case (Cons h hs)
  obtain ok d s2 where c: "call f Drain h s = ((ok, d), s2)" by (metis surj_pair)
  show ?case
  proof (cases ok)
    case False
    with Cons.prems c call_neutral [OF Cons.prems(1) c] show ?thesis by auto
  next
    case True
    have fin: "finite (ro_healthy s)" using Cons.prems(1) by (rule inv_finite)
    have same: "ro_healthy s2 = ro_healthy s" "ro_out s2 = ro_out s" "ro_done s2 = ro_done s"
      using c by (auto simp: call_def split: prod.splits)
    have le: "length (filter (\<lambda>x. x \<in> ro_healthy s - {h}) hs) \<le> length (filter (\<lambda>x. x \<in> ro_healthy s) hs)"
      by (induction hs) auto
    have cd: "h \<in> ro_healthy s \<Longrightarrow> int (card (ro_healthy s - {h})) = int (card (ro_healthy s)) - 1"
      using card.remove [OF fin, of h] by simp
    have k: "k \<le> left_serving hs (mark_out h s2)"
    proof (cases "h \<in> ro_healthy s")
      case True
      with Cons.prems(2) le cd [OF True] show ?thesis by (simp add: left_serving_def mark_out_def same)
    next
      case False
      with Cons.prems(2) show ?thesis by (simp add: left_serving_def mark_out_def same)
    qed
    then have "k \<le> int (card (ro_healthy s - {h}))"
      by (simp add: left_serving_def mark_out_def same)
    then have i: "inv H k (mark_out h s2)"
      using call_drain [OF Cons.prems(1)] c True by simp
    from Cons.IH [OF i k, of "dr @ [h]"] Cons.prems(3) c True same show ?thesis
      by (auto simp: mark_out_def)
  qed
qed

lemma act_group_inv:
  assumes "inv H k s" "act_group cn f hs s = (x, s1)"
  shows "inv H k s1 \<and> ro_done s1 = ro_done s \<and> ro_out s1 = ro_out s \<and>
    (\<forall>h d. x = Some (Stop_Failed h d) \<longrightarrow> h \<in> set hs)"
  using assms
proof (induction hs arbitrary: s)
  case (Cons h hs)
  obtain stop w where cn: "cn (ro_world s) = (stop, w)" by fastforce
  obtain ok d s2 where c: "call f Act h (s\<lparr>ro_world := w\<rparr>) = ((ok, d), s2)" by (metis surj_pair)
  have n: "inv H k s2" "ro_out s2 = ro_out s" "ro_done s2 = ro_done s"
    using call_neutral [OF _ c, of H k] Cons.prems(1) by auto
  have step: "act_group cn f (h # hs) s =
      (if stop then (Some Stop_Cancelled, s\<lparr>ro_world := w\<rparr>)
       else if \<not> ok then (Some (Stop_Failed h d), s2) else act_group cn f hs s2)"
    by (simp add: cn c Let_def)
  consider "stop" | "\<not> stop" "\<not> ok" | "\<not> stop" "ok" by blast
  then show ?case
  proof cases
    case 1
    with step Cons.prems(2) have "x = Some Stop_Cancelled" "s1 = s\<lparr>ro_world := w\<rparr>" by auto
    with Cons.prems(1) show ?thesis by simp
  next
    case 2
    with step Cons.prems(2) have "x = Some (Stop_Failed h d)" "s1 = s2" by auto
    with n show ?thesis by simp
  next
    case 3
    with step Cons.prems(2) have "act_group cn f hs s2 = (x, s1)" by simp
    from Cons.IH [OF n(1) this] n show ?thesis by auto
  qed
next
  case Nil
  then show ?case by simp
qed

lemma check_group_inv:
  assumes "inv H k s" "check_group f ph hs s = (x, s1)" "ph \<notin> {Drain, Undrain}"
  shows "inv H k s1 \<and> ro_done s1 = ro_done s \<and> ro_out s1 = ro_out s \<and>
    (\<forall>h d. x = Some (h, d) \<longrightarrow> h \<in> set hs)"
  using assms
proof (induction hs arbitrary: s)
  case (Cons h hs)
  obtain ok d s2 where c: "call f ph h s = ((ok, d), s2)" by (metis surj_pair)
  note n = call_neutral [OF Cons.prems(1) c]
  show ?case
  proof (cases ok)
    case True
    with Cons.IH [of s2] Cons.prems c n show ?thesis by auto
  qed (use Cons.prems c n in auto)
qed auto

lemma undrain_group_inv:
  assumes "inv H k s" "undrain_group f hs s = (x, s1)"
  shows "inv H k s1 \<and>
    (\<exists>pre. ro_done s1 = ro_done s @ pre \<and> prefix pre hs \<and> (x = None \<longrightarrow> pre = hs) \<and>
      ro_out s1 = ro_out s - set pre \<and>
      (\<forall>h d. x = Some (h, d) \<longrightarrow> (\<exists>suf. hs = pre @ h # suf)))"
  using assms
proof (induction hs arbitrary: s)
  case (Cons h hs)
  obtain ok d s2 where c: "call f Undrain h s = ((ok, d), s2)" by (metis surj_pair)
  show ?case
  proof (cases ok)
    case False
    with Cons.prems c call_neutral [OF Cons.prems(1) c] show ?thesis by auto
  next
    case True
    let ?s3 = "(mark_back h s2)\<lparr>ro_done := ro_done s2 @ [h]\<rparr>"
    have same: "ro_out s2 = ro_out s" "ro_done s2 = ro_done s"
      using c by (auto simp: call_def split: prod.splits)
    have "inv H k ?s3" using call_undrain [OF Cons.prems(1)] c True by simp
    from Cons.IH [OF this] Cons.prems(2) c True obtain pre where
      "inv H k s1" "ro_done s1 = ro_done s @ h # pre" "prefix pre hs" "x = None \<longrightarrow> pre = hs"
      "ro_out s1 = ro_out s - {h} - set pre" "\<forall>h d. x = Some (h, d) \<longrightarrow> (\<exists>suf. hs = pre @ h # suf)"
      by (auto simp: mark_back_def same)
    then show ?thesis by (intro conjI exI [of _ "h # pre"]) auto
  qed
qed auto

lemma put_back_inv:
  "inv H k s \<Longrightarrow> inv H k (put_back p b hs s) \<and> ro_done (put_back p b hs s) = ro_done s \<and>
    ro_out (put_back p b hs s) \<subseteq> ro_out s \<and>
    (\<forall>h. h \<in> ro_out s \<longrightarrow> b = Some h \<or> h \<notin> set hs \<longrightarrow> h \<in> ro_out (put_back p b hs s))"
proof (induction hs arbitrary: s)
  case (Cons h hs)
  obtain ok d s1 where c: "call (pl_health p) Health h s = ((ok, d), s1)" by (metis surj_pair)
  note n = call_neutral [OF Cons.prems c]
  obtain ok' d' s2 where c': "call (pl_undrain p) Undrain h s1 = ((ok', d'), s2)" by (metis surj_pair)
  show ?case
  proof (cases "b = Some h \<or> \<not> ok")
    case True
    with Cons.IH [OF Cons.prems] Cons.IH [of s1] c n show ?thesis by auto
  next
    case False
    have i1: "inv H k s1" using n by auto
    show ?thesis
    proof (cases ok')
      case True
      have same: "ro_out s2 = ro_out s1" "ro_done s2 = ro_done s1"
        using c' by (auto simp: call_def split: prod.splits)
      have "inv H k (mark_back h s2)" using call_undrain [OF i1] c' True by simp
      from Cons.IH [OF this] False c c' True n same show ?thesis
        by (auto simp: mark_back_def)
    next
      case no: False
      from Cons.IH [of s2] call_neutral [OF i1 c'] False c c' no n show ?thesis by auto
    qed
  qed
qed auto

section \<open>One group\<close>

text \<open>The member a failure is blamed on.\<close>

definition blamed :: "reason \<Rightarrow> string option" where
  "blamed r = (case r of Act_Failed h d \<Rightarrow> Some h | Never_Back h d \<Rightarrow> Some h
     | Not_Healthy h d \<Rightarrow> Some h | Not_Returned h d \<Rightarrow> Some h | _ \<Rightarrow> None)"

text \<open>What a group leaves behind: its log is sound, its members are accounted for.\<close>

definition group_post ::
    "string set \<Rightarrow> int \<Rightarrow> string list \<Rightarrow> 'w roll \<Rightarrow> (run_state \<times> reason) option \<Rightarrow> 'w roll \<Rightarrow> bool" where
  "group_post H k grp s x s1 =
     (inv H k s1 \<and>
      (\<exists>pre. ro_done s1 = ro_done s @ pre \<and> prefix pre grp \<and> ro_out s1 \<subseteq> set grp - set pre \<and>
         (x = None \<longrightarrow> pre = grp)) \<and>
      (\<forall>st r. x = Some (st, r) \<longrightarrow> st \<noteq> Run_Ok \<and> st \<noteq> Run_Refused \<and>
         (\<forall>h. blamed r = Some h \<longrightarrow> h \<in> ro_out s1)))"

lemma group_stop:
  assumes "inv H k s2" "ro_done s2 = ro_done s @ pre" "prefix pre grp" "ro_out s2 \<subseteq> set grp - set pre"
    and "st \<noteq> Run_Ok" "st \<noteq> Run_Refused" "\<And>h. blamed r = Some h \<Longrightarrow> b = Some h \<and> h \<in> ro_out s2"
  shows "group_post H k grp s (Some (st, r)) (put_back p b hs s2)"
proof -
  note pb = put_back_inv [OF assms(1), of p b hs]
  have "\<exists>pre. ro_done (put_back p b hs s2) = ro_done s @ pre \<and> prefix pre grp \<and>
      ro_out (put_back p b hs s2) \<subseteq> set grp - set pre"
    using pb assms(2-4) by (intro exI [of _ pre]) auto
  moreover have "h \<in> ro_out (put_back p b hs s2)" if "blamed r = Some h" for h
    using pb assms(7) [OF that] by blast
  ultimately show ?thesis using pb assms(5,6) by (simp add: group_post_def)
qed

text \<open>The state between the phases: the whole group is out, none of it done.\<close>

definition at_work :: "string set \<Rightarrow> int \<Rightarrow> string list \<Rightarrow> 'w roll \<Rightarrow> 'w roll \<Rightarrow> bool" where
  "at_work H k grp s s1 = (inv H k s1 \<and> ro_done s1 = ro_done s \<and> ro_out s1 = set grp)"

lemma work_stop:
  assumes "at_work H k grp s s1" "st \<noteq> Run_Ok" "st \<noteq> Run_Refused"
    and "\<And>h. blamed r = Some h \<Longrightarrow> b = Some h \<and> h \<in> set grp"
  shows "group_post H k grp s (Some (st, r)) (put_back p b hs s1)"
  using assms by (intro group_stop [of _ _ _ _ "[]"]) (auto simp: at_work_def)

lemma return_phase_post:
  assumes "at_work H k grp s s1" "distinct grp" "return_phase p grp s1 = (x, s')"
  shows "group_post H k grp s x s'"
proof -
  obtain ux s2 where u: "undrain_group (pl_undrain p) grp s1 = (ux, s2)" by fastforce
  have "inv H k s1" using assms(1) by (simp add: at_work_def)
  from undrain_group_inv [OF this u] assms(1) obtain pre where
    i: "inv H k s2" and pre: "ro_done s2 = ro_done s @ pre" "prefix pre grp" "ux = None \<Longrightarrow> pre = grp"
      "ro_out s2 = set grp - set pre"
    and bl: "\<And>h d. ux = Some (h, d) \<Longrightarrow> \<exists>suf. grp = pre @ h # suf"
    by (auto simp: at_work_def)
  show ?thesis
  proof (cases ux)
    case None
    with assms(3) u i pre show ?thesis by (auto simp: return_phase_def group_post_def)
  next
    case (Some hd)
    then obtain h d where hd: "ux = Some (h, d)" by (cases hd) auto
    from bl [OF hd] obtain suf where suf: "grp = pre @ h # suf" ..
    have "h \<in> set grp - set pre" using assms(2) unfolding suf by simp
    then have "h \<in> ro_out s2" by (simp only: pre(4))
    have "group_post H k grp s (Some (Run_Failed, Not_Returned h d)) (put_back p (Some h) grp s2)"
    proof (rule group_stop [OF i pre(1) pre(2)])
      show "ro_out s2 \<subseteq> set grp - set pre" using pre(4) by (rule equalityD1)
      fix h' assume "blamed (Not_Returned h d) = Some h'"
      then have "h' = h" by (simp add: blamed_def)
      with \<open>h \<in> ro_out s2\<close> show "Some h = Some h' \<and> h' \<in> ro_out s2" by blast
    qed simp_all
    with assms(3) u hd show ?thesis by (auto simp: return_phase_def)
  qed
qed

lemma check_work:
  assumes "at_work H k grp s s1" "check_group f ph grp s1 = (x, s2)" "ph \<notin> {Drain, Undrain}"
  shows "at_work H k grp s s2" "x = Some (h, d) \<Longrightarrow> h \<in> set grp"
  using check_group_inv [OF _ assms(2,3), of H k] assms(1) by (auto simp: at_work_def)

lemma health_phase_post:
  assumes "at_work H k grp s s1" "distinct grp" "health_phase p grp s1 = (x, s')"
  shows "group_post H k grp s x s'"
proof -
  obtain hx s2 where c: "check_group (pl_health p) Health grp s1 = (hx, s2)" by fastforce
  note w = check_work [OF assms(1) c]
  show ?thesis
  proof (cases hx)
    case None
    with assms(3) c have "return_phase p grp s2 = (x, s')" by (simp add: health_phase_def)
    with w(1) assms(2) show ?thesis by (simp add: return_phase_post)
  next
    case (Some hd)
    then obtain h d where hd: "hx = Some (h, d)" by (cases hd) auto
    have "group_post H k grp s (Some (Run_Failed, Not_Healthy h d)) (put_back p (Some h) grp s2)"
      using w(1) w(2) [OF _ hd] by (intro work_stop) (auto simp: blamed_def)
    with assms(3) c hd show ?thesis by (simp add: health_phase_def)
  qed
qed

lemma settle_phase_post:
  assumes "at_work H k grp s s1" "distinct grp" "settle_phase p grp s1 = (x, s')"
  shows "group_post H k grp s x s'"
proof (cases "pl_settle p")
  case None
  with assms show ?thesis by (simp add: settle_phase_def health_phase_post)
next
  case f: (Some f)
  obtain hx s2 where c: "check_group f Settle grp s1 = (hx, s2)" by fastforce
  note w = check_work [OF assms(1) c]
  show ?thesis
  proof (cases hx)
    case None
    with assms(3) c f have "health_phase p grp s2 = (x, s')" by (simp add: settle_phase_def)
    with w(1) assms(2) show ?thesis by (simp add: health_phase_post)
  next
    case (Some hd)
    then obtain h d where hd: "hx = Some (h, d)" by (cases hd) auto
    have "group_post H k grp s (Some (Run_Failed, Never_Back h d)) (put_back p (Some h) grp s2)"
      using w(1) w(2) [OF _ hd] by (intro work_stop) (auto simp: blamed_def)
    with assms(3) c f hd show ?thesis by (simp add: settle_phase_def)
  qed
qed

lemma act_phase_post:
  assumes "at_work H k grp s s1" "distinct grp" "act_phase p grp s1 = (x, s')"
  shows "group_post H k grp s x s'"
proof -
  obtain ax s2 where c: "act_group (pl_cancelled p) (pl_act p) grp s1 = (ax, s2)" by fastforce
  have "inv H k s1" using assms(1) by (simp add: at_work_def)
  from act_group_inv [OF this c] assms(1) have w: "at_work H k grp s s2"
    and bl: "\<And>h d. ax = Some (Stop_Failed h d) \<Longrightarrow> h \<in> set grp"
    by (auto simp: at_work_def)
  consider "ax = None" | "ax = Some Stop_Cancelled" | h d where "ax = Some (Stop_Failed h d)"
    by (metis act_stop.exhaust option.exhaust)
  then show ?thesis
  proof cases
    case 1
    with assms c w show ?thesis by (simp add: act_phase_def settle_phase_post)
  next
    case 2
    have "group_post H k grp s (Some (Run_Cancelled, Operator_Cancelled)) (put_back p None grp s2)"
      using w by (rule work_stop) (auto simp: blamed_def)
    with assms(3) c 2 show ?thesis by (simp add: act_phase_def)
  next
    case (3 h d)
    have "group_post H k grp s (Some (Run_Failed, Act_Failed h d)) (put_back p (Some h) grp s2)"
      using w bl [OF 3] by (intro work_stop) (auto simp: blamed_def)
    with assms(3) c 3 show ?thesis by (simp add: act_phase_def)
  qed
qed

lemma roll_group_post:
  assumes "inv H k s" "k \<le> left_serving grp s" "ro_out s = {}" "distinct grp"
    and run: "roll_group p grp s = (x, s')"
  shows "group_post H k grp s x s'"
proof -
  obtain dx drained s1 where dg: "drain_group (pl_drain p) grp [] s = (dx, drained, s1)"
    by (metis surj_pair)
  from drain_group_inv [OF assms(1,2) dg] assms(3) have
    i1: "inv H k s1" and d1: "ro_done s1 = ro_done s" and dr: "prefix drained grp"
    and o1: "ro_out s1 = set drained" and full: "dx = None \<Longrightarrow> drained = grp"
    by auto
  show ?thesis
  proof (cases dx)
    case None
    with run dg full o1 d1 i1 assms(4) show ?thesis
      by (auto simp: roll_group_def at_work_def intro!: act_phase_post)
  next
    case (Some hd)
    then obtain h d where hd: "dx = Some (h, d)" by (cases hd) auto
    have "group_post H k grp s (Some (Run_Failed, Not_Drained h d)) (put_back p None drained s1)"
      using d1 o1 set_mono_prefix [OF dr]
      by (intro group_stop [OF i1, of _ "[]"]) (auto simp: blamed_def)
    with run dg hd show ?thesis by (simp add: roll_group_def)
  qed
qed

section \<open>The whole run\<close>

lemma roll_groups_post:
  assumes "inv H k s" "ro_out s = {}" "distinct (ro_done s @ concat gs)"
    and "roll_groups p k gs s = ((st, r), s')"
  shows "inv H k s' \<and> st \<noteq> Run_Refused \<and> ro_out s' \<inter> set (ro_done s') = {} \<and>
    set (ro_done s') \<union> ro_out s' \<subseteq> set (ro_done s @ concat gs) \<and>
    (st = Run_Ok \<longrightarrow> ro_done s' = ro_done s @ concat gs \<and> ro_out s' = {}) \<and>
    (\<forall>h. blamed r = Some h \<longrightarrow> h \<in> ro_out s')"
  using assms
proof (induction gs arbitrary: s)
  case Nil
  then show ?case by (auto simp: blamed_def)
next
  case (Cons grp rest)
  obtain stop w where cn: "pl_cancelled p (ro_world s) = (stop, w)" by fastforce
  define s0 where "s0 = s\<lparr>ro_world := w\<rparr>"
  obtain x s1 where rg: "roll_group p grp s0 = (x, s1)" by fastforce
  have s0: "inv H k s0" "ro_out s0 = {}" "ro_done s0 = ro_done s"
    using Cons.prems by (simp_all add: s0_def)
  have step: "roll_groups p k (grp # rest) s =
      (if stop then ((Run_Cancelled, Operator_Cancelled), s0)
       else if left_serving grp s0 < k
       then ((Run_Failed, Below_Minimum grp (left_serving grp s0)),
             s0\<lparr>ro_events := ro_events s0 @
                [\<lparr>ev_host = hd grp, ev_phase = Drain, ev_status = Ev_Error, ev_detail = []\<rparr>]\<rparr>)
       else case x of Some r \<Rightarrow> (r, s1) | None \<Rightarrow> roll_groups p k rest s1)"
    by (simp add: cn s0_def [symmetric] Let_def rg split: option.split)
  show ?case
  proof (cases "stop \<or> left_serving grp s0 < k")
    case True
    have "inv H k (s0\<lparr>ro_events := ro_events s0 @
        [\<lparr>ev_host = hd grp, ev_phase = Drain, ev_status = Ev_Error, ev_detail = []\<rparr>]\<rparr>)"
      using s0(1) by (auto simp: inv_def prefix_snoc after_def out_after_def)
    with True step Cons.prems(4) s0 show ?thesis by (auto simp: blamed_def split: if_splits)
  next
    case False
    then have k: "k \<le> left_serving grp s0" by simp
    have "distinct grp" using Cons.prems(3) by simp
    from roll_group_post [OF s0(1) k s0(2) this rg] have gp: "group_post H k grp s0 x s1" .
    then obtain pre where pre: "ro_done s1 = ro_done s @ pre" "prefix pre grp"
        "ro_out s1 \<subseteq> set grp - set pre" "x = None \<Longrightarrow> pre = grp"
      by (auto simp: group_post_def s0)
    note sub = set_mono_prefix [OF pre(2)]
    show ?thesis
    proof (cases x)
      case None
      have "roll_groups p k rest s1 = ((st, r), s')" using False step None Cons.prems(4) by simp
      moreover have "inv H k s1" "ro_out s1 = {}" "ro_done s1 = ro_done s @ grp"
        using gp pre None by (auto simp: group_post_def)
      ultimately show ?thesis using Cons.IH [of s1] Cons.prems(3) by auto
    next
      case (Some y)
      then have "x = Some (st, r)" "s' = s1" using False step Cons.prems(4) by auto
      with gp have gp': "inv H k s'" "st \<noteq> Run_Ok" "st \<noteq> Run_Refused"
          "\<forall>h. blamed r = Some h \<longrightarrow> h \<in> ro_out s'"
        by (auto simp: group_post_def)
      have "ro_out s' \<inter> set (ro_done s') = {}" "set (ro_done s') \<union> ro_out s' \<subseteq> set (ro_done s @ concat (grp # rest))"
        using pre sub Cons.prems(3) \<open>s' = s1\<close> by auto
      with gp' show ?thesis by blast
    qed
  qed
qed

lemma concat_chunks: "concat (chunks n xs) = xs"
  by (induction n xs rule: chunks.induct) (simp_all del: take.simps drop.simps add: append_take_drop_id)

lemma concat_batches: "concat (batches members m) = members"
  by (simp add: batches_def Let_def concat_chunks)

text \<open>A run that is not refused is a roll over the batches from the probed state.\<close>

lemma run_started:
  assumes "run members p mu ad k w = (res, w')" "rr_state res \<noteq> Run_Refused"
  obtains states w1 st r s where
    "preflight members (pl_health p) ad w = (None, states, w1)"
    "roll_groups p k (batches members mu)
       \<lparr>ro_world = w1, ro_events = [], ro_healthy = healthy_set members states, ro_out = {},
        ro_done = []\<rparr> = ((st, r), s)"
    "mk_result members ((st, r), s) = (res, w')"
proof -
  obtain why states w1 where pf: "preflight members (pl_health p) ad w = (why, states, w1)"
    by (metis surj_pair)
  from assms pf have "why = None"
    by (cases why) (auto simp: run_def mk_result_def)
  with assms(1) pf that show thesis
    by (cases "roll_groups p k (batches members mu)
       \<lparr>ro_world = w1, ro_events = [], ro_healthy = healthy_set members states, ro_out = {},
        ro_done = []\<rparr>") (auto simp: run_def)
qed

lemma inv_start:
  "inv (healthy_set members states) k
    \<lparr>ro_world = w, ro_events = [], ro_healthy = healthy_set members states, ro_out = {}, ro_done = []\<rparr>"
  by (simp add: inv_def replay_def out_replay_def healthy_set_def drained_once_def)

end
