(* ===== verification/Pools.thy ===== *)
theory Pools
  imports Id_Store Py_Str Rolling
begin

text \<open>
  Pools (\<^verbatim>\<open>webgui/pools.py\<close>): the stored description a rolling run is started from, its
  validation, and create, update and delete.  A numeric field is what \<open>int\<close> reads from it, with
  \<open>None\<close> where that raises; an id and a clock reading are the drawn values.
\<close>

record pool_health =
  ph_kind :: "string option"
  ph_target :: "string option"

record pool_rec =
  po_id :: string
  po_name :: "string option"
  po_members :: "string list"
  po_provider :: "string option"
  po_drain_cmd :: "string option"
  po_undrain_cmd :: "string option"
  po_health :: "pool_health option"
  po_max_unavailable :: "int option"
  po_min_healthy :: "int option"
  po_settle_secs :: "int option"
  po_created_by :: string
  po_created_ts :: instant

definition MAX_UNAVAILABLE_CAP :: int where
  "MAX_UNAVAILABLE_CAP = 32"

definition SETTLE_CAP :: int where
  "SETTLE_CAP = 3600"

definition as_int :: "int option \<Rightarrow> int \<Rightarrow> int" where
  "as_int v d = (case v of None \<Rightarrow> d | Some n \<Rightarrow> n)"

definition name_char :: "char \<Rightarrow> bool" where
  "name_char c = (is_alnum c \<or> c \<in> set ''_ .:/+-'')"

definition provider_of :: "pool_rec \<Rightarrow> string" where
  "provider_of p = or_else (po_provider p) ''none''"

definition health_kind :: "pool_rec \<Rightarrow> string" where
  "health_kind p =
     (case po_health p of None \<Rightarrow> ''agent'' | Some h \<Rightarrow> or_else (ph_kind h) ''agent'')"

definition health_target :: "pool_rec \<Rightarrow> string" where
  "health_target p =
     (case po_health p of None \<Rightarrow> [] | Some h \<Rightarrow> strip (or_else (ph_target h) []))"

datatype pool_error =
  Bad_Name | Bad_Members | Repeated_Member | Too_Few_Members | Unknown_Provider
| Missing_Commands | Unknown_Health | Missing_Target | Bad_Port | Bad_Max_Unavailable
| Bad_Min_Healthy | Nothing_Left | Bad_Settle

text \<open>The first check that fails, in the order of the source; \<open>None\<close> is acceptance.\<close>

definition pool_validate :: "pool_rec \<Rightarrow> pool_error option" where
  "pool_validate p =
     (let name = strip (or_else (po_name p) []); members = po_members p;
          kind = health_kind p; target = health_target p;
          mu = as_int (po_max_unavailable p) 1; mh = as_int (po_min_healthy p) 1;
          settle = as_int (po_settle_secs p) 0
      in if name = [] \<or> 64 < length name \<or> \<not> list_all name_char name then Some Bad_Name
         else if [] \<in> set members then Some Bad_Members
         else if \<not> distinct members then Some Repeated_Member
         else if length members < 2 then Some Too_Few_Members
         else if provider_of p \<notin> {''none'', ''command''} then Some Unknown_Provider
         else if provider_of p = ''command'' \<and>
                 (strip (or_else (po_drain_cmd p) []) = [] \<or> strip (or_else (po_undrain_cmd p) []) = [])
         then Some Missing_Commands
         else if kind \<notin> {''agent'', ''tcp'', ''http'', ''command''} then Some Unknown_Health
         else if kind \<in> {''tcp'', ''http'', ''command''} \<and> target = [] then Some Missing_Target
         else if kind = ''tcp'' \<and> (case parse_int target of None \<Rightarrow> True
                                     | Some port \<Rightarrow> \<not> (1 \<le> port \<and> port \<le> 65535)) then Some Bad_Port
         else if mu < 1 \<or> MAX_UNAVAILABLE_CAP < mu then Some Bad_Max_Unavailable
         else if mh < 1 then Some Bad_Min_Healthy
         else if int (length members) - mh < mu then Some Nothing_Left
         else if settle < 0 \<or> SETTLE_CAP < settle then Some Bad_Settle
         else None)"

section \<open>The store\<close>

definition get_pool :: "string \<Rightarrow> pool_rec list \<Rightarrow> pool_rec option" where
  "get_pool pool_id rows = get_by_id po_id pool_id rows"

text \<open>Numbers made explicit, as create and update do before they validate.\<close>

definition with_defaults :: "pool_rec \<Rightarrow> pool_rec" where
  "with_defaults p =
     p\<lparr>po_max_unavailable := Some (as_int (po_max_unavailable p) 1),
       po_min_healthy := Some (as_int (po_min_healthy p) 1),
       po_settle_secs := Some (as_int (po_settle_secs p) 0)\<rparr>"

definition create_pool ::
    "instant \<Rightarrow> string \<Rightarrow> string \<Rightarrow> pool_rec \<Rightarrow> pool_rec list \<Rightarrow>
     (pool_error + pool_rec) \<times> pool_rec list" where
  "create_pool now new_id created_by data rows =
     (let p = with_defaults (data\<lparr>po_provider := Some (provider_of data),
                po_health := Some (case po_health data of
                    None \<Rightarrow> \<lparr>ph_kind = Some ''agent'', ph_target = None\<rparr> | Some h \<Rightarrow> h)\<rparr>)
      in case pool_validate p of
           Some e \<Rightarrow> (Inl e, rows)
         | None \<Rightarrow>
             (let q = p\<lparr>po_id := new_id, po_created_by := created_by, po_created_ts := now\<rparr>
              in (Inr q, rows @ [q])))"

text \<open>An update carries only the fields that are present and not null.\<close>

record pool_patch =
  pp_name :: "string option"
  pp_members :: "string list option"
  pp_provider :: "string option"
  pp_drain_cmd :: "string option"
  pp_undrain_cmd :: "string option"
  pp_health :: "pool_health option"
  pp_max_unavailable :: "int option"
  pp_min_healthy :: "int option"
  pp_settle_secs :: "int option"

definition merge_pool :: "pool_patch \<Rightarrow> pool_rec \<Rightarrow> pool_rec" where
  "merge_pool data p =
     with_defaults
       (p\<lparr>po_name := coalesce (pp_name data) (po_name p),
          po_members := (case pp_members data of None \<Rightarrow> po_members p | Some m \<Rightarrow> m),
          po_provider := coalesce (pp_provider data) (po_provider p),
          po_drain_cmd := coalesce (pp_drain_cmd data) (po_drain_cmd p),
          po_undrain_cmd := coalesce (pp_undrain_cmd data) (po_undrain_cmd p),
          po_health := coalesce (pp_health data) (po_health p),
          po_max_unavailable := coalesce (pp_max_unavailable data) (po_max_unavailable p),
          po_min_healthy := coalesce (pp_min_healthy data) (po_min_healthy p),
          po_settle_secs := coalesce (pp_settle_secs data) (po_settle_secs p)\<rparr>)"

text \<open>\<open>Inr None\<close>: there is no such pool.\<close>

definition update_pool ::
    "string \<Rightarrow> pool_patch \<Rightarrow> pool_rec list \<Rightarrow> (pool_error + pool_rec option) \<times> pool_rec list" where
  "update_pool pool_id data rows =
     (case get_pool pool_id rows of None \<Rightarrow> (Inr None, rows)
      | Some p \<Rightarrow>
          (let merged = merge_pool data p
           in case pool_validate merged of
                Some e \<Rightarrow> (Inl e, rows)
              | None \<Rightarrow> (Inr (Some merged), update_first po_id pool_id (\<lambda>_. merged) rows)))"

definition delete_pool :: "string \<Rightarrow> pool_rec list \<Rightarrow> bool \<times> pool_rec list" where
  "delete_pool pool_id rows = delete_by_id po_id pool_id rows"

definition needs_superuser :: "pool_rec \<Rightarrow> bool" where
  "needs_superuser p = (provider_of p = ''command'' \<or> health_kind p = ''command'')"

section \<open>Facts\<close>

interpretation pool_store: id_store get_pool delete_pool "\<lambda>r rows. rows @ [r]" po_id
  using id_store_list [of po_id]
  by (simp add: get_pool_def [abs_def] delete_pool_def [abs_def])

text \<open>What an accepted pool guarantees a run started from it.\<close>

lemma validate_accepts:
  assumes "pool_validate p = None"
  shows "distinct (po_members p)" "2 \<le> length (po_members p)"
    "1 \<le> as_int (po_max_unavailable p) 1" "1 \<le> as_int (po_min_healthy p) 1"
    "as_int (po_max_unavailable p) 1 + as_int (po_min_healthy p) 1 \<le> int (length (po_members p))"
    "provider_of p = ''command'' \<Longrightarrow> strip (or_else (po_drain_cmd p) []) \<noteq> [] \<and>
       strip (or_else (po_undrain_cmd p) []) \<noteq> []"
  using assms by (auto simp: pool_validate_def Let_def split: if_splits)

lemma merge_id [simp]: "po_id (merge_pool data p) = po_id p"
  by (simp add: merge_pool_def with_defaults_def)

definition all_valid :: "pool_rec list \<Rightarrow> bool" where
  "all_valid rows = list_all (\<lambda>p. pool_validate p = None) rows"

lemma validate_metadata [simp]:
  "pool_validate (p\<lparr>po_id := i, po_created_by := b, po_created_ts := t\<rparr>) = pool_validate p"
  by (simp add: pool_validate_def provider_of_def health_kind_def health_target_def Let_def
      cong: if_cong)

lemma all_valid_update_first:
  "all_valid rows \<Longrightarrow> pool_validate q = None \<Longrightarrow> all_valid (update_first po_id i (\<lambda>_. q) rows)"
  by (induction rows) (auto simp: all_valid_def)

end
