(* ===== verification/Schedules.thy ===== *)
theory Schedules
  imports Id_Store Py_Str
begin

text \<open>
  Scheduled fleet jobs (\<^verbatim>\<open>webgui/schedules.py\<close>): validation, the next-run computation and the
  stored job list.  Wall-clock time is a number of seconds since 1970-01-01 00:00 on the wall;
  a time zone, whose data is not part of the repository, is the pair of conversions between
  instants and wall time with Python's \<^verbatim>\<open>fold\<close> flag.  Comparing two datetimes of one zone
  compares wall time only, \<^verbatim>\<open>replace\<close> keeps the fold and adding a \<^verbatim>\<open>timedelta\<close> clears it.
\<close>

record zone =
  to_wall :: "instant \<Rightarrow> rat \<times> bool"
  to_instant :: "rat \<Rightarrow> bool \<Rightarrow> instant"

definition actions :: "(string \<times> string) list" where
  "actions =
     [(''patch_scan'', ''Rescan patch status (live)''), (''posture_scan'', ''Rescan compliance posture''),
      (''security_updates'', ''Install security updates''), (''all_updates'', ''Install all updates''),
      (''clean_pkg_cache'', ''Clean package cache''),
      (''vacuum_journal'', ''Vacuum journal logs (7 days)''),
      (''fstrim'', ''Trim filesystems (fstrim)''), (''clear_failed_units'', ''Clear failed units''),
      (''sync_time'', ''Sync clock now''), (''restart_service'', ''Restart a service''),
      (''run_command'', ''Run a shell command''), (''reboot'', ''Reboot'')]"

definition arg_actions :: "string list" where
  "arg_actions = [''restart_service'', ''run_command'']"

definition cadences :: "string list" where
  "cadences = [''hourly'', ''daily'', ''weekly'']"

record run_entry =
  re_ts :: instant
  re_status :: string
  re_detail :: string

record job =
  jb_id :: string
  jb_name :: string
  jb_action :: string
  jb_arg :: string
  jb_targets :: "string list"
  jb_cadence :: string
  jb_at :: string
  jb_weekday :: int
  jb_tz :: string
  jb_enabled :: bool
  jb_created_by :: string
  jb_created_ts :: instant
  jb_last_run :: "instant option"
  jb_last_status :: "string option"
  jb_last_detail :: string
  jb_history :: "run_entry list"
  jb_next_run :: "instant option"

section \<open>Next run\<close>

definition parse_hhmm :: "string \<Rightarrow> int \<times> int" where
  "parse_hhmm text =
     (case split_on (CHR '':'') (or_else (Some text) ''02:00'') of
        [hs, ms] \<Rightarrow>
          (case (parse_int hs, parse_int ms) of
             (Some h, Some m) \<Rightarrow>
               if 0 \<le> h \<and> h \<le> 23 \<and> 0 \<le> m \<and> m \<le> 59 then (h, m) else (2, 0)
           | _ \<Rightarrow> (2, 0))
      | _ \<Rightarrow> (2, 0))"

definition DAY :: rat where
  "DAY = 86400"

definition HOUR :: rat where
  "HOUR = 3600"

text \<open>Midnight and the full hour before a wall time; Monday is 0 and 1970-01-01 was a Thursday.\<close>

definition midnight :: "rat \<Rightarrow> rat" where
  "midnight w = of_int \<lfloor>w / DAY\<rfloor> * DAY"

definition full_hour :: "rat \<Rightarrow> rat" where
  "full_hour w = of_int \<lfloor>w / HOUR\<rfloor> * HOUR"

definition weekday_of :: "rat \<Rightarrow> int" where
  "weekday_of w = (\<lfloor>w / DAY\<rfloor> + 3) mod 7"

definition at_time :: "int \<times> int \<Rightarrow> rat" where
  "at_time hm = of_int (fst hm * 3600 + snd hm * 60)"

definition compute_next_run :: "zone \<Rightarrow> job \<Rightarrow> instant \<Rightarrow> instant" where
  "compute_next_run z j from_ts =
     (let (now, fold) = to_wall z from_ts; hm = parse_hhmm (jb_at j)
      in if jb_cadence j = ''hourly''
         then (let nxt = full_hour now + of_int (snd hm) * 60
               in if nxt \<le> now then to_instant z (nxt + HOUR) False else to_instant z nxt fold)
         else if jb_cadence j = ''weekly''
         then (let wd = jb_weekday j mod 7;
                   nxt = midnight now + at_time hm;
                   delta = (wd - weekday_of nxt) mod 7;
                   nxt1 = nxt + of_int delta * DAY
               in if nxt1 \<le> now then to_instant z (nxt1 + 7 * DAY) False
                  else to_instant z nxt1 False)
         else (let nxt = midnight now + at_time hm
               in if nxt \<le> now then to_instant z (nxt + DAY) False else to_instant z nxt fold))"

section \<open>The job list\<close>

datatype job_error = Unknown_Action | Unknown_Cadence | Argument_Required

definition job_validate :: "string \<Rightarrow> string \<Rightarrow> string \<Rightarrow> job_error option" where
  "job_validate action cadence arg =
     (if action \<notin> fst ` set actions then Some Unknown_Action
      else if cadence \<notin> set cadences then Some Unknown_Cadence
      else if action \<in> set arg_actions \<and> strip arg = [] then Some Argument_Required
      else None)"

text \<open>The zone of a job (its own, else the controller's) is looked up by the argument.\<close>

definition with_next_run :: "(job \<Rightarrow> zone) \<Rightarrow> instant \<Rightarrow> job \<Rightarrow> job" where
  "with_next_run tz now j = j\<lparr>jb_next_run := Some (compute_next_run (tz j) j now)\<rparr>"

definition get_job :: "string \<Rightarrow> job list \<Rightarrow> job option" where
  "get_job job_id jobs = get_by_id jb_id job_id jobs"

record job_spec =
  js_name :: string
  js_action :: string
  js_targets :: "string list"
  js_cadence :: string
  js_at :: string
  js_weekday :: int
  js_arg :: string
  js_tz :: string

definition create_job ::
    "(job \<Rightarrow> zone) \<Rightarrow> instant \<Rightarrow> string \<Rightarrow> string \<Rightarrow> job_spec \<Rightarrow> job list \<Rightarrow>
     (job_error + job) \<times> job list" where
  "create_job tz now new_id created_by b jobs =
     (case job_validate (js_action b) (js_cadence b) (js_arg b) of
        Some e \<Rightarrow> (Inl e, jobs)
      | None \<Rightarrow>
          (let label = (case map_of actions (js_action b) of None \<Rightarrow> [] | Some l \<Rightarrow> l);
               j = with_next_run tz now
                 \<lparr>jb_id = new_id, jb_name = strip (or_else (Some (js_name b)) label),
                  jb_action = js_action b, jb_arg = strip (js_arg b), jb_targets = js_targets b,
                  jb_cadence = js_cadence b, jb_at = or_else (Some (js_at b)) ''02:00'',
                  jb_weekday = js_weekday b, jb_tz = strip (js_tz b), jb_enabled = True,
                  jb_created_by = created_by, jb_created_ts = now, jb_last_run = None,
                  jb_last_status = None, jb_last_detail = [], jb_history = [], jb_next_run = None\<rparr>
           in (Inr j, jobs @ [j])))"

record job_patch =
  jp_name :: "string option"
  jp_action :: "string option"
  jp_arg :: "string option"
  jp_targets :: "string list option"
  jp_cadence :: "string option"
  jp_at :: "string option"
  jp_weekday :: "int option"
  jp_enabled :: "bool option"
  jp_tz :: "string option"

definition or_keep :: "'a option \<Rightarrow> 'a \<Rightarrow> 'a" where
  "or_keep new old = (case new of None \<Rightarrow> old | Some v \<Rightarrow> v)"

definition patch_job :: "job_patch \<Rightarrow> job \<Rightarrow> job" where
  "patch_job f j =
     j\<lparr>jb_name := or_keep (jp_name f) (jb_name j), jb_action := or_keep (jp_action f) (jb_action j),
       jb_arg := or_keep (jp_arg f) (jb_arg j), jb_targets := or_keep (jp_targets f) (jb_targets j),
       jb_cadence := or_keep (jp_cadence f) (jb_cadence j), jb_at := or_keep (jp_at f) (jb_at j),
       jb_weekday := or_keep (jp_weekday f) (jb_weekday j),
       jb_enabled := or_keep (jp_enabled f) (jb_enabled j), jb_tz := or_keep (jp_tz f) (jb_tz j)\<rparr>"

text \<open>A rejected edit raises before anything is saved.\<close>

definition update_job ::
    "(job \<Rightarrow> zone) \<Rightarrow> instant \<Rightarrow> string \<Rightarrow> job_patch \<Rightarrow> job list \<Rightarrow>
     (job_error + job option) \<times> job list" where
  "update_job tz now job_id f jobs =
     (case get_job job_id jobs of None \<Rightarrow> (Inr None, jobs)
      | Some j \<Rightarrow>
          (let j1 = patch_job f j
           in case job_validate (jb_action j1) (jb_cadence j1) (jb_arg j1) of
                Some e \<Rightarrow> (Inl e, jobs)
              | None \<Rightarrow> (let j2 = with_next_run tz now j1
                         in (Inr (Some j2), update_first jb_id job_id (\<lambda>_. j2) jobs))))"

definition delete_job :: "string \<Rightarrow> job list \<Rightarrow> bool \<times> job list" where
  "delete_job job_id jobs = delete_by_id jb_id job_id jobs"

definition HISTORY_CAP :: nat where
  "HISTORY_CAP = 15"

text \<open>\<open>xs[-n:]\<close>.\<close>

definition last_n :: "nat \<Rightarrow> 'a list \<Rightarrow> 'a list" where
  "last_n n xs = drop (length xs - n) xs"

definition ran :: "(job \<Rightarrow> zone) \<Rightarrow> instant \<Rightarrow> instant \<Rightarrow> string \<Rightarrow> string option \<Rightarrow> job \<Rightarrow> job" where
  "ran tz now now' status detail j =
     (let d = take 500 (or_else detail [])
      in with_next_run tz now'
           (j\<lparr>jb_last_run := Some now, jb_last_status := Some status, jb_last_detail := d,
              jb_history := last_n HISTORY_CAP
                (jb_history j @ [\<lparr>re_ts = now, re_status = status, re_detail = d\<rparr>])\<rparr>))"

definition record_run ::
    "(job \<Rightarrow> zone) \<Rightarrow> instant \<Rightarrow> instant \<Rightarrow> string \<Rightarrow> string \<Rightarrow> string option \<Rightarrow> job list \<Rightarrow>
     job option \<times> job list" where
  "record_run tz now now' job_id status detail jobs =
     (map_option (ran tz now now' status detail) (get_job job_id jobs),
      update_first jb_id job_id (ran tz now now' status detail) jobs)"

definition advance_next_run ::
    "(job \<Rightarrow> zone) \<Rightarrow> instant \<Rightarrow> string \<Rightarrow> job list \<Rightarrow> bool \<times> job list" where
  "advance_next_run tz now job_id jobs =
     (get_job job_id jobs \<noteq> None, update_first jb_id job_id (with_next_run tz now) jobs)"

text \<open>
  A job whose next run was never computed is scheduled forward instead of fired; its update can
  raise (\<open>None\<close>), when the stored action or cadence is no longer known.
\<close>

definition keep_name :: "job \<Rightarrow> job_patch" where
  "keep_name j = \<lparr>jp_name = Some (jb_name j), jp_action = None, jp_arg = None, jp_targets = None,
     jp_cadence = None, jp_at = None, jp_weekday = None, jp_enabled = None, jp_tz = None\<rparr>"

fun due_from ::
    "(job \<Rightarrow> zone) \<Rightarrow> instant \<Rightarrow> instant \<Rightarrow> job list \<Rightarrow> job list \<Rightarrow> (job list \<times> job list) option"
where
  "due_from tz now clock [] stored = Some ([], stored)"
| "due_from tz now clock (j # js) stored =
     (if \<not> jb_enabled j then due_from tz now clock js stored
      else (case jb_next_run j of
              None \<Rightarrow>
                (case update_job tz clock (jb_id j) (keep_name j) stored of
                   (Inl _, _) \<Rightarrow> None
                 | (Inr _, stored') \<Rightarrow> due_from tz now clock js stored')
            | Some t \<Rightarrow>
                if t \<le> now
                then map_option (\<lambda>(out, st). (j # out, st)) (due_from tz now clock js stored)
                else due_from tz now clock js stored))"

definition due_jobs ::
    "(job \<Rightarrow> zone) \<Rightarrow> instant \<Rightarrow> instant \<Rightarrow> job list \<Rightarrow> (job list \<times> job list) option" where
  "due_jobs tz now clock jobs = due_from tz now clock jobs jobs"

section \<open>Facts\<close>

interpretation job_store: id_store get_job delete_job "\<lambda>r rows. rows @ [r]" jb_id
  using id_store_list [of jb_id]
  by (simp add: get_job_def [abs_def] delete_job_def [abs_def])

text \<open>A zone at a fixed distance from UTC.\<close>

definition fixed_zone :: "rat \<Rightarrow> zone" where
  "fixed_zone off = \<lparr>to_wall = (\<lambda>t. (t + off, False)), to_instant = (\<lambda>w _. w - off)\<rparr>"

lemma midnight_bounds: "midnight w \<le> w" "w < midnight w + DAY"
  using floor_correct [of "w / DAY"] by (simp_all add: midnight_def DAY_def field_simps)

lemma full_hour_bounds: "full_hour w \<le> w" "w < full_hour w + HOUR"
  using floor_correct [of "w / HOUR"] by (simp_all add: full_hour_def HOUR_def field_simps)

lemma parse_hhmm_range:
  "0 \<le> fst (parse_hhmm s) \<and> fst (parse_hhmm s) \<le> 23 \<and> 0 \<le> snd (parse_hhmm s) \<and> snd (parse_hhmm s) \<le> 59"
  by (auto simp: parse_hhmm_def split: list.split option.split)

lemma at_time_bounds: "0 \<le> at_time (parse_hhmm s)" "at_time (parse_hhmm s) < DAY"
proof -
  have "0 \<le> fst (parse_hhmm s) * 3600 + snd (parse_hhmm s) * 60"
    "fst (parse_hhmm s) * 3600 + snd (parse_hhmm s) * 60 < 86400"
    using parse_hhmm_range [of s] by linarith+
  then show "0 \<le> at_time (parse_hhmm s)" "at_time (parse_hhmm s) < DAY"
    unfolding at_time_def DAY_def by (simp, metis of_int_less_iff of_int_numeral)
qed

lemma minute_bounds: "0 \<le> of_int (snd (parse_hhmm s)) * (60 :: rat)"
    "of_int (snd (parse_hhmm s)) * (60 :: rat) < HOUR"
proof -
  have "0 \<le> snd (parse_hhmm s)" "snd (parse_hhmm s) \<le> 59" using parse_hhmm_range [of s] by auto
  then have "0 \<le> (of_int (snd (parse_hhmm s)) :: rat)" "(of_int (snd (parse_hhmm s)) :: rat) \<le> 59"
    by (simp, metis of_int_le_iff of_int_numeral)
  then show "0 \<le> of_int (snd (parse_hhmm s)) * (60 :: rat)"
    "of_int (snd (parse_hhmm s)) * (60 :: rat) < HOUR" by (auto simp: HOUR_def)
qed

end
