(* ===== verification/Suppressions.thy ===== *)
theory Suppressions
  imports Id_Store Py_Str
begin

text \<open>
  Finding suppressions (\<^verbatim>\<open>webgui/suppressions.py\<close>) and host annotations
  (\<^verbatim>\<open>webgui/host_meta.py\<close>) of the web console.  Ids and clock readings are the drawn values;
  \<open>Inl\<close> is the \<open>ValueError\<close>.
\<close>

section \<open>Suppressions\<close>

record suppression =
  su_id :: string
  su_scope :: string
  su_target :: string
  su_key :: string
  su_type :: string
  su_reason :: string
  su_until :: "instant option"
  su_boot_epoch :: "int option"
  su_created_by :: string
  su_created_ts :: instant

definition clean_str :: "string option \<Rightarrow> nat \<Rightarrow> string" where
  "clean_str v cap = take cap (strip (or_else v []))"

definition expired :: "instant \<Rightarrow> suppression \<Rightarrow> bool" where
  "expired now r =
     (su_type r = ''snooze'' \<and>
      (case su_until r of None \<Rightarrow> False | Some u \<Rightarrow> u \<noteq> 0 \<and> u \<le> now))"

text \<open>Reading prunes the expired snoozes from the file.\<close>

definition supp_list_all :: "instant \<Rightarrow> suppression list \<Rightarrow> suppression list \<times> suppression list" where
  "supp_list_all now rows = (let kept = filter (\<lambda>r. \<not> expired now r) rows in (kept, kept))"

definition snooze_seconds :: "(string \<times> rat) list" where
  "snooze_seconds =
     [(''1h'', 3600), (''1d'', 86400), (''7d'', 7 * 86400), (''30d'', 30 * 86400)]"

datatype supp_error =
  Bad_Scope | Bad_Type | No_Target | No_Key | Reboot_Needs_Host | Bad_Snooze

definition same_finding :: "string \<Rightarrow> string \<Rightarrow> string \<Rightarrow> suppression \<Rightarrow> bool" where
  "same_finding scope target key r = (su_scope r = scope \<and> su_target r = target \<and> su_key r = key)"

definition supp_check :: "string \<Rightarrow> string \<Rightarrow> string \<Rightarrow> string \<Rightarrow> supp_error option" where
  "supp_check scope target key stype =
     (if scope \<notin> {''host'', ''env''} then Some Bad_Scope
      else if stype \<notin> {''env_necessity'', ''acknowledged'', ''snooze'', ''reboot''} then Some Bad_Type
      else if target = [] then Some No_Target
      else if key = [] then Some No_Key
      else if stype = ''reboot'' \<and> scope \<noteq> ''host'' then Some Reboot_Needs_Host
      else None)"

text \<open>\<open>snooze\<close> is the text of the preset, \<open>boot_epoch\<close> what \<open>int\<close> reads from the argument.\<close>

definition supp_add ::
    "instant \<Rightarrow> string \<Rightarrow> string \<Rightarrow> string option \<Rightarrow> string option \<Rightarrow> string option \<Rightarrow>
     string option \<Rightarrow> string option \<Rightarrow> string \<Rightarrow> int option \<Rightarrow> suppression list \<Rightarrow>
     (supp_error + suppression) \<times> suppression list" where
  "supp_add now new_id created_by scope_in target_in key_in stype_in reason snooze boot_epoch rows =
     (let scope = lower (strip (or_else scope_in [])); stype = lower (strip (or_else stype_in []));
          key = clean_str key_in 64; target = clean_str target_in 200
      in case supp_check scope target key stype of
           Some e \<Rightarrow> (Inl e, rows)
         | None \<Rightarrow>
           (case (if stype = ''snooze'' then map_option Some (map_of snooze_seconds snooze) else Some None) of
              None \<Rightarrow> (Inl Bad_Snooze, rows)
            | Some secs \<Rightarrow>
              (let r = \<lparr>su_id = new_id, su_scope = scope, su_target = target, su_key = key,
                        su_type = stype, su_reason = clean_str reason 300,
                        su_until = map_option (\<lambda>s. now + s) secs,
                        su_boot_epoch = (if stype = ''reboot''
                                         then Some (case boot_epoch of None \<Rightarrow> 0 | Some b \<Rightarrow> b)
                                         else None),
                        su_created_by = created_by, su_created_ts = now\<rparr>
               in (Inr r, filter (\<lambda>r. \<not> same_finding scope target key r) rows @ [r]))))"

definition supp_get :: "string \<Rightarrow> suppression list \<Rightarrow> suppression option" where
  "supp_get supp_id rows = get_by_id su_id supp_id rows"

definition supp_remove :: "string \<Rightarrow> suppression list \<Rightarrow> bool \<times> suppression list" where
  "supp_remove supp_id rows = delete_by_id su_id supp_id rows"

interpretation suppression_store: id_store supp_get supp_remove "\<lambda>r rows. rows @ [r]" su_id
  using id_store_list [of su_id]
  by (simp add: supp_get_def [abs_def] supp_remove_def [abs_def])

text \<open>No finding is suppressed twice.\<close>

definition finding_of :: "suppression \<Rightarrow> string \<times> string \<times> string" where
  "finding_of r = (su_scope r, su_target r, su_key r)"

definition one_each :: "suppression list \<Rightarrow> bool" where
  "one_each rows = keyed finding_of rows"

lemma one_each_filter: "one_each rows \<Longrightarrow> one_each (filter p rows)"
  by (simp add: one_each_def keyed_def distinct_map_filter)

lemma one_each_replace:
  assumes "one_each rows" "finding_of r = (scope, target, key)"
  shows "one_each (filter (\<lambda>r. \<not> same_finding scope target key r) rows @ [r])"
proof -
  have "finding_of r \<notin> finding_of ` set (filter (\<lambda>r. \<not> same_finding scope target key r) rows)"
    using assms(2) by (auto simp: same_finding_def finding_of_def)
  with one_each_filter [OF assms(1)] show ?thesis by (simp add: one_each_def keyed_append)
qed

section \<open>Host annotations\<close>

record host_note =
  hn_tags :: "string list"
  hn_owner :: string
  hn_notes :: string
  hn_criticality :: string

definition default_note :: host_note where
  "default_note = \<lparr>hn_tags = [], hn_owner = [], hn_notes = [], hn_criticality = ''normal''\<rparr>"

type_synonym note_store = "(string \<times> host_note) list"

definition note_get :: "string \<Rightarrow> note_store \<Rightarrow> host_note" where
  "note_get name st = (case map_of st name of None \<Rightarrow> default_note | Some r \<Rightarrow> r)"

text \<open>The first spelling of a tag is kept; later ones that differ in case are dropped.\<close>

fun clean_tags :: "string list \<Rightarrow> string list \<Rightarrow> string list" where
  "clean_tags seen [] = []"
| "clean_tags seen (t # ts) =
     (let u = take 40 (strip t)
      in if u \<noteq> [] \<and> lower u \<notin> set seen then u # clean_tags (lower u # seen) ts
         else clean_tags seen ts)"

datatype note_error = Name_Required | Name_Too_Long | Bad_Criticality

definition criticality :: "string list" where
  "criticality = [''low'', ''normal'', ''high'', ''critical'']"

definition set_meta ::
    "string \<Rightarrow> string list option \<Rightarrow> string option \<Rightarrow> string option \<Rightarrow> string option \<Rightarrow>
     note_store \<Rightarrow> (note_error + host_note) \<times> note_store" where
  "set_meta name tags owner notes crit st =
     (if name = [] then (Inl Name_Required, st)
      else if 200 < length name then (Inl Name_Too_Long, st)
      else if (case crit of None \<Rightarrow> False | Some c \<Rightarrow> c \<notin> set criticality) then (Inl Bad_Criticality, st)
      else
        (let old = note_get name st;
             cur = \<lparr>hn_tags = (case tags of None \<Rightarrow> hn_tags old | Some ts \<Rightarrow> take 20 (clean_tags [] ts)),
                    hn_owner = (case owner of None \<Rightarrow> hn_owner old | Some v \<Rightarrow> take 120 (strip v)),
                    hn_notes = (case notes of None \<Rightarrow> hn_notes old | Some v \<Rightarrow> take 2000 (strip v)),
                    hn_criticality = (case crit of None \<Rightarrow> hn_criticality old | Some c \<Rightarrow> c)\<rparr>
         in (Inr cur,
             if cur = default_note then tb_delete (\<lambda>e. fst e = name) st
             else tb_upsert (\<lambda>e. fst e = name) (\<lambda>e. (name, cur)) (name, cur) st)))"

lemma map_of_find: "map_of st k = map_option snd (find (\<lambda>e. fst e = k) st)"
  by (induction st) auto

lemma map_of_upsert:
  "map_of (tb_upsert (\<lambda>e. fst e = n) (\<lambda>e. (n, v)) (n, v) st) k = (if k = n then Some v else map_of st k)"
proof -
  have "map_of (tb_update (\<lambda>e. fst e = n) (\<lambda>e. (n, v)) st) k =
      (if k = n \<and> map_of st k \<noteq> None then Some v else map_of st k)"
    by (induction st) (auto simp: tb_update_def)
  moreover have "tb_exists (\<lambda>e. fst e = n) st \<longleftrightarrow> map_of st n \<noteq> None"
    by (auto simp: tb_exists_iff map_of_eq_None_iff)
  ultimately show ?thesis by (auto simp: tb_upsert_def map_add_def split: option.split)
qed

lemma distinct_tags: "distinct (map lower (clean_tags seen ts)) \<and> set (map lower (clean_tags seen ts)) \<inter> set seen = {}"
  by (induction seen ts rule: clean_tags.induct) (auto simp: Let_def)

end
