(* ===== verification/Rolling_Safety.thy ===== *)
theory Rolling_Safety
  imports Rolling
begin

text \<open>
  What a rolling run promises: enough healthy members serve at every moment of its log, every
  member is accounted for in its result, and a run refused beforehand touches nothing.
\<close>

text \<open>The members found healthy by the probe at the start.\<close>

definition probed_healthy :: "string list \<Rightarrow> 'w pool \<Rightarrow> bool \<Rightarrow> 'w \<Rightarrow> string set" where
  "probed_healthy members p allow_degraded w =
     healthy_set members (fst (snd (preflight members (pl_health p) allow_degraded w)))"

lemma run_post:
  fixes p :: "'w pool"
  assumes "run members p mu ad k w = (res, w')" "rr_state res \<noteq> Run_Refused" "distinct members"
  obtains s :: "'w roll" where "inv (probed_healthy members p ad w) k s" "rr_events res = ro_events s"
    "rr_drained res = ro_out s" "rr_done res = ro_done s"
    "ro_out s \<inter> set (ro_done s) = {}" "set (ro_done s) \<union> ro_out s \<subseteq> set members"
    "rr_state res = Run_Ok \<Longrightarrow> ro_done s = members \<and> ro_out s = {}"
    "\<And>h. blamed (rr_reason res) = Some h \<Longrightarrow> h \<in> ro_out s"
    "rr_skipped res = filter (\<lambda>m. m \<notin> set (ro_done s) \<and> m \<notin> ro_out s) members"
proof -
  obtain states w1 st r s where pf: "preflight members (pl_health p) ad w = (None, states, w1)"
    and go: "roll_groups p k (batches members mu)
       \<lparr>ro_world = w1, ro_events = [], ro_healthy = healthy_set members states, ro_out = {},
        ro_done = []\<rparr> = ((st, r), s)"
    and mk: "mk_result members ((st, r), s) = (res, w')"
    by (rule run_started [OF assms(1,2)])
  have H: "probed_healthy members p ad w = healthy_set members states" by (simp add: probed_healthy_def pf)
  have res: "rr_state res = st" "rr_reason res = r" "rr_events res = ro_events s" "rr_drained res = ro_out s"
    "rr_done res = ro_done s" "rr_skipped res = filter (\<lambda>m. m \<notin> set (ro_done s) \<and> m \<notin> ro_out s) members"
    using mk by (auto simp: mk_result_def)
  from roll_groups_post [OF inv_start _ _ go] assms(3)
  have "inv (healthy_set members states) k s \<and> ro_out s \<inter> set (ro_done s) = {} \<and>
      set (ro_done s) \<union> ro_out s \<subseteq> set members \<and> (st = Run_Ok \<longrightarrow> ro_done s = members \<and> ro_out s = {}) \<and>
      (\<forall>h. blamed r = Some h \<longrightarrow> h \<in> ro_out s)"
    by (simp add: concat_batches)
  then show thesis using res H by (intro that [of s]) auto
qed

text \<open>C7: At every moment of a rolling run from its first drain on, at least the asked minimum of the
  members probed healthy are in rotation: after every prefix of the log that contains a successful
  drain, the healthy members less those drained and not returned number no fewer than the minimum.\<close>

theorem rolling_keeps_minimum:
  fixes p :: "'w pool"
  assumes "run members p mu ad k w = (res, w')" "rr_state res \<noteq> Run_Refused" "distinct members"
    and "prefix evs (rr_events res)" "drained_once evs"
  shows "k \<le> int (card (replay (probed_healthy members p ad w) evs))"
proof -
  obtain s :: "'w roll" where "inv (probed_healthy members p ad w) k s" "rr_events res = ro_events s"
    by (rule run_post [OF assms(1-3)])
  then show ?thesis using assms(4,5) by (simp add: inv_def)
qed

text \<open>The result of a run accounts for every member once: done, left drained or skipped; what is
  reported as drained is what the log drained and did not return; a run that reports success did
  every member in order and left none drained; and the member a failure is blamed on stays out of
  rotation.\<close>

theorem rolling_accounts_for_members:
  fixes p :: "'w pool"
  assumes "run members p mu ad k w = (res, w')" "rr_state res \<noteq> Run_Refused" "distinct members"
  shows "set members = set (rr_done res) \<union> rr_drained res \<union> set (rr_skipped res) \<and>
    set (rr_done res) \<inter> rr_drained res = {} \<and>
    set (rr_skipped res) \<inter> (set (rr_done res) \<union> rr_drained res) = {} \<and>
    rr_drained res = out_replay (rr_events res) \<and>
    (rr_state res = Run_Ok \<longrightarrow> rr_done res = members \<and> rr_drained res = {} \<and> rr_skipped res = []) \<and>
    (\<forall>h. blamed (rr_reason res) = Some h \<longrightarrow> h \<in> rr_drained res)"
proof -
  obtain s :: "'w roll" where s: "inv (probed_healthy members p ad w) k s" "rr_events res = ro_events s"
    "rr_drained res = ro_out s" "rr_done res = ro_done s"
    "ro_out s \<inter> set (ro_done s) = {}" "set (ro_done s) \<union> ro_out s \<subseteq> set members"
    "rr_state res = Run_Ok \<Longrightarrow> ro_done s = members \<and> ro_out s = {}"
    "\<And>h. blamed (rr_reason res) = Some h \<Longrightarrow> h \<in> ro_out s"
    "rr_skipped res = filter (\<lambda>m. m \<notin> set (ro_done s) \<and> m \<notin> ro_out s) members"
    by (rule run_post [OF assms]) blast
  have "rr_drained res = out_replay (rr_events res)" using s(1-3) by (simp add: inv_def)
  moreover have "set members = set (rr_done res) \<union> rr_drained res \<union> set (rr_skipped res)"
    using s(6) by (auto simp: s(3,4,9))
  moreover have "rr_skipped res = []" if "rr_state res = Run_Ok" using s(7) [OF that] by (simp add: s(9))
  moreover have "set (rr_skipped res) \<inter> (set (rr_done res) \<union> rr_drained res) = {}" by (auto simp: s(3,4,9))
  moreover have "set (rr_done res) \<inter> rr_drained res = {}" using s(5) by (auto simp: s(3,4))
  ultimately show ?thesis using s(7,8) by (simp add: s(3,4))
qed

lemma roll_group_stops:
  "roll_group p grp s = (Some (st, r), s') \<Longrightarrow> st \<noteq> Run_Refused"
  by (auto simp: roll_group_def act_phase_def settle_phase_def health_phase_def return_phase_def
      split: prod.splits option.splits act_stop.splits)

lemma roll_groups_not_refused: "fst (fst (roll_groups p k gs s)) \<noteq> Run_Refused"
proof (induction gs arbitrary: s)
  case (Cons grp rest)
  obtain stop w where cn: "pl_cancelled p (ro_world s) = (stop, w)" by fastforce
  obtain x s1 where rg: "roll_group p grp (s\<lparr>ro_world := w\<rparr>) = (x, s1)" by fastforce
  have "x = Some (st, r) \<Longrightarrow> st \<noteq> Run_Refused" for st r
    using roll_group_stops [of p grp "s\<lparr>ro_world := w\<rparr>" st r s1] rg by simp
  then have "fst (fst (case x of Some r \<Rightarrow> (r, s1) | None \<Rightarrow> roll_groups p k rest s1)) \<noteq> Run_Refused"
    using Cons.IH [of s1] by (auto split: option.split)
  then show ?case by (simp add: cn rg Let_def split: option.splits)
qed simp

text \<open>A run refused beforehand (no member, none healthy, or some unhealthy where that is not
  allowed) drains, works on and returns nothing: only the health of the members was asked.\<close>

theorem refused_run_touches_nothing:
  "(rr_state (fst (run members p mu ad k w)) = Run_Refused \<longleftrightarrow>
      fst (preflight members (pl_health p) ad w) \<noteq> None) \<and>
   (\<forall>why. fst (preflight members (pl_health p) ad w) = Some why \<longrightarrow>
      rr_reason (fst (run members p mu ad k w)) = Refused why \<and>
      rr_done (fst (run members p mu ad k w)) = [] \<and> rr_drained (fst (run members p mu ad k w)) = {} \<and>
      rr_skipped (fst (run members p mu ad k w)) = members \<and>
      \<not> drained_once (rr_events (fst (run members p mu ad k w))) \<and>
      snd (run members p mu ad k w) = snd (probe (pl_health p) members w Map.empty))"
proof -
  obtain why states w1 where pf: "preflight members (pl_health p) ad w = (why, states, w1)" by (metis surj_pair)
  have w1: "w1 = snd (probe (pl_health p) members w Map.empty)"
    using pf by (auto simp: preflight_def Let_def split: prod.splits)
  show ?thesis
  proof (cases why)
    case None
    have st: "rr_state (fst (mk_result members x)) = fst (fst x)" for x :: "(run_state \<times> reason) \<times> 'a roll"
      by (simp add: mk_result_def split: prod.split)
    show ?thesis by (simp add: run_def pf None st roll_groups_not_refused)
  next
    case (Some y)
    then show ?thesis using w1 by (simp add: run_def pf mk_result_def drained_once_def)
  qed
qed

text \<open>A pool of two hosts that do what they are asked.\<close>

definition willing :: "unit pool" where
  "willing = \<lparr>pl_drain = (\<lambda>h w. (Inr (True, []), w)), pl_undrain = (\<lambda>h w. (Inr (True, []), w)),
     pl_act = (\<lambda>h w. (Inr (True, []), w)), pl_health = (\<lambda>h w. (Inr (True, []), w)), pl_settle = None,
     pl_cancelled = (\<lambda>w. (False, w))\<rparr>"

lemma refused_run_touches_nothing_witness:
  "rr_state (fst (run [] willing 1 False 1 ())) = Run_Refused \<and>
   rr_reason (fst (run [] willing 1 False 1 ())) = Refused No_Members"
proof -
  have "fst (preflight [] (pl_health willing) False ()) = Some No_Members" by (simp add: preflight_def)
  with refused_run_touches_nothing [of "[]" willing 1 False 1 "()"] show ?thesis by simp
qed

lemma willing_run:
  obtains res where "run [''a'', ''b''] willing 1 False 1 () = (res, ())" "rr_state res = Run_Ok"
    "rr_events res \<noteq> []" "drained_once (rr_events res)"
proof -
  have "rr_state (fst (run [''a'', ''b''] willing 1 False 1 ())) = Run_Ok"
    "drained_once (rr_events (fst (run [''a'', ''b''] willing 1 False 1 ())))"
    by code_simp+
  moreover from this(2) have "rr_events (fst (run [''a'', ''b''] willing 1 False 1 ())) \<noteq> []"
    by (auto simp: drained_once_def)
  ultimately show thesis using that by (metis (full_types) old.unit.exhaust prod.collapse)
qed

lemma rolling_keeps_minimum_witness:
  "\<exists>res. run [''a'', ''b''] willing 1 False 1 () = (res, ()) \<and>
     1 \<le> card (replay (probed_healthy [''a'', ''b''] willing False ()) (rr_events res))"
proof -
  obtain res where r: "run [''a'', ''b''] willing 1 False 1 () = (res, ())" "rr_state res = Run_Ok"
    "drained_once (rr_events res)" by (rule willing_run)
  have "rr_state res \<noteq> Run_Refused" "distinct [''a'', ''b'']" using r(2) by simp_all
  from rolling_keeps_minimum [OF r(1) this prefix_order.refl r(3)] r(1) show ?thesis by auto
qed

lemma rolling_accounts_for_members_witness:
  "\<exists>res. run [''a'', ''b''] willing 1 False 1 () = (res, ()) \<and> rr_done res = [''a'', ''b''] \<and> rr_drained res = {}"
proof -
  obtain res where r: "run [''a'', ''b''] willing 1 False 1 () = (res, ())" "rr_state res = Run_Ok"
    by (rule willing_run)
  have "rr_state res \<noteq> Run_Refused" "distinct [''a'', ''b'']" using r(2) by simp_all
  from rolling_accounts_for_members [OF r(1) this]
  have "rr_state res = Run_Ok \<longrightarrow> rr_done res = [''a'', ''b''] \<and> rr_drained res = {} \<and> rr_skipped res = []"
    by (elim conjE)
  with r show ?thesis by blast
qed

section \<open>Batches\<close>

lemma chunks_sizes: "g \<in> set (chunks n xs) \<Longrightarrow> g \<noteq> [] \<and> length g \<le> Suc n"
  by (induction n xs rule: chunks.induct) auto

text \<open>The batches of a run are the members in order, cut into groups none of which is empty or
  larger than the allowed number of members out at once (at least one).\<close>

theorem batches_bounded:
  "concat (batches members max_unavailable) = members \<and>
   list_all (\<lambda>g. g \<noteq> [] \<and> int (length g) \<le> max 1 max_unavailable) (batches members max_unavailable)"
proof -
  have "int (length g) \<le> max 1 max_unavailable \<and> g \<noteq> []" if "g \<in> set (batches members max_unavailable)" for g
  proof -
    define m where "m = max 1 (if max_unavailable = 0 then 1 else max_unavailable)"
    define n where "n = nat m - 1"
    have "1 \<le> m" and m: "m = max 1 max_unavailable" by (auto simp: m_def)
    then have "int (Suc n) = m" by (simp add: n_def)
    moreover have "g \<noteq> [] \<and> length g \<le> Suc n"
      using that chunks_sizes [of g n members] by (simp add: batches_def Let_def n_def m_def)
    ultimately have "int (length g) \<le> m" "g \<noteq> []" by simp_all
    then show ?thesis unfolding m by blast
  qed
  then show ?thesis by (auto simp: concat_batches list_all_iff)
qed

end
