(* ===== verification/Console_Stores.thy ===== *)
theory Console_Stores
  imports Pools Schedules Suppressions Rolling_Safety
begin

text \<open>
  What the side-stores of the web console promise: an accepted pool can be rolled, the stores stay
  well-formed, a scheduled job fires next when its cadence says, and a finding is suppressed once.
\<close>

section \<open>An accepted pool can be rolled\<close>

text \<open>Providers that do what they are asked, and an operator who does not cancel.\<close>

definition succeeds :: "'w provider \<Rightarrow> bool" where
  "succeeds f = (\<forall>h w. fst (fst (safe f h w)))"

definition cooperative :: "'w Rolling.pool \<Rightarrow> bool" where
  "cooperative p =
     (succeeds (pl_drain p) \<and> succeeds (pl_undrain p) \<and> succeeds (pl_act p) \<and> succeeds (pl_health p) \<and>
      (case pl_settle p of None \<Rightarrow> True | Some f \<Rightarrow> succeeds f) \<and> (\<forall>w. \<not> fst (pl_cancelled p w)))"

lemma call_succeeds:
  assumes "succeeds f"
  obtains d s' where "call f ph h s = ((True, d), s')" "ro_healthy s' = ro_healthy s" "ro_out s' = ro_out s"
    "ro_done s' = ro_done s"
proof -
  obtain ok d w where c: "safe f h (ro_world s) = ((ok, d), w)" by (metis surj_pair)
  moreover have "ok" using assms c by (metis fst_conv succeeds_def)
  ultimately show thesis using that by (simp add: call_def)
qed

lemma drain_all:
  assumes "succeeds f"
  shows "\<exists>s'. drain_group f hs dr s = (None, dr @ hs, s') \<and> ro_healthy s' = ro_healthy s - set hs \<and>
    ro_done s' = ro_done s"
proof (induction hs arbitrary: dr s)
  case (Cons h hs)
  obtain d s1 where "call f Drain h s = ((True, d), s1)" "ro_healthy s1 = ro_healthy s" "ro_done s1 = ro_done s"
    by (rule call_succeeds [OF assms])
  with Cons.IH [of "dr @ [h]" "mark_out h s1"] show ?case by (auto simp: mark_out_def)
qed simp

lemma act_all:
  assumes "succeeds f" "\<forall>w. \<not> fst (cn w)"
  shows "\<exists>s'. act_group cn f hs s = (None, s') \<and> ro_healthy s' = ro_healthy s \<and> ro_done s' = ro_done s"
proof (induction hs arbitrary: s)
  case (Cons h hs)
  obtain w where w: "cn (ro_world s) = (False, w)" using assms(2) by (metis (full_types) prod.collapse)
  obtain d s1 where "call f Act h (s\<lparr>ro_world := w\<rparr>) = ((True, d), s1)" "ro_healthy s1 = ro_healthy s"
    "ro_done s1 = ro_done s"
    by (rule call_succeeds [OF assms(1), of Act h "s\<lparr>ro_world := w\<rparr>"]) auto
  with Cons.IH [of s1] w show ?case by simp
qed simp

lemma check_all:
  assumes "succeeds f"
  shows "\<exists>s'. check_group f ph hs s = (None, s') \<and> ro_healthy s' = ro_healthy s \<and> ro_done s' = ro_done s"
proof (induction hs arbitrary: s)
  case (Cons h hs)
  obtain d s1 where "call f ph h s = ((True, d), s1)" "ro_healthy s1 = ro_healthy s" "ro_done s1 = ro_done s"
    by (rule call_succeeds [OF assms])
  with Cons.IH [of s1] show ?case by simp
qed simp

lemma undrain_all:
  assumes "succeeds f"
  shows "\<exists>s'. undrain_group f hs s = (None, s') \<and> ro_healthy s' = ro_healthy s \<union> set hs \<and>
    ro_done s' = ro_done s @ hs"
proof (induction hs arbitrary: s)
  case (Cons h hs)
  obtain d s1 where "call f Undrain h s = ((True, d), s1)" "ro_healthy s1 = ro_healthy s" "ro_done s1 = ro_done s"
    by (rule call_succeeds [OF assms])
  with Cons.IH [of "(mark_back h s1)\<lparr>ro_done := ro_done s1 @ [h]\<rparr>"] show ?case
    by (auto simp: mark_back_def)
qed simp

lemma roll_group_cooperative:
  assumes "cooperative p" "set grp \<subseteq> ro_healthy s"
  shows "\<exists>s'. roll_group p grp s = (None, s') \<and> ro_healthy s' = ro_healthy s \<and> ro_done s' = ro_done s @ grp"
proof -
  have p: "succeeds (pl_drain p)" "succeeds (pl_undrain p)" "succeeds (pl_act p)" "succeeds (pl_health p)"
    "\<forall>w. \<not> fst (pl_cancelled p w)"
    using assms(1) by (simp_all add: cooperative_def)
  obtain s1 where s1: "drain_group (pl_drain p) grp [] s = (None, grp, s1)" "ro_healthy s1 = ro_healthy s - set grp"
      "ro_done s1 = ro_done s"
    using drain_all [OF p(1), of grp "[]" s] by auto
  obtain s2 where s2: "act_group (pl_cancelled p) (pl_act p) grp s1 = (None, s2)" "ro_healthy s2 = ro_healthy s1"
      "ro_done s2 = ro_done s1"
    using act_all [OF p(3,5)] by blast
  have "\<exists>s3. settle_phase p grp s2 = health_phase p grp s3 \<and> ro_healthy s3 = ro_healthy s2 \<and> ro_done s3 = ro_done s2"
  proof (cases "pl_settle p")
    case None
    then show ?thesis by (auto simp: settle_phase_def)
  next
    case (Some f)
    then have "succeeds f" using assms(1) by (simp add: cooperative_def)
    then obtain s3 where "check_group f Settle grp s2 = (None, s3)" "ro_healthy s3 = ro_healthy s2"
        "ro_done s3 = ro_done s2"
      using check_all by blast
    with Some show ?thesis by (auto simp: settle_phase_def)
  qed
  then obtain s3 where s3: "settle_phase p grp s2 = health_phase p grp s3" "ro_healthy s3 = ro_healthy s2"
      "ro_done s3 = ro_done s2" by blast
  obtain s4 where s4: "check_group (pl_health p) Health grp s3 = (None, s4)" "ro_healthy s4 = ro_healthy s3"
      "ro_done s4 = ro_done s3"
    using check_all [OF p(4)] by blast
  obtain s5 where "undrain_group (pl_undrain p) grp s4 = (None, s5)" "ro_healthy s5 = ro_healthy s4 \<union> set grp"
      "ro_done s5 = ro_done s4 @ grp"
    using undrain_all [OF p(2)] by blast
  with s1 s2 s3 s4 assms(2) show ?thesis
    by (auto simp: roll_group_def act_phase_def health_phase_def return_phase_def)
qed

lemma roll_groups_cooperative:
  assumes "cooperative p" "ro_healthy s = H" "finite H"
    and "\<And>g. g \<in> set gs \<Longrightarrow> set g \<subseteq> H \<and> int (length g) \<le> int (card H) - k"
  shows "\<exists>s'. roll_groups p k gs s = ((Run_Ok, All_Rolled), s')"
  using assms(2,4)
proof (induction gs arbitrary: s)
  case (Cons g gs)
  obtain w where w: "pl_cancelled p (ro_world s) = (False, w)"
    using assms(1) by (metis (full_types) cooperative_def prod.collapse)
  let ?s0 = "s\<lparr>ro_world := w\<rparr>"
  have "int (length (filter (\<lambda>h. h \<in> H) g)) \<le> int (length g)" by simp
  moreover have "left_serving g ?s0 = int (card H) - int (length (filter (\<lambda>h. h \<in> H) g))"
    by (simp add: left_serving_def Cons.prems(1))
  moreover have "int (length g) \<le> int (card H) - k" using Cons.prems(2) [of g] by simp
  ultimately have enough: "\<not> left_serving g ?s0 < k" by linarith
  obtain s1 where "roll_group p g ?s0 = (None, s1)" and H: "ro_healthy s1 = H"
    using roll_group_cooperative [OF assms(1), of g ?s0] Cons.prems by auto
  moreover have "\<exists>s'. roll_groups p k gs s1 = ((Run_Ok, All_Rolled), s')"
    using Cons.IH [OF H] Cons.prems(2) by simp
  ultimately show ?case using w enough by simp
qed simp

lemma probe_all:
  assumes "succeeds f"
  shows "fst (probe f hs w st) h = (if h \<in> set hs then Some True else st h)"
proof (induction hs arbitrary: w st)
  case (Cons x hs)
  obtain ok d w1 where c: "safe f x w = ((ok, d), w1)" by (metis surj_pair)
  moreover have "ok" using assms c by (metis fst_conv succeeds_def)
  ultimately have "fst (probe f (x # hs) w st) h = fst (probe f hs w1 (st(x \<mapsto> True))) h" by simp
  also have "\<dots> = (if h \<in> set hs then Some True else (st(x \<mapsto> True)) h)" by (rule Cons.IH)
  finally show ?case by simp
qed simp

lemma preflight_all:
  assumes "succeeds f" "members \<noteq> []" "distinct members"
  obtains states w1 where "preflight members f ad w = (None, states, w1)" "healthy_set members states = set members"
proof -
  obtain states w1 where pr: "probe f members w Map.empty = (states, w1)" by fastforce
  have st: "states h = Some True" if "h \<in> set members" for h
    using probe_all [OF assms(1), of members w Map.empty h] pr that by simp
  then have "filter (\<lambda>h. states h = Some True) (remdups members) = members"
    using assms(3) by (simp add: filter_id_conv distinct_remdups_id)
  then have "preflight members f ad w = (None, states, w1)"
    using assms(2) by (simp add: preflight_def pr)
  moreover have "healthy_set members states = set members" using st by (auto simp: healthy_set_def)
  ultimately show thesis using that by blast
qed

text \<open>C20: A pool that validation accepts can be rolled: a run of it, with the pool's own limits, in
  which every provider does what it is asked and nobody cancels, completes, with every member done
  in order and none left out of rotation.\<close>

theorem accepted_pool_rolls:
  assumes "pool_validate q = None" "cooperative p"
    and "run (po_members q) p (as_int (po_max_unavailable q) 1) ad (as_int (po_min_healthy q) 1) w = (res, w')"
  shows "rr_state res = Run_Ok \<and> rr_done res = po_members q \<and> rr_drained res = {}"
proof -
  let ?ms = "po_members q" and ?mu = "as_int (po_max_unavailable q) 1" and ?k = "as_int (po_min_healthy q) 1"
  have q: "distinct ?ms" "2 \<le> length ?ms" "1 \<le> ?mu" "?mu + ?k \<le> int (length ?ms)"
    using validate_accepts [OF assms(1)] by simp_all
  have p: "succeeds (pl_health p)" using assms(2) by (simp add: cooperative_def)
  have "?ms \<noteq> []" using q(2) by auto
  then obtain states w1 where pf: "preflight ?ms (pl_health p) ad w = (None, states, w1)"
      "healthy_set ?ms states = set ?ms"
    by (rule preflight_all [OF p _ q(1)])
  let ?s = "\<lparr>ro_world = w1, ro_events = [], ro_healthy = set ?ms, ro_out = {}, ro_done = []\<rparr>"
  have sz: "set g \<subseteq> set ?ms \<and> int (length g) \<le> int (card (set ?ms)) - ?k" if "g \<in> set (batches ?ms ?mu)" for g
  proof -
    have "g \<noteq> [] \<and> length g \<le> Suc (nat (max 1 ?mu) - 1)"
      using that chunks_sizes [of g "nat (max 1 ?mu) - 1" ?ms] q(3) by (simp add: batches_def Let_def)
    then have "length g \<le> nat ?mu" using q(3) by simp
    then have "int (length g) \<le> ?mu" using q(3) by (simp add: le_nat_iff)
    moreover have "set g \<subseteq> set ?ms" using that concat_batches [of ?ms ?mu] by (metis UN_I set_concat subsetI)
    ultimately show ?thesis using q(1,4) by (simp add: distinct_card)
  qed
  obtain s' where go: "roll_groups p ?k (batches ?ms ?mu) ?s = ((Run_Ok, All_Rolled), s')"
    using roll_groups_cooperative [OF assms(2), of ?s "set ?ms" "batches ?ms ?mu" ?k] sz by auto
  have "inv (set ?ms) ?k ?s" using inv_start [of ?ms states ?k w1] pf(2) by simp
  from roll_groups_post [OF this _ _ go] q(1) have "ro_done s' = ?ms" "ro_out s' = {}"
    by (simp_all add: concat_batches)
  with assms(3) pf go show ?thesis by (auto simp: run_def mk_result_def)
qed

lemma accepted_pool_rolls_witness:
  "\<exists>q. pool_validate q = None \<and> rr_state (fst (run (po_members q) willing 1 False 1 ())) = Run_Ok"
proof -
  define q where "q = \<lparr>po_id = ''p1'', po_name = Some ''web'', po_members = [''a'', ''b''], po_provider = None,
    po_drain_cmd = None, po_undrain_cmd = None, po_health = None, po_max_unavailable = None,
    po_min_healthy = None, po_settle_secs = None, po_created_by = ''ann'', po_created_ts = 0\<rparr>"
  have v: "pool_validate q = None"
    by (simp add: q_def pool_validate_def Let_def or_else_def provider_of_def health_kind_def as_int_def
        MAX_UNAVAILABLE_CAP_def SETTLE_CAP_def) code_simp
  have c: "cooperative willing"
    by (simp add: cooperative_def willing_def succeeds_def safe_def)
  obtain res w' where r: "run (po_members q) willing (as_int (po_max_unavailable q) 1) False
      (as_int (po_min_healthy q) 1) () = (res, w')" by (metis surj_pair)
  then have "rr_state (fst (run (po_members q) willing (as_int (po_max_unavailable q) 1) False
      (as_int (po_min_healthy q) 1) ())) = Run_Ok"
    using accepted_pool_rolls [OF v c r] by simp
  then have "rr_state (fst (run (po_members q) willing 1 False 1 ())) = Run_Ok" by (simp add: q_def as_int_def)
  with v show ?thesis by blast
qed

section \<open>The stores stay well-formed\<close>

lemma get_after_update:
  "get_by_id ident i rows = Some r \<Longrightarrow> ident q = i \<Longrightarrow> get_by_id ident i (update_first ident i (\<lambda>_. q) rows) = Some q"
  by (induction rows) (auto simp: get_by_id_def split: if_splits)

lemma get_by_id_ident: "get_by_id ident i rows = Some r \<Longrightarrow> ident r = i"
  by (auto simp: get_by_id_def dest: find_SomeD)

text \<open>Every pool in the store passes validation: creating, editing and deleting keep it so.  A
  rejected request leaves the store as it was, an accepted edit is what is stored afterwards, and a
  pool is found under its id exactly until it is deleted.\<close>

theorem pool_store_stays_valid:
  assumes "all_valid rows"
  shows "all_valid (snd (create_pool now i by data rows)) \<and> all_valid (snd (update_pool i patch rows)) \<and>
    all_valid (snd (delete_pool i rows)) \<and>
    (\<forall>e. fst (create_pool now i by data rows) = Inl e \<longrightarrow> snd (create_pool now i by data rows) = rows) \<and>
    (\<forall>e. fst (update_pool i patch rows) = Inl e \<longrightarrow> snd (update_pool i patch rows) = rows) \<and>
    (\<forall>q. fst (update_pool i patch rows) = Inr (Some q) \<longrightarrow> get_pool i (snd (update_pool i patch rows)) = Some q) \<and>
    (\<forall>q. fst (create_pool now i by data rows) = Inr q \<longrightarrow> get_pool i rows = None \<longrightarrow>
       get_pool i (snd (create_pool now i by data rows)) = Some q) \<and>
    get_pool i (snd (delete_pool i rows)) = None"
proof -
  have "all_valid (snd (create_pool now i by data rows))"
    using assms by (auto simp: create_pool_def Let_def all_valid_def split: option.split)
  moreover have "all_valid (snd (update_pool i patch rows))"
    using assms by (auto simp: update_pool_def Let_def all_valid_update_first split: option.split)
  moreover have "all_valid (snd (delete_pool i rows))"
    using assms by (auto simp: delete_pool_def delete_by_id_def Let_def all_valid_def list_all_iff)
  moreover have "fst (update_pool i patch rows) = Inr (Some q) \<Longrightarrow> get_pool i (snd (update_pool i patch rows)) = Some q" for q
    by (auto simp: update_pool_def Let_def get_pool_def intro!: get_after_update dest: get_by_id_ident split: option.splits)
  moreover have "fst (create_pool now i by data rows) = Inr q \<Longrightarrow> get_pool i rows = None \<Longrightarrow>
      get_pool i (snd (create_pool now i by data rows)) = Some q" for q
    by (auto simp: create_pool_def Let_def pool_store.get_add split: option.splits)
  moreover have "fst (create_pool now i by data rows) = Inl e \<Longrightarrow> snd (create_pool now i by data rows) = rows" for e
    by (auto simp: create_pool_def Let_def split: option.splits)
  moreover have "fst (update_pool i patch rows) = Inl e \<Longrightarrow> snd (update_pool i patch rows) = rows" for e
    by (auto simp: update_pool_def Let_def split: option.splits)
  ultimately show ?thesis by (simp add: pool_store.get_del)
qed

lemma pool_store_stays_valid_witness:
  "all_valid [] \<and> get_pool ''x'' (snd (delete_pool ''x'' [])) = None"
proof -
  have e: "all_valid []" by (simp add: all_valid_def)
  from pool_store_stays_valid [OF e] e show ?thesis by blast
qed

lemma supp_add_shape:
  assumes "fst (supp_add now i by sc tg ky st rs sn be rows) = Inr r"
  shows "snd (supp_add now i by sc tg ky st rs sn be rows) = filter (\<lambda>x. finding_of x \<noteq> finding_of r) rows @ [r]"
  using assms
  by (auto simp: supp_add_def Let_def finding_of_def same_finding_def split: option.splits if_splits)

text \<open>A finding is suppressed at most once: adding (whether accepted or not), listing with its
  pruning of expired snoozes, and removing keep one entry per scope, target and key; and an accepted
  suppression replaces the earlier one for its finding and is found under its id, when that is new.\<close>

theorem one_suppression_per_finding:
  assumes "one_each rows"
  shows "one_each (snd (supp_add now i by sc tg ky st rs sn be rows)) \<and>
    one_each (snd (supp_list_all now rows)) \<and> one_each (snd (supp_remove i rows)) \<and>
    (\<forall>r. fst (supp_add now i by sc tg ky st rs sn be rows) = Inr r \<longrightarrow>
       filter (\<lambda>x. finding_of x = finding_of r) (snd (supp_add now i by sc tg ky st rs sn be rows)) = [r])"
proof -
  have "one_each (snd (supp_add now i by sc tg ky st rs sn be rows))"
    using assms by (auto simp: supp_add_def Let_def finding_of_def intro!: one_each_replace split: option.split)
  moreover have "one_each (snd (supp_list_all now rows))" using assms by (simp add: supp_list_all_def Let_def one_each_filter)
  moreover have "one_each (snd (supp_remove i rows))"
    using assms by (simp add: supp_remove_def delete_by_id_def Let_def one_each_filter)
  moreover have "fst (supp_add now i by sc tg ky st rs sn be rows) = Inr r \<Longrightarrow>
      filter (\<lambda>x. finding_of x = finding_of r) (snd (supp_add now i by sc tg ky st rs sn be rows)) = [r]" for r
    by (simp add: supp_add_shape)
  ultimately show ?thesis by blast
qed

lemma one_suppression_per_finding_witness:
  "one_each (snd (supp_remove ''x'' (snd (supp_list_all 5 []))))"
proof -
  have e: "one_each []" by (simp add: one_each_def)
  have "one_each (snd (supp_list_all 5 []))" using one_suppression_per_finding [OF e] by blast
  then show ?thesis using one_suppression_per_finding by blast
qed

section \<open>The next run of a job\<close>

text \<open>A wall time at which a job of this cadence fires.\<close>

definition fires_at :: "job \<Rightarrow> rat \<Rightarrow> bool" where
  "fires_at j w =
     (if jb_cadence j = ''hourly'' then w = full_hour w + of_int (snd (parse_hhmm (jb_at j))) * 60
      else w = midnight w + at_time (parse_hhmm (jb_at j)) \<and>
        (jb_cadence j = ''weekly'' \<longrightarrow> weekday_of w = jb_weekday j mod 7))"

definition period :: "job \<Rightarrow> rat" where
  "period j = (if jb_cadence j = ''hourly'' then HOUR else if jb_cadence j = ''weekly'' then 7 * DAY else DAY)"

lemma midnight_at:
  assumes "0 \<le> r" "r < DAY"
  shows "midnight (of_int k * DAY + r) = of_int k * DAY" "\<lfloor>(of_int k * DAY + r) / DAY\<rfloor> = k"
proof -
  have "\<lfloor>(of_int k * DAY + r) / DAY\<rfloor> = k"
    using assms by (intro floor_unique) (simp_all add: DAY_def field_simps)
  then show "midnight (of_int k * DAY + r) = of_int k * DAY" "\<lfloor>(of_int k * DAY + r) / DAY\<rfloor> = k"
    by (simp_all add: midnight_def)
qed

lemma full_hour_at:
  assumes "0 \<le> r" "r < HOUR"
  shows "full_hour (of_int k * HOUR + r) = of_int k * HOUR"
proof -
  have "\<lfloor>(of_int k * HOUR + r) / HOUR\<rfloor> = k"
    using assms by (intro floor_unique) (simp_all add: HOUR_def field_simps)
  then show ?thesis by (simp add: full_hour_def)
qed

lemma fires_hourly:
  "jb_cadence j = ''hourly'' \<Longrightarrow> fires_at j (of_int k * HOUR + of_int (snd (parse_hhmm (jb_at j))) * 60)"
  using minute_bounds [of "jb_at j"] by (simp add: fires_at_def full_hour_at)

lemma fires_daily:
  "jb_cadence j \<notin> {''hourly'', ''weekly''} \<Longrightarrow> fires_at j (of_int k * DAY + at_time (parse_hhmm (jb_at j)))"
  using at_time_bounds [of "jb_at j"] by (simp add: fires_at_def midnight_at)

lemma fires_weekly:
  assumes "jb_cadence j = ''weekly''" "(k + 3) mod 7 = jb_weekday j mod 7"
  shows "fires_at j (of_int k * DAY + at_time (parse_hhmm (jb_at j)))"
  using at_time_bounds [of "jb_at j"] assms by (simp add: fires_at_def midnight_at weekday_of_def)

lemma fires_apart:
  assumes "fires_at j w" "fires_at j w'"
  shows "\<exists>k :: int. w' = w + of_int k * period j"
proof (cases "jb_cadence j = ''hourly''")
  case True
  then have "w' = w + of_int (\<lfloor>w' / HOUR\<rfloor> - \<lfloor>w / HOUR\<rfloor>) * period j"
    using assms by (simp add: fires_at_def period_def full_hour_def algebra_simps)
  then show ?thesis by blast
next
  case False
  let ?d = "\<lfloor>w / DAY\<rfloor>" and ?d' = "\<lfloor>w' / DAY\<rfloor>"
  have w: "w' = w + of_int (?d' - ?d) * DAY"
    using assms False by (simp add: fires_at_def midnight_def algebra_simps)
  show ?thesis
  proof (cases "jb_cadence j = ''weekly''")
    case True
    have "(?d + 3) mod 7 = (?d' + 3) mod 7" using assms True False by (simp add: fires_at_def weekday_of_def)
    then have "\<exists>k. ?d' - ?d = 7 * k" by presburger
    then obtain k where "?d' - ?d = 7 * k" ..
    then have "w' = w + of_int k * period j" using w True by (simp add: period_def)
    then show ?thesis by blast
  next
    case no: False
    have "w' = w + of_int (?d' - ?d) * period j" using w False no by (simp add: period_def)
    then show ?thesis by blast
  qed
qed

lemma next_run_hourly:
  assumes "jb_cadence j = ''hourly''"
  shows "t < compute_next_run (fixed_zone off) j t" "compute_next_run (fixed_zone off) j t \<le> t + period j"
    "fires_at j (compute_next_run (fixed_zone off) j t + off)"
proof -
  define k where "k = \<lfloor>(t + off) / HOUR\<rfloor>"
  define c where "c = of_int (snd (parse_hhmm (jb_at j))) * (60 :: rat)"
  have h: "full_hour (t + off) = of_int k * HOUR" by (simp add: full_hour_def k_def)
  have b: "of_int k * HOUR \<le> t + off" "t + off < of_int k * HOUR + HOUR" "0 \<le> c" "c < HOUR"
    using full_hour_bounds [of "t + off"] minute_bounds [of "jb_at j"] by (simp_all add: h c_def)
  have n: "compute_next_run (fixed_zone off) j t =
      (if of_int k * HOUR + c \<le> t + off then of_int k * HOUR + c + HOUR - off else of_int k * HOUR + c - off)"
    using assms by (simp add: compute_next_run_def fixed_zone_def Let_def h c_def)
  show "t < compute_next_run (fixed_zone off) j t" "compute_next_run (fixed_zone off) j t \<le> t + period j"
    unfolding n using b assms by (auto simp: period_def)
  show "fires_at j (compute_next_run (fixed_zone off) j t + off)"
    using fires_hourly [OF assms, of k] fires_hourly [OF assms, of "k + 1"]
    by (simp add: n c_def algebra_simps)
qed

lemma next_run_daily:
  assumes "jb_cadence j \<notin> {''hourly'', ''weekly''}"
  shows "t < compute_next_run (fixed_zone off) j t" "compute_next_run (fixed_zone off) j t \<le> t + period j"
    "fires_at j (compute_next_run (fixed_zone off) j t + off)"
proof -
  define k where "k = \<lfloor>(t + off) / DAY\<rfloor>"
  define c where "c = at_time (parse_hhmm (jb_at j))"
  have h: "midnight (t + off) = of_int k * DAY" by (simp add: midnight_def k_def)
  have b: "of_int k * DAY \<le> t + off" "t + off < of_int k * DAY + DAY" "0 \<le> c" "c < DAY"
    using midnight_bounds [of "t + off"] at_time_bounds [of "jb_at j"] by (simp_all add: h c_def)
  have n: "compute_next_run (fixed_zone off) j t =
      (if of_int k * DAY + c \<le> t + off then of_int k * DAY + c + DAY - off else of_int k * DAY + c - off)"
    using assms by (simp add: compute_next_run_def fixed_zone_def Let_def h c_def)
  show "t < compute_next_run (fixed_zone off) j t" "compute_next_run (fixed_zone off) j t \<le> t + period j"
    unfolding n using b assms by (auto simp: period_def)
  show "fires_at j (compute_next_run (fixed_zone off) j t + off)"
    using fires_daily [OF assms, of k] fires_daily [OF assms, of "k + 1"]
    by (simp add: n c_def algebra_simps)
qed

lemma mod_meets: "(x + (w - x mod 7) mod 7) mod 7 = w mod 7" for x w :: int
proof -
  have "(x + (w - x mod 7) mod 7) mod 7 = (x + (w - x mod 7)) mod 7" by (rule mod_add_right_eq)
  also have "\<dots> = (x mod 7 + (w - x mod 7)) mod 7" by (rule mod_add_left_eq [symmetric])
  finally show ?thesis by simp
qed

lemma next_run_weekly:
  assumes "jb_cadence j = ''weekly''"
  shows "t < compute_next_run (fixed_zone off) j t" "compute_next_run (fixed_zone off) j t \<le> t + period j"
    "fires_at j (compute_next_run (fixed_zone off) j t + off)"
proof -
  define k where "k = \<lfloor>(t + off) / DAY\<rfloor>"
  define c where "c = at_time (parse_hhmm (jb_at j))"
  define e where "e = (jb_weekday j mod 7 - (k + 3) mod 7) mod 7"
  have h: "midnight (t + off) = of_int k * DAY" by (simp add: midnight_def k_def)
  have b: "of_int k * DAY \<le> t + off" "t + off < of_int k * DAY + DAY" "0 \<le> c" "c < DAY"
    using midnight_bounds [of "t + off"] at_time_bounds [of "jb_at j"] by (simp_all add: h c_def)
  have wd: "weekday_of (of_int k * DAY + c) = (k + 3) mod 7" using b by (simp add: weekday_of_def midnight_at)
  have e1: "(k + e + 3) mod 7 = jb_weekday j mod 7"
    using mod_meets [of "k + 3" "jb_weekday j mod 7"] by (simp add: e_def algebra_simps)
  moreover have "k + e + 7 + 3 = (k + e + 3) + 7" by simp
  ultimately have e2: "(k + e + 7 + 3) mod 7 = jb_weekday j mod 7" by (simp only: mod_add_self2)
  have e3: "0 \<le> e" "e < 7" by (simp_all add: e_def)
  then have er: "0 \<le> (of_int e :: rat)" "(of_int e :: rat) \<le> of_int 6"
    by (simp, subst of_int_le_iff, simp)
  have n: "compute_next_run (fixed_zone off) j t =
      (if of_int k * DAY + c + of_int e * DAY \<le> t + off then of_int k * DAY + c + of_int e * DAY + 7 * DAY - off
       else of_int k * DAY + c + of_int e * DAY - off)"
    using assms by (simp add: compute_next_run_def fixed_zone_def Let_def h c_def [symmetric] wd e_def)
  obtain E where E: "E = (of_int e :: rat) * DAY" "0 \<le> E" "E \<le> 6 * DAY" using er by (simp add: DAY_def)
  show "t < compute_next_run (fixed_zone off) j t"
    unfolding n E(1) [symmetric] using b E(2,3) by (auto simp: DAY_def)
  show "compute_next_run (fixed_zone off) j t \<le> t + period j"
    unfolding n E(1) [symmetric] using b E(2,3) assms by (auto simp: period_def)
  show "fires_at j (compute_next_run (fixed_zone off) j t + off)"
    using fires_weekly [OF assms e1] fires_weekly [OF assms e2]
    by (simp add: n c_def algebra_simps)
qed

lemma next_run_bounds:
  "t < compute_next_run (fixed_zone off) j t" "compute_next_run (fixed_zone off) j t \<le> t + period j"
  "fires_at j (compute_next_run (fixed_zone off) j t + off)"
  by (cases "jb_cadence j = ''hourly''"; cases "jb_cadence j = ''weekly''";
      simp add: next_run_hourly next_run_weekly next_run_daily)+

text \<open>C21: In a zone at a fixed distance from UTC, the next run of a job is the first wall time after
  the given instant at which its cadence fires: strictly later, at most one period away, at the
  right minute, hour and weekday, and with no firing time in between; whatever text the time of day
  and whatever weekday number are stored.\<close>

theorem next_run_is_first:
  "t < compute_next_run (fixed_zone off) j t \<and> compute_next_run (fixed_zone off) j t \<le> t + period j \<and>
   fires_at j (compute_next_run (fixed_zone off) j t + off) \<and>
   (\<forall>w. t + off < w \<longrightarrow> fires_at j w \<longrightarrow> compute_next_run (fixed_zone off) j t + off \<le> w)"
proof -
  let ?n = "compute_next_run (fixed_zone off) j t"
  have n: "t < ?n" "?n \<le> t + period j" "fires_at j (?n + off)"
    by (rule next_run_bounds)+
  have pos: "0 < period j" by (simp add: period_def HOUR_def DAY_def)
  have "?n + off \<le> w" if w: "t + off < w" "fires_at j w" for w
  proof -
    obtain k :: int where k: "w = ?n + off + of_int k * period j" using fires_apart [OF n(3) w(2)] by blast
    have "- 1 < k"
    proof (rule ccontr)
      assume "\<not> - 1 < k"
      then have "(of_int k :: rat) \<le> of_int (- 1)" by (subst of_int_le_iff) simp
      then have "(of_int k :: rat) \<le> - 1" by simp
      then have "of_int k * period j \<le> - 1 * period j" using pos by (intro mult_right_mono) simp_all
      with k w(1) n(2) show False by simp
    qed
    then have "0 \<le> (of_int k :: rat)" by simp
    then have "0 \<le> of_int k * period j" using pos by simp
    with k show ?thesis by simp
  qed
  with n show ?thesis by blast
qed

definition demo_job :: job where
  "demo_job = \<lparr>jb_id = ''j1'', jb_name = ''scan'', jb_action = ''patch_scan'', jb_arg = [], jb_targets = [],
     jb_cadence = ''daily'', jb_at = ''02:00'', jb_weekday = 0, jb_tz = [], jb_enabled = True,
     jb_created_by = ''ann'', jb_created_ts = 0, jb_last_run = None, jb_last_status = None, jb_last_detail = [],
     jb_history = [], jb_next_run = Some 7200\<rparr>"

lemma next_run_is_first_witness:
  "compute_next_run (fixed_zone 0) demo_job 0 \<le> 7200 \<and> 0 < compute_next_run (fixed_zone 0) demo_job 0"
proof -
  have "parse_hhmm (jb_at demo_job) = (2, 0)" by (simp add: demo_job_def) code_simp
  moreover have "midnight 7200 = 0" using midnight_at(1) [of 7200 0] by (simp add: DAY_def)
  ultimately have "fires_at demo_job 7200" by (simp add: fires_at_def) (simp add: demo_job_def at_time_def)
  with next_run_is_first [of 0 0 demo_job] show ?thesis by simp
qed

section \<open>Due jobs\<close>

definition due :: "instant \<Rightarrow> job \<Rightarrow> bool" where
  "due now j = (jb_enabled j \<and> (case jb_next_run j of None \<Rightarrow> False | Some t \<Rightarrow> t \<le> now))"

lemma due_from_exact: "due_from tz now clock js stored = Some (out, st) \<Longrightarrow> out = filter (due now) js"
proof (induction js arbitrary: stored out)
  case (Cons j js)
  show ?case
  proof (cases "jb_enabled j")
    case False
    with Cons show ?thesis by (simp add: due_def)
  next
    case on: True
    show ?thesis
    proof (cases "jb_next_run j")
      case None
      obtain r stored' where "update_job tz clock (jb_id j) (keep_name j) stored = (r, stored')" by fastforce
      with Cons on None show ?thesis by (cases r) (simp_all add: due_def)
    next
      case (Some t)
      show ?thesis
      proof (cases "t \<le> now")
        case True
        then obtain out' where "due_from tz now clock js stored = Some (out', st)" "out = j # out'"
          using Cons.prems on Some by auto
        with Cons.IH on Some True show ?thesis by (simp add: due_def)
      next
        case False
        with Cons on Some show ?thesis by (simp add: due_def)
      qed
    qed
  qed
qed simp

lemma in_update_first:
  assumes "keyed ident rows" "r \<in> set (update_first ident i f rows)" "\<And>r. ident (f r) = ident r" "ident r = i"
  shows "\<exists>x \<in> set rows. r = f x"
  using assms(1,2)
proof (induction rows)
  case (Cons x rows)
  show ?case
  proof (cases "ident x = i")
    case True
    then have "i \<notin> ident ` set rows" using Cons.prems(1) by (auto simp: keyed_def)
    then show ?thesis using Cons.prems(2) assms(4) True by auto
  next
    case False
    then have "r \<in> set (update_first ident i f rows)" using Cons.prems(2) assms(4) by auto
    with Cons.IH Cons.prems(1) show ?thesis by (auto simp: keyed_def)
  qed
qed simp

text \<open>The due jobs at a moment are exactly the enabled ones whose next run has come, in stored order;
  and a job that is advanced before it is run, as the scheduler does, is not due again at that
  moment, so that it fires once even when recording its run fails.\<close>

theorem due_jobs_fire_once:
  assumes "keyed jb_id jobs"
  shows "(\<forall>out st. due_jobs (\<lambda>_. fixed_zone off) now clock jobs = Some (out, st) \<longrightarrow>
      out = filter (due now) jobs) \<and>
    (\<forall>out st. due_jobs (\<lambda>_. fixed_zone off) now clock (snd (advance_next_run (\<lambda>_. fixed_zone off) now i jobs)) =
        Some (out, st) \<longrightarrow> (\<forall>j \<in> set out. jb_id j \<noteq> i))"
proof (intro conjI allI impI)
  fix out st assume "due_jobs (\<lambda>_. fixed_zone off) now clock jobs = Some (out, st)"
  then show "out = filter (due now) jobs" by (simp add: due_jobs_def due_from_exact)
next
  fix out st
  assume d: "due_jobs (\<lambda>_. fixed_zone off) now clock (snd (advance_next_run (\<lambda>_. fixed_zone off) now i jobs)) = Some (out, st)"
  show "\<forall>j \<in> set out. jb_id j \<noteq> i"
  proof (intro ballI notI)
    fix j assume j: "j \<in> set out" "jb_id j = i"
    have out: "out = filter (due now) (update_first jb_id i (with_next_run (\<lambda>_. fixed_zone off) now) jobs)"
      using d by (simp add: due_jobs_def due_from_exact advance_next_run_def)
    have keep: "jb_id (with_next_run (\<lambda>_. fixed_zone off) now x) = jb_id x" for x by (simp add: with_next_run_def)
    from j out have "j \<in> set (update_first jb_id i (with_next_run (\<lambda>_. fixed_zone off) now) jobs)" by simp
    from in_update_first [OF assms this keep j(2)] obtain x where "j = with_next_run (\<lambda>_. fixed_zone off) now x" by blast
    moreover have "now < compute_next_run (fixed_zone off) x now" by (rule next_run_bounds)
    ultimately have "\<not> due now j" by (simp add: due_def with_next_run_def)
    with j(1) out show False by simp
  qed
qed

lemma due_jobs_fire_once_witness:
  "fst (the (due_jobs (\<lambda>_. fixed_zone 0) 8000 8000 [demo_job])) = [demo_job]"
proof -
  have k: "keyed jb_id [demo_job]" by (simp add: keyed_def)
  obtain out st where o: "due_jobs (\<lambda>_. fixed_zone 0) 8000 8000 [demo_job] = Some (out, st)"
    by (simp add: due_jobs_def demo_job_def)
  then have "out = filter (due 8000) [demo_job]" using due_jobs_fire_once [OF k] by blast
  with o show ?thesis by (simp add: due_def) (simp add: demo_job_def)
qed

section \<open>Host annotations\<close>

text \<open>What is stored for a host is what is read back, also when it is the default and the entry is
  dropped; no other host's annotation changes; and the tags stored by a request are at most twenty,
  none empty, no two equal but for case.\<close>

theorem annotation_roundtrip:
  assumes "fst (set_meta n tags owner notes crit st) = Inr r"
  shows "note_get n (snd (set_meta n tags owner notes crit st)) = r \<and>
    (\<forall>k. k \<noteq> n \<longrightarrow> note_get k (snd (set_meta n tags owner notes crit st)) = note_get k st) \<and>
    (\<forall>ts. tags = Some ts \<longrightarrow> length (hn_tags r) \<le> 20 \<and> distinct (map lower (hn_tags r)) \<and> [] \<notin> set (hn_tags r))"
proof -
  have ne: "[] \<notin> set (clean_tags seen ts)" for seen ts
    by (induction seen ts rule: clean_tags.induct) (auto simp: Let_def)
  have "distinct (map lower (take 20 (clean_tags [] ts)))" for ts
    using distinct_tags [of "[]" ts] by (simp add: take_map [symmetric] distinct_take)
  moreover have "[] \<notin> set (take 20 (clean_tags [] ts))" for ts using ne in_set_takeD by metis
  ultimately have "\<forall>ts. tags = Some ts \<longrightarrow> length (hn_tags r) \<le> 20 \<and> distinct (map lower (hn_tags r)) \<and> [] \<notin> set (hn_tags r)"
    using assms by (auto simp: set_meta_def Let_def split: if_splits option.splits)
  moreover have "note_get n (snd (set_meta n tags owner notes crit st)) = r \<and>
    (\<forall>k. k \<noteq> n \<longrightarrow> note_get k (snd (set_meta n tags owner notes crit st)) = note_get k st)"
    using assms by (auto simp: set_meta_def Let_def note_get_def map_of_upsert map_of_tb_delete split: if_splits)
  ultimately show ?thesis by blast
qed

lemma annotation_roundtrip_witness:
  "note_get ''web1'' (snd (set_meta ''web1'' None (Some ''ann'') None (Some ''high'') [])) =
     \<lparr>hn_tags = [], hn_owner = ''ann'', hn_notes = [], hn_criticality = ''high''\<rparr>"
proof -
  have "strip ''ann'' = ''ann''" by code_simp
  then have "fst (set_meta ''web1'' None (Some ''ann'') None (Some ''high'') []) =
      Inr \<lparr>hn_tags = [], hn_owner = ''ann'', hn_notes = [], hn_criticality = ''high''\<rparr>"
    by (simp add: set_meta_def criticality_def note_get_def default_note_def Let_def)
  from annotation_roundtrip [OF this] show ?thesis by blast
qed

end
