(* ===== verification/Integrity_Watch.thy ===== *)
theory Integrity_Watch
  imports Agent_Lockout
begin

text \<open>
  What the integrity check enforces through the handlers: a sealed host that reports anything else,
  or stops reporting, is quarantined, and a quarantined host is handed no task; and two ways a
  compromised agent has around it.
\<close>

section \<open>Tampering\<close>

text \<open>A report agrees with the seal: the same version and the same files, each present and equal.\<close>

definition agrees :: "(string \<times> json) list \<Rightarrow> (string \<times> json) list \<Rightarrow> (string \<times> json) list \<Rightarrow> (string \<times> json) list \<Rightarrow> bool" where
  "agrees r rs b bs =
     (py_eq (dict_get ''version'' r) (dict_get ''version'' b) \<and>
      list_all (\<lambda>(p, e). dict_get p rs \<noteq> JNull \<and> py_eq (dict_get p rs) e) bs \<and>
      list_all (\<lambda>(p, e). p \<in> set (map fst bs)) rs)"

lemma compare_agrees:
  assumes "files_of r = JObj rs" "files_of b = JObj bs"
  obtains ms where "compare (JObj r) (JObj b) = Some ms" "ms = [] \<longleftrightarrow> agrees r rs b bs"
proof -
  have "\<exists>n. compare_new (JObj rs) bs = Some n"
    by (simp add: compare_new_def iterate_def hashable_def list_all_iff)
  moreover have "\<exists>k. compare_known (JObj rs) bs = Some k" by (induction bs) (auto simp: Let_def)
  ultimately obtain ms where ms: "compare (JObj r) (JObj b) = Some ms" by (auto simp: compare_def assms)
  have "fst ` set rs \<subseteq> fst ` set bs \<longleftrightarrow> list_all (\<lambda>(p, e). p \<in> set (map fst bs)) rs"
    by (simp add: list_all_iff split_beta image_subset_iff)
  then have "agrees r rs b bs \<longleftrightarrow> compare (JObj r) (JObj b) = Some []"
    unfolding compare_empty [OF assms] agrees_def by (auto simp: list_all_iff)
  with ms that show thesis by simp
qed

lemma compare_unreadable:
  assumes "\<nexists>rs. files_of r = JObj rs" "files_of b = JObj bs" "bs \<noteq> []"
  shows "compare (JObj r) (JObj b) = None"
proof -
  obtain p e rest where "bs = (p, e) # rest" using assms(3) by (cases bs) auto
  moreover have "compare_known v ((p, e) # rest) = None" if "\<nexists>rs. v = JObj rs" for v
    using that by (cases v) simp_all
  ultimately show ?thesis using assms(1,2) by (simp add: compare_def)
qed

lemma compare_malformed: "\<nexists>r. m = JObj r \<Longrightarrow> compare m (JObj b) = Some [Malformed]"
  by (cases m) (simp_all add: compare_def)

text \<open>C12: A report of a host outside an update window, sealed with a manifest whose file list is an
  object, decides its quarantine.  If the report
  is an object whose file list is an object, the host is quarantined exactly when the report differs
  from the seal in its version or in any file (changed, missing or new), whatever its status was.  If
  the report is no object, the host is quarantined.  If it is an object whose file list is neither an
  object nor empty, and the seal names a file, the evaluation fails and nothing at all is recorded: an
  earlier verdict stays.  In every case the seal itself is not moved and no other host is touched.\<close>

theorem report_decides_quarantine:
  assumes "get_rec h st = Some rc" "ig_baseline rc = Some (JObj b)" "\<not> window_open now rc"
    and "files_of b = JObj bs"
  shows "(\<forall>r rs. m = JObj r \<longrightarrow> files_of r = JObj rs \<longrightarrow>
      (is_quarantined h (snd (evaluate now now' h m st)) \<longleftrightarrow> \<not> agrees r rs b bs)) \<and>
    ((\<nexists>r. m = JObj r) \<longrightarrow> is_quarantined h (snd (evaluate now now' h m st))) \<and>
    (\<forall>r. m = JObj r \<longrightarrow> (\<nexists>rs. files_of r = JObj rs) \<longrightarrow> bs \<noteq> [] \<longrightarrow>
      evaluate now now' h m st = (Eval_Error, st)) \<and>
    (\<exists>rc'. get_rec h (snd (evaluate now now' h m st)) = Some rc' \<and> ig_baseline rc' = Some (JObj b)) \<and>
    (\<forall>k. k \<noteq> h \<longrightarrow> get_rec k (snd (evaluate now now' h m st)) = get_rec k st)"
proof (intro conjI allI impI)
  have w: "\<not> window_open now (rc\<lparr>ig_missing := None\<rparr>)" using assms(3) by (simp add: window_open_def)
  have known: "is_quarantined h (snd (evaluate now now' h m st)) \<longleftrightarrow> ms \<noteq> []"
    if "compare m (JObj b) = Some ms" for ms
    using assms(1,2) w that by (auto simp: evaluate_def Let_def integ_simps is_quarantined_def)
  show "is_quarantined h (snd (evaluate now now' h m st)) \<longleftrightarrow> \<not> agrees r rs b bs"
    if "m = JObj r" "files_of r = JObj rs" for r rs
    using compare_agrees [OF that(2) assms(4)] known that(1) by metis
  show "is_quarantined h (snd (evaluate now now' h m st))" if "\<nexists>r. m = JObj r"
    using known [OF compare_malformed [OF that]] by simp
  show "evaluate now now' h m st = (Eval_Error, st)"
    if "m = JObj r" "\<nexists>rs. files_of r = JObj rs" "bs \<noteq> []" for r
    using compare_unreadable [OF that(2) assms(4) that(3)] assms(1,2) w that(1)
    by (simp add: evaluate_def Let_def)
  show "\<exists>rc'. get_rec h (snd (evaluate now now' h m st)) = Some rc' \<and> ig_baseline rc' = Some (JObj b)"
    using assms(1,2) w by (auto simp: evaluate_def Let_def integ_simps split: option.split)
  show "get_rec k (snd (evaluate now now' h m st)) = get_rec k st" if "k \<noteq> h" for k
    using that by (rule evaluate_other)
qed

lemma report_decides_quarantine_witness:
  "is_quarantined ''web1'' (snd (evaluate 9 9 ''web1''
     (JObj [(''version'', JStr ''1''), (''files'', JObj [(''agent.py'', JStr ''bad'')])])
     (snd (evaluate 5 5 ''web1'' (JObj [(''version'', JStr ''1''), (''files'', JObj [(''agent.py'', JStr ''ab'')])]) []))))"
proof -
  let ?b = "[(''version'', JStr ''1''), (''files'', JObj [(''agent.py'', JStr ''ab'')])]"
  let ?r = "[(''version'', JStr ''1''), (''files'', JObj [(''agent.py'', JStr ''bad'')])]"
  let ?st = "snd (evaluate 5 5 ''web1'' (JObj ?b) [])"
  obtain rc where rc: "get_rec ''web1'' ?st = Some rc" "ig_baseline rc = Some (JObj ?b)" "\<not> window_open 9 rc"
    by (simp add: evaluate_def Let_def integ_simps get_rec_def [of _ "[]"] window_open_def no_rec_def)
  have f: "files_of ?r = JObj [(''agent.py'', JStr ''bad'')]" "files_of ?b = JObj [(''agent.py'', JStr ''ab'')]"
    by (simp_all add: files_of_def json_truthy_def)
  have "\<not> agrees ?r [(''agent.py'', JStr ''bad'')] ?b [(''agent.py'', JStr ''ab'')]"
    by (simp add: agrees_def dict_get_def)
  with report_decides_quarantine [OF rc f(2), of "JObj ?r" 9] f(1) show ?thesis by simp
qed

section \<open>Silence\<close>

text \<open>A series of heartbeats without a report, at the given clock readings.\<close>

definition silence :: "string \<Rightarrow> instant list \<Rightarrow> integ_state \<Rightarrow> integ_state" where
  "silence h ts st = fold (\<lambda>t st. snd (note_missing t t h st)) ts st"

lemma silence_after:
  assumes "get_rec h st = Some rc" "ig_baseline rc \<noteq> None" "ig_missing rc = Some t0" "t0 \<noteq> 0"
    and "ig_status rc \<noteq> Some Quarantined" "\<forall>t \<in> set ts. \<not> window_open t rc" "sorted ts"
  shows "is_quarantined h (silence h ts st) \<longleftrightarrow> (ts \<noteq> [] \<and> MISSING_GRACE_S \<le> last ts - t0)"
  using assms
proof (induction ts arbitrary: st rc)
  case Nil
  then show ?case by (simp add: silence_def is_quarantined_def)
next
  case (Cons t ts)
  have grow: "t \<le> last (t # ts)" using Cons.prems(7) by (cases ts rule: rev_cases) auto
  show ?case
  proof (cases "MISSING_GRACE_S \<le> t - t0")
    case True
    have stay: "is_quarantined h (silence h xs st')" if "get_rec h st' = Some rc'" "ig_status rc' = Some Quarantined"
      for xs st' rc'
      using that
      by (induction xs arbitrary: st')
         (auto simp: silence_def is_quarantined_def note_missing_def)
    have "get_rec h (snd (note_missing t t h st)) =
        Some (rc\<lparr>ig_status := Some Quarantined, ig_mismatches := Some [Stopped_Reporting], ig_flagged := Some t\<rparr>)"
      using True Cons.prems by (auto simp: note_missing_def integ_simps)
    then have "is_quarantined h (silence h (t # ts) st)" using stay by (simp add: silence_def)
    with True grow show ?thesis by auto
  next
    case False
    then have "snd (note_missing t t h st) = st" using Cons.prems by (simp add: note_missing_def)
    moreover have "is_quarantined h (silence h ts st) \<longleftrightarrow> (ts \<noteq> [] \<and> MISSING_GRACE_S \<le> last ts - t0)"
      using Cons.prems by (intro Cons.IH) auto
    ultimately show ?thesis using False by (simp add: silence_def)
  qed
qed

text \<open>C14: A sealed host that stops reporting is quarantined exactly when its silence has lasted the
  grace period: after any series of heartbeats without a report (outside an update window) it is
  quarantined if and only if the last of them came five minutes or more after the first.\<close>

theorem silence_is_quarantined:
  assumes "get_rec h st = Some rc" "ig_baseline rc \<noteq> None" "ig_missing rc = None"
    and "ig_status rc \<noteq> Some Quarantined" "\<forall>t \<in> set (t0 # ts). \<not> window_open t rc"
    and "sorted (t0 # ts)" "0 < t0"
  shows "is_quarantined h (silence h (t0 # ts) st) \<longleftrightarrow> MISSING_GRACE_S \<le> last (t0 # ts) - t0"
proof -
  have g: "get_rec h (snd (note_missing t0 t0 h st)) = Some (rc\<lparr>ig_missing := Some t0\<rparr>)"
    using assms by (auto simp: note_missing_def integ_simps)
  have "is_quarantined h (silence h ts (snd (note_missing t0 t0 h st))) \<longleftrightarrow>
      (ts \<noteq> [] \<and> MISSING_GRACE_S \<le> last ts - t0)"
    by (rule silence_after [OF g]) (use assms in \<open>auto simp: window_open_def\<close>)
  then show ?thesis by (simp add: silence_def MISSING_GRACE_S_def)
qed

lemma silence_is_quarantined_witness:
  "is_quarantined ''web1'' (silence ''web1'' [10, 100, 310] (snd (evaluate 5 5 ''web1'' (JObj []) [])))"
proof -
  let ?st = "snd (evaluate 5 5 ''web1'' (JObj []) [])"
  obtain rc where rc: "get_rec ''web1'' ?st = Some rc" "ig_baseline rc \<noteq> None" "ig_missing rc = None"
    "ig_status rc \<noteq> Some Quarantined" "ig_reseal rc = None"
    by (simp add: evaluate_def Let_def integ_simps get_rec_def [of _ "[]"] no_rec_def)
  have "is_quarantined ''web1'' (silence ''web1'' [10, 100, 310] ?st) \<longleftrightarrow> MISSING_GRACE_S \<le> last [10, 100, 310] - 10"
    by (rule silence_is_quarantined [OF rc(1-4)]) (simp_all add: window_open_def rc(5))
  then show ?thesis by (simp add: MISSING_GRACE_S_def)
qed

section \<open>Quarantine and the handlers\<close>

text \<open>C13: A quarantined host is handed nothing: its poll is refused or answered with no task and the
  quarantine flag, and leaves the task queue, the stored passwords and the integrity state alone.\<close>

theorem quarantined_host_gets_no_task:
  assumes "is_quarantined h (integrity c)"
  shows "((\<exists>e. fst (poll_agent_tasks now h q s c) = Inl e) \<or> fst (poll_agent_tasks now h q s c) = Inr ([], True)) \<and>
    agent_tasks (cdb (snd (poll_agent_tasks now h q s c))) = agent_tasks (cdb c) \<and>
    pending_become (snd (poll_agent_tasks now h q s c)) = pending_become c \<and>
    pending_want_root (snd (poll_agent_tasks now h q s c)) = pending_want_root c \<and>
    integrity (snd (poll_agent_tasks now h q s c)) = integrity c"
proof -
  let ?s = "if truthy s then s else q"
  obtain v d where v: "verify_agent h ?s (cdb c) = (v, d)" by fastforce
  then have "agent_tasks d = agent_tasks (cdb c)" using verify_agent_frame(1) [of h ?s "cdb c"] by simp
  with v assms show ?thesis by (cases v) (auto simp: poll_agent_tasks_def)
qed

lemma quarantined_host_gets_no_task_witness:
  "agent_tasks (cdb (snd (poll_agent_tasks 20 ''web1'' (Some ''k'') None
     (demo_enrolling\<lparr>integrity := [(''web1'', no_rec\<lparr>ig_status := Some Quarantined\<rparr>)]\<rparr>)))) = agent_tasks (cdb demo_enrolling)"
proof -
  let ?c = "demo_enrolling\<lparr>integrity := [(''web1'', no_rec\<lparr>ig_status := Some Quarantined\<rparr>)]\<rparr>"
  have "is_quarantined ''web1'' (integrity ?c)" by (simp add: is_quarantined_def get_rec_def)
  from quarantined_host_gets_no_task [OF this] show ?thesis by simp
qed

lemma evaluate_keeps_quarantine:
  assumes "get_rec h st = Some rc" "ig_baseline rc = Some b" "\<not> window_open now rc"
    and "ig_status rc = Some Quarantined" "\<not> is_quarantined h (snd (evaluate now now' h m st))"
  shows "compare m b = Some []"
proof (rule ccontr)
  assume d: "compare m b \<noteq> Some []"
  have w: "\<not> window_open now (rc\<lparr>ig_missing := None\<rparr>)" using assms(3) by (simp add: window_open_def)
  show False
  proof (cases "compare m b")
    case None
    with assms w show False by (simp add: evaluate_def is_quarantined_def)
  next
    case (Some ms)
    with d have "ms \<noteq> []" by simp
    with Some assms w show False by (auto simp: evaluate_def is_quarantined_def Let_def integ_simps split: if_splits)
  qed
qed

lemma note_missing_keeps_quarantine:
  "ig_status rc = Some Quarantined \<Longrightarrow> get_rec h st = Some rc \<Longrightarrow> is_quarantined h (snd (note_missing now now' k st))"
  by (cases "k = h") (auto simp: note_missing_def is_quarantined_def integ_simps split: option.split)

lemma auto_update_integrity:
  "integrity (maybe_auto_update_agent cfg now k reported c) = integrity c \<or>
   truthy reported \<and> reported \<noteq> agent_version_of_controller cfg \<and>
   integrity (maybe_auto_update_agent cfg now k reported c) = mark_updating now None k (integrity c)"
  by (auto simp: maybe_auto_update_agent_def Let_def split: option.split prod.split bool.split)

text \<open>What in a heartbeat can lift a quarantine (outside an update window): only the host's own
  heartbeat, and only when its report matches the seal without a difference or the version it
  reports is not the controller's.\<close>

theorem heartbeat_lifts_quarantine_only:
  assumes "get_rec h (integrity c) = Some rc" "ig_status rc = Some Quarantined" "ig_baseline rc = Some b"
    and "\<not> window_open now rc" "\<not> is_quarantined h (integrity (snd (heartbeat cfg now req c)))"
  shows "hb_host_id req = h \<and>
    ((\<exists>m. hb_measurements req = Some m \<and> compare m b = Some []) \<or>
     truthy (hb_version req) \<and> hb_version req \<noteq> agent_version_of_controller cfg)"
proof -
  let ?k = "hb_host_id req"
  obtain v d where v: "verify_agent ?k (Some (hb_secret req)) (cdb c) = (v, d)" by fastforce
  define c1 where "c1 = c\<lparr>cdb := update_agent_heartbeat now ?k (hb_ip req) (hb_hostname req) (hb_version req) d\<rparr>"
  define c2 where "c2 = maybe_auto_update_agent cfg now ?k (hb_version req) c1"
  have quar: "is_quarantined h (integrity c)" using assms(1,2) by (simp add: is_quarantined_def)
  have "v = Inr ()" using v quar assms(5) by (cases v) (simp_all add: heartbeat_def)
  then have st: "integrity (snd (heartbeat cfg now req c)) =
      (case hb_measurements req of Some m \<Rightarrow> snd (evaluate now now ?k m (integrity c2))
       | None \<Rightarrow> snd (note_missing now now ?k (integrity c2)))"
    using v by (simp add: heartbeat_def Let_def c2_def c1_def split: option.split)
  have up: "integrity c2 = integrity c \<or> truthy (hb_version req) \<and> hb_version req \<noteq> agent_version_of_controller cfg \<and>
      integrity c2 = mark_updating now None ?k (integrity c)"
    using auto_update_integrity [of cfg now ?k "hb_version req" c1] by (simp add: c2_def c1_def)
  have here: "?k = h"
  proof (rule ccontr)
    assume "?k \<noteq> h"
    then have "get_rec h (integrity c2) = get_rec h (integrity c)"
      using up by (auto simp: mark_updating_def Let_def integ_simps)
    with \<open>?k \<noteq> h\<close> assms(1,2,5) st show False
      by (simp add: is_quarantined_def integ_simps split: option.splits)
  qed
  show ?thesis
  proof (cases "integrity c2 = integrity c")
    case True
    show ?thesis
    proof (cases "hb_measurements req")
      case None
      with st True assms(5) note_missing_keeps_quarantine [OF assms(2,1)] show ?thesis by simp
    next
      case (Some m)
      with st True assms(5) here evaluate_keeps_quarantine [OF assms(1,3,4,2), of now m] show ?thesis by simp
    qed
  next
    case False
    with up here show ?thesis by blast
  qed
qed

section \<open>Two ways around\<close>

lemma verified_row:
  assumes "find_agent_row h d = Some a" "\<not> ag_revoked a" "fst (agent_secret_matches h s d)"
  obtains a' e where "verify_agent h s d = (Inr (), e)" "find_agent_row h e = Some a'" "\<not> ag_revoked a'"
    "schema_ok e = schema_ok d"
proof -
  have v: "verify_agent h s d = (Inr (), snd (agent_secret_matches h s d))"
    using assms by (simp add: verify_agent_def agent_exists_def is_agent_revoked_def split_beta)
  have "\<exists>a'. find_agent_row h (snd (agent_secret_matches h s d)) = Some a' \<and> \<not> ag_revoked a'"
    using assms by (auto simp: agent_secret_matches_def Let_def upgrade_agent_secret_hash_def agent_simps)
  with v that secret_matches_schema show thesis by blast
qed

text \<open>C26: A quarantined agent lifts its own quarantine by one heartbeat that names another agent
  version than the controller's: the controller takes the difference for an update of its own
  making, opens the update window before it looks at the report, and seals whatever is reported.\<close>

theorem quarantine_escaped_by_version:
  assumes "schema_ok (cdb c)" "is_quarantined h (integrity c)"
    and "find_agent_row h (cdb c) = Some a" "\<not> ag_revoked a"
    and "fst (agent_secret_matches h (Some (hb_secret req)) (cdb c))"
    and "agent_version_of_controller cfg = Some target" "target \<noteq> []" "map_of (auto_update_sent c) h = None"
    and "hb_host_id req = h" "hb_version req = Some v" "v \<noteq> []" "v \<noteq> target" "hb_measurements req = Some m"
  shows "\<not> is_quarantined h (integrity (snd (heartbeat cfg now req c))) \<and>
    (\<exists>rc. get_rec h (integrity (snd (heartbeat cfg now req c))) = Some rc \<and> ig_baseline rc = Some m)"
proof -
  obtain a1 d where v: "verify_agent h (Some (hb_secret req)) (cdb c) = (Inr (), d)"
    and a1: "find_agent_row h d = Some a1" "\<not> ag_revoked a1" and sd: "schema_ok d"
    using verified_row [OF assms(3-5)] assms(1) by metis
  define d1 where "d1 = update_agent_heartbeat now h (hb_ip req) (hb_hostname req) (Some v) d"
  have "schema_ok d1" using sd by (simp add: d1_def update_agent_heartbeat_def schema_simps)
  moreover have "\<exists>a2. find_agent_row h d1 = Some a2 \<and> \<not> ag_revoked a2"
    using a1 by (simp add: d1_def update_agent_heartbeat_def agent_simps)
  ultimately obtain a2 where a2: "find_agent h d1 = Some a2" "\<not> ag_revoked a2" by (auto simp: find_agent_row_eq)
  obtain sent where send: "auto_update_should_queue now h target (auto_update_sent c) = (True, sent)"
    using assms(8) by (simp add: auto_update_should_queue_def)
  have up: "integrity (maybe_auto_update_agent cfg now h (Some v) (c\<lparr>cdb := d1\<rparr>)) = mark_updating now None h (integrity c)"
    using a2 send assms(6,7,11,12) by (simp add: maybe_auto_update_agent_def Let_def truthy_def)
  obtain rc where rc: "get_rec h (integrity c) = Some rc"
    using assms(2) by (auto simp: is_quarantined_def split: option.splits)
  have "integrity (snd (heartbeat cfg now req c)) = snd (evaluate now now h m (mark_updating now None h (integrity c)))"
    using v up assms(9,10,13) by (simp add: heartbeat_def Let_def d1_def)
  then show ?thesis
    using rc by (auto simp: evaluate_def mark_updating_def Let_def integ_simps is_quarantined_def window_open_def
        RESEAL_WINDOW_S_def)
qed

definition demo_beat :: heartbeat_request where
  "demo_beat = \<lparr>hb_host_id = ''web1'', hb_secret = ''k'', hb_ip = None, hb_hostname = None,
     hb_version = Some ''other'', hb_metrics = None, hb_measurements = Some (JObj [])\<rparr>"

definition demo_quarantined :: controller where
  "demo_quarantined = demo_enrolling\<lparr>integrity := [(''web1'', no_rec\<lparr>ig_baseline := Some (JObj [(''version'', JStr ''1'')]),
     ig_status := Some Quarantined\<rparr>)]\<rparr>"

lemma quarantine_escaped_by_version_witness:
  "is_quarantined ''web1'' (integrity demo_quarantined) \<and>
   \<not> is_quarantined ''web1'' (integrity (snd (heartbeat (demo_settings\<lparr>agent_version_of_controller := Some ''v2''\<rparr>)
       10 demo_beat demo_quarantined)))"
proof
  show q: "is_quarantined ''web1'' (integrity demo_quarantined)"
    by (simp add: demo_quarantined_def is_quarantined_def get_rec_def)
  have "schema_ok (cdb demo_quarantined)" "find_agent_row ''web1'' (cdb demo_quarantined) = Some demo_host"
    "\<not> ag_revoked demo_host" "fst (agent_secret_matches ''web1'' (Some (hb_secret demo_beat)) (cdb demo_quarantined))"
    using enrolling_schema enrolling_row
    by (simp_all add: demo_quarantined_def demo_host_def new_agent_def secret_matches_iff get_agent_secret_def demo_beat_def)
  from quarantine_escaped_by_version [OF this(1) q this(2-4), of _ "''v2''" "''other''" "JObj []"]
  show "\<not> is_quarantined ''web1'' (integrity (snd (heartbeat (demo_settings\<lparr>agent_version_of_controller := Some ''v2''\<rparr>)
       10 demo_beat demo_quarantined)))"
    by (simp add: demo_beat_def demo_quarantined_def demo_enrolling_def)
qed

lemma heartbeat_lifts_quarantine_only_witness:
  "\<exists>m b. hb_measurements (demo_beat\<lparr>hb_version := None, hb_measurements := Some (JObj [(''version'', JStr ''1'')])\<rparr>) = Some m \<and>
     compare m b = Some [] \<and> ig_baseline (snd (hd (integrity demo_quarantined))) = Some b"
proof -
  let ?req = "demo_beat\<lparr>hb_version := None, hb_measurements := Some (JObj [(''version'', JStr ''1'')])\<rparr>"
  let ?rc = "no_rec\<lparr>ig_baseline := Some (JObj [(''version'', JStr ''1'')]), ig_status := Some Quarantined\<rparr>"
  have rc: "get_rec ''web1'' (integrity demo_quarantined) = Some ?rc" by (simp add: demo_quarantined_def get_rec_def)
  obtain a e where v: "verify_agent ''web1'' (Some ''k'') (cdb demo_quarantined) = (Inr (), e)"
  proof (rule verified_row)
    show "find_agent_row ''web1'' (cdb demo_quarantined) = Some demo_host" "\<not> ag_revoked demo_host"
      "fst (agent_secret_matches ''web1'' (Some ''k'') (cdb demo_quarantined))"
      using enrolling_row
      by (simp_all add: demo_quarantined_def demo_host_def new_agent_def secret_matches_iff get_agent_secret_def)
  qed blast
  have "\<not> is_quarantined ''web1'' (integrity (snd (heartbeat demo_settings 10 ?req demo_quarantined)))"
    using v rc
    by (simp add: heartbeat_def demo_beat_def Let_def maybe_auto_update_agent_def truthy_def evaluate_def window_open_def
        no_rec_def compare_def files_of_def compare_new_def iterate_def dict_get_def is_quarantined_def integ_simps)
  with heartbeat_lifts_quarantine_only [OF rc, of _ 10 demo_settings ?req] show ?thesis
    by (simp add: demo_quarantined_def window_open_def no_rec_def)
qed

text \<open>A report whose file list is not an object (a number, a text or a list) is not held against
  the agent: the comparison with a seal that has files fails inside, the failure is swallowed, and
  nothing is recorded, neither a mismatch nor a missed report.\<close>

theorem malformed_report_is_ignored:
  assumes "get_rec h st = Some rc" "ig_baseline rc = Some (JObj b)" "\<not> window_open now rc"
    and "files_of b = JObj (f # fs)" "\<forall>rs. files_of r \<noteq> JObj rs"
  shows "evaluate now now' h (JObj r) st = (Eval_Error, st)"
proof -
  have w: "\<not> window_open now (rc\<lparr>ig_missing := None\<rparr>)" using assms(3) by (simp add: window_open_def)
  have "compare_known (files_of r) (f # fs) = None"
    using assms(5) by (cases f; cases "files_of r") simp_all
  then have "compare (JObj r) (JObj b) = None" by (simp add: compare_def assms(4))
  with assms(1,2) w show ?thesis by (simp add: evaluate_def)
qed

lemma malformed_report_is_ignored_witness:
  "\<not> is_quarantined ''web1'' (snd (evaluate 9 9 ''web1'' (JObj [(''files'', JNum 1)])
     (snd (evaluate 5 5 ''web1'' (JObj [(''files'', JObj [(''agent.py'', JStr ''ab'')])]) []))))"
proof -
  let ?st = "snd (evaluate 5 5 ''web1'' (JObj [(''files'', JObj [(''agent.py'', JStr ''ab'')])]) [])"
  obtain rc where rc: "get_rec ''web1'' ?st = Some rc" "ig_baseline rc = Some (JObj [(''files'', JObj [(''agent.py'', JStr ''ab'')])])"
    "\<not> window_open 9 rc" "ig_status rc = Some Ok_Status"
    by (simp add: evaluate_def Let_def integ_simps get_rec_def [of _ "[]"] window_open_def no_rec_def)
  have "evaluate 9 9 ''web1'' (JObj [(''files'', JNum 1)]) ?st = (Eval_Error, ?st)"
    by (rule malformed_report_is_ignored [OF rc(1-3)]) (simp_all add: files_of_def json_truthy_def)
  then show ?thesis using rc(1,4) by (simp add: is_quarantined_def)
qed

end
