(* ===== verification/Path_Guards.thy ===== *)
theory Path_Guards
  imports Cmd_Mount "HOL-Library.Sublist"
begin

text \<open>
  What the guards of the destructive file builders are worth.  They compare a normalised text with
  lists of locations; what matters on the host is the place a path names.  The place of an absolute
  path is the list of names left after its empty, dot and dot-dot components are resolved.  For
  paths with one leading slash the guards decide by the place alone, however the path is written;
  with exactly two leading slashes, which the host reads as one, the guard of the removal and
  unmount builders lets everything through.
\<close>

section \<open>Places\<close>

fun walk :: "string list \<Rightarrow> string list \<Rightarrow> string list" where
  "walk pos [] = pos"
| "walk pos (c # cs) =
     (if c = [] \<or> c = ''.'' then walk pos cs
      else if c = ''..'' then walk (butlast pos) cs
      else walk (pos @ [c]) cs)"

definition place :: "string \<Rightarrow> string list" where
  "place p = walk [] (split_on (CHR ''/'') p)"

definition path_of :: "string list \<Rightarrow> string" where
  "path_of pos = ''/'' @ join ''/'' pos"

definition plain_name :: "string \<Rightarrow> bool" where
  "plain_name c = (c \<noteq> [] \<and> c \<noteq> ''.'' \<and> c \<noteq> ''..'' \<and> CHR ''/'' \<notin> set c)"

lemma split_on_no_sep: "c \<in> set (split_on sep s) \<Longrightarrow> sep \<notin> set c"
  by (induction s arbitrary: c) (auto split: if_splits list.splits)

lemma butlast_plain: "list_all plain_name pos \<Longrightarrow> list_all plain_name (butlast pos)"
  by (auto simp: list_all_iff dest: in_set_butlastD)

lemma walk_plain:
  "list_all plain_name pos \<Longrightarrow> \<forall>c \<in> set cs. CHR ''/'' \<notin> set c \<Longrightarrow> list_all plain_name (walk pos cs)"
proof (induction pos cs rule: walk.induct)
  case (2 pos c cs)
  have "c \<noteq> [] \<Longrightarrow> c \<noteq> ''.'' \<Longrightarrow> c \<noteq> ''..'' \<Longrightarrow> plain_name c" using 2(5) by (simp add: plain_name_def)
  then show ?case using 2 butlast_plain [OF 2(4)] by simp
qed simp

lemma place_plain: "list_all plain_name (place p)"
  unfolding place_def by (rule walk_plain) (auto dest: split_on_no_sep)

lemma norm_comps_walk: "list_all plain_name acc \<Longrightarrow> \<forall>c \<in> set cs. CHR ''/'' \<notin> set c \<Longrightarrow>
   norm_comps True acc cs = walk acc cs"
proof (induction True acc cs rule: norm_comps.induct)
  case (2 acc c cs)
  have "acc \<noteq> [] \<Longrightarrow> last acc \<noteq> ''..''"
    using 2(4) last_in_set [of acc] by (metis list_all_iff plain_name_def)
  moreover have "c \<noteq> [] \<Longrightarrow> c \<noteq> ''.'' \<Longrightarrow> c \<noteq> ''..'' \<Longrightarrow> plain_name c" using 2(5) by (simp add: plain_name_def)
  ultimately show ?case using 2 butlast_plain [OF 2(4)] by auto
qed simp

text \<open>The normalised text of an absolute path is the text of its place, with a second slash kept.\<close>

lemma normpath_place:
  assumes "starts_with ''/'' p"
  shows "normpath p = replicate (initial_slashes p - 1) (CHR ''/'') @ path_of (place p)"
proof -
  have "0 < initial_slashes p" "p \<noteq> []" using assms by (auto simp: initial_slashes_def starts_with_def)
  moreover have "norm_comps True [] (split_on (CHR ''/'') p) = place p"
    unfolding place_def by (rule norm_comps_walk) (auto dest: split_on_no_sep)
  moreover have "replicate (initial_slashes p) (CHR ''/'') =
      replicate (initial_slashes p - 1) (CHR ''/'') @ ''/''"
    using \<open>0 < initial_slashes p\<close> by (cases "initial_slashes p") (auto simp: replicate_append_same)
  ultimately show ?thesis by (auto simp: normpath_def path_of_def Let_def)
qed

lemma split_on_unsplit: "CHR ''/'' \<notin> set c \<Longrightarrow> split_on (CHR ''/'') (c @ CHR ''/'' # s) = c # split_on (CHR ''/'') s"
  by (induction c) (auto split: list.splits)

lemma split_on_none: "CHR ''/'' \<notin> set c \<Longrightarrow> split_on (CHR ''/'') c = [c]"
  by (induction c) auto

lemma split_on_join:
  "list_all plain_name pos \<Longrightarrow> pos \<noteq> [] \<Longrightarrow> split_on (CHR ''/'') (join ''/'' pos) = pos"
proof (induction pos rule: induct_list012)
  case (3 c d cs)
  then show ?case by (simp add: join_simps split_on_unsplit plain_name_def)
qed (simp_all add: join_simps split_on_none plain_name_def)

lemma walk_over_plain: "list_all plain_name cs \<Longrightarrow> walk pos cs = pos @ cs"
  by (induction cs arbitrary: pos) (auto simp: plain_name_def)

text \<open>A place is read back from its text.\<close>

lemma place_path_of: "list_all plain_name pos \<Longrightarrow> place (path_of pos) = pos"
proof (cases pos)
  case (Cons c cs)
  moreover assume "list_all plain_name pos"
  ultimately show ?thesis
    using split_on_join [of pos] walk_over_plain [of pos "[]"] by (simp add: place_def path_of_def)
qed (simp add: place_def path_of_def join_def)

section \<open>The guard of critical locations\<close>

definition critical_place :: "string list \<Rightarrow> bool" where
  "critical_place pos =
     (pos \<in> set (map place CRITICAL_EXACT) \<or> list_ex (\<lambda>pref. prefix (place pref) pos) CRITICAL_PREFIXES)"

lemma starts_with_prefix: "starts_with p s \<longleftrightarrow> prefix p s"
  by (auto simp: starts_with_def prefix_def) (metis append_take_drop_id)

lemma critical_lists_normal:
  "list_all (\<lambda>l. path_of (place l) = l) CRITICAL_EXACT"
  "list_all (\<lambda>l. path_of (place l) @ ''/'' = l \<and> place l \<noteq> []) CRITICAL_PREFIXES"
  by code_simp+

lemma path_of_in_exact:
  assumes "list_all plain_name pos" "list_all (\<lambda>l. path_of (place l) = l) locations"
  shows "path_of pos \<in> set locations \<longleftrightarrow> pos \<in> set (map place locations)"
  using assms place_path_of by (auto simp: list_all_iff image_iff) metis+

definition slashed :: "string list \<Rightarrow> string" where
  "slashed pos = concat (map (\<lambda>c. c @ ''/'') pos)"

lemma prefix_segment:
  "CHR ''/'' \<notin> set c \<Longrightarrow> CHR ''/'' \<notin> set d \<Longrightarrow>
     prefix (c @ CHR ''/'' # x) (d @ CHR ''/'' # y) \<longleftrightarrow> c = d \<and> prefix x y"
proof (induction c arbitrary: d)
  case Nil
  then show ?case by (cases d) auto
next
  case (Cons a c)
  then show ?case by (cases d) auto
qed

lemma prefix_slashed:
  "list_all plain_name a \<Longrightarrow> list_all plain_name pos \<Longrightarrow> prefix (slashed a) (slashed pos) \<longleftrightarrow> prefix a pos"
proof (induction a arbitrary: pos)
  case (Cons c a)
  then show ?case by (cases pos) (auto simp: slashed_def plain_name_def prefix_segment)
qed (simp add: slashed_def)

lemma join_slashed: "pos \<noteq> [] \<Longrightarrow> join ''/'' pos @ ''/'' = slashed pos"
  by (induction pos rule: induct_list012) (simp_all add: join_simps slashed_def)

lemma prefix_path_of:
  assumes "list_all plain_name a" "list_all plain_name pos" "a \<noteq> []"
  shows "starts_with (path_of a @ ''/'') (path_of pos @ ''/'') \<longleftrightarrow> prefix a pos"
proof (cases "pos = []")
  case True
  obtain c cs where a: "a = c # cs" using assms(3) by (cases a) auto
  then obtain x rest where "c = x # rest" "x \<noteq> CHR ''/''"
    using assms(1) by (cases c) (auto simp: plain_name_def)
  then have "\<not> prefix (slashed a) ''/''" by (simp add: a slashed_def)
  moreover have "path_of a @ ''/'' = CHR ''/'' # slashed a"
    using join_slashed [OF assms(3)] by (simp add: path_of_def)
  ultimately show ?thesis using True assms(3) by (simp add: starts_with_prefix path_of_def join_def)
next
  case False
  then show ?thesis
    using prefix_slashed [OF assms(1,2)] assms(3) join_slashed [of a] join_slashed [of pos]
    by (simp add: starts_with_prefix path_of_def)
qed

text \<open>With one leading slash, or three and more, the verdict depends on the place alone.\<close>

lemma critical_by_place:
  assumes "initial_slashes (strip p) = 1"
  shows "is_system_critical p \<longleftrightarrow> critical_place (place (strip p))"
proof -
  let ?pos = "place (strip p)"
  have abs: "starts_with ''/'' (strip p)" using assms by (auto simp: initial_slashes_def split: if_splits)
  then have ne: "strip p \<noteq> []" by (auto simp: starts_with_def)
  have norm: "normalize p = path_of ?pos"
    using normpath_place [OF abs] assms ne by (simp add: normalize_def Let_def)
  have "(\<exists>pref \<in> set CRITICAL_PREFIXES. starts_with pref (path_of ?pos @ ''/'')) \<longleftrightarrow>
      (\<exists>pref \<in> set CRITICAL_PREFIXES. prefix (place pref) ?pos)"
  proof (rule bex_cong [OF refl])
    fix pref assume "pref \<in> set CRITICAL_PREFIXES"
    then have "path_of (place pref) @ ''/'' = pref" "place pref \<noteq> []"
      using critical_lists_normal(2) by (auto simp: list_all_iff)
    then show "starts_with pref (path_of ?pos @ ''/'') \<longleftrightarrow> prefix (place pref) ?pos"
      using prefix_path_of [OF place_plain place_plain] by metis
  qed
  then show ?thesis
    using path_of_in_exact [OF place_plain critical_lists_normal(1), of "strip p"]
    by (auto simp: is_system_critical_def system_critical_reason_def norm critical_place_def Let_def
        find_None_iff list_ex_iff
        path_of_def dest: find_SomeD)
qed

text \<open>C23: For a path with one leading slash, or with three and more, the builder that removes a
  directory without a superuser's confirmation refuses exactly the critical places, however the path
  is written, and otherwise yields the command for exactly that path; the builders that unmount and
  that remove an entry of the file system table refuse the critical places too.\<close>

theorem removal_spares_critical:
  assumes "initial_slashes (strip p) = 1"
  shows "cmd_remove_directory p r False =
      (if validate_path p = Inl Value_Error \<or> critical_place (place (strip p)) then Inl Value_Error
       else Inr ((if r then ''rm -rf '' else ''rmdir '') @ quote (strip p) @ '' 2>&1'')) \<and>
    (critical_place (place (strip p)) \<longrightarrow>
       cmd_unmount_filesystem p f False = Inl Value_Error \<and> cmd_remove_fstab_entry p False = Inl Value_Error)"
proof -
  have crit: "system_critical_reason (strip p) \<noteq> None \<longleftrightarrow> critical_place (place (strip p))"
    using critical_by_place [of "strip p"] assms by (simp add: is_system_critical_def)
  have v: "validate_path p = Inl Value_Error \<or> validate_path p = Inr (strip p)"
    "mount_path p = Inl Value_Error \<or> mount_path p = Inr (strip p)"
    by (simp_all add: validate_path_def mount_path_def Let_def)
  show ?thesis using v crit
    by (auto simp: cmd_remove_directory_def cmd_unmount_filesystem_def cmd_remove_fstab_entry_def
        reject_critical_path_def reject_critical_mount_def and_then_def)
qed

lemma removal_spares_critical_witness:
  "cmd_remove_directory ''/etc/../var/./log/../../boot/'' True False = Inl Value_Error \<and>
   cmd_remove_directory ''/srv/data'' True False = Inr ''rm -rf /srv/data 2>&1''"
proof -
  have a: "initial_slashes (strip ''/etc/../var/./log/../../boot/'') = 1" "initial_slashes (strip ''/srv/data'') = 1"
    by code_simp+
  have b: "critical_place (place (strip ''/etc/../var/./log/../../boot/''))"
    "\<not> critical_place (place (strip ''/srv/data''))" "validate_path ''/srv/data'' = Inr ''/srv/data''"
    "strip ''/srv/data'' = ''/srv/data''" "quote ''/srv/data'' = ''/srv/data''"
    by code_simp+
  show ?thesis
    using removal_spares_critical [OF a(1), of True] removal_spares_critical [OF a(2), of True] b by simp
qed

section \<open>Two leading slashes\<close>

lemma critical_single_slash:
  "list_all (\<lambda>l. \<not> starts_with ''//'' l) CRITICAL_EXACT"
  "list_all (\<lambda>l. starts_with ''/'' l \<and> \<not> starts_with ''//'' l \<and> 1 < length l) CRITICAL_PREFIXES"
  by code_simp+

text \<open>C24: Every path with exactly two leading slashes passes the guard of critical locations: the
  recursive removal of any critical location is built, without a superuser's confirmation, once its
  path is written with a second slash in front, which names the same place.\<close>

theorem double_slash_escapes_guard:
  assumes "starts_with ''/'' p" "\<not> starts_with ''//'' p" "validate_path (CHR ''/'' # p) = Inr (CHR ''/'' # p)"
  shows "cmd_remove_directory (CHR ''/'' # p) True False =
      Inr (''rm -rf '' @ quote (CHR ''/'' # p) @ '' 2>&1'') \<and> place (CHR ''/'' # p) = place p"
proof -
  let ?q = "CHR ''/'' # p"
  obtain p' where p: "p = CHR ''/'' # p'" "\<not> starts_with ''/'' p'"
    using assms(1,2) by (cases p) (auto simp: starts_with_def)
  have strip: "strip ?q = ?q" using assms(3) accepted_path(1) by fastforce
  have two: "initial_slashes ?q = 2" using p by (cases p') (auto simp: initial_slashes_def starts_with_def)
  have norm: "normalize ?q = CHR ''/'' # CHR ''/'' # join ''/'' (place ?q)"
    using normpath_place [of ?q] strip two
    by (simp add: normalize_def path_of_def starts_with_def Let_def numeral_2_eq_2)
  have "normalize ?q \<notin> set CRITICAL_EXACT"
    using critical_single_slash(1) norm by (auto simp: list_all_iff starts_with_def)
  moreover have "\<not> starts_with pref (normalize ?q @ ''/'')" if "pref \<in> set CRITICAL_PREFIXES" for pref
  proof -
    have "take 1 pref = ''/'' \<and> take 2 pref \<noteq> ''//'' \<and> 1 < length pref"
      using that critical_single_slash(2) by (auto simp: list_all_iff starts_with_def numeral_2_eq_2)
    then obtain c d l where "pref = c # d # l" "d \<noteq> CHR ''/''"
      by (cases pref; cases "tl pref") auto
    then show ?thesis by (simp add: norm starts_with_prefix)
  qed
  ultimately have "system_critical_reason ?q = None"
    by (auto simp: system_critical_reason_def find_None_iff Let_def)
  moreover have "place ?q = place p" by (simp add: p place_def)
  ultimately show ?thesis
    using assms(3) by (simp add: cmd_remove_directory_def reject_critical_path_def)
qed

lemma double_slash_escapes_guard_witness:
  "cmd_remove_directory ''//etc'' True False = Inr ''rm -rf //etc 2>&1'' \<and>
   cmd_remove_directory ''/etc'' True False = Inl Value_Error"
proof -
  have "validate_path ''//etc'' = Inr ''//etc''" by code_simp
  moreover have "quote ''//etc'' = ''//etc''" "cmd_remove_directory ''/etc'' True False = Inl Value_Error"
    by code_simp+
  ultimately show ?thesis using double_slash_escapes_guard [of "''/etc''"] by (simp add: starts_with_def)
qed

section \<open>The guard of recursive changes\<close>

lemma squeeze_split:
  "\<exists>w ws ws'. split_on (CHR ''/'') (squeeze_slashes s) = w # ws \<and> split_on (CHR ''/'') s = w # ws' \<and>
     (\<forall>pos. walk pos ws = walk pos ws')"
proof (induction s rule: squeeze_slashes.induct)
  case (1 c d s)
  show ?case
  proof (cases "c = CHR ''/'' \<and> d = CHR ''/''")
    case True
    with 1(1) show ?thesis by auto
  next
    case False
    with 1(2) obtain w ws ws' where IH: "split_on (CHR ''/'') (squeeze_slashes (d # s)) = w # ws"
      "split_on (CHR ''/'') (d # s) = w # ws'" "\<forall>pos. walk pos ws = walk pos ws'" by blast
    have "squeeze_slashes (c # d # s) = c # squeeze_slashes (d # s)" using False by auto
    moreover have "walk pos (w # ws) = walk pos (w # ws')" for pos using IH(3) by simp
    ultimately show ?thesis using IH split_on.simps(2) [of "CHR ''/''" c] by (cases "c = CHR ''/''") auto
  qed
qed auto

lemma squeeze_place: "place (squeeze_slashes s) = place s"
proof -
  obtain w ws ws' where "split_on (CHR ''/'') (squeeze_slashes s) = w # ws" "split_on (CHR ''/'') s = w # ws'"
    "\<forall>pos. walk pos ws = walk pos ws'" using squeeze_split by blast
  then show ?thesis by (simp add: place_def)
qed

lemma squeeze_first: "starts_with ''/'' (squeeze_slashes s) \<longleftrightarrow> starts_with ''/'' s"
  by (induction s rule: squeeze_slashes.induct) (auto simp: starts_with_def)

lemma starts_with_two: "starts_with ''//'' (c # t) \<longleftrightarrow> c = CHR ''/'' \<and> starts_with ''/'' t"
  by (auto simp: starts_with_def)

lemma squeeze_no_double: "\<not> starts_with ''//'' (squeeze_slashes s)"
proof (induction s rule: squeeze_slashes.induct)
  case (1 c d s)
  then show ?case by (auto simp: starts_with_two squeeze_first) (simp add: starts_with_def)
qed (simp_all add: starts_with_def)

lemma squeeze_slash: "starts_with ''/'' s \<Longrightarrow> initial_slashes (squeeze_slashes s) = 1"
  by (simp add: initial_slashes_def squeeze_first squeeze_no_double)

lemma dangerous_normal: "list_all (\<lambda>l. path_of (place l) = l) DANGEROUS_PATHS"
  by code_simp

lemma and_thenE: "and_then v f = Inr y \<Longrightarrow> (\<And>x. v = Inr x \<Longrightarrow> f x = Inr y \<Longrightarrow> P) \<Longrightarrow> P"
  by (auto simp: and_then_Inr)

lemma recursive_checked:
  "cmd_change_permissions p m True = Inr s \<Longrightarrow> \<exists>q. validate_path p = Inr q \<and> reject_dangerous_path q = Inr ()"
  "cmd_change_ownership p u g True = Inr s \<Longrightarrow> \<exists>q. validate_path p = Inr q \<and> reject_dangerous_path q = Inr ()"
  subgoal unfolding cmd_change_permissions_def Let_def if_True and_then_Inr by (elim exE conjE) simp
  subgoal unfolding cmd_change_ownership_def Let_def if_True
    by (erule and_thenE, split if_split_asm, simp only: sum.distinct, (erule and_thenE)+, rule exI, rule conjI, assumption) simp
  done

text \<open>A recursive change of permissions or ownership is built for no absolute path that names a
  top-level system directory, however many slashes and dot components it is written with.\<close>

theorem recursive_change_spares_system_dirs:
  assumes "starts_with ''/'' (strip p)"
    and "cmd_change_permissions p m True = Inr s \<or> cmd_change_ownership p u g True = Inr s"
  shows "place (strip p) \<notin> set (map place DANGEROUS_PATHS)"
proof -
  have "\<exists>q. validate_path p = Inr q \<and> reject_dangerous_path q = Inr ()"
    using assms(2) by (elim disjE) (erule recursive_checked)+
  then obtain q where q: "validate_path p = Inr q" "reject_dangerous_path q = Inr ()" by blast
  then have "reject_dangerous_path (strip p) = Inr ()" using accepted_path(1) [OF q(1)] by simp
  moreover have first: "starts_with ''/'' (squeeze_slashes (strip p))" using assms(1) squeeze_first by simp
  then have ne: "squeeze_slashes (strip p) \<noteq> []" by (cases "squeeze_slashes (strip p)") (simp_all add: starts_with_def)
  have "normpath (squeeze_slashes (strip p)) = path_of (place (strip p))"
    using normpath_place [OF first] by (simp add: squeeze_place squeeze_slash [OF assms(1)])
  ultimately show ?thesis
    using path_of_in_exact [OF place_plain dangerous_normal, of "strip p"] ne
    by (auto simp: reject_dangerous_path_def Let_def split: if_splits)
qed

lemma recursive_change_spares_system_dirs_witness:
  "place ''/srv//www/'' \<notin> set (map place DANGEROUS_PATHS) \<and> cmd_change_permissions ''//etc/.'' ''755'' True = Inl Value_Error"
proof -
  have "cmd_change_permissions ''/srv//www/'' ''755'' True = Inr ''chmod -R 755 /srv//www/ 2>&1''"
    "starts_with ''/'' (strip ''/srv//www/'')" by code_simp+
  then have "place (strip ''/srv//www/'') \<notin> set (map place DANGEROUS_PATHS)"
    using recursive_change_spares_system_dirs by blast
  moreover have "strip ''/srv//www/'' = ''/srv//www/''" "cmd_change_permissions ''//etc/.'' ''755'' True = Inl Value_Error"
    by code_simp+
  ultimately show ?thesis by (simp only: simp_thms)
qed

end
