(* ===== verification/Vault.thy ===== *)
theory Vault
  imports Py_Str Py_Hash
begin

text \<open>
  Secret custody of the controller (\<^verbatim>\<open>backend/secret_vault.py\<close>): where the master key comes
  from, how it becomes a key of the cipher, and encryption at rest with its strict mode.

  The cipher (the third-party \<^verbatim>\<open>Fernet\<close>) is a record of functions: which keys it accepts,
  encryption under a key with the randomness it draws, decryption.  Environment variables, the key
  command's output and the files of the run directory are fields of the vault's state; a fresh key
  or salt is an argument.  Keys are byte strings, written as texts.
\<close>

section \<open>The cipher\<close>

record fernet =
  fe_valid :: "string \<Rightarrow> bool"
  fe_encrypt :: "string \<Rightarrow> string \<Rightarrow> string \<Rightarrow> string"
  fe_decrypt :: "string \<Rightarrow> string \<Rightarrow> string option"

text \<open>What Fernet documents: decryption with the same key gives the message back, with another key
  it fails, and a key is the URL-safe base64 form of 32 bytes.\<close>

definition b64_char :: "nat \<Rightarrow> char" where
  "b64_char i = (if i < 26 then char_of (65 + i) else if i < 52 then char_of (71 + i)
     else if i < 62 then char_of (i - 4) else if i = 62 then CHR ''-'' else CHR ''_'')"

fun urlsafe_b64encode :: "bytes \<Rightarrow> string" where
  "urlsafe_b64encode [] = []"
| "urlsafe_b64encode [a] =
     [b64_char (unat a div 4), b64_char (unat a mod 4 * 16), CHR ''='', CHR ''='']"
| "urlsafe_b64encode [a, b] =
     [b64_char (unat a div 4), b64_char (unat a mod 4 * 16 + unat b div 16),
      b64_char (unat b mod 16 * 4), CHR ''='']"
| "urlsafe_b64encode (a # b # c # rest) =
     [b64_char (unat a div 4), b64_char (unat a mod 4 * 16 + unat b div 16),
      b64_char (unat b mod 16 * 4 + unat c div 64), b64_char (unat c mod 64)] @ urlsafe_b64encode rest"

definition cipher_ok :: "fernet \<Rightarrow> bool" where
  "cipher_ok fe =
     ((\<forall>k r m. fe_valid fe k \<longrightarrow> fe_decrypt fe k (fe_encrypt fe k r m) = Some m) \<and>
      (\<forall>k k' r m. fe_valid fe k \<longrightarrow> fe_valid fe k' \<longrightarrow> k \<noteq> k' \<longrightarrow> fe_decrypt fe k' (fe_encrypt fe k r m) = None) \<and>
      (\<forall>k r m. fe_valid fe k \<longrightarrow> fe_encrypt fe k r m \<noteq> []) \<and>
      (\<forall>b. length b = 32 \<longrightarrow> fe_valid fe (urlsafe_b64encode b)))"

section \<open>State\<close>

datatype run_dir = Missing bool | Present bool

datatype stored_file = No_File | Regular string | Symlink

record vault =
  va_env :: string
  va_cmd :: bool
  va_cmd_out :: "string option"
  va_crypto :: bool
  va_required :: "string option"
  va_dir :: run_dir
  va_key_file :: stored_file
  va_salt_file :: stored_file
  va_cached :: "string option"

text \<open>Creating a file exclusively, without following a link; reading one without following a link,
  at most 4096 bytes.  A missing run directory can be made when its flag says so.\<close>

datatype created = Created | Exists | Not_Created

definition create_exclusive :: "run_dir \<Rightarrow> stored_file \<Rightarrow> created" where
  "create_exclusive dir f =
     (case f of No_File \<Rightarrow> (case dir of Present True \<Rightarrow> Created | _ \<Rightarrow> Not_Created) | _ \<Rightarrow> Exists)"

definition read_nofollow :: "stored_file \<Rightarrow> string option" where
  "read_nofollow f = (case f of Regular s \<Rightarrow> Some (take 4096 s) | _ \<Rightarrow> None)"

definition make_dir :: "run_dir \<Rightarrow> run_dir" where
  "make_dir dir = (case dir of Missing True \<Rightarrow> Present True | _ \<Rightarrow> dir)"

section \<open>The master key\<close>

definition key_from_cmd :: "vault \<Rightarrow> string option" where
  "key_from_cmd v =
     (if \<not> va_cmd v then None
      else (case va_cmd_out v of None \<Rightarrow> None
            | Some out \<Rightarrow> if strip out = [] then None else Some (strip out)))"

definition load_or_create_key :: "string \<Rightarrow> vault \<Rightarrow> string option \<times> vault" where
  "load_or_create_key fresh v =
     (case va_cached v of Some k \<Rightarrow> (Some k, v)
      | None \<Rightarrow>
        let got = (\<lambda>k v. (Some k, v\<lparr>va_cached := Some k\<rparr>))
        in if va_env v \<noteq> [] then got (strip (va_env v)) v
           else if va_cmd v
           then (case key_from_cmd v of Some k \<Rightarrow> got k v | None \<Rightarrow> (None, v))
           else if \<not> va_crypto v then (None, v)
           else (case create_exclusive (va_dir v) (va_key_file v) of
                   Created \<Rightarrow> got fresh (v\<lparr>va_key_file := Regular fresh\<rparr>)
                 | Exists \<Rightarrow>
                     (case read_nofollow (va_key_file v) of Some s \<Rightarrow> got (strip s) v
                      | None \<Rightarrow> (None, v\<lparr>va_dir := make_dir (va_dir v)\<rparr>))
                 | Not_Created \<Rightarrow>
                     (let v1 = v\<lparr>va_dir := make_dir (va_dir v)\<rparr>
                      in case read_nofollow (va_key_file v1) of Some s \<Rightarrow> got (strip s) v1
                         | None \<Rightarrow> (None, v1))))"

definition reset_cache :: "vault \<Rightarrow> vault" where
  "reset_cache v = v\<lparr>va_cached := None\<rparr>"

definition key_source :: "vault \<Rightarrow> string" where
  "key_source v =
     (if va_env v \<noteq> [] then ''env'' else if va_cmd v then ''command''
      else if \<not> va_crypto v then ''none'' else ''local-file'')"

section \<open>From the master key to a key of the cipher\<close>

definition KDF_ITERATIONS :: nat where
  "KDF_ITERATIONS = 600000"

definition fixed_salt :: bytes where
  "fixed_salt = utf8 ''sysible-secret-vault-kdf-v1''"

definition install_salt :: "string \<Rightarrow> vault \<Rightarrow> bytes \<times> vault" where
  "install_salt drawn v =
     (let v1 = v\<lparr>va_dir := make_dir (va_dir v)\<rparr>
      in case create_exclusive (va_dir v1) (va_salt_file v1) of
           Created \<Rightarrow> (utf8 drawn, v1\<lparr>va_salt_file := Regular drawn\<rparr>)
         | Exists \<Rightarrow>
             (case read_nofollow (va_salt_file v1) of
                Some s \<Rightarrow> (if s \<noteq> [] then utf8 s else fixed_salt, v1)
              | None \<Rightarrow> (fixed_salt, v1))
         | Not_Created \<Rightarrow> (fixed_salt, v1))"

definition coerce_to_fernet_key ::
    "fernet \<Rightarrow> string \<Rightarrow> string option \<Rightarrow> vault \<Rightarrow> string option \<times> vault" where
  "coerce_to_fernet_key fe drawn raw v =
     (if \<not> truthy raw then (None, v)
      else (let kb = the raw
            in if va_crypto v \<and> fe_valid fe kb then (Some kb, v)
               else (case install_salt drawn v of (salt, v1) \<Rightarrow>
                       (Some (urlsafe_b64encode (pbkdf2_sha256 (utf8 kb) salt KDF_ITERATIONS)), v1))))"

text \<open>The randomness one call may draw: a new master key, a new salt, the cipher's own.\<close>

record draws =
  dr_key :: string
  dr_salt :: string
  dr_nonce :: string

definition vault_fernet :: "fernet \<Rightarrow> draws \<Rightarrow> vault \<Rightarrow> string option \<times> vault" where
  "vault_fernet fe dr v =
     (if \<not> va_crypto v then (None, v)
      else (case load_or_create_key (dr_key dr) v of (raw, v1) \<Rightarrow>
              (case coerce_to_fernet_key fe (dr_salt dr) raw v1 of (key, v2) \<Rightarrow>
                 (if truthy key \<and> fe_valid fe (the key) then key else None, v2))))"

definition available :: "fernet \<Rightarrow> draws \<Rightarrow> vault \<Rightarrow> bool \<times> vault" where
  "available fe dr v =
     (if \<not> va_crypto v then (False, v)
      else (case vault_fernet fe dr v of (k, v1) \<Rightarrow> (k \<noteq> None, v1)))"

section \<open>Encryption at rest\<close>

definition PREFIX :: string where
  "PREFIX = ''v1:''"

definition is_encrypted :: "string \<Rightarrow> bool" where
  "is_encrypted stored = (take (length PREFIX) stored = PREFIX)"

definition strict_required :: "vault \<Rightarrow> bool" where
  "strict_required v =
     (lower (strip (case va_required v of None \<Rightarrow> ''1'' | Some s \<Rightarrow> s))
        \<notin> {''0'', ''false'', ''no'', ''off''})"

definition is_encrypting_at_rest :: "fernet \<Rightarrow> draws \<Rightarrow> vault \<Rightarrow> bool \<times> vault" where
  "is_encrypting_at_rest fe dr v =
     (case vault_fernet fe dr v of (k, v1) \<Rightarrow> (k \<noteq> None \<or> strict_required v1, v1))"

datatype vault_error = Encryption_Unavailable

text \<open>\<open>None\<close> is Python's \<open>None\<close>, which passes through untouched.\<close>

definition encrypt ::
    "fernet \<Rightarrow> draws \<Rightarrow> string option \<Rightarrow> vault \<Rightarrow> (vault_error + string option) \<times> vault" where
  "encrypt fe dr plaintext v =
     (case plaintext of None \<Rightarrow> (Inr None, v)
      | Some p \<Rightarrow>
        (case vault_fernet fe dr v of
           (None, v1) \<Rightarrow> (if strict_required v1 then Inl Encryption_Unavailable else Inr (Some p), v1)
         | (Some k, v1) \<Rightarrow> (Inr (Some (PREFIX @ fe_encrypt fe k (dr_nonce dr) p)), v1)))"

definition decrypt :: "fernet \<Rightarrow> draws \<Rightarrow> string option \<Rightarrow> vault \<Rightarrow> string option \<times> vault" where
  "decrypt fe dr stored v =
     (if \<not> truthy stored \<or> \<not> is_encrypted (the stored) then (stored, v)
      else (case vault_fernet fe dr v of (None, v1) \<Rightarrow> (stored, v1)
            | (Some k, v1) \<Rightarrow>
                (case fe_decrypt fe k (drop (length PREFIX) (the stored)) of
                   None \<Rightarrow> (stored, v1) | Some m \<Rightarrow> (Some m, v1))))"

text \<open>The operations of a rotation, which holds both keys.\<close>

definition encrypt_with :: "fernet \<Rightarrow> bool \<Rightarrow> string \<Rightarrow> string option \<Rightarrow> string option \<Rightarrow> string option" where
  "encrypt_with fe crypto nonce plaintext key =
     (case plaintext of None \<Rightarrow> None
      | Some p \<Rightarrow>
          if \<not> crypto \<or> \<not> truthy key then Some p
          else if fe_valid fe (the key) then Some (PREFIX @ fe_encrypt fe (the key) nonce p) else Some p)"

definition decrypt_with :: "fernet \<Rightarrow> bool \<Rightarrow> string option \<Rightarrow> string option \<Rightarrow> string option" where
  "decrypt_with fe crypto stored key =
     (if \<not> truthy stored \<or> \<not> is_encrypted (the stored) \<or> \<not> crypto \<or> \<not> truthy key then stored
      else if \<not> fe_valid fe (the key) then stored
      else (case fe_decrypt fe (the key) (drop (length PREFIX) (the stored)) of
              None \<Rightarrow> stored | Some m \<Rightarrow> Some m))"

section \<open>Derived keys\<close>

definition audit_hmac_key_from :: "string option \<Rightarrow> bytes option" where
  "audit_hmac_key_from master =
     (if \<not> truthy master then None
      else Some (hmac_sha256 (utf8 (the master)) (utf8 ''sysible-audit-chain-v1'')))"

definition audit_hmac_key :: "string \<Rightarrow> vault \<Rightarrow> bytes option \<times> vault" where
  "audit_hmac_key fresh v =
     (case load_or_create_key fresh v of (k, v1) \<Rightarrow> (audit_hmac_key_from k, v1))"

definition derive_fernet_key :: "string \<Rightarrow> string \<Rightarrow> vault \<Rightarrow> string option \<times> vault" where
  "derive_fernet_key fresh purpose v =
     (case load_or_create_key fresh v of (mk, v1) \<Rightarrow>
        (if \<not> truthy mk then None
         else Some (urlsafe_b64encode
                (hmac_sha256 (utf8 (the mk)) (utf8 (''sysible-fernet-'' @ purpose)))), v1))"

section \<open>Stability of the key\<close>

text \<open>What a running process holds is what the next process resolves: the cached key, if any, is
  the one a fresh start would find in the same environment.  A drawn key is the text Fernet
  generates, a drawn salt 16 bytes.\<close>

definition cache_ok :: "vault \<Rightarrow> bool" where
  "cache_ok v =
     (case va_cached v of None \<Rightarrow> True
      | Some k \<Rightarrow>
          if va_env v \<noteq> [] then k = strip (va_env v)
          else if va_cmd v then key_from_cmd v = Some k
          else va_crypto v \<and> (\<exists>s. va_key_file v = Regular s \<and> k = strip (take 4096 s)))"

definition drawn_ok :: "draws \<Rightarrow> bool" where
  "drawn_ok dr = (strip (take 4096 (dr_key dr)) = dr_key dr \<and> dr_salt dr \<noteq> [] \<and> length (dr_salt dr) \<le> 4096)"

lemma make_dir_idem [simp]: "make_dir (make_dir dir) = make_dir dir"
  by (simp add: make_dir_def split: run_dir.split bool.split)

lemma create_cases:
  "create_exclusive dir f = Created \<Longrightarrow> f = No_File" "create_exclusive dir f = Exists \<Longrightarrow> f \<noteq> No_File"
  by (auto simp: create_exclusive_def split: stored_file.splits run_dir.splits bool.splits)

lemma read_nofollow_Some [simp]: "read_nofollow f = Some s \<longleftrightarrow> (\<exists>t. f = Regular t \<and> s = take 4096 t)"
  by (auto simp: read_nofollow_def split: stored_file.splits)

lemma read_nofollow_simps [simp]:
  "read_nofollow (Regular t) = Some (take 4096 t)" "read_nofollow No_File = None" "read_nofollow Symlink = None"
  by (simp_all add: read_nofollow_def)

lemma create_regular [simp]: "create_exclusive dir (Regular s) = Exists"
  by (simp add: create_exclusive_def)

text \<open>What resolving the key leaves alone.\<close>

lemma load_frame:
  assumes "load_or_create_key fresh v = (k, v')"
  shows "va_env v' = va_env v" "va_cmd v' = va_cmd v" "va_cmd_out v' = va_cmd_out v"
    "va_crypto v' = va_crypto v" "va_required v' = va_required v" "va_salt_file v' = va_salt_file v"
    "k \<noteq> None \<Longrightarrow> va_cached v' = k" "k = None \<Longrightarrow> va_cached v' = None"
  using assms by (auto simp: load_or_create_key_def Let_def split: option.splits if_splits created.splits)

lemma load_again:
  assumes "load_or_create_key fresh v = (Some k, v')"
  shows "load_or_create_key fresh' v' = (Some k, v')"
  using load_frame(7) [OF assms] by (simp add: load_or_create_key_def)

lemma load_cache_ok:
  assumes "load_or_create_key fresh v = (k, v')" "cache_ok v" "strip (take 4096 fresh) = fresh"
  shows "cache_ok v'"
proof (cases "va_cached v")
  case (Some c)
  then show ?thesis using assms by (simp add: load_or_create_key_def)
next
  case None
  then show ?thesis using assms
    by (auto simp: load_or_create_key_def Let_def cache_ok_def key_from_cmd_def split: option.splits if_splits created.splits)
qed

lemma cache_ok_cong:
  assumes "va_env v' = va_env v" "va_cmd v' = va_cmd v" "va_cmd_out v' = va_cmd_out v"
    "va_crypto v' = va_crypto v" "va_key_file v' = va_key_file v" "va_cached v' = va_cached v"
  shows "cache_ok v' = cache_ok v"
  unfolding cache_ok_def key_from_cmd_def assms ..

text \<open>A new process finds the key the old one held.\<close>

lemma load_restart:
  assumes "cache_ok v" "va_cached v = Some k"
  shows "load_or_create_key fresh (reset_cache v) = (Some k, v)"
proof -
  have same: "v\<lparr>va_cached := Some k\<rparr> = v" using assms(2) by (cases v) simp
  have cmd: "key_from_cmd (v\<lparr>va_cached := None\<rparr>) = key_from_cmd v" by (simp add: key_from_cmd_def)
  show ?thesis
  proof (cases "va_env v = [] \<and> \<not> va_cmd v")
    case True
    then obtain s where "va_key_file v = Regular s" "k = strip (take 4096 s)" "va_crypto v"
      using assms by (auto simp: cache_ok_def)
    with True same show ?thesis by (simp add: load_or_create_key_def reset_cache_def)
  next
    case False
    then show ?thesis using assms
      by (auto simp: cache_ok_def load_or_create_key_def reset_cache_def cmd same)
  qed
qed

lemma salt_frame:
  assumes "install_salt drawn v = (salt, v')"
  shows "va_env v' = va_env v" "va_cmd v' = va_cmd v" "va_cmd_out v' = va_cmd_out v"
    "va_crypto v' = va_crypto v" "va_required v' = va_required v" "va_key_file v' = va_key_file v"
    "va_cached v' = va_cached v" "va_dir v' = make_dir (va_dir v)"
  using assms by (auto simp: install_salt_def Let_def split: option.splits created.splits)

lemma salt_again_state:
  assumes "drawn \<noteq> []" "length drawn \<le> 4096"
  shows "fst (install_salt drawn' (snd (install_salt drawn v))) = fst (install_salt drawn v)"
proof (cases "va_salt_file v")
  case No_File
  show ?thesis
  proof (cases "make_dir (va_dir v) = Present True")
    case True
    with No_File assms show ?thesis by (simp add: install_salt_def create_exclusive_def Let_def)
  next
    case False
    then have "create_exclusive (make_dir (va_dir v)) No_File = Not_Created"
      by (simp add: create_exclusive_def split: run_dir.split bool.split)
    with No_File show ?thesis by (simp add: install_salt_def Let_def)
  qed
qed (simp_all add: install_salt_def create_exclusive_def Let_def)

lemma salt_again:
  assumes "install_salt drawn v = (salt, v')" "drawn \<noteq> []" "length drawn \<le> 4096"
  shows "fst (install_salt drawn' v') = salt"
  using salt_again_state [OF assms(2,3), of drawn' v] assms(1) by simp

lemma salt_cache: "fst (install_salt drawn (v\<lparr>va_cached := x\<rparr>)) = fst (install_salt drawn v)"
  by (auto simp: install_salt_def Let_def split: option.splits created.splits)

lemma coerce_cache: "fst (coerce_to_fernet_key fe drawn raw (v\<lparr>va_cached := x\<rparr>)) = fst (coerce_to_fernet_key fe drawn raw v)"
  using salt_cache [where drawn = drawn and v = v and x = x] by (auto simp: coerce_to_fernet_key_def Let_def split: prod.splits)

lemma coerce_frame:
  assumes "coerce_to_fernet_key fe drawn raw v = (key, v')"
  shows "va_env v' = va_env v" "va_cmd v' = va_cmd v" "va_cmd_out v' = va_cmd_out v"
    "va_crypto v' = va_crypto v" "va_required v' = va_required v" "va_key_file v' = va_key_file v"
    "va_cached v' = va_cached v"
  using assms salt_frame [of drawn v]
  by (auto simp: coerce_to_fernet_key_def Let_def split: if_splits prod.splits)

lemma coerce_again:
  assumes "coerce_to_fernet_key fe drawn raw v = (key, v')" "drawn \<noteq> []" "length drawn \<le> 4096"
  shows "fst (coerce_to_fernet_key fe drawn' raw v') = key"
  using assms salt_again [of drawn v] salt_frame(4) [of drawn v]
  by (auto simp: coerce_to_fernet_key_def Let_def split: if_splits prod.splits) (metis fst_conv)+

lemma fernet_parts:
  assumes "vault_fernet fe dr v = (Some k, v')"
  obtains raw v1 where "va_crypto v" "load_or_create_key (dr_key dr) v = (Some raw, v1)"
    "coerce_to_fernet_key fe (dr_salt dr) (Some raw) v1 = (Some k, v')" "fe_valid fe k" "k \<noteq> []"
proof -
  obtain raw v1 where l: "load_or_create_key (dr_key dr) v = (raw, v1)" by fastforce
  obtain key v2 where c: "coerce_to_fernet_key fe (dr_salt dr) raw v1 = (key, v2)" by fastforce
  have a: "va_crypto v" "key = Some k" "v2 = v'" "fe_valid fe k" "k \<noteq> []"
    using assms l c by (auto simp: vault_fernet_def truthy_def split: if_splits option.splits)
  moreover have "raw \<noteq> None" using c a(2) by (cases raw) (auto simp: coerce_to_fernet_key_def)
  ultimately show thesis using that l c by auto
qed

lemma fernet_frame:
  assumes "vault_fernet fe dr v = (key, v')"
  shows "va_required v' = va_required v" "va_crypto v' = va_crypto v"
proof -
  obtain raw v1 where l: "load_or_create_key (dr_key dr) v = (raw, v1)" by fastforce
  obtain key' v2 where c: "coerce_to_fernet_key fe (dr_salt dr) raw v1 = (key', v2)" by fastforce
  show "va_required v' = va_required v" "va_crypto v' = va_crypto v"
    using assms l c load_frame [OF l] coerce_frame [OF c] by (auto simp: vault_fernet_def split: if_splits)
qed

text \<open>A process that once had a cipher keeps the same one, and so does the next process.\<close>

lemma fernet_again:
  assumes "vault_fernet fe dr v = (Some k, v')" "drawn_ok dr"
  shows "fst (vault_fernet fe dr' v') = Some k"
proof -
  obtain raw v1 where p: "va_crypto v" "load_or_create_key (dr_key dr) v = (Some raw, v1)"
    "coerce_to_fernet_key fe (dr_salt dr) (Some raw) v1 = (Some k, v')" "fe_valid fe k" "k \<noteq> []"
    using fernet_parts [OF assms(1)] .
  have "va_cached v' = Some raw" using load_frame(7) [OF p(2)] coerce_frame(7) [OF p(3)] by simp
  then have "load_or_create_key (dr_key dr') v' = (Some raw, v')" by (simp add: load_or_create_key_def)
  moreover have "fst (coerce_to_fernet_key fe (dr_salt dr') (Some raw) v') = Some k"
    using coerce_again [OF p(3)] assms(2) by (simp add: drawn_ok_def)
  ultimately show ?thesis
    using p fernet_frame(2) [OF assms(1)] by (auto simp: vault_fernet_def truthy_def split: prod.splits)
qed

lemma fernet_restart:
  assumes "vault_fernet fe dr v = (Some k, v')" "drawn_ok dr" "cache_ok v"
  shows "fst (vault_fernet fe dr' (reset_cache v')) = Some k"
proof -
  obtain raw v1 where p: "va_crypto v" "load_or_create_key (dr_key dr) v = (Some raw, v1)"
    "coerce_to_fernet_key fe (dr_salt dr) (Some raw) v1 = (Some k, v')"
    using fernet_parts [OF assms(1)] .
  have "cache_ok v1" using load_cache_ok [OF p(2) assms(3)] assms(2) by (simp add: drawn_ok_def)
  then have ok: "cache_ok v'" using cache_ok_cong [of v' v1] coerce_frame [OF p(3)] by simp
  have c: "va_cached v' = Some raw" using load_frame(7) [OF p(2)] coerce_frame(7) [OF p(3)] by simp
  have "load_or_create_key (dr_key dr') (reset_cache v') = load_or_create_key (dr_key dr') v'"
    using load_restart [OF ok c] c by (simp add: load_or_create_key_def [of _ v'])
  then have "vault_fernet fe dr' (reset_cache v') = vault_fernet fe dr' v'"
    using p(1) coerce_frame(4) [OF p(3)] load_frame(4) [OF p(2)] by (simp add: vault_fernet_def reset_cache_def)
  then show ?thesis using fernet_again [OF assms(1,2)] by simp
qed

section \<open>Properties\<close>

text \<open>C36: A secret that was stored is read back, by the same process and by the next one, whatever
  randomness they draw: under the same cipher when there is one, and otherwise as the plain text,
  provided that this does not look encrypted.\<close>

theorem stored_secret_read_back:
  assumes "cipher_ok fe" "drawn_ok dr" "cache_ok v" "encrypt fe dr (Some p) v = (Inr (Some s), v')"
    and "fst (vault_fernet fe dr v) \<noteq> None \<or> \<not> is_encrypted p"
  shows "fst (decrypt fe dr' (Some s) v') = Some p \<and> fst (decrypt fe dr' (Some s) (reset_cache v')) = Some p"
proof (cases "fst (vault_fernet fe dr v)")
  case None
  then have "s = p" "\<not> is_encrypted p" using assms(4,5) by (auto simp: encrypt_def split: prod.splits option.splits if_splits)
  then show ?thesis by (simp add: decrypt_def)
next
  case (Some k)
  then obtain v1 where f: "vault_fernet fe dr v = (Some k, v1)" by (metis prod.collapse)
  then have s: "s = PREFIX @ fe_encrypt fe k (dr_nonce dr) p" "v' = v1"
    using assms(4) by (auto simp: encrypt_def)
  have valid: "fe_valid fe k" using fernet_parts [OF f] by blast
  then have d: "fe_decrypt fe k (drop (length PREFIX) s) = Some p" using assms(1) s by (simp add: cipher_ok_def)
  have e: "is_encrypted s" "s \<noteq> []" using s by (simp_all add: is_encrypted_def PREFIX_def)
  show ?thesis
    using fernet_again [OF f assms(2), of dr'] fernet_restart [OF f assms(2,3), of dr'] d e s(2)
    by (auto simp: decrypt_def split: prod.splits option.splits)
qed

text \<open>C37: In strict mode, the default, no secret is stored in plain text: it is encrypted under a valid
  key of the cipher or refused.  A configured key command is the only source of the key: when it
  yields nothing, no key is made up, no file is touched, and a strict write is refused.\<close>

theorem strict_vault_fails_closed:
  assumes "strict_required v"
  shows "(case fst (encrypt fe dr (Some p) v) of Inl e \<Rightarrow> True
     | Inr s \<Rightarrow> \<exists>k. fe_valid fe k \<and> s = Some (PREFIX @ fe_encrypt fe k (dr_nonce dr) p)) \<and>
    (va_cmd v \<and> va_env v = [] \<and> va_cached v = None \<and> key_from_cmd v = None \<longrightarrow>
       encrypt fe dr (Some p) v = (Inl Encryption_Unavailable, v) \<and>
       audit_hmac_key (dr_key dr) v = (None, v) \<and> derive_fernet_key (dr_key dr) purpose v = (None, v))"
proof -
  obtain key v1 where f: "vault_fernet fe dr v = (key, v1)" by fastforce
  have strict: "strict_required v1" using assms fernet_frame [OF f] by (simp add: strict_required_def)
  have no_key: "load_or_create_key (dr_key dr) v = (None, v) \<and> vault_fernet fe dr v = (None, v)"
    if "va_cmd v" "va_env v = []" "va_cached v = None" "key_from_cmd v = None"
    using that by (simp add: load_or_create_key_def vault_fernet_def coerce_to_fernet_key_def)
  moreover have "key = Some k \<Longrightarrow> fe_valid fe k" for k using fernet_parts [of fe dr v k v1] f by auto
  ultimately show ?thesis using f strict assms
    by (cases key) (auto simp: encrypt_def audit_hmac_key_def audit_hmac_key_from_def derive_fernet_key_def)
qed

section \<open>Examples\<close>

text \<open>A concrete function with the documented behaviour of the cipher: it writes the key, which has
  44 characters, in front of the message.\<close>

definition demo_cipher :: fernet where
  "demo_cipher = \<lparr>fe_valid = (\<lambda>k. length k = 44), fe_encrypt = (\<lambda>k r m. k @ m),
     fe_decrypt = (\<lambda>k c. if take 44 c = k then Some (drop 44 c) else None)\<rparr>"

lemma b64_length: "length (urlsafe_b64encode bs) = 4 * ((length bs + 2) div 3)"
proof (induction bs rule: urlsafe_b64encode.induct)
  case (4 a b c rest)
  have "(length (a # b # c # rest) + 2) div 3 = Suc ((length rest + 2) div 3)"
    using div_add1_eq [of "length rest + 2" 3 3] by simp
  with 4 show ?case by simp
qed simp_all

lemma demo_cipher_ok: "cipher_ok demo_cipher"
  by (auto simp: cipher_ok_def demo_cipher_def b64_length)

definition demo_vault :: vault where
  "demo_vault = \<lparr>va_env = [], va_cmd = False, va_cmd_out = None, va_crypto = True, va_required = None,
     va_dir = Present True, va_key_file = No_File, va_salt_file = No_File, va_cached = None\<rparr>"

definition demo_draws :: draws where
  "demo_draws = \<lparr>dr_key = replicate 43 (CHR ''k'') @ ''='', dr_salt = ''0123456789abcdef'', dr_nonce = ''n''\<rparr>"

lemma demo_key:
  "vault_fernet demo_cipher demo_draws demo_vault = (Some (dr_key demo_draws),
     demo_vault\<lparr>va_key_file := Regular (dr_key demo_draws), va_cached := Some (dr_key demo_draws)\<rparr>)"
  by (simp add: vault_fernet_def load_or_create_key_def coerce_to_fernet_key_def demo_vault_def demo_draws_def
      create_exclusive_def demo_cipher_def numeral_eq_Suc)

lemma stored_secret_read_back_witness:
  "\<exists>s v'. encrypt demo_cipher demo_draws (Some ''hunter2'') demo_vault = (Inr (Some s), v') \<and>
     fst (decrypt demo_cipher demo_draws (Some s) (reset_cache v')) = Some ''hunter2''"
proof -
  obtain s v' where e: "encrypt demo_cipher demo_draws (Some ''hunter2'') demo_vault = (Inr (Some s), v')"
    by (simp add: encrypt_def demo_key)
  have "drawn_ok demo_draws" by code_simp
  moreover have "cache_ok demo_vault" by (simp add: cache_ok_def demo_vault_def)
  ultimately show ?thesis
    using stored_secret_read_back [OF demo_cipher_ok _ _ e] e by (auto simp: demo_key)
qed

lemma strict_vault_fails_closed_witness:
  "encrypt demo_cipher demo_draws (Some ''hunter2'') (demo_vault\<lparr>va_cmd := True\<rparr>) =
     (Inl Encryption_Unavailable, demo_vault\<lparr>va_cmd := True\<rparr>)"
proof -
  have "strict_required (demo_vault\<lparr>va_cmd := True\<rparr>)"
    by (simp add: strict_required_def demo_vault_def strip_def lower_def is_space_def is_upper_def)
  then show ?thesis
    using strict_vault_fails_closed by (simp add: demo_vault_def key_from_cmd_def)
qed

end
