(* ===== verification/Sudo_Store.thy ===== *)
theory Sudo_Store
  imports Vault "HOL-Library.AList"
begin

text \<open>
  The encrypted store of the operators' sudo passwords (\<^verbatim>\<open>webgui/sudo_store.py\<close>) and the sealed
  admin token of the console's session cookie, which uses the same keys.  The JSON file is a list of
  entries per administrator and scope, in the dictionary's order; a file that cannot be read is the
  empty store.
\<close>

section \<open>Keys\<close>

record sudo_keys =
  sk_vault :: vault
  sk_key_file :: stored_file

definition sudo_derived_key :: "string \<Rightarrow> sudo_keys \<Rightarrow> string option \<times> sudo_keys" where
  "sudo_derived_key fresh s =
     (if \<not> va_crypto (sk_vault s) then (None, s)
      else (case derive_fernet_key fresh ''webgui-sudo'' (sk_vault s) of
              (k, v) \<Rightarrow> (k, s\<lparr>sk_vault := v\<rparr>)))"

text \<open>The key file, made on first use when \<open>create\<close> is set; an empty one counts as absent, and cannot
  be made again over itself.\<close>

definition legacy_key :: "string \<Rightarrow> bool \<Rightarrow> sudo_keys \<Rightarrow> string option \<times> sudo_keys" where
  "legacy_key fresh create s =
     (if \<not> va_crypto (sk_vault s) then (None, s)
      else (let existing = map_option strip (read_nofollow (sk_key_file s))
            in if truthy existing then (existing, s)
               else if \<not> create then (None, s)
               else (let v = sk_vault s; dir = make_dir (va_dir v); s1 = s\<lparr>sk_vault := v\<lparr>va_dir := dir\<rparr>\<rparr>
                     in case create_exclusive dir (sk_key_file s) of
                          Created \<Rightarrow> (Some fresh, s1\<lparr>sk_key_file := Regular fresh\<rparr>)
                        | Exists \<Rightarrow> (existing, s1)
                        | Not_Created \<Rightarrow> (None, s1))))"

text \<open>A write uses the derived key, else the key file; a read tries both.  \<open>fresh\<close> and \<open>fresh'\<close> are
  the keys the two may have to draw.\<close>

definition primary_key :: "string \<Rightarrow> string \<Rightarrow> sudo_keys \<Rightarrow> string option \<times> sudo_keys" where
  "primary_key fresh fresh' s =
     (case sudo_derived_key fresh s of (k, s1) \<Rightarrow>
        (if truthy k then (k, s1) else legacy_key fresh' True s1))"

definition read_keys :: "string \<Rightarrow> string \<Rightarrow> sudo_keys \<Rightarrow> string list \<times> sudo_keys" where
  "read_keys fresh fresh' s =
     (case sudo_derived_key fresh s of (d, s1) \<Rightarrow>
        (case legacy_key fresh' False s1 of (l, s2) \<Rightarrow>
           (remdups (List.map_filter (\<lambda>k. if truthy k then k else None) [d, l]), s2)))"

text \<open>The first key that decrypts: \<open>Fernet(key)\<close> raises on a malformed key, which counts as a
  failure of that key.\<close>

fun open_with :: "fernet \<Rightarrow> string list \<Rightarrow> string \<Rightarrow> string option" where
  "open_with fe [] c = None"
| "open_with fe (k # ks) c =
     (case (if fe_valid fe k then fe_decrypt fe k c else None) of
        Some m \<Rightarrow> Some m | None \<Rightarrow> open_with fe ks c)"

section \<open>The store\<close>

type_synonym sudo_data = "(string \<times> (string \<times> string) list) list"

definition ALL_SCOPES :: string where
  "ALL_SCOPES = ''__all__''"

definition sealed :: "sudo_data \<Rightarrow> string \<Rightarrow> string \<Rightarrow> string option" where
  "sealed data user scope =
     (case map_of data user of None \<Rightarrow> None | Some rec \<Rightarrow> map_of rec scope)"

record sudo_state =
  ss_keys :: sudo_keys
  ss_data :: sudo_data

text \<open>An invalid primary key makes \<open>Fernet(key)\<close> raise; \<open>None\<close> stands for that exception.\<close>

definition set_password ::
    "fernet \<Rightarrow> string \<Rightarrow> string \<Rightarrow> string \<Rightarrow> string \<Rightarrow> string \<Rightarrow> string \<Rightarrow> sudo_state \<Rightarrow> (bool \<times> sudo_state) option" where
  "set_password fe fresh fresh' nonce user scope password st =
     (if password = [] then Some (False, st)
      else (case primary_key fresh fresh' (ss_keys st) of (key, ks) \<Rightarrow>
        (if \<not> truthy key then Some (False, st\<lparr>ss_keys := ks\<rparr>)
         else if \<not> fe_valid fe (the key) then None
         else (let rec = (case map_of (ss_data st) user of None \<Rightarrow> [] | Some r \<Rightarrow> r);
                   c = fe_encrypt fe (the key) nonce password
               in Some (True, \<lparr>ss_keys = ks, ss_data = AList.update user (AList.update scope c rec) (ss_data st)\<rparr>)))))"

definition get_password ::
    "fernet \<Rightarrow> string \<Rightarrow> string \<Rightarrow> string \<Rightarrow> string \<Rightarrow> sudo_state \<Rightarrow> string option \<times> sudo_state" where
  "get_password fe fresh fresh' user scope st =
     (let token = sealed (ss_data st) user scope
      in if \<not> truthy token \<or> \<not> va_crypto (sk_vault (ss_keys st)) then (None, st)
         else (case read_keys fresh fresh' (ss_keys st) of (ks, keys') \<Rightarrow>
                 (open_with fe ks (the token), st\<lparr>ss_keys := keys'\<rparr>)))"

definition resolve_sudo ::
    "fernet \<Rightarrow> string \<Rightarrow> string \<Rightarrow> string \<Rightarrow> string \<Rightarrow> sudo_state \<Rightarrow> string option \<times> sudo_state" where
  "resolve_sudo fe fresh fresh' user host st =
     (case get_password fe fresh fresh' user host st of (p, st1) \<Rightarrow>
        (if truthy p then (p, st1) else get_password fe fresh fresh' user ALL_SCOPES st1))"

definition scopes_set :: "string \<Rightarrow> sudo_data \<Rightarrow> string list" where
  "scopes_set user data =
     (case map_of data user of None \<Rightarrow> [] | Some rec \<Rightarrow> sort_key (map of_char) (map fst rec))"

definition clear :: "string \<Rightarrow> string option \<Rightarrow> sudo_data \<Rightarrow> sudo_data" where
  "clear user scope data =
     (case map_of data user of None \<Rightarrow> data
      | Some rec \<Rightarrow>
          (case scope of None \<Rightarrow> AList.delete user data
           | Some sc \<Rightarrow>
               (let rec' = AList.delete sc rec
                in if rec' = [] then AList.delete user data else AList.update user rec' data)))"

section \<open>Facts\<close>

lemma sealed_update:
  "sealed (AList.update u (AList.update sc c (case map_of data u of None \<Rightarrow> [] | Some r \<Rightarrow> r)) data) u' sc' =
     (if u' = u \<and> sc' = sc then Some c else sealed data u' sc')"
  by (auto simp: sealed_def update_conv' split: option.split)

lemma sealed_clear:
  "sealed (clear u sc data) u' sc' =
     (if u' = u \<and> (sc = None \<or> sc = Some sc') then None else sealed data u' sc')"
proof (cases "map_of data u")
  case None
  then show ?thesis by (auto simp: clear_def sealed_def)
next
  case (Some rec)
  have empty: "map_of rec sc' = None" if "AList.delete s rec = []" "sc' \<noteq> s" for s
    using that by (metis delete_conv' fun_upd_other map_of.simps(1))
  show ?thesis
    using Some by (auto simp: clear_def sealed_def delete_conv' update_conv' Let_def empty split: option.split)
qed

text \<open>The keys stay: what a read finds after a write is the key the write used.\<close>

lemma derived_frame:
  assumes "sudo_derived_key fresh s = (k, s')"
  shows "sk_key_file s' = sk_key_file s" "va_crypto (sk_vault s') = va_crypto (sk_vault s)"
  using assms load_frame(4)
  by (auto simp: sudo_derived_key_def derive_fernet_key_def split: if_splits prod.splits)

lemma derived_again:
  assumes "sudo_derived_key fresh s = (Some k, s')"
  shows "sudo_derived_key fresh' s' = (Some k, s')"
proof -
  obtain mk v where l: "load_or_create_key fresh (sk_vault s) = (mk, v)" by fastforce
  have c: "va_crypto (sk_vault s)" "s' = s\<lparr>sk_vault := v\<rparr>" "truthy mk"
    "k = urlsafe_b64encode (hmac_sha256 (utf8 (the mk)) (utf8 (''sysible-fernet-'' @ ''webgui-sudo'')))"
    using assms l by (auto simp: sudo_derived_key_def derive_fernet_key_def split: if_splits)
  obtain m where m: "mk = Some m" using c(3) by (cases mk) auto
  have "load_or_create_key fresh' v = (Some m, v)" using load_again l m by simp
  then show ?thesis using c m l load_frame(4) [OF l]
    by (simp add: sudo_derived_key_def derive_fernet_key_def)
qed

lemma b64_not_Nil: "bs \<noteq> [] \<Longrightarrow> urlsafe_b64encode bs \<noteq> []"
  by (cases bs rule: urlsafe_b64encode.cases) auto

lemma length_hmac [simp]: "length (hmac_sha256 k m) = 32"
  by (simp add: hmac_sha256_def Let_def)

lemma hmac_not_Nil [simp]: "hmac_sha256 k m \<noteq> []"
  by (metis length_hmac list.size(3) zero_neq_numeral)

lemma derived_valid:
  assumes "sudo_derived_key fresh s = (Some k, s')" "cipher_ok fe"
  shows "fe_valid fe k" "k \<noteq> []"
proof -
  obtain mk where "k = urlsafe_b64encode (hmac_sha256 (utf8 mk) (utf8 ''sysible-fernet-webgui-sudo''))"
    using assms(1) by (auto simp: sudo_derived_key_def derive_fernet_key_def split: if_splits prod.splits)
  then show "fe_valid fe k" "k \<noteq> []" using assms(2) b64_not_Nil length_hmac by (auto simp: cipher_ok_def simp del: urlsafe_b64encode.simps)
qed

lemma legacy_frame:
  assumes "legacy_key fresh create s = (k, s')"
  shows "va_crypto (sk_vault s') = va_crypto (sk_vault s)" "va_cached (sk_vault s') = va_cached (sk_vault s)"
  using assms by (auto simp: legacy_key_def Let_def split: if_splits created.splits)

lemma legacy_written:
  assumes "legacy_key fresh True s = (Some k, s')" "k \<noteq> []" "strip (take 4096 fresh) = fresh"
  obtains t where "sk_key_file s' = Regular t" "strip (take 4096 t) = k" "va_crypto (sk_vault s)"
  using assms by (auto simp: legacy_key_def Let_def truthy_def split: if_splits created.splits option.splits)

lemma legacy_read:
  assumes "sk_key_file s = Regular t" "strip (take 4096 t) = k" "k \<noteq> []" "va_crypto (sk_vault s)"
  shows "legacy_key fresh False s = (Some k, s)"
  using assms by (simp add: legacy_key_def Let_def)

text \<open>Where the key of a write comes from.\<close>

lemma primary_source:
  assumes "primary_key fresh fresh' s = (Some k, s')" "k \<noteq> []" "strip (take 4096 fresh') = fresh'" "cipher_ok fe"
  shows "fst (sudo_derived_key f s') = Some k \<or>
    fst (sudo_derived_key fresh s) = None \<and> (\<exists>t. sk_key_file s' = Regular t \<and> strip (take 4096 t) = k)"
    and "va_crypto (sk_vault s')"
proof -
  obtain d s1 where d: "sudo_derived_key fresh s = (d, s1)" by fastforce
  show "fst (sudo_derived_key f s') = Some k \<or>
    fst (sudo_derived_key fresh s) = None \<and> (\<exists>t. sk_key_file s' = Regular t \<and> strip (take 4096 t) = k)"
    "va_crypto (sk_vault s')"
  proof (atomize (full), cases d)
    case None
    then have l: "legacy_key fresh' True s1 = (Some k, s')" using assms(1) d by (simp add: primary_key_def)
    from legacy_written [OF this assms(2,3)] legacy_frame(1) [OF l] d None
    show "(fst (sudo_derived_key f s') = Some k \<or>
      fst (sudo_derived_key fresh s) = None \<and> (\<exists>t. sk_key_file s' = Regular t \<and> strip (take 4096 t) = k)) \<and>
      va_crypto (sk_vault s')" by auto
  next
    case (Some x)
    have "x \<noteq> []" using derived_valid(2) d Some assms(4) by blast
    then have "k = x" "s' = s1" using assms(1) d Some by (auto simp: primary_key_def)
    moreover have "va_crypto (sk_vault s)" using d Some by (auto simp: sudo_derived_key_def split: if_splits)
    ultimately show "(fst (sudo_derived_key f s') = Some k \<or>
      fst (sudo_derived_key fresh s) = None \<and> (\<exists>t. sk_key_file s' = Regular t \<and> strip (take 4096 t) = k)) \<and>
      va_crypto (sk_vault s')"
      using derived_again [of fresh s x s1 f] derived_frame(2) [OF d] d Some by auto
  qed
qed

lemma read_keys_has:
  assumes "fst (sudo_derived_key f s) = Some k \<or> (\<exists>t. sk_key_file s = Regular t \<and> strip (take 4096 t) = k)"
    and "k \<noteq> []" "va_crypto (sk_vault s)"
  shows "k \<in> set (fst (read_keys f f' s))"
proof -
  obtain d s1 where d: "sudo_derived_key f s = (d, s1)" by fastforce
  have "legacy_key f' False s1 = (Some k, s1)" if "sk_key_file s = Regular t" "strip (take 4096 t) = k" for t
    using legacy_read [of s1 t k f'] that derived_frame [OF d] assms(2,3) by simp
  then show ?thesis using assms(1,2) d
    by (auto simp: read_keys_def List.map_filter_def truthy_def split: prod.splits)
qed

lemma open_with_key:
  assumes "cipher_ok fe" "fe_valid fe k" "k \<in> set ks"
  shows "open_with fe ks (fe_encrypt fe k r m) = Some m"
  using assms(3)
proof (induction ks)
  case (Cons x xs)
  have same: "fe_decrypt fe k (fe_encrypt fe k r m) = Some m" using assms(1,2) by (simp add: cipher_ok_def)
  have other: "fe_decrypt fe x (fe_encrypt fe k r m) = None" if "fe_valid fe x" "x \<noteq> k"
    using assms(1,2) that by (metis cipher_ok_def)
  show ?case using Cons same other by (cases "x = k") (auto simp: assms(2))
qed simp

section \<open>Properties\<close>

text \<open>A sudo password that was stored is what a later read of the same administrator and scope
  gives, whatever keys are drawn on the way, and the store of every other entry is untouched.  A
  password stored under the key file is still read after the controller gained, lost or changed a
  master key.  After a clear nothing is read.\<close>

theorem sudo_password_kept:
  assumes "cipher_ok fe" "strip (take 4096 fresh') = fresh'"
    and "set_password fe fresh fresh' nonce u sc p st = Some (True, st1)"
  shows "fst (get_password fe f f' u sc st1) = Some p \<and>
    (\<forall>u' sc'. (u', sc') = (u, sc) \<or> sealed (ss_data st1) u' sc' = sealed (ss_data st) u' sc') \<and>
    (fst (sudo_derived_key fresh (ss_keys st)) = None \<longrightarrow>
      (\<forall>v. va_crypto v \<longrightarrow> fst (get_password fe f f' u sc
         (st1\<lparr>ss_keys := (ss_keys st1)\<lparr>sk_vault := v\<rparr>\<rparr>)) = Some p)) \<and>
    fst (get_password fe f f' u sc (st1\<lparr>ss_data := clear u (Some sc) (ss_data st1)\<rparr>)) = None \<and>
    fst (get_password fe f f' u sc (st1\<lparr>ss_data := clear u None (ss_data st1)\<rparr>)) = None"
proof -
  obtain key ks where k: "primary_key fresh fresh' (ss_keys st) = (key, ks)" by fastforce
  have key: "p \<noteq> []" "truthy key" "fe_valid fe (the key)" "ss_keys st1 = ks"
    "ss_data st1 = AList.update u (AList.update sc (fe_encrypt fe (the key) nonce p)
       (case map_of (ss_data st) u of None \<Rightarrow> [] | Some r \<Rightarrow> r)) (ss_data st)"
    using assms(3) k by (auto simp: set_password_def Let_def split: if_splits)
  obtain x where x: "key = Some x" "x \<noteq> []" using key(2) by (cases key) auto
  have entry: "sealed (ss_data st1) u' sc' =
      (if u' = u \<and> sc' = sc then Some (fe_encrypt fe x nonce p) else sealed (ss_data st) u' sc')" for u' sc'
    using sealed_update [of u sc _ "ss_data st"] key(5) x(1) by simp
  have src: "fst (sudo_derived_key f ks) = Some x \<or> fst (sudo_derived_key fresh (ss_keys st)) = None \<and>
      (\<exists>t. sk_key_file ks = Regular t \<and> strip (take 4096 t) = x)" "va_crypto (sk_vault ks)"
    using primary_source [where fresh = fresh and fresh' = fresh' and s = "ss_keys st" and k = x and s' = ks and fe = fe]
      k x assms(1,2) by auto
  have reads: "fst (get_password fe f f' u sc s) = Some p"
    if "ss_data s = ss_data st1" "va_crypto (sk_vault (ss_keys s))" "x \<in> set (fst (read_keys f f' (ss_keys s)))" for s
  proof -
    have "fe_encrypt fe x nonce p \<noteq> []" using assms(1) key(3) x(1) by (simp add: cipher_ok_def)
    then show ?thesis
      using that entry [of u sc] open_with_key [OF assms(1) _ that(3), of nonce p] key(3) x(1)
      by (cases "read_keys f f' (ss_keys s)") (simp add: get_password_def Let_def)
  qed
  have now: "fst (get_password fe f f' u sc st1) = Some p"
    using reads [of st1] read_keys_has [of f ks x f'] src x(2) key(4) by auto
  have later: "fst (get_password fe f f' u sc (st1\<lparr>ss_keys := (ss_keys st1)\<lparr>sk_vault := v\<rparr>\<rparr>)) = Some p"
    if "fst (sudo_derived_key fresh (ss_keys st)) = None" "va_crypto v" for v
  proof -
    have "\<exists>t. sk_key_file ks = Regular t \<and> strip (take 4096 t) = x"
    proof -
      obtain s0 where "sudo_derived_key fresh (ss_keys st) = (None, s0)"
        using \<open>fst (sudo_derived_key fresh (ss_keys st)) = None\<close> prod.collapse by metis
      then have "legacy_key fresh' True s0 = (Some x, ks)" using k x(1) by (simp add: primary_key_def)
      then show ?thesis using legacy_written [OF _ x(2) assms(2)] by blast
    qed
    then show ?thesis
      using reads [of "st1\<lparr>ss_keys := (ss_keys st1)\<lparr>sk_vault := v\<rparr>\<rparr>"] that(2) key(4) x(2)
        read_keys_has [of f "ks\<lparr>sk_vault := v\<rparr>" x f'] by auto
  qed
  have gone: "fst (get_password fe f f' u sc (st1\<lparr>ss_data := clear u o' (ss_data st1)\<rparr>)) = None"
    if "o' \<in> {None, Some sc}" for o'
    using that by (auto simp: get_password_def Let_def sealed_clear)
  show ?thesis using now later gone entry by simp
qed

definition demo_sudo :: sudo_state where
  "demo_sudo = \<lparr>ss_keys = \<lparr>sk_vault = demo_vault\<lparr>va_cmd := True\<rparr>, sk_key_file = No_File\<rparr>, ss_data = []\<rparr>"

lemma sudo_password_kept_witness:
  "\<exists>st1. set_password demo_cipher [] (dr_key demo_draws) ''n'' ''ann'' ''web1'' ''hunter2'' demo_sudo = Some (True, st1) \<and>
     fst (get_password demo_cipher [] [] ''ann'' ''web1''
       (st1\<lparr>ss_keys := (ss_keys st1)\<lparr>sk_vault := demo_vault\<rparr>\<rparr>)) = Some ''hunter2''"
proof -
  have none: "sudo_derived_key [] (ss_keys demo_sudo) = (None, ss_keys demo_sudo)"
    by (simp add: sudo_derived_key_def derive_fernet_key_def load_or_create_key_def key_from_cmd_def demo_sudo_def demo_vault_def)
  have len: "length (dr_key demo_draws) = 44" "dr_key demo_draws \<noteq> []" "strip (take 4096 (dr_key demo_draws)) = dr_key demo_draws"
    by code_simp+
  obtain st1 where s: "set_password demo_cipher [] (dr_key demo_draws) ''n'' ''ann'' ''web1'' ''hunter2'' demo_sudo = Some (True, st1)"
    using none len
    by (simp add: set_password_def primary_key_def legacy_key_def demo_sudo_def demo_vault_def make_dir_def
        create_exclusive_def truthy_def demo_cipher_def Let_def)
  moreover have "va_crypto demo_vault" by (simp add: demo_vault_def)
  ultimately show ?thesis
    using sudo_password_kept [OF demo_cipher_ok len(3) s] none by simp
qed

end
