(* ===== verification/Web_Guard.thy ===== *)
theory Web_Guard
  imports Py_IpAddress
begin

text \<open>
  What stands in front of the console's handlers (\<^verbatim>\<open>webgui/server.py\<close>): the limit on request
  bodies, the origin check of changing requests, the client address behind trusted proxies, the
  in-memory login throttle, and the reduction of an uploaded file's name.

  A request is its method, its path, its headers by lower-case name (the first of a name counts),
  the session cookie and the peer's address.
\<close>

record request =
  rq_method :: string
  rq_path :: string
  rq_headers :: "(string \<times> string) list"
  rq_cookie :: "string option"
  rq_peer :: "string option"

definition hdr :: "string \<Rightarrow> request \<Rightarrow> string option" where
  "hdr name rq = map_of (rq_headers rq) name"

section \<open>Body limit\<close>

text \<open>\<open>None\<close> is the answer 413 before anything is read.  Otherwise the application sees the
  messages of the body, each with its length, until their sum exceeds the limit; from then on it
  sees a disconnect.\<close>

datatype message = Body nat | Disconnect

fun guarded_receive :: "nat \<Rightarrow> nat \<Rightarrow> message list \<Rightarrow> message list" where
  "guarded_receive cap seen [] = []"
| "guarded_receive cap seen (Disconnect # ms) = Disconnect # guarded_receive cap seen ms"
| "guarded_receive cap seen (Body n # ms) =
     (if cap < seen + n then Disconnect else Body n) # guarded_receive cap (seen + n) ms"

definition body_limit :: "nat \<Rightarrow> bool \<Rightarrow> string option \<Rightarrow> message list \<Rightarrow> message list option" where
  "body_limit max_bytes is_http content_length ms =
     (if \<not> is_http \<or> max_bytes = 0 then Some ms
      else if (case content_length of None \<Rightarrow> False
               | Some v \<Rightarrow> (case parse_int v of None \<Rightarrow> False | Some n \<Rightarrow> int max_bytes < n))
      then None
      else Some (guarded_receive max_bytes 0 ms))"

fun received :: "message list \<Rightarrow> nat" where
  "received [] = 0"
| "received (Body n # ms) = n + received ms"
| "received (Disconnect # ms) = received ms"

section \<open>The network location of a URL\<close>

text \<open>\<^verbatim>\<open>urllib.parse.urlsplit(url).netloc\<close>; \<open>None\<close> is its \<open>ValueError\<close>.\<close>

definition c0_or_space :: "char \<Rightarrow> bool" where
  "c0_or_space c = ((of_char c :: nat) \<le> 32)"

definition is_alpha :: "char \<Rightarrow> bool" where
  "is_alpha c = (is_upper c \<or> is_lower c)"

definition scheme_char :: "char \<Rightarrow> bool" where
  "scheme_char c = (is_alnum c \<or> c \<in> set ''+-.'')"

definition without_scheme :: "string \<Rightarrow> string" where
  "without_scheme url =
     (let pre = takeWhile (\<lambda>c. c \<noteq> CHR '':'') url
      in if pre \<noteq> url \<and> pre \<noteq> [] \<and> is_alpha (hd pre) \<and> list_all scheme_char pre
         then drop (length pre + 1) url else url)"

definition is_hex :: "char \<Rightarrow> bool" where
  "is_hex c = (hex_digit_val c \<noteq> None)"

definition bracketed_host_ok :: "string \<Rightarrow> bool" where
  "bracketed_host_ok h =
     (if h \<noteq> [] \<and> hd h = CHR ''v''
      then (let hex = takeWhile is_hex (tl h); rest = drop (length hex) (tl h)
            in hex \<noteq> [] \<and> 2 \<le> length rest \<and> hd rest = CHR ''.'' \<and> CHR 0x0A \<notin> set (tl rest))
      else (case ip_address h of None \<Rightarrow> False | Some a \<Rightarrow> ad_version a = V6))"

definition netloc :: "string \<Rightarrow> string option" where
  "netloc source =
     (let url = filter (\<lambda>c. c \<notin> {CHR 0x09, CHR 0x0A, CHR 0x0D}) (dropWhile c0_or_space source);
          rest = without_scheme url
      in if take 2 rest \<noteq> ''//'' then Some []
         else (let n = takeWhile (\<lambda>c. c \<notin> set ''/?#'') (drop 2 rest);
                   op = CHR ''['' \<in> set n; cl = CHR '']'' \<in> set n
               in if op \<noteq> cl then None
                  else if op \<and> \<not> bracketed_host_ok (takeWhile (\<lambda>c. c \<noteq> CHR '']'')
                                 (tl (dropWhile (\<lambda>c. c \<noteq> CHR ''['') n)))
                  then None else Some n))"

section \<open>Origin check\<close>

definition CSRF_SAFE_METHODS :: "string list" where
  "CSRF_SAFE_METHODS = [''GET'', ''HEAD'', ''OPTIONS'', ''TRACE'']"

text \<open>Whether the request goes on to the application; otherwise it is answered 403.\<close>

definition csrf_origin_guard :: "bool \<Rightarrow> request \<Rightarrow> bool" where
  "csrf_origin_guard trust_proxy rq =
     (if rq_method rq \<notin> set CSRF_SAFE_METHODS \<and> take 5 (rq_path rq) = ''/api/''
      then (let source = or_else (hdr ''origin'' rq) (or_else (hdr ''referer'' rq) [])
            in if source \<noteq> []
               then (let host = (if trust_proxy \<and> truthy (hdr ''x-forwarded-host'' rq)
                                 then the (hdr ''x-forwarded-host'' rq) else or_else (hdr ''host'' rq) [])
                     in netloc source = Some host)
               else \<not> truthy (rq_cookie rq))
      else True)"

section \<open>Client address\<close>

definition client_ip :: "bool \<Rightarrow> nat \<Rightarrow> request \<Rightarrow> string" where
  "client_ip trust_proxy hops rq =
     (let peer = (case rq_peer rq of None \<Rightarrow> ''unknown'' | Some h \<Rightarrow> h);
          fwd = or_else (hdr ''x-forwarded-for'' rq) [];
          parts = filter (\<lambda>p. p \<noteq> []) (map strip (split_on (CHR '','') fwd))
      in if trust_proxy \<and> parts \<noteq> []
         then parts ! (length parts - min hops (length parts)) else peer)"

section \<open>Login throttle\<close>

definition LOGIN_MAX_ATTEMPTS :: nat where "LOGIN_MAX_ATTEMPTS = 8"
definition LOGIN_WINDOW_S :: rat where "LOGIN_WINDOW_S = 300"
definition LOGIN_GLOBAL_MAX :: nat where "LOGIN_GLOBAL_MAX = 60"

record throttle =
  th_attempts :: "(string \<times> instant list) list"
  th_global :: "instant list"

definition hits_of :: "string \<Rightarrow> throttle \<Rightarrow> instant list" where
  "hits_of ip t = (case map_of (th_attempts t) ip of None \<Rightarrow> [] | Some hs \<Rightarrow> hs)"

definition put_hits :: "string \<Rightarrow> instant list \<Rightarrow> throttle \<Rightarrow> throttle" where
  "put_hits ip hs t = t\<lparr>th_attempts := (ip, hs) # filter (\<lambda>e. fst e \<noteq> ip) (th_attempts t)\<rparr>"

definition throttle_check :: "instant \<Rightarrow> string \<Rightarrow> throttle \<Rightarrow> unit response \<times> throttle" where
  "throttle_check now ip t =
     (let recent = filter (\<lambda>h. now - h < LOGIN_WINDOW_S);
          hits = recent (hits_of ip t);
          t1 = (put_hits ip hits t)\<lparr>th_global := recent (th_global t)\<rparr>;
          over = LOGIN_MAX_ATTEMPTS \<le> length hits;
          global_over = 0 < LOGIN_GLOBAL_MAX \<and> LOGIN_GLOBAL_MAX \<le> length (th_global t1)
      in (if over \<or> global_over then Inl (Http 429) else Inr (), t1))"

definition throttle_record_failure :: "instant \<Rightarrow> string \<Rightarrow> throttle \<Rightarrow> throttle" where
  "throttle_record_failure now ip t =
     (put_hits ip (hits_of ip t @ [now]) t)\<lparr>th_global := th_global t @ [now]\<rparr>"

definition throttle_success :: "string \<Rightarrow> throttle \<Rightarrow> throttle" where
  "throttle_success ip t = t\<lparr>th_attempts := filter (\<lambda>e. fst e \<noteq> ip) (th_attempts t)\<rparr>"

section \<open>Names of uploaded files\<close>

definition safe_upload_name :: "string \<Rightarrow> string \<Rightarrow> string" where
  "safe_upload_name name dflt =
     (let s = map (\<lambda>c. if c = CHR 0x5C then CHR ''/'' else c) (strip name);
          base = last (split_on (CHR ''/'') s)
      in if base \<in> {[], ''.'', ''..''} then dflt else base)"

section \<open>What the guards promise\<close>

lemma received_bound: "seen \<le> cap \<Longrightarrow> received (guarded_receive cap seen ms) \<le> cap - seen"
  and received_over: "cap < seen \<Longrightarrow> received (guarded_receive cap seen ms) = 0"
  by (induction cap seen ms rule: guarded_receive.induct) auto

text \<open>Of a request's body the application never sees more than the limit, however the length was
  declared; a body with a true declared length within the limit arrives whole.\<close>

theorem body_stays_bounded:
  assumes "0 < max_bytes"
  shows "(case body_limit max_bytes True len ms of None \<Rightarrow> True | Some seen \<Rightarrow> received seen \<le> max_bytes) \<and>
    (received ms \<le> max_bytes \<and> len = Some (show_int (int (received ms))) \<longrightarrow> body_limit max_bytes True len ms = Some ms)"
proof -
  have whole: "n + received ms \<le> cap \<Longrightarrow> guarded_receive cap n ms = ms" for n cap
    by (induction ms arbitrary: n rule: received.induct) (auto simp: add.assoc)
  show ?thesis using assms received_bound [of 0 max_bytes ms] whole [of 0 max_bytes]
    by (auto simp: body_limit_def)
qed

lemma body_stays_bounded_witness:
  "body_limit 10 True None [Body 6, Body 6] = Some [Body 6, Disconnect]"
  using body_stays_bounded [of 10 None "[Body 6, Body 6]"] by (simp add: body_limit_def)

text \<open>The host part of what a browser sends as origin or referrer.\<close>

definition host_text :: "string \<Rightarrow> bool" where
  "host_text h = list_all (\<lambda>c. \<not> c0_or_space c \<and> c \<notin> set ''/?#[]'') h"

lemma scheme_char_plain: "scheme_char c \<Longrightarrow> \<not> c0_or_space c" "scheme_char c \<Longrightarrow> c \<noteq> CHR '':''"
proof -
  have "is_alnum c \<Longrightarrow> 32 < (of_char c :: nat)" "\<not> is_alnum (CHR '':'')"
    by (auto simp: is_alnum_def is_digit_def is_upper_def is_lower_def Let_def)
  then show "scheme_char c \<Longrightarrow> \<not> c0_or_space c" "scheme_char c \<Longrightarrow> c \<noteq> CHR '':''"
    by (auto simp: scheme_char_def c0_or_space_def)
qed

lemma c0_not_removed: "\<not> c0_or_space c \<Longrightarrow> c \<notin> {CHR 0x09, CHR 0x0A, CHR 0x0D}"
  by (auto simp: c0_or_space_def)

lemma takeWhile_stop: "x \<notin> set xs \<Longrightarrow> takeWhile (\<lambda>c. c \<noteq> x) (xs @ x # ys) = xs"
  by (induction xs) auto

lemma dropWhile_solid: "list_all (\<lambda>c. \<not> P c) s \<Longrightarrow> dropWhile P s = s"
  by (cases s) auto

lemma netloc_url:
  assumes "scheme \<noteq> []" "is_alpha (hd scheme)" "list_all scheme_char scheme" "host_text h"
    and "path = [] \<or> hd path = CHR ''/''" "list_all (\<lambda>c. \<not> c0_or_space c) path"
  shows "netloc (scheme @ ''://'' @ h @ path) = Some h"
proof -
  let ?u = "scheme @ ''://'' @ h @ path"
  have "list_all (\<lambda>c. \<not> c0_or_space c) scheme"
    using assms(3) scheme_char_plain(1) unfolding list_all_iff by blast
  moreover have "list_all (\<lambda>c. \<not> c0_or_space c) ''://''" by (simp add: c0_or_space_def)
  moreover have "list_all (\<lambda>c. \<not> c0_or_space c) h"
    using assms(4) unfolding host_text_def list_all_iff by blast
  ultimately have solid: "list_all (\<lambda>c. \<not> c0_or_space c) ?u"
    using assms(6) by (simp only: list_all_append)
  then have kept: "\<not> c0_or_space c" if "c \<in> set ?u" for c using that unfolding list_all_iff by blast
  have colon: "CHR '':'' \<notin> set scheme" using assms(3) scheme_char_plain(2) unfolding list_all_iff by blast
  have drop: "dropWhile c0_or_space ?u = ?u" by (rule dropWhile_solid [OF solid])
  have filt: "filter (\<lambda>c. c \<notin> {CHR 0x09, CHR 0x0A, CHR 0x0D}) ?u = ?u"
    by (rule filter_True) (use kept c0_not_removed in blast)
  have pre: "takeWhile (\<lambda>c. c \<noteq> CHR '':'') ?u = scheme"
    using takeWhile_stop [OF colon, of "''//'' @ h @ path"] by simp
  have rest: "without_scheme ?u = ''//'' @ h @ path"
    unfolding without_scheme_def Let_def pre using assms(1-3) by simp
  have hp: "\<forall>c \<in> set h. c \<notin> set ''/?#'' \<and> c \<noteq> CHR ''['' \<and> c \<noteq> CHR '']''"
    using assms(4) by (auto simp: host_text_def list_all_iff)
  have take: "takeWhile (\<lambda>c. c \<notin> set ''/?#'') (h @ path) = h"
    using hp assms(5) by (cases path) (auto simp: takeWhile_append2)
  have "CHR ''['' \<notin> set h" "CHR '']'' \<notin> set h" using hp by auto
  then show ?thesis
    unfolding netloc_def Let_def drop filt rest using take by simp
qed

text \<open>C33: A changing request of a browser that carries the session cookie reaches the console
  exactly when it comes from a page of the console's own host: the browser sends the page's origin,
  or its URL as referrer, or neither, and then it is refused.  Without an Origin and Referer only a
  request without the cookie goes on.\<close>

theorem cross_site_requests_stop:
  assumes "rq_method rq \<notin> set CSRF_SAFE_METHODS" "take 5 (rq_path rq) = ''/api/''" "truthy (rq_cookie rq)"
    and "scheme \<noteq> []" "is_alpha (hd scheme)" "list_all scheme_char scheme" "host_text h"
    and "path = [] \<or> hd path = CHR ''/''" "list_all (\<lambda>c. \<not> c0_or_space c) path"
    and "hdr ''host'' rq = Some own" "own \<noteq> []"
    and "(hdr ''origin'' rq, hdr ''referer'' rq) \<in>
      {(Some (scheme @ ''://'' @ h), None), (Some (scheme @ ''://'' @ h), Some (scheme @ ''://'' @ h @ path)),
       (None, Some (scheme @ ''://'' @ h @ path)), (None, None)}"
  shows "csrf_origin_guard False rq \<longleftrightarrow> h = own \<and> (hdr ''origin'' rq, hdr ''referer'' rq) \<noteq> (None, None)"
proof -
  have n: "netloc (scheme @ ''://'' @ h) = Some h" "netloc (scheme @ ''://'' @ h @ path) = Some h"
    using netloc_url [of scheme h "[]"] netloc_url [of scheme h path] assms(4-9) by simp_all
  have ne: "or_else (Some (scheme @ ''://'' @ h)) d = scheme @ ''://'' @ h"
    "or_else (Some (scheme @ ''://'' @ h @ path)) d = scheme @ ''://'' @ h @ path" "or_else (Some own) d = own" for d
    using assms(11) by (simp_all add: or_else_def)
  have some: "scheme @ ''://'' @ x \<noteq> []" for x by simp
  from assms(12) consider "hdr ''origin'' rq = Some (scheme @ ''://'' @ h)"
    | "hdr ''origin'' rq = None" "hdr ''referer'' rq = Some (scheme @ ''://'' @ h @ path)"
    | "hdr ''origin'' rq = None" "hdr ''referer'' rq = None"
    unfolding insert_iff prod.inject empty_iff by argo
  then show ?thesis
    using assms(1-3,10) n ne some unfolding csrf_origin_guard_def Let_def by cases simp_all
qed

lemma cross_site_requests_stop_witness:
  "\<not> csrf_origin_guard False \<lparr>rq_method = ''POST'', rq_path = ''/api/fleet'',
     rq_headers = [(''host'', ''console:8443''), (''origin'', ''https://evil.example'')],
     rq_cookie = Some ''s'', rq_peer = Some ''10.0.0.9''\<rparr>"
  using cross_site_requests_stop [of "\<lparr>rq_method = ''POST'', rq_path = ''/api/fleet'',
     rq_headers = [(''host'', ''console:8443''), (''origin'', ''https://evil.example'')],
     rq_cookie = Some ''s'', rq_peer = Some ''10.0.0.9''\<rparr>" "''https''" "''evil.example''" "[]" "''console:8443''"]
  by (simp add: hdr_def CSRF_SAFE_METHODS_def is_alpha_def is_lower_def scheme_char_def is_alnum_def host_text_def c0_or_space_def)

section \<open>Who is the client\<close>

lemma split_on_not_Nil: "split_on c s \<noteq> []"
  by (induction s) (auto split: list.splits)

lemma split_on_append: "split_on c (s @ c # t) = split_on c s @ split_on c t"
  using split_on_not_Nil [of c] by (induction s) (auto split: list.splits)

lemma split_on_plain: "c \<notin> set s \<Longrightarrow> split_on c s = [s]"
  by (induction s) auto

text \<open>Behind as many proxies as configured, each of which appends the peer it saw to the header
  with any white space around it, the client address is the peer of the outermost of them, whatever
  the client itself wrote into the header, commas included; without a trusted proxy it is the socket's
  peer, whatever the header.\<close>

theorem client_address_not_spoofed:
  assumes "hops = Suc (length later)" "map strip (cell # cells) = seen # later"
    and "\<forall>p \<in> set (cell # cells). CHR '','' \<notin> set p" "[] \<notin> set (seen # later)"
    and "hdr ''x-forwarded-for'' rq = Some (concat (map (\<lambda>p. p @ '','') claimed) @ cell @ concat (map (\<lambda>p. '','' @ p) cells))"
  shows "client_ip True hops rq = seen \<and>
    client_ip False hops rq = (case rq_peer rq of None \<Rightarrow> ''unknown'' | Some h \<Rightarrow> h)"
proof -
  define f where "f = (\<lambda>s. filter (\<lambda>p. p \<noteq> []) (map strip (split_on (CHR '','') s)))"
  have tail: "f (p @ concat (map (\<lambda>p. '','' @ p) qs)) = map strip (p # qs)"
    if "\<forall>q \<in> set (p # qs). strip q \<noteq> [] \<and> CHR '','' \<notin> set q" for p qs
    using that
  proof (induction qs arbitrary: p)
    case Nil
    then show ?case by (simp add: f_def split_on_plain)
  next
    case (Cons q qs)
    have "f (p @ concat (map (\<lambda>p. '','' @ p) (q # qs))) = f p @ f (q @ concat (map (\<lambda>p. '','' @ p) qs))"
      using split_on_append [of "CHR '',''" p] by (simp add: f_def)
    moreover have "f (q @ concat (map (\<lambda>p. '','' @ p) qs)) = map strip (q # qs)"
      by (rule Cons.IH) (use Cons.prems in auto)
    ultimately show ?case using Cons.prems by (simp add: f_def split_on_plain)
  qed
  have head: "\<exists>xs. f (concat (map (\<lambda>p. p @ '','') claimed) @ s) = xs @ f s" for s
  proof (induction claimed)
    case (Cons q qs)
    then obtain xs where "f (concat (map (\<lambda>p. p @ '','') qs) @ s) = xs @ f s" by blast
    then have "f (concat (map (\<lambda>p. p @ '','') (q # qs)) @ s) = (f q @ xs) @ f s"
      using split_on_append [of "CHR '',''" q] by (simp add: f_def)
    then show ?case by blast
  qed simp
  let ?h = "concat (map (\<lambda>p. p @ '','') claimed) @ cell @ concat (map (\<lambda>p. '','' @ p) cells)"
  have "\<forall>q \<in> set (cell # cells). strip q \<noteq> [] \<and> CHR '','' \<notin> set q"
    using assms(2-4) by (metis image_eqI list.set_map)
  from tail [OF this] have t: "f (cell @ concat (map (\<lambda>p. '','' @ p) cells)) = seen # later" using assms(2) by simp
  obtain xs where "f ?h = xs @ f (cell @ concat (map (\<lambda>p. '','' @ p) cells))" using head by blast
  then have parts: "f ?h = xs @ seen # later" using t by simp
  have "cell \<noteq> []" using assms(2,4) by (auto simp: strip_def)
  then have ne: "or_else (Some ?h) [] = ?h" by (simp add: or_else_def)
  have "client_ip True hops rq = (xs @ seen # later) ! (length (xs @ seen # later) - min hops (length (xs @ seen # later)))"
    unfolding client_ip_def Let_def assms(5) ne parts [unfolded f_def] by simp
  then show ?thesis using assms(1) by (simp add: nth_append client_ip_def)
qed

lemma client_address_not_spoofed_witness:
  "client_ip True 1 \<lparr>rq_method = ''POST'', rq_path = ''/api/login'',
     rq_headers = [(''x-forwarded-for'', ''9.9.9.9, 1.2.3.4'')], rq_cookie = None, rq_peer = Some ''10.0.0.1''\<rparr> = ''1.2.3.4''"
proof -
  have "strip '' 1.2.3.4'' = ''1.2.3.4''" by code_simp
  then show ?thesis
    using client_address_not_spoofed [of 1 "[]" "'' 1.2.3.4''" "[]" "''1.2.3.4''" "\<lparr>rq_method = ''POST'', rq_path = ''/api/login'',
       rq_headers = [(''x-forwarded-for'', ''9.9.9.9, 1.2.3.4'')], rq_cookie = None, rq_peer = Some ''10.0.0.1''\<rparr>" "[''9.9.9.9'']"]
    by (simp add: hdr_def)
qed

section \<open>How many guesses get through\<close>

text \<open>The steps in which the threads that handle logins touch the throttle, in the order in which they take
  its lock: an attempt is checked; the controller answered an attempt that was let through with 401;
  with a login; or in any other way, its own lock included, or not at all.  The state counts the attempts
  that were let through and are not answered yet, and lists when passwords were denied.  There are
  \<open>n\<close> threads, so no more than \<open>n\<close> attempts are under way at a time.\<close>

datatype login_event = Attempt instant string | Denied instant string | Welcomed string | Unanswered

type_synonym login_state = "throttle \<times> nat \<times> instant list"

definition login_step :: "login_event \<Rightarrow> login_state \<Rightarrow> login_state option" where
  "login_step e s =
     (case s of (t, under_way, denied) \<Rightarrow>
        case e of
          Attempt now ip \<Rightarrow>
            (case throttle_check now ip t of
               (Inl _, t1) \<Rightarrow> Some (t1, under_way, denied)
             | (Inr _, t1) \<Rightarrow> Some (t1, Suc under_way, denied))
        | Denied now ip \<Rightarrow>
            if under_way = 0 then None
            else Some (throttle_record_failure now ip t, under_way - 1, denied @ [now])
        | Welcomed ip \<Rightarrow> if under_way = 0 then None else Some (throttle_success ip t, under_way - 1, denied)
        | Unanswered \<Rightarrow> if under_way = 0 then None else Some (t, under_way - 1, denied))"

fun login_run :: "nat \<Rightarrow> login_event list \<Rightarrow> login_state \<Rightarrow> login_state option" where
  "login_run n [] s = Some s"
| "login_run n (e # es) s =
     (case login_step e s of None \<Rightarrow> None
      | Some s1 \<Rightarrow> if fst (snd s1) \<le> n then login_run n es s1 else None)"

text \<open>The clock readings of the steps.\<close>

fun readings :: "login_event list \<Rightarrow> instant list" where
  "readings [] = []"
| "readings (Attempt now ip # es) = now # readings es"
| "readings (Denied now ip # es) = now # readings es"
| "readings (e # es) = readings es"

definition no_attempts :: throttle where
  "no_attempts = \<lparr>th_attempts = [], th_global = []\<rparr>"

definition in_window :: "instant \<Rightarrow> instant list \<Rightarrow> instant list" where
  "in_window t hs = filter (\<lambda>h. t - LOGIN_WINDOW_S < h \<and> h \<le> t) hs"

text \<open>The throttle remembers the denials of the window before any later time.\<close>

definition remembers :: "instant \<Rightarrow> login_state \<Rightarrow> bool" where
  "remembers now s =
     ((\<forall>h \<in> set (snd (snd s)). h \<le> now) \<and>
      filter (\<lambda>h. now - h < LOGIN_WINDOW_S) (th_global (fst s)) =
      filter (\<lambda>h. now - h < LOGIN_WINDOW_S) (snd (snd s)))"

lemma filter_later:
  assumes "filter (\<lambda>h. now - h < w) xs = filter (\<lambda>h. now - h < w) ys" "now \<le> (now' :: rat)"
  shows "filter (\<lambda>h. now' - h < w) xs = filter (\<lambda>h. now' - h < w) ys"
proof -
  have "filter (\<lambda>h. now' - h < w) zs = filter (\<lambda>h. now' - h < w) (filter (\<lambda>h. now - h < w) zs)" for zs
    using assms(2) by (auto simp: filter_filter intro!: filter_cong)
  then show ?thesis using assms(1) by metis
qed

lemma remembers_later: "remembers now s \<Longrightarrow> now \<le> now' \<Longrightarrow> remembers now' s"
  using filter_later unfolding remembers_def by (meson order_trans)

text \<open>What bounds the denials of a window \<open>t\<close>: while fewer than the maximum fell into it nothing is owed;
  from then on no attempt within it is let through, so the ones under way are all that can follow.\<close>

definition bounded :: "nat \<Rightarrow> instant \<Rightarrow> login_state \<Rightarrow> bool" where
  "bounded n t s =
     (length (in_window t (snd (snd s))) < LOGIN_GLOBAL_MAX \<or>
      length (in_window t (snd (snd s))) + fst (snd s) < LOGIN_GLOBAL_MAX + n)"

lemma attempt_step:
  assumes "remembers now s" "bounded n t s" "login_step (Attempt now ip) s = Some s1" "now \<le> t"
  shows "remembers now s1 \<and> bounded n t s1"
proof -
  let ?recent = "filter (\<lambda>h. now - h < LOGIN_WINDOW_S)"
  obtain th k ds where s: "s = (th, k, ds)" by (cases s)
  obtain r th1 where c: "throttle_check now ip th = (r, th1)" by fastforce
  have g: "th_global th1 = ?recent (th_global th)"
    using c by (auto simp: throttle_check_def Let_def put_hits_def)
  have old: "?recent (th_global th) = ?recent ds" "\<forall>h \<in> set ds. h \<le> now"
    using assms(1) by (simp_all add: remembers_def s)
  obtain k1 where s1: "s1 = (th1, k1, ds)" "k1 = (if r = Inr () then Suc k else k)"
    using assms(3) s c by (cases r) (auto simp: login_step_def)
  have "bounded n t s1"
  proof (cases "r = Inr ()")
    case True
    then have "length (th_global th1) < LOGIN_GLOBAL_MAX"
      using c by (auto simp: throttle_check_def Let_def LOGIN_GLOBAL_MAX_def split: if_splits)
    moreover have "length (in_window t ds) \<le> length (?recent ds)"
    proof -
      have "in_window t ds = filter (\<lambda>h. t - LOGIN_WINDOW_S < h \<and> h \<le> t) (?recent ds)"
        using assms(4) by (auto simp: in_window_def filter_filter intro!: filter_cong)
      then show ?thesis by (metis length_filter_le)
    qed
    ultimately show ?thesis using g old(1) by (simp add: bounded_def s1)
  next
    case False
    then show ?thesis using assms(2) s s1 by (simp add: bounded_def)
  qed
  moreover have "remembers now s1" using old g by (simp add: remembers_def s1)
  ultimately show ?thesis by blast
qed

lemma answer_step:
  assumes "remembers now s" "bounded n t s" "login_step e s = Some s1" "fst (snd s) \<le> n"
    and "e = Denied now ip \<or> e = Welcomed ip \<or> e = Unanswered"
  shows "remembers now s1 \<and> bounded n t s1"
proof -
  obtain th k ds where s: "s = (th, k, ds)" by (cases s)
  have k: "k \<noteq> 0" using assms(3,5) s by (auto simp: login_step_def split: if_splits)
  from assms(5) show ?thesis
  proof (elim disjE)
    assume "e = Denied now ip"
    then have s1: "s1 = (throttle_record_failure now ip th, k - 1, ds @ [now])"
      using assms(3) s k by (simp add: login_step_def)
    have "length (in_window t (ds @ [now])) \<le> Suc (length (in_window t ds))" by (simp add: in_window_def)
    then have "bounded n t s1" using assms(2,4) s s1 k by (auto simp: bounded_def)
    moreover have "remembers now s1"
      using assms(1) s by (auto simp: remembers_def s1 throttle_record_failure_def put_hits_def)
    ultimately show ?thesis by blast
  next
    assume "e = Welcomed ip"
    then have s1: "s1 = (throttle_success ip th, k - 1, ds)" using assms(3) s k by (simp add: login_step_def)
    show ?thesis using assms(1,2) s s1 by (auto simp: remembers_def bounded_def throttle_success_def)
  next
    assume "e = Unanswered"
    then have s1: "s1 = (th, k - 1, ds)" using assms(3) s k by (simp add: login_step_def)
    show ?thesis using assms(1,2) s s1 by (auto simp: remembers_def bounded_def)
  qed
qed

text \<open>After the window nothing falls into it any more.\<close>

lemma late_steps:
  assumes "login_run n es s = Some s1" "\<forall>x \<in> set (readings es). t < x"
  shows "in_window t (snd (snd s1)) = in_window t (snd (snd s))"
  using assms
proof (induction es arbitrary: s)
  case (Cons e es)
  obtain s2 where s2: "login_step e s = Some s2" "login_run n es s2 = Some s1"
    using Cons.prems(1) by (auto split: option.splits if_splits)
  have "in_window t (snd (snd s2)) = in_window t (snd (snd s))"
    using s2(1) Cons.prems(2)
    by (cases e) (auto simp: login_step_def in_window_def split: prod.splits sum.splits if_splits)
  moreover have "in_window t (snd (snd s1)) = in_window t (snd (snd s2))"
    by (rule Cons.IH [OF s2(2)]) (use Cons.prems(2) in \<open>cases e; simp\<close>)
  ultimately show ?case by simp
qed simp

lemma run_bounded:
  assumes "login_run n es s = Some s1" "sorted (readings es)" "\<forall>x \<in> set (readings es). now \<le> x"
    and "remembers now s" "bounded n t s" "fst (snd s) \<le> n" "0 < n"
  shows "length (in_window t (snd (snd s1))) < LOGIN_GLOBAL_MAX + n"
  using assms(1-6)
proof (induction es arbitrary: now s)
  case Nil
  then show ?case using assms(7) by (auto simp: bounded_def)
next
  case (Cons e es)
  obtain s2 where s2: "login_step e s = Some s2" "fst (snd s2) \<le> n" "login_run n es s2 = Some s1"
    using Cons.prems(1) by (auto split: option.splits if_splits)
  have fine: "length (in_window t (snd (snd s))) < LOGIN_GLOBAL_MAX + n"
    using Cons.prems(5) assms(7) by (auto simp: bounded_def)
  show ?case
  proof (cases "\<exists>x. readings (e # es) = x # readings es \<and> t < x")
    case True
    then have "\<forall>x \<in> set (readings (e # es)). t < x" using Cons.prems(2) by fastforce
    then show ?thesis using late_steps [OF Cons.prems(1)] fine by simp
  next
    case False
    define now' where "now' = (case e of Attempt x ip \<Rightarrow> x | Denied x ip \<Rightarrow> x | _ \<Rightarrow> now)"
    have "now \<le> now'" using Cons.prems(3) by (cases e) (simp_all add: now'_def)
    then have r: "remembers now' s" using remembers_later Cons.prems(4) by blast
    have "remembers now' s2 \<and> bounded n t s2"
    proof (cases e)
      case (Attempt x ip)
      then show ?thesis using attempt_step [OF _ Cons.prems(5), of x ip] r s2(1) False by (auto simp: now'_def)
    qed (use answer_step [OF r Cons.prems(5) s2(1) Cons.prems(6)] now'_def in auto)
    moreover have "sorted (readings es)" "\<forall>x \<in> set (readings es). now' \<le> x"
      using Cons.prems(2,3) by (cases e; simp add: now'_def)+
    ultimately show ?thesis using Cons.IH [OF s2(3)] s2(2) by blast
  qed
qed

text \<open>C35: However guesses are spread over addresses and over the threads that handle them, in any
  window of the throttle fewer than its global maximum plus the number of threads are answered as
  wrong passwords: as many as the maximum with one thread.  Attempts the controller answers otherwise
  (its own lock, an error) or whose answer is lost are not counted; they tell the guesser nothing about
  the password.\<close>

theorem guesses_are_bounded:
  assumes "login_run n es (no_attempts, 0, []) = Some (t, under_way, denied)" "0 < n" "sorted (readings es)"
  shows "length (in_window w denied) < LOGIN_GLOBAL_MAX + n"
proof -
  define now :: instant where "now = Min (insert 0 (set (readings es)))"
  have "\<forall>x \<in> set (readings es). now \<le> x" by (simp add: now_def)
  moreover have "remembers now (no_attempts, 0, [])" "bounded n w (no_attempts, 0, [])"
    by (simp_all add: remembers_def no_attempts_def bounded_def in_window_def LOGIN_GLOBAL_MAX_def)
  ultimately show ?thesis using run_bounded [OF assms(1,3)] assms(2) by force
qed

text \<open>Two threads: with both attempts let through, both passwords are denied.\<close>

lemma guesses_are_bounded_witness:
  "\<exists>t. login_run 2 [Attempt 5 ''10.0.0.9'', Attempt 6 ''10.0.0.8'', Denied 7 ''10.0.0.9'', Denied 8 ''10.0.0.8''] (no_attempts, 0, []) =
      Some (t, 0, [7, 8]) \<and> length (in_window 100 [7, 8]) < 62"
proof -
  let ?es = "[Attempt 5 ''10.0.0.9'', Attempt 6 ''10.0.0.8'', Denied 7 ''10.0.0.9'', Denied 8 ''10.0.0.8'']"
  have "\<exists>t. login_run 2 ?es (no_attempts, 0, []) = Some (t, 0, [7, 8])"
    by (simp add: login_step_def throttle_check_def no_attempts_def hits_of_def put_hits_def
        LOGIN_MAX_ATTEMPTS_def LOGIN_GLOBAL_MAX_def Let_def)
  moreover have "sorted (readings ?es)" by simp
  ultimately show ?thesis
    using guesses_are_bounded [of 2 ?es _ 0 "[7, 8]" 100] by (fastforce simp: LOGIN_GLOBAL_MAX_def)
qed

text \<open>A locked address stays locked for the rest of its window, and its attempts never reach the
  controller.\<close>

lemma locked_address_refused:
  assumes "LOGIN_MAX_ATTEMPTS \<le> length (filter (\<lambda>h. now - h < LOGIN_WINDOW_S) (hits_of ip t))"
  shows "fst (throttle_check now ip t) = Inl (Http 429)"
  using assms by (simp add: throttle_check_def Let_def)

section \<open>Upload names\<close>

lemma split_on_parts: "p \<in> set (split_on c s) \<Longrightarrow> c \<notin> set p \<and> set p \<subseteq> set s"
proof (induction s arbitrary: p)
  case (Cons a s)
  obtain w ws where "split_on c s = w # ws" using split_on_not_Nil by (meson neq_Nil_conv)
  then have "p = [] \<or> p = w \<or> p = a # w \<and> a \<noteq> c \<or> p \<in> set ws" "set (split_on c s) = insert w (set ws)"
    using Cons.prems by (auto split: if_splits)
  then show ?case using Cons.IH [of p] Cons.IH [of w] by auto
qed simp

text \<open>The name a file is stored under is a plain name: joined to a directory it stays inside.\<close>

lemma upload_name_is_plain:
  assumes "CHR ''/'' \<notin> set dflt" "CHR 0x5C \<notin> set dflt" "dflt \<notin> {[], ''.'', ''..''}"
  shows "CHR ''/'' \<notin> set (safe_upload_name name dflt) \<and> CHR 0x5C \<notin> set (safe_upload_name name dflt) \<and>
    safe_upload_name name dflt \<notin> {[], ''.'', ''..''}"
proof -
  let ?s = "map (\<lambda>c. if c = CHR 0x5C then CHR ''/'' else c) (strip name)"
  let ?b = "last (split_on (CHR ''/'') ?s)"
  have "CHR ''/'' \<notin> set ?b \<and> set ?b \<subseteq> set ?s" using split_on_parts [of ?b] split_on_not_Nil by (meson last_in_set)
  moreover have "CHR 0x5C \<notin> set ?s" by auto
  ultimately have "CHR ''/'' \<notin> set ?b \<and> CHR 0x5C \<notin> set ?b" by blast
  then show ?thesis using assms by (simp add: safe_upload_name_def Let_def)
qed

end
