(* ===== verification/Web_Session.thy ===== *)
theory Web_Session
  imports Web_Guard Sudo_Store App_Admins
begin

text \<open>
  The console's sessions (\<^verbatim>\<open>webgui/server.py\<close>): the signed cookie's content, single sign-on
  through the gateway, the re-check of the administrator's token against the controller, the gates
  every route depends on, and the handlers of login, first set-up, logout and the session's own
  routes.

  The console talks to the controller of this development: a call is one of its handlers, with the
  console's machine key, and may be lost on the way.  The session is the content of the cookie the
  request came with; a handler returns the content of the cookie it sets.
\<close>

section \<open>State\<close>

record session =
  se_user :: "string option"
  se_role :: "string option"
  se_sudo_connect :: bool
  se_token_enc :: "string option"
  se_must_change :: bool
  se_sso :: bool
  se_reval_at :: "instant option"

definition cleared :: session where
  "cleared = \<lparr>se_user = None, se_role = None, se_sudo_connect = False, se_token_enc = None,
     se_must_change = False, se_sso = False, se_reval_at = None\<rparr>"

record console =
  co_settings :: settings
  co_key :: "string option"
  co_trust_sso :: bool
  co_sso_secret :: string
  co_trust_proxy :: bool
  co_hops :: nat
  co_cipher :: fernet
  co_self :: "string option"

record world =
  wo_ctrl :: controller
  wo_keys :: sudo_keys
  wo_throttle :: throttle

text \<open>What a request may draw: the controller's token, salt and throw-away password, and the
  keys and nonce of the cipher.\<close>

record luck =
  lk_token :: string
  lk_salt :: string
  lk_password :: string
  lk_nonce :: string
  lk_key :: string
  lk_file_key :: string

section \<open>Calls to the controller\<close>

datatype delivery = Arrives | Request_Lost | Answer_Lost

datatype 'a outcome = Answer 'a | Rejected nat | Unreachable

definition send ::
    "delivery \<Rightarrow> (controller \<Rightarrow> 'a response \<times> controller) \<Rightarrow> world \<Rightarrow> 'a outcome \<times> world" where
  "send del f w =
     (case del of
        Request_Lost \<Rightarrow> (Unreachable, w)
      | Answer_Lost \<Rightarrow> (Unreachable, w\<lparr>wo_ctrl := snd (f (wo_ctrl w))\<rparr>)
      | Arrives \<Rightarrow>
          (case f (wo_ctrl w) of
             (Inl (Http n), c) \<Rightarrow> (Rejected n, w\<lparr>wo_ctrl := c\<rparr>)
           | (Inr x, c) \<Rightarrow> (Answer x, w\<lparr>wo_ctrl := c\<rparr>)))"

section \<open>The administrator's token in the cookie\<close>

definition encrypt_token :: "console \<Rightarrow> luck \<Rightarrow> string \<Rightarrow> world \<Rightarrow> string option \<times> world" where
  "encrypt_token co lk token w =
     (if token = [] then (None, w)
      else (case primary_key (lk_key lk) (lk_file_key lk) (wo_keys w) of (k, ks) \<Rightarrow>
              (if truthy k \<and> fe_valid (co_cipher co) (the k)
               then Some (fe_encrypt (co_cipher co) (the k) (lk_nonce lk) token) else None,
               w\<lparr>wo_keys := ks\<rparr>)))"

definition token_from_session :: "console \<Rightarrow> luck \<Rightarrow> session \<Rightarrow> world \<Rightarrow> string option \<times> world" where
  "token_from_session co lk s w =
     (if \<not> truthy (se_token_enc s) then (None, w)
      else (case read_keys (lk_key lk) (lk_file_key lk) (wo_keys w) of (ks, keys') \<Rightarrow>
              (open_with (co_cipher co) ks (the (se_token_enc s)), w\<lparr>wo_keys := keys'\<rparr>)))"

section \<open>Single sign-on\<close>

definition sso_only :: "console \<Rightarrow> bool" where
  "sso_only co = (co_trust_sso co \<and> co_sso_secret co \<noteq> [])"

definition SSO_ROLE_MAP :: "(string \<times> string) list" where
  "SSO_ROLE_MAP = [(''superuser'', ''superuser''), (''operator'', ''sysadmin''), (''auditor'', ''auditor'')]"

definition sso_identity :: "console \<Rightarrow> request \<Rightarrow> (string \<times> string) option" where
  "sso_identity co rq =
     (if \<not> (co_trust_sso co \<and> co_sso_secret co \<noteq> []) then None
      else if or_else (hdr ''x-sysible-auth'' rq) [] \<noteq> co_sso_secret co then None
      else (let user = strip (or_else (hdr ''x-sysible-user'' rq) [])
            in if user = [] then None
               else Some (user,
                      case map_of SSO_ROLE_MAP (lower (strip (or_else (hdr ''x-sysible-role'' rq) []))) of
                        None \<Rightarrow> ''auditor'' | Some r \<Rightarrow> r)))"

definition ensure_sso_session ::
    "console \<Rightarrow> instant \<Rightarrow> delivery \<Rightarrow> luck \<Rightarrow> request \<Rightarrow> session \<times> world \<Rightarrow> session \<times> world" where
  "ensure_sso_session co now del lk rq st =
     (case sso_identity co rq of None \<Rightarrow> st
      | Some (user, role) \<Rightarrow>
        (let s = fst st;
             same = se_sso s \<and> se_user s = Some user \<and> se_role s = Some role;
             (tok, w) = (if same then token_from_session co lk s (snd st) else (None, snd st))
         in if same \<and> truthy tok then (s, w)
            else (case send del (admin_sso_provision (co_settings co) now (co_key co)
                         (if co_sso_secret co = [] then None else Some (co_sso_secret co)) (co_self co)
                         (Some user) (Some role) (lk_salt lk) (lk_password lk) (lk_token lk)) w of
                    (Answer (u, r, token, sudo), w1) \<Rightarrow>
                      (let s1 = cleared\<lparr>se_sso := True, se_user := Some user,
                                  se_role := Some (or_else (Some r) role), se_sudo_connect := sudo\<rparr>
                       in if token = [] then (s1, w1)
                          else (case encrypt_token co lk token w1 of
                                  (enc, w2) \<Rightarrow> (s1\<lparr>se_token_enc := enc\<rparr>, w2)))
                  | (_, w1) \<Rightarrow> (s, w1))))"

definition require_gateway_when_sso :: "console \<Rightarrow> request \<Rightarrow> session \<times> world \<Rightarrow> unit response \<times> session \<times> world" where
  "require_gateway_when_sso co rq st =
     (if sso_only co \<and> sso_identity co rq = None then (Inl (Http 401), cleared, snd st)
      else (Inr (), st))"

section \<open>The re-check of a session\<close>

definition SESSION_REVAL_TTL :: rat where "SESSION_REVAL_TTL = 60"

definition revalidate_session ::
    "console \<Rightarrow> instant \<Rightarrow> delivery \<Rightarrow> luck \<Rightarrow> session \<times> world \<Rightarrow> unit response \<times> session \<times> world" where
  "revalidate_session co now del lk st =
     (case token_from_session co lk (fst st) (snd st) of (tok, w) \<Rightarrow>
        (let s = fst st
         in if \<not> truthy tok then (Inr (), s, w)
            else if now - (case se_reval_at s of None \<Rightarrow> 0 | Some t \<Rightarrow> t) < SESSION_REVAL_TTL
            then (Inr (), s, w)
            else (case send del (admin_whoami (co_settings co) now (co_key co) tok) w of
                    (Rejected n, w1) \<Rightarrow>
                      (if n = 401 \<or> n = 403 then (Inl (Http 401), cleared, w1) else (Inr (), s, w1))
                  | (Unreachable, w1) \<Rightarrow> (Inr (), s, w1)
                  | (Answer (u, r), w1) \<Rightarrow>
                      (let s1 = s\<lparr>se_reval_at := Some now\<rparr>
                       in (Inr (), if truthy r then s1\<lparr>se_role := r\<rparr> else s1, w1)))))"

section \<open>The gates\<close>

text \<open>The steps the gates share: gateway identity, gateway requirement, a user, the re-check.\<close>

definition require_login ::
    "console \<Rightarrow> instant \<Rightarrow> delivery \<Rightarrow> delivery \<Rightarrow> luck \<Rightarrow> request \<Rightarrow> session \<times> world \<Rightarrow>
     string response \<times> session \<times> world" where
  "require_login co now del del' lk rq st =
     (case require_gateway_when_sso co rq (ensure_sso_session co now del lk rq st) of
        (Inl e, st1) \<Rightarrow> (Inl e, st1)
      | (Inr _, st1) \<Rightarrow>
          if \<not> truthy (se_user (fst st1)) then (Inl (Http 401), st1)
          else (case revalidate_session co now del' lk st1 of
                  (Inl e, st2) \<Rightarrow> (Inl e, st2)
                | (Inr _, st2) \<Rightarrow> (Inr (the (se_user (fst st1))), st2)))"

definition require_login_changed ::
    "console \<Rightarrow> instant \<Rightarrow> delivery \<Rightarrow> delivery \<Rightarrow> luck \<Rightarrow> request \<Rightarrow> session \<times> world \<Rightarrow>
     string response \<times> session \<times> world" where
  "require_login_changed co now del del' lk rq st =
     (case require_login co now del del' lk rq st of
        (Inl e, st1) \<Rightarrow> (Inl e, st1)
      | (Inr u, st1) \<Rightarrow> (if se_must_change (fst st1) then Inl (Http 403) else Inr u, st1))"

definition require_operator ::
    "console \<Rightarrow> instant \<Rightarrow> delivery \<Rightarrow> delivery \<Rightarrow> luck \<Rightarrow> request \<Rightarrow> session \<times> world \<Rightarrow>
     string response \<times> session \<times> world" where
  "require_operator co now del del' lk rq st =
     (case require_login co now del del' lk rq st of
        (Inl e, st1) \<Rightarrow> (Inl e, st1)
      | (Inr u, st1) \<Rightarrow>
          (if se_role (fst st1) = Some ''auditor'' then Inl (Http 403)
           else if se_must_change (fst st1) then Inl (Http 403) else Inr u, st1))"

definition require_superuser_session ::
    "console \<Rightarrow> instant \<Rightarrow> delivery \<Rightarrow> delivery \<Rightarrow> luck \<Rightarrow> request \<Rightarrow> session \<times> world \<Rightarrow>
     string response \<times> session \<times> world" where
  "require_superuser_session co now del del' lk rq st =
     (case require_login co now del del' lk rq st of
        (Inl e, st1) \<Rightarrow> (Inl e, st1)
      | (Inr u, st1) \<Rightarrow>
          (if se_role (fst st1) \<noteq> Some ''superuser'' then Inl (Http 403)
           else if se_must_change (fst st1) then Inl (Http 403) else Inr u, st1))"

section \<open>Login and logout\<close>

text \<open>What the new session holds after the controller issued a token.\<close>

definition established ::
    "console \<Rightarrow> luck \<Rightarrow> string \<Rightarrow> string \<Rightarrow> bool \<Rightarrow> bool \<Rightarrow> string \<Rightarrow> world \<Rightarrow> session \<times> world" where
  "established co lk user role sudo must token w =
     (let s = cleared\<lparr>se_user := Some user, se_role := Some role, se_sudo_connect := sudo, se_must_change := must\<rparr>
      in if token = [] then (s, w)
         else (case encrypt_token co lk token w of (enc, w1) \<Rightarrow> (s\<lparr>se_token_enc := enc\<rparr>, w1)))"

definition login_route ::
    "console \<Rightarrow> instant \<Rightarrow> instant \<Rightarrow> delivery \<Rightarrow> luck \<Rightarrow> request \<Rightarrow> string \<Rightarrow> string \<Rightarrow> session \<times> world \<Rightarrow>
     (string \<times> string) response \<times> session \<times> world" where
  "login_route co now after del lk rq username password st =
     (if sso_only co then (Inl (Http 403), st)
      else (let s = fst st; w = snd st; ip = client_ip (co_trust_proxy co) (co_hops co) rq
            in case throttle_check now ip (wo_throttle w) of
                 (Inl e, t) \<Rightarrow> (Inl e, s, w\<lparr>wo_throttle := t\<rparr>)
               | (Inr _, t) \<Rightarrow>
                 (case send del (admin_login (co_settings co) now (co_key co) (strip username) password
                        (lk_salt lk) (lk_token lk)) (w\<lparr>wo_throttle := t\<rparr>) of
                    (Rejected n, w1) \<Rightarrow>
                      (Inl (Http n), s,
                       if n = 401 then w1\<lparr>wo_throttle := throttle_record_failure after ip (wo_throttle w1)\<rparr> else w1)
                  | (Unreachable, w1) \<Rightarrow> (Inl (Http 502), s, w1)
                  | (Answer a, w1) \<Rightarrow>
                      (let w2 = w1\<lparr>wo_throttle := throttle_success ip (wo_throttle w1)\<rparr>;
                           role = or_else (Some (la_role a)) ''auditor''
                       in case established co lk (strip username) role (la_sudo_connect a)
                                 (la_must_change a) (la_token a) w2 of
                            (s1, w3) \<Rightarrow> (Inr (strip username, role), s1, w3)))))"

definition admin_setup_required_console :: "console \<Rightarrow> bool outcome \<Rightarrow> bool" where
  "admin_setup_required_console co answer =
     (if sso_only co then False else (case answer of Answer b \<Rightarrow> b | _ \<Rightarrow> False))"

definition admin_setup_console ::
    "console \<Rightarrow> instant \<Rightarrow> delivery \<Rightarrow> luck \<Rightarrow> string \<Rightarrow> string \<Rightarrow> session \<times> world \<Rightarrow>
     (string \<times> string) response \<times> session \<times> world" where
  "admin_setup_console co now del lk username_in password st =
     (let username = strip username_in; s = fst st
      in if sso_only co then (Inl (Http 403), st)
         else if username = [] \<or> password = [] then (Inl (Http 400), st)
         else (case send del (admin_setup (co_settings co) now (co_key co) username password
                      (lk_salt lk) (lk_token lk)) (snd st) of
                 (Rejected n, w) \<Rightarrow> (Inl (Http n), s, w)
               | (Unreachable, w) \<Rightarrow> (Inl (Http 502), s, w)
               | (Answer token, w) \<Rightarrow>
                   (case established co lk username ''superuser'' False False token w of
                      (s1, w1) \<Rightarrow> (Inr (username, ''superuser''), s1, w1))))"

definition logout_route ::
    "console \<Rightarrow> instant \<Rightarrow> delivery \<Rightarrow> luck \<Rightarrow> session \<times> world \<Rightarrow> session \<times> world" where
  "logout_route co now del lk st =
     (case token_from_session co lk (fst st) (snd st) of (tok, w) \<Rightarrow>
        (cleared, if truthy tok then snd (send del (admin_logout (co_settings co) now (co_key co) tok) w) else w))"

text \<open>\<open>GET /api/me\<close> and the gateway's probe \<open>GET /api/auth/verify\<close>: the user and the role.\<close>

definition me ::
    "console \<Rightarrow> instant \<Rightarrow> delivery \<Rightarrow> luck \<Rightarrow> request \<Rightarrow> session \<times> world \<Rightarrow>
     (string \<times> string) response \<times> session \<times> world" where
  "me co now del lk rq st =
     (case require_gateway_when_sso co rq (ensure_sso_session co now del lk rq st) of
        (Inl e, st1) \<Rightarrow> (Inl e, st1)
      | (Inr _, st1) \<Rightarrow>
          (if \<not> truthy (se_user (fst st1)) then Inl (Http 401)
           else Inr (the (se_user (fst st1)), or_else (se_role (fst st1)) ''auditor''), st1))"

definition auth_verify ::
    "console \<Rightarrow> instant \<Rightarrow> delivery \<Rightarrow> luck \<Rightarrow> request \<Rightarrow> session \<times> world \<Rightarrow>
     (string \<times> string) response \<times> session \<times> world" where
  "auth_verify co now del lk rq st =
     (let st1 = ensure_sso_session co now del lk rq st
      in (if \<not> truthy (se_user (fst st1)) then Inl (Http 401)
          else Inr (the (se_user (fst st1)), or_else (se_role (fst st1)) ''auditor''), st1))"

text \<open>The own account's password or name; only a new password lifts the forced change.\<close>

definition change_credentials ::
    "console \<Rightarrow> instant \<Rightarrow> delivery \<Rightarrow> delivery \<Rightarrow> delivery \<Rightarrow> luck \<Rightarrow> request \<Rightarrow> string \<Rightarrow> string option \<Rightarrow> string \<Rightarrow>
     session \<times> world \<Rightarrow> string response \<times> session \<times> world" where
  "change_credentials co now del del' del'' lk rq current new_name npw st =
     (case require_login co now del del' lk rq st of
        (Inl e, st1) \<Rightarrow> (Inl e, st1)
      | (Inr user, s, w) \<Rightarrow>
          (let new_user = or_else (Some (strip (or_else new_name []))) user
           in case send del'' (change_admin_credentials (co_settings co) now (co_key co) user current
                       new_user npw (lk_salt lk)) w of
                (Rejected n, w1) \<Rightarrow> (Inl (Http n), s, w1)
              | (Unreachable, w1) \<Rightarrow> (Inl (Http 502), s, w1)
              | (Answer u, w1) \<Rightarrow>
                  (let s1 = (if npw \<noteq> [] then s\<lparr>se_must_change := False\<rparr> else s)
                   in (Inr u, if new_user \<noteq> user then s1\<lparr>se_user := Some new_user\<rparr> else s1, w1))))"

end
