(* ===== verification/Web_Access.thy ===== *)
theory Web_Access
  imports Web_Session Console_Login
begin

text \<open>
  What the console's sessions guarantee: that a revoked token's cookies die within one re-check
  period, that the gateway is the only door in single sign-on mode (with the one exception), and
  what a login opens.
\<close>

section \<open>The token of a cookie\<close>

text \<open>A cookie the console issued holds no token or one it sealed itself; \<open>seals t co s\<close>: the token
  in it is \<open>t\<close>.\<close>

definition seals :: "string \<Rightarrow> console \<Rightarrow> session \<Rightarrow> bool" where
  "seals t co s =
     (\<exists>k r. fe_valid (co_cipher co) k \<and> se_token_enc s = Some (fe_encrypt (co_cipher co) k r t))"

definition own_cookie :: "console \<Rightarrow> session \<Rightarrow> bool" where
  "own_cookie co s = (se_token_enc s = None \<or> (\<exists>t. seals t co s))"

definition checked_at :: "session \<Rightarrow> instant" where
  "checked_at s = (case se_reval_at s of None \<Rightarrow> 0 | Some t \<Rightarrow> t)"

lemma open_with_only:
  assumes "cipher_ok fe" "fe_valid fe k" "open_with fe ks (fe_encrypt fe k r m) = Some x"
  shows "x = m"
  using assms(3)
proof (induction ks)
  case (Cons k' ks)
  show ?case
  proof (cases "fe_valid fe k'")
    case True
    then have "fe_decrypt fe k' (fe_encrypt fe k r m) = (if k' = k then Some m else None)"
      using assms(1,2) by (metis cipher_ok_def)
    then show ?thesis using Cons True by (auto split: if_splits)
  qed (use Cons in simp)
qed simp

lemma opened_is_sealed:
  assumes "cipher_ok (co_cipher co)" "own_cookie co s" "fst (token_from_session co lk s w) = Some t"
  shows "seals t co s"
proof -
  obtain m where m: "seals m co s"
    using assms(2,3) by (auto simp: own_cookie_def token_from_session_def split: if_splits)
  then obtain k r where k: "fe_valid (co_cipher co) k" "se_token_enc s = Some (fe_encrypt (co_cipher co) k r m)"
    by (auto simp: seals_def)
  have "t = m"
    using assms(3) k open_with_only [OF assms(1) k(1)]
    by (auto simp: token_from_session_def split: if_splits prod.splits)
  with m show ?thesis by simp
qed

lemma token_keeps_ctrl: "wo_ctrl (snd (token_from_session co lk s w)) = wo_ctrl w"
  by (simp add: token_from_session_def split: prod.split)

section \<open>Dead tokens\<close>

definition dead :: "string \<Rightarrow> world \<Rightarrow> bool" where
  "dead t w = (find_admin_token (Some t) (cdb (wo_ctrl w)) = None)"

lemma whoami_dead:
  assumes "dead t w" "t \<noteq> []"
  shows "fst (send Arrives (admin_whoami cfg now key (Some t)) w) = Rejected 401"
  using assms
  by (simp add: send_def admin_whoami_def keyed_route_def require_api_key_def dead_def resolve_admin_token_def)

lemma send_answered: "fst (send del f w) = Answer x \<Longrightarrow> del = Arrives"
  by (cases del) (simp_all add: send_def)

text \<open>What the re-check does to a cookie.\<close>

lemma revalidate_cases:
  assumes "revalidate_session co now del lk (s, w) = (r, s', w')"
  obtains "s' = s" | "s' = cleared"
  | t where "fst (token_from_session co lk s w) = Some t" "t \<noteq> []" "se_token_enc s' = se_token_enc s"
      "\<not> dead t w"
proof -
  obtain tok w1 where t: "token_from_session co lk s w = (tok, w1)" by fastforce
  have ctrl: "wo_ctrl w1 = wo_ctrl w" using token_keeps_ctrl [of co lk s w] t by simp
  obtain out w2 where o: "send del (admin_whoami (co_settings co) now (co_key co) tok) w1 = (out, w2)" by fastforce
  show thesis
  proof (cases "\<exists>u r'. out = Answer (u, r') \<and> truthy tok")
    case False
    then have "s' = s \<or> s' = cleared"
      using assms t o by (auto simp: revalidate_session_def Let_def split: if_splits outcome.splits)
    then show ?thesis using that by blast
  next
    case True
    then obtain x where x: "tok = Some x" "x \<noteq> []" by (cases tok) auto
    have "\<not> dead x w"
    proof
      assume "dead x w"
      then have "fst (send Arrives (admin_whoami (co_settings co) now (co_key co) (Some x)) w1) = Rejected 401"
        using whoami_dead ctrl x(2) by (simp add: dead_def)
      then show False using True o x send_answered [of del _ w1] by (metis fst_conv outcome.distinct(1))
    qed
    moreover have "s' = s \<or> se_token_enc s' = se_token_enc s"
      using assms t o True by (auto simp: revalidate_session_def Let_def split: if_splits)
    ultimately show ?thesis using that t x by auto
  qed
qed

section \<open>Revocation\<close>

text \<open>What can happen to the cookies a standalone console has issued: a request comes with one of them, or with
  none, and adds the cookie of its answer; anything else may happen to the controller and to the
  console's keys.  Time does not run backwards.\<close>

inductive browsing :: "console \<Rightarrow> instant \<times> world \<times> session set \<Rightarrow> instant \<times> world \<times> session set \<Rightarrow> bool"
  for co where
  gate: "browsing co (now, w, S) (now', w', insert s' S)"
    if "s \<in> insert cleared S" "now \<le> now'" "require_login co now' del del' lk rq (s, w) = (r, s', w')"
| login: "browsing co (now, w, S) (now', w', insert s' S)"
    if "s \<in> insert cleared S" "now \<le> now'" "login_route co now' after del lk rq u pw (s, w) = (r', s', w')"
| first_run: "browsing co (now, w, S) (now', w', insert s' S)"
    if "s \<in> insert cleared S" "now \<le> now'" "admin_setup_console co now' del lk u pw (s, w) = (r', s', w')"
| credentials: "browsing co (now, w, S) (now', w', insert s' S)"
    if "s \<in> insert cleared S" "now \<le> now'"
      "change_credentials co now' del del' del'' lk rq cur nn npw (s, w) = (r, s', w')"
| logout: "browsing co (now, w, S) (now', w', insert s' S)"
    if "s \<in> insert cleared S" "now \<le> now'" "logout_route co now' del lk (s, w) = (s', w')"
| elsewhere: "browsing co (now, w, S) (now', w\<lparr>wo_ctrl := c, wo_keys := k\<rparr>, S)"
    if "now \<le> now'"

text \<open>The cookies that hold a given token were last checked no later than a given time.\<close>

definition stale_since :: "instant \<Rightarrow> string \<Rightarrow> console \<Rightarrow> session set \<Rightarrow> bool" where
  "stale_since t0 t co S = (\<forall>s \<in> S. own_cookie co s \<and> (seals t co s \<longrightarrow> checked_at s \<le> t0))"

lemma cleared_stale: "0 \<le> t0 \<Longrightarrow> own_cookie co cleared \<and> (seals t co cleared \<longrightarrow> checked_at cleared \<le> t0)"
  by (simp add: own_cookie_def cleared_def checked_at_def)

lemma sealed_unique:
  assumes "cipher_ok (co_cipher co)" "seals t co s" "seals u co s"
  shows "t = u"
proof -
  obtain k r k' r' where "fe_valid (co_cipher co) k" "fe_valid (co_cipher co) k'"
    "se_token_enc s = Some (fe_encrypt (co_cipher co) k r t)" "se_token_enc s = Some (fe_encrypt (co_cipher co) k' r' u)"
    using assms(2,3) by (auto simp: seals_def)
  then show ?thesis
    using open_with_key [OF assms(1), of k' "[k']" r' u] open_with_only [OF assms(1), of k "[k']" r t u] by simp
qed

lemma revalidate_stale:
  assumes "cipher_ok (co_cipher co)" "0 \<le> t0" "own_cookie co s" "seals t co s \<longrightarrow> checked_at s \<le> t0" "dead t w"
    and "revalidate_session co now del lk (s, w) = (r, s', w')"
  shows "own_cookie co s' \<and> (seals t co s' \<longrightarrow> checked_at s' \<le> t0)"
  using assms(6)
proof (cases rule: revalidate_cases)
  case (3 u)
  have "seals u co s" by (rule opened_is_sealed [OF assms(1,3) 3(1)])
  moreover have "u \<noteq> t" using 3 assms(5) by auto
  ultimately have "\<not> seals t co s" using sealed_unique [OF assms(1)] by blast
  then show ?thesis using 3(3) assms(3) by (auto simp: own_cookie_def seals_def)
qed (use assms cleared_stale in auto)

lemma login_gate_standalone:
  assumes "\<not> co_trust_sso co" "require_login co now del del' lk rq (s, w) = (r, s', w')"
  shows "s' = s \<or> (\<exists>r2 w2. revalidate_session co now del' lk (s, w) = (r2, s', w2))"
  using assms
  by (auto simp: require_login_def require_gateway_when_sso_def ensure_sso_session_def sso_only_def sso_identity_def
      split: if_splits sum.splits prod.splits)

lemma established_fresh:
  assumes "established co lk u role sudo must token w = (s', w')"
  shows "own_cookie co s' \<and> checked_at s' = 0"
proof (cases "se_token_enc s' = None")
  case True
  then show ?thesis using assms
    by (auto simp: established_def own_cookie_def checked_at_def cleared_def Let_def split: if_splits prod.splits)
next
  case False
  obtain enc w1 where e: "encrypt_token co lk token w = (enc, w1)" by fastforce
  with False assms have s': "se_token_enc s' = enc" "checked_at s' = 0"
    by (auto simp: established_def checked_at_def cleared_def Let_def split: if_splits)
  then obtain k where "fe_valid (co_cipher co) k" "enc = Some (fe_encrypt (co_cipher co) k (lk_nonce lk) token)"
    using e False by (auto simp: encrypt_token_def split: if_splits prod.splits)
  then show ?thesis using s' unfolding own_cookie_def seals_def by blast
qed

text \<open>Every step keeps the cookies of a dead token unchecked.\<close>

lemma browsing_stale:
  assumes "browsing co (now, w, S) (now', w', S')" "cipher_ok (co_cipher co)" "\<not> co_trust_sso co" "0 \<le> t0"
    and "dead t w" "stale_since t0 t co S"
  shows "stale_since t0 t co S' \<and> now \<le> now'"
proof -
  have old: "own_cookie co s \<and> (seals t co s \<longrightarrow> checked_at s \<le> t0)" if "s \<in> insert cleared S" for s
    using that assms(6) cleared_stale [OF assms(4)] by (auto simp: stale_since_def)
  have gated: "own_cookie co s' \<and> (seals t co s' \<longrightarrow> checked_at s' \<le> t0)"
    if "s \<in> insert cleared S" "require_login co n del del' lk rq (s, w) = (r, s', w2)" for s n del del' lk rq r s' w2
    using login_gate_standalone [OF assms(3) that(2)] old [OF that(1)] revalidate_stale [OF assms(2,4) _ _ assms(5)]
    by blast
  from assms(1) show ?thesis
  proof cases
    case (gate s del del' lk rq r s')
    then show ?thesis using gated [OF gate(2,4)]
      assms(6) by (simp add: stale_since_def)
  next
    case (login s after del lk rq u pw r' s')
    then have "s' = s \<or> (\<exists>a b c d e f g. established co lk a b c d e f = (s', g))"
      by (auto simp: login_route_def Let_def split: if_splits sum.splits prod.splits outcome.splits)
    then show ?thesis using old [OF login(2)] established_fresh assms(4,6) login by (auto simp: stale_since_def)
  next
    case (first_run s del lk u pw r' s')
    then have "s' = s \<or> (\<exists>a b c d e f g. established co lk a b c d e f = (s', g))"
      by (auto simp: admin_setup_console_def Let_def split: if_splits prod.splits outcome.splits)
    then show ?thesis using old [OF first_run(2)] established_fresh assms(4,6) first_run by (auto simp: stale_since_def)
  next
    case (credentials s del del' del'' lk rq cur nn npw r s')
    obtain r2 s2 w2 where g: "require_login co now' del del' lk rq (s, w) = (r2, s2, w2)" by (metis prod.collapse)
    have "se_token_enc s' = se_token_enc s2" "checked_at s' = checked_at s2"
      using credentials(4) g by (auto simp: change_credentials_def checked_at_def Let_def split: sum.splits prod.splits outcome.splits if_splits)
    then show ?thesis using gated [OF credentials(2) g] assms(6) credentials by (simp add: stale_since_def own_cookie_def seals_def)
  next
    case (logout s del lk s')
    then have "s' = cleared" by (auto simp: logout_route_def split: prod.splits)
    then show ?thesis using cleared_stale [OF assms(4)] logout assms(6) by (simp add: stale_since_def)
  next
    case elsewhere
    then show ?thesis using assms(6) by simp
  qed
qed

text \<open>C30: A revoked token's cookies die.  Once the controller no longer knows a login token, the
  console (without single sign-on) refuses, at every gate, each cookie with that token that it ever issued or
  will issue, from one re-check period later on, whenever the controller can be reached; the
  answer is 401 and the cookie is emptied.\<close>

theorem revoked_session_dies:
  assumes "cipher_ok (co_cipher co)" "\<not> co_trust_sso co" "0 \<le> t0" "stale_since t0 t co S"
    and "(\<lambda>x y. browsing co x y \<and> dead t (fst (snd x)))\<^sup>*\<^sup>* (t0, w, S) (now, w', S')"
    and "s \<in> S'" "dead t w'" "fst (token_from_session co lk s w') = Some t" "t \<noteq> []" "t0 + SESSION_REVAL_TTL \<le> now"
    and "truthy (se_user s)"
  shows "\<forall>gate \<in> {require_login, require_login_changed, require_operator, require_superuser_session}.
    \<exists>w2. gate co now del Arrives lk rq (s, w') = (Inl (Http 401), cleared, w2)"
proof -
  have "case y of (now, w, S) \<Rightarrow> stale_since t0 t co S"
    if "(\<lambda>x y. browsing co x y \<and> dead t (fst (snd x)))\<^sup>*\<^sup>* (t0, w, S) y" for y
    using that
  proof induction
    case (step y z)
    obtain n v V n' v' V' where "y = (n, v, V)" "z = (n', v', V')" by (metis prod_cases3)
    then show ?case using step browsing_stale [of co n v V n' v' V' t0 t] assms(1,2,3) by auto
  qed (use assms(4) in simp)
  from this [OF assms(5)] have "own_cookie co s" "seals t co s \<longrightarrow> checked_at s \<le> t0"
    using assms(6) by (auto simp: stale_since_def)
  then have due: "\<not> now - checked_at s < SESSION_REVAL_TTL"
    using opened_is_sealed [OF assms(1) _ assms(8)] assms(10) by auto
  obtain w1 where t: "token_from_session co lk s w' = (Some t, w1)" using assms(8) by (metis prod.collapse)
  then have "dead t w1" using token_keeps_ctrl [of co lk s w'] assms(7) by (simp add: dead_def)
  from whoami_dead [OF this assms(9), of "co_settings co" now "co_key co"]
  obtain w2 where "send Arrives (admin_whoami (co_settings co) now (co_key co) (Some t)) w1 = (Rejected 401, w2)"
    by (metis prod.collapse)
  then have "revalidate_session co now Arrives lk (s, w') = (Inl (Http 401), cleared, w2)"
    using t due assms(9) by (simp add: revalidate_session_def checked_at_def)
  then have "require_login co now del Arrives lk rq (s, w') = (Inl (Http 401), cleared, w2)"
    using assms(2,11)
    by (simp add: require_login_def require_gateway_when_sso_def ensure_sso_session_def sso_only_def sso_identity_def)
  then show ?thesis
    by (simp add: require_login_changed_def require_operator_def require_superuser_session_def)
qed

definition demo_keys :: sudo_keys where
  "demo_keys = \<lparr>sk_vault = demo_vault\<lparr>va_cmd := True\<rparr>, sk_key_file = Regular (dr_key demo_draws)\<rparr>"

definition demo_console :: console where
  "demo_console = \<lparr>co_settings = demo_settings, co_key = Some ''key'', co_trust_sso = False, co_sso_secret = [],
     co_trust_proxy = False, co_hops = 1, co_cipher = demo_cipher, co_self = None\<rparr>"

definition demo_luck :: luck where
  "demo_luck = \<lparr>lk_token = ''t'', lk_salt = ''00'', lk_password = ''p'', lk_nonce = ''n'', lk_key = [], lk_file_key = []\<rparr>"

definition demo_cookie :: session where
  "demo_cookie = cleared\<lparr>se_user := Some ''ann'', se_role := Some ''superuser'',
     se_token_enc := Some (dr_key demo_draws @ ''t''), se_reval_at := Some 90\<rparr>"

definition demo_world :: world where
  "demo_world = \<lparr>wo_ctrl = empty_control, wo_keys = demo_keys, wo_throttle = \<lparr>th_attempts = [], th_global = []\<rparr>\<rparr>"

lemma demo_opens: "fst (token_from_session demo_console demo_luck demo_cookie demo_world) = Some ''t''"
proof -
  have len: "length (dr_key demo_draws) = 44" "dr_key demo_draws \<noteq> []" "strip (take 4096 (dr_key demo_draws)) = dr_key demo_draws"
    by code_simp+
  then show ?thesis
    by (simp add: token_from_session_def demo_cookie_def demo_world_def demo_keys_def demo_console_def read_keys_def
        sudo_derived_key_def derive_fernet_key_def load_or_create_key_def key_from_cmd_def legacy_key_def demo_vault_def
        List.map_filter_def demo_cipher_def Let_def)
qed

lemma revoked_session_dies_witness:
  "\<exists>w2. require_operator demo_console 170 Arrives Arrives demo_luck
     \<lparr>rq_method = ''GET'', rq_path = ''/api/schedules'', rq_headers = [], rq_cookie = None, rq_peer = None\<rparr>
     (demo_cookie, demo_world) = (Inl (Http 401), cleared, w2)"
proof -
  have ok: "cipher_ok (co_cipher demo_console)" using demo_cipher_ok by (simp add: demo_console_def)
  have "length (dr_key demo_draws) = 44" by code_simp
  then have "seals ''t'' demo_console demo_cookie"
    by (auto simp: seals_def demo_console_def demo_cipher_def demo_cookie_def)
  then have stale: "stale_since 100 ''t'' demo_console {demo_cookie}"
    by (auto simp: stale_since_def own_cookie_def checked_at_def demo_cookie_def)
  have dead: "dead ''t'' demo_world"
    by (simp add: dead_def demo_world_def find_admin_token_def empty_control_def fresh_db_def)
  have "demo_world\<lparr>wo_ctrl := wo_ctrl demo_world, wo_keys := wo_keys demo_world\<rparr> = demo_world" by simp
  then have "browsing demo_console (100, demo_world, {demo_cookie}) (170, demo_world, {demo_cookie})"
    using browsing.elsewhere [where now = 100 and now' = 170 and co = demo_console and w = demo_world
      and S = "{demo_cookie}" and c = "wo_ctrl demo_world" and k = "wo_keys demo_world"] by simp
  then have run: "(\<lambda>x y. browsing demo_console x y \<and> dead ''t'' (fst (snd x)))\<^sup>*\<^sup>*
      (100, demo_world, {demo_cookie}) (170, demo_world, {demo_cookie})"
    using dead by (simp add: r_into_rtranclp)
  show ?thesis
    using revoked_session_dies [OF ok _ _ stale run _ dead demo_opens]
    by (simp add: demo_console_def SESSION_REVAL_TTL_def demo_cookie_def)
qed

section \<open>Single sign-on\<close>

text \<open>C31: While the gateway owns identity, a request without its assertion passes no gate and no
  login, whatever cookie it carries: every gate and the route of the session's user answer 401 and empty the cookie, and
  the local login and first set-up answer 403.  The one exception is the probe
  of the gateway, which confirms the cookie's user.\<close>

theorem gateway_is_the_only_door:
  assumes "sso_only co" "sso_identity co rq = None"
  shows "(\<forall>gate \<in> {require_login, require_login_changed, require_operator, require_superuser_session}.
      gate co now del del' lk rq (s, w) = (Inl (Http 401), cleared, w)) \<and>
    me co now del lk rq (s, w) = (Inl (Http 401), cleared, w) \<and>
    login_route co now after del lk rq u pw (s, w) = (Inl (Http 403), s, w) \<and>
    admin_setup_console co now del lk u pw (s, w) = (Inl (Http 403), s, w) \<and>
    (\<forall>v. se_user s = Some v \<and> v \<noteq> [] \<longrightarrow>
      auth_verify co now del lk rq (s, w) = (Inr (v, or_else (se_role s) ''auditor''), s, w))"
  using assms
  by (auto simp: require_login_def require_login_changed_def require_operator_def require_superuser_session_def
      require_gateway_when_sso_def ensure_sso_session_def me_def login_route_def admin_setup_console_def auth_verify_def)

definition demo_sso :: console where
  "demo_sso = demo_console\<lparr>co_settings := demo_settings\<lparr>sso_secret := ''gw''\<rparr>, co_trust_sso := True, co_sso_secret := ''gw''\<rparr>"

definition direct_request :: request where
  "direct_request = \<lparr>rq_method = ''GET'', rq_path = ''/api/auth/verify'', rq_headers = [], rq_cookie = Some ''c'', rq_peer = None\<rparr>"

lemma gateway_is_the_only_door_witness:
  "auth_verify demo_sso 95 Arrives demo_luck direct_request (demo_cookie, demo_world) =
     (Inr (''ann'', ''superuser''), demo_cookie, demo_world) \<and>
   me demo_sso 95 Arrives demo_luck direct_request (demo_cookie, demo_world) = (Inl (Http 401), cleared, demo_world)"
proof -
  have "sso_only demo_sso" "sso_identity demo_sso direct_request = None" by code_simp+
  moreover have "se_user demo_cookie = Some ''ann''" "se_role demo_cookie = Some ''superuser''"
    by (simp_all add: demo_cookie_def)
  ultimately show ?thesis
    using gateway_is_the_only_door [of demo_sso direct_request 95 Arrives Arrives demo_luck demo_cookie demo_world 95 "[]" "[]"]
    by simp
qed

text \<open>C32: When the controller does not provision the user the gateway asserts, a request with
  another user's cookie goes on as that other user: within a re-check period of the cookie every
  gate of its role lets it through.\<close>

theorem refused_provision_keeps_identity:
  assumes "sso_identity co rq = Some (b, role)" "se_user s = Some a" "a \<noteq> b" "a \<noteq> []"
    and "\<forall>x. fst (send del (admin_sso_provision (co_settings co) now (co_key co)
           (if co_sso_secret co = [] then None else Some (co_sso_secret co)) (co_self co)
           (Some b) (Some role) (lk_salt lk) (lk_password lk) (lk_token lk)) w) \<noteq> Answer x"
    and "now - checked_at s < SESSION_REVAL_TTL"
  shows "fst (require_login co now del del' lk rq (s, w)) = Inr a \<and>
    fst (snd (require_login co now del del' lk rq (s, w))) = s \<and>
    (se_role s = Some ''superuser'' \<and> \<not> se_must_change s \<longrightarrow>
       fst (require_superuser_session co now del del' lk rq (s, w)) = Inr a)"
proof -
  obtain out w1 where o: "send del (admin_sso_provision (co_settings co) now (co_key co)
      (if co_sso_secret co = [] then None else Some (co_sso_secret co)) (co_self co)
      (Some b) (Some role) (lk_salt lk) (lk_password lk) (lk_token lk)) w = (out, w1)" by fastforce
  have kept: "ensure_sso_session co now del lk rq (s, w) = (s, w1)"
    using assms(1-3,5) o by (cases out) (auto simp: ensure_sso_session_def Let_def)
  obtain tok w2 where t: "token_from_session co lk s w1 = (tok, w2)" by fastforce
  have r: "revalidate_session co now del' lk (s, w1) = (Inr (), s, w2)"
    using assms(6) t by (auto simp: revalidate_session_def checked_at_def Let_def)
  have "require_login co now del del' lk rq (s, w) = (Inr a, s, w2)"
    using assms(1,2,4) kept r by (simp add: require_login_def require_gateway_when_sso_def)
  then show ?thesis by (simp add: require_superuser_session_def)
qed

definition bob_request :: request where
  "bob_request = \<lparr>rq_method = ''GET'', rq_path = ''/api/portal/uploads'',
     rq_headers = [(''x-sysible-auth'', ''gw''), (''x-sysible-user'', ''bob smith''), (''x-sysible-role'', ''auditor'')],
     rq_cookie = Some ''c'', rq_peer = None\<rparr>"

lemma refused_provision_keeps_identity_witness:
  "fst (require_superuser_session demo_sso 95 Arrives Arrives demo_luck bob_request (demo_cookie, demo_world)) = Inr ''ann''"
proof -
  have id: "sso_identity demo_sso bob_request = Some (''bob smith'', ''auditor'')" by code_simp
  have bad: "validate_admin_name ''bob smith'' = None" "strip ''bob smith'' = ''bob smith''" by code_simp+
  have "fst (send Arrives (admin_sso_provision (co_settings demo_sso) 95 (co_key demo_sso)
           (if co_sso_secret demo_sso = [] then None else Some (co_sso_secret demo_sso)) (co_self demo_sso)
           (Some ''bob smith'') (Some ''auditor'') (lk_salt demo_luck) (lk_password demo_luck) (lk_token demo_luck)) demo_world) = Rejected 409"
    using bad
    by (simp add: send_def admin_sso_provision_def keyed_route_def require_api_key_def valid_api_key_def demo_sso_def
        demo_console_def demo_settings_def gateway_secret_ok_def ensure_sso_account_def get_administrator_def roles_def
        demo_world_def empty_control_def fresh_db_def)
  then show ?thesis
    using refused_provision_keeps_identity [OF id, of demo_cookie "''ann''" Arrives 95 demo_luck demo_world Arrives]
    by (simp add: demo_cookie_def checked_at_def SESSION_REVAL_TTL_def cleared_def)
qed

section \<open>Login and logout\<close>

lemma encrypted_token_opens:
  assumes "cipher_ok (co_cipher co)" "strip (take 4096 (lk_file_key lk)) = lk_file_key lk"
    and "encrypt_token co lk t w = (Some e, w')" "se_token_enc s = Some e" "wo_keys w2 = wo_keys w'"
  shows "fst (token_from_session co lk' s w2) = Some t"
proof -
  obtain k where k: "primary_key (lk_key lk) (lk_file_key lk) (wo_keys w) = (Some k, wo_keys w')" "k \<noteq> []"
    "fe_valid (co_cipher co) k" "e = fe_encrypt (co_cipher co) k (lk_nonce lk) t"
    using assms(3) by (auto simp: encrypt_token_def truthy_def split: if_splits prod.splits option.splits)
  have "fst (sudo_derived_key (lk_key lk') (wo_keys w')) = Some k \<or>
      (\<exists>t. sk_key_file (wo_keys w') = Regular t \<and> strip (take 4096 t) = k)" "va_crypto (sk_vault (wo_keys w'))"
    using primary_source [OF k(1,2) assms(2,1)] by blast+
  from read_keys_has [OF this(1) k(2) this(2), of "lk_file_key lk'"]
  have "open_with (co_cipher co) (fst (read_keys (lk_key lk') (lk_file_key lk') (wo_keys w'))) e = Some t"
    unfolding k(4) by (rule open_with_key [OF assms(1) k(3)])
  moreover have "e \<noteq> []" using assms(1) k(3,4) by (simp add: cipher_ok_def)
  ultimately show ?thesis
    using assms(4,5) by (cases "read_keys (lk_key lk') (lk_file_key lk') (wo_keys w')") (simp add: token_from_session_def)
qed

lemma login_route_success:
  assumes "login_route co now after del lk rq u pw st = (Inr (v, r), s, w)"
  obtains a c' w2 where "v = strip u" "r = or_else (Some (la_role a)) ''auditor''" "\<not> sso_only co"
    "admin_login (co_settings co) now (co_key co) (strip u) pw (lk_salt lk) (lk_token lk) (wo_ctrl (snd st)) = (Inr a, c')"
    "wo_ctrl w2 = c'" "established co lk (strip u) r (la_sudo_connect a) (la_must_change a) (la_token a) w2 = (s, w)"
proof -
  have sso: "\<not> sso_only co" using assms by (auto simp: login_route_def)
  obtain t where t: "throttle_check now (client_ip (co_trust_proxy co) (co_hops co) rq) (wo_throttle (snd st)) = (Inr (), t)"
    using assms sso by (auto simp: login_route_def Let_def split: sum.splits prod.splits)
  let ?w = "(snd st)\<lparr>wo_throttle := t\<rparr>"
  obtain out w1 where o: "send del (admin_login (co_settings co) now (co_key co) (strip u) pw (lk_salt lk) (lk_token lk)) ?w = (out, w1)"
    by fastforce
  obtain a where a: "out = Answer a" using assms sso t o by (cases out) (auto simp: login_route_def Let_def split: if_splits)
  have "del = Arrives" using o a send_answered [of del _ ?w] by (metis fst_conv)
  then have "admin_login (co_settings co) now (co_key co) (strip u) pw (lk_salt lk) (lk_token lk) (wo_ctrl (snd st)) = (Inr a, wo_ctrl w1)"
    using o a by (auto simp: send_def split: sum.splits prod.splits http_error.splits)
  then show thesis using assms sso t o a
    by (intro that [of a "wo_ctrl w1" "w1\<lparr>wo_throttle := throttle_success (client_ip (co_trust_proxy co) (co_hops co) rq) (wo_throttle w1)\<rparr>"])
       (auto simp: login_route_def Let_def split: prod.splits)
qed

text \<open>On the throttle a login is an attempt and, if it is let through, one of the steps that end it: a
  denial exactly when the login is answered 401.\<close>

lemma established_throttle: "wo_throttle (snd (established co lk user r sudo must token w)) = wo_throttle w"
  by (simp add: established_def encrypt_token_def Let_def split: prod.split)

lemma send_throttle: "wo_throttle (snd (send del f w)) = wo_throttle w"
  by (simp add: send_def split: delivery.split prod.split sum.split http_error.split)

lemma login_route_steps:
  assumes "login_route co now after del lk rq u pw st = (r, s, w)" "\<not> sso_only co"
    and "ip = client_ip (co_trust_proxy co) (co_hops co) rq"
  shows "\<exists>answered. answered \<in> {[], [Denied after ip], [Welcomed ip], [Unanswered]} \<and>
    login_run 1 (Attempt now ip # answered) (wo_throttle (snd st), 0, ds) =
      Some (wo_throttle w, 0, ds @ (if answered = [Denied after ip] then [after] else [])) \<and>
    (answered = [Denied after ip] \<longleftrightarrow> r = Inl (Http 401)) \<and> (answered = [Welcomed ip] \<longleftrightarrow> (\<exists>x. r = Inr x))"
proof -
  obtain c t where t: "throttle_check now ip (wo_throttle (snd st)) = (c, t)" by fastforce
  show ?thesis
  proof (cases c)
    case (Inl err)
    then have err: "err = Http 429" using t by (auto simp: throttle_check_def Let_def split: if_splits)
    then have "r = Inl (Http 429)" "wo_throttle w = t" using assms t Inl by (auto simp: login_route_def Let_def)
    then show ?thesis using t Inl by (intro exI [of _ "[]"]) (simp add: login_step_def)
  next
    case (Inr v)
    let ?w = "(snd st)\<lparr>wo_throttle := t\<rparr>"
    obtain out w1 where o: "send del (admin_login (co_settings co) now (co_key co) (strip u) pw (lk_salt lk) (lk_token lk)) ?w = (out, w1)"
      by fastforce
    then have t1: "wo_throttle w1 = t"
      using send_throttle [of del "admin_login (co_settings co) now (co_key co) (strip u) pw (lk_salt lk) (lk_token lk)" ?w] by simp
    note at = login_step_def t Inr
    show ?thesis
    proof (cases out)
      case (Answer a)
      let ?w2 = "w1\<lparr>wo_throttle := throttle_success ip t\<rparr>"
      obtain s1 w3 where e: "established co lk (strip u) (or_else (Some (la_role a)) ''auditor'') (la_sudo_connect a)
          (la_must_change a) (la_token a) ?w2 = (s1, w3)" by fastforce
      then have "r = Inr (strip u, or_else (Some (la_role a)) ''auditor'')" "w = w3"
        using assms t Inr o Answer t1 by (auto simp: login_route_def Let_def)
      moreover have "wo_throttle w3 = throttle_success ip t"
        using established_throttle [of co lk "strip u" "or_else (Some (la_role a)) ''auditor''" "la_sudo_connect a"
          "la_must_change a" "la_token a" ?w2] e by simp
      ultimately show ?thesis by (intro exI [of _ "[Welcomed ip]"]) (simp add: at)
    next
      case (Rejected n)
      then have "r = Inl (Http n)" "wo_throttle w = (if n = 401 then throttle_record_failure after ip t else t)"
        using assms t Inr o t1 by (auto simp: login_route_def Let_def)
      then show ?thesis
        by (intro exI [of _ "if n = 401 then [Denied after ip] else [Unanswered]"]) (simp add: at)
    next
      case Unreachable
      then have "r = Inl (Http 502)" "wo_throttle w = t" using assms t Inr o t1 by (auto simp: login_route_def Let_def)
      then show ?thesis by (intro exI [of _ "[Unanswered]"]) (simp add: at)
    qed
  qed
qed

text \<open>What a login through the console opens.  It succeeds only with the account's password; the
  cookie then carries the token just issued for the account, and each gate lets its next request
  through as that user unless the role or a pending password change forbids it, as long as the
  token lives and the controller can be reached.\<close>

theorem login_opens_session:
  assumes "cipher_ok (co_cipher co)" "strip (take 4096 (lk_file_key lk)) = lk_file_key lk" "lk_token lk \<noteq> []"
    and "login_route co now after del lk rq u pw st = (Inr (v, r), s, w)" "se_token_enc s \<noteq> None"
    and "get_administrator (strip u) (cdb (wo_ctrl (snd st))) = Some acc" "truthy (ad_role acc)"
    and "strip u \<noteq> []" "SESSION_REVAL_TTL \<le> now'" "now' \<le> now + ADMIN_TOKEN_TTL"
  shows "v = strip u \<and> ad_role acc = Some r \<and> credentials_valid v pw (cdb (wo_ctrl (snd st))) = Some True \<and>
    fst (token_from_session co lk' s w) = Some (lk_token lk) \<and>
    fst (require_login co now' del' Arrives lk' rq' (s, w)) = Inr v \<and>
    fst (require_operator co now' del' Arrives lk' rq' (s, w)) =
      (if r = ''auditor'' \<or> ad_must_change acc then Inl (Http 403) else Inr v) \<and>
    fst (require_superuser_session co now' del' Arrives lk' rq' (s, w)) =
      (if r \<noteq> ''superuser'' \<or> ad_must_change acc then Inl (Http 403) else Inr v)"
proof -
  obtain a c' w2 where l: "v = strip u" "r = or_else (Some (la_role a)) ''auditor''" "\<not> sso_only co"
    "admin_login (co_settings co) now (co_key co) (strip u) pw (lk_salt lk) (lk_token lk) (wo_ctrl (snd st)) = (Inr a, c')"
    "wo_ctrl w2 = c'" "established co lk (strip u) r (la_sudo_connect a) (la_must_change a) (la_token a) w2 = (s, w)"
    by (rule login_route_success [OF assms(4)])
  have strip: "strip (strip u) = strip u" by simp
  obtain acc1 d where d: "valid_api_key (co_settings co) (co_key co)"
    "credentials_valid (strip u) pw (cdb (wo_ctrl (snd st))) = Some True"
    "get_administrator (strip u) (cdb (wo_ctrl (snd st))) = Some acc1"
    "a = \<lparr>la_username = strip u, la_role = or_else (ad_role acc1) ''auditor'', la_token = lk_token lk,
          la_must_change = ad_must_change acc1, la_sudo_connect = ad_sudo_connect acc1\<rparr>"
    "cdb c' = create_admin_token (lk_token lk) (strip u) (or_else (ad_role acc1) ''auditor'') (now + ADMIN_TOKEN_TTL) d"
    "same_business (record_administrator_login now (strip u)
       (login_throttle_clear (throttle_key (strip u)) (rehash_on_login (lk_salt lk) (strip u) pw (cdb (wo_ctrl (snd st)))))) d"
    using admin_login_success [OF l(4)] unfolding strip by metis
  have acc: "acc1 = acc" using d(3) assms(6) by simp
  obtain ro where ro: "ad_role acc = Some ro" "ro \<noteq> []" using assms(7) by (cases "ad_role acc") auto
  then have r: "r = ro" "or_else (ad_role acc1) ''auditor'' = ro" using l(2) d(4) acc by (simp_all add: or_else_def)
  obtain acc' where acc': "get_administrator (strip u) d = Some acc'" "ad_role acc' = Some ro"
    using role_after_login [OF d(3) d(6)] acc ro by metis
  have row: "find_admin_token (Some (lk_token lk)) (cdb c') = Some \<lparr>at_token = digest_of (lk_token lk),
      at_username = strip u, at_role = Some ro, at_expiry = Some (now + ADMIN_TOKEN_TTL)\<rparr>"
    by (simp add: d(5) r(2) admin_simps)
  have adm: "get_administrator (strip u) (cdb c') = Some acc'"
    using acc'(1) by (simp add: d(5) create_admin_token_def)
  have "\<not> token_stale now' \<lparr>at_token = digest_of (lk_token lk),
      at_username = strip u, at_role = Some ro, at_expiry = Some (now + ADMIN_TOKEN_TTL)\<rparr> (cdb c')"
    using adm acc'(2) assms(10) by (simp add: token_stale_def)
  with row have speaks: "resolve_admin_token now' (Some (lk_token lk)) (cdb c') = (Some (strip u, Some ro), cdb c')"
    using assms(3) by (simp add: resolve_admin_token_def)
  obtain enc w3 where e: "encrypt_token co lk (lk_token lk) w2 = (enc, w3)" by fastforce
  have s: "s = cleared\<lparr>se_user := Some (strip u), se_role := Some r, se_sudo_connect := ad_sudo_connect acc,
      se_must_change := ad_must_change acc, se_token_enc := enc\<rparr>" "w = w3"
    using l(6) e d(4) acc assms(3) by (simp_all add: established_def)
  then obtain x where x: "enc = Some x" using assms(5) by auto
  have opens: "fst (token_from_session co lk' s w) = Some (lk_token lk)"
    using encrypted_token_opens [OF assms(1,2), of "lk_token lk" w2 x w3 s w lk'] e x s by simp
  then obtain w4 where w4: "token_from_session co lk' s w = (Some (lk_token lk), w4)" by (metis prod.collapse)
  have ctrl: "wo_ctrl w4 = c'"
    using token_keeps_ctrl [of co lk' s w] w4 s(2) e l(5) by (auto simp: encrypt_token_def split: if_splits prod.splits)
  have who: "fst (send Arrives (admin_whoami (co_settings co) now' (co_key co) (Some (lk_token lk))) w4) = Answer (strip u, Some ro)"
    using speaks d(1) ctrl assms(3) by (simp add: send_def admin_whoami_def keyed_route_def require_api_key_def)
  then obtain w5 where w5: "send Arrives (admin_whoami (co_settings co) now' (co_key co) (Some (lk_token lk))) w4 = (Answer (strip u, Some ro), w5)"
    by (metis prod.collapse)
  have "revalidate_session co now' Arrives lk' (s, w) = (Inr (), s\<lparr>se_reval_at := Some now', se_role := Some ro\<rparr>, w5)"
    using w4 w5 assms(3,9) ro(2) s(1) by (simp add: revalidate_session_def cleared_def)
  moreover have "ensure_sso_session co now' del' lk' rq' (s, w) = (s, w)" "sso_identity co rq' = None"
    using l(3) by (simp_all add: ensure_sso_session_def sso_identity_def sso_only_def)
  ultimately have "require_login co now' del' Arrives lk' rq' (s, w) = (Inr (strip u), s\<lparr>se_reval_at := Some now', se_role := Some ro\<rparr>, w5)"
    using l(3) s(1) assms(8) by (simp add: require_login_def require_gateway_when_sso_def)
  then show ?thesis
    using opens l(1) r(1) ro(1) d(2) s(1) by (simp add: require_operator_def require_superuser_session_def)
qed

text \<open>A logout that reaches the controller kills the token, and empties the cookie in any case.\<close>

lemma logout_kills_token:
  assumes "logout_route co now del lk (s, w) = (s', w')" "fst (token_from_session co lk s w) = Some t" "t \<noteq> []"
  shows "s' = cleared \<and>
    (del \<noteq> Request_Lost \<and> valid_api_key (co_settings co) (co_key co) \<longrightarrow> dead t w')"
proof -
  obtain w1 where w1: "token_from_session co lk s w = (Some t, w1)" using assms(2) by (metis prod.collapse)
  have gone: "find_admin_token (Some t) (delete_admin_token (Some t) d) = None" for d
    using login.discarded_gone assms(3) by blast
  have kept: "find_admin_token (Some t) e = find_admin_token (Some t) d" if "same_business d e" for d e
    using that by (simp add: find_admin_token_def same_business_def)
  have "dead t w'" if "del \<noteq> Request_Lost" "valid_api_key (co_settings co) (co_key co)"
  proof -
    obtain who d where r: "resolve_admin_token now (Some t) (cdb (wo_ctrl w1)) = (who, d)" by fastforce
    have "find_admin_token (Some t) (cdb (snd (admin_logout (co_settings co) now (co_key co) (Some t) (wo_ctrl w1)))) = None"
    proof -
      have "find_admin_token (Some t) (cdb (snd (audited cfg now ev u de (x, c\<lparr>cdb := delete_admin_token (Some t) d\<rparr>)))) = None" for cfg ev u de c and x :: "unit response"
        using audited_frame [of cfg now ev u de "(x, c\<lparr>cdb := delete_admin_token (Some t) d\<rparr>)"] kept gone [of d] by auto
      then show ?thesis using that(2) assms(3) gone [of d] r
        by (auto simp: admin_logout_def keyed_route_def require_api_key_def Let_def split: option.splits)
    qed
    then show ?thesis
      using assms(1,3) w1 that(1)
      by (cases del) (auto simp: logout_route_def dead_def send_def split: sum.splits prod.splits http_error.splits)
  qed
  then show ?thesis using assms(1) w1 by (simp add: logout_route_def)
qed

definition login_luck :: luck where
  "login_luck = \<lparr>lk_token = ''tok'', lk_salt = ''00ff'', lk_password = [], lk_nonce = ''n'', lk_key = [], lk_file_key = []\<rparr>"

lemma demo_seals: "encrypt_token demo_console login_luck ''tok'' w = (Some (dr_key demo_draws @ ''tok''), w')"
  if "wo_keys w = demo_keys" "w' = w\<lparr>wo_keys := demo_keys\<rparr>" for w w'
proof -
  have len: "length (dr_key demo_draws) = 44" "dr_key demo_draws \<noteq> []" "strip (take 4096 (dr_key demo_draws)) = dr_key demo_draws"
    by code_simp+
  then show ?thesis using that
    by (simp add: encrypt_token_def demo_keys_def demo_console_def primary_key_def login_luck_def
        sudo_derived_key_def derive_fernet_key_def load_or_create_key_def key_from_cmd_def legacy_key_def demo_vault_def
        demo_cipher_def Let_def truthy_def)
qed

lemma login_opens_session_witness:
  "\<exists>st s w. login_route demo_console 10 11 Arrives login_luck direct_request ''ann'' ''secret'' st = (Inr (''ann'', ''superuser''), s, w) \<and>
     fst (require_superuser_session demo_console 80 Arrives Arrives demo_luck direct_request (s, w)) = Inr ''ann''"
proof -
  obtain c a c' acc where l: "admin_login demo_settings 10 (Some ''key'') ''ann'' ''secret'' ''00ff'' ''tok'' c = (Inr a, c')"
    and acc: "get_administrator ''ann'' (cdb c) = Some acc" "ad_role acc = Some ''superuser''" "\<not> ad_must_change acc"
    by (rule demo_admin_login)
  have ann: "strip ''ann'' = ''ann''" by code_simp
  define st :: "session \<times> world" where "st = (cleared, demo_world\<lparr>wo_ctrl := c\<rparr>)"
  obtain acc1 where acc1: "get_administrator (strip ''ann'') (cdb c) = Some acc1"
    "a = \<lparr>la_username = strip ''ann'', la_role = or_else (ad_role acc1) ''auditor'', la_token = ''tok'',
      la_must_change = ad_must_change acc1, la_sudo_connect = ad_sudo_connect acc1\<rparr>"
    using admin_login_success [OF l] by metis
  have a: "la_role a = ''superuser''" "la_token a = ''tok''" using acc1 acc ann by (simp_all add: or_else_def)
  obtain s w where r: "login_route demo_console 10 11 Arrives login_luck direct_request ''ann'' ''secret'' st = (Inr (''ann'', ''superuser''), s, w)"
    and e: "se_token_enc s = Some (dr_key demo_draws @ ''tok'')"
  proof -
    have f: "co_settings demo_console = demo_settings" "co_key demo_console = Some ''key''" "\<not> sso_only demo_console"
      "lk_salt login_luck = ''00ff''" "lk_token login_luck = ''tok''"
      by (simp_all add: demo_console_def sso_only_def login_luck_def)
    show thesis using that l a
      by (simp add: login_route_def st_def throttle_check_def hits_of_def put_hits_def demo_world_def
          LOGIN_MAX_ATTEMPTS_def LOGIN_GLOBAL_MAX_def send_def ann established_def demo_seals f Let_def)
  qed
  have "fst (require_superuser_session demo_console 80 Arrives Arrives demo_luck direct_request (s, w)) = Inr ''ann''"
    using login_opens_session [OF _ _ _ r, of acc 80 demo_luck Arrives direct_request] demo_cipher_ok acc ann e
    by (simp add: st_def demo_console_def login_luck_def SESSION_REVAL_TTL_def ADMIN_TOKEN_TTL_def)
  with r show ?thesis by blast
qed

end
