(* ===== verification/Spec2Isabelle.thy ===== *)
theory Spec2Isabelle
  imports Agent_Lockout Agent_Run Agent_Work App_Access App_Admins App_Enroll App_Facts
    App_Tasks Audit_Chain Audit_Evidence Audit_Log Bearer Cmd_Automation Cmd_Backup
    Cmd_Boot Cmd_Certs Cmd_Common Cmd_Containers Cmd_Directory Cmd_Filesystem Cmd_Host
    Cmd_Mount Cmd_Process Cmd_Repo Cmd_Software Cmd_Subscriptions Cmd_Timesync Cmd_Users
    Console_Dispatch Console_Login Console_Site Console_Stores Db_Admins Db_Agents
    Db_Audit Db_Config Db_Enroll Db_Portal Db_State Db_Tasks Enroll_Safety Fleet_Hosts
    Id_Store Integrity Integrity_Watch Passwords Path_Guards Pools Prelude Py_Crypt
    Py_Hash Py_IpAddress Py_Json Py_Str Rolling Rolling_Safety Schedules Sessions Shell
    Shell_Uniform Sudo_Store Suppressions Task_Control Task_Lifecycle Vault Web_Access
    Web_Guard Web_Session
begin

text \<open>
  The Sysible controller: what is modelled and what is proved.

  The program.  Sysible-Controller manages a fleet of hosts.  The controller (src/backend) keeps
  its state in an SQLite database and offers an HTTP API: agents on the hosts enrol, send
  heartbeats, poll for tasks and post results; the console (src/webgui) logs administrators in,
  forwards their actions and runs schedules, pools, rolling maintenance and alerts; the command
  builders (src/client) turn what an operator filled in into the shell command that a host runs.

  Conventions.
  - A text is the list of its UTF-8 bytes; str methods are those of ASCII texts.  Python truth
    values of nullable texts are truthy and or_else (Prelude).
  - A table is a list of records, an SQL statement a function on lists (Prelude); a handler takes
    the clock reading as an argument, and every random value (token, secret, salt) too.  Handlers
    return Inl (Http n) for an HTTPException of status n, and the state they leave behind in every
    case.  The texts of errors, labels and log lines are not modelled.  Errors of the database
    engine are not modelled.  Decoded JSON is the datatype json; request bodies that pydantic has
    checked are records or arguments.
  - Tunables read from the environment are constants with the source's default, or fields of a
    settings record.  Code that is not in the repository (the cipher of the vault, the health
    probes and the balancer of a rolling run) is a parameter.
  - A command builder is a function to a text or an error (Cmd_Common).  What a shell does with
    the text is Shell.shell_read, a reader of POSIX quoting that splits a command into literal
    characters and active ones; it is the reference the builders are measured against.

  Theories and code.
  - Prelude, Py_Json, Py_Str, Py_Hash, Py_IpAddress: what the source uses of Python's library:
    tables, truth values, text methods, decimal parsing, SHA-256, HMAC and PBKDF2 written out,
    the parser of addresses and networks.
  - Db_State, Db_Agents, Db_Enroll, Db_Tasks, Db_Admins, Db_Audit, Db_Config, Db_Portal,
    Audit_Chain (src/backend/db.py): the database, one theory per group of tables; schema_ok says
    that keys are unique and ids below the next free one, and every operation preserves it.
  - Passwords (src/backend/portal_auth.py, policy.py), Integrity (agent_integrity.py), Vault
    (secret_vault.py).
  - App_Access, App_Enroll, App_Tasks, App_Admins (src/backend/app.py): the gates and handlers;
    App_Facts holds what handlers leave alone.
  - Rolling, Pools, Schedules, Suppressions, Id_Store (src/webgui): rolling maintenance as phases
    over a log of events, and the stores of the console.
  - Web_Guard, Web_Session, Sudo_Store (src/webgui/server.py, sudo_store.py): the guards in front of
    every request, sessions with their gates and logins, the kept sudo passwords.  A call to the
    controller is the controller's own handler, whose request or answer may be lost.
  - Agent_Run (src/host_agent/agent.py): how the agent runs a task as its user, walks over the
    controller's addresses and does a cycle of its task loop.
  - Shell, Shell_Uniform, Cmd_Common (src/client/_validators.py, _pkgmgr.py, system_paths.py): the
    reader, how it reads a text put together from parts, and the shared validators.
  - Cmd_Filesystem, Cmd_Mount, Cmd_Users, Cmd_Process, Cmd_Containers, Cmd_Backup,
    Cmd_Subscriptions, Cmd_Boot, Cmd_Certs, Cmd_Timesync, Cmd_Directory, Cmd_Automation, Cmd_Repo
    (the module of src/client of the same name, Cmd_Process being _api_process_service.py) and
    Cmd_Host (the builders of _api_dispatch.py): one function per command builder.  Py_Crypt is the
    password hash of _api_users.py with SHA-512 written out; Cmd_Software joins what the software
    pages promise.
  - Fleet_Hosts, Console_Dispatch, Console_Site (src/backend/app.py get_agents, src/client,
    src/webgui/server.py): the hosts page with its merging of rows, how an action of the console
    reaches a host and waits for its answer, and console, controller and agent put together.
  - Task_Lifecycle, Task_Control, Enroll_Safety, Agent_Lockout, Sessions, Console_Login,
    Audit_Log, Audit_Evidence, Integrity_Watch, Rolling_Safety, Console_Stores, Bearer,
    Path_Guards, Web_Access, Agent_Work: the properties, built on the lemmas of the components.

  What is shown.
  - Tasks: the queue refines a small machine of task stages; over any sequence of requests a task
    is handed out at most once and answered at most once, by the host it was meant for.
  - Hosts: an enrolment never takes an existing host over, a token enrols one host, a revoked
    host is locked out, a quarantined host gets no task.
  - Administrators: who passes a gate, what ends sessions, that a superuser stays, what a login
    checks and how failures lock it.
  - Evidence: both audit chains verify whatever is recorded, and cuts and edits are exposed, up to
    a collision of the digest.
  - Maintenance: a rolling run keeps its minimum serving, accounts for every member, and
    completes when the providers cooperate; schedules fire at the first time of their cadence.
  - Console: only same-host pages change anything, a revoked login dies at the next re-check, the
    gateway is the only door under single sign-on, with the gaps of both stated as theorems;
    stored secrets are read back and fail closed.
  - From console to host: a dispatch always returns, within a bound on its calls and its timeout,
    and shows the report of the agent when the console's calls get through at once and the agent's
    cycle in the first nap reaches the controller; the fleet page shows each host once.
  - The agent: a task runs as the user who asked for it, and one cycle of the loop runs every
    waiting task and delivers each result once although messages are lost.
  - Commands: whatever an operator enters on the pages of files, mounts, accounts and software,
    the shell reads the built command as a fixed text around literal operands; lemmas show the
    same of the other builder modules, timers and services only for names without line breaks
    (service_name_runs_commands shows what happens with them).  The guards of critical locations
    are exact for normal paths, with their gaps stated as theorems.

  Bounds and termination.  The loop that waits for a result is a partial function, shown to return;
  how long a call to the controller takes is a parameter of the world it runs in.  Loops over data are structural recursion.  The rolling controller's
  waits are bounded by the counts in the code; the password generator's draws are positions in a
  stream, and its shuffle is a recursion on the length.

  Not modelled: file, process, socket and TLS I/O; the SSH dispatch beside the agent path; the
  remaining API routes that only forward; the front end; the agent's metrics, backup,
  restore and terminal; the builders of storage, network, firewall and security.
\<close>

end
